(* ===== verification/Mangoh_Prelude.thy ===== *)
theory Mangoh_Prelude
  imports "HOL-Library.Word"
begin

text \<open>
  What every component of the development shares: the integer widths of the C code, the outcomes a
  C function can have, the state-passing programs the functions are translated to, their sequencing
  operators, and two predicate transformers with the rewrite rules that carry the component proofs.

  A program takes the state and gives \<^theory_text>\<open>None\<close> when the C code never returns (a polling loop whose
  condition never becomes false, a mutex taken twice), and otherwise an outcome with the state the
  code leaves: \<^theory_text>\<open>Ok\<close> with the value, \<^theory_text>\<open>Err\<close> with the negative error code, or \<^theory_text>\<open>Halt\<close> when
  the process or the kernel stops there (exit, a failed assertion or BUG, undefined behaviour).
\<close>

section \<open>Widths, outcomes and programs\<close>

type_synonym u8 = "8 word"
type_synonym u16 = "16 word"
type_synonym u32 = "32 word"

datatype halt = Exit int | Bug string | Undefined string

datatype 'a outcome = Ok 'a | Err int | Halt halt

type_synonym ('s, 'a) prog = "'s \<Rightarrow> ('a outcome \<times> 's) option"

text \<open>The error numbers of the kernel headers that the modelled code returns, negated, on failure.\<close>

abbreviation (input) EIO :: int where "EIO \<equiv> 5"
abbreviation (input) EAGAIN :: int where "EAGAIN \<equiv> 11"
abbreviation (input) ENOMEM :: int where "ENOMEM \<equiv> 12"
abbreviation (input) EACCES :: int where "EACCES \<equiv> 13"
abbreviation (input) EBUSY :: int where "EBUSY \<equiv> 16"
abbreviation (input) ENODEV :: int where "ENODEV \<equiv> 19"
abbreviation (input) EINVAL :: int where "EINVAL \<equiv> 22"
abbreviation (input) ERANGE :: int where "ERANGE \<equiv> 34"

definition returnP :: "'a \<Rightarrow> ('s, 'a) prog" where
  "returnP a s = Some (Ok a, s)"

definition throwP :: "int \<Rightarrow> ('s, 'a) prog" where
  "throwP e s = Some (Err e, s)"

definition haltP :: "halt \<Rightarrow> ('s, 'a) prog" where
  "haltP h s = Some (Halt h, s)"

definition divergeP :: "('s, 'a) prog" where
  "divergeP s = None"

definition getP :: "('s \<Rightarrow> 'a) \<Rightarrow> ('s, 'a) prog" where
  "getP f s = Some (Ok (f s), s)"

definition modifyP :: "('s \<Rightarrow> 's) \<Rightarrow> ('s, unit) prog" where
  "modifyP f s = Some (Ok (), f s)"

definition bindP :: "('s, 'a) prog \<Rightarrow> ('a \<Rightarrow> ('s, 'b) prog) \<Rightarrow> ('s, 'b) prog" where
  "bindP m k s = (case m s of
       None \<Rightarrow> None
     | Some (r, s') \<Rightarrow> (case r of Ok a \<Rightarrow> k a s' | Err e \<Rightarrow> Some (Err e, s') | Halt h \<Rightarrow> Some (Halt h, s')))"

definition seqP :: "('s, 'a) prog \<Rightarrow> ('s, 'b) prog \<Rightarrow> ('s, 'b) prog" where
  "seqP m n = bindP m (\<lambda>_. n)"

definition whenP :: "bool \<Rightarrow> ('s, unit) prog \<Rightarrow> ('s, unit) prog" where
  "whenP b m = (if b then m else returnP ())"

text \<open>\<^theory_text>\<open>tryP\<close> is a call whose error code the caller looks at instead of returning it.\<close>

definition tryP :: "('s, 'a) prog \<Rightarrow> (int \<Rightarrow> ('s, 'b) prog) \<Rightarrow> ('a \<Rightarrow> ('s, 'b) prog) \<Rightarrow> ('s, 'b) prog" where
  "tryP m h k s = (case m s of
       None \<Rightarrow> None
     | Some (r, s') \<Rightarrow> (case r of Ok a \<Rightarrow> k a s' | Err e \<Rightarrow> h e s' | Halt x \<Rightarrow> Some (Halt x, s')))"

text \<open>
  \<^theory_text>\<open>finallyP\<close> is the C idiom of a cleanup label that both the normal path and every error path
  reach: the update is made whether the body succeeds or fails.
\<close>

definition finallyP :: "('s, 'a) prog \<Rightarrow> ('s \<Rightarrow> 's) \<Rightarrow> ('s, 'a) prog" where
  "finallyP m f s = (case m s of
       None \<Rightarrow> None
     | Some (r, s') \<Rightarrow> (case r of Halt h \<Rightarrow> Some (Halt h, s') | _ \<Rightarrow> Some (r, f s')))"

fun foreachP :: "('a \<Rightarrow> ('s, unit) prog) \<Rightarrow> 'a list \<Rightarrow> ('s, unit) prog" where
  "foreachP f [] = returnP ()"
| "foreachP f (x # xs) = seqP (f x) (foreachP f xs)"

section \<open>Rules for the operators\<close>

named_theorems prog_defs "definitions of the program operators"
named_theorems keeps_intros "preservation rules of the program operators and of the components"

lemmas prog_op_defs = returnP_def throwP_def haltP_def divergeP_def getP_def modifyP_def bindP_def
  seqP_def whenP_def tryP_def finallyP_def

declare prog_op_defs [prog_defs]

lemma bindP_Ok [simp]: "m s = Some (Ok a, s') \<Longrightarrow> bindP m k s = k a s'"
  by (simp add: bindP_def)

lemma bindP_Err [simp]: "m s = Some (Err e, s') \<Longrightarrow> bindP m k s = Some (Err e, s')"
  by (simp add: bindP_def)

lemma bindP_Halt [simp]: "m s = Some (Halt h, s') \<Longrightarrow> bindP m k s = Some (Halt h, s')"
  by (simp add: bindP_def)

lemma seqP_Ok [simp]: "m s = Some (Ok a, s') \<Longrightarrow> seqP m n s = n s'"
  by (simp add: seqP_def)

lemma seqP_Err [simp]: "m s = Some (Err e, s') \<Longrightarrow> seqP m n s = Some (Err e, s')"
  by (simp add: seqP_def)

text \<open>Evaluation of the operators on a given state, for straight-line runs.\<close>

lemma prog_step [simp]:
  "bindP (getP g) k s = k (g s) s" "seqP (modifyP f) n s = n (f s)" "bindP (returnP a) k s = k a s"
  "seqP (returnP a) n s = n s" "seqP (whenP False m) n s = n s" "seqP (whenP True m) n s = seqP m n s"
  "seqP (throwP e) n s = Some (Err e, s)" "bindP (throwP e) k' s = Some (Err e, s)"
  by (simp_all add: seqP_def whenP_def returnP_def getP_def modifyP_def throwP_def bindP_def)

lemma finallyP_Ok [simp]: "m s = Some (Ok a, s') \<Longrightarrow> finallyP m f s = Some (Ok a, f s')"
  by (simp add: finallyP_def)

lemma finallyP_Err [simp]: "m s = Some (Err e, s') \<Longrightarrow> finallyP m f s = Some (Err e, f s')"
  by (simp add: finallyP_def)

lemma bindP_assoc: "bindP (bindP m k) l = bindP m (\<lambda>a. bindP (k a) l)"
  by (rule ext) (simp add: bindP_def split: option.split prod.split outcome.split)

lemma bindP_returnP: "bindP (returnP a) k = k a" "bindP m returnP = m"
  by (rule ext, simp add: bindP_def returnP_def split: option.split prod.split outcome.split)+

lemma bindP_mono [partial_function_mono]:
  assumes "\<And>a s. monotone (fun_ord option_ord) option_ord (\<lambda>f. B f a s)"
  shows "monotone (fun_ord option_ord) option_ord (\<lambda>f. bindP m (B f) s)"
proof (cases "m s")
  case None
  then show ?thesis by (simp add: bindP_def option.const_mono)
next
  case (Some rs)
  obtain r s' where rs: "rs = (r, s')" by (cases rs)
  then show ?thesis
    using assms Some by (cases r) (simp_all add: bindP_def option.const_mono)
qed

subsection \<open>Total and partial predicate transformers\<close>

text \<open>
  \<^theory_text>\<open>wp m Q s\<close> says that the program returns from \<open>s\<close> and that its outcome and final state satisfy
  \<open>Q\<close>; \<^theory_text>\<open>wlp\<close> asks for \<open>Q\<close> only if it returns. Both are rewritten through a program's operators.
\<close>

definition wp :: "('s, 'a) prog \<Rightarrow> ('a outcome \<Rightarrow> 's \<Rightarrow> bool) \<Rightarrow> 's \<Rightarrow> bool" where
  "wp m Q s = (case m s of None \<Rightarrow> False | Some (r, s') \<Rightarrow> Q r s')"

definition wlp :: "('s, 'a) prog \<Rightarrow> ('a outcome \<Rightarrow> 's \<Rightarrow> bool) \<Rightarrow> 's \<Rightarrow> bool" where
  "wlp m Q s = (case m s of None \<Rightarrow> True | Some (r, s') \<Rightarrow> Q r s')"

lemma wp_iff: "wp m Q s \<longleftrightarrow> (\<exists>r s'. m s = Some (r, s') \<and> Q r s')"
  by (auto simp: wp_def split: option.split)

lemma wlp_iff: "wlp m Q s \<longleftrightarrow> (\<forall>r s'. m s = Some (r, s') \<longrightarrow> Q r s')"
  by (auto simp: wlp_def split: option.split)

lemma wp_mono: "wp m Q s \<Longrightarrow> (\<And>r s'. Q r s' \<Longrightarrow> R r s') \<Longrightarrow> wp m R s"
  by (auto simp: wp_iff)

lemma wlp_mono: "wlp m Q s \<Longrightarrow> (\<And>r s'. Q r s' \<Longrightarrow> R r s') \<Longrightarrow> wlp m R s"
  by (auto simp: wlp_iff)

lemma wlp_conj: "wlp m Q s \<Longrightarrow> wlp m R s \<Longrightarrow> wlp m (\<lambda>r s'. Q r s' \<and> R r s') s"
  by (auto simp: wlp_iff)

lemma wp_wlp_conj: "wp m Q s \<Longrightarrow> wlp m R s \<Longrightarrow> wp m (\<lambda>r s'. Q r s' \<and> R r s') s"
  by (auto simp: wp_iff wlp_iff)

named_theorems wp_rules "rewrite rules of the predicate transformers"

lemma wp_returnP [wp_rules]: "wp (returnP a) Q s = Q (Ok a) s"
  and wp_throwP [wp_rules]: "wp (throwP e) Q s = Q (Err e) s"
  and wp_haltP [wp_rules]: "wp (haltP h) Q s = Q (Halt h) s"
  and wp_getP [wp_rules]: "wp (getP f) Q s = Q (Ok (f s)) s"
  and wp_modifyP [wp_rules]: "wp (modifyP g) Q' s = Q' (Ok ()) (g s)"
  by (simp_all add: wp_def prog_defs)

lemma wlp_returnP [wp_rules]: "wlp (returnP a) Q s = Q (Ok a) s"
  and wlp_throwP [wp_rules]: "wlp (throwP e) Q s = Q (Err e) s"
  and wlp_haltP [wp_rules]: "wlp (haltP h) Q s = Q (Halt h) s"
  and wlp_getP [wp_rules]: "wlp (getP f) Q s = Q (Ok (f s)) s"
  and wlp_modifyP [wp_rules]: "wlp (modifyP g) Q' s = Q' (Ok ()) (g s)"
  by (simp_all add: wlp_def prog_defs)

lemma wp_bindP [wp_rules]: "wp (bindP m k) Q s = wp m (\<lambda>r s'. case r of
     Ok a \<Rightarrow> wp (k a) Q s' | Err e \<Rightarrow> Q (Err e) s' | Halt h \<Rightarrow> Q (Halt h) s') s"
  by (simp add: wp_def bindP_def split: option.split prod.split outcome.split)

lemma wlp_bindP [wp_rules]: "wlp (bindP m k) Q s = wlp m (\<lambda>r s'. case r of
     Ok a \<Rightarrow> wlp (k a) Q s' | Err e \<Rightarrow> Q (Err e) s' | Halt h \<Rightarrow> Q (Halt h) s') s"
  by (simp add: wlp_def bindP_def split: option.split prod.split outcome.split)

lemma wp_seqP [wp_rules]: "wp (seqP m n) Q s = wp m (\<lambda>r s'. case r of
     Ok a \<Rightarrow> wp n Q s' | Err e \<Rightarrow> Q (Err e) s' | Halt h \<Rightarrow> Q (Halt h) s') s"
  by (simp add: seqP_def wp_bindP)

lemma wlp_seqP [wp_rules]: "wlp (seqP m n) Q s = wlp m (\<lambda>r s'. case r of
     Ok a \<Rightarrow> wlp n Q s' | Err e \<Rightarrow> Q (Err e) s' | Halt h \<Rightarrow> Q (Halt h) s') s"
  by (simp add: seqP_def wlp_bindP)

lemma wp_tryP [wp_rules]: "wp (tryP m h k) Q s = wp m (\<lambda>r s'. case r of
     Ok a \<Rightarrow> wp (k a) Q s' | Err e \<Rightarrow> wp (h e) Q s' | Halt x \<Rightarrow> Q (Halt x) s') s"
  by (simp add: wp_def tryP_def split: option.split prod.split outcome.split)

lemma wlp_tryP [wp_rules]: "wlp (tryP m h k) Q s = wlp m (\<lambda>r s'. case r of
     Ok a \<Rightarrow> wlp (k a) Q s' | Err e \<Rightarrow> wlp (h e) Q s' | Halt x \<Rightarrow> Q (Halt x) s') s"
  by (simp add: wlp_def tryP_def split: option.split prod.split outcome.split)

lemma wp_finallyP [wp_rules]: "wp (finallyP m f) Q s = wp m (\<lambda>r s'. case r of
     Halt h \<Rightarrow> Q (Halt h) s' | _ \<Rightarrow> Q r (f s')) s"
  by (simp add: wp_def finallyP_def split: option.split prod.split outcome.split)

lemma wlp_finallyP [wp_rules]: "wlp (finallyP m f) Q s = wlp m (\<lambda>r s'. case r of
     Halt h \<Rightarrow> Q (Halt h) s' | _ \<Rightarrow> Q r (f s')) s"
  by (simp add: wlp_def finallyP_def split: option.split prod.split outcome.split)

lemma wp_whenP [wp_rules]: "wp (whenP b m) Q s = (if b then wp m Q s else Q (Ok ()) s)"
  by (simp add: whenP_def wp_returnP)

lemma wlp_whenP [wp_rules]: "wlp (whenP b m) Q s = (if b then wlp m Q s else Q (Ok ()) s)"
  by (simp add: whenP_def wlp_returnP)

lemma wp_if: "wp (if b then m else n) Q s = (if b then wp m Q s else wp n Q s)"
  and wlp_if: "wlp (if b then m else n) Q s = (if b then wlp m Q s else wlp n Q s)"
  by simp_all

subsection \<open>Preservation of a relation to the first state\<close>

text \<open>
  \<^theory_text>\<open>keeps I m\<close>: whenever \<open>m\<close> starts in a state that satisfies \<open>I\<close> and returns, with whatever outcome,
  the state it leaves satisfies \<open>I\<close> as well. With \<open>I = (\<lambda>s. f s = c)\<close> it is a frame property.
\<close>

definition keeps :: "('s \<Rightarrow> bool) \<Rightarrow> ('s, 'a) prog \<Rightarrow> bool" where
  "keeps I m \<longleftrightarrow> (\<forall>s r s'. I s \<longrightarrow> m s = Some (r, s') \<longrightarrow> I s')"

lemma keepsI: "(\<And>s r s'. I s \<Longrightarrow> m s = Some (r, s') \<Longrightarrow> I s') \<Longrightarrow> keeps I m"
  by (auto simp: keeps_def)

lemma keepsD: "keeps I m \<Longrightarrow> I s \<Longrightarrow> m s = Some (r, s') \<Longrightarrow> I s'"
  by (auto simp: keeps_def)

lemma keeps_wlp: "keeps I m \<Longrightarrow> I s \<Longrightarrow> wlp m (\<lambda>r s'. I s') s"
  by (auto simp: keeps_def wlp_iff)

lemma wlp_keeps: "(\<And>s. I s \<Longrightarrow> wlp m (\<lambda>r s'. I s') s) \<Longrightarrow> keeps I m"
  by (auto simp: keeps_def wlp_iff)

lemma keeps_basic [keeps_intros]:
  "keeps I (returnP a)" "keeps I (throwP e)" "keeps I (haltP h)" "keeps I divergeP" "keeps I (getP f)"
  by (auto simp: keeps_def prog_defs)

lemma keeps_modifyP [keeps_intros]: "(\<And>s. I s \<Longrightarrow> I (f s)) \<Longrightarrow> keeps I (modifyP f)"
  by (auto simp: keeps_def prog_defs)

lemma keeps_bindP [keeps_intros]:
  assumes m: "keeps I m" and k: "\<And>a. keeps I (k a)"
  shows "keeps I (bindP m k)"
proof (rule keepsI)
  fix s r s' assume I: "I s" and run: "bindP m k s = Some (r, s')"
  then obtain r1 s1 where m1: "m s = Some (r1, s1)" by (cases "m s") (auto simp: bindP_def)
  with m I have "I s1" by (rule keepsD)
  with run m1 k show "I s'" by (cases r1) (auto dest: keepsD)
qed

lemma keeps_seqP [keeps_intros]: "keeps I m \<Longrightarrow> keeps I n \<Longrightarrow> keeps I (seqP m n)"
  unfolding seqP_def by (rule keeps_bindP)

lemma keeps_whenP [keeps_intros]: "(b \<Longrightarrow> keeps I m) \<Longrightarrow> keeps I (whenP b m)"
  by (simp add: whenP_def keeps_basic)

lemma keeps_if [keeps_intros]: "(b \<Longrightarrow> keeps I m) \<Longrightarrow> (\<not> b \<Longrightarrow> keeps I n) \<Longrightarrow> keeps I (if b then m else n)"
  by simp

lemma keeps_tryP [keeps_intros]:
  assumes m: "keeps I m" and h: "\<And>e. keeps I (h e)" and k: "\<And>a. keeps I (k a)"
  shows "keeps I (tryP m h k)"
proof (rule keepsI)
  fix s r s' assume I: "I s" and run: "tryP m h k s = Some (r, s')"
  then obtain r1 s1 where m1: "m s = Some (r1, s1)" by (cases "m s") (auto simp: tryP_def)
  with m I have "I s1" by (rule keepsD)
  with run m1 h k show "I s'" by (cases r1) (auto simp: tryP_def dest: keepsD)
qed

lemma keeps_finallyP [keeps_intros]:
  assumes m: "keeps I m" and f: "\<And>s. I s \<Longrightarrow> I (f s)"
  shows "keeps I (finallyP m f)"
proof (rule keepsI)
  fix s r s' assume I: "I s" and run: "finallyP m f s = Some (r, s')"
  then obtain r1 s1 where m1: "m s = Some (r1, s1)" by (cases "m s") (auto simp: finallyP_def)
  with m I have "I s1" by (rule keepsD)
  with run m1 f show "I s'" by (cases r1) (auto simp: finallyP_def)
qed

lemma keeps_foreachP [keeps_intros]:
  "(\<And>x. x \<in> set xs \<Longrightarrow> keeps I (f x)) \<Longrightarrow> keeps I (foreachP f xs)"
  by (induction xs) (auto intro: keeps_basic keeps_seqP)

section \<open>Words and lists\<close>

lemma unat_lt_u16: "unat (x :: u16) < 65536"
  using unsigned_less [of x, where 'a = nat] by simp

lemma unat_lt_u32: "unat (x :: u32) < 4294967296"
  using unsigned_less [of x, where 'a = nat] by simp

lemma unat_ucast_u16_u32 [simp]: "unat (ucast (x :: u16) :: u32) = unat x"
  using unat_lt_u16 [of x] by (simp add: unsigned_ucast_eq take_bit_nat_eq_self_iff)

lemma unat_word_of_nat_u32: "n < 4294967296 \<Longrightarrow> unat (word_of_nat n :: u32) = n"
  by (simp add: unat_of_nat)

lemma word_of_nat_eqI: "unat w = k \<Longrightarrow> w = word_of_nat k"
  by (auto simp: ucast_id)

lemma nth_list_update_if: "xs[i := v] ! j = (if i = j \<and> i < length xs then v else xs ! j)"
  by (cases "i = j") (auto simp: list_update_beyond)

end
