(* ===== verification/Mt7697_Types.thy ===== *)
theory Mt7697_Types
  imports Mangoh_Prelude
begin

text \<open>
  The data of the MT7697 queue driver (\<^verbatim>\<open>linux_kernel_modules/mt7697q\<close>): the bit field macros of
  \<^verbatim>\<open>bits.h\<close>, the message headers of \<^verbatim>\<open>mt7697_i.h\<close>, the queue descriptors of \<^verbatim>\<open>queue.h\<close> and
  \<^verbatim>\<open>queue_i.h\<close> and the operations table of \<^verbatim>\<open>spi.h\<close>.  The state behind \<^verbatim>\<open>hw_priv\<close> (the SPI
  controller and the MT7697 firmware, which are not in the repository) is the type parameter
  \<^theory_text>\<open>'h\<close>, reached only through the operations table.
\<close>

unbundle bit_operations_syntax

section \<open>Bit fields (bits.h)\<close>

text \<open>
  \<^verbatim>\<open>GENMASK(h, l)\<close> is the kernel's macro: bits \<open>l\<close> to \<open>h\<close> set, both included, in an unsigned long,
  which has 32 bits on the modules this driver is built for.
\<close>

definition GENMASK :: "nat \<Rightarrow> nat \<Rightarrow> u32" where
  "GENMASK h l = push_bit l (mask (h + 1 - l))"

definition BF_CLEAR :: "u32 \<Rightarrow> nat \<Rightarrow> nat \<Rightarrow> u32" where
  "BF_CLEAR v off w = v AND NOT (GENMASK (off + w) off)"

definition BF_GET :: "u32 \<Rightarrow> nat \<Rightarrow> nat \<Rightarrow> u32" where
  "BF_GET v off w = drop_bit off v AND GENMASK w 0"

definition BF_DEFINE :: "u32 \<Rightarrow> nat \<Rightarrow> nat \<Rightarrow> u32" where
  "BF_DEFINE v off w = push_bit off (v AND GENMASK w 0)"

definition BF_SET :: "u32 \<Rightarrow> u32 \<Rightarrow> nat \<Rightarrow> nat \<Rightarrow> u32" where
  "BF_SET v b off w = BF_CLEAR v off w OR BF_DEFINE b off w"

section \<open>Messages (mt7697_i.h, queue_i.h)\<close>

definition LEN_TO_WORD :: "u32 \<Rightarrow> u32" where
  "LEN_TO_WORD x = x div 4 + (if x mod 4 \<noteq> 0 then 1 else 0)"

definition LEN32_ALIGNED :: "u32 \<Rightarrow> u32" where
  "LEN32_ALIGNED x = LEN_TO_WORD x * 4"

datatype mt7697_cmd_grp = MT7697_CMD_GRP_QUEUE | MT7697_CMD_GRP_UART | MT7697_CMD_GRP_80211
  | MT7697_CMD_GRP_BT

fun grp_code :: "mt7697_cmd_grp \<Rightarrow> u8" where
  "grp_code MT7697_CMD_GRP_QUEUE = 0"
| "grp_code MT7697_CMD_GRP_UART = 1"
| "grp_code MT7697_CMD_GRP_80211 = 2"
| "grp_code MT7697_CMD_GRP_BT = 3"

record mt7697_cmd_hdr =
  cmd_len :: u16
  cmd_grp :: u8
  cmd_type :: u8

record mt7697_rsp_hdr = mt7697_cmd_hdr +
  rsp_result :: u32

text \<open>
  A header is moved as 32-bit words of the little-endian host; the driver does not swap the bytes of
  the fields it declares big-endian.
\<close>

definition cmd_word :: "mt7697_cmd_hdr \<Rightarrow> u32" where
  "cmd_word h = ucast (cmd_len h) OR push_bit 16 (ucast (cmd_grp h)) OR push_bit 24 (ucast (cmd_type h))"

definition rsp_of_words :: "u32 \<Rightarrow> u32 \<Rightarrow> mt7697_rsp_hdr" where
  "rsp_of_words w0 w1 = \<lparr>cmd_len = ucast w0, cmd_grp = ucast (drop_bit 16 w0),
     cmd_type = ucast (drop_bit 24 w0), rsp_result = w1\<rparr>"

abbreviation (input) sizeof_rsp_hdr :: u32 where "sizeof_rsp_hdr \<equiv> 8"

datatype mt7697q_dir = MT7697_QUEUE_DIR_M2S | MT7697_QUEUE_DIR_S2M

fun dir_code :: "mt7697q_dir \<Rightarrow> u32" where
  "dir_code MT7697_QUEUE_DIR_M2S = 0"
| "dir_code MT7697_QUEUE_DIR_S2M = 1"

datatype mt7697q_cmd_types = MT7697_CMD_QUEUE_INIT | MT7697_CMD_QUEUE_INIT_RSP
  | MT7697_CMD_QUEUE_UNUSED | MT7697_CMD_QUEUE_RESET | MT7697_CMD_QUEUE_RESET_RSP

fun qcmd_code :: "mt7697q_cmd_types \<Rightarrow> u8" where
  "qcmd_code MT7697_CMD_QUEUE_INIT = 0"
| "qcmd_code MT7697_CMD_QUEUE_INIT_RSP = 1"
| "qcmd_code MT7697_CMD_QUEUE_UNUSED = 2"
| "qcmd_code MT7697_CMD_QUEUE_RESET = 3"
| "qcmd_code MT7697_CMD_QUEUE_RESET_RSP = 4"

text \<open>
  The three queue requests have one layout: the command header and the two channel numbers.
\<close>

record mt7697_queue_req = mt7697_cmd_hdr +
  m2s_ch :: u32
  s2m_ch :: u32

abbreviation (input) sizeof_queue_req :: u32 where "sizeof_queue_req \<equiv> 12"

definition queue_req_words :: "mt7697_queue_req \<Rightarrow> u32 list" where
  "queue_req_words r = [cmd_word (mt7697_cmd_hdr.truncate r), m2s_ch r, s2m_ch r]"

section \<open>Queues (queue.h)\<close>

abbreviation (input) MT7697_NUM_QUEUES :: nat where "MT7697_NUM_QUEUES \<equiv> 6"
abbreviation (input) MT7697_QUEUE_FLAGS_IN_USE_OFFSET :: nat where "MT7697_QUEUE_FLAGS_IN_USE_OFFSET \<equiv> 0"
abbreviation (input) MT7697_QUEUE_FLAGS_IN_USE_WIDTH :: nat where "MT7697_QUEUE_FLAGS_IN_USE_WIDTH \<equiv> 1"
abbreviation (input) MT7697_QUEUE_FLAGS_DIR_OFFSET :: nat where "MT7697_QUEUE_FLAGS_DIR_OFFSET \<equiv> 1"
abbreviation (input) MT7697_QUEUE_FLAGS_DIR_WIDTH :: nat where "MT7697_QUEUE_FLAGS_DIR_WIDTH \<equiv> 1"
abbreviation (input) MT7697_QUEUE_FLAGS_NUM_WORDS_OFFSET :: nat where "MT7697_QUEUE_FLAGS_NUM_WORDS_OFFSET \<equiv> 16"
abbreviation (input) MT7697_QUEUE_FLAGS_NUM_WORDS_WIDTH :: nat where "MT7697_QUEUE_FLAGS_NUM_WORDS_WIDTH \<equiv> 16"

record mt7697q_data =
  qd_flags :: u32
  base_addr :: u32
  rd_offset :: u16
  reserved1 :: u16
  wr_offset :: u16
  reserved2 :: u16

abbreviation (input) sizeof_mt7697q_data :: u32 where "sizeof_mt7697q_data \<equiv> 16"
abbreviation (input) offsetof_rd_offset :: u32 where "offsetof_rd_offset \<equiv> 8"
abbreviation (input) offsetof_wr_offset :: u32 where "offsetof_wr_offset \<equiv> 12"

definition qdata_of_words :: "u32 list \<Rightarrow> mt7697q_data" where
  "qdata_of_words ws = \<lparr>qd_flags = ws ! 0, base_addr = ws ! 1,
     rd_offset = ucast (ws ! 2), reserved1 = ucast (drop_bit 16 (ws ! 2)),
     wr_offset = ucast (ws ! 3), reserved2 = ucast (drop_bit 16 (ws ! 3))\<rparr>"

text \<open>
  The callbacks of a queue belong to its client: the queue holds an identifier of the function
  (\<^theory_text>\<open>None\<close> for a null pointer), which the operations that call it look up in the client table
  they are given.  The back pointer \<^verbatim>\<open>qinfo\<close> is the state itself.
\<close>

record mt7697q_spec =
  qdata :: mt7697q_data
  priv :: nat
  notify_tx_fcn :: "nat option"
  rx_fcn :: "nat option"
  q_ch :: u8

text \<open>
  \<^theory_text>\<open>irq_depth\<close> is the kernel's disable depth of the interrupt line, and the two work flags say
  whether the work item is pending on the workqueue.
\<close>

record 'h mt7697q_info =
  queues :: "mt7697q_spec list"
  rsp :: mt7697_rsp_hdr
  hw :: 'h
  mutex :: bool
  irq_work :: bool
  irq_delayed_work :: bool
  blocked_writer :: bool
  irq_depth :: nat
  gpio_pin :: int
  irq :: int

record 'h mt7697spi_hw_ops =
  hw_write :: "u8 list \<Rightarrow> 'h \<Rightarrow> int \<times> 'h"
  hw_write_then_read :: "u8 list \<Rightarrow> 'h \<Rightarrow> (int \<times> u8 list) \<times> 'h"

section \<open>Access to the state\<close>

definition spec_of :: "nat \<Rightarrow> 'h mt7697q_info \<Rightarrow> mt7697q_spec" where
  "spec_of c s = queues s ! c"

definition upd_spec :: "nat \<Rightarrow> (mt7697q_spec \<Rightarrow> mt7697q_spec) \<Rightarrow> 'h mt7697q_info \<Rightarrow> 'h mt7697q_info" where
  "upd_spec c f s = s\<lparr>queues := (queues s)[c := f (queues s ! c)]\<rparr>"

definition upd_data :: "nat \<Rightarrow> (mt7697q_data \<Rightarrow> mt7697q_data) \<Rightarrow> 'h mt7697q_info \<Rightarrow> 'h mt7697q_info" where
  "upd_data c f = upd_spec c (\<lambda>q. q\<lparr>qdata := f (qdata q)\<rparr>)"

lemma upd_spec_frame [simp]:
  "rsp (upd_spec c f s) = rsp s" "hw (upd_spec c f s) = hw s" "mutex (upd_spec c f s) = mutex s"
  "irq_work (upd_spec c f s) = irq_work s" "irq_delayed_work (upd_spec c f s) = irq_delayed_work s"
  "blocked_writer (upd_spec c f s) = blocked_writer s" "irq_depth (upd_spec c f s) = irq_depth s"
  "length (queues (upd_spec c f s)) = length (queues s)"
  by (simp_all add: upd_spec_def)

lemma spec_of_upd_spec [simp]:
  "c < length (queues s) \<Longrightarrow> spec_of c (upd_spec c f s) = f (spec_of c s)"
  "c \<noteq> d \<Longrightarrow> spec_of d (upd_spec c f s) = spec_of d s"
  by (simp_all add: upd_spec_def spec_of_def)

lemma upd_data_frame [simp]:
  "rsp (upd_data c f s) = rsp s" "hw (upd_data c f s) = hw s" "mutex (upd_data c f s) = mutex s"
  "irq_work (upd_data c f s) = irq_work s" "irq_delayed_work (upd_data c f s) = irq_delayed_work s"
  "blocked_writer (upd_data c f s) = blocked_writer s" "irq_depth (upd_data c f s) = irq_depth s"
  "length (queues (upd_data c f s)) = length (queues s)"
  by (simp_all add: upd_data_def)

lemma spec_of_upd_data [simp]:
  "c < length (queues s) \<Longrightarrow> spec_of c (upd_data c f s) = (spec_of c s)\<lparr>qdata := f (qdata (spec_of c s))\<rparr>"
  "c \<noteq> d \<Longrightarrow> spec_of d (upd_data c f s) = spec_of d s"
  by (simp_all add: upd_data_def)

lemma spec_of_update [simp]:
  "spec_of c (s\<lparr>rsp := v1\<rparr>) = spec_of c s" "spec_of c (s\<lparr>hw := v2\<rparr>) = spec_of c s"
  "spec_of c (s\<lparr>mutex := v3\<rparr>) = spec_of c s" "spec_of c (s\<lparr>irq_work := v4\<rparr>) = spec_of c s"
  "spec_of c (s\<lparr>irq_delayed_work := v5\<rparr>) = spec_of c s"
  "spec_of c (s\<lparr>blocked_writer := v6\<rparr>) = spec_of c s"
  "spec_of c (s\<lparr>irq_depth := v7\<rparr>) = spec_of c s"
  by (simp_all add: spec_of_def)

section \<open>Bit field lemmas\<close>

lemma GENMASK_0: "GENMASK w 0 = mask (w + 1)"
  by (simp add: GENMASK_def)

lemma BF_GET_take_bit: "BF_GET v off w = take_bit (w + 1) (drop_bit off v)"
  by (simp only: BF_GET_def GENMASK_0 take_bit_eq_mask)

lemma BF_DEFINE_take_bit: "BF_DEFINE v off w = push_bit off (take_bit (w + 1) v)"
  by (simp only: BF_DEFINE_def GENMASK_0 take_bit_eq_mask)

lemma bit_BF_GET: "bit (BF_GET v off w) i \<longleftrightarrow> i \<le> w \<and> bit v (off + i)"
  by (auto simp: BF_GET_take_bit bit_take_bit_iff bit_drop_bit_eq)

lemma bit_BF_CLEAR:
  "i < 32 \<Longrightarrow> bit (BF_CLEAR v off w) i \<longleftrightarrow> bit v i \<and> \<not> (off \<le> i \<and> i \<le> off + w)"
  by (auto simp: BF_CLEAR_def GENMASK_def bit_and_iff bit_not_iff bit_push_bit_iff bit_mask_iff)

lemma bit_BF_DEFINE:
  "i < 32 \<Longrightarrow> bit (BF_DEFINE b off w) i \<longleftrightarrow> off \<le> i \<and> i \<le> off + w \<and> bit b (i - off)"
  by (auto simp: BF_DEFINE_take_bit bit_push_bit_iff bit_take_bit_iff)

text \<open>What a field is set to is what it reads back as, on the \<open>w + 1\<close> bits the masks span.\<close>

lemma BF_GET_SET:
  assumes "off + w < 32"
  shows "BF_GET (BF_SET v b off w) off w = take_bit (w + 1) b"
proof (rule bit_word_eqI)
  fix i assume "i < LENGTH(32)"
  show "bit (BF_GET (BF_SET v b off w) off w) i = bit (take_bit (w + 1) b) i"
    using assms by (cases "i \<le> w")
      (auto simp: bit_BF_GET BF_SET_def bit_or_iff bit_BF_CLEAR bit_BF_DEFINE bit_take_bit_iff)
qed

lemma unat_LEN_TO_WORD: "unat (LEN_TO_WORD x) = (unat x + 3) div 4"
proof -
  have m: "(x mod 4 \<noteq> 0) = (unat x mod 4 \<noteq> 0)"
    by (simp add: word_unat_eq_iff unat_mod_distrib)
  have lt: "unat x div 4 + 1 < 4294967296"
    using unat_lt_u32 [of x] by linarith
  show ?thesis
  proof (cases "unat x mod 4 = 0")
    case True
    then have "(unat x + 3) div 4 = unat x div 4" by presburger
    with True m show ?thesis by (simp add: LEN_TO_WORD_def unat_div_distrib)
  next
    case False
    then have "(unat x + 3) div 4 = unat x div 4 + 1" by presburger
    with False m lt show ?thesis
      by (simp add: LEN_TO_WORD_def unat_word_ariths unat_div_distrib)
  qed
qed

end
