(* ===== verification/Serial_Uart.thy ===== *)
theory Serial_Uart
  imports Mt7697_Types
begin

text \<open>
  The serial driver for the MT7697 (\<^verbatim>\<open>mt7697serial/uart.c\<close>): words are written to and read from a serial
  line in pieces of any size, a work item reads the messages that arrive, and closing the driver asks the
  other side to shut down and waits for the work item to end.
\<close>

section \<open>The line and the driver's data\<close>

text \<open>
  What the kernel does for the driver: the serial device and the scheduler, with a state of their own.  A read
  gives its return value and the bytes it has placed in the buffer; an open gives an error or a file.
\<close>

record 'l tty_ops =
  filp_open :: "'l \<Rightarrow> (int + nat) \<times> 'l"
  filp_close :: "nat \<Rightarrow> 'l \<Rightarrow> int \<times> 'l"
  poll :: "nat \<Rightarrow> 'l \<Rightarrow> u32 \<times> 'l"
  kernel_read :: "nat \<Rightarrow> nat \<Rightarrow> 'l \<Rightarrow> (int \<times> u8 list) \<times> 'l"
  kernel_write :: "nat \<Rightarrow> u8 list \<Rightarrow> 'l \<Rightarrow> int \<times> 'l"
  signal_pending :: "'l \<Rightarrow> bool \<times> 'l"
  schedule_timeout :: "'l \<Rightarrow> bool \<times> 'l"

abbreviation (input) POLLIN :: u32 where "POLLIN \<equiv> 0x01"
abbreviation (input) POLLERR :: u32 where "POLLERR \<equiv> 0x08"
abbreviation (input) POLLHUP :: u32 where "POLLHUP \<equiv> 0x10"
abbreviation (input) POLLRDNORM :: u32 where "POLLRDNORM \<equiv> 0x40"
abbreviation (input) POLLRDBAND :: u32 where "POLLRDBAND \<equiv> 0x80"

abbreviation (input) EINTR :: int where "EINTR \<equiv> 4"
abbreviation (input) EPIPE :: int where "EPIPE \<equiv> 32"
abbreviation (input) ETIMEDOUT :: int where "ETIMEDOUT \<equiv> 110"

text \<open>
  \<open>uart_rsp\<close> is the memory of the response header, \<open>worker\<close> says whether the work item is queued or running
  and \<open>freed\<close> whether the structure has been given back.  A file pointer that is an error code is never
  stored, so that \<^theory_text>\<open>None\<close>, the null pointer, is the only invalid one.
\<close>

record 'l mt7697_uart_info =
  line :: 'l
  fd_hndl :: "nat option"
  uart_rsp :: "u8 list"
  uart_rx_fcn :: "nat option"
  close :: bool
  worker :: bool
  freed :: bool

type_synonym ('l, 'a) uart_prog = "('l mt7697_uart_info, 'a) prog"
type_synonym 'l rx_clients = "nat \<Rightarrow> mt7697_rsp_hdr \<Rightarrow> 'l \<Rightarrow> int \<times> 'l"

definition on_line :: "('l \<Rightarrow> 'a \<times> 'l) \<Rightarrow> ('l, 'a) uart_prog" where
  "on_line f = (\<lambda>s. case f (line s) of (a, l) \<Rightarrow> Some (Ok a, s\<lparr>line := l\<rparr>))"

text \<open>The words of a buffer as the bytes in the memory of the little-endian host, and back.\<close>

definition word_bytes :: "u32 \<Rightarrow> u8 list" where
  "word_bytes w = [ucast w, ucast (drop_bit 8 w), ucast (drop_bit 16 w), ucast (drop_bit 24 w)]"

fun bytes_words :: "u8 list \<Rightarrow> u32 list" where
  "bytes_words (a # b # c # d # bs) =
     (ucast a OR push_bit 8 (ucast b) OR push_bit 16 (ucast c) OR push_bit 24 (ucast d)) # bytes_words bs"
| "bytes_words _ = []"

section \<open>Reading and writing\<close>

partial_function (option) read_loop ::
    "'l tty_ops \<Rightarrow> nat \<Rightarrow> u32 \<Rightarrow> u8 list \<Rightarrow> 'l mt7697_uart_info \<Rightarrow> ((bool \<times> u8 list) outcome \<times> 'l mt7697_uart_info) option" where
  "read_loop ops fd count buf s =
     bindP (on_line (kernel_read ops fd (unat count))) (\<lambda>r s1.
       if fst r \<le> 0 then returnP (False, buf) s1
       else if count - word_of_int (fst r) = 0 then returnP (True, buf @ snd r) s1
       else read_loop ops fd (count - word_of_int (fst r)) (buf @ snd r) s1) s"

definition mt7697_uart_read :: "'l tty_ops \<Rightarrow> u32 \<Rightarrow> ('l, u32 \<times> u8 list) uart_prog" where
  "mt7697_uart_read ops len =
     bindP (getP fd_hndl) (\<lambda>fd. case fd of
       None \<Rightarrow> returnP (0, [])
     | Some f \<Rightarrow> bindP (read_loop ops f (len * 4) []) (\<lambda>(all, buf). returnP (if all then len else 0, buf)))"

partial_function (option) write_loop ::
    "'l tty_ops \<Rightarrow> nat \<Rightarrow> u32 \<Rightarrow> u8 list \<Rightarrow> 'l mt7697_uart_info \<Rightarrow> (bool outcome \<times> 'l mt7697_uart_info) option" where
  "write_loop ops fd left ptr s =
     bindP (on_line (kernel_write ops fd (take (unat left) ptr))) (\<lambda>num_write s1.
       if num_write \<le> 0 then returnP False s1
       else if left - word_of_int num_write = 0 then returnP True s1
       else write_loop ops fd (left - word_of_int num_write) (drop (nat num_write) ptr) s1) s"

text \<open>The mutex makes a write one step.\<close>

definition mt7697_uart_write :: "'l tty_ops \<Rightarrow> u32 list \<Rightarrow> u32 \<Rightarrow> ('l, u32) uart_prog" where
  "mt7697_uart_write ops buf len =
     bindP (getP fd_hndl) (\<lambda>fd. case fd of
       None \<Rightarrow> returnP 0
     | Some f \<Rightarrow> bindP (write_loop ops f (len * 4) (concat (map word_bytes buf))) (\<lambda>all. returnP (if all then len else 0)))"

definition shutdown_req :: mt7697_cmd_hdr where
  "shutdown_req = \<lparr>cmd_len = 4, cmd_grp = grp_code MT7697_CMD_GRP_UART, cmd_type = 0\<rparr>"

definition mt7697_uart_snd_shutdown_req :: "'l tty_ops \<Rightarrow> ('l, unit) uart_prog" where
  "mt7697_uart_snd_shutdown_req ops =
     bindP (mt7697_uart_write ops [cmd_word shutdown_req] (LEN_TO_WORD 4)) (\<lambda>ret.
     if ret \<noteq> LEN_TO_WORD 4 then throwP (if sint ret < 0 then sint ret else - EIO) else returnP ())"

section \<open>The work item\<close>

partial_function (option) rx_poll_loop ::
    "'l tty_ops \<Rightarrow> nat \<Rightarrow> 'l mt7697_uart_info \<Rightarrow> (unit outcome \<times> 'l mt7697_uart_info) option" where
  "rx_poll_loop ops fd s =
     bindP (on_line (poll ops fd)) (\<lambda>mask s1.
       if mask AND POLLERR \<noteq> 0 then throwP (- EIO) s1
       else if mask AND POLLHUP \<noteq> 0 then throwP (- EPIPE) s1
       else if mask AND (POLLRDNORM OR POLLRDBAND OR POLLIN) \<noteq> 0 then returnP () s1
       else bindP (on_line (signal_pending ops)) (\<lambda>signal s2.
         if signal then throwP (- EINTR) s2
         else bindP (on_line (schedule_timeout ops)) (\<lambda>left s3.
           if \<not> left then throwP (- ETIMEDOUT) s3 else rx_poll_loop ops fd s3) s2) s1) s"

definition mt7697_uart_rx_poll :: "'l tty_ops \<Rightarrow> ('l, unit) uart_prog" where
  "mt7697_uart_rx_poll ops = bindP (getP fd_hndl) (\<lambda>fd. case fd of
     None \<Rightarrow> haltP (Undefined ''f_op of a null file'') | Some f \<Rightarrow> rx_poll_loop ops f)"

definition rsp_hdr :: "u8 list \<Rightarrow> mt7697_rsp_hdr" where
  "rsp_hdr bs = rsp_of_words (bytes_words bs ! 0) (bytes_words bs ! 1)"

text \<open>One round of the loop of the work item; the result says whether it goes on.\<close>

definition rx_message :: "'l rx_clients \<Rightarrow> u32 \<Rightarrow> u8 list \<Rightarrow> ('l, bool) uart_prog" where
  "rx_message cl ret buf =
     seqP (modifyP (\<lambda>s. s\<lparr>uart_rsp := buf @ drop (length buf) (uart_rsp s)\<rparr>))
     (if ret \<noteq> LEN_TO_WORD sizeof_rsp_hdr then returnP False
      else bindP (getP (\<lambda>s. rsp_hdr (uart_rsp s))) (\<lambda>rsp.
        if cmd_grp rsp = grp_code MT7697_CMD_GRP_UART then bindP (getP close) (\<lambda>c. returnP (\<not> c))
        else bindP (getP uart_rx_fcn) (\<lambda>f. case f of
          None \<Rightarrow> haltP (Undefined ''call of a null rx_fcn'')
        | Some i \<Rightarrow> bindP (on_line (cl i rsp)) (\<lambda>_. returnP True))))"

definition rx_round :: "'l tty_ops \<Rightarrow> 'l rx_clients \<Rightarrow> ('l, bool) uart_prog" where
  "rx_round ops cl =
     tryP (mt7697_uart_rx_poll ops) (\<lambda>_. returnP False) (\<lambda>_.
     bindP (mt7697_uart_read ops (LEN_TO_WORD sizeof_rsp_hdr)) (\<lambda>(ret, buf). rx_message cl ret buf))"

definition task_ended :: "('l, unit) uart_prog" where
  "task_ended = modifyP (\<lambda>s. s\<lparr>close := False, worker := False\<rparr>)"

partial_function (option) mt7697_uart_rx_work ::
    "'l tty_ops \<Rightarrow> 'l rx_clients \<Rightarrow> 'l mt7697_uart_info \<Rightarrow> (unit outcome \<times> 'l mt7697_uart_info) option" where
  "mt7697_uart_rx_work ops cl s =
     bindP (rx_round ops cl) (\<lambda>go s1. if go then mt7697_uart_rx_work ops cl s1 else task_ended s1) s"

section \<open>Opening and closing\<close>

text \<open>
  \<open>found\<close> and \<open>drvdata\<close> say whether the bus knows the device and whether it has driver data.  The cleanup reads
  \<^verbatim>\<open>uart_info->fd_hndl\<close> whenever no handle is returned.
\<close>

definition mt7697_uart_open :: "'l tty_ops \<Rightarrow> bool \<Rightarrow> bool \<Rightarrow> nat option \<Rightarrow> ('l, bool) uart_prog" where
  "mt7697_uart_open ops found drvdata rx_hndlr =
     (if \<not> found then haltP (Undefined ''fd_hndl of an uninitialised pointer'')
      else if \<not> drvdata then haltP (Undefined ''fd_hndl of a null pointer'')
      else bindP (on_line (filp_open ops)) (\<lambda>r. case r of
        Inl e \<Rightarrow> seqP (modifyP (\<lambda>s. s\<lparr>fd_hndl := None\<rparr>)) (returnP False)
      | Inr f \<Rightarrow> seqP (modifyP (\<lambda>s. s\<lparr>fd_hndl := Some f, uart_rx_fcn := rx_hndlr, close := False, worker := True\<rparr>)) (returnP True)))"

text \<open>
  Closing up to the wait, and behind it.  \<^theory_text>\<open>close_begin\<close> gives False when the device is closed already.  The wait
  itself is an argument of \<^theory_text>\<open>mt7697_uart_close\<close>: what the rest of the system does until it is over.
\<close>

definition close_begin :: "'l tty_ops \<Rightarrow> ('l, bool) uart_prog" where
  "close_begin ops =
     bindP (getP fd_hndl) (\<lambda>fd. if fd = None then returnP False
     else seqP (modifyP (\<lambda>s. s\<lparr>close := True\<rparr>)) (seqP (mt7697_uart_snd_shutdown_req ops) (returnP True)))"

definition close_end :: "'l tty_ops \<Rightarrow> ('l, unit) uart_prog" where
  "close_end ops =
     bindP (getP fd_hndl) (\<lambda>fd. case fd of
       None \<Rightarrow> haltP (Undefined ''filp_close of a null file'')
     | Some f \<Rightarrow> bindP (on_line (filp_close ops f)) (\<lambda>ret.
         if ret < 0 then throwP ret else modifyP (\<lambda>s. s\<lparr>fd_hndl := None\<rparr>)))"

definition mt7697_uart_close :: "'l tty_ops \<Rightarrow> ('l, unit) uart_prog \<Rightarrow> ('l, unit) uart_prog" where
  "mt7697_uart_close ops wait =
     bindP (close_begin ops) (\<lambda>opened. if \<not> opened then returnP () else seqP wait (close_end ops))"

text \<open>
  The wait when no signal comes: it is over when \<open>close\<close> is cleared, which only the end of the work item does.
\<close>

definition wait_for_worker :: "'l tty_ops \<Rightarrow> 'l rx_clients \<Rightarrow> ('l, unit) uart_prog" where
  "wait_for_worker ops cl = (\<lambda>s.
     if \<not> close s then returnP () s else if worker s then mt7697_uart_rx_work ops cl s else divergeP s)"

section \<open>Probe and remove\<close>

definition mt7697_uart_probe :: "bool \<Rightarrow> 'l \<Rightarrow> int + 'l mt7697_uart_info" where
  "mt7697_uart_probe kzalloc_ok l =
     (if \<not> kzalloc_ok then Inl (- ENOMEM)
      else Inr \<lparr>line = l, fd_hndl = None, uart_rsp = replicate 8 0, uart_rx_fcn = None, close = False, worker = False, freed = False\<rparr>)"

text \<open>Removing frees the structure whether the closing has failed or not, and returns its error.\<close>

definition mt7697_uart_remove :: "'l tty_ops \<Rightarrow> ('l, unit) uart_prog \<Rightarrow> ('l, unit) uart_prog" where
  "mt7697_uart_remove ops wait = finallyP (mt7697_uart_close ops wait) (\<lambda>s. s\<lparr>freed := True\<rparr>)"

end
