(* ===== verification/Serial_UartProps.thy ===== *)
theory Serial_UartProps
  imports Serial_Uart
begin

text \<open>
  The properties of the serial driver: words survive any cutting of the stream of bytes, the work item never
  follows a null pointer unless a wait is interrupted, and closing returns only when the work item ends.
\<close>

section \<open>A line that delivers\<close>

text \<open>
  The contract of a serial line that is up: \<open>rx\<close> are the bytes that have arrived and \<open>tx\<close> those that have been sent.
  A read takes some of the bytes that are there, at least one, and a write takes some of those it is given.
\<close>

definition serial_line :: "'l tty_ops \<Rightarrow> ('l \<Rightarrow> u8 list) \<Rightarrow> ('l \<Rightarrow> u8 list) \<Rightarrow> bool" where
  "serial_line ops rx tx \<longleftrightarrow>
     (\<forall>fd n l. 0 < n \<and> rx l \<noteq> [] \<longrightarrow> (\<exists>k l'. kernel_read ops fd n l = ((int k, take k (rx l)), l') \<and>
        0 < k \<and> k \<le> n \<and> k \<le> length (rx l) \<and> rx l' = drop k (rx l) \<and> tx l' = tx l)) \<and>
     (\<forall>fd bs l. bs \<noteq> [] \<longrightarrow> (\<exists>k l'. kernel_write ops fd bs l = (int k, l') \<and>
        0 < k \<and> k \<le> length bs \<and> tx l' = tx l @ take k bs \<and> rx l' = rx l)) \<and>
     (\<forall>fd l. rx l \<noteq> [] \<longrightarrow> (\<exists>l'. poll ops fd l = (POLLIN, l') \<and> rx l' = rx l \<and> tx l' = tx l))"

lemma serial_lineD:
  assumes "serial_line ops rx tx"
  shows "0 < n \<Longrightarrow> rx l \<noteq> [] \<Longrightarrow> \<exists>k l'. kernel_read ops fd n l = ((int k, take k (rx l)), l') \<and>
        0 < k \<and> k \<le> n \<and> k \<le> length (rx l) \<and> rx l' = drop k (rx l) \<and> tx l' = tx l"
    and "bs \<noteq> [] \<Longrightarrow> \<exists>k l'. kernel_write ops fd bs l = (int k, l') \<and>
        0 < k \<and> k \<le> length bs \<and> tx l' = tx l @ take k bs \<and> rx l' = rx l"
    and "rx l \<noteq> [] \<Longrightarrow> \<exists>l'. poll ops fd l = (POLLIN, l') \<and> rx l' = rx l \<and> tx l' = tx l"
  using assms unfolding serial_line_def by blast+

lemma on_line_Some: "f (line s) = (a, l) \<Longrightarrow> on_line f s = Some (Ok a, s\<lparr>line := l\<rparr>)"
  by (simp add: on_line_def)

lemma of_nat_u32_0_iff:
  assumes "n < 2 ^ 32"
  shows "(word_of_nat n :: u32) = 0 \<longleftrightarrow> n = 0"
proof
  assume "(word_of_nat n :: u32) = 0"
  then show "n = 0" using assms unat_word_of_nat_u32 [of n] by simp
qed simp

lemma count_left:
  assumes "k \<le> n"
  shows "(word_of_nat n :: u32) - word_of_int (int k) = word_of_nat (n - k)"
  using assms by (simp add: of_nat_diff)

lemma read_loop_takes:
  assumes line: "serial_line ops rx tx"
  shows "0 < n \<Longrightarrow> n \<le> length (rx (line s)) \<Longrightarrow> n < 2 ^ 32 \<Longrightarrow>
    \<exists>l'. read_loop ops fd (word_of_nat n) buf s = Some (Ok (True, buf @ take n (rx (line s))), s\<lparr>line := l'\<rparr>) \<and>
      rx l' = drop n (rx (line s)) \<and> tx l' = tx (line s)"
proof (induction n arbitrary: buf s rule: less_induct)
  case (less n)
  then have "rx (line s) \<noteq> []" by auto
  then obtain k l where k: "kernel_read ops fd n (line s) = ((int k, take k (rx (line s))), l)" "0 < k" "k \<le> n"
    "k \<le> length (rx (line s))" "rx l = drop k (rx (line s))" "tx l = tx (line s)"
    using serial_lineD(1) [OF line, of n "line s" fd] less.prems by blast
  have rd: "on_line (kernel_read ops fd (unat (word_of_nat n :: u32))) s = Some (Ok (int k, take k (rx (line s))), s\<lparr>line := l\<rparr>)"
    using less.prems k by (simp add: on_line_Some unat_word_of_nat_u32)
  show ?case
  proof (cases "k = n")
    case True
    then show ?thesis
      using k by (subst read_loop.simps) (auto simp: rd count_left returnP_def intro!: exI [of _ l])
  next
    case False
    with k have n': "n - k < n" "0 < n - k" "n - k \<le> length (rx (line (s\<lparr>line := l\<rparr>)))" "n - k < 2 ^ 32"
      using less.prems by auto
    have "(word_of_nat (n - k) :: u32) \<noteq> 0" using n' by (simp only: of_nat_u32_0_iff)
    then have step: "read_loop ops fd (word_of_nat n) buf s = read_loop ops fd (word_of_nat (n - k)) (buf @ take k (rx (line s))) (s\<lparr>line := l\<rparr>)"
      using k by (subst read_loop.simps) (simp add: rd count_left)
    from less.IH [OF n', of "buf @ take k (rx (line s))"] obtain l' where
      "read_loop ops fd (word_of_nat n) buf s = Some (Ok (True, buf @ take k (rx (line s)) @ take (n - k) (rx l)), s\<lparr>line := l'\<rparr>)"
      "rx l' = drop (n - k) (rx l)" "tx l' = tx l"
      unfolding step by auto
    then show ?thesis using k by (auto simp: take_add [of k "n - k", simplified] simp flip: take_add)
  qed
qed

lemma write_loop_sends:
  assumes line: "serial_line ops rx tx"
  shows "bs \<noteq> [] \<Longrightarrow> length bs < 2 ^ 32 \<Longrightarrow>
    \<exists>l'. write_loop ops fd (word_of_nat (length bs)) bs s = Some (Ok True, s\<lparr>line := l'\<rparr>) \<and>
      tx l' = tx (line s) @ bs \<and> rx l' = rx (line s)"
proof (induction bs arbitrary: s rule: length_induct)
  case (1 bs)
  obtain k l where k: "kernel_write ops fd bs (line s) = (int k, l)" "0 < k" "k \<le> length bs"
    "tx l = tx (line s) @ take k bs" "rx l = rx (line s)"
    using serial_lineD(2) [OF line, of bs fd "line s"] 1 by blast
  have wr: "on_line (kernel_write ops fd (take (unat (word_of_nat (length bs) :: u32)) bs)) s = Some (Ok (int k), s\<lparr>line := l\<rparr>)"
    using 1 k by (simp add: on_line_Some unat_word_of_nat_u32)
  show ?case
  proof (cases "k = length bs")
    case True
    then show ?thesis
      using k by (subst write_loop.simps) (auto simp: wr count_left returnP_def intro!: exI [of _ l])
  next
    case False
    with k have d: "length (drop k bs) < length bs" "drop k bs \<noteq> []" "length (drop k bs) < 2 ^ 32"
      using 1 by auto
    have "(word_of_nat (length (drop k bs)) :: u32) \<noteq> 0" using of_nat_u32_0_iff [OF d(3)] d(2) by (metis length_0_conv)
    then have "(word_of_nat (length bs - k) :: u32) \<noteq> 0" by (simp only: length_drop not_False_eq_True)
    then have step: "write_loop ops fd (word_of_nat (length bs)) bs s = write_loop ops fd (word_of_nat (length (drop k bs))) (drop k bs) (s\<lparr>line := l\<rparr>)"
      using k by (subst write_loop.simps) (simp add: wr count_left)
    obtain l' where
      "write_loop ops fd (word_of_nat (length (drop k bs))) (drop k bs) (s\<lparr>line := l\<rparr>) = Some (Ok True, s\<lparr>line := l\<rparr>\<lparr>line := l'\<rparr>)"
      "tx l' = tx (line (s\<lparr>line := l\<rparr>)) @ drop k bs" "rx l' = rx (line (s\<lparr>line := l\<rparr>))"
      using "1.IH" d by blast
    then show ?thesis using k step by auto
  qed
qed

section \<open>Words and bytes\<close>

lemma word_of_bytes: "(ucast (ucast w :: u8) OR push_bit 8 (ucast (ucast (drop_bit 8 w) :: u8)) OR
   push_bit 16 (ucast (ucast (drop_bit 16 w) :: u8)) OR push_bit 24 (ucast (ucast (drop_bit 24 w) :: u8)) :: u32) = w"
proof (rule bit_word_eqI)
  fix n assume "n < LENGTH(32)"
  then have n32: "n < 32" by simp
  consider "n < 8" | "8 \<le> n" "n < 16" | "16 \<le> n" "n < 24" | "24 \<le> n" "n < 32"
    using that n32 by linarith
  then show "bit (ucast (ucast w :: u8) OR push_bit 8 (ucast (ucast (drop_bit 8 w) :: u8)) OR
     push_bit 16 (ucast (ucast (drop_bit 16 w) :: u8)) OR push_bit 24 (ucast (ucast (drop_bit 24 w) :: u8)) :: u32) n = bit w n"
    by cases (auto simp: bit_simps not_less)
qed

lemma bytes_words_word_bytes [simp]: "bytes_words (word_bytes w @ bs) = w # bytes_words bs"
  by (simp add: word_bytes_def word_of_bytes)

lemma bytes_words_concat: "bytes_words (concat (map word_bytes ws)) = ws"
  by (induction ws) simp_all

lemma length_word_bytes [simp]: "length (word_bytes w) = 4"
  by (simp add: word_bytes_def)

lemma length_concat_word_bytes [simp]: "length (concat (map word_bytes ws)) = 4 * length ws"
  by (induction ws) simp_all


section \<open>Reading and writing\<close>

lemma uart_read_takes:
  assumes line: "serial_line ops rx tx" and fd: "fd_hndl s = Some f" and n: "0 < n" "n < 2 ^ 30" "4 * n \<le> length (rx (line s))"
  shows "\<exists>l'. mt7697_uart_read ops (word_of_nat n) s = Some (Ok (word_of_nat n, take (4 * n) (rx (line s))), s\<lparr>line := l'\<rparr>) \<and>
    rx l' = drop (4 * n) (rx (line s)) \<and> tx l' = tx (line s)"
proof -
  have len: "(word_of_nat n :: u32) * 4 = word_of_nat (4 * n)" by (simp add: mult.commute)
  have "0 < 4 * n" "4 * n < 2 ^ 32" using n by auto
  from read_loop_takes [OF line this(1) n(3) this(2), of f "[]"] show ?thesis
    by (auto simp: mt7697_uart_read_def fd len returnP_def)
qed

lemma uart_write_sends:
  assumes line: "serial_line ops rx tx" and fd: "fd_hndl s = Some f" and ws: "ws \<noteq> []" "length ws < 2 ^ 30"
  shows "\<exists>l'. mt7697_uart_write ops ws (word_of_nat (length ws)) s = Some (Ok (word_of_nat (length ws)), s\<lparr>line := l'\<rparr>) \<and>
    tx l' = tx (line s) @ concat (map word_bytes ws) \<and> rx l' = rx (line s)"
proof -
  have len: "(word_of_nat (length ws) :: u32) * 4 = word_of_nat (length (concat (map word_bytes ws)))" by (simp add: mult.commute)
  have "concat (map word_bytes ws) \<noteq> []" using ws by (cases ws) (auto simp: word_bytes_def)
  moreover have "length (concat (map word_bytes ws)) < 2 ^ 32" using ws by simp
  ultimately show ?thesis
    using write_loop_sends [OF line, of "concat (map word_bytes ws)" f s]
    by (auto simp: mt7697_uart_write_def fd len returnP_def simp del: length_concat_word_bytes)
qed

text \<open>C22: whatever pieces the serial lines move the bytes in, the words one side writes are sent in full and in
  order, and the other side that reads as many words gets exactly these words, with what follows them on the
  line untouched.\<close>

theorem serial_words_round_trip:
  assumes lines: "serial_line ops rx tx" "serial_line ops' rx' tx'" and opened: "fd_hndl s = Some f"
    and ws: "ws \<noteq> []" "length ws < 2 ^ 30"
  shows "\<exists>s' sent. mt7697_uart_write ops ws (word_of_nat (length ws)) s = Some (Ok (word_of_nat (length ws)), s') \<and>
    tx (line s') = tx (line s) @ sent \<and> rx (line s') = rx (line s) \<and>
    (\<forall>t g rest. fd_hndl t = Some g \<and> rx' (line t) = sent @ rest \<longrightarrow>
      (\<exists>t' buf. mt7697_uart_read ops' (word_of_nat (length ws)) t = Some (Ok (word_of_nat (length ws), buf), t') \<and>
         bytes_words buf = ws \<and> rx' (line t') = rest \<and> t' = t\<lparr>line := line t'\<rparr>))"
proof -
  let ?sent = "concat (map word_bytes ws)"
  obtain l where w: "mt7697_uart_write ops ws (word_of_nat (length ws)) s = Some (Ok (word_of_nat (length ws)), s\<lparr>line := l\<rparr>)"
    "tx l = tx (line s) @ ?sent" "rx l = rx (line s)"
    using uart_write_sends [OF lines(1) opened ws] by blast
  have "\<exists>t' buf. mt7697_uart_read ops' (word_of_nat (length ws)) t = Some (Ok (word_of_nat (length ws), buf), t') \<and>
         bytes_words buf = ws \<and> rx' (line t') = rest \<and> t' = t\<lparr>line := line t'\<rparr>"
    if "fd_hndl t = Some g" "rx' (line t) = ?sent @ rest" for t g rest
    using uart_read_takes [OF lines(2) that(1), of "length ws"] ws that(2) by (auto simp: bytes_words_concat)
  with w show ?thesis by (intro exI [of _ "s\<lparr>line := l\<rparr>"] exI [of _ ?sent]) auto
qed

section \<open>The driver as a state machine\<close>

text \<open>
  The client opens, writes and closes one operation after the other, and the work item runs between any two steps,
  a round of its loop at a time.  \<open>waiting\<close> says that a close is in its wait, which is over when \<open>close\<close> is cleared or,
  when \<open>signals\<close> are possible, at any time.
\<close>

definition worker_step :: "'l tty_ops \<Rightarrow> 'l rx_clients \<Rightarrow> ('l, unit) uart_prog" where
  "worker_step ops cl = bindP (rx_round ops cl) (\<lambda>go. if go then returnP () else task_ended)"

inductive uart_reach :: "'l tty_ops \<Rightarrow> 'l rx_clients \<Rightarrow> bool \<Rightarrow> 'l mt7697_uart_info \<Rightarrow> bool \<Rightarrow> bool"
  for ops :: "'l tty_ops" and cl :: "'l rx_clients" and signals :: bool where
  Probe: "mt7697_uart_probe True l = Inr s \<Longrightarrow> uart_reach ops cl signals s False"
| Open: "uart_reach ops cl signals s False \<Longrightarrow> fd_hndl s = None \<Longrightarrow> mt7697_uart_open ops True True (Some i) s = Some (Ok b, s') \<Longrightarrow>
    uart_reach ops cl signals s' False"
| Write: "uart_reach ops cl signals s w \<Longrightarrow> mt7697_uart_write ops ws n s = Some (Ok r, s') \<Longrightarrow> uart_reach ops cl signals s' w"
| Close: "uart_reach ops cl signals s False \<Longrightarrow> close_begin ops s = Some (Ok b, s') \<Longrightarrow> uart_reach ops cl signals s' b"
| Close_fails: "uart_reach ops cl signals s False \<Longrightarrow> close_begin ops s = Some (Err e, s') \<Longrightarrow> uart_reach ops cl signals s' False"
| Closed: "uart_reach ops cl signals s True \<Longrightarrow> \<not> close s \<or> signals \<Longrightarrow> close_end ops s = Some (r, s') \<Longrightarrow> uart_reach ops cl signals s' False"
| Work: "uart_reach ops cl signals s w \<Longrightarrow> worker s \<Longrightarrow> worker_step ops cl s = Some (Ok (), s') \<Longrightarrow> uart_reach ops cl signals s' w"

section \<open>Operations that only use the line\<close>

text \<open>
  \<^theory_text>\<open>quiet m\<close>: the program leaves everything but the line and the response buffer alone and does not stop the kernel.
\<close>

definition same_ctl :: "'l mt7697_uart_info \<Rightarrow> 'l mt7697_uart_info \<Rightarrow> bool" where
  "same_ctl t s \<longleftrightarrow> fd_hndl s = fd_hndl t \<and> uart_rx_fcn s = uart_rx_fcn t \<and> close s = close t \<and> worker s = worker t \<and> freed s = freed t"

definition quiet :: "('l, 'a) uart_prog \<Rightarrow> bool" where
  "quiet m \<longleftrightarrow> (\<forall>s r s'. m s = Some (r, s') \<longrightarrow> same_ctl s s' \<and> (\<forall>h. r \<noteq> Halt h))"

named_theorems quiet_intros "rules for programs that only use the line"

lemma quietI: "(\<And>s r s'. m s = Some (r, s') \<Longrightarrow> same_ctl s s' \<and> (\<forall>h. r \<noteq> Halt h)) \<Longrightarrow> quiet m"
  by (auto simp: quiet_def)

lemma quietD: "quiet m \<Longrightarrow> m s = Some (r, s') \<Longrightarrow> same_ctl s s' \<and> (\<forall>h. r \<noteq> Halt h)"
  by (auto simp: quiet_def)

lemma same_ctl_refl [simp]: "same_ctl s s"
  by (simp add: same_ctl_def)

lemma same_ctl_trans: "same_ctl s t \<Longrightarrow> same_ctl t u \<Longrightarrow> same_ctl s u"
  by (simp add: same_ctl_def)

lemma quiet_basic [quiet_intros]: "quiet (returnP a)" "quiet (throwP e)" "quiet (on_line f)" "quiet (getP g)"
  by (auto simp: quiet_def prog_defs on_line_def same_ctl_def split: prod.splits)

lemma quiet_bindP [quiet_intros]:
  assumes m: "quiet m" and k: "\<And>a. quiet (k a)"
  shows "quiet (bindP m k)"
proof (rule quietI)
  fix s r s' assume run: "bindP m k s = Some (r, s')"
  then obtain r1 s1 where m1: "m s = Some (r1, s1)" by (cases "m s") (auto simp: bindP_def)
  with run k show "same_ctl s s' \<and> (\<forall>h. r \<noteq> Halt h)"
    using quietD [OF m m1] by (cases r1) (auto dest!: quietD [OF k] intro: same_ctl_trans)
qed

lemma quiet_bind_result:
  assumes "quiet m" "\<And>a. quiet (k a)" "bindP m k s = Some rs"
  shows "same_ctl s (snd rs) \<and> (\<forall>h. fst rs \<noteq> Halt h)"
  using quietD [OF quiet_bindP [OF assms(1,2)]] assms(3) by (cases rs) auto

lemma quiet_seqP [quiet_intros]: "quiet m \<Longrightarrow> quiet n \<Longrightarrow> quiet (seqP m n)"
  unfolding seqP_def by (rule quiet_bindP)

lemma quiet_if [quiet_intros]: "quiet m \<Longrightarrow> quiet n \<Longrightarrow> quiet (if b then m else n)"
  and quiet_if_at [quiet_intros]: "quiet m \<Longrightarrow> quiet n \<Longrightarrow> quiet (\<lambda>s. if b then m s else n s)"
  by (cases b; simp)+

lemma quiet_read_loop [quiet_intros]: "quiet (read_loop ops fd count buf)"
proof (rule quietI)
  fix s r s' assume run: "read_loop ops fd count buf s = Some (r, s')"
  have "same_ctl s (snd (r, s')) \<and> (\<forall>h. fst (r, s') \<noteq> Halt h)"
  proof (rule read_loop.raw_induct [OF _ run])
    fix loop and ops :: "'a tty_ops" and fd count buf s and rs :: "(bool \<times> u8 list) outcome \<times> 'a mt7697_uart_info"
    assume IH: "\<And>ops fd count buf s rs. loop ops fd count buf s = Some rs \<Longrightarrow> same_ctl s (snd rs) \<and> (\<forall>h. fst rs \<noteq> Halt h)"
      and step: "bindP (on_line (kernel_read ops fd (unat count))) (\<lambda>r s1.
         if fst r \<le> 0 then returnP (False, buf) s1
         else if count - word_of_int (fst r) = 0 then returnP (True, buf @ snd r) s1
         else loop ops fd (count - word_of_int (fst r)) (buf @ snd r) s1) s = Some rs"
    have loop: "quiet (loop ops fd c b)" for c b using IH by (fastforce intro: quietI)
    show "same_ctl s (snd rs) \<and> (\<forall>h. fst rs \<noteq> Halt h)"
      by (rule quiet_bind_result [OF _ _ step]) (intro quiet_intros loop)+
  qed
  then show "same_ctl s s' \<and> (\<forall>h. r \<noteq> Halt h)" by simp
qed

lemma quiet_write_loop [quiet_intros]: "quiet (write_loop ops fd left ptr)"
proof (rule quietI)
  fix s r s' assume run: "write_loop ops fd left ptr s = Some (r, s')"
  have "same_ctl s (snd (r, s')) \<and> (\<forall>h. fst (r, s') \<noteq> Halt h)"
  proof (rule write_loop.raw_induct [OF _ run])
    fix loop and ops :: "'a tty_ops" and fd left ptr s and rs :: "bool outcome \<times> 'a mt7697_uart_info"
    assume IH: "\<And>ops fd left ptr s rs. loop ops fd left ptr s = Some rs \<Longrightarrow> same_ctl s (snd rs) \<and> (\<forall>h. fst rs \<noteq> Halt h)"
      and step: "bindP (on_line (kernel_write ops fd (take (unat left) ptr))) (\<lambda>num_write s1.
       if num_write \<le> 0 then returnP False s1
       else if left - word_of_int num_write = 0 then returnP True s1
       else loop ops fd (left - word_of_int num_write) (drop (nat num_write) ptr) s1) s = Some rs"
    have loop: "quiet (loop ops fd c b)" for c b using IH by (fastforce intro: quietI)
    show "same_ctl s (snd rs) \<and> (\<forall>h. fst rs \<noteq> Halt h)"
      by (rule quiet_bind_result [OF _ _ step]) (intro quiet_intros loop)+
  qed
  then show "same_ctl s s' \<and> (\<forall>h. r \<noteq> Halt h)" by simp
qed

lemma quiet_rx_poll_loop [quiet_intros]: "quiet (rx_poll_loop ops fd)"
proof (rule quietI)
  fix s r s' assume run: "rx_poll_loop ops fd s = Some (r, s')"
  have "same_ctl s (snd (r, s')) \<and> (\<forall>h. fst (r, s') \<noteq> Halt h)"
  proof (rule rx_poll_loop.raw_induct [OF _ run])
    fix loop and ops :: "'a tty_ops" and fd s and rs :: "unit outcome \<times> 'a mt7697_uart_info"
    assume IH: "\<And>ops fd s rs. loop ops fd s = Some rs \<Longrightarrow> same_ctl s (snd rs) \<and> (\<forall>h. fst rs \<noteq> Halt h)"
      and step: "bindP (on_line (poll ops fd)) (\<lambda>mask s1.
       if mask AND POLLERR \<noteq> 0 then throwP (- EIO) s1
       else if mask AND POLLHUP \<noteq> 0 then throwP (- EPIPE) s1
       else if mask AND (POLLRDNORM OR POLLRDBAND OR POLLIN) \<noteq> 0 then returnP () s1
       else bindP (on_line (signal_pending ops)) (\<lambda>signal s2.
         if signal then throwP (- EINTR) s2
         else bindP (on_line (schedule_timeout ops)) (\<lambda>left s3.
           if \<not> left then throwP (- ETIMEDOUT) s3 else loop ops fd s3) s2) s1) s = Some rs"
    have loop: "quiet (loop ops fd)" using IH by (fastforce intro: quietI)
    show "same_ctl s (snd rs) \<and> (\<forall>h. fst rs \<noteq> Halt h)"
      by (rule quiet_bind_result [OF _ _ step]) (intro quiet_intros loop)+
  qed
  then show "same_ctl s s' \<and> (\<forall>h. r \<noteq> Halt h)" by simp
qed


lemma quiet_case_option [quiet_intros]: "quiet m \<Longrightarrow> (\<And>x. quiet (n x)) \<Longrightarrow> quiet (case z of None \<Rightarrow> m | Some x \<Rightarrow> n x)"
  by (cases z) simp_all

lemma quiet_case_prod [quiet_intros]: "(\<And>x y. quiet (f x y)) \<Longrightarrow> quiet (case z of (x, y) \<Rightarrow> f x y)"
  by (cases z) simp

lemma quiet_uart_read [quiet_intros]: "quiet (mt7697_uart_read ops len)"
  unfolding mt7697_uart_read_def by (intro quiet_intros)

lemma quiet_uart_write [quiet_intros]: "quiet (mt7697_uart_write ops ws len)"
  unfolding mt7697_uart_write_def by (intro quiet_intros)

lemma quiet_snd_shutdown_req [quiet_intros]: "quiet (mt7697_uart_snd_shutdown_req ops)"
  unfolding mt7697_uart_snd_shutdown_req_def by (intro quiet_intros)

lemma wlp_quiet:
  assumes "quiet m" "\<And>r s'. same_ctl s s' \<Longrightarrow> (\<And>h. r \<noteq> Halt h) \<Longrightarrow> Q r s'"
  shows "wlp m Q s"
  using quietD [OF assms(1)] assms(2) by (auto simp: wlp_iff)

lemma wlp_on_line [wp_rules]: "wlp (on_line f) Q s = (case f (line s) of (a, l) \<Rightarrow> Q (Ok a) (s\<lparr>line := l\<rparr>))"
  by (simp add: wlp_def on_line_def split: prod.split)

section \<open>What one step does\<close>

lemma rx_message_quiet:
  assumes "same_ctl s0 s" "uart_rx_fcn s0 = Some i"
  shows "wlp (rx_message cl ret buf) (\<lambda>r s'. same_ctl s0 s' \<and> (\<forall>h. r \<noteq> Halt h)) s"
  using assms by (auto simp: rx_message_def wp_rules same_ctl_def split: prod.splits option.splits)

lemma rx_round_quiet:
  assumes "fd_hndl s = Some f" "uart_rx_fcn s = Some i"
  shows "wlp (rx_round ops cl) (\<lambda>r s'. same_ctl s s' \<and> (\<forall>h. r \<noteq> Halt h)) s"
proof -
  have poll: "wlp (mt7697_uart_rx_poll ops) (\<lambda>r s'. same_ctl s s' \<and> (\<forall>h. r \<noteq> Halt h)) s"
    unfolding mt7697_uart_rx_poll_def wp_rules by (simp add: assms wlp_quiet [OF quiet_rx_poll_loop])
  have body: "wlp (bindP (mt7697_uart_read ops n) (\<lambda>(ret, buf). rx_message cl ret buf)) (\<lambda>r s'. same_ctl s s' \<and> (\<forall>h. r \<noteq> Halt h)) s1"
    if "same_ctl s s1" for s1 n
    unfolding wlp_bindP
    by (rule wlp_quiet [OF quiet_uart_read])
      (use that assms in \<open>auto split: outcome.splits prod.splits intro!: rx_message_quiet dest: same_ctl_trans\<close>)
  show ?thesis
    unfolding rx_round_def wlp_tryP
    by (rule wlp_mono [OF poll]) (auto simp: wlp_returnP split: outcome.splits intro!: body)
qed

lemma worker_step_effect:
  assumes "fd_hndl s = Some f" "uart_rx_fcn s = Some i" "worker_step ops cl s = Some (r, s')"
  shows "(\<forall>h. r \<noteq> Halt h) \<and> fd_hndl s' = fd_hndl s \<and> uart_rx_fcn s' = uart_rx_fcn s \<and>
    (close s' = close s \<and> worker s' = worker s \<or> \<not> close s' \<and> \<not> worker s')"
proof -
  have "wlp (worker_step ops cl) (\<lambda>r s'. (\<forall>h. r \<noteq> Halt h) \<and> fd_hndl s' = fd_hndl s \<and> uart_rx_fcn s' = uart_rx_fcn s \<and>
    (close s' = close s \<and> worker s' = worker s \<or> \<not> close s' \<and> \<not> worker s')) s"
    unfolding worker_step_def wlp_bindP
    by (rule wlp_mono [OF rx_round_quiet [OF assms(1,2)]])
      (auto simp: wp_rules task_ended_def same_ctl_def split: outcome.splits)
  then show ?thesis using assms(3) by (auto simp: wlp_iff)
qed

lemma close_begin_effect:
  assumes "close_begin ops s = Some (r, s')"
  shows "r = Ok False \<and> s' = s \<and> fd_hndl s = None \<or>
    r \<noteq> Ok False \<and> (\<forall>h. r \<noteq> Halt h) \<and> fd_hndl s \<noteq> None \<and> same_ctl (s\<lparr>close := True\<rparr>) s'"
proof -
  have "wlp (close_begin ops) (\<lambda>r s'. r = Ok False \<and> s' = s \<and> fd_hndl s = None \<or>
    r \<noteq> Ok False \<and> (\<forall>h. r \<noteq> Halt h) \<and> fd_hndl s \<noteq> None \<and> same_ctl (s\<lparr>close := True\<rparr>) s') s"
    by (auto simp: close_begin_def wp_rules intro!: wlp_quiet [OF quiet_snd_shutdown_req] split: outcome.splits)
  then show ?thesis using assms by (auto simp: wlp_iff)
qed

lemma worker_step_no_file:
  "fd_hndl s = None \<Longrightarrow> worker_step ops cl s = Some (Halt (Undefined ''f_op of a null file''), s)"
  by (simp add: worker_step_def rx_round_def mt7697_uart_rx_poll_def prog_defs)

section \<open>The invariant\<close>

definition uart_inv :: "bool \<Rightarrow> 'l mt7697_uart_info \<Rightarrow> bool \<Rightarrow> bool" where
  "uart_inv signals s waiting \<longleftrightarrow> (worker s \<longrightarrow> uart_rx_fcn s \<noteq> None) \<and> (waiting \<longrightarrow> fd_hndl s \<noteq> None) \<and>
     (\<not> signals \<longrightarrow> (worker s \<longrightarrow> fd_hndl s \<noteq> None) \<and> (waiting \<and> \<not> close s \<longrightarrow> \<not> worker s))"

lemma uart_inv_same: "same_ctl s s' \<Longrightarrow> uart_inv signals s w \<Longrightarrow> uart_inv signals s' w"
  by (auto simp: uart_inv_def same_ctl_def)

lemma uart_inv_reach: "uart_reach ops cl signals s w \<Longrightarrow> uart_inv signals s w"
proof (induction rule: uart_reach.induct)
  case (Probe l s)
  then show ?case by (auto simp: mt7697_uart_probe_def uart_inv_def)
next
  case (Open s i b s')
  then show ?case
    by (auto simp: mt7697_uart_open_def uart_inv_def on_line_def prog_defs split: prod.splits sum.splits)
next
  case (Write s w ws n r s')
  then show ?case using quietD [OF quiet_uart_write] uart_inv_same by blast
next
  case (Close s b s')
  then show ?case using close_begin_effect [OF Close.hyps(2)] by (auto simp: uart_inv_def same_ctl_def)
next
  case (Close_fails s e s')
  then show ?case using close_begin_effect [OF Close_fails.hyps(2)] by (auto simp: uart_inv_def same_ctl_def)
next
  case (Closed s r s')
  then show ?case
    by (auto simp: close_end_def uart_inv_def on_line_def prog_defs split: prod.splits option.splits if_splits)
next
  case (Work s w s')
  then have "fd_hndl s \<noteq> None" using worker_step_no_file [of s ops cl] by (cases "fd_hndl s") auto
  with Work show ?case
    using worker_step_effect [of s _ _ ops cl "Ok ()" s'] by (auto simp: uart_inv_def)
qed


section \<open>Closing\<close>

lemma snd_shutdown_sends:
  assumes line: "serial_line ops rx tx" and fd: "fd_hndl s = Some f"
  shows "\<exists>l. mt7697_uart_snd_shutdown_req ops s = Some (Ok (), s\<lparr>line := l\<rparr>) \<and> rx l = rx (line s) \<and>
    tx l = tx (line s) @ word_bytes (cmd_word shutdown_req)"
proof -
  have "LEN_TO_WORD 4 = word_of_nat (length [cmd_word shutdown_req])" by (simp add: LEN_TO_WORD_def)
  then show ?thesis
    using uart_write_sends [OF line fd, of "[cmd_word shutdown_req]"]
    by (auto simp: mt7697_uart_snd_shutdown_req_def returnP_def LEN_TO_WORD_def)
qed

lemma rx_work_ends_on_rsp:
  assumes line: "serial_line ops rx tx" and fd: "fd_hndl s = Some f" and closing: "close s"
    and msg: "rx (line s) = word_bytes w0 @ word_bytes w1 @ rest" "cmd_grp (rsp_of_words w0 w1) = grp_code MT7697_CMD_GRP_UART"
  shows "\<exists>s'. mt7697_uart_rx_work ops cl s = Some (Ok (), s') \<and> fd_hndl s' = Some f \<and> \<not> worker s' \<and> \<not> close s'"
proof -
  have "rx (line s) \<noteq> []" using msg by (auto simp: word_bytes_def)
  then obtain l where l: "poll ops f (line s) = (POLLIN, l)" "rx l = rx (line s)"
    using serial_lineD(3) [OF line] by blast
  have poll: "mt7697_uart_rx_poll ops s = Some (Ok (), s\<lparr>line := l\<rparr>)"
    by (simp add: mt7697_uart_rx_poll_def fd, subst rx_poll_loop.simps)
      (simp add: on_line_Some [where f = "poll ops f" and s = s, OF l(1)] returnP_def)
  have "4 * 2 \<le> length (rx (line (s\<lparr>line := l\<rparr>)))" using l msg by simp
  then obtain l' where rd: "mt7697_uart_read ops (word_of_nat 2) (s\<lparr>line := l\<rparr>) =
      Some (Ok (word_of_nat 2, take (4 * 2) (rx (line s))), s\<lparr>line := l'\<rparr>)"
    using uart_read_takes [OF line, of "s\<lparr>line := l\<rparr>" f 2] fd l by auto
  have hdr: "take (4 * 2) (rx (line s)) = word_bytes w0 @ word_bytes w1" using msg by (simp add: word_bytes_def)
  have "bytes_words (word_bytes w0 @ word_bytes w1 @ x) = w0 # w1 # bytes_words x" for x by simp
  then have go: "rx_message cl 2 (word_bytes w0 @ word_bytes w1) (s\<lparr>line := l'\<rparr>) =
      Some (Ok False, s\<lparr>line := l', uart_rsp := word_bytes w0 @ word_bytes w1 @ drop 8 (uart_rsp s)\<rparr>)"
    using msg(2) closing by (simp add: rx_message_def LEN_TO_WORD_def rsp_hdr_def returnP_def)
  have "rx_round ops cl s = Some (Ok False, s\<lparr>line := l', uart_rsp := word_bytes w0 @ word_bytes w1 @ drop 8 (uart_rsp s)\<rparr>)"
    using rd go unfolding hdr by (simp add: rx_round_def tryP_def poll LEN_TO_WORD_def)
  then show ?thesis
    by (subst mt7697_uart_rx_work.simps) (simp add: bindP_def task_ended_def modifyP_def fd)
qed


section \<open>Failures\<close>

lemma snd_shutdown_fails:
  assumes "fd_hndl s = Some f" "\<And>bs l. fst (kernel_write ops f bs l) \<le> 0"
  shows "\<exists>l. mt7697_uart_snd_shutdown_req ops s = Some (Err (- EIO), s\<lparr>line := l\<rparr>)"
proof -
  obtain r l where r: "kernel_write ops f (take (unat (LEN_TO_WORD 4 * 4)) (word_bytes (cmd_word shutdown_req))) (line s) = (r, l)" "r \<le> 0"
    using assms(2) by (metis prod.collapse)
  then have "write_loop ops f (LEN_TO_WORD 4 * 4) (word_bytes (cmd_word shutdown_req)) s = Some (Ok False, s\<lparr>line := l\<rparr>)"
    by (subst write_loop.simps) (simp add: on_line_def bindP_def returnP_def)
  then show ?thesis
    using assms(1) by (auto simp: mt7697_uart_snd_shutdown_req_def mt7697_uart_write_def bindP_def returnP_def getP_def throwP_def LEN_TO_WORD_def)
qed



section \<open>Closed instances\<close>

text \<open>A line that moves at most three bytes at a time; the state is what arrives and what has been sent.\<close>

definition three_bytes :: "(u8 list \<times> u8 list) tty_ops" where
  "three_bytes = \<lparr>filp_open = (\<lambda>l. (Inr 7, l)), filp_close = (\<lambda>f l. (0, l)),
     poll = (\<lambda>f (r, t). (if r = [] then POLLHUP else POLLIN, (r, t))),
     kernel_read = (\<lambda>f n (r, t). let k = min 3 (min n (length r)) in ((int k, take k r), (drop k r, t))),
     kernel_write = (\<lambda>f bs (r, t). let k = min 3 (length bs) in (int k, (r, t @ take k bs))),
     signal_pending = (\<lambda>l. (False, l)), schedule_timeout = (\<lambda>l. (True, l))\<rparr>"

lemma three_bytes_line: "serial_line three_bytes fst snd"
  by (auto simp: serial_line_def three_bytes_def Let_def split_beta intro!: exI [of _ "min 3 (min _ _)"] exI [of _ "min 3 (length _)"])

abbreviation open_uart :: "u8 list \<Rightarrow> bool \<Rightarrow> (u8 list \<times> u8 list) mt7697_uart_info" where
  "open_uart bs w \<equiv> \<lparr>line = (bs, []), fd_hndl = Some 7, uart_rsp = replicate 8 0, uart_rx_fcn = Some 0, close = False, worker = w, freed = False\<rparr>"

theorem serial_words_round_trip_witness:
  "\<exists>s' t' buf. mt7697_uart_write three_bytes [1, 0x12345678] 2 (open_uart [] True) = Some (Ok 2, s') \<and>
     mt7697_uart_read three_bytes 2 (open_uart (snd (line s') @ [9]) True) = Some (Ok (2, buf), t') \<and>
     bytes_words buf = [1, 0x12345678] \<and> fst (line t') = [9]"
proof -
  have two: "word_of_nat (length [1, 0x12345678 :: u32]) = (2 :: u32)" by simp
  obtain s' where w: "mt7697_uart_write three_bytes [1, 0x12345678] 2 (open_uart [] True) = Some (Ok 2, s')"
    and r: "\<forall>t g rest. fd_hndl t = Some g \<and> fst (line t) = snd (line s') @ rest \<longrightarrow>
      (\<exists>t' buf. mt7697_uart_read three_bytes 2 t = Some (Ok (2, buf), t') \<and> bytes_words buf = [1, 0x12345678] \<and> fst (line t') = rest \<and>
         t' = t\<lparr>line := line t'\<rparr>)"
    using serial_words_round_trip [OF three_bytes_line three_bytes_line, of "open_uart [] True" 7 "[1, 0x12345678]", unfolded two]
    by auto
  then show ?thesis using r [rule_format, of "open_uart (snd (line s') @ [9]) True" 7 "[9]"] by auto
qed

abbreviation idle_rx :: "(u8 list \<times> u8 list) rx_clients" where "idle_rx \<equiv> \<lambda>_ _ l. (0, l)"

lemma opened_reach: "uart_reach three_bytes idle_rx signals (open_uart bs True) False"
proof (rule uart_reach.Open [OF uart_reach.Probe])
  show "mt7697_uart_probe True (bs, []) = Inr \<lparr>line = (bs, []), fd_hndl = None, uart_rsp = replicate 8 0, uart_rx_fcn = None,
      close = False, worker = False, freed = False\<rparr>"
    by (simp add: mt7697_uart_probe_def)
qed (simp_all add: mt7697_uart_open_def three_bytes_def on_line_def prog_defs)


text \<open>An interrupted close leaves the work item with a null file.\<close>

lemma interrupted_close_crashes_worker:
  "\<exists>s. uart_reach three_bytes idle_rx True s False \<and> worker s \<and> (\<exists>h. worker_step three_bytes idle_rx s = Some (Halt h, s))"
proof -
  obtain l where "mt7697_uart_snd_shutdown_req three_bytes ((open_uart [] True)\<lparr>close := True\<rparr>) = Some (Ok (), (open_uart [] True)\<lparr>close := True\<rparr>\<lparr>line := l\<rparr>)"
    using snd_shutdown_sends [OF three_bytes_line, of "(open_uart [] True)\<lparr>close := True\<rparr>" 7] by auto
  then have "close_begin three_bytes (open_uart [] True) = Some (Ok True, (open_uart [] True)\<lparr>close := True, line := l\<rparr>)"
    by (simp add: close_begin_def returnP_def)
  from uart_reach.Close [OF opened_reach this, of True] have "uart_reach three_bytes idle_rx True ((open_uart [] True)\<lparr>close := True, line := l\<rparr>) True" .
  from uart_reach.Closed [OF this, of "Ok ()" "(open_uart [] True)\<lparr>close := True, line := l, fd_hndl := None\<rparr>"]
  have "uart_reach three_bytes idle_rx True ((open_uart [] True)\<lparr>close := True, line := l, fd_hndl := None\<rparr>) False"
    by (simp add: close_end_def three_bytes_def on_line_def prog_defs)
  then show ?thesis
    using worker_step_no_file [of "(open_uart [] True)\<lparr>close := True, line := l, fd_hndl := None\<rparr>" three_bytes idle_rx] by (intro exI conjI) auto
qed



end
