(* ===== verification/Wifi_Types.thy ===== *)
theory Wifi_Types
  imports Serial_UartProps
begin

text \<open>
  The data of the MT7697 wireless driver (\<^verbatim>\<open>linux_kernel_modules/mt7697wifi\<close>): the message types of \<^verbatim>\<open>wmi.h\<close>,
  the settings of \<^verbatim>\<open>wifi_api.h\<close>, the driver's structures of \<^verbatim>\<open>core.h\<close>, and what the driver asks of the kernel.
  The transport (the queues or the serial line) is a parameter with a state of its own.
\<close>

section \<open>Message types (wmi.h)\<close>

datatype mt7697_wifi_cmd_types =
    MT7697_CMD_MAC_ADDR_REQ | MT7697_CMD_MAC_ADDR_RSP | MT7697_CMD_GET_CFG_REQ | MT7697_CMD_GET_CFG_RSP
  | MT7697_CMD_GET_WIRELESS_MODE_REQ | MT7697_CMD_GET_WIRELESS_MODE_RSP | MT7697_CMD_SET_WIRELESS_MODE_REQ
  | MT7697_CMD_SET_WIRELESS_MODE_RSP | MT7697_CMD_SET_OP_MODE_REQ | MT7697_CMD_SET_OP_MODE_RSP
  | MT7697_CMD_GET_LISTEN_INTERVAL_REQ | MT7697_CMD_GET_LISTEN_INTERVAL_RSP | MT7697_CMD_SET_LISTEN_INTERVAL_REQ
  | MT7697_CMD_SET_LISTEN_INTERVAL_RSP | MT7697_CMD_SET_SECURITY_MODE_REQ | MT7697_CMD_SET_SECURITY_MODE_RSP
  | MT7697_CMD_GET_SECURITY_MODE_REQ | MT7697_CMD_GET_SECURITY_MODE_RSP | MT7697_CMD_SCAN_IND | MT7697_CMD_SCAN_REQ
  | MT7697_CMD_SCAN_RSP | MT7697_CMD_SCAN_COMPLETE_IND | MT7697_CMD_SCAN_STOP | MT7697_CMD_SCAN_STOP_RSP
  | MT7697_CMD_SET_PMK_REQ | MT7697_CMD_SET_PMK_RSP | MT7697_CMD_SET_CHANNEL_REQ | MT7697_CMD_SET_CHANNEL_RSP
  | MT7697_CMD_SET_BSSID_REQ | MT7697_CMD_SET_BSSID_RSP | MT7697_CMD_SET_SSID_REQ | MT7697_CMD_SET_SSID_RSP
  | MT7697_CMD_RELOAD_SETTINGS_REQ | MT7697_CMD_RELOAD_SETTINGS_RSP | MT7697_CMD_CONNECT_IND
  | MT7697_CMD_DISCONNECT_IND | MT7697_CMD_DISCONNECT_REQ | MT7697_CMD_DISCONNECT_RSP | MT7697_CMD_TX_RAW
  | MT7697_CMD_RX_RAW

fun wifi_cmd_code :: "mt7697_wifi_cmd_types \<Rightarrow> u8" where
  "wifi_cmd_code MT7697_CMD_MAC_ADDR_REQ = 0"
| "wifi_cmd_code MT7697_CMD_MAC_ADDR_RSP = 1"
| "wifi_cmd_code MT7697_CMD_GET_CFG_REQ = 2"
| "wifi_cmd_code MT7697_CMD_GET_CFG_RSP = 3"
| "wifi_cmd_code MT7697_CMD_GET_WIRELESS_MODE_REQ = 4"
| "wifi_cmd_code MT7697_CMD_GET_WIRELESS_MODE_RSP = 5"
| "wifi_cmd_code MT7697_CMD_SET_WIRELESS_MODE_REQ = 6"
| "wifi_cmd_code MT7697_CMD_SET_WIRELESS_MODE_RSP = 7"
| "wifi_cmd_code MT7697_CMD_SET_OP_MODE_REQ = 8"
| "wifi_cmd_code MT7697_CMD_SET_OP_MODE_RSP = 9"
| "wifi_cmd_code MT7697_CMD_GET_LISTEN_INTERVAL_REQ = 10"
| "wifi_cmd_code MT7697_CMD_GET_LISTEN_INTERVAL_RSP = 11"
| "wifi_cmd_code MT7697_CMD_SET_LISTEN_INTERVAL_REQ = 12"
| "wifi_cmd_code MT7697_CMD_SET_LISTEN_INTERVAL_RSP = 13"
| "wifi_cmd_code MT7697_CMD_SET_SECURITY_MODE_REQ = 14"
| "wifi_cmd_code MT7697_CMD_SET_SECURITY_MODE_RSP = 15"
| "wifi_cmd_code MT7697_CMD_GET_SECURITY_MODE_REQ = 16"
| "wifi_cmd_code MT7697_CMD_GET_SECURITY_MODE_RSP = 17"
| "wifi_cmd_code MT7697_CMD_SCAN_IND = 18"
| "wifi_cmd_code MT7697_CMD_SCAN_REQ = 19"
| "wifi_cmd_code MT7697_CMD_SCAN_RSP = 20"
| "wifi_cmd_code MT7697_CMD_SCAN_COMPLETE_IND = 21"
| "wifi_cmd_code MT7697_CMD_SCAN_STOP = 22"
| "wifi_cmd_code MT7697_CMD_SCAN_STOP_RSP = 23"
| "wifi_cmd_code MT7697_CMD_SET_PMK_REQ = 24"
| "wifi_cmd_code MT7697_CMD_SET_PMK_RSP = 25"
| "wifi_cmd_code MT7697_CMD_SET_CHANNEL_REQ = 26"
| "wifi_cmd_code MT7697_CMD_SET_CHANNEL_RSP = 27"
| "wifi_cmd_code MT7697_CMD_SET_BSSID_REQ = 28"
| "wifi_cmd_code MT7697_CMD_SET_BSSID_RSP = 29"
| "wifi_cmd_code MT7697_CMD_SET_SSID_REQ = 30"
| "wifi_cmd_code MT7697_CMD_SET_SSID_RSP = 31"
| "wifi_cmd_code MT7697_CMD_RELOAD_SETTINGS_REQ = 32"
| "wifi_cmd_code MT7697_CMD_RELOAD_SETTINGS_RSP = 33"
| "wifi_cmd_code MT7697_CMD_CONNECT_IND = 34"
| "wifi_cmd_code MT7697_CMD_DISCONNECT_IND = 35"
| "wifi_cmd_code MT7697_CMD_DISCONNECT_REQ = 36"
| "wifi_cmd_code MT7697_CMD_DISCONNECT_RSP = 37"
| "wifi_cmd_code MT7697_CMD_TX_RAW = 38"
| "wifi_cmd_code MT7697_CMD_RX_RAW = 39"

section \<open>Settings (wifi_api.h)\<close>

abbreviation (input) ETH_ALEN :: nat where "ETH_ALEN \<equiv> 6"
abbreviation (input) IEEE80211_MAX_SSID_LEN :: nat where "IEEE80211_MAX_SSID_LEN \<equiv> 32"
abbreviation (input) IEEE80211_MAX_FRAME_LEN :: nat where "IEEE80211_MAX_FRAME_LEN \<equiv> 2352"
abbreviation (input) IEEE80211_MAX_DATA_LEN :: nat where "IEEE80211_MAX_DATA_LEN \<equiv> 2304"
abbreviation (input) MT7697_WIFI_LENGTH_PASSPHRASE :: nat where "MT7697_WIFI_LENGTH_PASSPHRASE \<equiv> 64"
abbreviation (input) MT7697_WIFI_LENGTH_PMK :: nat where "MT7697_WIFI_LENGTH_PMK \<equiv> 32"
abbreviation (input) MT7697_MAX_STA :: nat where "MT7697_MAX_STA \<equiv> 10"
abbreviation (input) MT7697_TX_PKT_POOL_LEN :: nat where "MT7697_TX_PKT_POOL_LEN \<equiv> 256"

abbreviation (input) MT7697_WIFI_MODE_STA_ONLY :: u8 where "MT7697_WIFI_MODE_STA_ONLY \<equiv> 1"
abbreviation (input) MT7697_WIFI_MODE_AP_ONLY :: u8 where "MT7697_WIFI_MODE_AP_ONLY \<equiv> 2"
abbreviation (input) MT7697_WIFI_MODE_REPEATER :: u8 where "MT7697_WIFI_MODE_REPEATER \<equiv> 3"

datatype mt7697_port_type = MT7697_PORT_STA | MT7697_PORT_AP

fun port_code :: "mt7697_port_type \<Rightarrow> u32" where
  "port_code MT7697_PORT_STA = 0"
| "port_code MT7697_PORT_AP = 1"

datatype mt7697_wifi_auth_mode_t = MT7697_WIFI_AUTH_MODE_OPEN | MT7697_WIFI_AUTH_MODE_SHARED
  | MT7697_WIFI_AUTH_MODE_AUTO_WEP | MT7697_WIFI_AUTH_MODE_WPA | MT7697_WIFI_AUTH_MODE_WPA_PSK
  | MT7697_WIFI_AUTH_MODE_WPA_None | MT7697_WIFI_AUTH_MODE_WPA2 | MT7697_WIFI_AUTH_MODE_WPA2_PSK
  | MT7697_WIFI_AUTH_MODE_WPA_WPA2 | MT7697_WIFI_AUTH_MODE_WPA_PSK_WPA2_PSK

fun auth_code :: "mt7697_wifi_auth_mode_t \<Rightarrow> u8" where
  "auth_code MT7697_WIFI_AUTH_MODE_OPEN = 0"
| "auth_code MT7697_WIFI_AUTH_MODE_SHARED = 1"
| "auth_code MT7697_WIFI_AUTH_MODE_AUTO_WEP = 2"
| "auth_code MT7697_WIFI_AUTH_MODE_WPA = 3"
| "auth_code MT7697_WIFI_AUTH_MODE_WPA_PSK = 4"
| "auth_code MT7697_WIFI_AUTH_MODE_WPA_None = 5"
| "auth_code MT7697_WIFI_AUTH_MODE_WPA2 = 6"
| "auth_code MT7697_WIFI_AUTH_MODE_WPA2_PSK = 7"
| "auth_code MT7697_WIFI_AUTH_MODE_WPA_WPA2 = 8"
| "auth_code MT7697_WIFI_AUTH_MODE_WPA_PSK_WPA2_PSK = 9"

text \<open>The encryption types the driver sets; the enumeration gives them these numbers.\<close>

abbreviation (input) MT7697_WIFI_ENCRYPT_TYPE_ENCRYPT_DISABLED :: u8 where "MT7697_WIFI_ENCRYPT_TYPE_ENCRYPT_DISABLED \<equiv> 1"
abbreviation (input) MT7697_WIFI_ENCRYPT_TYPE_TKIP_ENABLED :: u8 where "MT7697_WIFI_ENCRYPT_TYPE_TKIP_ENABLED \<equiv> 4"
abbreviation (input) MT7697_WIFI_ENCRYPT_TYPE_AES_ENABLED :: u8 where "MT7697_WIFI_ENCRYPT_TYPE_AES_ENABLED \<equiv> 6"

record mt7697_wifi_sta_config_t =
  sta_ssid :: "u8 list"
  sta_ssid_len :: u8
  sta_bssid_present :: u8
  sta_bssid :: "u8 list"
  sta_pw :: "u8 list"
  sta_pw_len :: u8

record mt7697_wifi_ap_config_t =
  ap_ssid :: "u8 list"
  ap_ssid_len :: u8
  ap_pw :: "u8 list"
  ap_pw_len :: u8
  ap_auth_mode :: u8
  ap_encrypt_type :: u8
  ap_ch :: u8
  ap_bandwidth :: u8
  ap_bandwidth_ext :: u8

record mt7697_wifi_config_t =
  opmode :: u8
  sta_config :: mt7697_wifi_sta_config_t
  ap_config :: mt7697_wifi_ap_config_t

abbreviation (input) sizeof_wifi_config_t :: u32 where "sizeof_wifi_config_t \<equiv> 209"

definition slice :: "nat \<Rightarrow> nat \<Rightarrow> 'a list \<Rightarrow> 'a list" where
  "slice off n xs = take n (drop off xs)"

text \<open>The packed structures, read from the bytes of a message.\<close>

definition sta_config_of :: "u8 list \<Rightarrow> mt7697_wifi_sta_config_t" where
  "sta_config_of bs = \<lparr>sta_ssid = slice 0 32 bs, sta_ssid_len = bs ! 32, sta_bssid_present = bs ! 33,
     sta_bssid = slice 34 6 bs, sta_pw = slice 40 64 bs, sta_pw_len = bs ! 104\<rparr>"

definition ap_config_of :: "u8 list \<Rightarrow> mt7697_wifi_ap_config_t" where
  "ap_config_of bs = \<lparr>ap_ssid = slice 0 32 bs, ap_ssid_len = bs ! 32, ap_pw = slice 33 64 bs, ap_pw_len = bs ! 97,
     ap_auth_mode = bs ! 98, ap_encrypt_type = bs ! 99, ap_ch = bs ! 100, ap_bandwidth = bs ! 101, ap_bandwidth_ext = bs ! 102\<rparr>"

definition wifi_config_of :: "u8 list \<Rightarrow> mt7697_wifi_config_t" where
  "wifi_config_of bs = \<lparr>opmode = bs ! 0, sta_config = sta_config_of (drop 1 bs), ap_config = ap_config_of (drop 106 bs)\<rparr>"

section \<open>Interfaces and the device (core.h)\<close>

datatype mt7697_sme_state = SME_DISCONNECTED | SME_CONNECTING | SME_CONNECTED

datatype mt7697_vif_state = CONNECTED | CONNECT_PEND | WMM_ENABLED | NETDEV_MCAST_ALL_ON | NETDEV_MCAST_ALL_OFF | WLAN_ENABLED

text \<open>The interface types of \<^verbatim>\<open>nl80211.h\<close> that the driver tells apart.\<close>

datatype nl80211_iftype = NL80211_IFTYPE_STATION | NL80211_IFTYPE_AP | NL80211_IFTYPE_OTHER nat

record net_device_stats =
  tx_packets :: u32
  tx_bytes :: u32
  tx_errors :: u32
  tx_dropped :: u32
  tx_aborted_errors :: u32
  rx_packets :: u32
  rx_bytes :: u32
  rx_errors :: u32
  rx_dropped :: u32
  rx_length_errors :: u32

abbreviation (input) no_stats :: net_device_stats where
  "no_stats \<equiv> \<lparr>tx_packets = 0, tx_bytes = 0, tx_errors = 0, tx_dropped = 0, tx_aborted_errors = 0,
     rx_packets = 0, rx_bytes = 0, rx_errors = 0, rx_dropped = 0, rx_length_errors = 0\<rparr>"

text \<open>
  An interface and the network device it is the private data of.  \<open>sta_list_lock\<close> is the spin lock of the list of
  stations; a scan request of the kernel is a number.
\<close>

record mt7697_vif =
  fw_vif_idx :: u8
  iftype :: nl80211_iftype
  vif_flags :: "mt7697_vif_state set"
  ssid_len :: int
  ssid :: "u8 list"
  bssid :: "u8 list"
  req_bssid :: "u8 list"
  pmk :: "u8 list"
  ch_hint :: u16
  auth_mode :: mt7697_wifi_auth_mode_t
  prwise_crypto :: u8
  prwise_crypto_len :: u8
  grp_crypto :: u8
  grp_crypto_len :: u8
  sta_list_lock :: bool
  sta_list :: "u8 list list"
  sta_count :: u8
  sta_max :: u8
  scan_req :: "nat option"
  probe_req_report :: bool
  sme_state :: mt7697_sme_state
  reconnect_flag :: int
  locally_generated :: bool
  net_stats :: net_device_stats
  dev_up :: bool
  dev_promisc :: bool
  dev_multicast :: bool

text \<open>A packet of the kernel: its number, the interface it is for and its bytes.\<close>

record sk_buff =
  skb_id :: nat
  skb_dev :: nat
  skb_headroom :: nat
  skb_data :: "u8 list"

text \<open>The message of \<^verbatim>\<open>tx_req\<close>; its data keep what earlier packets left.\<close>

record mt7697_tx_raw_packet =
  txr_hdr :: mt7697_cmd_hdr
  txr_len :: u32
  txr_data :: "u8 list"

text \<open>What the driver tells the kernel.\<close>

datatype wifi_event =
    ConnectResult nat "u8 list" bool
  | Disconnected nat
  | Roamed nat
  | ScanDone nat bool
  | NewSta nat "u8 list"
  | InformBss u32 "u8 list"
  | InformFrame u32 "u8 list" u32
  | WakeQueue nat
  | StopQueue nat
  | CarrierOn nat
  | CarrierOff nat
  | RxFrame nat "u8 list"
  | FreeSkb nat
  | QueueTx
  | QueueInit
  | QueueDisconnect nat
  | UnblockWriter
  | RegisterNetdev nat
  | UnregisterNetdev nat
  | FreeNetdev nat
  | CreateWq
  | FlushWq
  | DestroyWq
  | RegisterWiphy
  | UnregisterWiphy
  | FreeWiphy

text \<open>
  The driver's data.  Interfaces live in the kernel's memory (\<open>vifs\<close>) and are reached by number, so that an
  interface that has been freed can be told; \<open>vif_list\<close> is the driver's own list.  \<open>asked\<close> counts the kernel's
  answers and \<open>events\<close> is what it has been told, the latest first.
\<close>

record 'h mt7697_cfg80211_info =
  hif :: 'h
  txq_hdl :: "nat option"
  rxq_hdl :: "nat option"
  sem :: nat
  destroy_in_progress :: bool
  tx_skb_pool_idx :: nat
  tx_skb_pool :: "sk_buff option list"
  tx_skb_list :: "nat list"
  tx_req :: mt7697_tx_raw_packet
  port_type :: mt7697_port_type
  hw_wireless_mode :: u32
  mac_addr :: "u8 list"
  wifi_cfg :: mt7697_wifi_config_t
  listen_interval :: u32
  vif_list :: "nat list"
  vif_list_lock :: bool
  num_vif :: u8
  vif_start :: int
  vif_max :: u32
  wiphy_registered :: bool
  has_2ghz :: bool
  has_5ghz :: bool
  vifs :: "nat \<Rightarrow> mt7697_vif option"
  next_vif :: nat
  asked :: nat
  events :: "wifi_event list"

type_synonym ('h, 'a) wifi_prog = "('h mt7697_cfg80211_info, 'a) prog"

section \<open>The transport and the kernel\<close>

text \<open>
  The functions of the transport (\<^verbatim>\<open>struct mt7697_if_ops\<close>), null pointers where the transport has none.  A read
  gives its return value and the words it has placed in the buffer.  \<^verbatim>\<open>size_t\<close> results are read as \<^verbatim>\<open>int\<close>, as the
  driver does.
\<close>

record 'h mt7697_if_ops =
  if_init :: "(u8 \<Rightarrow> u8 \<Rightarrow> ('h, int \<times> (nat \<times> nat) option) prog) option"
  if_shutdown :: "(nat option \<Rightarrow> nat option \<Rightarrow> ('h, int \<times> nat option \<times> nat option) prog) option"
  if_unblock_writer :: "(nat \<Rightarrow> ('h, unit) prog) option"
  if_open :: "('h, nat option) prog option"
  if_close :: "(nat option \<Rightarrow> ('h, int) prog) option"
  if_read :: "nat \<Rightarrow> u32 \<Rightarrow> ('h, int \<times> u32 list) prog"
  if_write :: "nat \<Rightarrow> u32 list \<Rightarrow> ('h, int) prog"

text \<open>
  The kernel's answers, each of which can differ from one question to the next, and what the driver finds in
  memory it has not set: \<open>stack_bytes\<close> are the bytes of an uninitialised buffer and \<open>workq_word\<close> the word that is
  read at the place of a packet's length in the work queue.
\<close>

record wifi_env =
  alloc_etherdev_ok :: "nat \<Rightarrow> bool"
  dev_alloc_name_ret :: "nat \<Rightarrow> int"
  register_netdevice_ret :: "nat \<Rightarrow> int"
  wifi_kmalloc_ok :: "nat \<Rightarrow> bool"
  get_bss_ok :: "nat \<Rightarrow> bool"
  inform_bss_ok :: "nat \<Rightarrow> bool"
  netif_rx_ret :: "nat \<Rightarrow> int"
  queue_work_ret :: "nat \<Rightarrow> int"
  down_interrupted :: "nat \<Rightarrow> bool"
  wiphy_register_ret :: "nat \<Rightarrow> int"
  check_station_ret :: "nat \<Rightarrow> int"
  stack_bytes :: "nat \<Rightarrow> u8 list"
  workq_word :: "nat \<Rightarrow> u32"
  channel_to_frequency :: "u32 \<Rightarrow> bool \<Rightarrow> u32"
  frequency_to_channel :: "u32 \<Rightarrow> u32"
  get_channel :: "(nat \<times> u32) list \<Rightarrow> u32 \<Rightarrow> (nat \<times> u32) option"
  realloc_headroom :: "nat \<Rightarrow> nat option"
  is_beacon_or_probe_rsp :: "u16 \<Rightarrow> bool"
  needed_headroom :: nat

abbreviation (input) ERESTARTSYS :: int where "ERESTARTSYS \<equiv> 512"
abbreviation (input) ENOTSUPP :: int where "ENOTSUPP \<equiv> 524"
abbreviation (input) EOPNOTSUPP :: int where "EOPNOTSUPP \<equiv> 95"

definition on_hif :: "('h, 'a) prog \<Rightarrow> ('h, 'a) wifi_prog" where
  "on_hif m = (\<lambda>s. case m (hif s) of None \<Rightarrow> None | Some (r, h) \<Rightarrow> Some (r, s\<lparr>hif := h\<rparr>))"

definition answer :: "(nat \<Rightarrow> 'a) \<Rightarrow> ('h, 'a) wifi_prog" where
  "answer f = (\<lambda>s. Some (Ok (f (asked s)), s\<lparr>asked := Suc (asked s)\<rparr>))"

definition tell :: "wifi_event \<Rightarrow> ('h, unit) wifi_prog" where
  "tell e = modifyP (\<lambda>s. s\<lparr>events := e # events s\<rparr>)"

definition with_vif :: "nat \<Rightarrow> (mt7697_vif \<Rightarrow> ('h, 'a) wifi_prog) \<Rightarrow> ('h, 'a) wifi_prog" where
  "with_vif v k = bindP (getP (\<lambda>s. vifs s v)) (\<lambda>x. case x of
     None \<Rightarrow> haltP (Undefined ''use of a freed interface'') | Some y \<Rightarrow> k y)"

definition upd_vif :: "nat \<Rightarrow> (mt7697_vif \<Rightarrow> mt7697_vif) \<Rightarrow> ('h, unit) wifi_prog" where
  "upd_vif v f = with_vif v (\<lambda>x. modifyP (\<lambda>s. s\<lparr>vifs := (vifs s)(v \<mapsto> f x)\<rparr>))"

text \<open>A copy of the first \<open>n\<close> bytes of \<open>src\<close> over the beginning of \<open>dst\<close>.\<close>

definition memcpy :: "u8 list \<Rightarrow> u8 list \<Rightarrow> nat \<Rightarrow> ('s, u8 list) prog" where
  "memcpy dst src n =
     (if n \<le> length src \<and> n \<le> length dst then returnP (take n src @ drop n dst)
      else haltP (Undefined ''memcpy outside of a buffer''))"

end
