(* ===== verification/Wifi_Requests.thy ===== *)
theory Wifi_Requests
  imports Wifi_Types
begin

text \<open>
  The requests the wireless driver sends to the MT7697 (the \<^verbatim>\<open>mt7697_wr_\<close> functions of \<^verbatim>\<open>wmi.c\<close>): a header
  with the length of the message in bytes, the group and the type, and the fields of the packed structures of
  \<^verbatim>\<open>wmi.h\<close> as words.
\<close>

definition wifi_hdr :: "mt7697_wifi_cmd_types \<Rightarrow> u16 \<Rightarrow> mt7697_cmd_hdr" where
  "wifi_hdr t n = \<lparr>cmd_len = n, cmd_grp = grp_code MT7697_CMD_GRP_80211, cmd_type = wifi_cmd_code t\<rparr>"

text \<open>The call of \<^verbatim>\<open>hif_ops->write\<close> with the test of its result that every request makes.\<close>

definition write_words :: "'h mt7697_if_ops \<Rightarrow> u32 list \<Rightarrow> u32 \<Rightarrow> ('h, unit) wifi_prog" where
  "write_words ops ws len =
     bindP (getP txq_hdl) (\<lambda>q. case q of
       None \<Rightarrow> haltP (Undefined ''write to a null handle'')
     | Some h \<Rightarrow>
         if length ws < unat len then haltP (Undefined ''read behind the end of a request'')
         else bindP (on_hif (if_write ops h (take (unat len) ws))) (\<lambda>ret.
           if ret \<noteq> uint len then throwP (if ret < 0 then ret else - EIO) else returnP ()))"

definition wr_request :: "'h mt7697_if_ops \<Rightarrow> mt7697_cmd_hdr \<Rightarrow> u32 list \<Rightarrow> ('h, unit) wifi_prog" where
  "wr_request ops hdr payload = write_words ops (cmd_word hdr # payload) (LEN_TO_WORD (ucast (cmd_len hdr)))"

text \<open>A buffer of the stack that the function has not set.\<close>

definition uninit :: "wifi_env \<Rightarrow> nat \<Rightarrow> ('h, u8 list) wifi_prog" where
  "uninit env n = bindP (answer (stack_bytes env)) (\<lambda>bs. returnP (take n (bs @ replicate n 0)))"

definition mt7697_wr_get_wireless_mode_req :: "'h mt7697_if_ops \<Rightarrow> ('h, unit) wifi_prog" where
  "mt7697_wr_get_wireless_mode_req ops = bindP (getP port_type) (\<lambda>p.
     wr_request ops (wifi_hdr MT7697_CMD_GET_WIRELESS_MODE_REQ 8) [port_code p])"

definition mt7697_wr_set_wireless_mode_req :: "'h mt7697_if_ops \<Rightarrow> u8 \<Rightarrow> ('h, unit) wifi_prog" where
  "mt7697_wr_set_wireless_mode_req ops mode = bindP (getP port_type) (\<lambda>p.
     wr_request ops (wifi_hdr MT7697_CMD_SET_WIRELESS_MODE_REQ 12) [port_code p, ucast mode])"

text \<open>The key is sent as text: two hexadecimal digits a byte (\<^verbatim>\<open>%02x\<close>).\<close>

definition hex_digit :: "u8 \<Rightarrow> u8" where
  "hex_digit d = (if d < 10 then d + 48 else d + 87)"

definition hex_byte :: "u8 \<Rightarrow> u8 list" where
  "hex_byte b = [hex_digit (b div 16), hex_digit (b mod 16)]"

definition mt7697_wr_set_pmk_req :: "'h mt7697_if_ops \<Rightarrow> u8 list \<Rightarrow> ('h, unit) wifi_prog" where
  "mt7697_wr_set_pmk_req ops key =
     (if length key < MT7697_WIFI_LENGTH_PMK then haltP (Undefined ''read behind the end of the key'')
      else bindP (getP port_type) (\<lambda>p.
        wr_request ops (wifi_hdr MT7697_CMD_SET_PMK_REQ 72)
          (port_code p # bytes_words (concat (map hex_byte (take MT7697_WIFI_LENGTH_PMK key))))))"

definition mt7697_wr_set_channel_req :: "'h mt7697_if_ops \<Rightarrow> u8 \<Rightarrow> ('h, unit) wifi_prog" where
  "mt7697_wr_set_channel_req ops ch = bindP (getP port_type) (\<lambda>p.
     wr_request ops (wifi_hdr MT7697_CMD_SET_CHANNEL_REQ 12) [port_code p, ucast ch])"

definition mt7697_wr_set_bssid_req :: "'h mt7697_if_ops \<Rightarrow> wifi_env \<Rightarrow> u8 list \<Rightarrow> ('h, unit) wifi_prog" where
  "mt7697_wr_set_bssid_req ops env addr =
     bindP (uninit env 8) (\<lambda>buf.
     bindP (memcpy buf addr ETH_ALEN) (\<lambda>bs.
     wr_request ops (wifi_hdr MT7697_CMD_SET_BSSID_REQ 12) (bytes_words bs)))"

definition mt7697_wr_set_ssid_req :: "'h mt7697_if_ops \<Rightarrow> wifi_env \<Rightarrow> u8 \<Rightarrow> u8 list \<Rightarrow> ('h, unit) wifi_prog" where
  "mt7697_wr_set_ssid_req ops env len name =
     bindP (getP port_type) (\<lambda>p.
     bindP (uninit env 32) (\<lambda>buf.
     bindP (memcpy buf name (unat len)) (\<lambda>bs.
     wr_request ops (wifi_hdr MT7697_CMD_SET_SSID_REQ 44) (port_code p # ucast len # bytes_words bs))))"

definition mt7697_wr_reload_settings_req :: "'h mt7697_if_ops \<Rightarrow> u8 \<Rightarrow> ('h, unit) wifi_prog" where
  "mt7697_wr_reload_settings_req ops if_idx =
     wr_request ops (wifi_hdr MT7697_CMD_RELOAD_SETTINGS_REQ 8) [ucast if_idx]"

definition mt7697_wr_mac_addr_req :: "'h mt7697_if_ops \<Rightarrow> ('h, unit) wifi_prog" where
  "mt7697_wr_mac_addr_req ops = bindP (getP port_type) (\<lambda>p.
     wr_request ops (wifi_hdr MT7697_CMD_MAC_ADDR_REQ 8) [port_code p])"

definition mt7697_wr_set_op_mode_req :: "'h mt7697_if_ops \<Rightarrow> ('h, unit) wifi_prog" where
  "mt7697_wr_set_op_mode_req ops = bindP (getP (\<lambda>s. opmode (wifi_cfg s))) (\<lambda>m.
     wr_request ops (wifi_hdr MT7697_CMD_SET_OP_MODE_REQ 8) [ucast m])"

definition mt7697_wr_cfg_req :: "'h mt7697_if_ops \<Rightarrow> ('h, unit) wifi_prog" where
  "mt7697_wr_cfg_req ops = wr_request ops (wifi_hdr MT7697_CMD_GET_CFG_REQ 4) []"

definition mt7697_wr_get_listen_interval_req :: "'h mt7697_if_ops \<Rightarrow> ('h, unit) wifi_prog" where
  "mt7697_wr_get_listen_interval_req ops = wr_request ops (wifi_hdr MT7697_CMD_GET_LISTEN_INTERVAL_REQ 4) []"

definition mt7697_wr_set_listen_interval_req :: "'h mt7697_if_ops \<Rightarrow> u32 \<Rightarrow> ('h, unit) wifi_prog" where
  "mt7697_wr_set_listen_interval_req ops interval =
     wr_request ops (wifi_hdr MT7697_CMD_SET_LISTEN_INTERVAL_REQ 8) [interval]"

definition mt7697_wr_set_security_mode_req :: "'h mt7697_if_ops \<Rightarrow> u8 \<Rightarrow> u8 \<Rightarrow> ('h, unit) wifi_prog" where
  "mt7697_wr_set_security_mode_req ops auth encrypt_type = bindP (getP port_type) (\<lambda>p.
     wr_request ops (wifi_hdr MT7697_CMD_SET_SECURITY_MODE_REQ 16) [port_code p, ucast auth, ucast encrypt_type])"

definition mt7697_wr_get_security_mode_req :: "'h mt7697_if_ops \<Rightarrow> u32 \<Rightarrow> ('h, unit) wifi_prog" where
  "mt7697_wr_get_security_mode_req ops if_idx = bindP (getP port_type) (\<lambda>p.
     wr_request ops (wifi_hdr MT7697_CMD_GET_SECURITY_MODE_REQ 12) [if_idx, port_code p])"

text \<open>
  A scan request of the kernel is its list of network names; only the first is sent.  The structure is cleared
  first: no BSSID, full mode (0), forced active option (2).
\<close>

definition mt7697_wr_scan_req :: "'h mt7697_if_ops \<Rightarrow> u32 \<Rightarrow> u8 list list \<Rightarrow> ('h, unit) wifi_prog" where
  "mt7697_wr_scan_req ops if_idx ssids =
     bindP (case ssids of [] \<Rightarrow> returnP (0, replicate 32 0)
       | name # _ \<Rightarrow> bindP (memcpy (replicate 32 0) name (length name)) (\<lambda>bs. returnP (word_of_nat (length name), bs)))
     (\<lambda>(n, bs). wr_request ops (wifi_hdr MT7697_CMD_SCAN_REQ 64) ([if_idx, 0, 2, 0, 0, 0, n] @ bytes_words bs))"

definition mt7697_wr_scan_stop_req :: "'h mt7697_if_ops \<Rightarrow> ('h, unit) wifi_prog" where
  "mt7697_wr_scan_stop_req ops = wr_request ops (wifi_hdr MT7697_CMD_SCAN_STOP 4) []"

text \<open>With the address of a station the request is for the access point's port.\<close>

definition mt7697_wr_disconnect_req :: "'h mt7697_if_ops \<Rightarrow> u8 list option \<Rightarrow> ('h, unit) wifi_prog" where
  "mt7697_wr_disconnect_req ops addr =
     bindP (case addr of None \<Rightarrow> returnP (MT7697_PORT_STA, replicate 8 0)
       | Some a \<Rightarrow> bindP (memcpy (replicate 8 0) a ETH_ALEN) (\<lambda>bs. returnP (MT7697_PORT_AP, bs)))
     (\<lambda>(p, bs). wr_request ops (wifi_hdr MT7697_CMD_DISCONNECT_REQ 16) (port_code p # bytes_words bs))"

text \<open>
  A packet goes through the buffer of the device; the words behind its last byte are those of earlier packets.
\<close>

definition mt7697_wr_tx_raw_packet :: "'h mt7697_if_ops \<Rightarrow> u8 list \<Rightarrow> u32 \<Rightarrow> ('h, unit) wifi_prog" where
  "mt7697_wr_tx_raw_packet ops data len =
     bindP (getP tx_req) (\<lambda>r.
     bindP (memcpy (txr_data r) data (unat len)) (\<lambda>bs.
     let hdr = (txr_hdr r)\<lparr>cmd_len := ucast (4 + 4 + len)\<rparr> in
     seqP (modifyP (\<lambda>s. s\<lparr>tx_req := \<lparr>txr_hdr = hdr, txr_len = len, txr_data = bs\<rparr>\<rparr>))
     (write_words ops (cmd_word hdr # len # bytes_words bs) (LEN_TO_WORD (LEN32_ALIGNED (ucast (cmd_len hdr)))))))"

end
