(* ===== verification/Wifi_Tx.thy ===== *)
theory Wifi_Tx
  imports Wifi_Requests
begin

text \<open>
  Packets between the kernel and the MT7697 (\<^verbatim>\<open>txrx.c\<close>): a pool of 256 entries used in turn, the list of the
  entries that wait to be sent, and the delivery of received frames.
\<close>

section \<open>The interface of an index (cfg80211.c)\<close>

definition vif_list_acquire :: "('h, unit) wifi_prog" where
  "vif_list_acquire = bindP (getP vif_list_lock) (\<lambda>held.
     if held then divergeP else modifyP (\<lambda>s. s\<lparr>vif_list_lock := True\<rparr>))"

definition vif_list_release :: "('h, unit) wifi_prog" where
  "vif_list_release = modifyP (\<lambda>s. s\<lparr>vif_list_lock := False\<rparr>)"

fun find_vif :: "u32 \<Rightarrow> nat list \<Rightarrow> ('h, nat option) wifi_prog" where
  "find_vif if_idx [] = returnP None"
| "find_vif if_idx (v # vs) = with_vif v (\<lambda>x.
     if ucast (fw_vif_idx x) = if_idx then returnP (Some v) else find_vif if_idx vs)"

definition mt7697_get_vif_by_idx :: "u32 \<Rightarrow> ('h, nat option) wifi_prog" where
  "mt7697_get_vif_by_idx if_idx =
     bindP (getP vif_max) (\<lambda>m.
     if if_idx > m - 1 then returnP None
     else seqP vif_list_acquire
       (bindP (bindP (getP vif_list) (find_vif if_idx)) (\<lambda>found.
        seqP vif_list_release (returnP found))))"

section \<open>Sending\<close>

definition upd_stats :: "nat \<Rightarrow> (net_device_stats \<Rightarrow> net_device_stats) \<Rightarrow> ('h, unit) wifi_prog" where
  "upd_stats v f = upd_vif v (\<lambda>x. x\<lparr>net_stats := f (net_stats x)\<rparr>)"

text \<open>
  The queue reports free space.  What is looked at is not the first packet but the head of the list itself, taken
  for an entry of the pool: behind it lies the pointer to the work queue, taken for the packet.
\<close>

definition mt7697_notify_tx :: "'h mt7697_if_ops \<Rightarrow> wifi_env \<Rightarrow> u32 \<Rightarrow> ('h, int) wifi_prog" where
  "mt7697_notify_tx ops env free =
     bindP (getP (\<lambda>s. (tx_skb_list s, txq_hdl s))) (\<lambda>(pkts, q).
     if pkts = [] then returnP 0
     else bindP (answer (workq_word env)) (\<lambda>len.
       if len \<ge> free then
         (case if_unblock_writer ops of
            None \<Rightarrow> haltP (Undefined ''call of a null unblock_writer'')
          | Some f \<Rightarrow> (case q of
              None \<Rightarrow> haltP (Undefined ''unblock of a null handle'')
            | Some h \<Rightarrow> seqP (on_hif (f h)) (bindP (answer (queue_work_ret env)) (\<lambda>ret. seqP (tell QueueTx) (returnP ret)))))
       else returnP 0))"

abbreviation (input) NETDEV_TX_OK :: int where "NETDEV_TX_OK \<equiv> 0"
abbreviation (input) NETDEV_TX_BUSY :: int where "NETDEV_TX_BUSY \<equiv> 16"

text \<open>The end of a transmission that is given up: the packet is freed whatever is returned.\<close>

definition drop_packet :: "nat \<Rightarrow> nat option \<Rightarrow> int \<Rightarrow> ('h, int) wifi_prog" where
  "drop_packet v skb ret =
     seqP (upd_stats v (\<lambda>t. t\<lparr>tx_dropped := tx_dropped t + 1, tx_aborted_errors := tx_aborted_errors t + 1\<rparr>))
     (seqP (case skb of None \<Rightarrow> returnP () | Some i \<Rightarrow> tell (FreeSkb i)) (returnP ret))"

text \<open>Enough headroom: a packet without it is replaced by a copy, for which memory may be missing.\<close>

definition with_headroom :: "wifi_env \<Rightarrow> sk_buff \<Rightarrow> ('h, sk_buff option) wifi_prog" where
  "with_headroom env skb =
     (if skb_headroom skb < needed_headroom env then
        bindP (answer (realloc_headroom env)) (\<lambda>copy.
        seqP (tell (FreeSkb (skb_id skb)))
        (returnP (map_option (\<lambda>i. skb\<lparr>skb_id := i, skb_headroom := needed_headroom env\<rparr>) copy)))
      else returnP (Some skb))"

definition enqueue_packet :: "wifi_env \<Rightarrow> nat \<Rightarrow> sk_buff \<Rightarrow> ('h, int) wifi_prog" where
  "enqueue_packet env v skb =
     bindP (getP (\<lambda>s. (tx_skb_pool_idx s, tx_skb_pool s))) (\<lambda>(i, pool).
     if pool ! i \<noteq> None then drop_packet v (Some (skb_id skb)) NETDEV_TX_BUSY
     else
       seqP (modifyP (\<lambda>s. s\<lparr>tx_skb_pool := pool[i := Some skb],
         tx_skb_pool_idx := (if i + 1 \<ge> MT7697_TX_PKT_POOL_LEN then 0 else i + 1),
         tx_skb_list := tx_skb_list s @ [i]\<rparr>))
       (bindP (answer (queue_work_ret env)) (\<lambda>ret.
        seqP (tell QueueTx)
        (if ret < 0 then drop_packet v (Some (skb_id skb)) NETDEV_TX_BUSY else returnP NETDEV_TX_OK))))"

definition mt7697_data_tx :: "wifi_env \<Rightarrow> sk_buff \<Rightarrow> nat \<Rightarrow> ('h, int) wifi_prog" where
  "mt7697_data_tx env skb v =
     bindP (with_headroom env skb) (\<lambda>r. case r of
       None \<Rightarrow> drop_packet v None 0
     | Some skb' \<Rightarrow> enqueue_packet env v skb')"

abbreviation (input) sizeof_ieee80211_hdr :: nat where "sizeof_ieee80211_hdr \<equiv> 30"

text \<open>One packet of the work item: sent, counted, unlinked and moved to the queue that is purged at the end.\<close>

definition pool_packet :: "nat \<Rightarrow> ('h, sk_buff) wifi_prog" where
  "pool_packet i = bindP (getP (\<lambda>s. tx_skb_pool s ! i)) (\<lambda>p. case p of
     None \<Rightarrow> haltP (Undefined ''dev of a null packet'') | Some skb \<Rightarrow> returnP skb)"

definition tx_work_packet :: "'h mt7697_if_ops \<Rightarrow> nat \<Rightarrow> ('h, nat) wifi_prog" where
  "tx_work_packet ops i =
     bindP (pool_packet i) (\<lambda>skb.
     let v = skb_dev skb; n = length (skb_data skb) in
     seqP (whenP (n < sizeof_ieee80211_hdr) (upd_stats v (\<lambda>t. t\<lparr>tx_errors := tx_errors t + 1\<rparr>)))
     (seqP (tryP (mt7697_wr_tx_raw_packet ops (skb_data skb) (word_of_nat n))
        (\<lambda>_. upd_stats v (\<lambda>t. t\<lparr>tx_errors := tx_errors t + 1\<rparr>)) (\<lambda>_. returnP ()))
     (seqP (upd_stats v (\<lambda>t. t\<lparr>tx_packets := tx_packets t + 1, tx_bytes := tx_bytes t + word_of_nat n\<rparr>))
     (seqP (modifyP (\<lambda>s. s\<lparr>tx_skb_list := remove1 i (tx_skb_list s), tx_skb_pool := (tx_skb_pool s)[i := None]\<rparr>))
     (returnP (skb_id skb))))))"

fun tx_work_packets :: "'h mt7697_if_ops \<Rightarrow> nat list \<Rightarrow> ('h, nat list) wifi_prog" where
  "tx_work_packets ops [] = returnP []"
| "tx_work_packets ops (i # is) =
     bindP (tx_work_packet ops i) (\<lambda>id. bindP (tx_work_packets ops is) (\<lambda>ids. returnP (id # ids)))"

definition mt7697_tx_work :: "'h mt7697_if_ops \<Rightarrow> ('h, unit) wifi_prog" where
  "mt7697_tx_work ops =
     bindP (bindP (getP tx_skb_list) (tx_work_packets ops)) (foreachP (\<lambda>i. tell (FreeSkb i)))"

text \<open>Stopping unlinks the waiting packets; their entries in the pool stay taken.\<close>

definition tx_stop_packet :: "nat \<Rightarrow> ('h, unit) wifi_prog" where
  "tx_stop_packet i =
     bindP (pool_packet i) (\<lambda>skb.
     seqP (upd_stats (skb_dev skb) (\<lambda>t. t\<lparr>tx_dropped := tx_dropped t + 1\<rparr>))
     (modifyP (\<lambda>s. s\<lparr>tx_skb_list := remove1 i (tx_skb_list s)\<rparr>)))"

definition mt7697_tx_stop :: "('h, unit) wifi_prog" where
  "mt7697_tx_stop = bindP (getP tx_skb_list) (foreachP tx_stop_packet)"

section \<open>Receiving\<close>

abbreviation (input) NET_RX_DROP :: int where "NET_RX_DROP \<equiv> 1"

text \<open>
  The cleanup counts an error in the statistics of the interface, which is the null pointer when the index is
  unknown.  \<open>data\<close> is \<^verbatim>\<open>cfg->rx_data\<close>.
\<close>

definition rx_failed :: "nat option \<Rightarrow> int \<Rightarrow> ('h, int) wifi_prog" where
  "rx_failed v e = (case v of
     None \<Rightarrow> haltP (Undefined ''statistics of a null interface'')
   | Some i \<Rightarrow> seqP (upd_stats i (\<lambda>t. t\<lparr>rx_dropped := rx_dropped t + 1, rx_errors := rx_errors t + 1\<rparr>)) (throwP e))"

definition deliver_frame :: "wifi_env \<Rightarrow> nat \<Rightarrow> u8 list \<Rightarrow> ('h, int) wifi_prog" where
  "deliver_frame env v frame =
     seqP (upd_stats v (\<lambda>t. t\<lparr>rx_packets := rx_packets t + 1, rx_bytes := rx_bytes t + word_of_nat (length frame)\<rparr>))
     (bindP (answer (netif_rx_ret env)) (\<lambda>ret.
      seqP (tell (RxFrame v frame))
      (if ret = NET_RX_DROP then seqP (upd_stats v (\<lambda>t. t\<lparr>rx_dropped := rx_dropped t + 1\<rparr>)) (returnP 0)
       else if ret < 0 then rx_failed (Some v) ret else returnP ret)))"

definition mt7697_rx_data :: "wifi_env \<Rightarrow> u8 list \<Rightarrow> u32 \<Rightarrow> u32 \<Rightarrow> ('h, int) wifi_prog" where
  "mt7697_rx_data env data len if_idx =
     bindP (mt7697_get_vif_by_idx if_idx) (\<lambda>r. case r of
       None \<Rightarrow> rx_failed None (- EINVAL)
     | Some v \<Rightarrow> with_vif v (\<lambda>x.
         if \<not> dev_up x then rx_failed (Some v) (- EINVAL)
         else if unat len < sizeof_ieee80211_hdr \<or> unat len > IEEE80211_MAX_FRAME_LEN then
           seqP (upd_stats v (\<lambda>t. t\<lparr>rx_length_errors := rx_length_errors t + 1\<rparr>))
           (rx_failed (Some v) (- EINVAL))
         else bindP (answer (wifi_kmalloc_ok env)) (\<lambda>ok.
           if \<not> ok then rx_failed (Some v) (- ENOMEM)
           else deliver_frame env v (take (unat len) data))))"

end
