(* ===== verification/Wifi_Cfg80211.thy ===== *)
theory Wifi_Cfg80211
  imports Wifi_Tx
begin

text \<open>
  The configuration interface of the wireless driver (\<^verbatim>\<open>cfg80211.c\<close>, with opening, stopping and disconnecting
  from \<^verbatim>\<open>main.c\<close>): channels, security settings, interfaces, stations, scans and connections.
\<close>

section \<open>Channels and rates\<close>

text \<open>The tables give the number and the frequency of each channel.\<close>

definition mt7697_2ghz_channels :: "(nat \<times> u32) list" where
  "mt7697_2ghz_channels = [(1, 2412), (2, 2417), (3, 2422), (4, 2427), (5, 2432), (6, 2437), (7, 2442), (8, 2447),
     (9, 2452), (10, 2457), (11, 2462), (12, 2467), (13, 2472), (14, 2484)]"

definition mt7697_5ghz_a_channels :: "(nat \<times> u32) list" where
  "mt7697_5ghz_a_channels = [(36, 5180), (40, 5200), (44, 5220), (48, 5240), (52, 5260), (56, 5280), (60, 5300),
     (64, 5320), (100, 5500), (104, 5520), (108, 5540), (112, 5560), (116, 5580), (120, 5600), (124, 5620),
     (128, 5640), (132, 5660), (136, 5680), (140, 5700), (149, 5745), (153, 5765), (157, 5785), (161, 5805), (165, 5825)]"

text \<open>The bands of the device; \<open>band_of\<close> is the choice that scans and connections make from the channel number.\<close>

definition wiphy_channels :: "('h, (nat \<times> u32) list) wifi_prog" where
  "wiphy_channels = getP (\<lambda>s. (if has_2ghz s then mt7697_2ghz_channels else []) @ (if has_5ghz s then mt7697_5ghz_a_channels else []))"

definition band_of :: "u32 \<Rightarrow> bool option" where
  "band_of ch = (if ch > 0 \<and> ch \<le> 14 then Some False else if ch \<ge> 34 \<and> ch \<le> 216 then Some True else None)"

definition has_band :: "bool \<Rightarrow> ('h, bool) wifi_prog" where
  "has_band band = getP (if band then has_5ghz else has_2ghz)"

definition mt7697_rates :: "(nat \<times> nat) list" where
  "mt7697_rates = [(10, 0x1), (20, 0x2), (55, 0x4), (110, 0x8), (60, 0x10), (90, 0x20), (120, 0x40), (180, 0x80),
     (240, 0x100), (360, 0x200), (480, 0x400), (540, 0x800)]"

definition mt7697_a_rates :: "(nat \<times> nat) list" where
  "mt7697_a_rates = take 8 (drop 4 mt7697_rates)"

section \<open>Security settings\<close>

abbreviation (input) WLAN_AKM_SUITE_8021X :: u32 where "WLAN_AKM_SUITE_8021X \<equiv> 0x000FAC01"
abbreviation (input) WLAN_AKM_SUITE_PSK :: u32 where "WLAN_AKM_SUITE_PSK \<equiv> 0x000FAC02"
abbreviation (input) WLAN_CIPHER_SUITE_TKIP :: u32 where "WLAN_CIPHER_SUITE_TKIP \<equiv> 0x000FAC02"
abbreviation (input) WLAN_CIPHER_SUITE_CCMP :: u32 where "WLAN_CIPHER_SUITE_CCMP \<equiv> 0x000FAC04"

definition mt7697_set_key_mgmt :: "nat \<Rightarrow> u32 \<Rightarrow> ('h, unit) wifi_prog" where
  "mt7697_set_key_mgmt v key_mgmt =
     (if key_mgmt = WLAN_AKM_SUITE_PSK then upd_vif v (\<lambda>x.
        if auth_mode x = MT7697_WIFI_AUTH_MODE_WPA then x\<lparr>auth_mode := MT7697_WIFI_AUTH_MODE_WPA_PSK\<rparr>
        else if auth_mode x = MT7697_WIFI_AUTH_MODE_WPA2 then x\<lparr>auth_mode := MT7697_WIFI_AUTH_MODE_WPA2_PSK\<rparr> else x)
      else if key_mgmt = 0x00409600 then throwP (- ENOTSUPP)
      else if key_mgmt \<noteq> WLAN_AKM_SUITE_8021X then upd_vif v (\<lambda>x. x\<lparr>auth_mode := MT7697_WIFI_AUTH_MODE_OPEN\<rparr>)
      else returnP ())"

definition set_crypto :: "nat \<Rightarrow> bool \<Rightarrow> u8 \<Rightarrow> ('h, unit) wifi_prog" where
  "set_crypto v unicast c = upd_vif v (\<lambda>x.
     if unicast then x\<lparr>prwise_crypto := c, prwise_crypto_len := 0\<rparr> else x\<lparr>grp_crypto := c, grp_crypto_len := 0\<rparr>)"

definition mt7697_set_cipher :: "nat \<Rightarrow> u32 \<Rightarrow> bool \<Rightarrow> ('h, unit) wifi_prog" where
  "mt7697_set_cipher v cipher unicast =
     (if cipher = 0 then set_crypto v unicast MT7697_WIFI_ENCRYPT_TYPE_ENCRYPT_DISABLED
      else if cipher = WLAN_CIPHER_SUITE_TKIP then set_crypto v unicast MT7697_WIFI_ENCRYPT_TYPE_TKIP_ENABLED
      else if cipher = WLAN_CIPHER_SUITE_CCMP then set_crypto v unicast MT7697_WIFI_ENCRYPT_TYPE_AES_ENABLED
      else throwP (- ENOTSUPP))"

definition mt7697_set_wpa_version :: "nat \<Rightarrow> u32 \<Rightarrow> ('h, unit) wifi_prog" where
  "mt7697_set_wpa_version v wpa =
     (if wpa = 0 then upd_vif v (\<lambda>x. x\<lparr>auth_mode := MT7697_WIFI_AUTH_MODE_OPEN\<rparr>)
      else if wpa AND 2 \<noteq> 0 then upd_vif v (\<lambda>x. x\<lparr>auth_mode := MT7697_WIFI_AUTH_MODE_WPA2\<rparr>)
      else if wpa AND 1 \<noteq> 0 then upd_vif v (\<lambda>x. x\<lparr>auth_mode := MT7697_WIFI_AUTH_MODE_WPA\<rparr>)
      else throwP (- ENOTSUPP))"

section \<open>Scan results and connections\<close>

text \<open>True when the kernel knows the BSS or has taken a partial entry for it.\<close>

definition mt7697_add_bss_if_needed :: "wifi_env \<Rightarrow> nat \<Rightarrow> u8 list \<Rightarrow> u32 \<Rightarrow> ('h, bool) wifi_prog" where
  "mt7697_add_bss_if_needed env v addr freq =
     bindP wiphy_channels (\<lambda>cs.
     if get_channel env cs freq = None then returnP False
     else bindP (answer (get_bss_ok env)) (\<lambda>known.
       if known then returnP True
       else bindP (answer (wifi_kmalloc_ok env)) (\<lambda>ok.
         if \<not> ok then returnP False
         else with_vif v (\<lambda>x.
           bindP (answer (inform_bss_ok env)) (\<lambda>taken.
           seqP (tell (InformBss freq (0 # word_of_int (ssid_len x) # take (nat (ssid_len x)) (ssid x))))
           (returnP taken))))))"

definition report_connected :: "nat \<Rightarrow> u8 list \<Rightarrow> ('h, unit) wifi_prog" where
  "report_connected v addr =
     with_vif v (\<lambda>x.
     if sme_state x = SME_CONNECTED then tell (Roamed v)
     else bindP (memcpy (bssid x) addr ETH_ALEN) (\<lambda>bs.
       seqP (upd_vif v (\<lambda>y. y\<lparr>sme_state := SME_CONNECTED, bssid := bs\<rparr>)) (tell (ConnectResult v (take ETH_ALEN addr) True))))"

definition connected_on :: "wifi_env \<Rightarrow> nat \<Rightarrow> u8 list \<Rightarrow> u32 \<Rightarrow> bool \<Rightarrow> ('h, unit) wifi_prog" where
  "connected_on env v addr channel band =
     bindP (has_band band) (\<lambda>present.
     if \<not> present then throwP (- EINVAL)
     else if channel_to_frequency env channel band = 0 then throwP (- EINVAL)
     else bindP (mt7697_add_bss_if_needed env v addr (channel_to_frequency env channel band)) (\<lambda>known.
       if \<not> known then throwP (- EINVAL)
       else seqP (report_connected v addr) (seqP (tell (WakeQueue v)) (tell (CarrierOn v)))))"

definition mt7697_cfg80211_connect_event :: "wifi_env \<Rightarrow> nat \<Rightarrow> u8 list \<Rightarrow> u32 \<Rightarrow> ('h, unit) wifi_prog" where
  "mt7697_cfg80211_connect_event env v addr channel =
     seqP (upd_vif v (\<lambda>x. x\<lparr>vif_flags := insert CONNECTED (vif_flags x) - {CONNECT_PEND}\<rparr>))
     (case band_of channel of None \<Rightarrow> throwP (- EINVAL) | Some band \<Rightarrow> connected_on env v addr channel band)"

text \<open>A disconnection the kernel has asked for (\<^verbatim>\<open>main.c\<close>).\<close>

definition report_disconnected :: "nat \<Rightarrow> ('h, unit) wifi_prog" where
  "report_disconnected v = with_vif v (\<lambda>x. case sme_state x of
     SME_CONNECTING \<Rightarrow> tell (ConnectResult v (bssid x) False)
   | SME_CONNECTED \<Rightarrow> tell (Disconnected v)
   | SME_DISCONNECTED \<Rightarrow> returnP ())"

definition mt7697_disconnect :: "'h mt7697_if_ops \<Rightarrow> nat \<Rightarrow> ('h, unit) wifi_prog" where
  "mt7697_disconnect ops v =
     seqP (upd_vif v (\<lambda>x. x\<lparr>locally_generated := True\<rparr>))
     (with_vif v (\<lambda>x.
      if CONNECTED \<in> vif_flags x \<or> CONNECT_PEND \<in> vif_flags x then
        seqP (report_disconnected v)
        (seqP (mt7697_wr_disconnect_req ops None)
        (upd_vif v (\<lambda>y. y\<lparr>vif_flags := vif_flags y - {CONNECT_PEND}\<rparr>)))
      else returnP ()))"

definition clear_ssid :: "nat \<Rightarrow> ('h, unit) wifi_prog" where
  "clear_ssid v = upd_vif v (\<lambda>x. x\<lparr>ssid := replicate IEEE80211_MAX_SSID_LEN 0, ssid_len := 0\<rparr>)"

text \<open>The semaphore is given back even when it has not been taken.\<close>

definition mt7697_cfg80211_disconnect :: "'h mt7697_if_ops \<Rightarrow> wifi_env \<Rightarrow> nat \<Rightarrow> ('h, unit) wifi_prog" where
  "mt7697_cfg80211_disconnect ops env v =
     finallyP (bindP (answer (down_interrupted env)) (\<lambda>interrupted.
       if interrupted then throwP (- ERESTARTSYS)
       else bindP (getP sem) (\<lambda>n. if n = 0 then divergeP else
         seqP (modifyP (\<lambda>s. s\<lparr>sem := sem s - 1\<rparr>))
         (bindP (getP destroy_in_progress) (\<lambda>busy.
          if busy then throwP (- EBUSY)
          else seqP (upd_vif v (\<lambda>x. x\<lparr>reconnect_flag := 0\<rparr>))
            (seqP (mt7697_disconnect ops v) (clear_ssid v)))))))
     (\<lambda>s. s\<lparr>sem := sem s + 1\<rparr>)"

definition mt7697_cfg80211_disconnect_work :: "'h mt7697_if_ops \<Rightarrow> nat \<Rightarrow> ('h, unit) wifi_prog" where
  "mt7697_cfg80211_disconnect_work ops v = tryP (mt7697_disconnect ops v) (\<lambda>_. returnP ()) (\<lambda>_. clear_ssid v)"

definition mt7697_disconnect_timer_hndlr :: "nat \<Rightarrow> ('h, unit) wifi_prog" where
  "mt7697_disconnect_timer_hndlr v = tell (QueueDisconnect v)"

definition mt7697_cfg80211_join_ibss :: "nat \<Rightarrow> u8 list \<Rightarrow> ('h, unit) wifi_prog" where
  "mt7697_cfg80211_join_ibss v name =
     with_vif v (\<lambda>x. bindP (memcpy (ssid x) name (length name)) (\<lambda>bs.
       upd_vif v (\<lambda>y. y\<lparr>ssid_len := int (length name), ssid := bs\<rparr>)))"

definition mt7697_cfg80211_leave_ibss :: "'h mt7697_if_ops \<Rightarrow> nat \<Rightarrow> ('h, unit) wifi_prog" where
  "mt7697_cfg80211_leave_ibss ops v = tryP (mt7697_disconnect ops v) (\<lambda>_. clear_ssid v) (\<lambda>_. clear_ssid v)"

text \<open>A scan request of the kernel has a number and a list of names.\<close>

definition mt7697_cfg80211_scan :: "'h mt7697_if_ops \<Rightarrow> nat \<Rightarrow> nat \<Rightarrow> u8 list list \<Rightarrow> ('h, unit) wifi_prog" where
  "mt7697_cfg80211_scan ops v request ssids =
     (let no_scan = (\<lambda>e. seqP (upd_vif v (\<lambda>x. x\<lparr>scan_req := None\<rparr>)) (throwP e)) in
      with_vif v (\<lambda>x.
      if CONNECTED \<in> vif_flags x then no_scan (- EINVAL)
      else seqP (whenP (CONNECT_PEND \<in> vif_flags x) (tell (ConnectResult v (req_bssid x) False)))
        (seqP (upd_vif v (\<lambda>y. y\<lparr>scan_req := Some request\<rparr>))
        (tryP (mt7697_wr_scan_req ops (ucast (fw_vif_idx x)) ssids) no_scan returnP))))"

section \<open>Stations of an access point\<close>

definition sta_acquire :: "nat \<Rightarrow> ('h, unit) wifi_prog" where
  "sta_acquire v = with_vif v (\<lambda>x. if sta_list_lock x then divergeP else upd_vif v (\<lambda>y. y\<lparr>sta_list_lock := True\<rparr>))"

definition sta_release :: "nat \<Rightarrow> ('h, unit) wifi_prog" where
  "sta_release v = with_vif v (\<lambda>x.
     if \<not> sta_list_lock x then haltP (Undefined ''unlock of a free spin lock'')
     else upd_vif v (\<lambda>y. y\<lparr>sta_list_lock := False\<rparr>))"

definition mt7697_cfg80211_new_sta :: "wifi_env \<Rightarrow> nat \<Rightarrow> u8 list \<Rightarrow> ('h, unit) wifi_prog" where
  "mt7697_cfg80211_new_sta env v addr =
     with_vif v (\<lambda>x.
     if sta_count x > sta_max x then throwP (- EINVAL)
     else bindP (answer (wifi_kmalloc_ok env)) (\<lambda>ok.
       if \<not> ok then throwP (- ENOMEM)
       else seqP (sta_acquire v)
         (seqP (upd_vif v (\<lambda>y. y\<lparr>sta_list := sta_list y @ [take ETH_ALEN addr], sta_count := sta_count y + 1\<rparr>))
         (sta_release v))))"

text \<open>The error of the request goes to the cleanup, which unlocks a second time.\<close>

definition mt7697_cfg80211_del_sta :: "'h mt7697_if_ops \<Rightarrow> nat \<Rightarrow> u8 list \<Rightarrow> ('h, unit) wifi_prog" where
  "mt7697_cfg80211_del_sta ops v addr =
     seqP (sta_acquire v)
     (with_vif v (\<lambda>x.
      if take ETH_ALEN addr \<notin> set (sta_list x) then seqP (sta_release v) (throwP (- EINVAL))
      else seqP (sta_release v)
        (tryP (mt7697_wr_disconnect_req ops (Some (take ETH_ALEN addr)))
          (\<lambda>e. seqP (sta_release v) (throwP e))
          (\<lambda>_. seqP (sta_acquire v)
            (seqP (upd_vif v (\<lambda>y. y\<lparr>sta_list := remove1 (take ETH_ALEN addr) (sta_list y), sta_count := sta_count y - 1\<rparr>))
            (sta_release v))))))"

section \<open>Opening and stopping an interface\<close>

definition mt7697_open :: "'h mt7697_if_ops \<Rightarrow> nat \<Rightarrow> ('h, unit) wifi_prog" where
  "mt7697_open ops v =
     (let up = seqP (upd_vif v (\<lambda>x. x\<lparr>vif_flags := insert WLAN_ENABLED (vif_flags x)\<rparr>))
       (with_vif v (\<lambda>x. seqP (tell (CarrierOn v)) (whenP (CONNECTED \<in> vif_flags x) (tell (WakeQueue v))))) in
      bindP (getP (\<lambda>s. (txq_hdl s, rxq_hdl s))) (\<lambda>(tx, rx).
      if rx = None \<and> tx = None then
        (case if_open ops of
           None \<Rightarrow> haltP (Undefined ''call of a null open'')
         | Some f \<Rightarrow> bindP (on_hif f) (\<lambda>h.
             seqP (modifyP (\<lambda>s. s\<lparr>txq_hdl := h\<rparr>))
             (if h = None then returnP () else seqP (modifyP (\<lambda>s. s\<lparr>rxq_hdl := h\<rparr>)) up)))
      else up))"

fun stop_stations :: "'h mt7697_if_ops \<Rightarrow> nat \<Rightarrow> u8 list list \<Rightarrow> ('h, unit) wifi_prog" where
  "stop_stations ops v [] = returnP ()"
| "stop_stations ops v (sta # stas) =
     seqP (sta_release v)
     (seqP (mt7697_wr_disconnect_req ops (Some sta))
     (seqP (sta_acquire v)
     (seqP (upd_vif v (\<lambda>x. x\<lparr>sta_list := remove1 sta (sta_list x)\<rparr>)) (stop_stations ops v stas))))"

definition stop_links :: "'h mt7697_if_ops \<Rightarrow> nat \<Rightarrow> ('h, unit) wifi_prog" where
  "stop_links ops v = with_vif v (\<lambda>x. case iftype x of
     NL80211_IFTYPE_STATION \<Rightarrow> seqP (mt7697_wr_disconnect_req ops None) (report_disconnected v)
   | NL80211_IFTYPE_AP \<Rightarrow>
       seqP (sta_acquire v)
       (bindP (with_vif v (\<lambda>y. returnP (sta_list y))) (\<lambda>stas.
        seqP (stop_stations ops v stas)
        (seqP (upd_vif v (\<lambda>y. y\<lparr>sta_count := 0\<rparr>)) (sta_release v))))
   | NL80211_IFTYPE_OTHER _ \<Rightarrow> returnP ())"

definition close_transport :: "'h mt7697_if_ops \<Rightarrow> ('h, unit) wifi_prog" where
  "close_transport ops = (case if_close ops of
     None \<Rightarrow> haltP (Undefined ''call of a null close'')
   | Some f \<Rightarrow> bindP (bindP (getP txq_hdl) (\<lambda>h. on_hif (f h))) (\<lambda>ret.
       seqP (modifyP (\<lambda>s. s\<lparr>txq_hdl := None, rxq_hdl := None\<rparr>)) (if ret < 0 then throwP ret else returnP ())))"

definition mt7697_cfg80211_stop :: "'h mt7697_if_ops \<Rightarrow> nat \<Rightarrow> ('h, unit) wifi_prog" where
  "mt7697_cfg80211_stop ops v =
     seqP mt7697_tx_stop
     (seqP (stop_links ops v)
     (seqP (upd_vif v (\<lambda>x. x\<lparr>sme_state := SME_DISCONNECTED, vif_flags := vif_flags x - {CONNECTED, CONNECT_PEND},
        iftype := NL80211_IFTYPE_STATION\<rparr>))
     (seqP (modifyP (\<lambda>s. s\<lparr>wifi_cfg := (wifi_cfg s)\<lparr>opmode := MT7697_WIFI_MODE_STA_ONLY\<rparr>, port_type := MT7697_PORT_STA\<rparr>))
     (seqP (mt7697_wr_set_op_mode_req ops)
     (seqP (upd_vif v (\<lambda>x. x\<lparr>ssid := replicate IEEE80211_MAX_SSID_LEN 0, req_bssid := replicate ETH_ALEN 0,
        pmk := replicate MT7697_WIFI_LENGTH_PMK 0\<rparr>))
     (seqP (tell (StopQueue v))
     (seqP (tell (CarrierOff v))
     (seqP (with_vif v (\<lambda>x. case scan_req x of None \<Rightarrow> returnP ()
        | Some r \<Rightarrow> seqP (tell (ScanDone r True)) (upd_vif v (\<lambda>y. y\<lparr>scan_req := None\<rparr>))))
     (close_transport ops)))))))))"

definition mt7697_stop :: "'h mt7697_if_ops \<Rightarrow> nat \<Rightarrow> ('h, unit) wifi_prog" where
  "mt7697_stop ops v =
     seqP (upd_vif v (\<lambda>x. x\<lparr>vif_flags := vif_flags x - {WLAN_ENABLED}\<rparr>)) (mt7697_cfg80211_stop ops v)"

abbreviation (input) MT7697_MAX_MC_FILTERS_PER_LIST :: nat where "MT7697_MAX_MC_FILTERS_PER_LIST \<equiv> 7"

definition mt7697_set_multicast_list :: "nat \<Rightarrow> nat \<Rightarrow> bool \<Rightarrow> ('h, unit) wifi_prog" where
  "mt7697_set_multicast_list v mc_count allmulti =
     seqP (upd_vif v (\<lambda>x. x\<lparr>vif_flags :=
       (if dev_promisc x \<or> allmulti \<or> mc_count > MT7697_MAX_MC_FILTERS_PER_LIST
        then insert NETDEV_MCAST_ALL_ON (vif_flags x) else vif_flags x - {NETDEV_MCAST_ALL_ON})\<rparr>))
     (upd_vif v (\<lambda>x. x\<lparr>vif_flags :=
       (if \<not> dev_multicast x then insert NETDEV_MCAST_ALL_OFF (vif_flags x) else vif_flags x - {NETDEV_MCAST_ALL_OFF})\<rparr>))"

end
