(* ===== verification/Wifi_Iface.thy ===== *)
theory Wifi_Iface
  imports Wifi_Cfg80211
begin

text \<open>
  The interfaces of the wireless driver (\<^verbatim>\<open>cfg80211.c\<close>): adding, changing and deleting them, starting an access
  point, and the registration of the device with the kernel.
\<close>

section \<open>Adding and deleting\<close>

definition new_vif :: "nl80211_iftype \<Rightarrow> u8 \<Rightarrow> mt7697_vif" where
  "new_vif ty idx = \<lparr>fw_vif_idx = idx, iftype = ty, vif_flags = {WMM_ENABLED}, ssid_len = 0, ssid = replicate 32 0,
     bssid = replicate 6 0, req_bssid = replicate 6 0, pmk = replicate 32 0, ch_hint = 0,
     auth_mode = MT7697_WIFI_AUTH_MODE_OPEN, prwise_crypto = 0, prwise_crypto_len = 0, grp_crypto = 0, grp_crypto_len = 0,
     sta_list_lock = False, sta_list = [], sta_count = 0, sta_max = word_of_nat MT7697_MAX_STA, scan_req = None,
     probe_req_report = False, sme_state = SME_DISCONNECTED, reconnect_flag = 0, locally_generated = False,
     net_stats = no_stats, dev_up = False, dev_promisc = False, dev_multicast = True\<rparr>"

text \<open>
  An interface is made only when there is none.  Behind the allocation every failure frees the device; when the list
  is not empty the interface of index 0 is given.
\<close>

definition make_vif :: "nl80211_iftype \<Rightarrow> u8 \<Rightarrow> ('h, nat) wifi_prog" where
  "make_vif ty idx = bindP (getP next_vif) (\<lambda>v.
     seqP (modifyP (\<lambda>s. s\<lparr>next_vif := Suc v, vifs := (vifs s)(v \<mapsto> new_vif ty idx)\<rparr>)) (returnP v))"

definition free_netdev :: "nat \<Rightarrow> ('h, unit) wifi_prog" where
  "free_netdev v = seqP (tell (FreeNetdev v)) (modifyP (\<lambda>s. s\<lparr>vifs := (vifs s)(v := None)\<rparr>))"

definition register_vif :: "wifi_env \<Rightarrow> nat \<Rightarrow> ('h, nat option) wifi_prog" where
  "register_vif env v =
     bindP (answer (register_netdevice_ret env)) (\<lambda>ret.
     if ret \<noteq> 0 then seqP (free_netdev v) (returnP None)
     else seqP (tell (RegisterNetdev v)) (seqP (tell (CarrierOff v))
       (seqP (upd_vif v (\<lambda>x. x\<lparr>sme_state := SME_DISCONNECTED, vif_flags := insert WLAN_ENABLED (vif_flags x)\<rparr>))
       (seqP vif_list_acquire
       (seqP (modifyP (\<lambda>s. s\<lparr>vif_list := vif_list s @ [v]\<rparr>))
       (seqP vif_list_release (returnP (Some v))))))))"

definition mt7697_interface_add :: "wifi_env \<Rightarrow> nl80211_iftype \<Rightarrow> u8 \<Rightarrow> ('h, nat option) wifi_prog" where
  "mt7697_interface_add env ty idx =
     bindP (getP vif_list) (\<lambda>vs.
     if vs = [] then
       bindP (answer (alloc_etherdev_ok env)) (\<lambda>ok.
       if \<not> ok then returnP None
       else bindP (make_vif ty idx) (\<lambda>v.
         bindP (answer (dev_alloc_name_ret env)) (\<lambda>err.
         if err < 0 then seqP (free_netdev v) (returnP None) else register_vif env v)))
     else bindP (mt7697_get_vif_by_idx 0) (\<lambda>r. case r of
         None \<Rightarrow> haltP (Undefined ''wdev of a null interface'') | Some v \<Rightarrow> returnP (Some v)))"

text \<open>
  The new interface is made under the spin lock that making it takes, with an index that is not set (\<open>idx\<close>).
\<close>

definition mt7697_cfg80211_add_iface :: "wifi_env \<Rightarrow> nl80211_iftype \<Rightarrow> u8 \<Rightarrow> ('h, nat option) wifi_prog" where
  "mt7697_cfg80211_add_iface env ty idx =
     seqP vif_list_acquire
     (bindP (getP vif_list) (\<lambda>vs. case vs of
        v # _ \<Rightarrow> seqP vif_list_release (returnP (Some v))
      | [] \<Rightarrow> bindP (mt7697_interface_add env ty idx) (\<lambda>r.
          if r = None then returnP None
          else seqP (modifyP (\<lambda>s. s\<lparr>num_vif := num_vif s + 1\<rparr>)) (returnP r))))"

text \<open>
  Unregistering a network device is the kernel's: it stops the device when it is up, and its destructor frees it.
\<close>

definition unregister_netdev :: "'h mt7697_if_ops \<Rightarrow> nat \<Rightarrow> ('h, unit) wifi_prog" where
  "unregister_netdev ops v =
     with_vif v (\<lambda>x.
     seqP (if dev_up x then tryP (mt7697_stop ops v) (\<lambda>_. returnP ()) returnP else returnP ())
     (seqP (tell (UnregisterNetdev v)) (free_netdev v)))"

definition unlink_vif :: "nat \<Rightarrow> ('h, unit) wifi_prog" where
  "unlink_vif v = modifyP (\<lambda>s. s\<lparr>vif_list := remove1 v (vif_list s)\<rparr>)"

definition mt7697_cfg80211_del_iface :: "'h mt7697_if_ops \<Rightarrow> nat \<Rightarrow> ('h, unit) wifi_prog" where
  "mt7697_cfg80211_del_iface ops v =
     seqP vif_list_acquire (seqP (unlink_vif v) (seqP vif_list_release
     (seqP (mt7697_cfg80211_stop ops v) (unregister_netdev ops v))))"

definition shutdown_transport :: "'h mt7697_if_ops \<Rightarrow> ('h, unit) wifi_prog" where
  "shutdown_transport ops = (case if_shutdown ops of
     None \<Rightarrow> returnP ()
   | Some f \<Rightarrow> bindP (getP (\<lambda>s. (txq_hdl s, rxq_hdl s))) (\<lambda>(tx, rx).
       bindP (on_hif (f tx rx)) (\<lambda>(_, tx', rx'). modifyP (\<lambda>s. s\<lparr>txq_hdl := tx', rxq_hdl := rx'\<rparr>))))"

fun cleanup_vifs :: "'h mt7697_if_ops \<Rightarrow> nat list \<Rightarrow> ('h, unit) wifi_prog" where
  "cleanup_vifs ops [] = returnP ()"
| "cleanup_vifs ops (v # vs) =
     seqP (shutdown_transport ops) (seqP (unlink_vif v) (seqP vif_list_release
     (seqP (unregister_netdev ops v) (seqP vif_list_acquire (cleanup_vifs ops vs)))))"

definition mt7697_cleanup_vif :: "'h mt7697_if_ops \<Rightarrow> ('h, unit) wifi_prog" where
  "mt7697_cleanup_vif ops =
     seqP vif_list_acquire (seqP (bindP (getP vif_list) (cleanup_vifs ops)) vif_list_release)"

section \<open>Changing\<close>

definition set_mode :: "nat \<Rightarrow> u8 \<Rightarrow> mt7697_port_type \<Rightarrow> nl80211_iftype \<Rightarrow> ('h, unit) wifi_prog" where
  "set_mode v m port ty =
     seqP (modifyP (\<lambda>s. s\<lparr>wifi_cfg := (wifi_cfg s)\<lparr>opmode := m\<rparr>, port_type := port\<rparr>))
     (upd_vif v (\<lambda>x. x\<lparr>iftype := ty\<rparr>))"

definition change_mode :: "'h mt7697_if_ops \<Rightarrow> nat \<Rightarrow> u8 \<Rightarrow> mt7697_port_type \<Rightarrow> nl80211_iftype \<Rightarrow> ('h, unit) wifi_prog" where
  "change_mode ops v m port ty =
     seqP (bindP (getP (\<lambda>s. opmode (wifi_cfg s))) (\<lambda>old.
       whenP (old \<noteq> m) (seqP (set_mode v m port ty) (mt7697_wr_set_op_mode_req ops))))
     (upd_vif v (\<lambda>x. x\<lparr>iftype := ty\<rparr>))"

fun mt7697_cfg80211_change_iface :: "'h mt7697_if_ops \<Rightarrow> nat \<Rightarrow> nl80211_iftype \<Rightarrow> ('h, unit) wifi_prog" where
  "mt7697_cfg80211_change_iface ops v NL80211_IFTYPE_STATION =
     change_mode ops v MT7697_WIFI_MODE_STA_ONLY MT7697_PORT_STA NL80211_IFTYPE_STATION"
| "mt7697_cfg80211_change_iface ops v NL80211_IFTYPE_AP =
     change_mode ops v MT7697_WIFI_MODE_AP_ONLY MT7697_PORT_AP NL80211_IFTYPE_AP"
| "mt7697_cfg80211_change_iface ops v (NL80211_IFTYPE_OTHER _) = throwP (- EOPNOTSUPP)"

definition mt7697_cfg80211_change_station :: "wifi_env \<Rightarrow> nat \<Rightarrow> ('h, unit) wifi_prog" where
  "mt7697_cfg80211_change_station env v =
     with_vif v (\<lambda>x.
     if iftype x \<noteq> NL80211_IFTYPE_STATION \<and> iftype x \<noteq> NL80211_IFTYPE_AP then throwP (- EOPNOTSUPP)
     else bindP (answer (check_station_ret env)) (\<lambda>err. if err \<noteq> 0 then throwP err else returnP ()))"

abbreviation (input) IEEE80211_STYPE_PROBE_REQ :: u16 where "IEEE80211_STYPE_PROBE_REQ \<equiv> 0x0040"

definition mt7697_cfg80211_mgmt_frame_register :: "nat \<Rightarrow> u16 \<Rightarrow> bool \<Rightarrow> ('h, unit) wifi_prog" where
  "mt7697_cfg80211_mgmt_frame_register v frame_type reg =
     (if frame_type = IEEE80211_STYPE_PROBE_REQ then upd_vif v (\<lambda>x. x\<lparr>probe_req_report := reg\<rparr>) else returnP ())"

section \<open>Starting an access point\<close>

record cfg80211_ap_settings =
  ap_name :: "u8 list"
  ap_name_len :: u8
  center_freq :: u32
  wpa_versions :: u32
  ciphers_pairwise :: "u32 list"
  cipher_group :: u32
  akm_suites :: "u32 list"

definition ap_name_set :: "'h mt7697_if_ops \<Rightarrow> wifi_env \<Rightarrow> cfg80211_ap_settings \<Rightarrow> ('h, unit) wifi_prog" where
  "ap_name_set ops env a =
     seqP (mt7697_wr_set_ssid_req ops env (ap_name_len a) (ap_name a))
     (bindP (getP wifi_cfg) (\<lambda>c.
      bindP (memcpy (ap_ssid (ap_config c)) (ap_name a) (unat (ap_name_len a))) (\<lambda>bs.
      modifyP (\<lambda>s. s\<lparr>wifi_cfg := c\<lparr>ap_config := (ap_config c)\<lparr>ap_ssid_len := ap_name_len a, ap_ssid := bs\<rparr>\<rparr>\<rparr>))))"

definition ap_channel_set :: "'h mt7697_if_ops \<Rightarrow> wifi_env \<Rightarrow> nat \<Rightarrow> u32 \<Rightarrow> ('h, unit) wifi_prog" where
  "ap_channel_set ops env v freq =
     (let ch = (ucast (frequency_to_channel env freq) :: u16) in
      seqP (upd_vif v (\<lambda>x. x\<lparr>ch_hint := ch\<rparr>))
      (if ch = 0 then throwP (- EINVAL)
       else seqP (mt7697_wr_set_channel_req ops (ucast ch))
         (modifyP (\<lambda>s. s\<lparr>wifi_cfg := (wifi_cfg s)\<lparr>ap_config := (ap_config (wifi_cfg s))\<lparr>ap_ch := ucast ch\<rparr>\<rparr>\<rparr>))))"

definition ap_security_set :: "'h mt7697_if_ops \<Rightarrow> nat \<Rightarrow> cfg80211_ap_settings \<Rightarrow> ('h, unit) wifi_prog" where
  "ap_security_set ops v a =
     seqP (mt7697_set_wpa_version v (wpa_versions a))
     (seqP (mt7697_set_cipher v (case ciphers_pairwise a of [] \<Rightarrow> 0 | c # _ \<Rightarrow> c) True)
     (seqP (mt7697_set_cipher v (cipher_group a) False)
     (seqP (case akm_suites a of [] \<Rightarrow> returnP () | k # _ \<Rightarrow> mt7697_set_key_mgmt v k)
     (with_vif v (\<lambda>x. mt7697_wr_set_security_mode_req ops (auth_code (auth_mode x)) (prwise_crypto x))))))"

definition mt7697_cfg80211_start_ap :: "'h mt7697_if_ops \<Rightarrow> wifi_env \<Rightarrow> nat \<Rightarrow> cfg80211_ap_settings \<Rightarrow> ('h, unit) wifi_prog" where
  "mt7697_cfg80211_start_ap ops env v a =
     seqP (ap_name_set ops env a)
     (seqP (ap_channel_set ops env v (center_freq a))
     (seqP (ap_security_set ops v a)
     (with_vif v (\<lambda>x. mt7697_wr_reload_settings_req ops (fw_vif_idx x)))))"

section \<open>The device\<close>

definition mt7697_cfg80211_get_params :: "'h mt7697_if_ops \<Rightarrow> ('h, unit) wifi_prog" where
  "mt7697_cfg80211_get_params ops =
     seqP (mt7697_wr_get_listen_interval_req ops)
     (seqP (mt7697_wr_get_wireless_mode_req ops) (mt7697_wr_mac_addr_req ops))"

datatype mt7697_wifi_phy_mode_t = MT7697_WIFI_PHY_11BG_MIXED | MT7697_WIFI_PHY_11B | MT7697_WIFI_PHY_11A
  | MT7697_WIFI_PHY_11ABG_MIXED | MT7697_WIFI_PHY_11G | MT7697_WIFI_PHY_11ABGN_MIXED | MT7697_WIFI_PHY_11N_2_4G
  | MT7697_WIFI_PHY_11GN_MIXED | MT7697_WIFI_PHY_11AN_MIXED | MT7697_WIFI_PHY_11BGN_MIXED | MT7697_WIFI_PHY_11AGN_MIXED
  | MT7697_WIFI_PHY_11N_5G

text \<open>The bands of a mode, 2.4 GHz and 5 GHz, and high throughput.\<close>

fun bands_of_mode :: "mt7697_wifi_phy_mode_t \<Rightarrow> bool \<times> bool \<times> bool" where
  "bands_of_mode MT7697_WIFI_PHY_11AN_MIXED = (False, True, True)"
| "bands_of_mode MT7697_WIFI_PHY_11N_5G = (False, True, True)"
| "bands_of_mode MT7697_WIFI_PHY_11A = (False, True, False)"
| "bands_of_mode MT7697_WIFI_PHY_11GN_MIXED = (True, False, True)"
| "bands_of_mode MT7697_WIFI_PHY_11N_2_4G = (True, False, True)"
| "bands_of_mode MT7697_WIFI_PHY_11BGN_MIXED = (True, False, True)"
| "bands_of_mode MT7697_WIFI_PHY_11BG_MIXED = (True, False, False)"
| "bands_of_mode MT7697_WIFI_PHY_11B = (True, False, False)"
| "bands_of_mode MT7697_WIFI_PHY_11G = (True, False, False)"
| "bands_of_mode MT7697_WIFI_PHY_11ABGN_MIXED = (True, True, True)"
| "bands_of_mode MT7697_WIFI_PHY_11AGN_MIXED = (True, True, True)"
| "bands_of_mode MT7697_WIFI_PHY_11ABG_MIXED = (True, True, False)"

definition mt7697_cfg80211_init :: "wifi_env \<Rightarrow> ('h, unit) wifi_prog" where
  "mt7697_cfg80211_init env =
     (case bands_of_mode MT7697_WIFI_PHY_11ABGN_MIXED of (b2, b5, ht) \<Rightarrow>
      seqP (modifyP (\<lambda>s. s\<lparr>tx_req := (tx_req s)\<lparr>txr_hdr := wifi_hdr MT7697_CMD_TX_RAW (cmd_len (txr_hdr (tx_req s)))\<rparr>,
        has_2ghz := b2, has_5ghz := b5\<rparr>))
      (bindP (answer (wiphy_register_ret env)) (\<lambda>err.
       if err < 0 then throwP err
       else seqP (tell RegisterWiphy) (modifyP (\<lambda>s. s\<lparr>wiphy_registered := True\<rparr>)))))"

definition mt7697_cfg80211_cleanup :: "'h mt7697_if_ops \<Rightarrow> ('h, unit) wifi_prog" where
  "mt7697_cfg80211_cleanup ops =
     seqP (mt7697_cleanup_vif ops)
     (seqP (tell FlushWq) (seqP (tell DestroyWq)
     (bindP (getP wiphy_registered) (\<lambda>reg.
      whenP reg (seqP (tell UnregisterWiphy) (modifyP (\<lambda>s. s\<lparr>wiphy_registered := False\<rparr>)))))))"

end
