(* ===== verification/Wifi_Proc.thy ===== *)
theory Wifi_Proc
  imports Wifi_Iface
begin

text \<open>
  The messages from the MT7697 (the \<^verbatim>\<open>mt7697_proc_\<close> functions of \<^verbatim>\<open>wmi.c\<close>).  The transport has read the header;
  each handler reads the rest of its message.  A handler gives its non-negative return value, or the error.
\<close>

abbreviation (input) sizeof_mac_addr_rsp :: u16 where "sizeof_mac_addr_rsp \<equiv> 16"
abbreviation (input) sizeof_connect_ind :: u16 where "sizeof_connect_ind \<equiv> 24"
abbreviation (input) sizeof_scan_ind :: u16 where "sizeof_scan_ind \<equiv> 16"

text \<open>The call of \<^verbatim>\<open>hif_ops->read\<close> with the test of its result that every handler makes.\<close>

definition read_words :: "'h mt7697_if_ops \<Rightarrow> u32 \<Rightarrow> ('h, u32 list) wifi_prog" where
  "read_words ops n =
     bindP (getP rxq_hdl) (\<lambda>q. case q of
       None \<Rightarrow> haltP (Undefined ''read from a null handle'')
     | Some h \<Rightarrow> bindP (on_hif (if_read ops h n)) (\<lambda>(ret, ws).
         if ret \<noteq> uint n then throwP (if ret < 0 then ret else - EIO) else returnP ws))"

definition read_u32 :: "'h mt7697_if_ops \<Rightarrow> ('h, u32) wifi_prog" where
  "read_u32 ops = bindP (read_words ops 1) (\<lambda>ws. returnP (ws ! 0))"

definition read_bytes :: "'h mt7697_if_ops \<Rightarrow> u32 \<Rightarrow> ('h, u8 list) wifi_prog" where
  "read_bytes ops n = bindP (read_words ops (LEN_TO_WORD n)) (\<lambda>ws. returnP (concat (map word_bytes ws)))"

text \<open>The length of a message behind its header, in 32 bits.\<close>

definition body_len :: "mt7697_rsp_hdr \<Rightarrow> u32" where
  "body_len msg = ucast (cmd_len msg) - sizeof_rsp_hdr"

section \<open>Settings\<close>

definition mt7697_proc_mac_addr :: "'h mt7697_if_ops \<Rightarrow> wifi_env \<Rightarrow> mt7697_rsp_hdr \<Rightarrow> ('h, int) wifi_prog" where
  "mt7697_proc_mac_addr ops env msg =
     (if cmd_len msg \<noteq> sizeof_mac_addr_rsp then throwP (- EINVAL)
      else bindP (read_bytes ops 8) (\<lambda>bs.
        seqP (modifyP (\<lambda>s. s\<lparr>mac_addr := take ETH_ALEN bs\<rparr>))
        (bindP (getP (\<lambda>s. opmode (wifi_cfg s))) (\<lambda>m.
         bindP (mt7697_interface_add env (if m = MT7697_WIFI_MODE_STA_ONLY then NL80211_IFTYPE_STATION else NL80211_IFTYPE_AP) 0)
         (\<lambda>r. if r = None then throwP (- ENOMEM) else returnP 0)))))"

definition mt7697_proc_get_wireless_mode :: "'h mt7697_if_ops \<Rightarrow> mt7697_rsp_hdr \<Rightarrow> ('h, int) wifi_prog" where
  "mt7697_proc_get_wireless_mode ops msg =
     (if body_len msg \<noteq> 4 then throwP (- EINVAL)
      else bindP (read_u32 ops) (\<lambda>m. seqP (modifyP (\<lambda>s. s\<lparr>hw_wireless_mode := m\<rparr>)) (returnP 0)))"

text \<open>The tests of a configuration; the port is set before them.\<close>

definition sta_config_ok :: "mt7697_wifi_sta_config_t \<Rightarrow> bool" where
  "sta_config_ok c \<longleftrightarrow> unat (sta_ssid_len c) \<le> IEEE80211_MAX_SSID_LEN \<and> unat (sta_pw_len c) \<le> MT7697_WIFI_LENGTH_PASSPHRASE"

definition ap_config_ok :: "mt7697_wifi_ap_config_t \<Rightarrow> bool" where
  "ap_config_ok c \<longleftrightarrow> unat (ap_ssid_len c) \<le> IEEE80211_MAX_SSID_LEN \<and> unat (ap_pw_len c) \<le> MT7697_WIFI_LENGTH_PASSPHRASE"

definition port_of_mode :: "u8 \<Rightarrow> mt7697_port_type option" where
  "port_of_mode m = (if m = MT7697_WIFI_MODE_STA_ONLY then Some MT7697_PORT_STA
     else if m = MT7697_WIFI_MODE_AP_ONLY then Some MT7697_PORT_AP else None)"

definition take_config :: "'h mt7697_if_ops \<Rightarrow> mt7697_wifi_config_t \<Rightarrow> ('h, int) wifi_prog" where
  "take_config ops c = (case port_of_mode (opmode c) of
     None \<Rightarrow> throwP (- EINVAL)
   | Some port \<Rightarrow> seqP (modifyP (\<lambda>s. s\<lparr>port_type := port\<rparr>))
       (if (opmode c = MT7697_WIFI_MODE_STA_ONLY \<or> opmode c = MT7697_WIFI_MODE_REPEATER) \<and> \<not> sta_config_ok (sta_config c)
        then throwP (- EINVAL)
        else if (opmode c = MT7697_WIFI_MODE_AP_ONLY \<or> opmode c = MT7697_WIFI_MODE_REPEATER) \<and> \<not> ap_config_ok (ap_config c)
        then throwP (- EINVAL)
        else seqP (modifyP (\<lambda>s. s\<lparr>wifi_cfg := c\<rparr>)) (seqP (mt7697_cfg80211_get_params ops) (returnP 0))))"

definition mt7697_proc_get_cfg :: "'h mt7697_if_ops \<Rightarrow> wifi_env \<Rightarrow> mt7697_rsp_hdr \<Rightarrow> ('h, int) wifi_prog" where
  "mt7697_proc_get_cfg ops env msg =
     (if body_len msg \<noteq> LEN32_ALIGNED sizeof_wifi_config_t then throwP (- EINVAL)
      else bindP (answer (wifi_kmalloc_ok env)) (\<lambda>ok.
        if \<not> ok then throwP (- ENOMEM)
        else bindP (read_bytes ops sizeof_wifi_config_t) (\<lambda>bs. take_config ops (wifi_config_of bs))))"

definition mt7697_proc_get_listen_interval :: "'h mt7697_if_ops \<Rightarrow> mt7697_rsp_hdr \<Rightarrow> ('h, int) wifi_prog" where
  "mt7697_proc_get_listen_interval ops msg =
     (if body_len msg \<noteq> 4 then throwP (- EINVAL)
      else bindP (read_u32 ops) (\<lambda>i. seqP (modifyP (\<lambda>s. s\<lparr>listen_interval := i\<rparr>)) (returnP 0)))"

section \<open>Scans\<close>

definition inform_frame :: "wifi_env \<Rightarrow> u32 \<Rightarrow> bool \<Rightarrow> u8 list \<Rightarrow> u32 \<Rightarrow> ('h, int) wifi_prog" where
  "inform_frame env ch band frame rssi =
     bindP (has_band band) (\<lambda>present.
     if \<not> present then haltP (Undefined ''band of a null pointer'')
     else let freq = channel_to_frequency env ch band in
       if freq = 0 then throwP (- EINVAL)
       else bindP wiphy_channels (\<lambda>cs.
         if get_channel env cs freq = None then throwP (- EINVAL)
         else bindP (answer (inform_bss_ok env)) (\<lambda>ok.
           seqP (tell (InformFrame freq frame (rssi * 100)))
           (if ok then returnP 0 else throwP (- ENOMEM)))))"

definition frame_control :: "u8 list \<Rightarrow> u16" where
  "frame_control bs = ucast (bs ! 0) OR push_bit 8 (ucast (bs ! 1))"

definition scan_frame :: "wifi_env \<Rightarrow> u32 \<Rightarrow> u8 list \<Rightarrow> u32 \<Rightarrow> u32 \<Rightarrow> ('h, int) wifi_prog" where
  "scan_frame env ch bs len rssi =
     (if is_beacon_or_probe_rsp env (frame_control bs) then (case band_of ch of
        None \<Rightarrow> throwP (- EINVAL) | Some band \<Rightarrow> inform_frame env ch band (take (unat len) bs) rssi)
      else throwP (- EINVAL))"

definition mt7697_proc_scan_ind :: "'h mt7697_if_ops \<Rightarrow> wifi_env \<Rightarrow> mt7697_rsp_hdr \<Rightarrow> ('h, int) wifi_prog" where
  "mt7697_proc_scan_ind ops env msg =
     (if cmd_len msg \<le> sizeof_scan_ind then throwP (- EINVAL)
      else bindP (read_u32 ops) (\<lambda>rssi.
        bindP (read_u32 ops) (\<lambda>ch.
        if unat (rsp_result msg) > IEEE80211_MAX_DATA_LEN \<or> rsp_result msg = 0 then throwP (- EINVAL)
        else bindP (read_bytes ops (LEN32_ALIGNED (rsp_result msg))) (\<lambda>bs.
          scan_frame env ch bs (rsp_result msg) rssi))))"

definition scan_over :: "nat \<Rightarrow> bool \<Rightarrow> ('h, unit) wifi_prog" where
  "scan_over v aborted = with_vif v (\<lambda>x. case scan_req x of
     None \<Rightarrow> returnP ()
   | Some r \<Rightarrow> seqP (tell (ScanDone r aborted)) (upd_vif v (\<lambda>y. y\<lparr>scan_req := None\<rparr>)))"

text \<open>
  The result is unsigned, so that it is never below zero; otherwise the interface would be used before it is set.
\<close>

definition mt7697_proc_scan_rsp :: "'h mt7697_if_ops \<Rightarrow> mt7697_rsp_hdr \<Rightarrow> ('h, int) wifi_prog" where
  "mt7697_proc_scan_rsp ops msg =
     bindP (read_u32 ops) (\<lambda>if_idx.
     if rsp_result msg < 0 then haltP (Undefined ''scan_req of an uninitialised interface'') else returnP 0)"

definition with_idx :: "u32 \<Rightarrow> (nat \<Rightarrow> ('h, 'a) wifi_prog) \<Rightarrow> ('h, 'a) wifi_prog" where
  "with_idx if_idx k = bindP (mt7697_get_vif_by_idx if_idx) (\<lambda>r. case r of None \<Rightarrow> throwP (- EINVAL) | Some v \<Rightarrow> k v)"

definition mt7697_proc_scan_complete_ind :: "'h mt7697_if_ops \<Rightarrow> ('h, int) wifi_prog" where
  "mt7697_proc_scan_complete_ind ops =
     bindP (read_u32 ops) (\<lambda>if_idx. with_idx if_idx (\<lambda>v. seqP (scan_over v False) (returnP 0)))"

section \<open>Connections\<close>

definition sta_connected :: "wifi_env \<Rightarrow> nat \<Rightarrow> u8 list \<Rightarrow> u32 \<Rightarrow> ('h, unit) wifi_prog" where
  "sta_connected env v bs channel = with_vif v (\<lambda>x.
     whenP (CONNECT_PEND \<in> vif_flags x) (mt7697_cfg80211_connect_event env v bs channel))"

definition ap_connected :: "wifi_env \<Rightarrow> nat \<Rightarrow> u8 list \<Rightarrow> ('h, unit) wifi_prog" where
  "ap_connected env v bs =
     seqP (mt7697_cfg80211_new_sta env v bs)
     (seqP (tell (NewSta v (take ETH_ALEN bs)))
     (seqP (upd_vif v (\<lambda>x. x\<lparr>vif_flags := insert CONNECTED (vif_flags x)\<rparr>))
     (seqP (tell (WakeQueue v)) (tell (CarrierOn v)))))"

text \<open>Without an interface the return value is the number of words read last.\<close>

definition mt7697_proc_connect_ind :: "'h mt7697_if_ops \<Rightarrow> wifi_env \<Rightarrow> mt7697_rsp_hdr \<Rightarrow> ('h, int) wifi_prog" where
  "mt7697_proc_connect_ind ops env msg =
     (if cmd_len msg \<noteq> sizeof_connect_ind then throwP (- EINVAL)
      else bindP (read_u32 ops) (\<lambda>if_idx. bindP (read_u32 ops) (\<lambda>channel. bindP (read_bytes ops 8) (\<lambda>bs.
        bindP (getP (\<lambda>s. (vif_list s, opmode (wifi_cfg s)))) (\<lambda>(vs, m).
        if vs = [] then returnP 2
        else if m = MT7697_WIFI_MODE_STA_ONLY
        then with_idx if_idx (\<lambda>v. seqP (sta_connected env v bs channel) (returnP 0))
        else with_idx 0 (\<lambda>v. seqP (ap_connected env v bs) (returnP 0)))))))"

definition link_lost :: "nat \<Rightarrow> ('h, int) wifi_prog" where
  "link_lost v =
     seqP (tell (StopQueue v))
     (seqP (upd_vif v (\<lambda>x. x\<lparr>sme_state := SME_DISCONNECTED, vif_flags := vif_flags x - {CONNECT_PEND, CONNECTED}\<rparr>))
     (returnP 0))"

definition mt7697_proc_disconnect_ind :: "'h mt7697_if_ops \<Rightarrow> ('h, int) wifi_prog" where
  "mt7697_proc_disconnect_ind ops =
     bindP (read_u32 ops) (\<lambda>if_idx. bindP (read_bytes ops 8) (\<lambda>bs.
     bindP (getP (\<lambda>s. (vif_list s, opmode (wifi_cfg s)))) (\<lambda>(vs, m).
     if vs = [] then returnP 2
     else if m = MT7697_WIFI_MODE_STA_ONLY
     then with_idx if_idx (\<lambda>v. seqP (mt7697_wr_disconnect_req ops None) (seqP (report_disconnected v) (link_lost v)))
     else with_idx 0 (\<lambda>v. seqP (mt7697_cfg80211_del_sta ops v bs) (link_lost v)))))"

definition mt7697_rx_raw :: "'h mt7697_if_ops \<Rightarrow> wifi_env \<Rightarrow> mt7697_rsp_hdr \<Rightarrow> ('h, int) wifi_prog" where
  "mt7697_rx_raw ops env msg =
     (if ucast (cmd_len msg) \<le> sizeof_rsp_hdr then throwP (- EINVAL)
      else if unat (rsp_result msg) > IEEE80211_MAX_FRAME_LEN then throwP (- EINVAL)
      else bindP (read_bytes ops (LEN32_ALIGNED (rsp_result msg))) (\<lambda>bs.
        bindP (getP vif_list) (\<lambda>vs.
        if vs = [] then returnP (uint (LEN_TO_WORD (LEN32_ALIGNED (rsp_result msg))))
        else mt7697_rx_data env bs (rsp_result msg) 0)))"

section \<open>Dispatch\<close>

definition acknowledgements :: "mt7697_wifi_cmd_types list" where
  "acknowledgements = [MT7697_CMD_SET_OP_MODE_RSP, MT7697_CMD_SET_PMK_RSP, MT7697_CMD_SET_CHANNEL_RSP,
     MT7697_CMD_SET_BSSID_RSP, MT7697_CMD_SET_SSID_RSP, MT7697_CMD_RELOAD_SETTINGS_RSP, MT7697_CMD_SET_LISTEN_INTERVAL_RSP,
     MT7697_CMD_SET_WIRELESS_MODE_RSP, MT7697_CMD_SET_SECURITY_MODE_RSP, MT7697_CMD_SCAN_STOP_RSP, MT7697_CMD_DISCONNECT_RSP]"

definition mt7697_proc_80211cmd :: "'h mt7697_if_ops \<Rightarrow> wifi_env \<Rightarrow> mt7697_rsp_hdr \<Rightarrow> ('h, int) wifi_prog" where
  "mt7697_proc_80211cmd ops env msg =
     (let t = cmd_type msg in
      if t = wifi_cmd_code MT7697_CMD_MAC_ADDR_RSP then mt7697_proc_mac_addr ops env msg
      else if t = wifi_cmd_code MT7697_CMD_GET_WIRELESS_MODE_RSP then mt7697_proc_get_wireless_mode ops msg
      else if t = wifi_cmd_code MT7697_CMD_GET_CFG_RSP then mt7697_proc_get_cfg ops env msg
      else if t = wifi_cmd_code MT7697_CMD_GET_LISTEN_INTERVAL_RSP then mt7697_proc_get_listen_interval ops msg
      else if t = wifi_cmd_code MT7697_CMD_SCAN_RSP then mt7697_proc_scan_rsp ops msg
      else if t = wifi_cmd_code MT7697_CMD_SCAN_IND then mt7697_proc_scan_ind ops env msg
      else if t = wifi_cmd_code MT7697_CMD_SCAN_COMPLETE_IND then mt7697_proc_scan_complete_ind ops
      else if t = wifi_cmd_code MT7697_CMD_CONNECT_IND then mt7697_proc_connect_ind ops env msg
      else if t = wifi_cmd_code MT7697_CMD_DISCONNECT_IND then mt7697_proc_disconnect_ind ops
      else if t = wifi_cmd_code MT7697_CMD_RX_RAW then mt7697_rx_raw ops env msg
      else if t \<in> set (map wifi_cmd_code acknowledgements) then returnP 0
      else throwP (- EINVAL))"

end
