(* ===== verification/Wifi_Main.thy ===== *)
theory Wifi_Main
  imports Wifi_Proc
begin

text \<open>
  The wireless extensions (\<^verbatim>\<open>ioctl.c\<close>) and the life of the driver (\<^verbatim>\<open>main.c\<close>): the choice of the transport,
  probe, the start of the device and removal.
\<close>

section \<open>Wireless extensions\<close>

text \<open>
  A frequency of user space: mantissa and exponent.  \<open>freq_list\<close> is the kernel's list of the frequencies of the
  first channels, in MHz.  From Linux 3.18.44 a frequency is changed to a channel in place.
\<close>

fun index_of :: "int \<Rightarrow> int list \<Rightarrow> nat option" where
  "index_of f [] = None"
| "index_of f (x # xs) = (if f = x then Some 0 else map_option Suc (index_of f xs))"

definition freq_to_channel :: "int list \<Rightarrow> int \<Rightarrow> int \<Rightarrow> int \<times> int" where
  "freq_to_channel freq_list m e =
     (let mhz = m div 100000 in
      if e = 1 \<and> hd freq_list \<le> mhz \<and> mhz \<le> last freq_list then
        (case index_of mhz freq_list of Some ch \<Rightarrow> (int ch + 1, 0) | None \<Rightarrow> (m, e))
      else (m, e))"

definition mt7697_wext_siwfreq :: "int list \<Rightarrow> nat \<Rightarrow> int \<Rightarrow> int \<Rightarrow> ('h, unit) wifi_prog" where
  "mt7697_wext_siwfreq freq_list v m e =
     (if e = 0 \<and> m \<le> 1000 then upd_vif v (\<lambda>x. x\<lparr>ch_hint := word_of_int m\<rparr>)
      else case freq_to_channel freq_list m e of (m', e') \<Rightarrow>
        if e' \<noteq> 0 \<or> m' < 1 \<or> m' > int (length freq_list) then throwP (- EINVAL)
        else upd_vif v (\<lambda>x. x\<lparr>ch_hint := word_of_int m'\<rparr>))"

abbreviation (input) IW_MODE_INFRA :: u32 where "IW_MODE_INFRA \<equiv> 2"
abbreviation (input) IW_MODE_MASTER :: u32 where "IW_MODE_MASTER \<equiv> 3"

definition mt7697_wext_siwmode :: "nat \<Rightarrow> u32 \<Rightarrow> ('h, unit) wifi_prog" where
  "mt7697_wext_siwmode v mode =
     bindP (getP (\<lambda>s. (opmode (wifi_cfg s), vif_list s))) (\<lambda>(m, vs).
     if mode = IW_MODE_MASTER then
       if m = MT7697_WIFI_MODE_AP_ONLY then returnP ()
       else with_vif v (\<lambda>x.
         if m = MT7697_WIFI_MODE_STA_ONLY \<and> (CONNECTED \<in> vif_flags x \<or> CONNECT_PEND \<in> vif_flags x) then throwP (- EBUSY)
         else set_mode v MT7697_WIFI_MODE_AP_ONLY MT7697_PORT_AP NL80211_IFTYPE_AP)
     else if mode = IW_MODE_INFRA then
       if m = MT7697_WIFI_MODE_STA_ONLY then returnP ()
       else if m = MT7697_WIFI_MODE_AP_ONLY \<and> vs \<noteq> [] then throwP (- EBUSY)
       else set_mode v MT7697_WIFI_MODE_STA_ONLY MT7697_PORT_STA NL80211_IFTYPE_STATION
     else throwP (- EINVAL))"

definition mt7697_wext_siwap :: "nat \<Rightarrow> u8 list \<Rightarrow> ('h, unit) wifi_prog" where
  "mt7697_wext_siwap v addr =
     with_vif v (\<lambda>x. bindP (memcpy (req_bssid x) addr ETH_ALEN) (\<lambda>bs. upd_vif v (\<lambda>y. y\<lparr>req_bssid := bs\<rparr>)))"

text \<open>
  The network name starts the connection of a station.  \<open>data\<close> is the buffer of the request and \<open>flags\<close> its flags;
  a name that ends in a null byte is cut by it.
\<close>

definition essid_len :: "bool \<Rightarrow> u8 list \<Rightarrow> nat" where
  "essid_len flags data =
     (let n = (if flags then length data else 0) in if n > 0 \<and> data ! (n - 1) = 0 then n - 1 else n)"

definition send_key_or_open :: "'h mt7697_if_ops \<Rightarrow> nat \<Rightarrow> ('h, unit) wifi_prog" where
  "send_key_or_open ops v = with_vif v (\<lambda>x.
     if take MT7697_WIFI_LENGTH_PMK (pmk x) \<noteq> replicate MT7697_WIFI_LENGTH_PMK 0 then mt7697_wr_set_pmk_req ops (pmk x)
     else mt7697_wr_set_security_mode_req ops (auth_code MT7697_WIFI_AUTH_MODE_OPEN) MT7697_WIFI_ENCRYPT_TYPE_ENCRYPT_DISABLED)"

definition start_connection :: "'h mt7697_if_ops \<Rightarrow> nat \<Rightarrow> ('h, unit) wifi_prog" where
  "start_connection ops v = with_vif v (\<lambda>x.
     if CONNECTED \<in> vif_flags x then returnP ()
     else seqP (upd_vif v (\<lambda>y. y\<lparr>vif_flags := insert CONNECT_PEND (vif_flags y), sme_state := SME_CONNECTING\<rparr>))
       (bindP (getP destroy_in_progress) (\<lambda>busy.
        if busy then throwP (- EBUSY) else mt7697_wr_reload_settings_req ops (fw_vif_idx x))))"

definition join_network :: "'h mt7697_if_ops \<Rightarrow> wifi_env \<Rightarrow> nat \<Rightarrow> ('h, unit) wifi_prog" where
  "join_network ops env v =
     bindP (getP (\<lambda>s. opmode (wifi_cfg s))) (\<lambda>m.
     seqP (with_vif v (\<lambda>x. whenP (m = MT7697_WIFI_MODE_STA_ONLY) (mt7697_wr_set_bssid_req ops env (req_bssid x))))
     (seqP (with_vif v (\<lambda>x. whenP (ch_hint x > 0) (mt7697_wr_set_channel_req ops (ucast (ch_hint x)))))
     (seqP (send_key_or_open ops v) (start_connection ops v))))"

definition mt7697_wext_siwessid :: "'h mt7697_if_ops \<Rightarrow> wifi_env \<Rightarrow> nat \<Rightarrow> bool \<Rightarrow> u8 list \<Rightarrow> ('h, unit) wifi_prog" where
  "mt7697_wext_siwessid ops env v flags data =
     with_vif v (\<lambda>x.
     if iftype x \<noteq> NL80211_IFTYPE_STATION \<and> iftype x \<noteq> NL80211_IFTYPE_AP then throwP (- EINVAL)
     else let n = essid_len flags data in
       bindP (memcpy (replicate IEEE80211_MAX_SSID_LEN 0) data n) (\<lambda>bs.
       seqP (upd_vif v (\<lambda>y. y\<lparr>ssid_len := int n, ssid := bs\<rparr>))
       (seqP (whenP (n > 0) (mt7697_wr_set_op_mode_req ops))
       (seqP (mt7697_wr_set_ssid_req ops env (word_of_nat n) data)
       (if n > 0 then join_network ops env v
        else bindP (getP (\<lambda>s. opmode (wifi_cfg s))) (\<lambda>m.
          whenP (m = MT7697_WIFI_MODE_STA_ONLY \<and> CONNECTED \<in> vif_flags x) (mt7697_wr_disconnect_req ops None)))))))"

abbreviation (input) IW_ENCODE_ALG_PMK :: u16 where "IW_ENCODE_ALG_PMK \<equiv> 4"

definition mt7697_wext_siwencodeext :: "nat \<Rightarrow> u16 \<Rightarrow> u8 list \<Rightarrow> ('h, unit) wifi_prog" where
  "mt7697_wext_siwencodeext v alg key =
     with_vif v (\<lambda>x.
     if iftype x \<noteq> NL80211_IFTYPE_STATION \<and> iftype x \<noteq> NL80211_IFTYPE_AP then throwP (- EOPNOTSUPP)
     else if alg = IW_ENCODE_ALG_PMK then
       bindP (memcpy (pmk x) key (length key)) (\<lambda>bs. upd_vif v (\<lambda>y. y\<lparr>pmk := bs\<rparr>))
     else returnP ())"

text \<open>
  The channels and rates that user space is told: how many, the frequency and number of each channel, and the bits a
  second of each rate.  The loop of the second band starts at the beginning again, in both lists.
\<close>

definition overwrite :: "'a list \<Rightarrow> 'a list \<Rightarrow> 'a list" where
  "overwrite xs ys = ys @ drop (length ys) xs"

definition mt7697_wext_giwrange :: "('h, nat \<times> (u32 \<times> nat) list \<times> nat \<times> nat list) wifi_prog" where
  "mt7697_wext_giwrange =
     bindP (getP (\<lambda>s. has_2ghz s \<and> has_5ghz s)) (\<lambda>both.
     if \<not> both then haltP (Undefined ''n_channels of a null band'')
     else let chan = map (\<lambda>(n, f). (f, n)); rate = map (\<lambda>r. fst r * 100000) in
       returnP (length mt7697_2ghz_channels + length mt7697_5ghz_a_channels,
         overwrite (chan mt7697_2ghz_channels) (chan mt7697_5ghz_a_channels),
         length mt7697_rates + length mt7697_a_rates, overwrite (rate mt7697_rates) (rate mt7697_a_rates)))"

section \<open>The life of the driver\<close>

definition mt7697_to_lower :: "u8 list \<Rightarrow> u8 list" where
  "mt7697_to_lower = map (\<lambda>c. if c \<le> 90 \<and> c \<ge> 65 then c + 97 - 65 else c)"

datatype hw_itf = HwSpi | HwUart

definition hw_itf_of :: "u8 list \<Rightarrow> hw_itf option" where
  "hw_itf_of name = (if name = [115, 112, 105] then Some HwSpi else if name = [117, 97, 114, 116] then Some HwUart else None)"

abbreviation (input) MT7697_MAC80211_QUEUE_TX :: u8 where "MT7697_MAC80211_QUEUE_TX \<equiv> 0"
abbreviation (input) MT7697_MAC80211_QUEUE_RX :: u8 where "MT7697_MAC80211_QUEUE_RX \<equiv> 1"

text \<open>The start of the device, a work item: a failure is only logged.\<close>

definition init_queues :: "'h mt7697_if_ops \<Rightarrow> ('h, bool) wifi_prog" where
  "init_queues ops = (case if_init ops of
     None \<Rightarrow> haltP (Undefined ''call of a null init'')
   | Some f \<Rightarrow> bindP (on_hif (f MT7697_MAC80211_QUEUE_TX MT7697_MAC80211_QUEUE_RX)) (\<lambda>(err, hs).
       seqP (case hs of None \<Rightarrow> returnP ()
         | Some (tx, rx) \<Rightarrow> modifyP (\<lambda>s. s\<lparr>txq_hdl := Some tx, rxq_hdl := Some rx\<rparr>))
       (returnP (err \<ge> 0))))"

definition open_line :: "'h mt7697_if_ops \<Rightarrow> ('h, bool) wifi_prog" where
  "open_line ops = (case if_open ops of
     None \<Rightarrow> haltP (Undefined ''call of a null open'')
   | Some f \<Rightarrow> bindP (on_hif f) (\<lambda>h.
       seqP (modifyP (\<lambda>s. s\<lparr>txq_hdl := h\<rparr>))
       (if h = None then returnP False else seqP (modifyP (\<lambda>s. s\<lparr>rxq_hdl := h\<rparr>)) (returnP True))))"

definition mt7697_init_hw_start :: "'h mt7697_if_ops \<Rightarrow> hw_itf \<Rightarrow> ('h, unit) wifi_prog" where
  "mt7697_init_hw_start ops itf =
     bindP (if itf = HwSpi then init_queues ops else open_line ops) (\<lambda>started.
     if \<not> started then returnP ()
     else tryP (mt7697_wr_cfg_req ops) (\<lambda>_. returnP ()) returnP)"

text \<open>
  Probe.  The device data are zero at first; \<open>wq\<close> and \<open>name\<close> are the work queue and the module parameter.  The cleanup
  frees the local variable \<^verbatim>\<open>wiphy\<close>, which is never set.
\<close>

definition new_cfg :: "'h \<Rightarrow> 'h mt7697_cfg80211_info" where
  "new_cfg h = \<lparr>hif = h, txq_hdl = None, rxq_hdl = None, sem = 1, destroy_in_progress = False,
     tx_skb_pool_idx = 0, tx_skb_pool = replicate MT7697_TX_PKT_POOL_LEN None, tx_skb_list = [],
     tx_req = \<lparr>txr_hdr = \<lparr>cmd_len = 0, cmd_grp = 0, cmd_type = 0\<rparr>, txr_len = 0, txr_data = replicate IEEE80211_MAX_FRAME_LEN 0\<rparr>,
     port_type = MT7697_PORT_STA, hw_wireless_mode = 0, mac_addr = replicate 6 0,
     wifi_cfg = wifi_config_of (replicate 209 0), listen_interval = 0, vif_list = [], vif_list_lock = False,
     num_vif = 0, vif_start = 0, vif_max = word_of_nat MT7697_MAX_STA, wiphy_registered = False, has_2ghz = False,
     has_5ghz = False, vifs = Map.empty, next_vif = 0, asked = 0, events = []\<rparr>"

definition mt7697_probe :: "wifi_env \<Rightarrow> bool \<Rightarrow> bool \<Rightarrow> u8 list \<Rightarrow> ('h, hw_itf) wifi_prog" where
  "mt7697_probe env wiphy_ok wq_ok name =
     (let failed = haltP (Undefined ''wiphy_free of an uninitialised pointer'') in
      if \<not> wiphy_ok \<or> \<not> wq_ok then failed
      else seqP (tell CreateWq) (case hw_itf_of (mt7697_to_lower name) of
          None \<Rightarrow> failed
        | Some itf \<Rightarrow> tryP (mt7697_cfg80211_init env) (\<lambda>_. failed) (\<lambda>_. seqP (tell QueueInit) (returnP itf))))"

definition mt7697_remove :: "'h mt7697_if_ops \<Rightarrow> ('h, unit) wifi_prog" where
  "mt7697_remove ops = seqP (mt7697_cfg80211_cleanup ops) (tell FreeWiphy)"

end
