(* ===== verification/Mt7697_Io.thy ===== *)
theory Mt7697_Io
  imports Mt7697_Types
begin

text \<open>
  Register access of the MT7697 SPI slave (\<^verbatim>\<open>io.c\<close>, \<^verbatim>\<open>io.h\<close>): 16 and 32-bit register reads and writes,
  the busy wait, the mailboxes, the interrupt trigger, and the transfer of words to and from the
  slave's memory.  The locale \<^theory_text>\<open>mt7697_slave\<close> states the register protocol the driver relies on, a
  concrete slave that follows it interprets the locale, and its lemmas show what each access does to
  the slave.
\<close>

unbundle bit_operations_syntax

section \<open>Registers (io.h)\<close>

abbreviation (input) MT7697_IO_SLAVE_BUFFER_ADDRESS :: u32 where "MT7697_IO_SLAVE_BUFFER_ADDRESS \<equiv> 0x20000200"
abbreviation (input) MT7697_IO_CMD_WRITE :: u8 where "MT7697_IO_CMD_WRITE \<equiv> 0x80"
abbreviation (input) MT7697_IO_CMD_READ :: u8 where "MT7697_IO_CMD_READ \<equiv> 0x00"
abbreviation (input) MT7697_IO_SLAVE_REG_READ_DATA_LOW :: u8 where "MT7697_IO_SLAVE_REG_READ_DATA_LOW \<equiv> 0x00"
abbreviation (input) MT7697_IO_SLAVE_REG_WRITE_DATA_LOW :: u8 where "MT7697_IO_SLAVE_REG_WRITE_DATA_LOW \<equiv> 0x04"
abbreviation (input) MT7697_IO_SLAVE_REG_BUS_ADDR_LOW :: u8 where "MT7697_IO_SLAVE_REG_BUS_ADDR_LOW \<equiv> 0x08"
abbreviation (input) MT7697_IO_SLAVE_REG_COMMAND :: u8 where "MT7697_IO_SLAVE_REG_COMMAND \<equiv> 0x0C"
abbreviation (input) MT7697_IO_SLAVE_REG_STATUS :: u8 where "MT7697_IO_SLAVE_REG_STATUS \<equiv> 0x10"
abbreviation (input) MT7697_IO_SLAVE_REG_IRQ :: u8 where "MT7697_IO_SLAVE_REG_IRQ \<equiv> 0x14"
abbreviation (input) MT7697_IO_SLAVE_REG_MAILBOX_S2M :: u8 where "MT7697_IO_SLAVE_REG_MAILBOX_S2M \<equiv> 0x18"
abbreviation (input) MT7697_IO_SLAVE_REG_MAILBOX_M2S :: u8 where "MT7697_IO_SLAVE_REG_MAILBOX_M2S \<equiv> 0x1C"

section \<open>Operations (io.c)\<close>

text \<open>
  The debug messages, the one microsecond delay between two polls and the \<^verbatim>\<open>WARN_ON\<close> checks (which only
  log) have no counterpart.  A register access that fails returns the error of the SPI controller; a
  non-negative return value of the controller is success, whatever its value.
\<close>

definition mt7697io_busy :: "u16 \<Rightarrow> bool" where
  "mt7697io_busy value \<longleftrightarrow> BF_GET (ucast value) 0 1 = 1"

definition mt7697io_write16 ::
    "'h mt7697spi_hw_ops \<Rightarrow> u8 \<Rightarrow> u16 \<Rightarrow> ('h mt7697q_info, unit) prog" where
  "mt7697io_write16 ops reg value s =
     (case hw_write ops [MT7697_IO_CMD_WRITE, reg, ucast (drop_bit 8 value), ucast value] (hw s) of
        (ret, h') \<Rightarrow> Some (if ret < 0 then Err ret else Ok (), s\<lparr>hw := h'\<rparr>))"

definition mt7697io_write32 ::
    "'h mt7697spi_hw_ops \<Rightarrow> u8 \<Rightarrow> u32 \<Rightarrow> ('h mt7697q_info, unit) prog" where
  "mt7697io_write32 ops reg value =
     seqP (mt7697io_write16 ops reg (ucast (BF_GET value 0 16)))
          (mt7697io_write16 ops (reg + 2) (ucast (BF_GET value 16 16)))"

definition mt7697io_read16 :: "'h mt7697spi_hw_ops \<Rightarrow> u8 \<Rightarrow> ('h mt7697q_info, u16) prog" where
  "mt7697io_read16 ops reg s =
     (case hw_write_then_read ops [MT7697_IO_CMD_READ, reg, 0, 0] (hw s) of
        ((ret, rx), h') \<Rightarrow>
          Some (if ret < 0 then Err ret else Ok (push_bit 8 (ucast (rx ! 2)) OR ucast (rx ! 3)),
                s\<lparr>hw := h'\<rparr>))"

definition mt7697io_read32 :: "'h mt7697spi_hw_ops \<Rightarrow> u8 \<Rightarrow> ('h mt7697q_info, u32) prog" where
  "mt7697io_read32 ops reg =
     bindP (mt7697io_read16 ops reg) (\<lambda>low.
     bindP (mt7697io_read16 ops (reg + 2)) (\<lambda>high.
     returnP (ucast low OR push_bit 16 (ucast high))))"

definition mt7697io_chk_slave_busy :: "'h mt7697spi_hw_ops \<Rightarrow> ('h mt7697q_info, bool) prog" where
  "mt7697io_chk_slave_busy ops =
     bindP (mt7697io_read16 ops MT7697_IO_SLAVE_REG_STATUS) (\<lambda>value. returnP (mt7697io_busy value))"

partial_function (option) mt7697io_slave_wait ::
    "'h mt7697spi_hw_ops \<Rightarrow> 'h mt7697q_info \<Rightarrow> (unit outcome \<times> 'h mt7697q_info) option" where
  "mt7697io_slave_wait ops s =
     bindP (mt7697io_chk_slave_busy ops)
       (\<lambda>slave_busy s'. if slave_busy then mt7697io_slave_wait ops s' else returnP () s') s"

definition mt7697io_get_s2m_mbox :: "u16 \<Rightarrow> u8" where
  "mt7697io_get_s2m_mbox value = ucast (BF_GET (ucast value) 0 6)"

definition mt7697io_set_s2m_mbox :: "u8 \<Rightarrow> u16" where
  "mt7697io_set_s2m_mbox value = ucast (BF_DEFINE (ucast value) 0 6)"

definition mt7697io_wr_m2s_mbx ::
    "'h mt7697spi_hw_ops \<Rightarrow> u8 \<Rightarrow> ('h mt7697q_info, unit) prog" where
  "mt7697io_wr_m2s_mbx ops bits =
     mt7697io_write16 ops MT7697_IO_SLAVE_REG_MAILBOX_M2S (ucast (BF_DEFINE (ucast bits) 0 7))"

definition mt7697io_rd_s2m_mbx :: "'h mt7697spi_hw_ops \<Rightarrow> ('h mt7697q_info, u8) prog" where
  "mt7697io_rd_s2m_mbx ops =
     bindP (mt7697io_read16 ops MT7697_IO_SLAVE_REG_MAILBOX_S2M)
       (\<lambda>value. returnP (mt7697io_get_s2m_mbox value))"

definition mt7697io_clr_s2m_mbx ::
    "'h mt7697spi_hw_ops \<Rightarrow> u8 \<Rightarrow> ('h mt7697q_info, unit) prog" where
  "mt7697io_clr_s2m_mbx ops s2m_mbx =
     mt7697io_write16 ops MT7697_IO_SLAVE_REG_MAILBOX_S2M (mt7697io_set_s2m_mbox s2m_mbx)"

text \<open>The command register: transfer size word in bits 1 and up, direction in bit 0.\<close>

definition command_word :: "u32 \<Rightarrow> u16" where
  "command_word rw = ucast (BF_DEFINE 2 1 2 OR BF_DEFINE rw 0 1)"

fun mt7697io_wr_words ::
    "'h mt7697spi_hw_ops \<Rightarrow> u32 list \<Rightarrow> ('h mt7697q_info, unit) prog" where
  "mt7697io_wr_words ops [] = returnP ()"
| "mt7697io_wr_words ops (d # ds) =
     seqP (mt7697io_write32 ops MT7697_IO_SLAVE_REG_WRITE_DATA_LOW d)
    (seqP (mt7697io_write16 ops MT7697_IO_SLAVE_REG_COMMAND (command_word 1))
    (seqP (mt7697io_slave_wait ops)
          (mt7697io_wr_words ops ds)))"

definition mt7697io_wr ::
    "'h mt7697spi_hw_ops \<Rightarrow> u32 \<Rightarrow> u32 list \<Rightarrow> ('h mt7697q_info, unit) prog" where
  "mt7697io_wr ops addr ws =
     seqP (mt7697io_write32 ops MT7697_IO_SLAVE_REG_BUS_ADDR_LOW addr) (mt7697io_wr_words ops ws)"

text \<open>
  A transfer from the slave stores the words into the caller's buffer one by one, and an error in the
  middle leaves the words stored so far there: the result is the return code with the words stored.
\<close>

fun mt7697io_rd_words ::
    "'h mt7697spi_hw_ops \<Rightarrow> nat \<Rightarrow> ('h mt7697q_info, int \<times> u32 list) prog" where
  "mt7697io_rd_words ops 0 = returnP (0, [])"
| "mt7697io_rd_words ops (Suc n) =
     tryP (seqP (mt7697io_write16 ops MT7697_IO_SLAVE_REG_COMMAND (command_word 0))
          (seqP (mt7697io_slave_wait ops)
                (mt7697io_read32 ops MT7697_IO_SLAVE_REG_READ_DATA_LOW)))
       (\<lambda>ret. returnP (ret, []))
       (\<lambda>w. bindP (mt7697io_rd_words ops n) (\<lambda>(ret, ws). returnP (ret, w # ws)))"

definition mt7697io_rd ::
    "'h mt7697spi_hw_ops \<Rightarrow> u32 \<Rightarrow> nat \<Rightarrow> ('h mt7697q_info, int \<times> u32 list) prog" where
  "mt7697io_rd ops addr num =
     tryP (mt7697io_write32 ops MT7697_IO_SLAVE_REG_BUS_ADDR_LOW addr)
       (\<lambda>ret. returnP (ret, []))
       (\<lambda>_. mt7697io_rd_words ops num)"

definition mt7697io_trigger_intr :: "'h mt7697spi_hw_ops \<Rightarrow> ('h mt7697q_info, unit) prog" where
  "mt7697io_trigger_intr ops =
     mt7697io_write16 ops MT7697_IO_SLAVE_REG_IRQ (ucast (BF_DEFINE 1 0 1))"

section \<open>Register access touches the hardware only\<close>

text \<open>
  Whatever the controller does, an access changes nothing of the driver's own state: it keeps every
  property that does not depend on \<^theory_text>\<open>hw\<close>.
\<close>

definition hw_free :: "('h mt7697q_info \<Rightarrow> bool) \<Rightarrow> bool" where
  "hw_free I \<longleftrightarrow> (\<forall>s h. I s \<longrightarrow> I (s\<lparr>hw := h\<rparr>))"

lemma hw_freeD: "hw_free I \<Longrightarrow> I s \<Longrightarrow> I (s\<lparr>hw := h\<rparr>)"
  by (simp add: hw_free_def)

named_theorems io_keeps "every register access keeps what does not depend on the hardware"

lemma keeps_write16 [io_keeps]: "hw_free I \<Longrightarrow> keeps I (mt7697io_write16 ops reg value)"
  by (rule keepsI) (auto simp: mt7697io_write16_def hw_freeD split: prod.splits)

lemma keeps_read16 [io_keeps]: "hw_free I \<Longrightarrow> keeps I (mt7697io_read16 ops reg)"
  by (rule keepsI) (auto simp: mt7697io_read16_def hw_freeD split: prod.splits)

lemma keeps_write32 [io_keeps]: "hw_free I \<Longrightarrow> keeps I (mt7697io_write32 ops reg value)"
  unfolding mt7697io_write32_def by (intro keeps_intros io_keeps)

lemma keeps_read32 [io_keeps]: "hw_free I \<Longrightarrow> keeps I (mt7697io_read32 ops reg)"
  unfolding mt7697io_read32_def by (intro keeps_intros io_keeps)

lemma keeps_chk_slave_busy [io_keeps]: "hw_free I \<Longrightarrow> keeps I (mt7697io_chk_slave_busy ops)"
  unfolding mt7697io_chk_slave_busy_def by (intro keeps_intros io_keeps)

lemma slave_wait_keeps:
  assumes chk: "keeps I (mt7697io_chk_slave_busy ops)"
    and run: "mt7697io_slave_wait ops s = Some (r, s')" and I: "I s"
  shows "I s'"
proof -
  have "I s \<longrightarrow> I (snd (r, s'))"
  proof (rule mt7697io_slave_wait.raw_induct [where P = "\<lambda>ops' s rs. ops' = ops \<longrightarrow> I s \<longrightarrow> I (snd rs)",
        OF _ run, THEN mp, OF _ refl])
    fix wait ops' s and rs :: "unit outcome \<times> 'a mt7697q_info"
    assume IH: "\<And>ops' s rs. wait ops' s = Some rs \<Longrightarrow> ops' = ops \<longrightarrow> I s \<longrightarrow> I (snd rs)"
      and eq: "bindP (mt7697io_chk_slave_busy ops')
        (\<lambda>slave_busy s'. if slave_busy then wait ops' s' else returnP () s') s = Some rs"
    show "ops' = ops \<longrightarrow> I s \<longrightarrow> I (snd rs)"
    proof (intro impI)
      assume o: "ops' = ops" and "I s"
      from eq obtain r1 s1 where m: "mt7697io_chk_slave_busy ops s = Some (r1, s1)"
        by (cases "mt7697io_chk_slave_busy ops s") (auto simp: bindP_def o)
      with chk \<open>I s\<close> have "I s1" by (rule keepsD)
      with eq m o IH show "I (snd rs)"
        by (cases r1) (auto simp: returnP_def split: if_splits)
    qed
  qed
  with I show ?thesis by simp
qed

lemma keeps_slave_wait [io_keeps]: "hw_free I \<Longrightarrow> keeps I (mt7697io_slave_wait ops)"
  by (rule keepsI) (rule slave_wait_keeps [OF keeps_chk_slave_busy])

lemma keeps_wr_words [io_keeps]: "hw_free I \<Longrightarrow> keeps I (mt7697io_wr_words ops ws)"
  by (induction ws) (auto intro!: keeps_intros io_keeps)

lemma keeps_rd_words [io_keeps]: "hw_free I \<Longrightarrow> keeps I (mt7697io_rd_words ops n)"
  by (induction n) (auto intro!: keeps_intros io_keeps split: prod.split)

lemma keeps_io [io_keeps]:
  assumes "hw_free I"
  shows "keeps I (mt7697io_wr ops addr ws)" "keeps I (mt7697io_rd ops addr n)"
    "keeps I (mt7697io_wr_m2s_mbx ops bits)" "keeps I (mt7697io_rd_s2m_mbx ops)"
    "keeps I (mt7697io_clr_s2m_mbx ops bits)" "keeps I (mt7697io_trigger_intr ops)"
  using assms
  unfolding mt7697io_wr_def mt7697io_rd_def mt7697io_wr_m2s_mbx_def mt7697io_rd_s2m_mbx_def
    mt7697io_clr_s2m_mbx_def mt7697io_trigger_intr_def
  by (auto intro!: keeps_intros io_keeps)

section \<open>The slave's register protocol\<close>

text \<open>
  What the driver relies on of the MT7697 SPI slave, read off the register map of \<^verbatim>\<open>io.h\<close> and the way
  \<^verbatim>\<open>io.c\<close> drives it.  \<^theory_text>\<open>slave_view\<close> is the slave as the driver sees it, \<^theory_text>\<open>slave_write\<close> the effect of a
  register write.  A write command stores the data register at the bus address, a read command loads
  it, and both advance the address by one word, so that a transfer sets the address once.
\<close>

record slave_view =
  sv_addr :: u32
  sv_wdata :: u32
  sv_rdata :: u32
  sv_mem :: "u32 \<Rightarrow> u32"
  sv_m2s :: u16
  sv_s2m :: u16
  sv_irq :: bool

definition set_low :: "u16 \<Rightarrow> u32 \<Rightarrow> u32" where
  "set_low x w = push_bit 16 (drop_bit 16 w) OR ucast x"

definition set_high :: "u16 \<Rightarrow> u32 \<Rightarrow> u32" where
  "set_high x w = take_bit 16 w OR push_bit 16 (ucast x)"

definition slave_write :: "u8 \<Rightarrow> u16 \<Rightarrow> slave_view \<Rightarrow> slave_view" where
  "slave_write reg x v =
     (if reg = 0x04 then v\<lparr>sv_wdata := set_low x (sv_wdata v)\<rparr>
      else if reg = 0x06 then v\<lparr>sv_wdata := set_high x (sv_wdata v)\<rparr>
      else if reg = 0x08 then v\<lparr>sv_addr := set_low x (sv_addr v)\<rparr>
      else if reg = 0x0A then v\<lparr>sv_addr := set_high x (sv_addr v)\<rparr>
      else if reg = 0x0C \<and> x = 5 then
        v\<lparr>sv_mem := (sv_mem v)(sv_addr v := sv_wdata v), sv_addr := sv_addr v + 4\<rparr>
      else if reg = 0x0C \<and> x = 4 then
        v\<lparr>sv_rdata := sv_mem v (sv_addr v), sv_addr := sv_addr v + 4\<rparr>
      else if reg = 0x14 then v\<lparr>sv_irq := bit x 0\<rparr>
      else if reg = 0x18 then v\<lparr>sv_s2m := sv_s2m v AND NOT x\<rparr>
      else if reg = 0x1C then v\<lparr>sv_m2s := sv_m2s v OR x\<rparr>
      else v)"

definition slave_read :: "u8 \<Rightarrow> slave_view \<Rightarrow> u16" where
  "slave_read reg v =
     (if reg = 0x00 then ucast (sv_rdata v)
      else if reg = 0x02 then ucast (drop_bit 16 (sv_rdata v))
      else if reg = 0x18 then sv_s2m v
      else 0)"

definition be16 :: "u8 \<Rightarrow> u8 \<Rightarrow> u16" where
  "be16 hi lo = push_bit 8 (ucast hi) OR ucast lo"

text \<open>
  \<open>polls\<close> is the number of status reads that will still say busy: it is finite after a command, and
  the register file is only accessed when it is 0.
\<close>

locale mt7697_slave =
  fixes ops :: "'h mt7697spi_hw_ops"
    and view :: "'h \<Rightarrow> slave_view"
    and polls :: "'h \<Rightarrow> nat"
  assumes write_ok: "polls h = 0 \<Longrightarrow>
      0 \<le> fst (hw_write ops [0x80, reg, hi, lo] h) \<and>
      view (snd (hw_write ops [0x80, reg, hi, lo] h)) = slave_write reg (be16 hi lo) (view h)"
    and write_idle: "polls h = 0 \<Longrightarrow> reg \<noteq> 0x0C \<Longrightarrow>
      polls (snd (hw_write ops [0x80, reg, hi, lo] h)) = 0"
    and read_ok: "polls h = 0 \<Longrightarrow> reg \<in> {0x00, 0x02, 0x18} \<Longrightarrow>
      hw_write_then_read ops [0x00, reg, 0, 0] h = ((ret, rx), h') \<Longrightarrow>
      0 \<le> ret \<and> be16 (rx ! 2) (rx ! 3) = slave_read reg (view h) \<and> view h' = view h \<and> polls h' = 0"
    and status_ok: "hw_write_then_read ops [0x00, 0x10, 0, 0] h = ((ret, rx), h') \<Longrightarrow>
      0 \<le> ret \<and> take_bit 2 (be16 (rx ! 2) (rx ! 3)) = (if 0 < polls h then 1 else 0) \<and>
      view h' = view h \<and> polls h' = polls h - 1"

text \<open>Memory as a transfer sees it.\<close>

fun mem_write :: "u32 \<Rightarrow> u32 list \<Rightarrow> (u32 \<Rightarrow> u32) \<Rightarrow> u32 \<Rightarrow> u32" where
  "mem_write a [] m = m"
| "mem_write a (w # ws) m = mem_write (a + 4) ws (m(a := w))"

fun mem_read :: "u32 \<Rightarrow> nat \<Rightarrow> (u32 \<Rightarrow> u32) \<Rightarrow> u32 list" where
  "mem_read a 0 m = []"
| "mem_read a (Suc n) m = m a # mem_read (a + 4) n m"

lemma length_mem_read [simp]: "length (mem_read a n m) = n"
  by (induction n arbitrary: a) auto

lemma be16_bytes: "be16 (ucast (drop_bit 8 x)) (ucast (x :: u16)) = x"
  unfolding be16_def
  by (rule bit_word_eqI) (auto simp: bit_or_iff bit_push_bit_iff bit_ucast_iff bit_drop_bit_eq)

lemma set_low_high:
  "set_high (ucast (BF_GET v 16 16)) (set_low (ucast (BF_GET v 0 16)) w) = v"
  unfolding set_high_def set_low_def
  by (rule bit_word_eqI)
    (auto simp: bit_or_iff bit_push_bit_iff bit_ucast_iff bit_drop_bit_eq bit_take_bit_iff bit_BF_GET)

lemma halves_word:
  "ucast (ucast v :: u16) OR push_bit 16 (ucast (ucast (drop_bit 16 v) :: u16)) = (v :: u32)"
  by (rule bit_word_eqI)
    (auto simp: bit_or_iff bit_push_bit_iff bit_ucast_iff bit_drop_bit_eq)

lemma command_word_val: "command_word 1 = 5" "command_word 0 = 4"
  by (simp_all add: command_word_def BF_DEFINE_take_bit)

context mt7697_slave
begin

lemma io_write16:
  assumes "polls (hw s) = 0"
  shows "\<exists>h'. mt7697io_write16 ops reg x s = Some (Ok (), s\<lparr>hw := h'\<rparr>) \<and>
           view h' = slave_write reg x (view (hw s)) \<and> (reg \<noteq> 0x0C \<longrightarrow> polls h' = 0)"
  using write_ok [OF assms, of reg "ucast (drop_bit 8 x)" "ucast x"]
    write_idle [OF assms, of reg "ucast (drop_bit 8 x)" "ucast x"]
  by (cases "hw_write ops [0x80, reg, ucast (drop_bit 8 x), ucast x] (hw s)")
    (auto simp: mt7697io_write16_def be16_bytes)

lemma io_read16:
  assumes "polls (hw s) = 0" "reg \<in> {0x00, 0x02, 0x18}"
  shows "\<exists>h'. mt7697io_read16 ops reg s = Some (Ok (slave_read reg (view (hw s))), s\<lparr>hw := h'\<rparr>) \<and>
           view h' = view (hw s) \<and> polls h' = 0"
proof -
  obtain ret rx h' where h: "hw_write_then_read ops [0x00, reg, 0, 0] (hw s) = ((ret, rx), h')"
    by (metis surj_pair)
  from read_ok [OF assms h] show ?thesis
    by (auto simp: mt7697io_read16_def h be16_def)
qed

lemma io_chk_slave_busy:
  "\<exists>h'. mt7697io_chk_slave_busy ops s = Some (Ok (0 < polls (hw s)), s\<lparr>hw := h'\<rparr>) \<and>
        view h' = view (hw s) \<and> polls h' = polls (hw s) - 1"
proof -
  obtain ret rx h' where h: "hw_write_then_read ops [0x00, 0x10, 0, 0] (hw s) = ((ret, rx), h')"
    by (metis surj_pair)
  note st = status_ok [OF h]
  have "mt7697io_busy (be16 (rx ! 2) (rx ! 3)) = (0 < polls (hw s))"
  proof -
    have "BF_GET (ucast x) 0 1 = ucast (take_bit 2 x)" for x :: u16
      by (rule bit_word_eqI)
        (auto simp: bit_BF_GET bit_ucast_iff bit_take_bit_iff less_2_cases_iff Suc_le_eq)
    with st show ?thesis by (simp add: mt7697io_busy_def)
  qed
  with st h show ?thesis
    by (auto simp: mt7697io_chk_slave_busy_def mt7697io_read16_def bindP_def returnP_def be16_def)
qed

text \<open>The busy wait ends, and it leaves the slave idle with nothing else changed.\<close>

lemma io_slave_wait:
  "\<exists>h'. mt7697io_slave_wait ops s = Some (Ok (), s\<lparr>hw := h'\<rparr>) \<and> view h' = view (hw s) \<and> polls h' = 0"
proof (induction "polls (hw s)" arbitrary: s)
  case 0
  then show ?case
    using io_chk_slave_busy [of s]
    by (subst mt7697io_slave_wait.simps) (auto simp: bindP_def returnP_def)
next
  case (Suc n)
  obtain h1 where h1: "mt7697io_chk_slave_busy ops s = Some (Ok True, s\<lparr>hw := h1\<rparr>)"
      "view h1 = view (hw s)" "polls h1 = n"
    using io_chk_slave_busy [of s] Suc.hyps(2) by (auto simp: Suc_le_eq dest: sym)
  with Suc.hyps(1) [of "s\<lparr>hw := h1\<rparr>"] show ?case
    by (subst mt7697io_slave_wait.simps) (auto simp: bindP_def)
qed

lemma io_set_addr:
  assumes "polls (hw s) = 0"
  shows "\<exists>h'. mt7697io_write32 ops 0x08 a s = Some (Ok (), s\<lparr>hw := h'\<rparr>) \<and>
           view h' = (view (hw s))\<lparr>sv_addr := a\<rparr> \<and> polls h' = 0"
proof -
  obtain h1 where h1: "mt7697io_write16 ops 0x08 (ucast (BF_GET a 0 16)) s = Some (Ok (), s\<lparr>hw := h1\<rparr>)"
      "view h1 = slave_write 0x08 (ucast (BF_GET a 0 16)) (view (hw s))" "polls h1 = 0"
    using io_write16 [OF assms, of "0x08"] by auto
  then obtain h2 where "mt7697io_write16 ops 0x0A (ucast (BF_GET a 16 16)) (s\<lparr>hw := h1\<rparr>) =
        Some (Ok (), s\<lparr>hw := h2\<rparr>)"
      "view h2 = slave_write 0x0A (ucast (BF_GET a 16 16)) (view h1)" "polls h2 = 0"
    using io_write16 [of "s\<lparr>hw := h1\<rparr>" "0x0A"] by auto
  with h1 show ?thesis
    by (auto simp: mt7697io_write32_def slave_write_def set_low_high)
qed

lemma io_set_wdata:
  assumes "polls (hw s) = 0"
  shows "\<exists>h'. mt7697io_write32 ops 0x04 w s = Some (Ok (), s\<lparr>hw := h'\<rparr>) \<and>
           view h' = (view (hw s))\<lparr>sv_wdata := w\<rparr> \<and> polls h' = 0"
proof -
  obtain h1 where h1: "mt7697io_write16 ops 0x04 (ucast (BF_GET w 0 16)) s = Some (Ok (), s\<lparr>hw := h1\<rparr>)"
      "view h1 = slave_write 0x04 (ucast (BF_GET w 0 16)) (view (hw s))" "polls h1 = 0"
    using io_write16 [OF assms, of "0x04"] by auto
  then obtain h2 where "mt7697io_write16 ops 0x06 (ucast (BF_GET w 16 16)) (s\<lparr>hw := h1\<rparr>) =
        Some (Ok (), s\<lparr>hw := h2\<rparr>)"
      "view h2 = slave_write 0x06 (ucast (BF_GET w 16 16)) (view h1)" "polls h2 = 0"
    using io_write16 [of "s\<lparr>hw := h1\<rparr>" "0x06"] by auto
  with h1 show ?thesis
    by (auto simp: mt7697io_write32_def slave_write_def set_low_high)
qed

lemma io_read_data:
  assumes "polls (hw s) = 0"
  shows "\<exists>h'. mt7697io_read32 ops 0x00 s = Some (Ok (sv_rdata (view (hw s))), s\<lparr>hw := h'\<rparr>) \<and>
           view h' = view (hw s) \<and> polls h' = 0"
proof -
  obtain h1 where h1: "mt7697io_read16 ops 0x00 s =
        Some (Ok (ucast (sv_rdata (view (hw s)))), s\<lparr>hw := h1\<rparr>)" "view h1 = view (hw s)" "polls h1 = 0"
    using io_read16 [OF assms, of "0x00"] by (auto simp: slave_read_def)
  then obtain h2 where "mt7697io_read16 ops 0x02 (s\<lparr>hw := h1\<rparr>) =
        Some (Ok (ucast (drop_bit 16 (sv_rdata (view (hw s))))), s\<lparr>hw := h2\<rparr>)"
        "view h2 = view (hw s)" "polls h2 = 0"
    using io_read16 [of "s\<lparr>hw := h1\<rparr>" "0x02"] by (auto simp: slave_read_def)
  with h1 show ?thesis
    by (auto simp: mt7697io_read32_def returnP_def halves_word)
qed

text \<open>A command, the wait for it, and nothing else changed but what the command does.\<close>

lemma io_command:
  assumes "polls (hw s) = 0"
  shows "\<exists>h'. seqP (mt7697io_write16 ops 0x0C x) (seqP (mt7697io_slave_wait ops) m) s =
           m (s\<lparr>hw := h'\<rparr>) \<and> view h' = slave_write 0x0C x (view (hw s)) \<and> polls h' = 0"
proof -
  obtain h1 where h1: "mt7697io_write16 ops 0x0C x s = Some (Ok (), s\<lparr>hw := h1\<rparr>)"
      "view h1 = slave_write 0x0C x (view (hw s))"
    using io_write16 [OF assms] by blast
  obtain h2 where "mt7697io_slave_wait ops (s\<lparr>hw := h1\<rparr>) = Some (Ok (), s\<lparr>hw := h2\<rparr>)"
      "view h2 = view h1" "polls h2 = 0"
    using io_slave_wait [of "s\<lparr>hw := h1\<rparr>"] by auto
  with h1 show ?thesis by auto
qed

end

definition same_ctl :: "slave_view \<Rightarrow> slave_view \<Rightarrow> bool" where
  "same_ctl v v' \<longleftrightarrow> sv_m2s v' = sv_m2s v \<and> sv_s2m v' = sv_s2m v \<and> sv_irq v' = sv_irq v"

context mt7697_slave
begin

lemma io_wr_words:
  assumes "polls (hw s) = 0"
  shows "\<exists>h'. mt7697io_wr_words ops ws s = Some (Ok (), s\<lparr>hw := h'\<rparr>) \<and>
           sv_mem (view h') = mem_write (sv_addr (view (hw s))) ws (sv_mem (view (hw s))) \<and>
           same_ctl (view (hw s)) (view h') \<and> polls h' = 0"
  using assms
proof (induction ws arbitrary: s)
  case Nil
  then show ?case
    by (intro exI [of _ "hw s"]) (simp add: returnP_def same_ctl_def)
next
  case (Cons w ws)
  obtain h1 where h1: "mt7697io_write32 ops 0x04 w s = Some (Ok (), s\<lparr>hw := h1\<rparr>)"
      "view h1 = (view (hw s))\<lparr>sv_wdata := w\<rparr>" "polls h1 = 0"
    using io_set_wdata [OF Cons.prems] by blast
  obtain h2 where h2: "seqP (mt7697io_write16 ops 0x0C 5) (seqP (mt7697io_slave_wait ops)
        (mt7697io_wr_words ops ws)) (s\<lparr>hw := h1\<rparr>) = mt7697io_wr_words ops ws (s\<lparr>hw := h2\<rparr>)"
      "view h2 = slave_write 0x0C 5 (view h1)" "polls h2 = 0"
    using io_command [of "s\<lparr>hw := h1\<rparr>" 5 "mt7697io_wr_words ops ws"] h1(3) by auto
  from Cons.IH [of "s\<lparr>hw := h2\<rparr>"] h2(3) obtain h3 where h3:
      "mt7697io_wr_words ops ws (s\<lparr>hw := h2\<rparr>) = Some (Ok (), s\<lparr>hw := h3\<rparr>)"
      "sv_mem (view h3) = mem_write (sv_addr (view h2)) ws (sv_mem (view h2))"
      "same_ctl (view h2) (view h3)" "polls h3 = 0"
    by auto
  have "mt7697io_wr_words ops (w # ws) s = mt7697io_wr_words ops ws (s\<lparr>hw := h2\<rparr>)"
    using h1(1) h2(1) by (simp add: command_word_val)
  with h1(2) h2(2) h3 show ?case
    by (intro exI [of _ h3]) (simp add: slave_write_def same_ctl_def)
qed

lemma io_wr:
  assumes "polls (hw s) = 0"
  shows "\<exists>h'. mt7697io_wr ops addr ws s = Some (Ok (), s\<lparr>hw := h'\<rparr>) \<and>
           sv_mem (view h') = mem_write addr ws (sv_mem (view (hw s))) \<and>
           same_ctl (view (hw s)) (view h') \<and> polls h' = 0"
proof -
  obtain h1 where h1: "mt7697io_write32 ops 0x08 addr s = Some (Ok (), s\<lparr>hw := h1\<rparr>)"
      "view h1 = (view (hw s))\<lparr>sv_addr := addr\<rparr>" "polls h1 = 0"
    using io_set_addr [OF assms] by blast
  from io_wr_words [of "s\<lparr>hw := h1\<rparr>" ws] h1 show ?thesis
    by (auto simp: mt7697io_wr_def same_ctl_def)
qed

lemma io_rd_words:
  assumes "polls (hw s) = 0"
  shows "\<exists>h'. mt7697io_rd_words ops n s =
             Some (Ok (0, mem_read (sv_addr (view (hw s))) n (sv_mem (view (hw s)))), s\<lparr>hw := h'\<rparr>) \<and>
           sv_mem (view h') = sv_mem (view (hw s)) \<and>
           same_ctl (view (hw s)) (view h') \<and> polls h' = 0"
  using assms
proof (induction n arbitrary: s)
  case 0
  then show ?case
    by (intro exI [of _ "hw s"]) (simp add: returnP_def same_ctl_def)
next
  case (Suc n)
  let ?rd = "mt7697io_read32 ops 0x00 :: ('h mt7697q_info, u32) prog"
  obtain h1 where h1: "seqP (mt7697io_write16 ops 0x0C 4) (seqP (mt7697io_slave_wait ops) ?rd) s =
        ?rd (s\<lparr>hw := h1\<rparr>)" "view h1 = slave_write 0x0C 4 (view (hw s))" "polls h1 = 0"
    using io_command [OF Suc.prems, of 4 ?rd] by blast
  obtain h2 where h2: "mt7697io_read32 ops 0x00 (s\<lparr>hw := h1\<rparr>) =
        Some (Ok (sv_rdata (view h1)), s\<lparr>hw := h2\<rparr>)" "view h2 = view h1" "polls h2 = 0"
    using io_read_data [of "s\<lparr>hw := h1\<rparr>"] h1(3) by auto
  from Suc.IH [of "s\<lparr>hw := h2\<rparr>"] h2(3) obtain h3 where h3:
      "mt7697io_rd_words ops n (s\<lparr>hw := h2\<rparr>) =
         Some (Ok (0, mem_read (sv_addr (view h2)) n (sv_mem (view h2))), s\<lparr>hw := h3\<rparr>)"
      "sv_mem (view h3) = sv_mem (view h2)" "same_ctl (view h2) (view h3)" "polls h3 = 0"
    by auto
  have "mt7697io_rd_words ops (Suc n) s = bindP (mt7697io_rd_words ops n)
      (\<lambda>(ret, ws). returnP (ret, sv_rdata (view h1) # ws)) (s\<lparr>hw := h2\<rparr>)"
    using h1(1) h2(1) by (simp add: command_word_val tryP_def)
  with h1(2) h2(2) h3 show ?case
    by (intro exI [of _ h3]) (simp add: slave_write_def same_ctl_def returnP_def)
qed

lemma io_rd:
  assumes "polls (hw s) = 0"
  shows "\<exists>h'. mt7697io_rd ops addr n s =
             Some (Ok (0, mem_read addr n (sv_mem (view (hw s)))), s\<lparr>hw := h'\<rparr>) \<and>
           sv_mem (view h') = sv_mem (view (hw s)) \<and>
           same_ctl (view (hw s)) (view h') \<and> polls h' = 0"
proof -
  obtain h1 where h1: "mt7697io_write32 ops 0x08 addr s = Some (Ok (), s\<lparr>hw := h1\<rparr>)"
      "view h1 = (view (hw s))\<lparr>sv_addr := addr\<rparr>" "polls h1 = 0"
    using io_set_addr [OF assms] by blast
  from io_rd_words [of "s\<lparr>hw := h1\<rparr>" n] h1 show ?thesis
    by (auto simp: mt7697io_rd_def same_ctl_def tryP_def)
qed

end

section \<open>A slave that follows the protocol\<close>

text \<open>
  A concrete register file with its memory, which stays busy for two status reads after a command:
  the locale's laws hold of it, so they can hold, and closed examples run on it.
\<close>

fun ideal_write :: "u8 list \<Rightarrow> slave_view \<times> nat \<Rightarrow> int \<times> slave_view \<times> nat" where
  "ideal_write [c, reg, hi, lo] (v, n) =
     (0, slave_write reg (be16 hi lo) v, if reg = 0x0C then 2 else n)"
| "ideal_write _ h = (- EINVAL, h)"

fun ideal_transfer :: "u8 list \<Rightarrow> slave_view \<times> nat \<Rightarrow> (int \<times> u8 list) \<times> slave_view \<times> nat" where
  "ideal_transfer [c, reg, x, y] (v, n) =
     (if reg = 0x10 then ((0, [0, 0, 0, if 0 < n then 1 else 0]), (v, n - 1))
      else ((0, [0, 0, ucast (drop_bit 8 (slave_read reg v)), ucast (slave_read reg v)]), (v, n)))"
| "ideal_transfer _ h = ((- EINVAL, []), h)"

definition ideal_ops :: "(slave_view \<times> nat) mt7697spi_hw_ops" where
  "ideal_ops = \<lparr>hw_write = ideal_write, hw_write_then_read = ideal_transfer\<rparr>"

interpretation ideal: mt7697_slave ideal_ops fst snd
proof unfold_locales
  fix h :: "slave_view \<times> nat" and reg hi lo :: u8
  assume "snd h = 0"
  then show "0 \<le> fst (hw_write ideal_ops [0x80, reg, hi, lo] h) \<and>
      fst (snd (hw_write ideal_ops [0x80, reg, hi, lo] h)) = slave_write reg (be16 hi lo) (fst h)"
    by (cases h) (simp add: ideal_ops_def)
next
  fix h :: "slave_view \<times> nat" and reg hi lo :: u8
  assume "snd h = 0" "reg \<noteq> 0x0C"
  then show "snd (snd (hw_write ideal_ops [0x80, reg, hi, lo] h)) = 0"
    by (cases h) (simp add: ideal_ops_def)
next
  fix h h' :: "slave_view \<times> nat" and reg :: u8 and ret :: int and rx :: "u8 list"
  assume "snd h = 0" "reg \<in> {0x00, 0x02, 0x18}"
    "hw_write_then_read ideal_ops [0x00, reg, 0, 0] h = ((ret, rx), h')"
  then show "0 \<le> ret \<and> be16 (rx ! 2) (rx ! 3) = slave_read reg (fst h) \<and> fst h' = fst h \<and> snd h' = 0"
    by (cases h) (auto simp: ideal_ops_def be16_bytes)
next
  fix h h' :: "slave_view \<times> nat" and ret :: int and rx :: "u8 list"
  assume "hw_write_then_read ideal_ops [0x00, 0x10, 0, 0] h = ((ret, rx), h')"
  then show "0 \<le> ret \<and> take_bit 2 (be16 (rx ! 2) (rx ! 3)) = (if 0 < snd h then 1 else 0) \<and>
      fst h' = fst h \<and> snd h' = snd h - 1"
    by (cases h) (auto simp: ideal_ops_def be16_def)
qed

end
