(* ===== verification/Ring_Buffer.thy ===== *)
theory Ring_Buffer
  imports Main
begin

text \<open>
  The contract of the shared queues, apart from the driver: a FIFO of words that are put in and taken
  out in runs (locale \<^theory_text>\<open>bulk_fifo\<close>), and the ring of \<open>N\<close> slots with a read and a write offset that
  implements it, one slot always left free.  The driver's queue is shown to refine the ring.
\<close>

section \<open>The contract\<close>

datatype 'a fifo_op = Put "'a list" | Take nat

text \<open>
  What a schedule puts in, and whether each of its runs fits when \<open>free\<close> places are free and \<open>used\<close>
  are taken at its start.
\<close>

fun fifo_inputs :: "'a fifo_op list \<Rightarrow> 'a list" where
  "fifo_inputs [] = []"
| "fifo_inputs (Put xs # es) = xs @ fifo_inputs es"
| "fifo_inputs (Take n # es) = fifo_inputs es"

fun fifo_fits :: "'a fifo_op list \<Rightarrow> nat \<Rightarrow> nat \<Rightarrow> bool" where
  "fifo_fits [] free used = True"
| "fifo_fits (Put xs # es) free used =
     (length xs \<le> free \<and> fifo_fits es (free - length xs) (used + length xs))"
| "fifo_fits (Take n # es) free used = (n \<le> used \<and> fifo_fits es (free + n) (used - n))"

locale bulk_fifo =
  fixes put :: "'a list \<Rightarrow> 'q \<Rightarrow> 'q"
    and take_out :: "nat \<Rightarrow> 'q \<Rightarrow> 'a list \<times> 'q"
    and contents :: "'q \<Rightarrow> 'a list"
    and room :: "'q \<Rightarrow> nat"
    and inv :: "'q \<Rightarrow> bool"
  assumes put_inv: "inv q \<Longrightarrow> length xs \<le> room q \<Longrightarrow> inv (put xs q)"
    and put_contents: "inv q \<Longrightarrow> length xs \<le> room q \<Longrightarrow> contents (put xs q) = contents q @ xs"
    and put_room: "inv q \<Longrightarrow> length xs \<le> room q \<Longrightarrow> room (put xs q) = room q - length xs"
    and take_inv: "inv q \<Longrightarrow> n \<le> length (contents q) \<Longrightarrow> inv (snd (take_out n q))"
    and take_result: "inv q \<Longrightarrow> n \<le> length (contents q) \<Longrightarrow> fst (take_out n q) = take n (contents q)"
    and take_contents: "inv q \<Longrightarrow> n \<le> length (contents q) \<Longrightarrow>
      contents (snd (take_out n q)) = drop n (contents q)"
    and take_room: "inv q \<Longrightarrow> n \<le> length (contents q) \<Longrightarrow> room (snd (take_out n q)) = room q + n"
begin

text \<open>A schedule of runs put in and taken out, each of which fits; its outputs in order.\<close>

fun fits :: "'a fifo_op list \<Rightarrow> 'q \<Rightarrow> bool" where
  "fits [] q = True"
| "fits (Put xs # es) q = (length xs \<le> room q \<and> fits es (put xs q))"
| "fits (Take n # es) q = (n \<le> length (contents q) \<and> fits es (snd (take_out n q)))"

fun outputs :: "'a fifo_op list \<Rightarrow> 'q \<Rightarrow> 'a list" where
  "outputs [] q = []"
| "outputs (Put xs # es) q = outputs es (put xs q)"
| "outputs (Take n # es) q = fst (take_out n q) @ outputs es (snd (take_out n q))"

fun final :: "'a fifo_op list \<Rightarrow> 'q \<Rightarrow> 'q" where
  "final [] q = q"
| "final (Put xs # es) q = final es (put xs q)"
| "final (Take n # es) q = final es (snd (take_out n q))"

lemma final_inv: "inv q \<Longrightarrow> fits es q \<Longrightarrow> inv (final es q)"
  by (induction es q rule: fits.induct) (auto simp: put_inv take_inv)

text \<open>Under every interleaving nothing is lost, duplicated or reordered.\<close>

lemma fifo_order: "inv q \<Longrightarrow> fits es q \<Longrightarrow> outputs es q @ contents (final es q) = contents q @ fifo_inputs es"
proof (induction es q rule: fits.induct)
  case (3 n es q)
  then have "outputs es (snd (take_out n q)) @ contents (final es (snd (take_out n q))) =
      drop n (contents q) @ fifo_inputs es"
    by (simp add: take_inv take_contents)
  with 3 show ?case
    by (simp add: take_result)
qed (simp_all add: put_inv put_contents)

lemma fits_counts: "inv q \<Longrightarrow> fits es q = fifo_fits es (room q) (length (contents q))"
  by (induction es q rule: fits.induct)
    (auto simp: put_inv put_contents put_room take_inv take_contents take_room add.commute)

lemma fifo_capacity:
  "inv q \<Longrightarrow> fits es q \<Longrightarrow>
     room (final es q) + length (contents (final es q)) = room q + length (contents q)"
  by (induction es q rule: fits.induct)
    (auto simp: put_inv put_contents put_room take_inv take_contents take_room)

text \<open>A message put in several pieces and taken out in several pieces comes out whole.\<close>

lemma pieces_whole:
  assumes "inv q" "contents q = []" "fits es q" "contents (final es q) = []"
  shows "outputs es q = fifo_inputs es"
  using fifo_order [OF assms(1,3)] assms(2,4) by simp

end

section \<open>The ring\<close>

definition ring_count :: "nat \<Rightarrow> nat \<Rightarrow> nat \<Rightarrow> nat" where
  "ring_count N R W = (W + N - R) mod N"

definition ring_contents :: "nat \<Rightarrow> nat \<Rightarrow> nat \<Rightarrow> (nat \<Rightarrow> 'a) \<Rightarrow> 'a list" where
  "ring_contents N R W r = map (\<lambda>i. r ((R + i) mod N)) [0..<ring_count N R W]"

definition ring_put :: "nat \<Rightarrow> nat \<Rightarrow> 'a list \<Rightarrow> (nat \<Rightarrow> 'a) \<Rightarrow> nat \<Rightarrow> 'a" where
  "ring_put N W ws r j = (let k = (j + N - W) mod N in if k < length ws then ws ! k else r j)"

lemma ring_count_lt: "0 < N \<Longrightarrow> ring_count N R W < N"
  by (simp add: ring_count_def)

lemma ring_count_cases:
  assumes "R < N" "W < N"
  shows "ring_count N R W = (if R \<le> W then W - R else N - R + W)"
  using assms by (auto simp: ring_count_def mod_if)

lemma length_ring_contents [simp]: "length (ring_contents N R W r) = ring_count N R W"
  by (simp add: ring_contents_def)

lemma mod_add_cases: "a < N \<Longrightarrow> b \<le> N \<Longrightarrow> (a + b) mod N = (if a + b < N then a + b else a + b - N)"
  for N :: nat
  by (cases "a + b < 2 * N") (auto simp: mod_if)

lemma ring_count_advance_write:
  assumes "R < N" "W < N" "ring_count N R W + k < N"
  shows "ring_count N R ((W + k) mod N) = ring_count N R W + k"
proof -
  have "W + k < 2 * N" using assms(2,3) by linarith
  then show ?thesis
    using assms by (auto simp: ring_count_cases mod_if split: if_splits)
qed

lemma ring_count_advance_read:
  assumes "R < N" "W < N" "k \<le> ring_count N R W"
  shows "ring_count N ((R + k) mod N) W = ring_count N R W - k"
proof -
  have "R + k < 2 * N" using assms ring_count_lt [of N R W] by linarith
  then show ?thesis
    using assms by (auto simp: ring_count_cases mod_if split: if_splits)
qed

lemma ring_slot:
  assumes "R < N" "W < N" "ring_count N R W \<le> i" "i < N"
  shows "((R + i) mod N + N - W) mod N = i - ring_count N R W"
proof -
  have "R + i < 2 * N" using assms by linarith
  then show ?thesis
    using assms by (auto simp: ring_count_cases mod_if split: if_splits)
qed

lemma ring_slot_used:
  assumes "R < N" "W < N" "i < ring_count N R W"
  shows "((R + i) mod N + N - W) mod N = i + N - ring_count N R W"
proof -
  have "R + i < 2 * N" using assms ring_count_lt [of N R W] by linarith
  then show ?thesis
    using assms by (auto simp: ring_count_cases mod_if split: if_splits)
qed

lemma ring_contents_put:
  assumes "R < N" "W < N" "ring_count N R W + length ws < N"
  shows "ring_contents N R ((W + length ws) mod N) (ring_put N W ws r) = ring_contents N R W r @ ws"
proof (rule nth_equalityI)
  show "length (ring_contents N R ((W + length ws) mod N) (ring_put N W ws r)) =
      length (ring_contents N R W r @ ws)"
    using assms by (simp add: ring_count_advance_write)
next
  fix i assume "i < length (ring_contents N R ((W + length ws) mod N) (ring_put N W ws r))"
  then have i: "i < ring_count N R W + length ws"
    using assms by (simp add: ring_count_advance_write)
  show "ring_contents N R ((W + length ws) mod N) (ring_put N W ws r) ! i =
      (ring_contents N R W r @ ws) ! i"
  proof (cases "i < ring_count N R W")
    case True
    have "\<not> (i + N - ring_count N R W < length ws)" using True assms(3) by linarith
    with True i assms show ?thesis
      by (simp add: ring_contents_def ring_count_advance_write nth_append ring_put_def ring_slot_used)
  next
    case False
    then have "i - ring_count N R W < length ws" using i by linarith
    with False i assms show ?thesis
      by (simp add: ring_contents_def ring_count_advance_write nth_append ring_put_def ring_slot)
  qed
qed

lemma ring_contents_drop:
  assumes "R < N" "W < N" "k \<le> ring_count N R W"
  shows "ring_contents N ((R + k) mod N) W r = drop k (ring_contents N R W r)"
proof (rule nth_equalityI)
  show "length (ring_contents N ((R + k) mod N) W r) = length (drop k (ring_contents N R W r))"
    using assms by (simp add: ring_count_advance_read)
next
  fix i assume "i < length (ring_contents N ((R + k) mod N) W r)"
  then have "k + i < ring_count N R W" "i < ring_count N R W - k"
    using assms by (simp_all add: ring_count_advance_read)
  then show "ring_contents N ((R + k) mod N) W r ! i = drop k (ring_contents N R W r) ! i"
    using assms
    by (simp add: ring_contents_def ring_count_advance_read mod_add_left_eq add.assoc)
qed

lemma ring_contents_take:
  assumes "k \<le> ring_count N R W"
  shows "take k (ring_contents N R W r) = map (\<lambda>i. r ((R + i) mod N)) [0..<k]"
  using assms by (simp add: ring_contents_def take_map)

text \<open>The ring with its two offsets implements the contract.\<close>

record 'a ring =
  slots :: "nat \<Rightarrow> 'a"
  size_of :: nat
  rd :: nat
  wr :: nat

definition ring_inv :: "'a ring \<Rightarrow> bool" where
  "ring_inv q \<longleftrightarrow> rd q < size_of q \<and> wr q < size_of q"

definition ring_enq :: "'a list \<Rightarrow> 'a ring \<Rightarrow> 'a ring" where
  "ring_enq xs q = q\<lparr>slots := ring_put (size_of q) (wr q) xs (slots q),
                     wr := (wr q + length xs) mod size_of q\<rparr>"

definition ring_deq :: "nat \<Rightarrow> 'a ring \<Rightarrow> 'a list \<times> 'a ring" where
  "ring_deq n q = (map (\<lambda>i. slots q ((rd q + i) mod size_of q)) [0..<n],
                   q\<lparr>rd := (rd q + n) mod size_of q\<rparr>)"

definition ring_list :: "'a ring \<Rightarrow> 'a list" where
  "ring_list q = ring_contents (size_of q) (rd q) (wr q) (slots q)"

definition ring_room :: "'a ring \<Rightarrow> nat" where
  "ring_room q = size_of q - 1 - ring_count (size_of q) (rd q) (wr q)"

lemma ring_room_fits: "ring_inv q \<Longrightarrow> n \<le> ring_room q \<Longrightarrow> ring_count (size_of q) (rd q) (wr q) + n < size_of q"
  using ring_count_lt [of "size_of q" "rd q" "wr q"] by (auto simp: ring_room_def ring_inv_def)

interpretation ring: bulk_fifo ring_enq ring_deq ring_list ring_room ring_inv
proof unfold_locales
  fix q :: "'a ring" and xs :: "'a list"
  assume q: "ring_inv q" and fit: "length xs \<le> ring_room q"
  note room = ring_room_fits [OF q fit]
  show "ring_inv (ring_enq xs q)" using q by (auto simp: ring_inv_def ring_enq_def)
  show "ring_list (ring_enq xs q) = ring_list q @ xs"
    using q room by (simp add: ring_list_def ring_enq_def ring_inv_def ring_contents_put)
  show "ring_room (ring_enq xs q) = ring_room q - length xs"
    using q room by (simp add: ring_room_def ring_enq_def ring_inv_def ring_count_advance_write)
next
  fix q :: "'a ring" and n :: nat
  assume q: "ring_inv q" and n: "n \<le> length (ring_list q)"
  then have c: "n \<le> ring_count (size_of q) (rd q) (wr q)" by (simp add: ring_list_def)
  show "ring_inv (snd (ring_deq n q))" using q by (auto simp: ring_inv_def ring_deq_def)
  show "fst (ring_deq n q) = take n (ring_list q)"
    using c by (simp add: ring_deq_def ring_list_def ring_contents_take)
  show "ring_list (snd (ring_deq n q)) = drop n (ring_list q)"
    using q c by (simp add: ring_deq_def ring_list_def ring_inv_def ring_contents_drop)
  show "ring_room (snd (ring_deq n q)) = ring_room q + n"
    using q c ring_count_lt [of "size_of q" "rd q" "wr q"]
    by (auto simp: ring_deq_def ring_room_def ring_inv_def ring_count_advance_read)
qed

end
