(* ===== verification/Mt7697_Queue.thy ===== *)
theory Mt7697_Queue
  imports Mt7697_Io Ring_Buffer
begin

text \<open>
  The queues shared with the MT7697 (\<^verbatim>\<open>queue.c\<close>): a ring of words in the slave's memory per channel,
  whose read and write offsets are kept in a descriptor table there and cached in \<^theory_text>\<open>qdata\<close>.
  The operations are translated in the order of the source.  A queue is named by its index in
  \<^theory_text>\<open>queues\<close>, which is what the pointers \<^verbatim>\<open>mt7697q_init\<close> hands out stand for.
\<close>

unbundle bit_operations_syntax

section \<open>Sizes and offsets\<close>

definition num_words_field :: "mt7697q_data \<Rightarrow> u32" where
  "num_words_field d =
     BF_GET (qd_flags d) MT7697_QUEUE_FLAGS_NUM_WORDS_OFFSET MT7697_QUEUE_FLAGS_NUM_WORDS_WIDTH"

definition mt7697q_buf_diff :: "u32 \<Rightarrow> u32 \<Rightarrow> u32 \<Rightarrow> u32" where
  "mt7697q_buf_diff sz from to = (if from \<le> to then to - from else (sz - from) + to)"

definition mt7697q_get_capacity :: "mt7697q_spec \<Rightarrow> u32" where
  "mt7697q_get_capacity qs = num_words_field (qdata qs) - 1"

definition mt7697q_get_num_words :: "mt7697q_spec \<Rightarrow> u32" where
  "mt7697q_get_num_words qs =
     mt7697q_buf_diff (num_words_field (qdata qs)) (ucast (rd_offset (qdata qs))) (ucast (wr_offset (qdata qs)))"

definition mt7697q_get_free_words :: "mt7697q_spec \<Rightarrow> u32" where
  "mt7697q_get_free_words qs = mt7697q_get_capacity qs - mt7697q_get_num_words qs"

section \<open>The mutex\<close>

text \<open>
  \<^verbatim>\<open>qinfo->mutex\<close> is not recursive: a thread that locks it twice never returns.  Every function that
  takes it releases it at its cleanup label.
\<close>

definition mutex_lock :: "('h mt7697q_info, unit) prog" where
  "mutex_lock s = (if mutex s then None else Some (Ok (), s\<lparr>mutex := True\<rparr>))"

definition with_mutex :: "('h mt7697q_info, 'a) prog \<Rightarrow> ('h mt7697q_info, 'a) prog" where
  "with_mutex m = seqP mutex_lock (finallyP m (\<lambda>s. s\<lparr>mutex := False\<rparr>))"

section \<open>Descriptor offsets in the slave's memory\<close>

definition desc_addr :: "u8 \<Rightarrow> u32" where
  "desc_addr ch = MT7697_IO_SLAVE_BUFFER_ADDRESS + ucast ch * sizeof_mt7697q_data"

text \<open>A read of one word into a local variable.\<close>

definition rd_local :: "'h mt7697spi_hw_ops \<Rightarrow> u32 \<Rightarrow> ('h mt7697q_info, u32) prog" where
  "rd_local ops addr =
     bindP (mt7697io_rd ops addr 1) (\<lambda>(ret, ws). if ret < 0 then throwP ret else returnP (hd ws))"

definition mt7697q_pull_rd_ptr :: "'h mt7697spi_hw_ops \<Rightarrow> nat \<Rightarrow> ('h mt7697q_info, unit) prog" where
  "mt7697q_pull_rd_ptr ops c =
     bindP (getP (spec_of c)) (\<lambda>qs.
     bindP (rd_local ops (desc_addr (q_ch qs) + offsetof_rd_offset)) (\<lambda>rd_off.
     modifyP (upd_data c (\<lambda>d. d\<lparr>rd_offset := ucast rd_off\<rparr>))))"

definition mt7697q_push_rd_ptr :: "'h mt7697spi_hw_ops \<Rightarrow> nat \<Rightarrow> ('h mt7697q_info, unit) prog" where
  "mt7697q_push_rd_ptr ops c = with_mutex (
     bindP (getP (spec_of c)) (\<lambda>qs.
     seqP (mt7697io_wr ops (desc_addr (q_ch qs) + offsetof_rd_offset) [ucast (rd_offset (qdata qs))])
    (seqP (mt7697io_wr_m2s_mbx ops (push_bit (unat (q_ch qs)) 1))
          (mt7697io_trigger_intr ops))))"

definition mt7697q_pull_wr_ptr :: "'h mt7697spi_hw_ops \<Rightarrow> nat \<Rightarrow> ('h mt7697q_info, unit) prog" where
  "mt7697q_pull_wr_ptr ops c = with_mutex (
     bindP (getP (spec_of c)) (\<lambda>qs.
     bindP (rd_local ops (desc_addr (q_ch qs) + offsetof_wr_offset)) (\<lambda>wr_off.
     modifyP (upd_data c (\<lambda>d. d\<lparr>wr_offset := ucast wr_off\<rparr>)))))"

definition mt7697q_push_wr_ptr :: "'h mt7697spi_hw_ops \<Rightarrow> nat \<Rightarrow> ('h mt7697q_info, unit) prog" where
  "mt7697q_push_wr_ptr ops c =
     bindP (getP (spec_of c)) (\<lambda>qs.
     seqP (mt7697io_wr ops (desc_addr (q_ch qs) + offsetof_wr_offset) [ucast (wr_offset (qdata qs))])
    (seqP (mt7697io_wr_m2s_mbx ops (push_bit (unat (q_ch qs)) 1))
          (mt7697io_trigger_intr ops)))"

text \<open>The words of a descriptor that a read has stored, in order.\<close>

definition qdata_put :: "nat \<Rightarrow> u32 \<Rightarrow> mt7697q_data \<Rightarrow> mt7697q_data" where
  "qdata_put i w d =
     (if i = 0 then d\<lparr>qd_flags := w\<rparr>
      else if i = 1 then d\<lparr>base_addr := w\<rparr>
      else if i = 2 then d\<lparr>rd_offset := ucast w, reserved1 := ucast (drop_bit 16 w)\<rparr>
      else d\<lparr>wr_offset := ucast w, reserved2 := ucast (drop_bit 16 w)\<rparr>)"

fun qdata_fill :: "nat \<Rightarrow> u32 list \<Rightarrow> mt7697q_data \<Rightarrow> mt7697q_data" where
  "qdata_fill i [] d = d"
| "qdata_fill i (w # ws) d = qdata_fill (Suc i) ws (qdata_put i w d)"

definition mt7697q_read_state :: "'h mt7697spi_hw_ops \<Rightarrow> u8 \<Rightarrow> nat \<Rightarrow> ('h mt7697q_info, unit) prog" where
  "mt7697q_read_state ops ch c = with_mutex (
     bindP (mt7697io_rd ops (desc_addr ch) 4) (\<lambda>(ret, ws).
     seqP (modifyP (upd_data c (qdata_fill 0 ws)))
     (if ret < 0 then throwP ret
      else bindP (getP (spec_of c)) (\<lambda>qs.
        if base_addr (qdata qs) = 0 then throwP (- EINVAL)
        else if qd_flags (qdata qs) = 0 then throwP (- EINVAL)
        else if ucast (rd_offset (qdata qs)) > mt7697q_get_capacity qs
              \<or> ucast (wr_offset (qdata qs)) > mt7697q_get_capacity qs then throwP (- EINVAL)
        else returnP ()))))"

section \<open>Reading words from a queue\<close>

text \<open>
  The buffer the caller passes is the list of words in the result, which an error after the first
  transfer leaves partly filled; the return code comes with it.
\<close>

definition q_read_to_end ::
    "'h mt7697spi_hw_ops \<Rightarrow> mt7697q_data \<Rightarrow> u32 \<Rightarrow> ('h mt7697q_info, int \<times> u32 list \<times> u32 \<times> u16) prog" where
  "q_read_to_end ops d num =
     (let buff_words = num_words_field d; read_off = rd_offset d in
      if read_off > wr_offset d then
        (let words_to_end = buff_words - ucast read_off;
             rd_addr = base_addr d + ucast read_off * 4;
             rd_num = (if num \<le> words_to_end then num else words_to_end) in
         bindP (mt7697io_rd ops rd_addr (unat rd_num)) (\<lambda>(ret, ws).
           let read_off' = read_off + ucast rd_num in
           returnP (ret, ws, rd_num, if ucast read_off' = buff_words then 0 else read_off')))
      else returnP (0, [], 0, read_off))"

definition q_read_rest ::
    "'h mt7697spi_hw_ops \<Rightarrow> mt7697q_data \<Rightarrow> u32 \<Rightarrow> u32 \<Rightarrow> u16 \<Rightarrow> ('h mt7697q_info, int \<times> u32 list \<times> u32 \<times> u16) prog" where
  "q_read_rest ops d num rd_words read_off =
     (if rd_words < num then
        (let words_avail = ucast (wr_offset d) - ucast read_off;
             rd_addr = base_addr d + ucast read_off * 4;
             words_req = num - rd_words;
             rd_num = (if words_req \<le> words_avail then words_req else words_avail) in
         bindP (mt7697io_rd ops rd_addr (unat rd_num)) (\<lambda>(ret, ws).
           returnP (ret, ws, rd_words + rd_num, read_off + ucast rd_num)))
      else returnP (0, [], rd_words, read_off))"

definition mt7697q_read :: "'h mt7697spi_hw_ops \<Rightarrow> nat \<Rightarrow> u32 \<Rightarrow> ('h mt7697q_info, int \<times> u32 list) prog" where
  "mt7697q_read ops c num = with_mutex (
     bindP (getP (\<lambda>s. qdata (spec_of c s))) (\<lambda>d.
     bindP (q_read_to_end ops d num) (\<lambda>(ret, ws1, rd_words1, read_off1).
     if ret < 0 then returnP (ret, ws1) else
     bindP (q_read_rest ops d num rd_words1 read_off1) (\<lambda>(ret, ws2, rd_words2, read_off2).
     if ret < 0 then returnP (ret, ws1 @ ws2)
     else if ucast read_off2 \<ge> num_words_field d then returnP (- EINVAL, ws1 @ ws2)
     else seqP (modifyP (upd_data c (\<lambda>d. d\<lparr>rd_offset := read_off2\<rparr>)))
               (returnP (sint rd_words2, ws1 @ ws2))))))"

section \<open>Writing words to a queue\<close>

definition q_write_to_end ::
    "'h mt7697spi_hw_ops \<Rightarrow> mt7697q_data \<Rightarrow> u32 list \<Rightarrow> u32 \<Rightarrow> ('h mt7697q_info, u32 \<times> u32 \<times> u16) prog" where
  "q_write_to_end ops d buff num =
     (let buff_words = num_words_field d; read_off = rd_offset d; write_off = wr_offset d in
      if write_off \<ge> read_off then
        (let words_to_end = buff_words - ucast write_off;
             words_avail = (if read_off = 0 then words_to_end - 1 else words_to_end);
             words_to_write = (if num \<le> words_avail then num else words_avail);
             write_addr = base_addr d + ucast write_off * 4 in
         seqP (mt7697io_wr ops write_addr (take (unat words_to_write) buff))
        (let write_off' = write_off + ucast words_to_write in
         returnP (words_to_write, num - words_to_write,
                  if ucast write_off' = buff_words then 0 else write_off')))
      else returnP (0, num, write_off))"

definition q_write_rest ::
    "'h mt7697spi_hw_ops \<Rightarrow> mt7697q_data \<Rightarrow> u32 list \<Rightarrow> u32 \<times> u32 \<times> u16 \<Rightarrow> ('h mt7697q_info, u32 \<times> u16) prog" where
  "q_write_rest ops d buff = (\<lambda>(words_written, num, write_off).
     if write_off < rd_offset d \<and> num > 0 then
       (let words_to_read = ucast (rd_offset d) - ucast write_off - 1;
            words_to_write = (if num \<le> words_to_read then num else words_to_read);
            write_addr = base_addr d + ucast write_off * 4 in
        seqP (mt7697io_wr ops write_addr (take (unat words_to_write) (drop (unat words_written) buff)))
             (returnP (words_written + words_to_write, write_off + ucast words_to_write)))
     else returnP (words_written, write_off))"

definition mt7697q_write :: "'h mt7697spi_hw_ops \<Rightarrow> nat \<Rightarrow> u32 list \<Rightarrow> ('h mt7697q_info, u32) prog" where
  "mt7697q_write ops c buff = with_mutex (
     let num = word_of_nat (length buff) in
     bindP (getP (\<lambda>s. mt7697q_get_free_words (spec_of c s))) (\<lambda>avail.
     seqP (whenP (avail < num)
            (seqP (mt7697q_pull_rd_ptr ops c)
                  (whenP (avail < num)
                    (seqP (modifyP (\<lambda>s. s\<lparr>blocked_writer := True\<rparr>)) (throwP (- EAGAIN))))))
    (bindP (getP (\<lambda>s. qdata (spec_of c s))) (\<lambda>d.
     bindP (q_write_to_end ops d buff num) (\<lambda>st1.
     bindP (q_write_rest ops d buff st1) (\<lambda>(words_written, write_off).
     if ucast write_off \<ge> num_words_field d then throwP (- EINVAL)
     else seqP (modifyP (upd_data c (\<lambda>d. d\<lparr>wr_offset := write_off\<rparr>)))
         (seqP (mt7697q_push_wr_ptr ops c)
               (returnP words_written))))))))"

section \<open>Requests to the slave\<close>

text \<open>
  A request is written to the queue as whole words; a short count is an input/output error.
\<close>

definition write_request ::
    "'h mt7697spi_hw_ops \<Rightarrow> nat \<Rightarrow> mt7697_queue_req \<Rightarrow> ('h mt7697q_info, unit) prog" where
  "write_request ops c req =
     bindP (mt7697q_write ops c (queue_req_words req)) (\<lambda>ret.
     if ret \<noteq> LEN_TO_WORD (ucast (cmd_len req)) then throwP (- EIO) else returnP ())"

definition mt7697q_wr_init ::
    "'h mt7697spi_hw_ops \<Rightarrow> u8 \<Rightarrow> u8 \<Rightarrow> nat \<Rightarrow> ('h mt7697q_info, unit) prog" where
  "mt7697q_wr_init ops tx_ch rx_ch c =
     write_request ops c \<lparr>cmd_len = 12, cmd_grp = grp_code MT7697_CMD_GRP_QUEUE,
       cmd_type = qcmd_code MT7697_CMD_QUEUE_INIT, m2s_ch = ucast tx_ch, s2m_ch = ucast rx_ch\<rparr>"

definition clear_in_use :: "mt7697q_data \<Rightarrow> mt7697q_data" where
  "clear_in_use d = d\<lparr>qd_flags := qd_flags d AND NOT
     (BF_GET (qd_flags d) MT7697_QUEUE_FLAGS_IN_USE_OFFSET MT7697_QUEUE_FLAGS_IN_USE_WIDTH)\<rparr>"

definition mt7697q_wr_unused ::
    "'h mt7697spi_hw_ops \<Rightarrow> nat \<Rightarrow> nat \<Rightarrow> ('h mt7697q_info, unit) prog" where
  "mt7697q_wr_unused ops cM2S cS2M =
     bindP (getP (\<lambda>s. (q_ch (spec_of cM2S s), q_ch (spec_of cS2M s)))) (\<lambda>(m2s, s2m).
     seqP (modifyP (upd_data cM2S clear_in_use))
    (seqP (modifyP (upd_data cS2M clear_in_use))
     (write_request ops cM2S \<lparr>cmd_len = 12, cmd_grp = grp_code MT7697_CMD_GRP_QUEUE,
       cmd_type = qcmd_code MT7697_CMD_QUEUE_UNUSED, m2s_ch = ucast m2s, s2m_ch = ucast s2m\<rparr>)))"

definition mt7697q_wr_reset ::
    "'h mt7697spi_hw_ops \<Rightarrow> nat \<Rightarrow> nat \<Rightarrow> ('h mt7697q_info, unit) prog" where
  "mt7697q_wr_reset ops cM2S cS2M =
     bindP (getP (\<lambda>s. (q_ch (spec_of cM2S s), q_ch (spec_of cS2M s)))) (\<lambda>(m2s, s2m).
     write_request ops cM2S \<lparr>cmd_len = 12, cmd_grp = grp_code MT7697_CMD_GRP_QUEUE,
       cmd_type = qcmd_code MT7697_CMD_QUEUE_RESET, m2s_ch = ucast m2s, s2m_ch = ucast s2m\<rparr>)"

section \<open>Receiving\<close>

text \<open>
  The functions of the queues' clients, by the identifiers the queues hold: what they do with the
  response header, the client's own pointer and the driver.
\<close>

record 'h mt7697q_clients =
  call_rx :: "nat \<Rightarrow> mt7697_rsp_hdr \<Rightarrow> nat \<Rightarrow> ('h mt7697q_info, unit) prog"
  call_notify_tx :: "nat \<Rightarrow> nat \<Rightarrow> u32 \<Rightarrow> ('h mt7697q_info, unit) prog"

definition mt7697q_proc_queue_rsp :: "('h mt7697q_info, unit) prog" where
  "mt7697q_proc_queue_rsp =
     bindP (getP (\<lambda>s. cmd_type (rsp s))) (\<lambda>ty.
     if ty = qcmd_code MT7697_CMD_QUEUE_INIT_RSP then returnP ()
     else if ty = qcmd_code MT7697_CMD_QUEUE_RESET_RSP then returnP ()
     else throwP (- EINVAL))"

definition mt7697q_get_s2m_mbx :: "'h mt7697spi_hw_ops \<Rightarrow> ('h mt7697q_info, u8) prog" where
  "mt7697q_get_s2m_mbx ops = with_mutex (
     bindP (mt7697io_rd_s2m_mbx ops) (\<lambda>s2m_mbox.
     seqP (mt7697io_clr_s2m_mbx ops s2m_mbox) (returnP s2m_mbox)))"

definition mt7697q_blocked_writer :: "'h mt7697q_info \<Rightarrow> bool" where
  "mt7697q_blocked_writer s = blocked_writer s"

definition mt7697q_unblock_writer :: "('h mt7697q_info, unit) prog" where
  "mt7697q_unblock_writer = modifyP (\<lambda>s. s\<lparr>blocked_writer := False\<rparr>)"

text \<open>The header buffer \<^verbatim>\<open>qinfo->rsp\<close> after the words of \<open>ws\<close> have been stored in it.\<close>

fun rsp_fill :: "u32 list \<Rightarrow> mt7697_rsp_hdr \<Rightarrow> mt7697_rsp_hdr" where
  "rsp_fill [] h = h"
| "rsp_fill [w0] h = (rsp_of_words w0 (rsp_result h))"
| "rsp_fill (w0 # w1 # _) h = rsp_of_words w0 w1"

definition payload_words :: "mt7697_rsp_hdr \<Rightarrow> u32" where
  "payload_words h = LEN_TO_WORD (ucast (cmd_len h) - sizeof_rsp_hdr)"

text \<open>
  The header of the next message, unless the header of a message is already there: the words still
  available and the words the payload needs, or \<^theory_text>\<open>None\<close> when the function ends here.
\<close>

definition proc_header ::
    "'h mt7697spi_hw_ops \<Rightarrow> nat \<Rightarrow> u32 \<Rightarrow> u32 \<Rightarrow> ('h mt7697q_info, (u32 \<times> u32) option) prog" where
  "proc_header ops c avail req =
     bindP (getP (\<lambda>s. cmd_len (rsp s))) (\<lambda>l.
     if l = 0 then
       bindP (mt7697q_read ops c req) (\<lambda>(ret, ws).
       seqP (modifyP (\<lambda>s. s\<lparr>rsp := rsp_fill ws (rsp s)\<rparr>))
       (if (word_of_int ret :: u32) \<noteq> req then (if ret < 0 then throwP ret else returnP None)
        else bindP (getP (\<lambda>s. payload_words (rsp s)))
               (\<lambda>req'. returnP (Some (avail - LEN_TO_WORD sizeof_rsp_hdr, req')))))
     else returnP (Some (avail, req)))"

definition refresh_avail :: "'h mt7697spi_hw_ops \<Rightarrow> nat \<Rightarrow> u32 \<Rightarrow> u32 \<Rightarrow> ('h mt7697q_info, u32) prog" where
  "refresh_avail ops c avail req =
     (if avail < req then
        seqP (mt7697q_pull_wr_ptr ops c) (getP (\<lambda>s. mt7697q_get_num_words (spec_of c s)))
      else returnP avail)"

definition proc_dispatch ::
    "'h mt7697q_clients \<Rightarrow> nat \<Rightarrow> ('h mt7697q_info, unit) prog" where
  "proc_dispatch cl c =
     bindP (getP rsp) (\<lambda>h.
     if cmd_grp h = grp_code MT7697_CMD_GRP_QUEUE then mt7697q_proc_queue_rsp
     else bindP (getP (spec_of c)) (\<lambda>qs.
       case rx_fcn qs of
         None \<Rightarrow> haltP (Bug ''rx_fcn is a null pointer'')
       | Some f \<Rightarrow> tryP (call_rx cl f h (priv qs)) (\<lambda>_. returnP ()) returnP))"

text \<open>The end of one round: the header is free again and the new read offset is published.\<close>

definition proc_next :: "'h mt7697spi_hw_ops \<Rightarrow> nat \<Rightarrow> u32 \<Rightarrow> ('h mt7697q_info, u32) prog" where
  "proc_next ops c avail =
     seqP (modifyP (\<lambda>s. s\<lparr>rsp := (rsp s)\<lparr>cmd_len := 0\<rparr>\<rparr>))
    (bindP (refresh_avail ops c avail (LEN_TO_WORD sizeof_rsp_hdr)) (\<lambda>avail'.
     seqP (mt7697q_push_rd_ptr ops c) (returnP avail')))"

partial_function (option) proc_loop ::
    "'h mt7697spi_hw_ops \<Rightarrow> 'h mt7697q_clients \<Rightarrow> nat \<Rightarrow> u32 \<Rightarrow> u32 \<Rightarrow> 'h mt7697q_info \<Rightarrow>
       (unit outcome \<times> 'h mt7697q_info) option" where
  "proc_loop ops cl c avail req s =
     (if req \<le> avail then
        bindP (proc_header ops c avail req) (\<lambda>h s1.
          case h of
            None \<Rightarrow> returnP () s1
          | Some (avail1, req1) \<Rightarrow>
              bindP (refresh_avail ops c avail1 req1) (\<lambda>avail2 s2.
                if avail2 < req1 then returnP () s2
                else bindP (seqP (proc_dispatch cl c) (proc_next ops c (avail2 - req1)))
                       (\<lambda>avail3 s3. proc_loop ops cl c avail3 (LEN_TO_WORD sizeof_rsp_hdr) s3) s2) s1) s
      else returnP () s)"

definition mt7697q_proc_data ::
    "'h mt7697spi_hw_ops \<Rightarrow> 'h mt7697q_clients \<Rightarrow> nat \<Rightarrow> ('h mt7697q_info, unit) prog" where
  "mt7697q_proc_data ops cl c =
     seqP (mt7697q_pull_wr_ptr ops c)
    (bindP (getP (\<lambda>s. mt7697q_get_num_words (spec_of c s))) (\<lambda>avail.
     bindP (getP (\<lambda>s. if cmd_len (rsp s) > 0 then payload_words (rsp s)
                        else LEN_TO_WORD sizeof_rsp_hdr)) (\<lambda>req.
     proc_loop ops cl c avail req)))"

section \<open>Opening and closing a pair of queues\<close>

text \<open>
  The kernel's registries the driver looks the queue information up in: SPI masters by bus number, the
  device of a master at chip select 0, and whether driver data is attached to it.
\<close>

record ('m, 'd) spi_registry =
  spi_busnum_to_master :: "nat \<Rightarrow> 'm option"
  bus_find_device_by_name :: "'m \<Rightarrow> 'd option"
  spi_get_drvdata :: "'d \<Rightarrow> bool"

fun find_spi_master :: "(nat \<Rightarrow> 'm option) \<Rightarrow> nat \<Rightarrow> 'm option" where
  "find_spi_master busnum 0 = busnum 0"
| "find_spi_master busnum (Suc n) =
     (case busnum (Suc n) of Some m \<Rightarrow> Some m | None \<Rightarrow> find_spi_master busnum n)"

abbreviation (input) MT7697_SPI_BUS_NUM :: nat where "MT7697_SPI_BUS_NUM \<equiv> 32766"

definition find_qinfo :: "('m, 'd) spi_registry \<Rightarrow> ('s, unit) prog" where
  "find_qinfo reg =
     (case find_spi_master (spi_busnum_to_master reg) MT7697_SPI_BUS_NUM of
        None \<Rightarrow> throwP (- EINVAL)
      | Some m \<Rightarrow> (case bus_find_device_by_name reg m of
          None \<Rightarrow> throwP (- EINVAL)
        | Some d \<Rightarrow> if spi_get_drvdata reg d then returnP () else throwP (- EINVAL)))"

definition init_tx_spec :: "u8 \<Rightarrow> nat \<Rightarrow> nat option \<Rightarrow> mt7697q_spec \<Rightarrow> mt7697q_spec" where
  "init_tx_spec tx_ch p notify q = q\<lparr>q_ch := tx_ch, priv := p, notify_tx_fcn := notify\<rparr>"

definition init_rx_spec :: "u8 \<Rightarrow> nat \<Rightarrow> nat option \<Rightarrow> mt7697q_spec \<Rightarrow> mt7697q_spec" where
  "init_rx_spec rx_ch p rxf q = q\<lparr>q_ch := rx_ch, rx_fcn := rxf, priv := p\<rparr>"

definition set_in_use :: "mt7697q_data \<Rightarrow> mt7697q_data" where
  "set_in_use d = d\<lparr>qd_flags := qd_flags d OR
     BF_DEFINE 1 MT7697_QUEUE_FLAGS_IN_USE_OFFSET MT7697_QUEUE_FLAGS_IN_USE_WIDTH\<rparr>"

definition q_init_body ::
    "'h mt7697spi_hw_ops \<Rightarrow> ('m, 'd) spi_registry \<Rightarrow> u8 \<Rightarrow> u8 \<Rightarrow> nat \<Rightarrow> nat option \<Rightarrow> nat option \<Rightarrow>
       ('h mt7697q_info, nat \<times> nat) prog" where
  "q_init_body ops reg tx_ch rx_ch p notify rxf =
     seqP (find_qinfo reg)
     (if unat tx_ch \<ge> MT7697_NUM_QUEUES \<or> unat rx_ch \<ge> MT7697_NUM_QUEUES then throwP (- EINVAL)
      else (let tx = unat tx_ch; rx = unat rx_ch in
        seqP (modifyP (upd_spec tx (init_tx_spec tx_ch p notify)))
       (seqP (modifyP (\<lambda>s. s\<lparr>blocked_writer := False\<rparr>))
       (seqP (modifyP (upd_spec rx (init_rx_spec rx_ch p rxf)))
       (seqP (mt7697q_read_state ops tx_ch tx)
       (seqP (mt7697q_read_state ops rx_ch rx)
       (seqP (modifyP (upd_data tx set_in_use))
       (seqP (modifyP (upd_data rx set_in_use))
       (seqP (mt7697q_wr_init ops tx_ch rx_ch tx)
             (returnP (tx, rx)))))))))))"

text \<open>
  The cleanup of a failed initialisation clears \<^verbatim>\<open>sizeof(struct mt7697q_spec)\<close> bytes at the address of
  the local pointer variables instead of the structures they point to, which runs over the stack:
  undefined behaviour, whatever the error was.
\<close>

definition mt7697q_init ::
    "'h mt7697spi_hw_ops \<Rightarrow> ('m, 'd) spi_registry \<Rightarrow> u8 \<Rightarrow> u8 \<Rightarrow> nat \<Rightarrow> nat option \<Rightarrow> nat option \<Rightarrow>
       ('h mt7697q_info, nat \<times> nat) prog" where
  "mt7697q_init ops reg tx_ch rx_ch p notify rxf =
     tryP (q_init_body ops reg tx_ch rx_ch p notify rxf)
       (\<lambda>_. haltP (Undefined ''memset of a queue structure over a pointer variable''))
       returnP"

text \<open>On success both handles of the caller become null pointers.\<close>

definition mt7697q_shutdown ::
    "'h mt7697spi_hw_ops \<Rightarrow> nat \<Rightarrow> nat \<Rightarrow> ('h mt7697q_info, nat option \<times> nat option) prog" where
  "mt7697q_shutdown ops tx rx = seqP (mt7697q_wr_unused ops tx rx) (returnP (None, None))"

definition mt7697q_flags_get_in_use :: "u32 \<Rightarrow> u32" where
  "mt7697q_flags_get_in_use flags =
     BF_GET flags MT7697_QUEUE_FLAGS_IN_USE_OFFSET MT7697_QUEUE_FLAGS_IN_USE_WIDTH"

definition mt7697q_flags_get_dir :: "u32 \<Rightarrow> u32" where
  "mt7697q_flags_get_dir flags =
     BF_GET flags MT7697_QUEUE_FLAGS_DIR_OFFSET MT7697_QUEUE_FLAGS_DIR_WIDTH"

end
