(* ===== verification/Mt7697_Fifo.thy ===== *)
theory Mt7697_Fifo
  imports Mt7697_Queue
begin

text \<open>
  The queue operations of \<^theory_text>\<open>Mt7697_Queue\<close> against the ring of \<^theory_text>\<open>Ring_Buffer\<close>: \<^theory_text>\<open>q_ring\<close> is the ring that
  a channel's descriptor and the slave's memory stand for, and a write or a read of the driver is the
  ring's operation on it, for every slave that follows the register protocol.
\<close>

unbundle bit_operations_syntax

section \<open>Arithmetic of offsets\<close>

lemma num_words_lt: "unat (num_words_field d) < 65536"
proof -
  have "num_words_field d = drop_bit 16 (qd_flags d)"
    unfolding num_words_field_def
    by (rule bit_word_eqI) (auto simp: bit_BF_GET bit_drop_bit_eq dest: bit_imp_le_length)
  then have "unat (num_words_field d) = unat (qd_flags d) div 65536"
    by (simp add: drop_bit_eq_div unat_div_distrib)
  with unat_lt_u32 [of "qd_flags d"] show ?thesis by simp
qed

lemma unat_ucast_u32_u16: "unat w < 65536 \<Longrightarrow> unat (ucast (w :: u32) :: u16) = unat w"
  by (simp add: unsigned_ucast_eq take_bit_nat_eq_self_iff)

lemma ucast_u16_u32: "(ucast (x :: u16) :: u32) = word_of_nat (unat x)"
  by (simp add: word_unat_eq_iff unat_word_of_nat_u32 less_trans [OF unat_lt_u16])

lemma ucast_eq_unat: "(ucast (x :: u16) = (w :: u32)) = (unat x = unat w)"
  by (simp add: word_unat_eq_iff)

lemma unat_sub_u32: "unat b \<le> unat a \<Longrightarrow> unat (a - b :: u32) = unat a - unat b"
  by (simp add: unat_sub_if')

lemma unat_add_u32: "unat a + unat b < 4294967296 \<Longrightarrow> unat (a + b :: u32) = unat a + unat b"
  by (simp add: unat_word_ariths)

lemma unat_add_u16: "unat a + unat b < 65536 \<Longrightarrow> unat (a + b :: u16) = unat a + unat b"
  by (simp add: unat_word_ariths)

definition ring_of_data :: "(u32 \<Rightarrow> u32) \<Rightarrow> mt7697q_data \<Rightarrow> u32 ring" where
  "ring_of_data m d = \<lparr>slots = (\<lambda>j. m (base_addr d + word_of_nat j * 4)), size_of = unat (num_words_field d),
     rd = unat (rd_offset d), wr = unat (wr_offset d)\<rparr>"

lemma ring_of_data_simps [simp]:
  "size_of (ring_of_data m d) = unat (num_words_field d)"
  "rd (ring_of_data m d) = unat (rd_offset d)" "wr (ring_of_data m d) = unat (wr_offset d)"
  "slots (ring_of_data m d) = (\<lambda>j. m (base_addr d + word_of_nat j * 4))"
  by (simp_all add: ring_of_data_def)

lemma num_words_field_update [simp]:
  "num_words_field (d\<lparr>rd_offset := r\<rparr>) = num_words_field d"
  "num_words_field (d\<lparr>wr_offset := w\<rparr>) = num_words_field d"
  by (simp_all add: num_words_field_def)

lemma get_num_words_count:
  assumes "ring_inv (ring_of_data m (qdata qs))"
  shows "unat (mt7697q_get_num_words qs) =
    ring_count (unat (num_words_field (qdata qs))) (unat (rd_offset (qdata qs))) (unat (wr_offset (qdata qs)))"
  using assms num_words_lt [of "qdata qs"]
  by (auto simp: mt7697q_get_num_words_def mt7697q_buf_diff_def ring_inv_def ring_count_cases
      word_le_nat_alt unat_sub_u32 unat_add_u32)

lemma get_free_words_room:
  assumes "ring_inv (ring_of_data m (qdata qs))"
  shows "unat (mt7697q_get_free_words qs) = ring_room (ring_of_data m (qdata qs))"
proof -
  let ?N = "unat (num_words_field (qdata qs))"
  have N: "0 < ?N" using assms by (auto simp: ring_inv_def)
  have cap: "unat (mt7697q_get_capacity qs) = ?N - 1"
    using N by (simp add: mt7697q_get_capacity_def unat_sub_u32)
  have "unat (mt7697q_get_num_words qs) \<le> ?N - 1"
    using get_num_words_count [OF assms] ring_count_lt [OF N] by (metis Suc_diff_1 N less_Suc_eq_le)
  with cap show ?thesis
    by (simp add: mt7697q_get_free_words_def ring_room_def unat_sub_u32 get_num_words_count [OF assms])
qed

section \<open>Slots as memory addresses\<close>

lemma slot_addr_inj:
  assumes "unat b + 4 * N \<le> 4294967296" "i < N" "j < N"
  shows "(b + word_of_nat i * 4 = b + (word_of_nat j * 4 :: u32)) \<longleftrightarrow> i = j"
proof -
  have u: "unat (word_of_nat k * 4 :: u32) = 4 * k" if "k < N" for k
    using that assms(1) by (simp add: unat_word_ariths unat_of_nat)
  have "(b + word_of_nat i * 4 = b + (word_of_nat j * 4 :: u32)) \<longleftrightarrow>
      unat (word_of_nat i * 4 :: u32) = unat (word_of_nat j * 4 :: u32)"
    by (simp add: word_unat_eq_iff [symmetric])
  then show ?thesis
    using u [OF assms(2)] u [OF assms(3)] by simp
qed

lemma mem_write_other: "(\<And>i. i < length ws \<Longrightarrow> x \<noteq> a + word_of_nat i * 4) \<Longrightarrow> mem_write a ws m x = m x"
proof (induction ws arbitrary: a m)
  case (Cons w ws)
  have "x \<noteq> a" using Cons.prems [of 0] by simp
  moreover have "mem_write (a + 4) ws (m(a := w)) x = (m(a := w)) x"
  proof (rule Cons.IH)
    fix i assume "i < length ws"
    then show "x \<noteq> a + 4 + word_of_nat i * 4"
      using Cons.prems [of "Suc i"] by (simp add: algebra_simps)
  qed
  ultimately show ?case by simp
qed simp

lemma mem_write_slot:
  assumes "unat b + 4 * N \<le> 4294967296" "W + length ws \<le> N" "j < N"
  shows "mem_write (b + word_of_nat W * 4) ws m (b + word_of_nat j * 4) =
    (if W \<le> j \<and> j < W + length ws then ws ! (j - W) else m (b + word_of_nat j * 4))"
  using assms(2)
proof (induction ws arbitrary: W m)
  case (Cons w ws)
  let ?m = "m(b + word_of_nat W * 4 := w)"
  have "mem_write (b + word_of_nat W * 4) (w # ws) m (b + word_of_nat j * 4) =
      mem_write (b + word_of_nat (Suc W) * 4) ws ?m (b + word_of_nat j * 4)"
    by (simp add: algebra_simps)
  also have "\<dots> = (if Suc W \<le> j \<and> j < Suc W + length ws then ws ! (j - Suc W)
      else ?m (b + word_of_nat j * 4))"
    using Cons.prems by (intro Cons.IH) simp
  also have "?m (b + word_of_nat j * 4) = (if j = W then w else m (b + word_of_nat j * 4))"
    using slot_addr_inj [of b N j W] assms(1,3) Cons.prems by simp
  finally show ?case
    by (auto simp: nth_Cons')
qed auto

lemma mem_read_slots:
  "mem_read (b + word_of_nat R * 4) n m = map (\<lambda>i. m (b + word_of_nat (R + i) * 4)) [0..<n]"
proof (induction n arbitrary: R)
  case (Suc n)
  have "mem_read (b + word_of_nat R * 4 + 4) n m =
      mem_read (b + word_of_nat (Suc R) * 4) n m"
    by (simp add: algebra_simps)
  also have "\<dots> = map (\<lambda>i. m (b + word_of_nat (Suc R + i) * 4)) [0..<n]"
    by (rule Suc.IH)
  also have "\<dots> = map (\<lambda>i. m (b + word_of_nat (R + i) * 4)) [1..<Suc n]"
    by (simp add: map_Suc_upt [symmetric] algebra_simps del: upt_Suc)
  finally show ?case
    by (simp add: upt_conv_Cons del: upt_Suc)
qed simp

section \<open>One write of the driver\<close>

text \<open>
  How many of \<open>n\<close> words the first transfer takes, and the write offset after it: up to the end of the
  ring when the write offset is not below the read offset, one less when slot 0 is the one to leave free.
\<close>

definition first_run :: "nat \<Rightarrow> nat \<Rightarrow> nat \<Rightarrow> nat \<Rightarrow> nat" where
  "first_run N R W n = (if R \<le> W then min n (if R = 0 then N - W - 1 else N - W) else 0)"

definition after_first :: "nat \<Rightarrow> nat \<Rightarrow> nat \<Rightarrow> nat \<Rightarrow> nat" where
  "after_first N R W n =
     (if R \<le> W then (if W + first_run N R W n = N then 0 else W + first_run N R W n) else W)"

context mt7697_slave
begin

lemma write_to_end:
  assumes idle: "polls (hw s) = 0" and inv: "ring_inv (ring_of_data m d)"
    and n: "length buff < 65536"
  defines "N \<equiv> unat (num_words_field d)" and "R \<equiv> unat (rd_offset d)" and "W \<equiv> unat (wr_offset d)"
  defines "k \<equiv> first_run N R W (length buff)" and "W1 \<equiv> after_first N R W (length buff)"
  shows "\<exists>h'. q_write_to_end ops d buff (word_of_nat (length buff)) s =
      Some (Ok (word_of_nat k, word_of_nat (length buff - k), word_of_nat W1), s\<lparr>hw := h'\<rparr>) \<and>
    sv_mem (view h') = mem_write (base_addr d + word_of_nat W * 4) (take k buff) (sv_mem (view (hw s))) \<and>
    same_ctl (view (hw s)) (view h') \<and> polls h' = 0"
proof (cases "R \<le> W")
  case True
  have N: "W < N" "R < N" "N < 65536"
    using inv num_words_lt [of d] by (auto simp: ring_inv_def N_def R_def W_def)
  let ?num = "word_of_nat (length buff) :: u32"
  let ?rest = "num_words_field d - ucast (wr_offset d)"
  let ?avail = "if rd_offset d = 0 then ?rest - 1 else ?rest"
  let ?k = "if ?num \<le> ?avail then ?num else ?avail"
  have num: "unat ?num = length buff" using n by (simp add: unat_word_of_nat_u32)
  have "unat ?rest = N - W"
    using N by (simp add: unat_sub_u32 N_def W_def)
  then have avail: "unat ?avail = (if R = 0 then N - W - 1 else N - W)"
    using N by (auto simp: unat_sub_u32 R_def unat_eq_0)
  have k: "unat ?k = k"
    using num avail True by (auto simp: k_def first_run_def word_le_nat_alt min_def)
  have kle: "k \<le> length buff" "W + k \<le> N" "k < 65536"
    using True N n by (auto simp: k_def first_run_def)
  from k have kw: "?k = word_of_nat k" by (rule word_of_nat_eqI)
  have woff: "unat (wr_offset d + ucast ?k) = W + k"
    using k kle N by (simp add: unat_add_u16 unat_ucast_u32_u16 W_def)
  have eqN: "(ucast (wr_offset d + ucast ?k) = num_words_field d) = (W + k = N)"
    by (simp only: ucast_eq_unat woff N_def)
  obtain h' where wr: "mt7697io_wr ops (base_addr d + ucast (wr_offset d) * 4) (take k buff) s =
      Some (Ok (), s\<lparr>hw := h'\<rparr>)"
      "sv_mem (view h') = mem_write (base_addr d + ucast (wr_offset d) * 4) (take k buff) (sv_mem (view (hw s)))"
      "same_ctl (view (hw s)) (view h')" "polls h' = 0"
    using io_wr [OF idle] by blast
  have W1: "(if W + k = N then 0 else wr_offset d + ucast ?k) = word_of_nat W1"
    using True woff N kle
    by (auto simp: W1_def after_first_def word_unat_eq_iff unat_of_nat k_def [symmetric])
  have num': "?num - ?k = word_of_nat (length buff - k)"
    using kle kw by (simp add: of_nat_diff)
  have "q_write_to_end ops d buff ?num s =
      Some (Ok (?k, ?num - ?k, if W + k = N then 0 else wr_offset d + ucast ?k), s\<lparr>hw := h'\<rparr>)"
    using True wr(1) unfolding q_write_to_end_def Let_def eqN k
    by (simp add: word_le_nat_alt R_def W_def returnP_def)
  then have eq: "q_write_to_end ops d buff ?num s =
      Some (Ok (word_of_nat k, word_of_nat (length buff - k), word_of_nat W1), s\<lparr>hw := h'\<rparr>)"
    unfolding kw num' [unfolded kw] W1 [unfolded kw] .
  have off: "(ucast (wr_offset d) :: u32) = word_of_nat W"
    unfolding W_def by (rule ucast_u16_u32)
  show ?thesis
    by (intro exI [of _ h'] conjI eq wr(2) [unfolded off] wr(3,4))
next
  case False
  then have z: "k = 0" "W1 = W" by (simp_all add: k_def W1_def first_run_def after_first_def)
  have "q_write_to_end ops d buff (word_of_nat (length buff)) s =
      Some (Ok (0, word_of_nat (length buff), wr_offset d), s\<lparr>hw := hw s\<rparr>)"
    using False by (simp add: q_write_to_end_def Let_def word_le_nat_alt R_def W_def returnP_def)
  then show ?thesis
    using idle by (intro exI [of _ "hw s"]) (simp add: z W_def same_ctl_def)
qed

end

text \<open>The two transfers together: where they end, and that they fill the ring as one run would.\<close>

lemma two_runs:
  assumes "R < N" "W < N" "ring_count N R W + n < N"
  defines "k \<equiv> first_run N R W n" and "W1 \<equiv> after_first N R W n"
  shows "k \<le> n" "W + k \<le> N" "n - k = 0 \<or> (W1 < R \<and> n - k \<le> R - W1 - 1)"
    "W1 + (n - k) = (W + n) mod N" "W1 + (n - k) \<le> N" "W1 < N"
proof -
  have "W + n < 2 * N" using assms(2,3) by linarith
  then show "k \<le> n" "W + k \<le> N" "n - k = 0 \<or> (W1 < R \<and> n - k \<le> R - W1 - 1)"
    "W1 + (n - k) = (W + n) mod N" "W1 + (n - k) \<le> N" "W1 < N"
    using assms(1-3)
    by (auto simp: k_def W1_def first_run_def after_first_def ring_count_cases mod_if min_def split: if_splits)
qed

lemma two_runs_put:
  assumes "R < N" "W < N" "ring_count N R W + length ws < N" "j < N"
  defines "k \<equiv> first_run N R W (length ws)" and "W1 \<equiv> after_first N R W (length ws)"
  shows "(if W1 \<le> j \<and> j < W1 + (length ws - k) then drop k ws ! (j - W1)
          else if W \<le> j \<and> j < W + k then take k ws ! (j - W) else r j) = ring_put N W ws r j"
proof -
  have k: "k \<le> length ws" "W + k \<le> N" "length ws - k = 0 \<or> W1 < R"
    using two_runs [OF assms(1-3)] unfolding k_def W1_def by auto
  have W1: "length ws - k \<noteq> 0 \<Longrightarrow> W1 = (if R \<le> W then 0 else W) \<and> (R \<le> W \<longrightarrow> W + k = N) \<and> (W < R \<longrightarrow> k = 0)"
    using assms(1-3) unfolding k_def W1_def
    by (auto simp: first_run_def after_first_def ring_count_cases min_def split: if_splits)
  have slot: "(j + N - W) mod N = (if W \<le> j then j - W else j + N - W)"
    using assms(2,4) by (auto simp: mod_if)
  show ?thesis
    using k W1 assms(1-4) unfolding ring_put_def slot Let_def
    by (cases "length ws - k = 0"; cases "R \<le> W") (auto simp: ring_count_cases add.commute)
qed

context mt7697_slave
begin

lemma write_rest:
  assumes idle: "polls (hw s) = 0" and n: "length buff < 65536" and k: "k \<le> length buff" and "W1 < 65536"
    and fit: "length buff - k = 0 \<or> (W1 < unat (rd_offset d) \<and> length buff - k \<le> unat (rd_offset d) - W1 - 1)"
  shows "\<exists>h'. q_write_rest ops d buff (word_of_nat k, word_of_nat (length buff - k), word_of_nat W1) s =
      Some (Ok (word_of_nat (length buff), word_of_nat (W1 + (length buff - k))), s\<lparr>hw := h'\<rparr>) \<and>
    sv_mem (view h') = mem_write (base_addr d + word_of_nat W1 * 4) (drop k buff) (sv_mem (view (hw s))) \<and>
    same_ctl (view (hw s)) (view h') \<and> polls h' = 0"
proof (cases "length buff - k = 0")
  case True
  then have "q_write_rest ops d buff (word_of_nat k, word_of_nat (length buff - k), word_of_nat W1) s =
      Some (Ok (word_of_nat (length buff), word_of_nat (W1 + (length buff - k))), s\<lparr>hw := hw s\<rparr>)"
    using k by (simp add: q_write_rest_def returnP_def)
  then show ?thesis
    using True idle by (intro exI [of _ "hw s"]) (simp add: same_ctl_def)
next
  case False
  define m where "m = length buff - k"
  have m: "0 < m" "m \<le> unat (rd_offset d) - W1 - 1" "m < 65536" "W1 < unat (rd_offset d)"
    using False fit n by (auto simp: m_def)
  let ?num = "word_of_nat m :: u32"
  let ?avail = "ucast (rd_offset d) - ucast (word_of_nat W1 :: u16) - 1 :: u32"
  have num: "unat ?num = m" using m by (simp add: unat_word_of_nat_u32)
  have w1: "unat (word_of_nat W1 :: u16) = W1" using \<open>W1 < 65536\<close> by (simp add: unat_of_nat)
  have avail: "unat ?avail = unat (rd_offset d) - W1 - 1"
    using m w1 by (simp add: unat_sub_u32)
  have guard: "(word_of_nat W1 :: u16) < rd_offset d \<and> ?num > 0"
    using m num w1 by (simp add: word_less_nat_alt)
  have le: "?num \<le> ?avail" using num avail m by (simp add: word_le_nat_alt)
  have off: "(ucast (word_of_nat W1 :: u16) :: u32) = word_of_nat W1"
    by (simp add: ucast_u16_u32 w1)
  have tk: "take (unat ?num) (drop (unat (word_of_nat k :: u32)) buff) = drop k buff"
    using k n num by (simp add: unat_word_of_nat_u32 m_def)
  have uc: "(ucast ?num :: u16) = word_of_nat m"
    using num m by (intro word_of_nat_eqI) (simp add: unat_ucast_u32_u16)
  have "k + m = length buff" using k by (simp add: m_def)
  then have sums: "(word_of_nat k + ?num :: u32) = word_of_nat (length buff)"
    "(word_of_nat W1 + ucast ?num :: u16) = word_of_nat (W1 + m)"
    unfolding uc by (metis of_nat_add)+
  obtain h' where wr: "mt7697io_wr ops (base_addr d + word_of_nat W1 * 4) (drop k buff) s =
      Some (Ok (), s\<lparr>hw := h'\<rparr>)"
      "sv_mem (view h') = mem_write (base_addr d + word_of_nat W1 * 4) (drop k buff) (sv_mem (view (hw s)))"
      "same_ctl (view (hw s)) (view h')" "polls h' = 0"
    using io_wr [OF idle] by blast
  have "q_write_rest ops d buff (word_of_nat k, ?num, word_of_nat W1) s =
      Some (Ok (word_of_nat k + ?num, word_of_nat W1 + ucast ?num), s\<lparr>hw := h'\<rparr>)"
    using guard le wr(1) unfolding q_write_rest_def Let_def prod.case
    by (simp only: if_True tk off seqP_Ok returnP_def simp_thms)
  then have "q_write_rest ops d buff (word_of_nat k, word_of_nat (length buff - k), word_of_nat W1) s =
      Some (Ok (word_of_nat (length buff), word_of_nat (W1 + (length buff - k))), s\<lparr>hw := h'\<rparr>)"
    unfolding m_def sums [unfolded m_def] .
  with wr(2-4) show ?thesis by (intro exI [of _ h'] conjI)
qed

end

section \<open>The driver's queue as a ring\<close>

definition q_ring :: "('h \<Rightarrow> slave_view) \<Rightarrow> nat \<Rightarrow> 'h mt7697q_info \<Rightarrow> u32 ring" where
  "q_ring view c s = ring_of_data (sv_mem (view (hw s))) (qdata (spec_of c s))"

text \<open>The descriptor of the channel is not inside the ring it describes, and the ring does not wrap
  around the address space.\<close>

definition desc_apart :: "mt7697q_spec \<Rightarrow> bool" where
  "desc_apart qs \<longleftrightarrow>
     unat (base_addr (qdata qs)) + 4 * unat (num_words_field (qdata qs)) \<le> 4294967296 \<and>
     (\<forall>j < unat (num_words_field (qdata qs)).
        base_addr (qdata qs) + word_of_nat j * 4 \<noteq> desc_addr (q_ch qs) + 8 \<and>
        base_addr (qdata qs) + word_of_nat j * 4 \<noteq> desc_addr (q_ch qs) + 12)"

definition q_wf :: "('h \<Rightarrow> slave_view) \<Rightarrow> ('h \<Rightarrow> nat) \<Rightarrow> nat \<Rightarrow> 'h mt7697q_info \<Rightarrow> bool" where
  "q_wf view polls c s \<longleftrightarrow> c < length (queues s) \<and> \<not> mutex s \<and> polls (hw s) = 0 \<and>
     ring_inv (q_ring view c s) \<and> desc_apart (spec_of c s)"

text \<open>Two rings with the same offsets and the same words in every slot.\<close>

definition ring_same :: "'a ring \<Rightarrow> 'a ring \<Rightarrow> bool" where
  "ring_same q q' \<longleftrightarrow> size_of q = size_of q' \<and> rd q = rd q' \<and> wr q = wr q' \<and>
     (\<forall>j < size_of q. slots q j = slots q' j)"

lemma ring_same_list: "ring_same q q' \<Longrightarrow> ring_inv q \<Longrightarrow> ring_list q = ring_list q'"
  by (auto simp: ring_same_def ring_inv_def ring_list_def ring_contents_def)

lemma ring_same_room: "ring_same q q' \<Longrightarrow> ring_room q = ring_room q'"
  by (simp add: ring_same_def ring_room_def)

lemma ring_same_inv: "ring_same q q' \<Longrightarrow> ring_inv q = ring_inv q'"
  by (simp add: ring_same_def ring_inv_def)

lemma desc_apart_update [simp]:
  "desc_apart (qs\<lparr>qdata := (qdata qs)\<lparr>rd_offset := r\<rparr>\<rparr>) = desc_apart qs"
  "desc_apart (qs\<lparr>qdata := (qdata qs)\<lparr>wr_offset := w\<rparr>\<rparr>) = desc_apart qs"
  by (simp_all add: desc_apart_def)

context mt7697_slave
begin

lemma push_wr_ptr:
  assumes idle: "polls (hw s) = 0"
  shows "\<exists>h'. mt7697q_push_wr_ptr ops c s = Some (Ok (), s\<lparr>hw := h'\<rparr>) \<and>
    sv_mem (view h') = (sv_mem (view (hw s)))(desc_addr (q_ch (spec_of c s)) + 12 :=
      ucast (wr_offset (qdata (spec_of c s)))) \<and> polls h' = 0"
proof -
  obtain h1 where h1: "mt7697io_wr ops (desc_addr (q_ch (spec_of c s)) + 12)
        [ucast (wr_offset (qdata (spec_of c s)))] s = Some (Ok (), s\<lparr>hw := h1\<rparr>)"
      "sv_mem (view h1) = (sv_mem (view (hw s)))(desc_addr (q_ch (spec_of c s)) + 12 :=
        ucast (wr_offset (qdata (spec_of c s))))" "polls h1 = 0"
    using io_wr [OF idle, of "desc_addr (q_ch (spec_of c s)) + 12"] by (metis mem_write.simps)
  obtain h2 where h2: "mt7697io_wr_m2s_mbx ops (push_bit (unat (q_ch (spec_of c s))) 1) (s\<lparr>hw := h1\<rparr>) =
        Some (Ok (), s\<lparr>hw := h2\<rparr>)" "sv_mem (view h2) = sv_mem (view h1)" "polls h2 = 0"
    using io_write16 [of "s\<lparr>hw := h1\<rparr>" "0x1C"] h1(3)
    by (fastforce simp: mt7697io_wr_m2s_mbx_def slave_write_def)
  obtain h3 where h3: "mt7697io_trigger_intr ops (s\<lparr>hw := h2\<rparr>) = Some (Ok (), s\<lparr>hw := h3\<rparr>)"
      "sv_mem (view h3) = sv_mem (view h2)" "polls h3 = 0"
    using io_write16 [of "s\<lparr>hw := h2\<rparr>" "0x14"] h2(3)
    by (fastforce simp: mt7697io_trigger_intr_def slave_write_def)
  from h1 h2 h3 show ?thesis
    by (intro exI [of _ h3]) (simp add: mt7697q_push_wr_ptr_def getP_def bindP_def)
qed

text \<open>A write that fits is the ring's enqueue.\<close>

lemma driver_write:
  assumes wf: "q_wf view polls c s" and fit: "length buff \<le> ring_room (q_ring view c s)"
  shows "\<exists>s'. mt7697q_write ops c buff s = Some (Ok (word_of_nat (length buff)), s') \<and>
    q_wf view polls c s' \<and> ring_same (q_ring view c s') (ring_enq buff (q_ring view c s)) \<and>
    (\<forall>d. d \<noteq> c \<longrightarrow> spec_of d s' = spec_of d s) \<and> rsp s' = rsp s \<and>
    qd_flags (qdata (spec_of c s')) = qd_flags (qdata (spec_of c s)) \<and> blocked_writer s' = blocked_writer s"
proof -
  let ?d = "qdata (spec_of c s)" and ?n = "length buff"
  let ?N = "unat (num_words_field ?d)" and ?R = "unat (rd_offset ?d)" and ?W = "unat (wr_offset ?d)"
  define k where "k = first_run ?N ?R ?W ?n"
  define W1 where "W1 = after_first ?N ?R ?W ?n"
  have c: "c < length (queues s)" and mx: "\<not> mutex s" and idle: "polls (hw s) = 0"
    and inv: "ring_inv (ring_of_data (sv_mem (view (hw s))) ?d)" and apart: "desc_apart (spec_of c s)"
    using wf by (auto simp: q_wf_def q_ring_def)
  have RW: "?R < ?N" "?W < ?N" using inv by (auto simp: ring_inv_def)
  have room: "ring_count ?N ?R ?W + ?n < ?N"
    using ring_room_fits [OF inv] fit by (simp add: q_ring_def)
  have n: "?n < 65536" using room num_words_lt [of ?d] by linarith
  note runs = two_runs [OF RW room, folded k_def W1_def]
  let ?s0 = "s\<lparr>mutex := True\<rparr>"
  have free: "\<not> mt7697q_get_free_words (spec_of c s) < word_of_nat ?n"
    using get_free_words_room [OF inv] fit n
    by (simp add: word_less_nat_alt unat_word_of_nat_u32 q_ring_def)
  obtain h1 where h1: "q_write_to_end ops ?d buff (word_of_nat ?n) ?s0 =
        Some (Ok (word_of_nat k, word_of_nat (?n - k), word_of_nat W1), ?s0\<lparr>hw := h1\<rparr>)"
      "sv_mem (view h1) = mem_write (base_addr ?d + word_of_nat ?W * 4) (take k buff) (sv_mem (view (hw s)))"
      "polls h1 = 0"
    using write_to_end [of ?s0 _ ?d buff] idle inv n unfolding k_def W1_def by fastforce
  obtain h2 where h2: "q_write_rest ops ?d buff (word_of_nat k, word_of_nat (?n - k), word_of_nat W1)
        (?s0\<lparr>hw := h1\<rparr>) = Some (Ok (word_of_nat ?n, word_of_nat (W1 + (?n - k))), ?s0\<lparr>hw := h2\<rparr>)"
      "sv_mem (view h2) = mem_write (base_addr ?d + word_of_nat W1 * 4) (drop k buff) (sv_mem (view h1))"
      "polls h2 = 0"
    using write_rest [of "?s0\<lparr>hw := h1\<rparr>" buff k W1 ?d] h1(3) n runs num_words_lt [of ?d] by auto
  define w' :: u16 where "w' = word_of_nat (W1 + (?n - k))"
  have w': "unat w' = (?W + ?n) mod ?N"
  proof -
    have "(?W + ?n) mod ?N < 65536"
      using RW num_words_lt [of ?d] mod_less_divisor [of ?N "?W + ?n"] by linarith
    then show ?thesis by (simp add: w'_def unat_of_nat runs(4))
  qed
  have small: "\<not> num_words_field ?d \<le> ucast w'"
    using w' RW by (simp add: word_le_nat_alt not_le)
  let ?s3 = "upd_data c (\<lambda>d. d\<lparr>wr_offset := w'\<rparr>) (?s0\<lparr>hw := h2\<rparr>)"
  have s3: "polls (hw ?s3) = 0" "spec_of c ?s3 = (spec_of c s)\<lparr>qdata := ?d\<lparr>wr_offset := w'\<rparr>\<rparr>"
    "hw ?s3 = h2"
    using h2(3) c by simp_all
  obtain h4 where h4: "mt7697q_push_wr_ptr ops c ?s3 = Some (Ok (), ?s3\<lparr>hw := h4\<rparr>)"
      "sv_mem (view h4) = (sv_mem (view h2))(desc_addr (q_ch (spec_of c s)) + 12 := ucast w')" "polls h4 = 0"
  proof -
    have "q_ch (spec_of c ?s3) = q_ch (spec_of c s)" "wr_offset (qdata (spec_of c ?s3)) = w'"
      using s3(2) by simp_all
    from push_wr_ptr [OF s3(1), of c, unfolded this s3(3)] that show ?thesis by (elim exE conjE)
  qed
  let ?s' = "(?s3\<lparr>hw := h4\<rparr>)\<lparr>mutex := False\<rparr>"
  have run: "mt7697q_write ops c buff s = Some (Ok (word_of_nat ?n), ?s')"
  proof -
    have "mutex_lock s = Some (Ok (), ?s0)" using mx by (simp add: mutex_lock_def)
    moreover have "spec_of c ?s0 = spec_of c s" by simp
    ultimately show ?thesis
      unfolding mt7697q_write_def with_mutex_def Let_def
      using free h1(1) h2(1) [folded w'_def] small h4(1)
      by (simp add: returnP_def finallyP_def)
  qed
  have slots: "sv_mem (view h4) (base_addr ?d + word_of_nat j * 4) =
      ring_put ?N ?W buff (\<lambda>j. sv_mem (view (hw s)) (base_addr ?d + word_of_nat j * 4)) j"
    if j: "j < ?N" for j
  proof -
    have b: "unat (base_addr ?d) + 4 * ?N \<le> 4294967296"
      and nd: "base_addr ?d + word_of_nat j * 4 \<noteq> desc_addr (q_ch (spec_of c s)) + 12"
      using apart j by (auto simp: desc_apart_def)
    have "sv_mem (view h4) (base_addr ?d + word_of_nat j * 4) =
        sv_mem (view h2) (base_addr ?d + word_of_nat j * 4)"
      using h4(2) nd by simp
    also have "\<dots> = (if W1 \<le> j \<and> j < W1 + (?n - k) then drop k buff ! (j - W1)
        else sv_mem (view h1) (base_addr ?d + word_of_nat j * 4))"
      unfolding h2(2) using mem_write_slot [OF b _ j, of W1 "drop k buff"] runs(5) by simp
    also have "sv_mem (view h1) (base_addr ?d + word_of_nat j * 4) =
        (if ?W \<le> j \<and> j < ?W + k then take k buff ! (j - ?W)
         else sv_mem (view (hw s)) (base_addr ?d + word_of_nat j * 4))"
      unfolding h1(2) using mem_write_slot [OF b _ j, of ?W "take k buff"] runs(1,2)
      by (simp add: min_absorb2)
    finally show ?thesis
      unfolding two_runs_put [OF RW room j, folded k_def W1_def, symmetric] .
  qed
  have same: "ring_same (q_ring view c ?s') (ring_enq buff (q_ring view c s))"
    using c w' slots by (simp add: ring_same_def q_ring_def ring_enq_def)
  then have "ring_inv (q_ring view c ?s')"
    using ring.put_inv [OF inv [folded q_ring_def] fit] by (simp add: ring_same_inv)
  then have "q_wf view polls c ?s'"
    using c h4(3) apart by (simp add: q_wf_def)
  with run same show ?thesis using c by (intro exI [of _ ?s']) simp
qed

end

section \<open>One read of the driver\<close>

text \<open>
  The first transfer of a read runs to the end of the ring when the write offset is behind the read
  offset; the second one takes what is left up to the write offset.
\<close>

definition first_get :: "nat \<Rightarrow> nat \<Rightarrow> nat \<Rightarrow> nat \<Rightarrow> nat" where
  "first_get N R W n = (if W < R then min n (N - R) else 0)"

definition after_get :: "nat \<Rightarrow> nat \<Rightarrow> nat \<Rightarrow> nat \<Rightarrow> nat" where
  "after_get N R W n =
     (if W < R then (if R + first_get N R W n = N then 0 else R + first_get N R W n) else R)"

lemma two_gets:
  fixes R N W n i :: nat
  assumes "R < N" "W < N"
  defines "k \<equiv> first_get N R W n" and "R1 \<equiv> after_get N R W n"
  shows "k \<le> n" "R + k \<le> N" "R1 < N" "k < n \<Longrightarrow> R1 \<le> W"
    "k + min (n - k) (W - R1) = min n (ring_count N R W)"
    "R1 + min (n - k) (W - R1) = (R + min n (ring_count N R W)) mod N"
    "i < k \<Longrightarrow> (R + i) mod N = R + i"
    "k \<le> i \<Longrightarrow> i < min n (ring_count N R W) \<Longrightarrow> (R + i) mod N = R1 + (i - k)"
proof -
  let ?c = "ring_count N R W"
  have kR: "k \<le> n" "R + k \<le> N" "R1 < N" "k < n \<Longrightarrow> R1 \<le> W"
    using assms(1,2) by (auto simp: k_def R1_def first_get_def after_get_def min_def split: if_splits)
  then show "k \<le> n" "R + k \<le> N" "R1 < N" "k < n \<Longrightarrow> R1 \<le> W" by simp_all
  have far: "?c = N - R + W \<and> k = min n (N - R) \<and> R1 = (if R + k = N then 0 else R + k)" if "W < R"
    using that assms(1,2) by (simp add: ring_count_cases k_def R1_def first_get_def after_get_def)
  have near: "?c = W - R \<and> k = 0 \<and> R1 = R" if "\<not> W < R"
    using that assms(1,2) by (simp add: ring_count_cases k_def R1_def first_get_def after_get_def)
  show total: "k + min (n - k) (W - R1) = min n ?c"
    using far near assms(1,2) by (cases "W < R") (auto split: if_splits)
  have "R1 + min (n - k) (W - R1) = (if R + min n ?c < N then R + min n ?c else R + min n ?c - N)"
    using far near assms(1,2) by (cases "W < R") (auto split: if_splits)
  moreover have "R + min n ?c < 2 * N" using assms(1,2) ring_count_lt [of N R W] by linarith
  ultimately show "R1 + min (n - k) (W - R1) = (R + min n ?c) mod N"
    by (auto simp: mod_if)
  show "i < k \<Longrightarrow> (R + i) mod N = R + i" using kR(2) by simp
  assume i: "k \<le> i" "i < min n ?c"
  show "(R + i) mod N = R1 + (i - k)"
  proof (cases "W < R")
    case True
    with far i assms(1) have "k = N - R" "R1 = 0" by (auto split: if_splits)
    moreover have "i < N" using i ring_count_lt [of N R W] assms(1) by linarith
    moreover have "(R + i) mod N = R + i - N" if "N \<le> R + i" "i < N"
      using that assms(1) by (simp add: le_mod_geq)
    ultimately show ?thesis using i(1) assms(1) by simp
  next
    case False
    with near i assms(2) have "R + i < N" by linarith
    with False near show ?thesis by simp
  qed
qed

context mt7697_slave
begin

lemma read_to_end:
  fixes num :: u32
  assumes idle: "polls (hw s) = 0" and inv: "ring_inv (ring_of_data m d)"
  defines "N \<equiv> unat (num_words_field d)" and "R \<equiv> unat (rd_offset d)" and "W \<equiv> unat (wr_offset d)"
  defines "k \<equiv> first_get N R W (unat num)" and "R1 \<equiv> after_get N R W (unat num)"
  shows "\<exists>h'. q_read_to_end ops d num s =
      Some (Ok (0, mem_read (base_addr d + word_of_nat R * 4) k (sv_mem (view (hw s))),
        word_of_nat k, word_of_nat R1), s\<lparr>hw := h'\<rparr>) \<and>
    sv_mem (view h') = sv_mem (view (hw s)) \<and> same_ctl (view (hw s)) (view h') \<and> polls h' = 0"
proof (cases "W < R")
  case True
  have N: "W < N" "R < N" "N < 65536"
    using inv num_words_lt [of d] by (auto simp: ring_inv_def N_def R_def W_def)
  let ?rest = "num_words_field d - ucast (rd_offset d)"
  let ?k = "if num \<le> ?rest then num else ?rest"
  have "unat ?rest = N - R"
    using N by (simp add: unat_sub_u32 N_def R_def)
  then have k: "unat ?k = k"
    using True by (auto simp: k_def first_get_def word_le_nat_alt min_def)
  have kle: "R + k \<le> N" "k < 65536"
    using True N by (auto simp: k_def first_get_def)
  from k have kw: "?k = word_of_nat k" by (rule word_of_nat_eqI)
  have roff: "unat (rd_offset d + ucast ?k) = R + k" if "R + k < 65536"
    using k kle N that by (simp add: unat_add_u16 unat_ucast_u32_u16 R_def)
  then have roff: "unat (rd_offset d + ucast ?k) = R + k" using kle N by simp
  have eqN: "(ucast (rd_offset d + ucast ?k) = num_words_field d) = (R + k = N)"
    by (simp only: ucast_eq_unat roff N_def)
  obtain h' where io: "mt7697io_rd ops (base_addr d + ucast (rd_offset d) * 4) k s =
      Some (Ok (0, mem_read (base_addr d + ucast (rd_offset d) * 4) k (sv_mem (view (hw s)))), s\<lparr>hw := h'\<rparr>)"
      "sv_mem (view h') = sv_mem (view (hw s))" "same_ctl (view (hw s)) (view h')" "polls h' = 0"
    using io_rd [OF idle] by blast
  have R1: "(if R + k = N then 0 else rd_offset d + ucast ?k) = word_of_nat R1"
    using True roff N kle
    by (auto simp: R1_def after_get_def word_unat_eq_iff unat_of_nat k_def [symmetric])
  have "q_read_to_end ops d num s =
      Some (Ok (0, mem_read (base_addr d + ucast (rd_offset d) * 4) k (sv_mem (view (hw s))), ?k,
        if R + k = N then 0 else rd_offset d + ucast ?k), s\<lparr>hw := h'\<rparr>)"
    using True io(1) unfolding q_read_to_end_def Let_def eqN k
    by (simp add: word_less_nat_alt R_def W_def returnP_def)
  then have eq: "q_read_to_end ops d num s =
      Some (Ok (0, mem_read (base_addr d + ucast (rd_offset d) * 4) k (sv_mem (view (hw s))),
        word_of_nat k, word_of_nat R1), s\<lparr>hw := h'\<rparr>)"
    unfolding R1 unfolding kw .
  have off: "(ucast (rd_offset d) :: u32) = word_of_nat R"
    unfolding R_def by (rule ucast_u16_u32)
  show ?thesis
    by (intro exI [of _ h'] conjI eq [unfolded off] io(2-4))
next
  case False
  then have z: "k = 0" "R1 = R" by (simp_all add: k_def R1_def first_get_def after_get_def)
  have "q_read_to_end ops d num s = Some (Ok (0, [], 0, rd_offset d), s\<lparr>hw := hw s\<rparr>)"
    using False by (simp add: q_read_to_end_def Let_def word_less_nat_alt R_def W_def returnP_def)
  then show ?thesis
    using idle by (intro exI [of _ "hw s"]) (simp add: z R_def same_ctl_def)
qed

lemma read_rest:
  fixes num :: u32
  assumes idle: "polls (hw s) = 0" and k: "k \<le> unat num" and R1: "R1 < 65536"
    and le: "k < unat num \<Longrightarrow> R1 \<le> unat (wr_offset d)"
  defines "m \<equiv> min (unat num - k) (unat (wr_offset d) - R1)"
  shows "\<exists>h'. q_read_rest ops d num (word_of_nat k) (word_of_nat R1) s =
      Some (Ok (0, mem_read (base_addr d + word_of_nat R1 * 4) m (sv_mem (view (hw s))),
        word_of_nat (k + m), word_of_nat (R1 + m)), s\<lparr>hw := h'\<rparr>) \<and>
    sv_mem (view h') = sv_mem (view (hw s)) \<and> same_ctl (view (hw s)) (view h') \<and> polls h' = 0"
proof (cases "k < unat num")
  case False
  then have "k = unat num" "m = 0" using k by (simp_all add: m_def)
  then have "q_read_rest ops d num (word_of_nat k) (word_of_nat R1) s =
      Some (Ok (0, [], word_of_nat k, word_of_nat R1), s\<lparr>hw := hw s\<rparr>)"
    by (simp add: q_read_rest_def returnP_def)
  with \<open>m = 0\<close> show ?thesis
    using idle by (intro exI [of _ "hw s"]) (simp add: same_ctl_def)
next
  case True
  have uk: "unat (word_of_nat k :: u32) = k" using k unat_lt_u32 [of num] by (simp add: unat_word_of_nat_u32)
  have u1: "unat (word_of_nat R1 :: u16) = R1" using R1 by (simp add: unat_of_nat)
  let ?avail = "ucast (wr_offset d) - ucast (word_of_nat R1 :: u16) :: u32"
  let ?req = "num - word_of_nat k"
  let ?m = "if ?req \<le> ?avail then ?req else ?avail"
  have "unat ?avail = unat (wr_offset d) - R1" "unat ?req = unat num - k"
    using le [OF True] True u1 uk by (simp_all add: unat_sub_u32)
  then have m: "unat ?m = m" by (auto simp: m_def word_le_nat_alt min_def)
  have "m < 65536" unfolding m_def using unat_lt_u16 [of "wr_offset d"] by simp
  have uc: "(ucast ?m :: u16) = word_of_nat m"
    using m \<open>m < 65536\<close> by (intro word_of_nat_eqI) (simp add: unat_ucast_u32_u16)
  have sums: "word_of_nat k + ?m = word_of_nat (k + m)" "(word_of_nat R1 + ucast ?m :: u16) = word_of_nat (R1 + m)"
    unfolding uc using word_of_nat_eqI [OF m] by simp_all
  have guard: "word_of_nat k < num" using True uk by (simp add: word_less_nat_alt)
  have off: "(ucast (word_of_nat R1 :: u16) :: u32) = word_of_nat R1"
    by (simp add: ucast_u16_u32 u1)
  obtain h' where io: "mt7697io_rd ops (base_addr d + word_of_nat R1 * 4) m s =
      Some (Ok (0, mem_read (base_addr d + word_of_nat R1 * 4) m (sv_mem (view (hw s)))), s\<lparr>hw := h'\<rparr>)"
      "sv_mem (view h') = sv_mem (view (hw s))" "same_ctl (view (hw s)) (view h')" "polls h' = 0"
    using io_rd [OF idle] by blast
  have "q_read_rest ops d num (word_of_nat k) (word_of_nat R1) s =
      Some (Ok (0, mem_read (base_addr d + word_of_nat R1 * 4) m (sv_mem (view (hw s))),
        word_of_nat k + ?m, word_of_nat R1 + ucast ?m), s\<lparr>hw := h'\<rparr>)"
    unfolding q_read_rest_def Let_def unfolding m unfolding off
    by (simp only: guard if_True bindP_Ok [where m = "mt7697io_rd ops _ m", OF io(1)] prod.case returnP_def)
  then show ?thesis
    unfolding sums using io(2-4) by (intro exI [of _ h'] conjI)
qed

text \<open>A read takes the words the queue holds, in order, up to the number asked for.\<close>

lemma driver_read:
  fixes num :: u32
  assumes wf: "q_wf view polls c s"
  defines "n \<equiv> min (unat num) (length (ring_list (q_ring view c s)))"
  shows "\<exists>s'. mt7697q_read ops c num s = Some (Ok (int n, fst (ring_deq n (q_ring view c s))), s') \<and>
    q_wf view polls c s' \<and> ring_same (q_ring view c s') (snd (ring_deq n (q_ring view c s))) \<and>
    (\<forall>d. d \<noteq> c \<longrightarrow> spec_of d s' = spec_of d s) \<and> rsp s' = rsp s \<and> blocked_writer s' = blocked_writer s"
proof -
  let ?d = "qdata (spec_of c s)" and ?m = "sv_mem (view (hw s))"
  let ?N = "unat (num_words_field ?d)" and ?R = "unat (rd_offset ?d)" and ?W = "unat (wr_offset ?d)"
  define k where "k = first_get ?N ?R ?W (unat num)"
  define R1 where "R1 = after_get ?N ?R ?W (unat num)"
  define m where "m = min (unat num - k) (?W - R1)"
  have c: "c < length (queues s)" and mx: "\<not> mutex s" and idle: "polls (hw s) = 0"
    and inv: "ring_inv (ring_of_data ?m ?d)" and apart: "desc_apart (spec_of c s)"
    using wf by (auto simp: q_wf_def q_ring_def)
  have RW: "?R < ?N" "?W < ?N" using inv by (auto simp: ring_inv_def)
  have N: "?N < 65536" by (rule num_words_lt)
  have n: "n = min (unat num) (ring_count ?N ?R ?W)"
    by (simp add: n_def ring_list_def q_ring_def)
  have n_lt: "n < 65536" using n ring_count_lt [of ?N ?R ?W] RW N by linarith
  note gets = two_gets [OF RW, where n = "unat num", folded k_def R1_def, folded m_def n]
  let ?s0 = "s\<lparr>mutex := True\<rparr>"
  obtain h1 where h1: "q_read_to_end ops ?d num ?s0 =
        Some (Ok (0, mem_read (base_addr ?d + word_of_nat ?R * 4) k ?m, word_of_nat k, word_of_nat R1), ?s0\<lparr>hw := h1\<rparr>)"
      "sv_mem (view h1) = ?m" "polls h1 = 0"
    using read_to_end [of ?s0 ?m ?d num] idle inv unfolding k_def R1_def by fastforce
  obtain h2 where h2: "q_read_rest ops ?d num (word_of_nat k) (word_of_nat R1) (?s0\<lparr>hw := h1\<rparr>) =
        Some (Ok (0, mem_read (base_addr ?d + word_of_nat R1 * 4) m ?m, word_of_nat (k + m), word_of_nat (R1 + m)),
          ?s0\<lparr>hw := h2\<rparr>)"
      "sv_mem (view h2) = ?m" "polls h2 = 0"
    using read_rest [of "?s0\<lparr>hw := h1\<rparr>" k num R1 ?d, folded m_def] h1(2,3) gets(1,3,4) N by auto
  define r' :: u16 where "r' = word_of_nat (R1 + m)"
  have r': "unat r' = (?R + n) mod ?N"
  proof -
    have "(?R + n) mod ?N < 65536"
      using RW N mod_less_divisor [of ?N "?R + n"] by linarith
    then show ?thesis by (simp add: r'_def unat_of_nat gets(6))
  qed
  have small: "\<not> num_words_field ?d \<le> ucast r'"
    using r' RW by (simp add: word_le_nat_alt not_le)
  let ?ws = "mem_read (base_addr ?d + word_of_nat ?R * 4) k ?m @ mem_read (base_addr ?d + word_of_nat R1 * 4) m ?m"
  let ?s' = "upd_data c (\<lambda>d. d\<lparr>rd_offset := r'\<rparr>) (?s0\<lparr>hw := h2\<rparr>)\<lparr>mutex := False\<rparr>"
  have sint: "sint (word_of_nat (k + m) :: u32) = int n"
    unfolding gets(5) using n_lt by (simp add: signed_of_nat signed_take_bit_int_eq_self)
  have run: "mt7697q_read ops c num s = Some (Ok (int n, ?ws), ?s')"
  proof -
    have "mutex_lock s = Some (Ok (), ?s0)" using mx by (simp add: mutex_lock_def)
    then show ?thesis
      unfolding mt7697q_read_def with_mutex_def
      using h1(1) h2(1) [folded r'_def] small sint
      by (simp add: returnP_def finallyP_def del: of_nat_add)
  qed
  have ws: "?ws = fst (ring_deq n (q_ring view c s))"
  proof (rule nth_equalityI)
    show "length ?ws = length (fst (ring_deq n (q_ring view c s)))"
      using gets(5) by (simp add: ring_deq_def)
  next
    fix i assume "i < length ?ws"
    then have i: "i < n" using gets(5) by simp
    show "?ws ! i = fst (ring_deq n (q_ring view c s)) ! i"
    proof (cases "i < k")
      case True
      then show ?thesis
        using i gets(7) [where i = i] unfolding mem_read_slots
        by (simp add: ring_deq_def q_ring_def nth_append del: of_nat_add)
    next
      case False
      then have "i - k < m" using i gets(5) by linarith
      then show ?thesis
        using False i gets(8) [where i = i] unfolding mem_read_slots
        by (simp add: ring_deq_def q_ring_def nth_append del: of_nat_add)
    qed
  qed
  have same: "ring_same (q_ring view c ?s') (snd (ring_deq n (q_ring view c s)))"
    using c r' h2(2) by (simp add: ring_same_def q_ring_def ring_deq_def)
  have "n \<le> length (ring_list (q_ring view c s))" by (simp add: n_def)
  then have "ring_inv (q_ring view c ?s')"
    using ring.take_inv [OF inv [folded q_ring_def]] same by (simp add: ring_same_inv)
  then have "q_wf view polls c ?s'"
    using c h2(3) apart by (simp add: q_wf_def)
  with run same show ?thesis unfolding ws by (intro exI [of _ ?s']) simp
qed

end

section \<open>The driver's queue is a FIFO\<close>

definition drv_put :: "'h mt7697spi_hw_ops \<Rightarrow> nat \<Rightarrow> u32 list \<Rightarrow> 'h mt7697q_info \<Rightarrow> 'h mt7697q_info" where
  "drv_put ops c xs s = snd (the (mt7697q_write ops c xs s))"

definition drv_take ::
    "'h mt7697spi_hw_ops \<Rightarrow> nat \<Rightarrow> nat \<Rightarrow> 'h mt7697q_info \<Rightarrow> u32 list \<times> 'h mt7697q_info" where
  "drv_take ops c n s = (case mt7697q_read ops c (word_of_nat n) s of
     Some (Ok (ret, ws), s') \<Rightarrow> (ws, s') | _ \<Rightarrow> ([], s))"

locale mt7697_queue = mt7697_slave +
  fixes c :: nat
begin

abbreviation (input) words :: "'a mt7697q_info \<Rightarrow> u32 list" where
  "words s \<equiv> ring_list (q_ring view c s)"

lemma put_facts:
  assumes "q_wf view polls c s" "length xs \<le> ring_room (q_ring view c s)"
  shows "mt7697q_write ops c xs s = Some (Ok (word_of_nat (length xs)), drv_put ops c xs s)"
    "q_wf view polls c (drv_put ops c xs s)" "words (drv_put ops c xs s) = words s @ xs"
    "ring_room (q_ring view c (drv_put ops c xs s)) = ring_room (q_ring view c s) - length xs"
proof -
  have inv: "ring_inv (q_ring view c s)" using assms(1) by (simp add: q_wf_def)
  obtain s' where s': "mt7697q_write ops c xs s = Some (Ok (word_of_nat (length xs)), s')"
      "q_wf view polls c s'" "ring_same (q_ring view c s') (ring_enq xs (q_ring view c s))"
    using driver_write [OF assms] by blast
  have p: "drv_put ops c xs s = s'" by (simp add: drv_put_def s'(1))
  from s'(1,2) show "mt7697q_write ops c xs s = Some (Ok (word_of_nat (length xs)), drv_put ops c xs s)"
    "q_wf view polls c (drv_put ops c xs s)" by (simp_all add: p)
  from s'(2) have "ring_inv (q_ring view c s')" by (simp add: q_wf_def)
  with s'(3) show "words (drv_put ops c xs s) = words s @ xs"
    using ring.put_contents [OF inv assms(2)] by (simp add: p ring_same_list)
  from s'(3) show "ring_room (q_ring view c (drv_put ops c xs s)) = ring_room (q_ring view c s) - length xs"
    using ring.put_room [OF inv assms(2)] by (simp add: p ring_same_room)
qed

lemma take_facts:
  assumes "q_wf view polls c s" "n \<le> length (words s)"
  shows "mt7697q_read ops c (word_of_nat n) s =
      Some (Ok (int n, fst (drv_take ops c n s)), snd (drv_take ops c n s))"
    "q_wf view polls c (snd (drv_take ops c n s))" "fst (drv_take ops c n s) = take n (words s)"
    "words (snd (drv_take ops c n s)) = drop n (words s)"
    "ring_room (q_ring view c (snd (drv_take ops c n s))) = ring_room (q_ring view c s) + n"
proof -
  have inv: "ring_inv (q_ring view c s)" using assms(1) by (simp add: q_wf_def)
  have "length (words s) < 65536"
    using ring_count_lt [of "size_of (q_ring view c s)"] inv num_words_lt
    by (auto simp: ring_list_def ring_inv_def q_ring_def intro: less_trans)
  with assms(2) have "min (unat (word_of_nat n :: u32)) (length (words s)) = n"
    by (simp add: unat_word_of_nat_u32)
  then obtain s' where s': "mt7697q_read ops c (word_of_nat n) s =
        Some (Ok (int n, fst (ring_deq n (q_ring view c s))), s')"
      "q_wf view polls c s'" "ring_same (q_ring view c s') (snd (ring_deq n (q_ring view c s)))"
    using driver_read [OF assms(1), of "word_of_nat n"] by auto
  have p: "drv_take ops c n s = (fst (ring_deq n (q_ring view c s)), s')" by (simp add: drv_take_def s'(1))
  from s'(1,2) show "mt7697q_read ops c (word_of_nat n) s =
      Some (Ok (int n, fst (drv_take ops c n s)), snd (drv_take ops c n s))"
    "q_wf view polls c (snd (drv_take ops c n s))" by (simp_all add: p)
  show "fst (drv_take ops c n s) = take n (words s)"
    using ring.take_result [OF inv assms(2)] by (simp add: p)
  from s'(2) have "ring_inv (q_ring view c s')" by (simp add: q_wf_def)
  with s'(3) show "words (snd (drv_take ops c n s)) = drop n (words s)"
    using ring.take_contents [OF inv assms(2)] by (simp add: p ring_same_list)
  from s'(3) show "ring_room (q_ring view c (snd (drv_take ops c n s))) = ring_room (q_ring view c s) + n"
    using ring.take_room [OF inv assms(2)] by (simp add: p ring_same_room)
qed

end

sublocale mt7697_queue \<subseteq> drv: bulk_fifo "drv_put ops c" "drv_take ops c"
  "\<lambda>s. ring_list (q_ring view c s)" "\<lambda>s. ring_room (q_ring view c s)" "q_wf view polls c"
  by unfold_locales (simp_all add: put_facts take_facts)

text \<open>A schedule of writes and reads run through the driver, and the words the reads return.\<close>

fun run_ops :: "'h mt7697spi_hw_ops \<Rightarrow> nat \<Rightarrow> u32 fifo_op list \<Rightarrow> ('h mt7697q_info, u32 list) prog" where
  "run_ops ops c [] = returnP []"
| "run_ops ops c (Put xs # es) = bindP (mt7697q_write ops c xs) (\<lambda>_. run_ops ops c es)"
| "run_ops ops c (Take n # es) =
     bindP (mt7697q_read ops c (word_of_nat n)) (\<lambda>(ret, ws).
       bindP (run_ops ops c es) (\<lambda>out. returnP (ws @ out)))"

context mt7697_queue
begin

lemma run_ops_drv:
  "q_wf view polls c s \<Longrightarrow> drv.fits es s \<Longrightarrow> run_ops ops c es s = Some (Ok (drv.outputs es s), drv.final es s)"
proof (induction es s rule: drv.fits.induct)
  case (3 n es s)
  then have "run_ops ops c es (snd (drv_take ops c n s)) =
      Some (Ok (drv.outputs es (snd (drv_take ops c n s))), drv.final es (snd (drv_take ops c n s)))"
    using take_facts(2) [of s n] by simp
  with 3 show ?case
    using take_facts(1) [of s n] by (simp add: returnP_def)
qed (simp_all add: returnP_def put_facts)

lemma run_ops_fifo:
  assumes "q_wf view polls c s"
    and "fifo_fits es (ring_room (q_ring view c s)) (length (ring_list (q_ring view c s)))"
  shows "\<exists>out s'. run_ops ops c es s = Some (Ok out, s') \<and> q_wf view polls c s' \<and>
    out @ ring_list (q_ring view c s') = ring_list (q_ring view c s) @ fifo_inputs es"
  using run_ops_drv [OF assms(1)] drv.final_inv [OF assms(1)] drv.fifo_order [OF assms(1)]
    drv.fits_counts [OF assms(1)] assms(2) by metis

end

section \<open>Refreshing the offsets, and a full queue\<close>

context mt7697_slave
begin

lemma rd_local_word:
  assumes "polls (hw s) = 0"
  shows "\<exists>h'. rd_local ops a s = Some (Ok (sv_mem (view (hw s)) a), s\<lparr>hw := h'\<rparr>) \<and>
    sv_mem (view h') = sv_mem (view (hw s)) \<and> polls h' = 0"
  using io_rd [OF assms, of a 1] by (fastforce simp: rd_local_def returnP_def)

lemma pull_rd_ptr:
  assumes "polls (hw s) = 0"
  shows "\<exists>h'. mt7697q_pull_rd_ptr ops c s = Some (Ok (),
      upd_data c (\<lambda>d. d\<lparr>rd_offset := ucast (sv_mem (view (hw s)) (desc_addr (q_ch (spec_of c s)) + 8))\<rparr>)
        (s\<lparr>hw := h'\<rparr>)) \<and> sv_mem (view h') = sv_mem (view (hw s)) \<and> polls h' = 0"
proof -
  obtain h' where "rd_local ops (desc_addr (q_ch (spec_of c s)) + 8) s =
        Some (Ok (sv_mem (view (hw s)) (desc_addr (q_ch (spec_of c s)) + 8)), s\<lparr>hw := h'\<rparr>)"
      "sv_mem (view h') = sv_mem (view (hw s))" "polls h' = 0"
    using rd_local_word [OF assms] by blast
  then show ?thesis
    by (intro exI [of _ h'] conjI) (simp_all add: mt7697q_pull_rd_ptr_def modifyP_def)
qed

lemma pull_wr_ptr:
  assumes "polls (hw s) = 0" and mx: "\<not> mutex s"
  shows "\<exists>h'. mt7697q_pull_wr_ptr ops c s = Some (Ok (),
      upd_data c (\<lambda>d. d\<lparr>wr_offset := ucast (sv_mem (view (hw s)) (desc_addr (q_ch (spec_of c s)) + 12))\<rparr>)
        (s\<lparr>hw := h'\<rparr>)) \<and> sv_mem (view h') = sv_mem (view (hw s)) \<and> polls h' = 0"
proof -
  let ?s0 = "s\<lparr>mutex := True\<rparr>"
  obtain h' where h: "rd_local ops (desc_addr (q_ch (spec_of c s)) + 12) ?s0 =
        Some (Ok (sv_mem (view (hw s)) (desc_addr (q_ch (spec_of c s)) + 12)), ?s0\<lparr>hw := h'\<rparr>)"
      "sv_mem (view h') = sv_mem (view (hw s))" "polls h' = 0"
    using rd_local_word [of ?s0] assms(1) by auto
  have "mutex_lock s = Some (Ok (), ?s0)" using mx by (simp add: mutex_lock_def)
  with h mx show ?thesis
    by (intro exI [of _ h'] conjI)
      (simp_all add: mt7697q_pull_wr_ptr_def with_mutex_def modifyP_def finallyP_def upd_data_def upd_spec_def)
qed

lemma write_full:
  assumes wf: "q_wf view polls c s" and big: "ring_room (q_ring view c s) < length buff"
    and small: "length buff < 4294967296"
  shows "\<exists>h'. mt7697q_write ops c buff s = Some (Err (- EAGAIN),
      upd_data c (\<lambda>d. d\<lparr>rd_offset := ucast (sv_mem (view (hw s)) (desc_addr (q_ch (spec_of c s)) + 8))\<rparr>)
        (s\<lparr>hw := h', blocked_writer := True\<rparr>)) \<and> sv_mem (view h') = sv_mem (view (hw s)) \<and> polls h' = 0"
proof -
  let ?s0 = "s\<lparr>mutex := True\<rparr>"
  have mx: "\<not> mutex s" and idle: "polls (hw s) = 0"
    and inv: "ring_inv (ring_of_data (sv_mem (view (hw s))) (qdata (spec_of c s)))"
    using wf by (auto simp: q_wf_def q_ring_def)
  have full: "mt7697q_get_free_words (spec_of c s) < word_of_nat (length buff)"
    using get_free_words_room [OF inv] big small
    by (simp add: word_less_nat_alt unat_word_of_nat_u32 q_ring_def)
  obtain h' where h: "mt7697q_pull_rd_ptr ops c ?s0 = Some (Ok (),
      upd_data c (\<lambda>d. d\<lparr>rd_offset := ucast (sv_mem (view (hw s)) (desc_addr (q_ch (spec_of c s)) + 8))\<rparr>)
        (?s0\<lparr>hw := h'\<rparr>))" "sv_mem (view h') = sv_mem (view (hw s))" "polls h' = 0"
    using pull_rd_ptr [of ?s0 c] idle by auto
  have "mutex_lock s = Some (Ok (), ?s0)" using mx by (simp add: mutex_lock_def)
  moreover have "seqP (mt7697q_pull_rd_ptr ops c)
      (whenP True (seqP (modifyP (\<lambda>s. s\<lparr>blocked_writer := True\<rparr>)) (throwP (- EAGAIN)))) ?s0 =
    Some (Err (- EAGAIN), (upd_data c (\<lambda>d. d\<lparr>rd_offset :=
        ucast (sv_mem (view (hw s)) (desc_addr (q_ch (spec_of c s)) + 8))\<rparr>) (?s0\<lparr>hw := h'\<rparr>))\<lparr>blocked_writer := True\<rparr>)"
    using h(1) by (simp add: whenP_def throwP_def)
  ultimately have "mt7697q_write ops c buff s = Some (Err (- EAGAIN), (upd_data c (\<lambda>d. d\<lparr>rd_offset :=
      ucast (sv_mem (view (hw s)) (desc_addr (q_ch (spec_of c s)) + 8))\<rparr>)
        (?s0\<lparr>hw := h'\<rparr>))\<lparr>blocked_writer := True, mutex := False\<rparr>)"
    using full unfolding mt7697q_write_def with_mutex_def Let_def by simp
  with h mx show ?thesis
    by (intro exI [of _ h'] conjI) (simp_all add: upd_data_def upd_spec_def)
qed

end

interpretation ideal_queue: mt7697_queue ideal_ops fst snd c for c
  by unfold_locales

end
