(* ===== verification/Mt7697_QueueProps.thy ===== *)
theory Mt7697_QueueProps
  imports Mt7697_Fifo
begin

text \<open>
  Properties of the queue operations: what they promise of a slave that follows the register protocol
  (\<^theory_text>\<open>mt7697_slave\<close>), and what they keep whatever the SPI controller does.  \<^theory_text>\<open>example_state\<close> is a pair of
  rings on the concrete slave of \<^theory_text>\<open>Mt7697_Io\<close> for the closed instances.
\<close>

unbundle bit_operations_syntax

section \<open>A concrete pair of queues\<close>

definition example_view :: slave_view where
  "example_view = \<lparr>sv_addr = 0, sv_wdata = 0, sv_rdata = 0,
     sv_mem = (\<lambda>a. if a = 0x20001018 then 77
       else if a = 0x20000200 then 0x80001 else if a = 0x20000204 then 0x20001000
       else if a = 0x20000208 then 1 else if a = 0x2000020C then 1
       else if a = 0x20000210 then 0x80003 else if a = 0x20000214 then 0x20002000 else 0),
     sv_m2s = 0, sv_s2m = 0, sv_irq = False\<rparr>"

text \<open>
  Eight slots from 0x20001000; three words are in the ring, from slot 6 around to slot 0.  The slave has
  already taken them: the read offset in its memory is 1.
\<close>

definition example_spec :: "u8 \<Rightarrow> mt7697q_spec" where
  "example_spec ch = \<lparr>qdata = \<lparr>qd_flags = 0x80001, base_addr = 0x20001000, rd_offset = 6, reserved1 = 0,
     wr_offset = 1, reserved2 = 0\<rparr>, priv = 0, notify_tx_fcn = None, rx_fcn = Some 0, q_ch = ch\<rparr>"

definition example_state :: "(slave_view \<times> nat) mt7697q_info" where
  "example_state = \<lparr>queues = map example_spec [0, 1, 2, 3, 4, 5], rsp = rsp_of_words 0 0,
     hw = (example_view, 0), mutex = False, irq_work = False, irq_delayed_work = False,
     blocked_writer = False, irq_depth = 0, gpio_pin = 0, irq = 0\<rparr>"

lemma example_spec_of: "spec_of 0 example_state = example_spec 0"
  by (simp add: spec_of_def example_state_def)

lemma example_num_words: "num_words_field (qdata (example_spec ch)) = 8"
proof -
  have "BF_GET 0x80001 16 16 = 8" by code_simp
  then show ?thesis by (simp add: num_words_field_def example_spec_def)
qed

lemma example_wf: "q_wf fst snd 0 example_state"
proof -
  have slots: "list_all (\<lambda>j. (0x20001000 :: u32) + word_of_nat j * 4 \<noteq> 0x20000208 \<and>
      (0x20001000 :: u32) + word_of_nat j * 4 \<noteq> 0x2000020C) [0..<8]"
    by code_simp
  have "desc_addr 0 + 8 = 0x20000208" "desc_addr 0 + 12 = 0x2000020C"
    by (simp_all add: desc_addr_def)
  with slots have "desc_apart (example_spec 0)"
    unfolding desc_apart_def example_num_words
    by (simp add: example_spec_def list_all_iff)
  then show ?thesis
    by (simp add: q_wf_def example_spec_of q_ring_def ring_inv_def example_num_words)
      (simp add: example_state_def example_spec_def)
qed

lemma example_room: "ring_room (q_ring fst 0 example_state) = 4"
  by (simp add: ring_room_def q_ring_def example_spec_of example_num_words)
    (simp add: example_spec_def ring_count_def)

lemma example_words: "ring_list (q_ring fst 0 example_state) = [77, 0, 0]"
  by (simp add: ring_list_def q_ring_def example_spec_of example_num_words ring_contents_def)
    (simp add: example_spec_def ring_count_def example_state_def example_view_def upt_rec)

section \<open>The mutex\<close>

text \<open>
  \<^theory_text>\<open>mutex_free m\<close>: from a state with the mutex free \<open>m\<close> leaves it free, whatever value or error it
  ends with (the kernel does not go on after a halt).
\<close>

definition mutex_free :: "('h mt7697q_info, 'a) prog \<Rightarrow> bool" where
  "mutex_free m \<longleftrightarrow> (\<forall>s r s'. \<not> mutex s \<longrightarrow> m s = Some (r, s') \<longrightarrow> (\<forall>h. r \<noteq> Halt h) \<longrightarrow> \<not> mutex s')"

lemma mutex_freeD: "mutex_free m \<Longrightarrow> \<not> mutex s \<Longrightarrow> m s = Some (r, s') \<Longrightarrow> \<forall>h. r \<noteq> Halt h \<Longrightarrow> \<not> mutex s'"
  unfolding mutex_free_def by blast

named_theorems mutex_intros "the operators keep the mutex free"

lemma keeps_mutex_free: "keeps (\<lambda>s. \<not> mutex s) m \<Longrightarrow> mutex_free m"
  unfolding mutex_free_def keeps_def by blast

lemma mutex_free_basic [mutex_intros]:
  "mutex_free (returnP a)" "mutex_free (throwP e)" "mutex_free (haltP h)" "mutex_free (getP f)"
  by (auto simp: mutex_free_def prog_defs)

lemma mutex_free_modifyP [mutex_intros]: "(\<And>s. mutex (f s) = mutex s) \<Longrightarrow> mutex_free (modifyP f)"
  by (auto simp: mutex_free_def prog_defs)

lemma mutex_free_bindP [mutex_intros]:
  assumes m: "mutex_free m" and k: "\<And>a. mutex_free (k a)"
  shows "mutex_free (bindP m k)"
  unfolding mutex_free_def
proof (intro allI impI)
  fix s r s' assume s: "\<not> mutex s" and run: "bindP m k s = Some (r, s')" and ok: "\<forall>h. r \<noteq> Halt h"
  obtain r1 s1 where m1: "m s = Some (r1, s1)" using run by (cases "m s") (auto simp: bindP_def)
  show "\<not> mutex s'"
  proof (cases r1)
    case (Ok a)
    with m m1 s have "\<not> mutex s1" using mutex_freeD [OF m s m1] by simp
    with run m1 Ok ok show ?thesis using mutex_freeD [OF k] by simp
  qed (use run m1 mutex_freeD [OF m s m1] ok in auto)
qed

lemma mutex_free_seqP [mutex_intros]: "mutex_free m \<Longrightarrow> mutex_free n \<Longrightarrow> mutex_free (seqP m n)"
  unfolding seqP_def by (rule mutex_free_bindP)

lemma mutex_free_if [mutex_intros]:
  "(b \<Longrightarrow> mutex_free m) \<Longrightarrow> (\<not> b \<Longrightarrow> mutex_free n) \<Longrightarrow> mutex_free (if b then m else n)"
  by simp

lemma mutex_free_whenP [mutex_intros]: "mutex_free m \<Longrightarrow> mutex_free (whenP b m)"
  by (simp add: whenP_def mutex_free_basic)

lemma mutex_free_tryP [mutex_intros]:
  assumes m: "mutex_free m" and h: "\<And>e. mutex_free (h e)" and k: "\<And>a. mutex_free (k a)"
  shows "mutex_free (tryP m h k)"
  unfolding mutex_free_def
proof (intro allI impI)
  fix s r s' assume s: "\<not> mutex s" and run: "tryP m h k s = Some (r, s')" and ok: "\<forall>h. r \<noteq> Halt h"
  obtain r1 s1 where m1: "m s = Some (r1, s1)" using run by (cases "m s") (auto simp: tryP_def)
  have s1: "\<not> mutex s1" if "\<forall>x. r1 \<noteq> Halt x" using mutex_freeD [OF m s m1] that .
  show "\<not> mutex s'"
  proof (cases r1)
    case (Ok a)
    with run m1 ok s1 show ?thesis using mutex_freeD [OF k] by (simp add: tryP_def)
  next
    case (Err e)
    with run m1 ok s1 show ?thesis using mutex_freeD [OF h] by (simp add: tryP_def)
  qed (use run m1 ok in \<open>auto simp: tryP_def\<close>)
qed

lemma mutex_free_with_mutex [mutex_intros]: "mutex_free (with_mutex m)"
  by (auto simp: mutex_free_def with_mutex_def mutex_lock_def seqP_def bindP_def finallyP_def
      split: option.splits prod.splits outcome.splits if_splits)

lemma hw_free_mutex: "hw_free (\<lambda>s. \<not> mutex s)"
  by (simp add: hw_free_def)

lemmas mutex_io = io_keeps [OF hw_free_mutex, THEN keeps_mutex_free]

lemma mutex_free_locked [mutex_intros]:
  "mutex_free (mt7697q_push_rd_ptr ops c)" "mutex_free (mt7697q_pull_wr_ptr ops c)"
  "mutex_free (mt7697q_read_state ops ch c)" "mutex_free (mt7697q_read ops c num)"
  "mutex_free (mt7697q_write ops c buff)" "mutex_free (mt7697q_get_s2m_mbx ops)"
  unfolding mt7697q_push_rd_ptr_def mt7697q_pull_wr_ptr_def mt7697q_read_state_def mt7697q_read_def
    mt7697q_write_def mt7697q_get_s2m_mbx_def
  by (rule mutex_free_with_mutex)+

lemma mutex_free_write_request [mutex_intros]: "mutex_free (write_request ops c req)"
  unfolding write_request_def by (intro mutex_intros)

lemma mutex_free_requests [mutex_intros]:
  "mutex_free (mt7697q_wr_init ops tx rx c)" "mutex_free (mt7697q_wr_unused ops m2s s2m)"
  "mutex_free (mt7697q_wr_reset ops m2s s2m)"
  unfolding mt7697q_wr_init_def mt7697q_wr_unused_def mt7697q_wr_reset_def
  by (auto intro!: mutex_intros)

lemma mutex_free_find_qinfo [mutex_intros]: "mutex_free (find_qinfo reg)"
  by (auto simp: find_qinfo_def intro!: mutex_intros split: option.split)

lemma mutex_free_init [mutex_intros]: "mutex_free (mt7697q_init ops reg tx rx p n f)"
  unfolding mt7697q_init_def q_init_body_def Let_def by (auto intro!: mutex_intros simp: upd_spec_def upd_data_def)

lemma mutex_free_rounds [mutex_intros]:
  "mutex_free (proc_header ops c avail req)" "mutex_free (refresh_avail ops c avail req)"
  "mutex_free (proc_next ops c avail)"
  unfolding proc_header_def refresh_avail_def proc_next_def
  by (auto intro!: mutex_intros split: prod.split)

lemma mutex_free_dispatch [mutex_intros]:
  "(\<And>f h p. mutex_free (call_rx cl f h p)) \<Longrightarrow> mutex_free (proc_dispatch cl c)"
  unfolding proc_dispatch_def mt7697q_proc_queue_rsp_def
  by (auto intro!: mutex_intros split: option.split)

lemma mutex_free_loop [mutex_intros]:
  assumes cl: "\<And>f h p. mutex_free (call_rx cl f h p)"
  shows "mutex_free (proc_loop ops cl c avail req)"
  unfolding mutex_free_def
proof (intro allI impI)
  fix s r s' assume s: "\<not> mutex s" and run: "proc_loop ops cl c avail req s = Some (r, s')"
    and ok: "\<forall>h. r \<noteq> Halt h"
  have "\<not> mutex s \<longrightarrow> (\<forall>h. fst (r, s') \<noteq> Halt h) \<longrightarrow> \<not> mutex (snd (r, s'))"
  proof (rule proc_loop.raw_induct [where P = "\<lambda>ops' cl' c' avail req s rs. ops' = ops \<longrightarrow> cl' = cl \<longrightarrow>
        c' = c \<longrightarrow> \<not> mutex s \<longrightarrow> (\<forall>h. fst rs \<noteq> Halt h) \<longrightarrow> \<not> mutex (snd rs)",
        OF _ run, THEN mp, THEN mp, THEN mp, OF _ refl refl refl])
    fix loop ops' cl' c' avail req s and rs :: "unit outcome \<times> 'a mt7697q_info"
    assume IH: "\<And>ops' cl' c' avail req s rs. loop ops' cl' c' avail req s = Some rs \<Longrightarrow>
        ops' = ops \<longrightarrow> cl' = cl \<longrightarrow> c' = c \<longrightarrow> \<not> mutex s \<longrightarrow> (\<forall>h. fst rs \<noteq> Halt h) \<longrightarrow> \<not> mutex (snd rs)"
      and run: "(if req \<le> avail then
        bindP (proc_header ops' c' avail req) (\<lambda>h s1.
          case h of
            None \<Rightarrow> returnP () s1
          | Some (avail1, req1) \<Rightarrow>
              bindP (refresh_avail ops' c' avail1 req1) (\<lambda>avail2 s2.
                if avail2 < req1 then returnP () s2
                else bindP (seqP (proc_dispatch cl' c') (proc_next ops' c' (avail2 - req1)))
                       (\<lambda>avail3 s3. loop ops' cl' c' avail3 (LEN_TO_WORD sizeof_rsp_hdr) s3) s2) s1) s
      else returnP () s) = Some rs"
    show "ops' = ops \<longrightarrow> cl' = cl \<longrightarrow> c' = c \<longrightarrow> \<not> mutex s \<longrightarrow> (\<forall>h. fst rs \<noteq> Halt h) \<longrightarrow> \<not> mutex (snd rs)"
    proof (intro impI)
      assume eqs: "ops' = ops" "cl' = cl" "c' = c" and s: "\<not> mutex s" and ok: "\<forall>h. fst rs \<noteq> Halt h"
      have lp: "mutex_free (loop ops cl c a q)" for a q
        using IH eqs unfolding mutex_free_def by fastforce
      have mf: "mutex_free (\<lambda>s. if req \<le> avail then
        bindP (proc_header ops c avail req) (\<lambda>h s1.
          case h of
            None \<Rightarrow> returnP () s1
          | Some (avail1, req1) \<Rightarrow>
              bindP (refresh_avail ops c avail1 req1) (\<lambda>avail2 s2.
                if avail2 < req1 then returnP () s2
                else bindP (seqP (proc_dispatch cl c) (proc_next ops c (avail2 - req1)))
                       (\<lambda>avail3 s3. loop ops cl c avail3 (LEN_TO_WORD sizeof_rsp_hdr) s3) s2) s1) s
        else returnP () s)" (is "mutex_free ?m")
      proof -
        have "?m = (if req \<le> avail then
          bindP (proc_header ops c avail req) (\<lambda>h.
            case h of
              None \<Rightarrow> returnP ()
            | Some (avail1, req1) \<Rightarrow>
                bindP (refresh_avail ops c avail1 req1) (\<lambda>avail2.
                  if avail2 < req1 then returnP ()
                  else bindP (seqP (proc_dispatch cl c) (proc_next ops c (avail2 - req1)))
                         (\<lambda>avail3. loop ops cl c avail3 (LEN_TO_WORD sizeof_rsp_hdr))))
          else returnP ())" (is "_ = ?n")
          by (rule ext) (auto simp: bindP_def split: option.split prod.split outcome.split)
        moreover have "mutex_free ?n"
          by (intro mutex_intros) (auto intro!: mutex_intros lp cl split: option.split)
        ultimately show ?thesis by simp
      qed
      obtain r1 s1 where rs: "rs = (r1, s1)" by (cases rs)
      have "\<forall>h. r1 \<noteq> Halt h" using ok rs by simp
      from mutex_freeD [OF mf s run [unfolded eqs rs] this] show "\<not> mutex (snd rs)" by (simp add: rs)
    qed
  qed
  with s ok show "\<not> mutex s'" by simp
qed

lemma mutex_free_proc_data [mutex_intros]:
  "(\<And>f h p. mutex_free (call_rx cl f h p)) \<Longrightarrow> mutex_free (mt7697q_proc_data ops cl c)"
  unfolding mt7697q_proc_data_def by (auto intro!: mutex_intros)

section \<open>A read that fails\<close>

lemma hw_free_queues: "hw_free (\<lambda>s. queues s = Q)"
  by (simp add: hw_free_def)

lemma read_phases:
  "q_read_to_end ops d num s = Some (r, s') \<Longrightarrow> queues s' = queues s \<and>
     (\<forall>ret ws n off. r = Ok (ret, ws, n, off) \<longrightarrow> n \<le> num)"
  "n1 \<le> num \<Longrightarrow> q_read_rest ops d num n1 off1 s = Some (r, s') \<Longrightarrow> queues s' = queues s \<and>
     (\<forall>ret ws n off. r = Ok (ret, ws, n, off) \<longrightarrow> n \<le> num)"
proof -
  note io = keepsD [OF keeps_io(2) [OF hw_free_queues [of "queues s"]] refl]
  show "q_read_to_end ops d num s = Some (r, s') \<Longrightarrow> queues s' = queues s \<and>
     (\<forall>ret ws n off. r = Ok (ret, ws, n, off) \<longrightarrow> n \<le> num)"
    by (auto simp: q_read_to_end_def Let_def bindP_def returnP_def dest: io
        split: if_splits option.splits prod.splits outcome.splits)
  assume n1: "n1 \<le> num"
  have sum: "n1 + x \<le> num" if "x \<le> num - n1" for x
  proof -
    have "unat x \<le> unat num - unat n1" using that n1 by (simp add: word_le_nat_alt unat_sub_u32)
    moreover have "unat n1 \<le> unat num" using n1 by (simp add: word_le_nat_alt)
    ultimately have "unat (n1 + x) = unat n1 + unat x" "unat n1 + unat x \<le> unat num"
      using unat_lt_u32 [of num] by (auto simp: unat_add_u32)
    then show ?thesis by (simp add: word_le_nat_alt)
  qed
  show "q_read_rest ops d num n1 off1 s = Some (r, s') \<Longrightarrow> queues s' = queues s \<and>
     (\<forall>ret ws n off. r = Ok (ret, ws, n, off) \<longrightarrow> n \<le> num)"
    using n1 by (auto simp: q_read_rest_def Let_def bindP_def returnP_def sum dest: io
        split: if_splits option.splits prod.splits outcome.splits)
qed

lemma wlp_with_mutex [wp_rules]:
  "wlp (with_mutex m) Q s = (mutex s \<or> wlp m (\<lambda>r s'. case r of Halt h \<Rightarrow> Q r s' | _ \<Rightarrow> Q r (s'\<lparr>mutex := False\<rparr>))
     (s\<lparr>mutex := True\<rparr>))"
  by (simp add: with_mutex_def mutex_lock_def wlp_def seqP_def bindP_def finallyP_def
      split: option.split prod.split outcome.split)

text \<open>A read that reports an error, whatever the SPI controller answered and at whatever step it
  failed, leaves every descriptor as it was: the words it has already transferred stay in the queue and
  the next read returns them again.\<close>

theorem read_error_keeps_queues:
  assumes run: "mt7697q_read ops c num s = Some (Ok (ret, ws), s')" and "ret < 0"
    and num: "unat num < 2147483648"
  shows "queues s' = queues s"
proof -
  have nonneg: "0 \<le> sint n" if "n \<le> num" for n :: u32
  proof -
    have "unat n < 2147483648" using that num unfolding word_le_nat_alt by linarith
    then have "int (unat n) < 2147483648" by linarith
    then have "- 2147483648 \<le> uint n" "uint n < 2147483648" using uint_ge_0 [of n] by (linarith, simp)
    then have eq: "signed_take_bit (LENGTH(32) - Suc 0) (uint n) = uint n"
      using signed_take_bit_int_eq_self [of 31 "uint n"] by simp
    show ?thesis unfolding sint_uint eq by simp
  qed
  have phase1: "wlp (q_read_to_end ops d num) (\<lambda>r s'. queues s' = queues s \<and>
      (\<forall>ret ws n off. r = Ok (ret, ws, n, off) \<longrightarrow> n \<le> num)) s0" if "queues s0 = queues s" for d s0
    unfolding wlp_iff by (intro allI impI) (drule read_phases(1), simp add: that)
  have phase2: "wlp (q_read_rest ops d num n1 off1) (\<lambda>r s'. queues s' = queues s \<and>
      (\<forall>ret ws n off. r = Ok (ret, ws, n, off) \<longrightarrow> n \<le> num)) s0"
    if "queues s0 = queues s" "n1 \<le> num" for d n1 off1 s0
    unfolding wlp_iff by (intro allI impI) (drule read_phases(2) [OF that(2)], simp add: that)
  have "wlp (mt7697q_read ops c num)
      (\<lambda>r s'. \<forall>ret ws. r = Ok (ret, ws) \<longrightarrow> ret < 0 \<longrightarrow> queues s' = queues s) s"
    unfolding mt7697q_read_def
    apply (simp add: wp_rules)
    apply (intro disjI2 wlp_mono [OF phase1])
     apply simp
    apply (clarsimp simp: wp_rules split: outcome.split)
    apply (rule wlp_mono [OF phase2], assumption, assumption)
    apply (clarsimp simp: wp_rules upd_data_def upd_spec_def nonneg not_less split: outcome.split)
    by (metis nonneg not_less)
  with assms show ?thesis by (auto simp: wlp_iff)
qed

section \<open>Descriptors\<close>

text \<open>
  What \<^verbatim>\<open>mt7697q_read_state\<close> accepts: a base address and flags that are not 0, and both offsets inside the
  ring, unless the ring has no word at all, whose capacity wraps around to the largest number.
\<close>

definition descriptor_ok :: "mt7697q_data \<Rightarrow> bool" where
  "descriptor_ok d \<longleftrightarrow> base_addr d \<noteq> 0 \<and> qd_flags d \<noteq> 0 \<and>
     (num_words_field d = 0 \<or>
      unat (rd_offset d) < unat (num_words_field d) \<and> unat (wr_offset d) < unat (num_words_field d))"

lemma offset_check:
  "ucast (x :: u16) > mt7697q_get_capacity qs \<longleftrightarrow>
     num_words_field (qdata qs) \<noteq> 0 \<and> unat (num_words_field (qdata qs)) \<le> unat x"
proof (cases "num_words_field (qdata qs) = 0")
  case True
  have "(- 1 :: u32) < ucast x \<longleftrightarrow> False" using word_n1_ge [of "ucast x :: u32"] by (simp add: not_less)
  with True show ?thesis by (simp add: mt7697q_get_capacity_def)
next
  case False
  then have N: "0 < unat (num_words_field (qdata qs))" by (simp add: unat_gt_0)
  then have "unat (mt7697q_get_capacity qs) = unat (num_words_field (qdata qs)) - 1"
    by (simp add: mt7697q_get_capacity_def unat_sub_u32)
  with False N show ?thesis by (auto simp: word_less_nat_alt)
qed

definition descriptor_at :: "(u32 \<Rightarrow> u32) \<Rightarrow> u8 \<Rightarrow> mt7697q_data" where
  "descriptor_at m ch = qdata_of_words (mem_read (desc_addr ch) 4 m)"

lemma descriptor_check:
  "(if base_addr (qdata qs) = 0 then throwP (- EINVAL)
    else if qd_flags (qdata qs) = 0 then throwP (- EINVAL)
    else if ucast (rd_offset (qdata qs)) > mt7697q_get_capacity qs
          \<or> ucast (wr_offset (qdata qs)) > mt7697q_get_capacity qs then throwP (- EINVAL)
    else returnP ()) s = Some (if descriptor_ok (qdata qs) then Ok () else Err (- EINVAL), s)"
  unfolding offset_check by (auto simp: descriptor_ok_def throwP_def returnP_def)

context mt7697_slave
begin

lemma read_state:
  fixes ch :: u8
  assumes c: "c < length (queues s)" and mx: "\<not> mutex s" and idle: "polls (hw s) = 0"
  defines "d' \<equiv> descriptor_at (sv_mem (view (hw s))) ch"
  shows "\<exists>h'. mt7697q_read_state ops ch c s =
      Some (if descriptor_ok d' then Ok () else Err (- EINVAL), upd_data c (\<lambda>_. d') (s\<lparr>hw := h'\<rparr>)) \<and>
    sv_mem (view h') = sv_mem (view (hw s)) \<and> polls h' = 0"
proof -
  let ?s0 = "s\<lparr>mutex := True\<rparr>"
  obtain h' where h: "mt7697io_rd ops (desc_addr ch) 4 ?s0 =
        Some (Ok (0, mem_read (desc_addr ch) 4 (sv_mem (view (hw s)))), ?s0\<lparr>hw := h'\<rparr>)"
      "sv_mem (view h') = sv_mem (view (hw s))" "polls h' = 0"
    using io_rd [of ?s0 "desc_addr ch" 4] idle by auto
  have fill: "qdata_fill 0 (mem_read (desc_addr ch) 4 (sv_mem (view (hw s)))) d = d'" for d
    unfolding d'_def descriptor_at_def by (simp add: numeral_eq_Suc qdata_put_def qdata_of_words_def)
  let ?s1 = "upd_data c (\<lambda>_. d') (?s0\<lparr>hw := h'\<rparr>)"
  have s1: "qdata (spec_of c ?s1) = d'" using c by simp
  have lock: "mutex_lock s = Some (Ok (), ?s0)" using mx by (simp add: mutex_lock_def)
  have "mt7697q_read_state ops ch c s =
      Some (if descriptor_ok d' then Ok () else Err (- EINVAL), ?s1\<lparr>mutex := False\<rparr>)"
    unfolding mt7697q_read_state_def with_mutex_def seqP_Ok [where m = mutex_lock, OF lock]
      finallyP_def bindP_Ok [where m = "mt7697io_rd ops (desc_addr ch) 4", OF h(1)]
      prod.case prog_step fill
    by (simp only: less_irrefl if_False prog_step descriptor_check s1)
      (simp split: if_split)
  moreover have "?s1\<lparr>mutex := False\<rparr> = upd_data c (\<lambda>_. d') (s\<lparr>hw := h'\<rparr>)"
    using mx by (simp add: upd_data_def upd_spec_def)
  ultimately show ?thesis using h(2,3) by (intro exI [of _ h']) simp
qed

end

section \<open>Messages that can never be finished\<close>

text \<open>
  \<^theory_text>\<open>wedged\<close>: the header buffer holds a queue command the master does not know, or a length below the
  size of the header itself, which makes the payload about \<open>2^30\<close> words.
\<close>

definition wedged :: "('h \<Rightarrow> nat) \<Rightarrow> nat \<Rightarrow> 'h mt7697q_info \<Rightarrow> bool" where
  "wedged polls c s \<longleftrightarrow> c < length (queues s) \<and> \<not> mutex s \<and> polls (hw s) = 0 \<and>
     unat (rd_offset (qdata (spec_of c s))) \<le> unat (num_words_field (qdata (spec_of c s))) \<and>
     (cmd_len (rsp s) = 8 \<and> cmd_grp (rsp s) = grp_code MT7697_CMD_GRP_QUEUE \<and>
        cmd_type (rsp s) \<notin> {qcmd_code MT7697_CMD_QUEUE_INIT_RSP, qcmd_code MT7697_CMD_QUEUE_RESET_RSP} \<or>
      0 < cmd_len (rsp s) \<and> cmd_len (rsp s) < 8)"

lemma num_words_bounded:
  assumes "unat (rd_offset (qdata qs)) \<le> unat (num_words_field (qdata qs))"
  shows "unat (mt7697q_get_num_words qs) < 131072"
  using assms num_words_lt [of "qdata qs"] unat_lt_u16 [of "wr_offset (qdata qs)"]
  by (auto simp: mt7697q_get_num_words_def mt7697q_buf_diff_def word_le_nat_alt unat_sub_u32 unat_add_u32)

lemma short_payload:
  assumes "0 < cmd_len h" "cmd_len h < 8"
  shows "131072 \<le> unat (payload_words h)"
proof -
  have l: "0 < unat (cmd_len h)" "unat (cmd_len h) < 8"
    using assms by (simp_all add: word_less_nat_alt)
  have "unat (ucast (cmd_len h) - 8 :: u32) = 4294967288 + unat (cmd_len h)"
    using l by (simp add: unat_sub_if')
  then show ?thesis using l by (simp add: payload_words_def unat_LEN_TO_WORD)
qed

context mt7697_slave
begin

lemma wedged_stays:
  assumes w: "wedged polls c s"
  shows "\<exists>r s'. mt7697q_proc_data ops cl c s = Some (r, s') \<and> wedged polls c s' \<and> rsp s' = rsp s \<and>
    rd_offset (qdata (spec_of c s')) = rd_offset (qdata (spec_of c s)) \<and>
    r = (if cmd_len (rsp s) = 8 then Err (- EINVAL) else Ok ())"
proof -
  have c: "c < length (queues s)" and mx: "\<not> mutex s" and idle: "polls (hw s) = 0"
    using w by (auto simp: wedged_def)
  obtain w' h' where pull: "mt7697q_pull_wr_ptr ops c s = Some (Ok (),
      upd_data c (\<lambda>d. d\<lparr>wr_offset := w'\<rparr>) (s\<lparr>hw := h'\<rparr>))" "polls h' = 0"
    using pull_wr_ptr [OF idle mx, of c] by blast
  let ?s1 = "upd_data c (\<lambda>d. d\<lparr>wr_offset := w'\<rparr>) (s\<lparr>hw := h'\<rparr>)"
  have w1: "wedged polls c ?s1" "rsp ?s1 = rsp s"
    "rd_offset (qdata (spec_of c ?s1)) = rd_offset (qdata (spec_of c s))"
    using w pull(2) by (simp_all add: wedged_def)
  have bound: "unat (mt7697q_get_num_words (spec_of c ?s1)) < 131072"
    using w1(1) unfolding wedged_def by (intro num_words_bounded) blast
  have len: "0 < cmd_len (rsp s)" using w by (auto simp: wedged_def word_less_nat_alt)
  have start: "mt7697q_proc_data ops cl c s =
      proc_loop ops cl c (mt7697q_get_num_words (spec_of c ?s1)) (payload_words (rsp s)) ?s1"
    using pull(1) len by (simp add: mt7697q_proc_data_def)
  show ?thesis
  proof (cases "cmd_len (rsp s) = 8")
    case True
    then have q: "cmd_grp (rsp s) = 0" "cmd_type (rsp s) \<noteq> 1" "cmd_type (rsp s) \<noteq> 4"
      using w by (auto simp: wedged_def)
    have "payload_words (rsp s) = 0"
      using True by (simp add: payload_words_def LEN_TO_WORD_def)
    moreover have "proc_header ops c a 0 ?s1 = Some (Ok (Some (a, 0)), ?s1)" for a
      using word_neq_0_conv [THEN iffD2, OF len] by (simp add: proc_header_def returnP_def)
    moreover have "refresh_avail ops c a 0 ?s1 = Some (Ok a, ?s1)" for a
      by (simp add: refresh_avail_def returnP_def)
    moreover have "proc_dispatch cl c ?s1 = Some (Err (- EINVAL), ?s1)"
      using q by (simp add: proc_dispatch_def mt7697q_proc_queue_rsp_def throwP_def)
    ultimately have "mt7697q_proc_data ops cl c s = Some (Err (- EINVAL), ?s1)"
      unfolding start by (subst proc_loop.simps) simp
    with True w1 show ?thesis by simp
  next
    case False
    then have "\<not> payload_words (rsp s) \<le> mt7697q_get_num_words (spec_of c ?s1)"
      using short_payload [of "rsp s"] bound w by (auto simp: wedged_def word_le_nat_alt)
    then have "mt7697q_proc_data ops cl c s = Some (Ok (), ?s1)"
      unfolding start by (subst proc_loop.simps) (simp add: returnP_def)
    with False w1 show ?thesis by simp
  qed
qed

end

section \<open>The flag bits\<close>

lemma in_use_field: "mt7697q_flags_get_in_use f = take_bit 2 f"
  by (simp add: mt7697q_flags_get_in_use_def BF_GET_take_bit numeral_2_eq_2)

lemma in_use_nonzero: "mt7697q_flags_get_in_use f \<noteq> 0 \<longleftrightarrow> bit f 0 \<or> bit f 1"
proof -
  have "bit (mt7697q_flags_get_in_use f) i \<longleftrightarrow> i < 2 \<and> bit f i" for i
    by (simp add: in_use_field bit_take_bit_iff)
  then have "mt7697q_flags_get_in_use f = 0 \<longleftrightarrow> (\<forall>i. \<not> (i < 2 \<and> bit f i))"
    unfolding bit_eq_iff by auto
  then show ?thesis by (metis less_2_cases_iff One_nat_def)
qed

lemma clear_in_use_bits:
  "i < 32 \<Longrightarrow> bit (qd_flags (clear_in_use d)) i \<longleftrightarrow> 2 \<le> i \<and> bit (qd_flags d) i"
  by (auto simp: clear_in_use_def bit_and_iff bit_not_iff bit_BF_GET)

lemma set_in_use_bits: "bit (qd_flags (set_in_use d)) i \<longleftrightarrow> i = 0 \<or> bit (qd_flags d) i"
proof -
  have "BF_DEFINE 1 0 1 = (1 :: u32)" by code_simp
  then show ?thesis by (auto simp: set_in_use_def bit_or_iff bit_1_iff)
qed

lemma set_in_use_frame [simp]:
  "num_words_field (set_in_use d) = num_words_field d" "base_addr (set_in_use d) = base_addr d"
  "rd_offset (set_in_use d) = rd_offset d" "wr_offset (set_in_use d) = wr_offset d"
proof -
  show "num_words_field (set_in_use d) = num_words_field d"
    unfolding num_words_field_def by (rule bit_word_eqI) (simp add: bit_BF_GET set_in_use_bits)
qed (simp_all add: set_in_use_def)

section \<open>Opening a pair of queues\<close>

lemma find_spi_master_Some:
  "find_spi_master b n = Some m \<longleftrightarrow> (\<exists>k\<le>n. b k = Some m \<and> (\<forall>j. k < j \<and> j \<le> n \<longrightarrow> b j = None))"
proof (induction n)
  case (Suc n)
  show ?case
  proof (cases "b (Suc n)")
    case None
    then show ?thesis by (auto simp: Suc.IH le_Suc_eq)
  next
    case (Some m')
    then show ?thesis by (auto simp: le_Suc_eq)
  qed
qed auto

definition registry_complete :: "('m, 'd) spi_registry \<Rightarrow> bool" where
  "registry_complete reg \<longleftrightarrow> (\<exists>m d. find_spi_master (spi_busnum_to_master reg) MT7697_SPI_BUS_NUM = Some m \<and>
     bus_find_device_by_name reg m = Some d \<and> spi_get_drvdata reg d)"

lemma find_qinfo_cases:
  "find_qinfo reg s = Some (if registry_complete reg then Ok () else Err (- EINVAL), s)"
  by (auto simp: find_qinfo_def registry_complete_def throwP_def returnP_def split: option.splits)

definition init_request :: "u8 \<Rightarrow> u8 \<Rightarrow> u32 list" where
  "init_request tx rx = [cmd_word \<lparr>cmd_len = 12, cmd_grp = 0, cmd_type = 0\<rparr>, ucast tx, ucast rx]"

text \<open>The descriptor of a channel alone decides whether a queue can be opened on it.\<close>

definition openable :: "(u32 \<Rightarrow> u32) \<Rightarrow> u8 \<Rightarrow> bool" where
  "openable m ch \<longleftrightarrow> unat ch < MT7697_NUM_QUEUES \<and> descriptor_ok (descriptor_at m ch) \<and>
     num_words_field (descriptor_at m ch) \<noteq> 0 \<and>
     desc_apart \<lparr>qdata = descriptor_at m ch, priv = 0, notify_tx_fcn = None, rx_fcn = None, q_ch = ch\<rparr>"

context mt7697_slave
begin

lemma write_request_ok:
  assumes "q_wf view polls c s" "3 \<le> ring_room (q_ring view c s)" "cmd_len req = 12"
  shows "\<exists>s'. write_request ops c req s = Some (Ok (), s') \<and> q_wf view polls c s' \<and>
    ring_list (q_ring view c s') = ring_list (q_ring view c s) @ queue_req_words req \<and>
    qd_flags (qdata (spec_of c s')) = qd_flags (qdata (spec_of c s)) \<and>
    (\<forall>d. d \<noteq> c \<longrightarrow> spec_of d s' = spec_of d s)"
proof -
  have inv: "ring_inv (q_ring view c s)" using assms(1) by (simp add: q_wf_def)
  have len: "length (queue_req_words req) = 3" by (simp add: queue_req_words_def)
  obtain s' where s': "mt7697q_write ops c (queue_req_words req) s = Some (Ok (word_of_nat 3), s')"
      "q_wf view polls c s'" "ring_same (q_ring view c s') (ring_enq (queue_req_words req) (q_ring view c s))"
      "\<forall>d. d \<noteq> c \<longrightarrow> spec_of d s' = spec_of d s"
      "qd_flags (qdata (spec_of c s')) = qd_flags (qdata (spec_of c s))"
    using driver_write [OF assms(1), of "queue_req_words req"] assms(2) unfolding len by blast
  have "LEN_TO_WORD (ucast (cmd_len req)) = 3"
    unfolding assms(3) by code_simp
  with s'(1) have "write_request ops c req s = Some (Ok (), s')"
    by (simp add: write_request_def returnP_def)
  moreover have "ring_inv (q_ring view c s')" using s'(2) by (simp add: q_wf_def)
  then have "ring_list (q_ring view c s') = ring_list (q_ring view c s) @ queue_req_words req"
    using ring_same_list [OF s'(3)] ring.put_contents [OF inv, of "queue_req_words req"] assms(2) len by simp
  ultimately show ?thesis using s'(2,4,5) by blast
qed

lemma init_ok:
  fixes s :: "'h mt7697q_info" and tx rx :: u8
  assumes reg: "registry_complete reg" and len: "length (queues s) = MT7697_NUM_QUEUES"
    and mx: "\<not> mutex s" and idle: "polls (hw s) = 0" and ne: "tx \<noteq> rx"
    and tx: "openable (sv_mem (view (hw s))) tx" and rx: "openable (sv_mem (view (hw s))) rx"
    and room: "3 \<le> ring_room (ring_of_data (sv_mem (view (hw s))) (descriptor_at (sv_mem (view (hw s))) tx))"
  defines "m \<equiv> sv_mem (view (hw s))"
  shows "\<exists>s'. mt7697q_init ops reg tx rx p notify rxf s = Some (Ok (unat tx, unat rx), s') \<and>
    q_wf view polls (unat tx) s' \<and>
    ring_list (q_ring view (unat tx) s') = ring_list (ring_of_data m (descriptor_at m tx)) @ init_request tx rx \<and>
    spec_of (unat rx) s' = (spec_of (unat rx) s)\<lparr>qdata := set_in_use (descriptor_at m rx), priv := p,
      rx_fcn := rxf, q_ch := rx\<rparr> \<and>
    bit (qd_flags (qdata (spec_of (unat tx) s'))) 0"
proof -
  let ?t = "unat tx" and ?r = "unat rx"
  let ?dt = "descriptor_at m tx" and ?dr = "descriptor_at m rx"
  have tr: "?t < 6" "?r < 6" "?t \<noteq> ?r"
    using tx rx ne by (simp_all add: openable_def word_unat_eq_iff)
  define s3 where "s3 = upd_spec ?r (init_rx_spec rx p rxf)
    ((upd_spec ?t (init_tx_spec tx p notify) s)\<lparr>blocked_writer := False\<rparr>)"
  have s3: "length (queues s3) = 6" "\<not> mutex s3" "hw s3 = hw s"
    "spec_of ?t s3 = init_tx_spec tx p notify (spec_of ?t s)" "spec_of ?r s3 = init_rx_spec rx p rxf (spec_of ?r s)"
    using len mx tr by (simp_all add: s3_def spec_of_def upd_spec_def)
  obtain h1 where h1: "mt7697q_read_state ops tx ?t s3 = Some (Ok (), upd_data ?t (\<lambda>_. ?dt) (s3\<lparr>hw := h1\<rparr>))"
      "sv_mem (view h1) = m" "polls h1 = 0"
    using read_state [of ?t s3 tx] s3 tr idle tx by (auto simp: openable_def m_def)
  let ?s4 = "upd_data ?t (\<lambda>_. ?dt) (s3\<lparr>hw := h1\<rparr>)"
  obtain h2 where h2: "mt7697q_read_state ops rx ?r ?s4 = Some (Ok (), upd_data ?r (\<lambda>_. ?dr) (?s4\<lparr>hw := h2\<rparr>))"
      "sv_mem (view h2) = m" "polls h2 = 0"
    using read_state [of ?r ?s4 rx] s3 tr h1(2,3) rx by (auto simp: openable_def m_def)
  define s7 where "s7 = upd_data ?r set_in_use (upd_data ?t set_in_use (upd_data ?r (\<lambda>_. ?dr) (?s4\<lparr>hw := h2\<rparr>)))"
  have s7: "length (queues s7) = 6" "\<not> mutex s7" "hw s7 = h2"
    "spec_of ?t s7 = (init_tx_spec tx p notify (spec_of ?t s))\<lparr>qdata := set_in_use ?dt\<rparr>"
    "spec_of ?r s7 = (init_rx_spec rx p rxf (spec_of ?r s))\<lparr>qdata := set_in_use ?dr\<rparr>"
    using s3 tr by (simp_all add: s7_def)
  have ring: "q_ring view ?t s7 = ring_of_data m ?dt"
    by (simp add: q_ring_def s7 h2(2) ring_of_data_def)
  have "q_wf view polls ?t s7"
    using tx tr s7 h2(3) unfolding q_wf_def ring
    by (auto simp: openable_def descriptor_ok_def ring_inv_def desc_apart_def init_tx_spec_def m_def unat_eq_0)
  then obtain s' where s': "mt7697q_wr_init ops tx rx ?t s7 = Some (Ok (), s')" "q_wf view polls ?t s'"
      "ring_list (q_ring view ?t s') = ring_list (q_ring view ?t s7) @ init_request tx rx"
      "qd_flags (qdata (spec_of ?t s')) = qd_flags (qdata (spec_of ?t s7))"
      "\<forall>d. d \<noteq> ?t \<longrightarrow> spec_of d s' = spec_of d s7"
    using write_request_ok [of ?t s7 "\<lparr>cmd_len = 12, cmd_grp = 0, cmd_type = 0, m2s_ch = ucast tx, s2m_ch = ucast rx\<rparr>"]
      room by (auto simp: ring m_def mt7697q_wr_init_def init_request_def queue_req_words_def mt7697_cmd_hdr.defs)
  have chans: "\<not> (6 \<le> ?t \<or> 6 \<le> ?r)" using tr by simp
  have "q_init_body ops reg tx rx p notify rxf s = Some (Ok (?t, ?r), s')"
    using find_qinfo_cases [of reg s] reg h1(1) [unfolded s3_def] h2(1) [unfolded s3_def]
      s'(1) [unfolded s7_def s3_def] chans
    by (simp add: q_init_body_def Let_def returnP_def)
  then have "mt7697q_init ops reg tx rx p notify rxf s = Some (Ok (?t, ?r), s')"
    by (simp add: mt7697q_init_def tryP_def returnP_def)
  then show ?thesis
    using s'(2-5) tr(3) s7(4,5)
    by (intro exI [of _ s']) (simp add: ring init_rx_spec_def set_in_use_bits)
qed

end

section \<open>Properties\<close>

text \<open>A write of words that fit is the ring's enqueue: it returns the number of words, which are
  then behind the words the queue already held, uses exactly that much of the free space, and touches no
  other queue, for every position of the offsets and so also when the words wrap around the end.\<close>

theorem write_appends:
  assumes "mt7697_slave ops view polls" "q_wf view polls c s"
    and "length buff \<le> ring_room (q_ring view c s)"
  shows "\<exists>s'. mt7697q_write ops c buff s = Some (Ok (word_of_nat (length buff)), s') \<and>
    q_wf view polls c s' \<and> ring_list (q_ring view c s') = ring_list (q_ring view c s) @ buff \<and>
    ring_room (q_ring view c s') = ring_room (q_ring view c s) - length buff \<and>
    (\<forall>d. d \<noteq> c \<longrightarrow> spec_of d s' = spec_of d s)"
proof -
  obtain s' where s': "mt7697q_write ops c buff s = Some (Ok (word_of_nat (length buff)), s')"
      "\<forall>d. d \<noteq> c \<longrightarrow> spec_of d s' = spec_of d s"
    using mt7697_slave.driver_write [OF assms] by blast
  then have "drv_put ops c buff s = s'" by (simp add: drv_put_def)
  with s' mt7697_queue.put_facts [OF mt7697_queue.intro [OF assms(1)] assms(2,3)] show ?thesis by auto
qed

theorem write_appends_witness:
  "\<exists>s'. mt7697q_write ideal_ops 0 [10, 11, 12] example_state = Some (Ok 3, s') \<and>
     ring_list (q_ring fst 0 s') = [77, 0, 0, 10, 11, 12]"
  using write_appends [OF ideal.mt7697_slave_axioms example_wf, of "[10, 11, 12]"]
  by (auto simp: example_room example_words)

text \<open>A read returns the oldest words of the queue in order, as many as asked for or as there are,
  with their number, and leaves exactly the others; the space they took is free again.\<close>

theorem read_takes:
  assumes "mt7697_slave ops view polls" "q_wf view polls c s"
    and "n \<le> length (ring_list (q_ring view c s))"
  shows "\<exists>s'. mt7697q_read ops c (word_of_nat n) s = Some (Ok (int n, take n (ring_list (q_ring view c s))), s') \<and>
    q_wf view polls c s' \<and> ring_list (q_ring view c s') = drop n (ring_list (q_ring view c s)) \<and>
    ring_room (q_ring view c s') = ring_room (q_ring view c s) + n"
  using mt7697_queue.take_facts [OF mt7697_queue.intro [OF assms(1)] assms(2,3)] by metis

theorem read_takes_witness:
  "\<exists>s'. mt7697q_read ideal_ops 0 (word_of_nat 2) example_state = Some (Ok (2, [77, 0]), s') \<and>
     ring_list (q_ring fst 0 s') = [0]"
  using read_takes [OF ideal.mt7697_slave_axioms example_wf, of 2]
  by (auto simp: example_words)

text \<open>C1: under every interleaving of writes and reads that fit, none fails, and the words read followed
  by the words still in the queue are the words it held at first followed by the words written: nothing
  is lost, duplicated or reordered.\<close>

theorem queue_is_fifo:
  assumes "mt7697_slave ops view polls" "q_wf view polls c s"
    and "fifo_fits es (ring_room (q_ring view c s)) (length (ring_list (q_ring view c s)))"
  shows "\<exists>out s'. run_ops ops c es s = Some (Ok out, s') \<and> q_wf view polls c s' \<and>
    out @ ring_list (q_ring view c s') = ring_list (q_ring view c s) @ fifo_inputs es"
  by (rule mt7697_queue.run_ops_fifo [OF mt7697_queue.intro [OF assms(1)] assms(2,3)])

theorem queue_is_fifo_witness:
  "\<exists>out s'. run_ops ideal_ops 0 [Put [10, 11], Take 4, Put [12, 13, 14, 15]] example_state = Some (Ok out, s') \<and>
     out @ ring_list (q_ring fst 0 s') = [77, 0, 0, 10, 11, 12, 13, 14, 15]"
  using queue_is_fifo [OF ideal.mt7697_slave_axioms example_wf, of "[Put [10, 11], Take 4, Put [12, 13, 14, 15]]"]
  by (auto simp: example_room example_words)

text \<open>A write that does not fit in the space known to the driver returns -EAGAIN and marks the
  writer as blocked, after refreshing the read offset from the slave, and it does so however much space
  the refreshed offset shows: the number of free words is not computed again.  Nothing is written.\<close>

theorem write_full_eagain:
  assumes "mt7697_slave ops view polls" "q_wf view polls c s"
    and "ring_room (q_ring view c s) < length buff" "length buff < 4294967296"
  shows "\<exists>h'. mt7697q_write ops c buff s = Some (Err (- EAGAIN),
      upd_data c (\<lambda>d. d\<lparr>rd_offset := ucast (sv_mem (view (hw s)) (desc_addr (q_ch (spec_of c s)) + 8))\<rparr>)
        (s\<lparr>hw := h', blocked_writer := True\<rparr>)) \<and> sv_mem (view h') = sv_mem (view (hw s))"
  using mt7697_slave.write_full [OF assms] by blast

theorem write_full_eagain_witness:
  "\<exists>s'. mt7697q_write ideal_ops 0 [1, 2, 3, 4, 5] example_state = Some (Err (- EAGAIN), s') \<and>
     blocked_writer s' \<and> mt7697q_get_free_words (spec_of 0 s') = 7"
proof -
  have free: "mt7697q_get_free_words (example_spec 0\<lparr>qdata := qdata (example_spec 0)\<lparr>rd_offset := 1\<rparr>\<rparr>) = 7"
    by code_simp
  have ch: "q_ch (example_spec 0) = 0" "desc_addr 0 + 8 = 0x20000208" "0 < length (queues example_state)"
    "sv_mem (fst (hw example_state)) 0x20000208 = 1"
    by (simp_all add: example_spec_def desc_addr_def example_state_def example_view_def)
  from write_full_eagain [OF ideal.mt7697_slave_axioms example_wf, of "[1, 2, 3, 4, 5]"] show ?thesis
    using ch free by (auto simp: example_room example_spec_of)
qed



theorem read_error_keeps_queues_witness:
  "\<exists>ws s'. mt7697q_read \<lparr>hw_write = (\<lambda>_ h. (- EIO, h)), hw_write_then_read = (\<lambda>_ h. ((- EIO, []), h))\<rparr> 0 2 example_state =
     Some (Ok (- EIO, ws), s') \<and> queues s' = queues example_state"
proof -
  let ?ops = "\<lparr>hw_write = (\<lambda>_ h. (- EIO, h)), hw_write_then_read = (\<lambda>_ h. ((- EIO, []), h))\<rparr>"
  have rd: "mt7697io_rd ?ops a k s = Some (Ok (- EIO, []), s)" for a k and s :: "(slave_view \<times> nat) mt7697q_info"
    by (simp add: mt7697io_rd_def mt7697io_write32_def mt7697io_write16_def tryP_def seqP_def bindP_def returnP_def)
  have "\<exists>ws s'. mt7697q_read ?ops 0 2 example_state = Some (Ok (- EIO, ws), s')"
    by (simp add: mt7697q_read_def with_mutex_def mutex_lock_def q_read_to_end_def Let_def rd returnP_def
        seqP_def bindP_def finallyP_def getP_def example_state_def spec_of_def example_spec_def)
  then show ?thesis using read_error_keeps_queues [of ?ops 0 2 example_state] by auto
qed

text \<open>C13: \<^verbatim>\<open>mt7697q_read_state\<close> loads the four words of the channel's descriptor from the slave, and it
  succeeds exactly when the base address and the flags are not 0 and both offsets are inside the ring; a
  ring of no words at all passes as well, because its capacity wraps around.\<close>

theorem read_state_accepts:
  assumes "mt7697_slave ops view polls" "c < length (queues s)" "\<not> mutex s" "polls (hw s) = 0"
  shows "\<exists>h'. mt7697q_read_state ops ch c s =
      Some (if descriptor_ok (descriptor_at (sv_mem (view (hw s))) ch) then Ok () else Err (- EINVAL),
        upd_data c (\<lambda>_. descriptor_at (sv_mem (view (hw s))) ch) (s\<lparr>hw := h'\<rparr>))"
  using mt7697_slave.read_state [OF assms] by blast

lemma example_descriptor:
  "descriptor_at (sv_mem example_view) 0 = \<lparr>qd_flags = 0x80001, base_addr = 0x20001000, rd_offset = 1,
     reserved1 = 0, wr_offset = 1, reserved2 = 0\<rparr>"
  "descriptor_at (sv_mem example_view) 1 = \<lparr>qd_flags = 0x80003, base_addr = 0x20002000, rd_offset = 0,
     reserved1 = 0, wr_offset = 0, reserved2 = 0\<rparr>"
  by code_simp+

theorem read_state_accepts_witness:
  "\<exists>s'. mt7697q_read_state ideal_ops 0 0 example_state = Some (Ok (), s') \<and>
     qdata (spec_of 0 s') = descriptor_at (sv_mem example_view) 0"
proof -
  have "0 < length (queues example_state)" "\<not> mutex example_state" "snd (hw example_state) = 0"
    "sv_mem (fst (hw example_state)) = sv_mem example_view"
    by (simp_all add: example_state_def)
  moreover have "descriptor_ok (descriptor_at (sv_mem example_view) 0)"
    unfolding example_descriptor by code_simp
  ultimately show ?thesis
    using read_state_accepts [OF ideal.mt7697_slave_axioms, of 0 example_state 0] by auto
qed

text \<open>A message whose header names an unknown queue command or whose length is below that of a header
  blocks its channel for good: every later round of the receive function ends the same way, with the
  header still in the buffer and the read offset where it was.\<close>

theorem bad_header_wedges:
  assumes "mt7697_slave ops view polls" "wedged polls c s"
  shows "\<exists>r s'. mt7697q_proc_data ops cl c s = Some (r, s') \<and> wedged polls c s' \<and> rsp s' = rsp s \<and>
    rd_offset (qdata (spec_of c s')) = rd_offset (qdata (spec_of c s)) \<and>
    r = (if cmd_len (rsp s) = 8 then Err (- EINVAL) else Ok ())"
  by (rule mt7697_slave.wedged_stays [OF assms])

theorem bad_header_wedges_witness:
  "\<forall>cl. \<exists>s'. mt7697q_proc_data ideal_ops cl 0 (example_state\<lparr>rsp := rsp_of_words 0x02000008 0\<rparr>) = Some (Err (- EINVAL), s') \<and>
     wedged snd 0 s'"
proof -
  have h: "rsp_of_words 0x02000008 0 = \<lparr>cmd_len = 8, cmd_grp = 0, cmd_type = 2, rsp_result = 0\<rparr>"
    by code_simp
  have "wedged snd 0 (example_state\<lparr>rsp := rsp_of_words 0x02000008 0\<rparr>)"
    unfolding h by (simp add: wedged_def example_spec_of example_num_words)
      (simp add: example_state_def example_spec_def)
  from bad_header_wedges [OF ideal.mt7697_slave_axioms this] show ?thesis
    unfolding h by auto
qed

text \<open>The accessor of the in-use flag reads two bits, so that it is also nonzero for a queue whose
  only flag is its direction; releasing a queue clears both bits, the direction with the in-use flag, and
  taking one sets the in-use bit alone.\<close>

theorem in_use_flag_is_two_bits:
  "(mt7697q_flags_get_in_use f \<noteq> 0 \<longleftrightarrow> bit f 0 \<or> bit f 1) \<and>
   (bit (qd_flags (set_in_use d)) i \<longleftrightarrow> i = 0 \<or> bit (qd_flags d) i) \<and>
   (bit (qd_flags (clear_in_use d)) i \<longleftrightarrow> i \<notin> {0, 1} \<and> bit (qd_flags d) i)"
proof -
  have "bit (qd_flags (clear_in_use d)) i \<longleftrightarrow> i \<notin> {0, 1} \<and> bit (qd_flags d) i"
    using clear_in_use_bits [of i d]
    by (cases "i < 32") (auto dest: bit_imp_le_length)
  then show ?thesis by (simp add: in_use_nonzero set_in_use_bits)
qed

text \<open>C9: opening a pair of queues on channels whose descriptors the slave has set up returns the two
  channels, marks both queues in use, installs the client's receive function on the receive queue, and
  leaves the slave an initialisation request with both channel numbers at the end of the transmit queue.\<close>

theorem init_opens_pair:
  assumes "mt7697_slave ops view polls" "registry_complete reg" "length (queues s) = MT7697_NUM_QUEUES"
    and "\<not> mutex s" "polls (hw s) = 0" "tx \<noteq> rx"
    and "openable (sv_mem (view (hw s))) tx" "openable (sv_mem (view (hw s))) rx"
    and "3 \<le> ring_room (ring_of_data (sv_mem (view (hw s))) (descriptor_at (sv_mem (view (hw s))) tx))"
  shows "\<exists>s'. mt7697q_init ops reg tx rx p notify rxf s = Some (Ok (unat tx, unat rx), s') \<and>
    q_wf view polls (unat tx) s' \<and>
    ring_list (q_ring view (unat tx) s') =
      ring_list (ring_of_data (sv_mem (view (hw s))) (descriptor_at (sv_mem (view (hw s))) tx)) @ init_request tx rx \<and>
    spec_of (unat rx) s' = (spec_of (unat rx) s)\<lparr>qdata := set_in_use (descriptor_at (sv_mem (view (hw s))) rx),
      priv := p, rx_fcn := rxf, q_ch := rx\<rparr> \<and>
    bit (qd_flags (qdata (spec_of (unat tx) s'))) 0"
  by (rule mt7697_slave.init_ok [OF assms])

definition example_registry :: "(nat, nat) spi_registry" where
  "example_registry = \<lparr>spi_busnum_to_master = (\<lambda>n. if n = 5 then Some 0 else None),
     bus_find_device_by_name = Some, spi_get_drvdata = (\<lambda>_. True)\<rparr>"

lemma example_registry_complete: "registry_complete example_registry"
proof -
  have "find_spi_master (spi_busnum_to_master example_registry) 32766 = Some 0"
    unfolding find_spi_master_Some by (intro exI [of _ 5]) (simp add: example_registry_def)
  then show ?thesis by (auto simp: registry_complete_def example_registry_def)
qed

lemma example_openable: "openable (sv_mem example_view) 0" "openable (sv_mem example_view) 1"
proof -
  have N: "num_words_field (descriptor_at (sv_mem example_view) 0) = 8"
    "num_words_field (descriptor_at (sv_mem example_view) 1) = 8"
    unfolding example_descriptor by code_simp+
  have slots: "list_all (\<lambda>j. (0x20001000 :: u32) + word_of_nat j * 4 \<noteq> 0x20000208 \<and>
      (0x20001000 :: u32) + word_of_nat j * 4 \<noteq> 0x2000020C \<and>
      (0x20002000 :: u32) + word_of_nat j * 4 \<noteq> 0x20000218 \<and>
      (0x20002000 :: u32) + word_of_nat j * 4 \<noteq> 0x2000021C) [0..<8]"
    by code_simp
  have d: "desc_addr 0 + 8 = 0x20000208" "desc_addr 0 + 12 = 0x2000020C"
    "desc_addr 1 + 8 = 0x20000218" "desc_addr 1 + 12 = 0x2000021C"
    by (simp_all add: desc_addr_def)
  from slots d show "openable (sv_mem example_view) 0"
    by (simp add: openable_def descriptor_ok_def desc_apart_def N) (simp add: example_descriptor list_all_iff)
  from slots d show "openable (sv_mem example_view) 1"
    by (simp add: openable_def descriptor_ok_def desc_apart_def N) (simp add: example_descriptor list_all_iff)
qed

theorem init_opens_pair_witness:
  "\<exists>s'. mt7697q_init ideal_ops example_registry 0 1 7 None (Some 3) example_state = Some (Ok (0, 1), s') \<and>
     ring_list (q_ring fst 0 s') = [0x0000000C, 0, 1] \<and> rx_fcn (spec_of 1 s') = Some 3"
proof -
  have mem: "sv_mem (fst (hw example_state)) = sv_mem example_view"
    by (simp add: example_state_def)
  have N: "num_words_field (descriptor_at (sv_mem example_view) 0) = 8"
    unfolding example_descriptor by code_simp
  have ring: "ring_room (ring_of_data (sv_mem example_view) (descriptor_at (sv_mem example_view) 0)) = 7"
    "ring_list (ring_of_data (sv_mem example_view) (descriptor_at (sv_mem example_view) 0)) = []"
    by (simp_all add: ring_room_def ring_list_def ring_contents_def N)
      (simp_all add: example_descriptor ring_count_def)
  have req: "init_request 0 1 = [0x0000000C, 0, 1]" by code_simp
  have st: "length (queues example_state) = 6" "\<not> mutex example_state" "snd (hw example_state) = 0"
    by (simp_all add: example_state_def)
  from init_opens_pair [OF ideal.mt7697_slave_axioms example_registry_complete st, of 0 1 7 None "Some 3"]
  show ?thesis unfolding mem req using example_openable by (auto simp: ring)
qed

text \<open>Every failure of the initialisation, such as a bus with no master, a missing device or driver
  data, or a channel number out of range, ends in a cleanup that overwrites the stack (undefined
  behaviour) rather than in the error code, before anything of the state is changed.\<close>

theorem init_failure_is_undefined:
  assumes "\<not> registry_complete reg \<or> MT7697_NUM_QUEUES \<le> unat tx \<or> MT7697_NUM_QUEUES \<le> unat rx"
  shows "\<exists>u. mt7697q_init ops reg tx rx p notify rxf s = Some (Halt (Undefined u), s)"
proof -
  have "q_init_body ops reg tx rx p notify rxf s = Some (Err (- EINVAL), s)"
    using assms find_qinfo_cases [of reg s]
    by (cases "registry_complete reg") (auto simp: q_init_body_def throwP_def seqP_def bindP_def)
  then show ?thesis by (simp add: mt7697q_init_def tryP_def haltP_def)
qed

theorem init_failure_is_undefined_witness:
  "\<exists>u. mt7697q_init ideal_ops example_registry 6 0 0 None None example_state = Some (Halt (Undefined u), example_state)"
  by (rule init_failure_is_undefined) simp

end
