(* ===== verification/Wifi_Wire.thy ===== *)
theory Wifi_Wire
  imports Wifi_Main Mt7697_QueueProps
begin

text \<open>
  The wireless driver on its transports: the contract of a transport as a locale, its interpretations on the
  serial driver and on the queues, and what the MT7697 understands of the requests that are sent.
\<close>

section \<open>The contract\<close>

text \<open>
  \<open>sent\<close> are the words sent on the handle \<open>q\<close>, and \<open>room h n\<close> says that \<open>n\<close> more words can be sent.
\<close>

locale hif_writer =
  fixes ops :: "'h mt7697_if_ops" and good :: "'h \<Rightarrow> bool" and q :: nat
    and sent :: "'h \<Rightarrow> u32 list" and room :: "'h \<Rightarrow> nat \<Rightarrow> bool"
  assumes write_sends: "good h \<Longrightarrow> ws \<noteq> [] \<Longrightarrow> length ws < 1024 \<Longrightarrow> room h (length ws + k) \<Longrightarrow>
    \<exists>h'. if_write ops q ws h = Some (Ok (int (length ws)), h') \<and> good h' \<and> sent h' = sent h @ ws \<and> room h' k"
begin

lemma write_words_sends:
  assumes "good (hif s)" "txq_hdl s = Some q" "ws \<noteq> []" "length ws < 1024" "room (hif s) (length ws + k)"
    and "len = word_of_nat (length ws)"
  shows "\<exists>h'. write_words ops ws len s = Some (Ok (), s\<lparr>hif := h'\<rparr>) \<and> good h' \<and> sent h' = sent (hif s) @ ws \<and> room h' k"
proof -
  obtain h' where h': "if_write ops q ws (hif s) = Some (Ok (int (length ws)), h')" "good h'" "sent h' = sent (hif s) @ ws" "room h' k"
    using write_sends assms by blast
  have "unat len = length ws" "uint len = int (length ws)"
    using assms by (simp_all add: unat_word_of_nat_u32 uint_nat)
  with h' assms(2) show ?thesis
    by (intro exI [of _ h']) (simp add: write_words_def on_hif_def bindP_def getP_def returnP_def)
qed

end

text \<open>\<open>inbox\<close> are the words that can be read from the handle \<open>r\<close>.\<close>

locale hif_reader =
  fixes ops :: "'h mt7697_if_ops" and good :: "'h \<Rightarrow> bool" and r :: nat and inbox :: "'h \<Rightarrow> u32 list"
  assumes read_takes: "good h \<Longrightarrow> 0 < n \<Longrightarrow> n < 1024 \<Longrightarrow> n \<le> length (inbox h) \<Longrightarrow>
    \<exists>h'. if_read ops r (word_of_nat n) h = Some (Ok (int n, take n (inbox h)), h') \<and> good h' \<and> inbox h' = drop n (inbox h)"
begin

lemma read_words_takes:
  assumes "good (hif s)" "rxq_hdl s = Some r" "0 < n" "n < 1024" "n \<le> length (inbox (hif s))"
  shows "\<exists>h'. read_words ops (word_of_nat n) s = Some (Ok (take n (inbox (hif s))), s\<lparr>hif := h'\<rparr>) \<and> good h' \<and>
    inbox h' = drop n (inbox (hif s))"
proof -
  obtain h' where h': "if_read ops r (word_of_nat n) (hif s) = Some (Ok (int n, take n (inbox (hif s))), h')" "good h'"
    "inbox h' = drop n (inbox (hif s))"
    using read_takes assms by blast
  have "uint (word_of_nat n :: u32) = int n" using assms by (simp add: uint_nat unat_word_of_nat_u32)
  with h' assms(2) show ?thesis
    by (intro exI [of _ h']) (simp add: read_words_def on_hif_def bindP_def getP_def returnP_def)
qed

end

text \<open>Both directions of one transport, which do not disturb each other.\<close>

locale hif_transport = hif_writer ops good q sent room + hif_reader ops good r inbox
  for ops :: "'h mt7697_if_ops" and good q sent room r inbox +
  assumes write_keeps_inbox: "good h \<Longrightarrow> ws \<noteq> [] \<Longrightarrow> length ws < 1024 \<Longrightarrow> room h (length ws) \<Longrightarrow>
      if_write ops q ws h = Some (x, h') \<Longrightarrow> inbox h' = inbox h"
    and read_keeps_room: "good h \<Longrightarrow> 0 < n \<Longrightarrow> n < 1024 \<Longrightarrow> n \<le> length (inbox h) \<Longrightarrow> room h k \<Longrightarrow>
      if_read ops r (word_of_nat n) h = Some (y, h') \<Longrightarrow> room h' k"

section \<open>The serial driver as a transport\<close>

text \<open>
  The functions that \<^verbatim>\<open>mt7697_probe\<close> enters for \<^verbatim>\<open>hw_itf=uart\<close>.  There is one handle, the driver's data, and \<open>rx_hndlr\<close>
  is the identifier of \<^verbatim>\<open>mt7697_proc_80211cmd\<close>.
\<close>

definition uart_if_ops :: "'l tty_ops \<Rightarrow> nat \<Rightarrow> ('l, unit) uart_prog \<Rightarrow> 'l mt7697_uart_info mt7697_if_ops" where
  "uart_if_ops ops rx_hndlr wait = \<lparr>if_init = None, if_shutdown = None, if_unblock_writer = None,
     if_open = Some (bindP (mt7697_uart_open ops True True (Some rx_hndlr)) (\<lambda>ok. returnP (if ok then Some 0 else None))),
     if_close = Some (\<lambda>h. case h of None \<Rightarrow> haltP (Undefined ''fd_hndl of a null pointer'')
       | Some _ \<Rightarrow> tryP (mt7697_uart_close ops wait) returnP (\<lambda>_. returnP 0)),
     if_read = (\<lambda>h n. bindP (mt7697_uart_read ops n) (\<lambda>(ret, bs). returnP (uint ret, bytes_words bs))),
     if_write = (\<lambda>h ws. bindP (mt7697_uart_write ops ws (word_of_nat (length ws))) (\<lambda>ret. returnP (uint ret)))\<rparr>"

definition uart_up :: "'l tty_ops \<Rightarrow> ('l \<Rightarrow> u8 list) \<Rightarrow> ('l \<Rightarrow> u8 list) \<Rightarrow> 'l mt7697_uart_info \<Rightarrow> bool" where
  "uart_up ops rx tx h \<longleftrightarrow> serial_line ops rx tx \<and> fd_hndl h \<noteq> None \<and> 4 dvd length (tx (line h))"

lemma bytes_words_append: "4 dvd length bs \<Longrightarrow> bytes_words (bs @ cs) = bytes_words bs @ bytes_words cs"
proof (induction bs rule: bytes_words.induct)
  case (1 a b c d bs)
  then have "4 dvd length bs" by (simp del: dvd_add_right_iff, presburger)
  with 1 show ?case by simp
qed (auto dest!: dvd_imp_le)

lemma bytes_words_take_drop:
  "n \<le> length (bytes_words bs) \<Longrightarrow> bytes_words (take (4 * n) bs) = take n (bytes_words bs) \<and>
     bytes_words (drop (4 * n) bs) = drop n (bytes_words bs) \<and> 4 * n \<le> length bs"
proof (induction bs arbitrary: n rule: bytes_words.induct)
  case (1 a b c d bs)
  have "4 * Suc m = Suc (Suc (Suc (Suc (4 * m))))" for m by simp
  with 1 show ?case by (cases n) (auto simp del: mult_Suc_right)
qed auto

interpretation uart: hif_transport "uart_if_ops ops f wait" "uart_up ops rx tx" 0 "\<lambda>h. bytes_words (tx (line h))" "\<lambda>_ _. True"
  0 "\<lambda>h. bytes_words (rx (line h))" for ops f wait rx tx
proof unfold_locales
  fix h :: "'a mt7697_uart_info" and ws :: "u32 list" and k :: nat
  assume up: "uart_up ops rx tx h" and ws: "ws \<noteq> []" "length ws < 1024"
  then obtain g where fd: "fd_hndl h = Some g" and line: "serial_line ops rx tx" and al: "4 dvd length (tx (line h))"
    by (auto simp: uart_up_def)
  obtain l where l: "mt7697_uart_write ops ws (word_of_nat (length ws)) h = Some (Ok (word_of_nat (length ws)), h\<lparr>line := l\<rparr>)"
    "tx l = tx (line h) @ concat (map word_bytes ws)" "rx l = rx (line h)"
    using uart_write_sends [OF line fd ws(1)] ws(2) by auto
  have n: "uint (word_of_nat (length ws) :: u32) = int (length ws)" using ws by (simp add: uint_nat unat_word_of_nat_u32)
  have run: "if_write (uart_if_ops ops f wait) 0 ws h = Some (Ok (int (length ws)), h\<lparr>line := l\<rparr>)"
    using l(1) n by (simp add: uart_if_ops_def returnP_def)
  then show "\<exists>h'. if_write (uart_if_ops ops f wait) 0 ws h = Some (Ok (int (length ws)), h') \<and> uart_up ops rx tx h' \<and>
      bytes_words (tx (line h')) = bytes_words (tx (line h)) @ ws \<and> True"
    using l up al by (intro exI [of _ "h\<lparr>line := l\<rparr>"]) (auto simp: uart_up_def bytes_words_append bytes_words_concat)
  fix x h' assume "if_write (uart_if_ops ops f wait) 0 ws h = Some (x, h')"
  then show "bytes_words (rx (line h')) = bytes_words (rx (line h))" using run l by auto
next
  fix h :: "'a mt7697_uart_info" and n :: nat
  assume up: "uart_up ops rx tx h" and n: "0 < n" "n < 1024" "n \<le> length (bytes_words (rx (line h)))"
  then obtain g where fd: "fd_hndl h = Some g" and line: "serial_line ops rx tx" by (auto simp: uart_up_def)
  have b: "bytes_words (take (4 * n) (rx (line h))) = take n (bytes_words (rx (line h)))"
    "bytes_words (drop (4 * n) (rx (line h))) = drop n (bytes_words (rx (line h)))" "4 * n \<le> length (rx (line h))"
    using bytes_words_take_drop [OF n(3)] by auto
  obtain l where l: "mt7697_uart_read ops (word_of_nat n) h = Some (Ok (word_of_nat n, take (4 * n) (rx (line h))), h\<lparr>line := l\<rparr>)"
    "rx l = drop (4 * n) (rx (line h))" "tx l = tx (line h)"
    using uart_read_takes [OF line fd n(1) _ b(3)] n(2) by auto
  have "uint (word_of_nat n :: u32) = int n" using n by (simp add: uint_nat unat_word_of_nat_u32)
  then have run: "if_read (uart_if_ops ops f wait) 0 (word_of_nat n) h = Some (Ok (int n, take n (bytes_words (rx (line h)))), h\<lparr>line := l\<rparr>)"
    using l(1) b by (simp add: uart_if_ops_def returnP_def)
  then show "\<exists>h'. if_read (uart_if_ops ops f wait) 0 (word_of_nat n) h = Some (Ok (int n, take n (bytes_words (rx (line h)))), h') \<and>
      uart_up ops rx tx h' \<and> bytes_words (rx (line h')) = drop n (bytes_words (rx (line h)))"
    using l up b by (intro exI [of _ "h\<lparr>line := l\<rparr>"]) (auto simp: uart_up_def)
qed simp

section \<open>The queues as a transport\<close>

text \<open>
  The functions that \<^verbatim>\<open>mt7697_probe\<close> enters for \<^verbatim>\<open>hw_itf=spi\<close>; a handle is the number of a channel.  Opening and
  closing are null pointers.
\<close>

definition spi_if_ops :: "'h mt7697spi_hw_ops \<Rightarrow> (u8 \<Rightarrow> u8 \<Rightarrow> ('h mt7697q_info, int \<times> (nat \<times> nat) option) prog) \<Rightarrow>
    'h mt7697q_info mt7697_if_ops" where
  "spi_if_ops ops init = \<lparr>if_init = Some init,
     if_shutdown = Some (\<lambda>tx rx. case (tx, rx) of
         (Some t, Some r) \<Rightarrow> tryP (mt7697q_shutdown ops t r) (\<lambda>e. returnP (e, tx, rx)) (\<lambda>(t', r'). returnP (0, t', r'))
       | _ \<Rightarrow> haltP (Undefined ''qinfo of a null handle'')),
     if_unblock_writer = Some (\<lambda>_. mt7697q_unblock_writer),
     if_open = None, if_close = None,
     if_read = (\<lambda>c n. tryP (mt7697q_read ops c n) (\<lambda>e. returnP (e, [])) (\<lambda>(ret, ws). returnP (ret, ws))),
     if_write = (\<lambda>c ws. tryP (mt7697q_write ops c ws) returnP (\<lambda>ret. returnP (uint ret)))\<rparr>"

text \<open>What has been sent is what waits in the queue for the slave, as long as it takes nothing out.\<close>

interpretation spi_writer: hif_writer "spi_if_ops ops init" "\<lambda>h. mt7697_slave ops view polls \<and> q_wf view polls c h" c
  "\<lambda>h. ring_list (q_ring view c h)" "\<lambda>h n. n \<le> ring_room (q_ring view c h)" for ops init view polls c
proof unfold_locales
  fix h :: "'a mt7697q_info" and ws :: "u32 list" and k :: nat
  assume up: "mt7697_slave ops view polls \<and> q_wf view polls c h" and ws: "ws \<noteq> []" "length ws < 1024"
    "length ws + k \<le> ring_room (q_ring view c h)"
  then have fits: "length ws \<le> ring_room (q_ring view c h)" by simp
  obtain h' where h': "mt7697q_write ops c ws h = Some (Ok (word_of_nat (length ws)), h')" "q_wf view polls c h'"
    "ring_list (q_ring view c h') = ring_list (q_ring view c h) @ ws"
    "ring_room (q_ring view c h') = ring_room (q_ring view c h) - length ws"
    using mt7697_queue.put_facts [OF mt7697_queue.intro [OF conjunct1 [OF up]] conjunct2 [OF up] fits] by metis
  have "uint (word_of_nat (length ws) :: u32) = int (length ws)" using ws by (simp add: uint_nat unat_word_of_nat_u32)
  then have "if_write (spi_if_ops ops init) c ws h = Some (Ok (int (length ws)), h')"
    using h'(1) by (simp add: spi_if_ops_def tryP_def returnP_def)
  then show "\<exists>h'. if_write (spi_if_ops ops init) c ws h = Some (Ok (int (length ws)), h') \<and>
      (mt7697_slave ops view polls \<and> q_wf view polls c h') \<and> ring_list (q_ring view c h') = ring_list (q_ring view c h) @ ws \<and>
      k \<le> ring_room (q_ring view c h')"
    using h' up ws by auto
qed

interpretation spi_reader: hif_reader "spi_if_ops ops init" "\<lambda>h. mt7697_slave ops view polls \<and> q_wf view polls c h" c
  "\<lambda>h. ring_list (q_ring view c h)" for ops init view polls c
proof unfold_locales
  fix h :: "'a mt7697q_info" and n :: nat
  assume up: "mt7697_slave ops view polls \<and> q_wf view polls c h" and n: "n \<le> length (ring_list (q_ring view c h))"
  obtain h' where h': "mt7697q_read ops c (word_of_nat n) h = Some (Ok (int n, take n (ring_list (q_ring view c h))), h')"
    "q_wf view polls c h'" "ring_list (q_ring view c h') = drop n (ring_list (q_ring view c h))"
    using mt7697_queue.take_facts [OF mt7697_queue.intro [OF conjunct1 [OF up]] conjunct2 [OF up] n] by metis
  then have "if_read (spi_if_ops ops init) c (word_of_nat n) h = Some (Ok (int n, take n (ring_list (q_ring view c h))), h')"
    by (simp add: spi_if_ops_def tryP_def returnP_def)
  then show "\<exists>h'. if_read (spi_if_ops ops init) c (word_of_nat n) h = Some (Ok (int n, take n (ring_list (q_ring view c h))), h') \<and>
      (mt7697_slave ops view polls \<and> q_wf view polls c h') \<and> ring_list (q_ring view c h') = drop n (ring_list (q_ring view c h))"
    using h' up by auto
qed

section \<open>An example\<close>

text \<open>
  A kernel that grants everything, with the frequencies of \<^verbatim>\<open>ieee80211_channel_to_frequency\<close> and its inverse, and
  the device as probe and the start of the device leave it, over the serial line \<open>three_bytes\<close> with the bytes \<open>bs\<close> to read.
\<close>

definition example_wifi_env :: wifi_env where
  "example_wifi_env = \<lparr>alloc_etherdev_ok = (\<lambda>_. True), dev_alloc_name_ret = (\<lambda>_. 0), register_netdevice_ret = (\<lambda>_. 0),
     wifi_kmalloc_ok = (\<lambda>_. True), get_bss_ok = (\<lambda>_. False), inform_bss_ok = (\<lambda>_. True), netif_rx_ret = (\<lambda>_. 0),
     queue_work_ret = (\<lambda>_. 1), down_interrupted = (\<lambda>_. False), wiphy_register_ret = (\<lambda>_. 0), check_station_ret = (\<lambda>_. 0),
     stack_bytes = (\<lambda>_. []), workq_word = (\<lambda>_. 0),
     channel_to_frequency = (\<lambda>ch five. if five then 5000 + 5 * ch else if ch = 14 then 2484 else if ch < 14 then 2407 + 5 * ch else 0),
     frequency_to_channel = (\<lambda>f. if f = 2484 then 14 else if f < 2484 then (f - 2407) div 5 else (f - 5000) div 5),
     get_channel = (\<lambda>cs f. find (\<lambda>c. snd c = f) cs), realloc_headroom = (\<lambda>_. Some 1000),
     is_beacon_or_probe_rsp = (\<lambda>fc. fc AND 0xFC = 0x80 \<or> fc AND 0xFC = 0x50), needed_headroom = 38\<rparr>"

definition example_wifi :: "u8 list \<Rightarrow> (u8 list \<times> u8 list) mt7697_uart_info mt7697_cfg80211_info" where
  "example_wifi bs = (new_cfg (open_uart bs True))\<lparr>txq_hdl := Some 0, rxq_hdl := Some 0,
     tx_req := \<lparr>txr_hdr = wifi_hdr MT7697_CMD_TX_RAW 0, txr_len = 0, txr_data = replicate IEEE80211_MAX_FRAME_LEN 0\<rparr>,
     has_2ghz := True, has_5ghz := True, wiphy_registered := True, port_type := MT7697_PORT_STA\<rparr>"

abbreviation (input) example_ops :: "(u8 list \<times> u8 list) mt7697_uart_info mt7697_if_ops" where
  "example_ops \<equiv> uart_if_ops three_bytes 0 (wait_for_worker three_bytes (\<lambda>_ _ l. (0, l)))"

lemma example_wifi_up: "uart_up three_bytes fst snd (hif (example_wifi bs))"
  by (simp add: uart_up_def three_bytes_line example_wifi_def new_cfg_def)

lemma example_wifi_hdls: "txq_hdl (example_wifi bs) = Some 0" "rxq_hdl (example_wifi bs) = Some 0"
  by (simp_all add: example_wifi_def)

lemma example_transport:
  "hif_transport example_ops (uart_up three_bytes fst snd) 0 (\<lambda>h. bytes_words (snd (line h))) (\<lambda>_ _. True) 0 (\<lambda>h. bytes_words (fst (line h)))"
  by (rule uart.hif_transport_axioms)

lemma example_writer:
  "hif_writer example_ops (uart_up three_bytes fst snd) 0 (\<lambda>h. bytes_words (snd (line h))) (\<lambda>_ _. True)"
  using example_transport by (simp add: hif_transport_def)

end
