(* ===== verification/Wifi_Firmware.thy ===== *)
theory Wifi_Firmware
  imports Wifi_Wire
begin

text \<open>
  What the MT7697 gets to see: a decoder for the stream of words that the requests make, and the theorem that it
  finds in the stream exactly the requests that were made.
\<close>

section \<open>The decoder\<close>

datatype wifi_request =
    GetMacAddr u32 | GetCfg | GetWirelessMode u32 | SetWirelessMode u32 u32 | SetOpMode u32 | GetListenInterval
  | SetListenInterval u32 | SetSecurityMode u32 u32 u32 | GetSecurityMode u32 u32 | Scan u32 "u8 list" | ScanStop
  | SetPmk u32 "u8 list" | SetChannel u32 u32 | SetBssid "u8 list" | SetSsid u32 "u8 list" | ReloadSettings u32
  | Disconnect u32 "u8 list" | TxRaw "u8 list"

abbreviation words_bytes :: "u32 list \<Rightarrow> u8 list" where "words_bytes ws \<equiv> concat (map word_bytes ws)"

definition unhex_digit :: "u8 \<Rightarrow> u8" where
  "unhex_digit c = (if c < 58 then c - 48 else c - 87)"

fun unhex :: "u8 list \<Rightarrow> u8 list" where
  "unhex (a # b # cs) = (unhex_digit a * 16 + unhex_digit b) # unhex cs"
| "unhex _ = []"

definition one_word :: "(u32 \<Rightarrow> wifi_request) \<Rightarrow> u32 list \<Rightarrow> wifi_request option" where
  "one_word f ws = (case ws of [a] \<Rightarrow> Some (f a) | _ \<Rightarrow> None)"

definition two_words :: "(u32 \<Rightarrow> u32 \<Rightarrow> wifi_request) \<Rightarrow> u32 list \<Rightarrow> wifi_request option" where
  "two_words f ws = (case ws of [a, b] \<Rightarrow> Some (f a b) | _ \<Rightarrow> None)"

definition fw_message :: "u8 \<Rightarrow> u32 list \<Rightarrow> wifi_request option" where
  "fw_message t ws =
     (if t = 0 then one_word GetMacAddr ws
      else if t = 2 then (if ws = [] then Some GetCfg else None)
      else if t = 4 then one_word GetWirelessMode ws
      else if t = 6 then two_words SetWirelessMode ws
      else if t = 8 then one_word SetOpMode ws
      else if t = 10 then (if ws = [] then Some GetListenInterval else None)
      else if t = 12 then one_word SetListenInterval ws
      else if t = 14 then (case ws of [a, b, c] \<Rightarrow> Some (SetSecurityMode a b c) | _ \<Rightarrow> None)
      else if t = 16 then two_words GetSecurityMode ws
      else if t = 19 \<and> length ws = 15 then Some (Scan (ws ! 0) (take (unat (ws ! 6)) (words_bytes (drop 7 ws))))
      else if t = 22 then (if ws = [] then Some ScanStop else None)
      else if t = 24 \<and> length ws = 17 then Some (SetPmk (ws ! 0) (unhex (words_bytes (drop 1 ws))))
      else if t = 26 then two_words SetChannel ws
      else if t = 28 \<and> length ws = 2 then Some (SetBssid (take 6 (words_bytes ws)))
      else if t = 30 \<and> length ws = 10 then Some (SetSsid (ws ! 0) (take (unat (ws ! 1)) (words_bytes (drop 2 ws))))
      else if t = 32 then one_word ReloadSettings ws
      else if t = 36 \<and> length ws = 3 then Some (Disconnect (ws ! 0) (take 6 (words_bytes (drop 1 ws))))
      else if t = 38 \<and> ws \<noteq> [] then Some (TxRaw (take (unat (ws ! 0)) (words_bytes (drop 1 ws))))
      else None)"

function fw_decode :: "u32 list \<Rightarrow> wifi_request list option" where
  "fw_decode [] = Some []"
| "fw_decode (w # ws) =
     (let h = rsp_of_words w 0; n = unat (LEN_TO_WORD (ucast (cmd_len h))) - 1 in
      if cmd_len h < 4 \<or> cmd_grp h \<noteq> grp_code MT7697_CMD_GRP_80211 \<or> length ws < n then None
      else case fw_message (cmd_type h) (take n ws) of None \<Rightarrow> None
        | Some r \<Rightarrow> map_option ((#) r) (fw_decode (drop n ws)))"
  by pat_completeness auto
termination by (relation "measure length") auto

section \<open>The requests\<close>

datatype wifi_call =
    CGetWirelessMode | CSetWirelessMode u8 | CSetPmk "u8 list" | CSetChannel u8 | CSetBssid "u8 list"
  | CSetSsid u8 "u8 list" | CReload u8 | CMacAddr | CSetOpMode | CGetCfg | CGetListen | CSetListen u32
  | CSetSecurity u8 u8 | CGetSecurity u32 | CScan u32 "u8 list list" | CScanStop | CDisconnect "u8 list option"
  | CTxRaw "u8 list"

fun make_call :: "'h mt7697_if_ops \<Rightarrow> wifi_env \<Rightarrow> wifi_call \<Rightarrow> ('h, unit) wifi_prog" where
  "make_call ops env CGetWirelessMode = mt7697_wr_get_wireless_mode_req ops"
| "make_call ops env (CSetWirelessMode m) = mt7697_wr_set_wireless_mode_req ops m"
| "make_call ops env (CSetPmk key) = mt7697_wr_set_pmk_req ops key"
| "make_call ops env (CSetChannel ch) = mt7697_wr_set_channel_req ops ch"
| "make_call ops env (CSetBssid addr) = mt7697_wr_set_bssid_req ops env addr"
| "make_call ops env (CSetSsid n name) = mt7697_wr_set_ssid_req ops env n name"
| "make_call ops env (CReload i) = mt7697_wr_reload_settings_req ops i"
| "make_call ops env CMacAddr = mt7697_wr_mac_addr_req ops"
| "make_call ops env CSetOpMode = mt7697_wr_set_op_mode_req ops"
| "make_call ops env CGetCfg = mt7697_wr_cfg_req ops"
| "make_call ops env CGetListen = mt7697_wr_get_listen_interval_req ops"
| "make_call ops env (CSetListen i) = mt7697_wr_set_listen_interval_req ops i"
| "make_call ops env (CSetSecurity a e) = mt7697_wr_set_security_mode_req ops a e"
| "make_call ops env (CGetSecurity i) = mt7697_wr_get_security_mode_req ops i"
| "make_call ops env (CScan i names) = mt7697_wr_scan_req ops i names"
| "make_call ops env CScanStop = mt7697_wr_scan_stop_req ops"
| "make_call ops env (CDisconnect addr) = mt7697_wr_disconnect_req ops addr"
| "make_call ops env (CTxRaw bs) = mt7697_wr_tx_raw_packet ops bs (word_of_nat (length bs))"

text \<open>Arguments within the buffers: keys of 32 bytes, names of at most 32, addresses of 6, packets of at most 2352.\<close>

fun call_ok :: "wifi_call \<Rightarrow> bool" where
  "call_ok (CSetPmk key) \<longleftrightarrow> length key = 32"
| "call_ok (CSetBssid addr) \<longleftrightarrow> length addr = 6"
| "call_ok (CSetSsid n name) \<longleftrightarrow> unat n \<le> length name \<and> unat n \<le> 32"
| "call_ok (CScan i names) \<longleftrightarrow> (case names of [] \<Rightarrow> True | name # _ \<Rightarrow> length name \<le> 32)"
| "call_ok (CDisconnect addr) \<longleftrightarrow> (case addr of None \<Rightarrow> True | Some a \<Rightarrow> length a = 6)"
| "call_ok (CTxRaw bs) \<longleftrightarrow> length bs \<le> 2352"
| "call_ok _ \<longleftrightarrow> True"

text \<open>What a call asks of the firmware, by the port and the mode of the device.\<close>

fun call_means :: "u32 \<Rightarrow> u8 \<Rightarrow> wifi_call \<Rightarrow> wifi_request" where
  "call_means p m CGetWirelessMode = GetWirelessMode p"
| "call_means p m (CSetWirelessMode w) = SetWirelessMode p (ucast w)"
| "call_means p m (CSetPmk key) = SetPmk p key"
| "call_means p m (CSetChannel ch) = SetChannel p (ucast ch)"
| "call_means p m (CSetBssid addr) = SetBssid addr"
| "call_means p m (CSetSsid n name) = SetSsid p (take (unat n) name)"
| "call_means p m (CReload i) = ReloadSettings (ucast i)"
| "call_means p m CMacAddr = GetMacAddr p"
| "call_means p m CSetOpMode = SetOpMode (ucast m)"
| "call_means p m CGetCfg = GetCfg"
| "call_means p m CGetListen = GetListenInterval"
| "call_means p m (CSetListen i) = SetListenInterval i"
| "call_means p m (CSetSecurity a e) = SetSecurityMode p (ucast a) (ucast e)"
| "call_means p m (CGetSecurity i) = GetSecurityMode i p"
| "call_means p m (CScan i names) = Scan i (case names of [] \<Rightarrow> [] | name # _ \<Rightarrow> name)"
| "call_means p m CScanStop = ScanStop"
| "call_means p m (CDisconnect addr) = (case addr of None \<Rightarrow> Disconnect 0 [0, 0, 0, 0, 0, 0] | Some a \<Rightarrow> Disconnect 1 a)"
| "call_means p m (CTxRaw bs) = TxRaw bs"

fun make_calls :: "'h mt7697_if_ops \<Rightarrow> wifi_env \<Rightarrow> wifi_call list \<Rightarrow> ('h, unit) wifi_prog" where
  "make_calls ops env [] = returnP ()"
| "make_calls ops env (c # cs) = seqP (make_call ops env c) (make_calls ops env cs)"

section \<open>Headers, bytes and digits\<close>

lemma no_high_bits: "\<not> bit (a :: u8) (8 + n)" "\<not> bit (a :: u8) (16 + n)" "\<not> bit (a :: u8) (24 + n)"
  "\<not> bit (b :: u16) (16 + n)" "\<not> bit (b :: u16) (24 + n)"
  by (auto dest: bit_imp_le_length)

lemma hdr_of_cmd_word [simp]:
  "cmd_len (rsp_of_words (cmd_word h) w) = cmd_len h" "cmd_grp (rsp_of_words (cmd_word h) w) = cmd_grp h"
  "cmd_type (rsp_of_words (cmd_word h) w) = cmd_type h"
  unfolding rsp_of_words_def cmd_word_def
  by (auto intro!: bit_word_eqI simp: bit_simps no_high_bits)

lemma word_bytes_of_bytes:
  "word_bytes (ucast a OR push_bit 8 (ucast b) OR push_bit 16 (ucast c) OR push_bit 24 (ucast d)) = [a, b, c, d]"
  unfolding word_bytes_def
  by (auto intro!: bit_word_eqI simp: bit_simps no_high_bits)

lemma words_bytes_bytes_words: "4 dvd length bs \<Longrightarrow> words_bytes (bytes_words bs) = bs"
proof (induction bs rule: bytes_words.induct)
  case (1 a b c d bs)
  then have "4 dvd length bs" by (simp del: dvd_add_right_iff, presburger)
  with 1 show ?case by (simp add: word_bytes_of_bytes)
qed (auto dest!: dvd_imp_le)

lemma length_bytes_words: "length (bytes_words bs) = length bs div 4"
  by (induction bs rule: bytes_words.induct) auto

lemma unhex_hex_digit: "d < 16 \<Longrightarrow> unhex_digit (hex_digit d) = d"
proof -
  have "\<forall>d \<in> set (map word_of_nat [0..<16]) :: u8 set. unhex_digit (hex_digit d) = d" by code_simp
  moreover assume "d < 16"
  then have "d \<in> set (map word_of_nat [0..<16])"
    by (auto simp: word_less_nat_alt intro!: image_eqI [of _ _ "unat d"])
  ultimately show ?thesis by blast
qed

lemma unhex_hex: "unhex (concat (map hex_byte bs)) = bs"
proof (induction bs)
  case (Cons b bs)
  have "b div 16 < 16" "b mod 16 < 16"
    using unsigned_less [of b, where 'a = nat] by (simp_all add: word_less_nat_alt unat_div_distrib unat_mod_distrib)
  moreover have "b div 16 * 16 + b mod 16 = b" by (rule div_mult_mod_eq)
  ultimately show ?case using Cons by (simp add: hex_byte_def unhex_hex_digit)
qed simp

section \<open>A request in the stream\<close>

text \<open>A message of the stream that means \<open>req\<close>.\<close>

definition message_of :: "wifi_request \<Rightarrow> u32 list \<Rightarrow> bool" where
  "message_of req ws \<longleftrightarrow> (\<exists>hdr payload. ws = cmd_word hdr # payload \<and> cmd_grp hdr = grp_code MT7697_CMD_GRP_80211 \<and>
     4 \<le> unat (cmd_len hdr) \<and> unat (LEN_TO_WORD (ucast (cmd_len hdr))) = Suc (length payload) \<and>
     fw_message (cmd_type hdr) payload = Some req)"

lemma decode_message:
  assumes "message_of req ws"
  shows "fw_decode (ws @ rest) = map_option ((#) req) (fw_decode rest)"
  using assms by (auto simp: message_of_def Let_def word_less_nat_alt)

text \<open>The state between two requests: the handle is open and the header of packets has been set.\<close>

definition sending :: "nat \<Rightarrow> 'h mt7697_cfg80211_info \<Rightarrow> bool" where
  "sending q s \<longleftrightarrow> txq_hdl s = Some q \<and> cmd_grp (txr_hdr (tx_req s)) = grp_code MT7697_CMD_GRP_80211 \<and>
     cmd_type (txr_hdr (tx_req s)) = wifi_cmd_code MT7697_CMD_TX_RAW \<and> length (txr_data (tx_req s)) = 2352"

fun words_of_call :: "wifi_call \<Rightarrow> nat" where
  "words_of_call (CTxRaw bs) = 2 + (length bs + 3) div 4"
| "words_of_call (CScan _ _) = 16"
| "words_of_call (CSetPmk _) = 18"
| "words_of_call (CSetSsid _ _) = 11"
| "words_of_call (CSetSecurity _ _) = 4"
| "words_of_call (CDisconnect _) = 4"
| "words_of_call (CSetWirelessMode _) = 3"
| "words_of_call (CSetChannel _) = 3"
| "words_of_call (CSetBssid _) = 3"
| "words_of_call (CGetSecurity _) = 3"
| "words_of_call CGetCfg = 1"
| "words_of_call CGetListen = 1"
| "words_of_call CScanStop = 1"
| "words_of_call _ = 2"

lemma unat_word_of_nat_u16: "n < 65536 \<Longrightarrow> unat (word_of_nat n :: u16) = n"
  by (simp add: unat_of_nat)

lemma ucast_u32_u16: "n < 65536 \<Longrightarrow> (ucast (word_of_nat n :: u32) :: u16) = word_of_nat n"
  by (rule word_of_nat_eqI) (simp add: unsigned_ucast_eq unat_word_of_nat_u32 take_bit_nat_eq_self)

lemma len_word_unat: "LEN_TO_WORD x = word_of_nat ((unat x + 3) div 4)"
  by (rule word_of_nat_eqI) (rule unat_LEN_TO_WORD)

text \<open>Aligning a length does not change its number of words.\<close>

lemma aligned_words:
  assumes "unat x < 100000"
  shows "unat (LEN_TO_WORD (LEN32_ALIGNED x)) = (unat x + 3) div 4"
proof -
  have "unat (LEN32_ALIGNED x) = 4 * ((unat x + 3) div 4)"
    using assms by (simp add: LEN32_ALIGNED_def len_word_unat unat_word_ariths unat_word_of_nat_u32)
  then show ?thesis by (simp add: unat_LEN_TO_WORD)
qed

lemma write_words_take:
  "unat len \<le> length ws \<Longrightarrow> write_words ops (take (unat len) ws) len = write_words ops ws len"
  by (simp add: write_words_def cong: option.case_cong)

context hif_writer
begin

text \<open>\<open>m\<close> sends \<open>n\<close> words, one message that means \<open>req\<close>.\<close>

definition sends :: "('h, unit) wifi_prog \<Rightarrow> 'h mt7697_cfg80211_info \<Rightarrow> wifi_request \<Rightarrow> nat \<Rightarrow> bool" where
  "sends m s req n \<longleftrightarrow> (\<forall>k. good (hif s) \<longrightarrow> sending q s \<longrightarrow> room (hif s) (n + k) \<longrightarrow>
     (\<exists>s' ws. m s = Some (Ok (), s') \<and> good (hif s') \<and> sending q s' \<and> room (hif s') k \<and>
       sent (hif s') = sent (hif s) @ ws \<and> message_of req ws \<and> port_type s' = port_type s \<and> wifi_cfg s' = wifi_cfg s))"

lemma sends_words:
  assumes "message_of req ws" "length ws < 1024" "len = word_of_nat (length ws)"
  shows "sends (write_words ops ws len) s req (length ws)"
  unfolding sends_def
proof (intro allI impI)
  fix k assume up: "good (hif s)" "sending q s" "room (hif s) (length ws + k)"
  have "ws \<noteq> []" using assms(1) by (auto simp: message_of_def)
  then obtain h' where "write_words ops ws len s = Some (Ok (), s\<lparr>hif := h'\<rparr>)" "good h'" "sent h' = sent (hif s) @ ws" "room h' k"
    using write_words_sends [of s ws k len] up assms(2,3) by (auto simp: sending_def)
  then show "\<exists>s' ws'. write_words ops ws len s = Some (Ok (), s') \<and> good (hif s') \<and> sending q s' \<and> room (hif s') k \<and>
      sent (hif s') = sent (hif s) @ ws' \<and> message_of req ws' \<and> port_type s' = port_type s \<and> wifi_cfg s' = wifi_cfg s"
    using up(2) assms(1) by (intro exI [of _ "s\<lparr>hif := h'\<rparr>"] exI [of _ ws]) (simp add: sending_def)
qed

lemma sends_request:
  assumes "fw_message (wifi_cmd_code t) payload = Some req" "(unat n + 3) div 4 = Suc (length payload)" "length payload < 1000" "4 \<le> unat n"
  shows "sends (wr_request ops (wifi_hdr t n) payload) s req (Suc (length payload))"
proof -
  have l: "unat (LEN_TO_WORD (ucast n)) = Suc (length payload)"
    using assms(2) by (simp add: unat_LEN_TO_WORD)
  then have "message_of req (cmd_word (wifi_hdr t n) # payload)"
    using assms unfolding message_of_def by (intro exI [of _ "wifi_hdr t n"] exI [of _ payload]) (simp add: wifi_hdr_def)
  moreover have "LEN_TO_WORD (ucast n) = word_of_nat (Suc (length payload))" using l by (metis word_of_nat_eqI)
  ultimately show ?thesis
    using sends_words [of req "cmd_word (wifi_hdr t n) # payload" "LEN_TO_WORD (ucast n)"] assms(3)
    by (simp add: wr_request_def wifi_hdr_def)
qed

lemma sends_getP: "sends (k (f s)) s req n \<Longrightarrow> sends (bindP (getP f) k) s req n"
  by (simp add: sends_def)

lemma sends_memcpy:
  "n \<le> length src \<Longrightarrow> n \<le> length dst \<Longrightarrow> sends (k (take n src @ drop n dst)) s req w \<Longrightarrow> sends (bindP (memcpy dst src n) k) s req w"
  by (simp add: sends_def memcpy_def)

lemma sends_update:
  assumes "sends m (f s) req w" "hif (f s) = hif s" "sending q s \<Longrightarrow> sending q (f s)" "port_type (f s) = port_type s" "wifi_cfg (f s) = wifi_cfg s"
    and "\<And>k'. m' s = m (f s)"
  shows "sends m' s req w"
  using assms unfolding sends_def by simp

lemma sends_uninit:
  assumes "\<And>buf. length buf = n \<Longrightarrow> sends (k buf) (s\<lparr>asked := Suc (asked s)\<rparr>) req w"
  shows "sends (bindP (uninit env n) k) s req w"
proof -
  let ?buf = "take n (stack_bytes env (asked s) @ replicate n 0)"
  have "length ?buf = n" by simp
  from assms [OF this] show ?thesis
    by (rule sends_update [where f = "\<lambda>s. s\<lparr>asked := Suc (asked s)\<rparr>"])
      (simp_all add: sending_def uninit_def answer_def bindP_def returnP_def)
qed

lemma sends_assume: "(sending q s \<Longrightarrow> sends m s req n) \<Longrightarrow> sends m s req n"
  by (auto simp: sends_def)

lemma tx_raw_words:
  assumes "length data \<le> 2352" "length old = 2352" "cmd_grp hdr = grp_code MT7697_CMD_GRP_80211" "cmd_type hdr = wifi_cmd_code MT7697_CMD_TX_RAW"
    and n: "cmd_len hdr = word_of_nat (8 + length data)"
  shows "message_of (TxRaw data) (take (2 + (length data + 3) div 4) (cmd_word hdr # word_of_nat (length data) # bytes_words (data @ drop (length data) old)))"
proof -
  let ?m = "(length data + 3) div 4"
  let ?bs = "data @ drop (length data) old"
  have u: "unat (cmd_len hdr) = 8 + length data" unfolding n by (rule unat_word_of_nat_u16) (use assms(1) in simp)
  have len: "length ?bs = 2352" "?m \<le> 588" using assms by auto
  then have "4 * ?m \<le> length ?bs" "?m \<le> length (bytes_words ?bs)" by (simp_all add: length_bytes_words)
  then have "take ?m (bytes_words ?bs) = bytes_words (take (4 * ?m) ?bs)" using bytes_words_take_drop by metis
  then have "words_bytes (take ?m (bytes_words ?bs)) = take (4 * ?m) ?bs"
    using len by (simp add: words_bytes_bytes_words)
  moreover have "length data \<le> 4 * ?m" by simp
  ultimately have "take (length data) (words_bytes (take ?m (bytes_words ?bs))) = data" by (simp add: min_def)
  moreover have "unat (word_of_nat (length data) :: u32) = length data" using assms(1) by (simp add: unat_word_of_nat_u32)
  moreover have "min 588 ?m = ?m" "(11 + length data) div 4 = Suc (Suc ?m)" using len by auto
  ultimately show ?thesis
    using u assms unfolding message_of_def
    by (intro exI [of _ hdr] exI [of _ "word_of_nat (length data) # take ?m (bytes_words ?bs)"])
      (simp add: fw_message_def unat_LEN_TO_WORD length_bytes_words del: of_nat_add)
qed

lemma sends_tx_raw:
  assumes data: "length data \<le> 2352"
  shows "sends (mt7697_wr_tx_raw_packet ops data (word_of_nat (length data))) s (TxRaw data) (2 + (length data + 3) div 4)"
proof (rule sends_assume)
  assume "sending q s"
  then have old: "length (txr_data (tx_req s)) = 2352" "cmd_grp (txr_hdr (tx_req s)) = grp_code MT7697_CMD_GRP_80211"
    "cmd_type (txr_hdr (tx_req s)) = wifi_cmd_code MT7697_CMD_TX_RAW" by (simp_all add: sending_def)
  let ?hdr = "(txr_hdr (tx_req s))\<lparr>cmd_len := ucast (8 + word_of_nat (length data) :: u32)\<rparr>"
  let ?ws = "cmd_word ?hdr # word_of_nat (length data) # bytes_words (data @ drop (length data) (txr_data (tx_req s)))"
  let ?n = "2 + (length data + 3) div 4"
  let ?f = "\<lambda>s. s\<lparr>tx_req := \<lparr>txr_hdr = ?hdr, txr_len = word_of_nat (length data), txr_data = data @ drop (length data) (txr_data (tx_req s))\<rparr>\<rparr>"
  have d: "unat (word_of_nat (length data) :: u32) = length data" using data by (simp add: unat_word_of_nat_u32)
  have hl: "cmd_len ?hdr = word_of_nat (8 + length data)"
    using ucast_u32_u16 [of "8 + length data"] data by simp
  have u: "unat (cmd_len ?hdr) = 8 + length data" unfolding hl by (rule unat_word_of_nat_u16) (use data in simp)
  have "unat (LEN_TO_WORD (LEN32_ALIGNED (ucast (cmd_len ?hdr)))) = ?n"
    using u data by (simp add: aligned_words)
  then have L: "LEN_TO_WORD (LEN32_ALIGNED (ucast (cmd_len ?hdr))) = word_of_nat ?n" by (rule word_of_nat_eqI)
  have "message_of (TxRaw data) (take ?n ?ws)" using data old by (intro tx_raw_words hl) simp_all
  moreover have "length (take ?n ?ws) = ?n" using data old by (simp add: length_bytes_words)
  ultimately have sent_now: "sends (write_words ops (take ?n ?ws) (word_of_nat ?n)) (?f s) (TxRaw data) ?n"
    using sends_words [of "TxRaw data" "take ?n ?ws" "word_of_nat ?n" "?f s"] data by simp
  have wt: "write_words ops (take ?n ?ws) (word_of_nat ?n) = write_words ops ?ws (word_of_nat ?n)"
  proof -
    have "unat (word_of_nat ?n :: u32) = ?n" using data by (intro unat_word_of_nat_u32) simp
    moreover have "?n \<le> length ?ws" using data old by (simp add: length_bytes_words)
    ultimately show ?thesis using write_words_take [of "word_of_nat ?n" ?ws ops] by simp
  qed
  from sent_now [unfolded wt] show "sends (mt7697_wr_tx_raw_packet ops data (word_of_nat (length data))) s (TxRaw data) ?n"
    by (rule sends_update [where f = ?f])
      (use data d L old in \<open>simp_all add: sending_def mt7697_wr_tx_raw_packet_def memcpy_def Let_def\<close>)
qed

lemmas call_defs = mt7697_wr_get_wireless_mode_req_def mt7697_wr_set_wireless_mode_req_def mt7697_wr_set_pmk_req_def
  mt7697_wr_set_channel_req_def mt7697_wr_set_bssid_req_def mt7697_wr_set_ssid_req_def mt7697_wr_reload_settings_req_def
  mt7697_wr_mac_addr_req_def mt7697_wr_set_op_mode_req_def mt7697_wr_cfg_req_def mt7697_wr_get_listen_interval_req_def
  mt7697_wr_set_listen_interval_req_def mt7697_wr_set_security_mode_req_def mt7697_wr_get_security_mode_req_def
  mt7697_wr_scan_req_def mt7697_wr_scan_stop_req_def mt7697_wr_disconnect_req_def

lemmas fw_defs = fw_message_def one_word_def two_words_def

lemma sends_small:
  assumes "fw_message (wifi_cmd_code t) payload = Some req" "(unat n + 3) div 4 = k" "k = Suc (length payload)" "length payload < 1000" "4 \<le> unat n"
  shows "sends (wr_request ops (wifi_hdr t n) payload) s req k"
  using sends_request [of t payload req n s] assms by simp

lemma sends_set_pmk: "length key = 32 \<Longrightarrow> sends (mt7697_wr_set_pmk_req ops key) s (SetPmk (port_code (port_type s)) key) 18"
proof -
  assume key: "length key = 32"
  have "length (concat (map hex_byte key)) = 64"
    using key by (simp add: length_concat hex_byte_def comp_def sum_list_triv)
  then show ?thesis
    using key unfolding mt7697_wr_set_pmk_req_def
    by (auto intro!: sends_getP sends_small simp: fw_defs length_bytes_words words_bytes_bytes_words unhex_hex)
qed

lemma sends_set_ssid:
  assumes "unat n \<le> length name" "unat n \<le> 32"
  shows "sends (mt7697_wr_set_ssid_req ops env n name) s (SetSsid (port_code (port_type s)) (take (unat n) name)) 11"
proof -
  have "unat (ucast n :: u32) = unat n" by (simp add: unsigned_ucast_eq take_bit_nat_eq_self unat_lt_u32 order_less_le_trans [OF unsigned_less])
  then show ?thesis
    using assms unfolding mt7697_wr_set_ssid_req_def
    by (auto intro!: sends_getP sends_uninit sends_memcpy sends_small simp: fw_defs length_bytes_words words_bytes_bytes_words)
qed

lemma sends_scan:
  assumes "\<And>name rest. names = name # rest \<Longrightarrow> length name \<le> 32"
  shows "sends (mt7697_wr_scan_req ops i names) s (Scan i (case names of [] \<Rightarrow> [] | name # _ \<Rightarrow> name)) 16"
proof (cases names)
  case Nil
  then show ?thesis unfolding mt7697_wr_scan_req_def
    by (auto intro!: sends_small simp: bindP_returnP fw_defs length_bytes_words words_bytes_bytes_words nth_Cons')
next
  case (Cons name rest)
  with assms have "length name \<le> 32" by simp
  then show ?thesis using Cons unfolding mt7697_wr_scan_req_def
    by (auto intro!: sends_memcpy sends_small simp: bindP_assoc bindP_returnP fw_defs length_bytes_words words_bytes_bytes_words nth_Cons'
      unat_word_of_nat_u32)
qed

lemma sends_disconnect:
  assumes "\<And>a. addr = Some a \<Longrightarrow> length a = 6"
  shows "sends (mt7697_wr_disconnect_req ops addr) s (call_means p m (CDisconnect addr)) 4"
proof (cases addr)
  case None
  have six: "replicate 6 0 = [0, 0, 0, 0, 0, 0 :: u8]" by (simp add: eval_nat_numeral)
  from None show ?thesis unfolding mt7697_wr_disconnect_req_def
    by (auto intro!: sends_small simp: bindP_returnP fw_defs length_bytes_words words_bytes_bytes_words six)
next
  case (Some a)
  with assms have "length a = 6" by simp
  then show ?thesis using Some unfolding mt7697_wr_disconnect_req_def
    by (auto intro!: sends_memcpy sends_small simp: bindP_assoc bindP_returnP fw_defs length_bytes_words words_bytes_bytes_words)
qed

lemma sends_call:
  assumes "call_ok c"
  shows "sends (make_call ops env c) s (call_means (port_code (port_type s)) (opmode (wifi_cfg s)) c) (words_of_call c)"
proof (cases c)
  case (CSetBssid addr)
  with assms show ?thesis
    by (auto simp: mt7697_wr_set_bssid_req_def fw_defs length_bytes_words words_bytes_bytes_words intro!: sends_uninit sends_memcpy sends_small)
next
  case (CScan i names)
  with assms show ?thesis using sends_scan [of names i s] by (auto split: list.splits)
next
  case (CDisconnect addr)
  with assms show ?thesis using sends_disconnect [of addr] by (auto split: option.splits)
next
  case (CSetPmk key)
  with assms show ?thesis by (simp add: sends_set_pmk)
next
  case (CSetSsid n name)
  with assms show ?thesis by (simp add: sends_set_ssid)
next
  case (CTxRaw bs)
  with assms show ?thesis using sends_tx_raw [of bs s] by simp
qed (use assms in \<open>auto simp: call_defs fw_defs intro!: sends_getP sends_small\<close>)

lemma make_calls_decode:
  "good (hif s) \<Longrightarrow> sending q s \<Longrightarrow> list_all call_ok cs \<Longrightarrow> room (hif s) (sum_list (map words_of_call cs)) \<Longrightarrow>
   \<exists>s' ws. make_calls ops env cs s = Some (Ok (), s') \<and> good (hif s') \<and> sending q s' \<and> sent (hif s') = sent (hif s) @ ws \<and>
     fw_decode ws = Some (map (call_means (port_code (port_type s)) (opmode (wifi_cfg s))) cs)"
proof (induction cs arbitrary: s)
  case Nil
  then show ?case by (auto simp: returnP_def)
next
  case (Cons c cs)
  then have "sends (make_call ops env c) s (call_means (port_code (port_type s)) (opmode (wifi_cfg s)) c) (words_of_call c)"
    by (simp add: sends_call)
  then obtain s1 ws1 where one: "make_call ops env c s = Some (Ok (), s1)" "good (hif s1)" "sending q s1"
    "room (hif s1) (sum_list (map words_of_call cs))" "sent (hif s1) = sent (hif s) @ ws1"
    "message_of (call_means (port_code (port_type s)) (opmode (wifi_cfg s)) c) ws1" "port_type s1 = port_type s" "wifi_cfg s1 = wifi_cfg s"
    using Cons.prems unfolding sends_def by (metis list.simps(9) sum_list.Cons)
  obtain s' ws where "make_calls ops env cs s1 = Some (Ok (), s')" "good (hif s')" "sending q s'" "sent (hif s') = sent (hif s1) @ ws"
    "fw_decode ws = Some (map (call_means (port_code (port_type s1)) (opmode (wifi_cfg s1))) cs)"
    using Cons.IH [of s1] one Cons.prems by auto
  then show ?case
    using one by (intro exI [of _ s'] exI [of _ "ws1 @ ws"]) (simp add: decode_message)
qed

end

section \<open>The round trip\<close>

text \<open>C26: on any transport that delivers, the firmware decodes from the words that a sequence of requests sends
  exactly these requests, in order and with their arguments: no message is cut, padded or merged.\<close>

theorem firmware_decodes_requests:
  assumes "hif_writer ops good q sent room" "good (hif s)" "sending q s" "list_all call_ok cs"
    and "room (hif s) (sum_list (map words_of_call cs))"
  shows "\<exists>s' ws. make_calls ops env cs s = Some (Ok (), s') \<and> sent (hif s') = sent (hif s) @ ws \<and>
    fw_decode ws = Some (map (call_means (port_code (port_type s)) (opmode (wifi_cfg s))) cs)"
  using hif_writer.make_calls_decode [OF assms] by blast

theorem firmware_decodes_requests_witness:
  "\<exists>s' ws. make_calls example_ops example_wifi_env
      [CMacAddr, CSetSsid 3 [77, 79, 72], CSetSecurity 0 1, CTxRaw [1, 2, 3, 4, 5], CReload 0] (example_wifi []) = Some (Ok (), s') \<and>
     bytes_words (snd (line (hif s'))) = [] @ ws \<and>
     fw_decode ws = Some [GetMacAddr 0, SetSsid 0 [77, 79, 72], SetSecurityMode 0 0 1, TxRaw [1, 2, 3, 4, 5], ReloadSettings 0]"
proof -
  have up: "sending 0 (example_wifi [])"
    by (simp add: sending_def example_wifi_def wifi_hdr_def new_cfg_def)
  have "port_type (example_wifi []) = MT7697_PORT_STA" "bytes_words (snd (line (hif (example_wifi [])))) = []"
    by (simp_all add: example_wifi_def new_cfg_def)
  then show ?thesis
    using firmware_decodes_requests [OF example_writer example_wifi_up up, of "[CMacAddr, CSetSsid 3 [77, 79, 72], CSetSecurity 0 1, CTxRaw [1, 2, 3, 4, 5], CReload 0]" example_wifi_env]
    by simp
qed

end
