(* ===== verification/Wifi_Inbox.thy ===== *)
theory Wifi_Inbox
  imports Wifi_Firmware
begin

text \<open>
  How much of the stream each handler reads: the number of words of every message is a function of its header,
  whatever the kernel answers and whether the handler succeeds or not.
\<close>

section \<open>Programs that leave the transport alone\<close>

text \<open>\<open>at_inbox\<close>: both handles are open and \<open>X\<close> is what can be read.\<close>

definition at_inbox :: "('h \<Rightarrow> bool) \<Rightarrow> nat \<Rightarrow> nat \<Rightarrow> ('h \<Rightarrow> u32 list) \<Rightarrow> u32 list \<Rightarrow> 'h mt7697_cfg80211_info \<Rightarrow> bool" where
  "at_inbox good q r inbox X s \<longleftrightarrow> good (hif s) \<and> inbox (hif s) = X \<and> txq_hdl s = Some q \<and> rxq_hdl s = Some r"

lemma keeps_case_option [keeps_intros]:
  "keeps I m \<Longrightarrow> (\<And>x. keeps I (k x)) \<Longrightarrow> keeps I (case z of None \<Rightarrow> m | Some x \<Rightarrow> k x)"
  by (cases z) auto

lemma keeps_case_list [keeps_intros]:
  "keeps I m \<Longrightarrow> (\<And>x xs. keeps I (k x xs)) \<Longrightarrow> keeps I (case z of [] \<Rightarrow> m | x # xs \<Rightarrow> k x xs)"
  by (cases z) auto

lemma keeps_case_prod [keeps_intros]: "(\<And>x y. keeps I (k x y)) \<Longrightarrow> keeps I (case z of (x, y) \<Rightarrow> k x y)"
  by (cases z) auto

lemma keeps_case_sme [keeps_intros]:
  "keeps I a \<Longrightarrow> keeps I b \<Longrightarrow> keeps I c \<Longrightarrow>
     keeps I (case z of SME_DISCONNECTED \<Rightarrow> a | SME_CONNECTING \<Rightarrow> b | SME_CONNECTED \<Rightarrow> c)"
  by (cases z) auto

lemma bindP_haltP: "bindP (haltP h) k = haltP h"
  by (rule ext) (simp add: bindP_def haltP_def)

named_theorems inbox_keeps "programs that leave the transport alone"


lemma inbox_answer [inbox_keeps]: "keeps (at_inbox good q r inbox X) (answer f)"
  by (auto simp: keeps_def answer_def at_inbox_def)

lemma inbox_tell [inbox_keeps]: "keeps (at_inbox good q r inbox X) (tell e)"
  by (auto simp: tell_def at_inbox_def intro!: keeps_intros)

lemma inbox_with_vif [inbox_keeps]:
  "(\<And>x. keeps (at_inbox good q r inbox X) (k x)) \<Longrightarrow> keeps (at_inbox good q r inbox X) (with_vif v k)"
  by (auto simp: with_vif_def intro!: keeps_intros)

lemma inbox_upd_vif [inbox_keeps]: "keeps (at_inbox good q r inbox X) (upd_vif v f)"
  by (auto simp: upd_vif_def at_inbox_def intro!: inbox_keeps keeps_intros)

lemma inbox_memcpy [inbox_keeps]: "keeps I (memcpy a b n)"
  by (auto simp: memcpy_def intro!: keeps_intros)

lemma inbox_locks [inbox_keeps]:
  "keeps (at_inbox good q r inbox X) vif_list_acquire" "keeps (at_inbox good q r inbox X) vif_list_release"
  "keeps (at_inbox good q r inbox X) (sta_acquire v)" "keeps (at_inbox good q r inbox X) (sta_release v)"
  by (auto simp: vif_list_acquire_def vif_list_release_def sta_acquire_def sta_release_def at_inbox_def
    intro!: inbox_keeps keeps_intros)

lemma inbox_find_vif [inbox_keeps]: "keeps (at_inbox good q r inbox X) (find_vif i vs)"
  by (induction vs) (auto intro!: inbox_keeps keeps_intros)

lemma inbox_get_vif [inbox_keeps]: "keeps (at_inbox good q r inbox X) (mt7697_get_vif_by_idx i)"
  by (auto simp: mt7697_get_vif_by_idx_def intro!: inbox_keeps keeps_intros)

lemma inbox_interface_add [inbox_keeps]: "keeps (at_inbox good q r inbox X) (mt7697_interface_add env ty i)"
  by (auto simp: mt7697_interface_add_def register_vif_def make_vif_def free_netdev_def at_inbox_def
    intro!: inbox_keeps keeps_intros)

lemma inbox_rx_data [inbox_keeps]: "keeps (at_inbox good q r inbox X) (mt7697_rx_data env bs n i)"
  by (auto simp: mt7697_rx_data_def rx_failed_def deliver_frame_def upd_stats_def intro!: inbox_keeps keeps_intros)

lemma inbox_bands [inbox_keeps]: "keeps I (has_band b)" "keeps I wiphy_channels"
  by (auto simp: has_band_def wiphy_channels_def intro!: keeps_intros)

lemma inbox_scan_frame [inbox_keeps]: "keeps (at_inbox good q r inbox X) (scan_frame env ch bs n rssi)"
  by (auto simp: scan_frame_def inform_frame_def Let_def intro!: inbox_keeps keeps_intros)

lemma inbox_connected [inbox_keeps]: "keeps (at_inbox good q r inbox X) (sta_connected env v bs ch)"
  by (auto simp: sta_connected_def mt7697_cfg80211_connect_event_def connected_on_def mt7697_add_bss_if_needed_def
    report_connected_def intro!: inbox_keeps keeps_intros)

lemma inbox_ap_connected [inbox_keeps]: "keeps (at_inbox good q r inbox X) (ap_connected env v bs)"
  by (auto simp: ap_connected_def mt7697_cfg80211_new_sta_def intro!: inbox_keeps keeps_intros)

lemma inbox_link_lost [inbox_keeps]: "keeps (at_inbox good q r inbox X) (link_lost v)"
  by (auto simp: link_lost_def intro!: inbox_keeps keeps_intros)

lemma inbox_report [inbox_keeps]: "keeps (at_inbox good q r inbox X) (report_disconnected v)"
  by (auto simp: report_disconnected_def intro!: inbox_keeps keeps_intros)

lemma inbox_scan_over [inbox_keeps]: "keeps (at_inbox good q r inbox X) (scan_over v b)"
  by (auto simp: scan_over_def intro!: inbox_keeps keeps_intros)

lemma inbox_with_idx [inbox_keeps]:
  "(\<And>v. keeps (at_inbox good q r inbox X) (k v)) \<Longrightarrow> keeps (at_inbox good q r inbox X) (with_idx i k)"
  by (auto simp: with_idx_def intro!: inbox_keeps keeps_intros)

section \<open>Reading\<close>

text \<open>The words a handler reads of the message with this header.\<close>

definition words_taken :: "mt7697_rsp_hdr \<Rightarrow> nat" where
  "words_taken msg =
     (let t = cmd_type msg; len = unat (cmd_len msg); res = unat (rsp_result msg) in
      if t = wifi_cmd_code MT7697_CMD_MAC_ADDR_RSP then (if len = 16 then 2 else 0)
      else if t = wifi_cmd_code MT7697_CMD_GET_WIRELESS_MODE_RSP then (if len = 12 then 1 else 0)
      else if t = wifi_cmd_code MT7697_CMD_GET_CFG_RSP then (if len = 220 then 53 else 0)
      else if t = wifi_cmd_code MT7697_CMD_GET_LISTEN_INTERVAL_RSP then (if len = 12 then 1 else 0)
      else if t = wifi_cmd_code MT7697_CMD_SCAN_RSP then 1
      else if t = wifi_cmd_code MT7697_CMD_SCAN_IND then
        (if len \<le> 16 then 0 else if res > 2304 \<or> res = 0 then 2 else 2 + (res + 3) div 4)
      else if t = wifi_cmd_code MT7697_CMD_SCAN_COMPLETE_IND then 1
      else if t = wifi_cmd_code MT7697_CMD_CONNECT_IND then (if len = 24 then 4 else 0)
      else if t = wifi_cmd_code MT7697_CMD_DISCONNECT_IND then 3
      else if t = wifi_cmd_code MT7697_CMD_RX_RAW then (if len \<le> 8 \<or> res > 2352 then 0 else (res + 3) div 4)
      else 0)"

context hif_transport
begin

abbreviation (input) at :: "u32 list \<Rightarrow> 'h mt7697_cfg80211_info \<Rightarrow> bool" where "at X \<equiv> at_inbox good q r inbox X"

text \<open>\<open>reads\<close>: succeeds with exactly \<open>n\<close> words less to read; \<open>takes\<close>: leaves \<open>n\<close> words less, whatever the outcome.\<close>

definition reads :: "nat \<Rightarrow> ('h, 'a) wifi_prog \<Rightarrow> bool" where
  "reads n m \<longleftrightarrow> (\<forall>X s. at X s \<longrightarrow> n \<le> length X \<longrightarrow> (\<exists>a s'. m s = Some (Ok a, s') \<and> at (drop n X) s'))"

definition takes :: "nat \<Rightarrow> ('h, 'a) wifi_prog \<Rightarrow> bool" where
  "takes n m \<longleftrightarrow> (\<forall>X s x s'. at X s \<longrightarrow> n \<le> length X \<longrightarrow> m s = Some (x, s') \<longrightarrow> at (drop n X) s')"

lemma reads_words: "0 < unat w \<Longrightarrow> unat w < 1024 \<Longrightarrow> reads (unat w) (read_words ops w)"
  unfolding reads_def at_inbox_def using read_words_takes [of _ "unat w"] by fastforce

lemma reads_bind: "reads n m \<Longrightarrow> (\<And>a. reads 0 (k a)) \<Longrightarrow> reads n (bindP m k)"
  unfolding reads_def by (metis bindP_Ok drop_0 le0)

lemma reads_return: "reads 0 (returnP a)"
  by (simp add: reads_def returnP_def)

lemma reads_u32: "reads 1 (read_u32 ops)"
  using reads_bind [OF reads_words [of 1] reads_return] by (simp add: read_u32_def)

lemma reads_bytes:
  assumes "0 < unat n" "unat n \<le> 2352"
  shows "reads ((unat n + 3) div 4) (read_bytes ops n)"
proof -
  have "reads (unat (LEN_TO_WORD n)) (read_bytes ops n)"
    unfolding read_bytes_def using assms by (intro reads_bind reads_words reads_return) (auto simp: unat_LEN_TO_WORD)
  then show ?thesis by (simp add: unat_LEN_TO_WORD)
qed

lemma takes_keeps: "(\<And>X. keeps (at X) m) \<Longrightarrow> takes 0 m"
  by (auto simp: takes_def keeps_def)

lemma takes_bind: "reads n m \<Longrightarrow> (\<And>a. takes k (f a)) \<Longrightarrow> takes (n + k) (bindP m f)"
  unfolding reads_def takes_def
proof (intro allI impI)
  fix X s x s'
  assume m: "\<forall>X s. at X s \<longrightarrow> n \<le> length X \<longrightarrow> (\<exists>a s'. m s = Some (Ok a, s') \<and> at (drop n X) s')"
    and f: "\<And>a. \<forall>X s x s'. at X s \<longrightarrow> k \<le> length X \<longrightarrow> f a s = Some (x, s') \<longrightarrow> at (drop k X) s'"
    and s: "at X s" "n + k \<le> length X" "bindP m f s = Some (x, s')"
  obtain a s1 where one: "m s = Some (Ok a, s1)" "at (drop n X) s1" using m s by force
  then have "f a s1 = Some (x, s')" using s(3) by simp
  then have "at (drop k (drop n X)) s'" using f [rule_format, OF one(2)] s(2) by simp
  then show "at (drop (n + k) X) s'" by (simp add: add.commute)
qed

lemma takes_bind1: "reads n m \<Longrightarrow> (\<And>a X. keeps (at X) (f a)) \<Longrightarrow> takes n (bindP m f)"
  using takes_bind [of n m 0 f] takes_keeps by fastforce

lemma keeps_write_words:
  assumes endless: "\<And>h n. room h n" and len: "0 < unat len" "unat len < 1024" "unat len \<le> length ws"
  shows "keeps (at X) (write_words ops ws len)"
proof (rule keepsI)
  fix s x s' assume s: "at X s" and run: "write_words ops ws len s = Some (x, s')"
  let ?ws = "take (unat len) ws"
  have ws: "?ws \<noteq> []" "length ?ws < 1024" using len by auto
  obtain h' where h': "if_write ops q ?ws (hif s) = Some (Ok (int (length ?ws)), h')" "good h'"
    using write_sends [OF _ ws, of "hif s"] endless s by (auto simp: at_inbox_def)
  have "inbox h' = inbox (hif s)" using write_keeps_inbox [OF _ ws _ h'(1)] endless s by (auto simp: at_inbox_def)
  then show "at X s'"
    using run h' s len by (auto simp: write_words_def at_inbox_def on_hif_def prog_defs split: if_splits)
qed

lemma keeps_wr_request:
  assumes "\<And>h n. room h n" "4 \<le> unat n" "(unat n + 3) div 4 \<le> Suc (length payload)" "unat n < 4000"
  shows "keeps (at X) (wr_request ops (wifi_hdr t n) payload)"
  unfolding wr_request_def wifi_hdr_def using assms by (intro keeps_write_words) (auto simp: unat_LEN_TO_WORD)

lemma keeps_get_params:
  assumes "\<And>h n. room h n"
  shows "keeps (at X) (mt7697_cfg80211_get_params ops)"
  by (auto simp: mt7697_cfg80211_get_params_def mt7697_wr_get_listen_interval_req_def mt7697_wr_get_wireless_mode_req_def
    mt7697_wr_mac_addr_req_def assms intro!: keeps_intros keeps_wr_request)

lemma keeps_disconnect_req:
  assumes "\<And>h n. room h n"
  shows "keeps (at X) (mt7697_wr_disconnect_req ops addr)"
proof (cases addr)
  case None
  then show ?thesis
    using assms by (auto simp: mt7697_wr_disconnect_req_def bindP_returnP length_bytes_words intro!: keeps_wr_request)
next
  case (Some a)
  then show ?thesis
    using assms by (cases "6 \<le> length a")
      (auto simp: mt7697_wr_disconnect_req_def memcpy_def bindP_returnP bindP_haltP length_bytes_words intro!: keeps_wr_request keeps_intros)
qed

lemma keeps_take_config:
  assumes "\<And>h n. room h n"
  shows "keeps (at X) (take_config ops c)"
  unfolding take_config_def
  by (auto simp: at_inbox_def intro!: keeps_intros inbox_keeps) (auto intro!: keeps_intros keeps_get_params assms)

lemma keeps_del_sta:
  assumes "\<And>h n. room h n"
  shows "keeps (at X) (mt7697_cfg80211_del_sta ops v a)"
  unfolding mt7697_cfg80211_del_sta_def by (auto intro!: keeps_intros inbox_keeps keeps_disconnect_req assms)

lemma len_words:
  "(cmd_len msg \<noteq> 16) = (unat (cmd_len msg) \<noteq> 16)" "(cmd_len msg \<noteq> 24) = (unat (cmd_len msg) \<noteq> 24)"
  "(cmd_len msg \<le> 16) = (unat (cmd_len msg) \<le> 16)"
  by (simp_all add: word_unat_eq_iff word_le_nat_alt)

lemma body_len_iff:
  assumes "k < 65000"
  shows "body_len msg = word_of_nat k \<longleftrightarrow> unat (cmd_len msg) = 8 + k"
proof -
  have "body_len msg = word_of_nat k \<longleftrightarrow> (ucast (cmd_len msg) :: u32) = word_of_nat (8 + k)"
    by (simp add: body_len_def diff_eq_eq add.commute)
  also have "\<dots> \<longleftrightarrow> unat (ucast (cmd_len msg) :: u32) = unat (word_of_nat (8 + k) :: u32)" by (rule word_unat_eq_iff)
  finally show ?thesis using assms unat_word_of_nat_u32 [of "8 + k"] by (simp del: of_nat_add)
qed

lemmas body_lens = body_len_iff [of 4, simplified] body_len_iff [of 212, simplified]

lemma takes_if: "(c \<Longrightarrow> takes a m) \<Longrightarrow> (\<not> c \<Longrightarrow> takes b n) \<Longrightarrow> takes (if c then a else b) (if c then m else n)"
  by simp

lemma takes_throw: "takes 0 (throwP e)"
  by (rule takes_keeps) (rule keeps_basic)

lemma takes_u32:
  assumes "\<And>a. takes k (f a)" "n = Suc k"
  shows "takes n (bindP (read_u32 ops) f)"
  using takes_bind [where m = "read_u32 ops" and n = 1 and f = f and k = k, OF reads_u32] assms by simp

lemma takes_u32_last: "(\<And>a X. keeps (at X) (f a)) \<Longrightarrow> takes (Suc 0) (bindP (read_u32 ops) f)"
  by (rule takes_u32 [where k = 0]) (auto intro: takes_keeps)

lemma takes_bytes:
  assumes "\<And>a X. keeps (at X) (f a)" "0 < unat n" "unat n \<le> 2352" "k = (unat n + 3) div 4"
  shows "takes k (bindP (read_bytes ops n) f)"
  unfolding assms(4) by (rule takes_bind1 [OF reads_bytes]) (use assms in auto)

lemma takes_mac_addr: "takes (if unat (cmd_len msg) = 16 then 2 else 0) (mt7697_proc_mac_addr ops env msg)"
  unfolding mt7697_proc_mac_addr_def len_words
  by (cases "unat (cmd_len msg) = 16", simp, rule takes_bytes)
    (auto simp: at_inbox_def intro!: takes_throw keeps_intros inbox_keeps)

lemma takes_wireless_mode: "takes (if unat (cmd_len msg) = 12 then 1 else 0) (mt7697_proc_get_wireless_mode ops msg)"
  unfolding mt7697_proc_get_wireless_mode_def
  by (auto simp: at_inbox_def body_lens intro!: takes_u32_last takes_throw keeps_intros)

lemma takes_listen_interval: "takes (if unat (cmd_len msg) = 12 then 1 else 0) (mt7697_proc_get_listen_interval ops msg)"
  unfolding mt7697_proc_get_listen_interval_def
  by (auto simp: at_inbox_def body_lens intro!: takes_u32_last takes_throw keeps_intros)

lemma takes_answer:
  assumes "\<And>n. P (f n)" "\<And>a. P a \<Longrightarrow> takes n (k a)"
  shows "takes n (bindP (answer f) k)"
  unfolding takes_def
proof (intro allI impI)
  fix X s x s' assume s: "at X s" "n \<le> length X" "bindP (answer f) k s = Some (x, s')"
  let ?s = "s\<lparr>asked := Suc (asked s)\<rparr>"
  have "at X ?s" "k (f (asked s)) ?s = Some (x, s')" using s by (simp_all add: at_inbox_def answer_def bindP_def)
  then show "at (drop n X) s'" using assms(2) [OF assms(1)] s(2) unfolding takes_def by blast
qed

lemma takes_get_cfg:
  assumes "\<And>h n. room h n" "\<And>n. wifi_kmalloc_ok env n"
  shows "takes (if unat (cmd_len msg) = 220 then 53 else 0) (mt7697_proc_get_cfg ops env msg)"
proof (cases "unat (cmd_len msg) = 220")
  case True
  have "takes 53 (bindP (answer (wifi_kmalloc_ok env)) (\<lambda>ok. if \<not> ok then throwP (- ENOMEM)
      else bindP (read_bytes ops sizeof_wifi_config_t) (\<lambda>bs. take_config ops (wifi_config_of bs))))"
    by (rule takes_answer [where P = "\<lambda>b. b"], rule assms, simp, rule takes_bytes) (auto intro: keeps_take_config assms)
  with True show ?thesis by (simp add: mt7697_proc_get_cfg_def body_lens LEN32_ALIGNED_def LEN_TO_WORD_def)
qed (auto simp: mt7697_proc_get_cfg_def body_lens LEN32_ALIGNED_def LEN_TO_WORD_def takes_throw)

lemma takes_scan_ind:
  "takes (if unat (cmd_len msg) \<le> 16 then 0 else if unat (rsp_result msg) > 2304 \<or> unat (rsp_result msg) = 0 then 2
      else 2 + (unat (rsp_result msg) + 3) div 4) (mt7697_proc_scan_ind ops env msg)"
proof -
  let ?res = "unat (rsp_result msg)"
  have zero: "(rsp_result msg = 0) = (?res = 0)" by (simp add: word_unat_eq_iff)
  have al: "unat (LEN32_ALIGNED (rsp_result msg)) = 4 * ((?res + 3) div 4)" if "?res \<le> 2304"
    using that by (simp add: LEN32_ALIGNED_def len_word_unat unat_word_ariths unat_word_of_nat_u32)
  have body: "takes ((?res + 3) div 4) (bindP (read_bytes ops (LEN32_ALIGNED (rsp_result msg)))
      (\<lambda>bs. scan_frame env ch bs (rsp_result msg) rssi))" if "?res \<le> 2304" "?res \<noteq> 0" for ch rssi
    using that al by (intro takes_bytes inbox_keeps) auto
  show ?thesis unfolding mt7697_proc_scan_ind_def len_words zero
    by (auto intro!: takes_throw takes_u32 body)
qed

lemma takes_scan_rsp: "takes 1 (mt7697_proc_scan_rsp ops msg)"
  unfolding mt7697_proc_scan_rsp_def by (auto intro!: takes_u32_last keeps_intros)

lemma takes_scan_complete: "takes 1 (mt7697_proc_scan_complete_ind ops)"
  unfolding mt7697_proc_scan_complete_ind_def by (auto intro!: takes_u32_last keeps_intros inbox_keeps)

lemma takes_connect: "takes (if unat (cmd_len msg) = 24 then 4 else 0) (mt7697_proc_connect_ind ops env msg)"
  unfolding mt7697_proc_connect_ind_def len_words
  by (cases "unat (cmd_len msg) = 24", simp, rule takes_u32 [where k = 3], rule takes_u32 [where k = 2], rule takes_bytes)
    (auto intro!: takes_throw keeps_intros inbox_keeps)

lemma takes_disconnect:
  assumes "\<And>h n. room h n"
  shows "takes 3 (mt7697_proc_disconnect_ind ops)"
  unfolding mt7697_proc_disconnect_ind_def
  by (rule takes_u32 [where k = 2], rule takes_bytes)
    (auto intro!: keeps_intros inbox_keeps keeps_disconnect_req keeps_del_sta assms)

lemma takes_rx_raw:
  assumes "rsp_result msg \<noteq> 0"
  shows "takes (if unat (cmd_len msg) \<le> 8 \<or> unat (rsp_result msg) > 2352 then 0 else (unat (rsp_result msg) + 3) div 4)
    (mt7697_rx_raw ops env msg)"
proof -
  let ?res = "unat (rsp_result msg)"
  have zero: "?res \<noteq> 0" using assms by (simp add: word_unat_eq_iff)
  have al: "unat (LEN32_ALIGNED (rsp_result msg)) = 4 * ((?res + 3) div 4)" if "?res \<le> 2352"
    using that by (simp add: LEN32_ALIGNED_def len_word_unat unat_word_ariths unat_word_of_nat_u32)
  have len: "(ucast (cmd_len msg) \<le> (sizeof_rsp_hdr :: u32)) = (unat (cmd_len msg) \<le> 8)" by (simp add: word_le_nat_alt)
  show ?thesis unfolding mt7697_rx_raw_def len
    using zero al by (auto intro!: takes_throw takes_bytes keeps_intros inbox_keeps)
qed

lemma takes_message:
  assumes "\<And>h n. room h n" "\<And>n. wifi_kmalloc_ok env n"
    and "cmd_type msg = wifi_cmd_code MT7697_CMD_RX_RAW \<Longrightarrow> rsp_result msg \<noteq> 0"
  shows "takes (words_taken msg) (mt7697_proc_80211cmd ops env msg)"
  unfolding words_taken_def mt7697_proc_80211cmd_def Let_def
  by (intro takes_if takes_mac_addr takes_wireless_mode takes_get_cfg takes_listen_interval takes_scan_rsp takes_scan_ind
    takes_scan_complete takes_connect takes_disconnect takes_rx_raw assms) (auto intro!: takes_throw takes_keeps keeps_intros)

end

section \<open>The stream stays in step\<close>



end
