(* ===== verification/Wifi_Sound.thy ===== *)
theory Wifi_Sound
  imports Wifi_Inbox
begin

text \<open>
  The invariant of the wireless driver and the proof that none of its operations ends in undefined behaviour while
  the transport is open.
\<close>

section \<open>The invariant\<close>

text \<open>
  What holds of every interface.  The number of stations never exceeds one more than the maximum; the list can be
  shorter than the count, when disconnecting a station has failed.
\<close>

definition vif_wf :: "mt7697_vif \<Rightarrow> bool" where
  "vif_wf x \<longleftrightarrow> fw_vif_idx x = 0 \<and> length (ssid x) = 32 \<and> ssid_len x \<le> 32 \<and> length (bssid x) = 6 \<and>
     length (req_bssid x) = 6 \<and> length (pmk x) = 32 \<and> \<not> sta_list_lock x \<and> (\<forall>a \<in> set (sta_list x). length a = 6) \<and>
     length (sta_list x) \<le> unat (sta_count x) \<and> unat (sta_count x) \<le> 11 \<and> sta_max x = 10"

text \<open>A packet that waits is in its entry of the pool, and its interface is up.\<close>

definition packet_wf :: "'h mt7697_cfg80211_info \<Rightarrow> nat \<Rightarrow> bool" where
  "packet_wf s i \<longleftrightarrow> i < 256 \<and> (\<exists>skb. tx_skb_pool s ! i = Some skb \<and> length (skb_data skb) \<le> 2352 \<and>
     (\<exists>x. vifs s (skb_dev skb) = Some x \<and> dev_up x))"

definition is_open :: "'h mt7697_cfg80211_info \<Rightarrow> bool" where
  "is_open s \<longleftrightarrow> txq_hdl s \<noteq> None \<and> rxq_hdl s \<noteq> None"

definition vif_down :: "nat \<Rightarrow> 'h mt7697_cfg80211_info \<Rightarrow> bool" where
  "vif_down v s \<longleftrightarrow> (\<exists>x. vifs s v = Some x \<and> \<not> dev_up x)"

definition wifi_wf :: "'h mt7697_cfg80211_info \<Rightarrow> bool" where
  "wifi_wf s \<longleftrightarrow> \<not> vif_list_lock s \<and> (vif_list s = [] \<or> (\<exists>v. vif_list s = [v] \<and> vifs s v \<noteq> None)) \<and>
     (\<forall>v x. vifs s v = Some x \<longrightarrow> vif_wf x \<and> v < next_vif s) \<and>
     vif_max s = 10 \<and> length (tx_skb_pool s) = 256 \<and> tx_skb_pool_idx s < 256 \<and> distinct (tx_skb_list s) \<and>
     (\<forall>i \<in> set (tx_skb_list s). packet_wf s i) \<and> length (txr_data (tx_req s)) = 2352 \<and>
     length (ap_ssid (ap_config (wifi_cfg s))) = 32 \<and> has_2ghz s \<and> has_5ghz s"

section \<open>Sound programs\<close>

definition sound :: "('s \<Rightarrow> bool) \<Rightarrow> ('s, 'a) prog \<Rightarrow> bool" where
  "sound I m \<longleftrightarrow> (\<forall>s r s'. I s \<longrightarrow> m s = Some (r, s') \<longrightarrow> I s' \<and> (\<forall>h. r \<noteq> Halt h))"

named_theorems sound_intros "closure rules of sound programs"

lemma soundI: "(\<And>s r s'. I s \<Longrightarrow> m s = Some (r, s') \<Longrightarrow> I s' \<and> (\<forall>h. r \<noteq> Halt h)) \<Longrightarrow> sound I m"
  by (auto simp: sound_def)

lemma soundD: "sound I m \<Longrightarrow> I s \<Longrightarrow> m s = Some (r, s') \<Longrightarrow> I s' \<and> (\<forall>h. r \<noteq> Halt h)"
  by (auto simp: sound_def)

lemma sound_basic [sound_intros]: "sound I (returnP a)" "sound I (throwP e)" "sound I divergeP" "sound I (getP f)"
  by (auto simp: sound_def prog_defs)

lemma sound_modifyP [sound_intros]: "(\<And>s. I s \<Longrightarrow> I (f s)) \<Longrightarrow> sound I (modifyP f)"
  by (auto simp: sound_def prog_defs)

lemma sound_bindP:
  assumes m: "sound I m" and k: "\<And>s a s'. I s \<Longrightarrow> m s = Some (Ok a, s') \<Longrightarrow> sound I (k a)"
  shows "sound I (bindP m k)"
proof (rule soundI)
  fix s r s' assume I: "I s" and run: "bindP m k s = Some (r, s')"
  then obtain r1 s1 where m1: "m s = Some (r1, s1)" by (cases "m s") (auto simp: bindP_def)
  have s1: "I s1 \<and> (\<forall>h. r1 \<noteq> Halt h)" by (rule soundD [OF m I m1])
  show "I s' \<and> (\<forall>h. r \<noteq> Halt h)"
  proof (cases r1)
    case (Ok a)
    with run m1 have "k a s1 = Some (r, s')" by simp
    with k [OF I m1 [unfolded Ok]] s1 show ?thesis by (auto dest: soundD)
  qed (use run m1 s1 in auto)
qed

lemma sound_bind [sound_intros]: "sound I m \<Longrightarrow> (\<And>a. sound I (k a)) \<Longrightarrow> sound I (bindP m k)"
  by (rule sound_bindP)

lemma sound_get [sound_intros]: "(\<And>s. I s \<Longrightarrow> sound I (k (f s))) \<Longrightarrow> sound I (bindP (getP f) k)"
  by (rule sound_bindP) (auto simp: getP_def intro: sound_basic)

lemma sound_seqP [sound_intros]: "sound I m \<Longrightarrow> sound I n \<Longrightarrow> sound I (seqP m n)"
  unfolding seqP_def by (rule sound_bind)

lemma sound_whenP [sound_intros]: "(b \<Longrightarrow> sound I m) \<Longrightarrow> sound I (whenP b m)"
  by (simp add: whenP_def sound_basic)

lemma sound_if [sound_intros]: "(b \<Longrightarrow> sound I m) \<Longrightarrow> (\<not> b \<Longrightarrow> sound I n) \<Longrightarrow> sound I (if b then m else n)"
  by simp

lemma sound_case_option [sound_intros]:
  "(z = None \<Longrightarrow> sound I m) \<Longrightarrow> (\<And>x. z = Some x \<Longrightarrow> sound I (k x)) \<Longrightarrow> sound I (case z of None \<Rightarrow> m | Some x \<Rightarrow> k x)"
  by (cases z) auto

lemma sound_case_list [sound_intros]:
  "(z = [] \<Longrightarrow> sound I m) \<Longrightarrow> (\<And>x xs. z = x # xs \<Longrightarrow> sound I (k x xs)) \<Longrightarrow> sound I (case z of [] \<Rightarrow> m | x # xs \<Rightarrow> k x xs)"
  by (cases z) auto

lemma sound_case_prod [sound_intros]: "(\<And>x y. z = (x, y) \<Longrightarrow> sound I (k x y)) \<Longrightarrow> sound I (case z of (x, y) \<Rightarrow> k x y)"
  by (cases z) auto

lemma sound_case_sme [sound_intros]:
  "sound I a \<Longrightarrow> sound I b \<Longrightarrow> sound I c \<Longrightarrow> sound I (case z of SME_DISCONNECTED \<Rightarrow> a | SME_CONNECTING \<Rightarrow> b | SME_CONNECTED \<Rightarrow> c)"
  by (cases z) auto

lemma sound_tryP [sound_intros]:
  assumes m: "sound I m" and h: "\<And>e. sound I (h e)" and k: "\<And>a. sound I (k a)"
  shows "sound I (tryP m h k)"
proof (rule soundI)
  fix s r s' assume I: "I s" and run: "tryP m h k s = Some (r, s')"
  then obtain r1 s1 where m1: "m s = Some (r1, s1)" by (cases "m s") (auto simp: tryP_def)
  have "I s1 \<and> (\<forall>h. r1 \<noteq> Halt h)" by (rule soundD [OF m I m1])
  with run m1 show "I s' \<and> (\<forall>h. r \<noteq> Halt h)" by (cases r1) (auto simp: tryP_def dest: soundD [OF h] soundD [OF k])
qed

lemma sound_finallyP [sound_intros]:
  assumes m: "sound I m" and f: "\<And>s. I s \<Longrightarrow> I (f s)"
  shows "sound I (finallyP m f)"
proof (rule soundI)
  fix s r s' assume I: "I s" and run: "finallyP m f s = Some (r, s')"
  then obtain r1 s1 where m1: "m s = Some (r1, s1)" by (cases "m s") (auto simp: finallyP_def)
  have "I s1 \<and> (\<forall>h. r1 \<noteq> Halt h)" by (rule soundD [OF m I m1])
  with run m1 f show "I s' \<and> (\<forall>h. r \<noteq> Halt h)" by (cases r1) (auto simp: finallyP_def)
qed

lemma sound_foreachP [sound_intros]: "(\<And>x. x \<in> set xs \<Longrightarrow> sound I (f x)) \<Longrightarrow> sound I (foreachP f xs)"
  by (induction xs) (auto intro: sound_intros)

lemma sound_memcpy:
  "n \<le> length src \<Longrightarrow> n \<le> length dst \<Longrightarrow> sound I (k (take n src @ drop n dst)) \<Longrightarrow> sound I (bindP (memcpy dst src n) k)"
  by (simp add: memcpy_def bindP_returnP)


section \<open>From one invariant to another\<close>

definition leads :: "('s \<Rightarrow> bool) \<Rightarrow> ('s \<Rightarrow> bool) \<Rightarrow> ('s, 'a) prog \<Rightarrow> bool" where
  "leads I J m \<longleftrightarrow> (\<forall>s r s'. I s \<longrightarrow> m s = Some (r, s') \<longrightarrow> J s' \<and> (\<forall>h. r \<noteq> Halt h))"

lemma leadsI: "(\<And>s r s'. I s \<Longrightarrow> m s = Some (r, s') \<Longrightarrow> J s' \<and> (\<forall>h. r \<noteq> Halt h)) \<Longrightarrow> leads I J m"
  by (auto simp: leads_def)

lemma leadsD: "leads I J m \<Longrightarrow> I s \<Longrightarrow> m s = Some (r, s') \<Longrightarrow> J s' \<and> (\<forall>h. r \<noteq> Halt h)"
  by (auto simp: leads_def)

lemma leads_sound: "sound I m \<Longrightarrow> leads I I m"
  by (auto simp: leads_def sound_def)

lemma leads_mono: "leads I J m \<Longrightarrow> (\<And>s. I' s \<Longrightarrow> I s) \<Longrightarrow> (\<And>s. J s \<Longrightarrow> J' s) \<Longrightarrow> leads I' J' m"
  by (fastforce simp: leads_def)

lemma sound_leads: "leads I J m \<Longrightarrow> (\<And>s. J s \<Longrightarrow> I s) \<Longrightarrow> sound I m"
  by (auto simp: leads_def sound_def)

lemma leads_bind:
  assumes m: "leads I K m" and k: "\<And>a. leads K J (k a)" and e: "\<And>s. K s \<Longrightarrow> J s"
  shows "leads I J (bindP m k)"
proof (rule leadsI)
  fix s r s' assume I: "I s" and run: "bindP m k s = Some (r, s')"
  then obtain r1 s1 where m1: "m s = Some (r1, s1)" by (cases "m s") (auto simp: bindP_def)
  have "K s1 \<and> (\<forall>h. r1 \<noteq> Halt h)" by (rule leadsD [OF m I m1])
  with run m1 e show "J s' \<and> (\<forall>h. r \<noteq> Halt h)" by (cases r1) (auto dest: leadsD [OF k])
qed

lemma leads_seq: "leads I K m \<Longrightarrow> leads K J n \<Longrightarrow> (\<And>s. K s \<Longrightarrow> J s) \<Longrightarrow> leads I J (seqP m n)"
  unfolding seqP_def by (rule leads_bind)

lemma sound_keeps: "sound I m \<Longrightarrow> keeps J m \<Longrightarrow> sound (\<lambda>s. I s \<and> J s) m"
  by (auto simp: sound_def keeps_def)

section \<open>The contract of the transport\<close>

text \<open>
  A transport with an invariant \<open>good\<close> of its own.  Nothing is assumed of the results, except that a read that reports
  success has read as many words as it was asked for.
\<close>

locale wifi_channel =
  fixes ops :: "'h mt7697_if_ops" and good :: "'h \<Rightarrow> bool"
  assumes write_ok: "good h \<Longrightarrow> if_write ops q ws h = Some (r, h') \<Longrightarrow> good h' \<and> (\<exists>ret. r = Ok ret)"
    and read_ok: "good h \<Longrightarrow> if_read ops q n h = Some (x, h') \<Longrightarrow> good h' \<and>
      (\<exists>ret ws. x = Ok (ret, ws) \<and> (ret = uint n \<and> unat n < 1024 \<longrightarrow> length ws = unat n))"

text \<open>One that can be opened and closed as well.\<close>

locale wifi_transport = wifi_channel +
  assumes can_open: "\<exists>f. if_open ops = Some f \<and> (\<forall>h r h'. good h \<longrightarrow> f h = Some (r, h') \<longrightarrow> good h' \<and> (\<exists>z. r = Ok z))"
    and can_close: "\<exists>f. if_close ops = Some f \<and> (\<forall>q h r h'. good h \<longrightarrow> f (Some q) h = Some (r, h') \<longrightarrow> good h' \<and> (\<exists>z. r = Ok z))"
    and no_shutdown: "if_shutdown ops = None"

text \<open>The writes of a message succeed.\<close>

definition writes_succeed :: "('h \<Rightarrow> bool) \<Rightarrow> 'h mt7697_if_ops \<Rightarrow> bool" where
  "writes_succeed good ops \<longleftrightarrow> (\<forall>q ws h r h'. good h \<longrightarrow> length ws < 1024 \<longrightarrow> if_write ops q ws h = Some (r, h') \<longrightarrow> r = Ok (int (length ws)))"

text \<open>
  One with the states \<open>sure\<close>, in which it is open and works: as long as it is neither opened nor closed it stays in them,
  and no write fails.
\<close>

locale reliable_transport = wifi_transport ops good + sure: wifi_channel ops sure for ops :: "'h mt7697_if_ops" and good sure +
  assumes sure_good: "sure h \<Longrightarrow> good h"
    and sure_writes: "writes_succeed sure ops"

section \<open>The kernel and the interfaces\<close>

lemma packet_wf_cong: "tx_skb_pool s' = tx_skb_pool s \<Longrightarrow> vifs s' = vifs s \<Longrightarrow> packet_wf s' = packet_wf s"
  by (rule ext) (simp add: packet_wf_def)

named_theorems ops_sound "operations that are sound for the invariant of the driver"

context wifi_channel
begin

text \<open>The invariant with the transport open when \<open>b\<close> says so, and with the interfaces \<open>V\<close> in the kernel's memory.\<close>

definition okay :: "bool \<Rightarrow> nat set \<Rightarrow> 'h mt7697_cfg80211_info \<Rightarrow> bool" where
  "okay b V s \<longleftrightarrow> wifi_wf s \<and> good (hif s) \<and> (b \<longrightarrow> is_open s) \<and> (\<forall>v \<in> V. vifs s v \<noteq> None)"

lemma okayI: "wifi_wf s \<Longrightarrow> good (hif s) \<Longrightarrow> (b \<Longrightarrow> is_open s) \<Longrightarrow> (\<And>v. v \<in> V \<Longrightarrow> vifs s v \<noteq> None) \<Longrightarrow> okay b V s"
  by (simp add: okay_def)

lemma okay_wf: "okay b V s \<Longrightarrow> wifi_wf s"
  by (simp add: okay_def)

lemma okay_vif: "okay b V s \<Longrightarrow> v \<in> V \<Longrightarrow> \<exists>x. vifs s v = Some x \<and> vif_wf x"
  by (fastforce simp: okay_def wifi_wf_def)

lemma okay_quiet [simp]:
  "okay b V (s\<lparr>asked := n\<rparr>) = okay b V s" "okay b V (s\<lparr>events := es\<rparr>) = okay b V s"
  "okay b V (s\<lparr>mac_addr := a\<rparr>) = okay b V s" "okay b V (s\<lparr>hw_wireless_mode := w\<rparr>) = okay b V s"
  "okay b V (s\<lparr>listen_interval := w\<rparr>) = okay b V s" "okay b V (s\<lparr>port_type := p\<rparr>) = okay b V s"
  "okay b V (s\<lparr>sem := k\<rparr>) = okay b V s" "okay b V (s\<lparr>num_vif := u\<rparr>) = okay b V s"
  by (simp_all add: okay_def wifi_wf_def packet_wf_def is_open_def)

lemma okay_config [simp]:
  "length (ap_ssid (ap_config c)) = 32 \<Longrightarrow> okay b V s \<Longrightarrow> okay b V (s\<lparr>wifi_cfg := c\<rparr>)"
  by (simp add: okay_def wifi_wf_def packet_wf_def is_open_def)

lemma okay_ap_ssid: "okay b V s \<Longrightarrow> length (ap_ssid (ap_config (wifi_cfg s))) = 32"
  by (simp add: okay_def wifi_wf_def)

lemma okay_bands: "okay b V s \<Longrightarrow> has_2ghz s \<and> has_5ghz s"
  by (simp add: okay_def wifi_wf_def)

lemma okay_hif: "okay b V s \<Longrightarrow> good h \<Longrightarrow> okay b V (s\<lparr>hif := h\<rparr>)"
  by (simp add: okay_def wifi_wf_def packet_wf_def is_open_def)

lemma okay_good: "okay b V s \<Longrightarrow> good (hif s)"
  by (simp add: okay_def)

text \<open>A change of an interface that keeps its shape and does not bring it down.\<close>

lemma okay_upd:
  assumes "okay b V s" "vifs s v = Some x" "vif_wf y" "dev_up x \<Longrightarrow> dev_up y"
  shows "okay b V (s\<lparr>vifs := (vifs s)(v \<mapsto> y)\<rparr>)"
proof -
  have "packet_wf (s\<lparr>vifs := (vifs s)(v \<mapsto> y)\<rparr>) i" if "packet_wf s i" for i
    using that assms(2,4) by (auto simp: packet_wf_def)
  then show ?thesis using assms by (auto simp: okay_def wifi_wf_def is_open_def)
qed

lemma sound_answer [sound_intros]: "sound (okay b V) (answer f)"
  by (auto simp: sound_def answer_def)

lemma sound_tell [sound_intros]: "sound (okay b V) (tell e)"
  by (auto simp: tell_def intro!: sound_intros)

lemma sound_uninit:
  assumes "\<And>buf. length buf = n \<Longrightarrow> sound (okay b V) (k buf)"
  shows "sound (okay b V) (bindP (uninit env n) k)"
proof (rule sound_bindP)
  show "sound (okay b V) (uninit env n)" by (auto simp: uninit_def intro!: sound_intros)
  fix s a s' assume "uninit env n s = Some (Ok a, s')"
  then have "length a = n" by (auto simp: uninit_def answer_def bindP_def returnP_def)
  then show "sound (okay b V) (k a)" by (rule assms)
qed

lemma sound_with_vif [sound_intros]:
  assumes "v \<in> V" "\<And>x. vif_wf x \<Longrightarrow> sound (okay b V) (k x)"
  shows "sound (okay b V) (with_vif v k)"
  unfolding with_vif_def
  by (rule sound_get) (use assms okay_vif in \<open>fastforce\<close>)

lemma sound_upd_vif [sound_intros]:
  assumes "v \<in> V" "\<And>x. vif_wf x \<Longrightarrow> vif_wf (f x)" "\<And>x. dev_up x \<Longrightarrow> dev_up (f x)"
  shows "sound (okay b V) (upd_vif v f)"
proof (rule soundI)
  fix s r s' assume s: "okay b V s" and run: "upd_vif v f s = Some (r, s')"
  obtain x where x: "vifs s v = Some x" "vif_wf x" using okay_vif [OF s assms(1)] by blast
  have "r = Ok ()" "s' = s\<lparr>vifs := (vifs s)(v \<mapsto> f x)\<rparr>"
    using run x by (simp_all add: upd_vif_def with_vif_def bindP_def getP_def modifyP_def)
  then show "okay b V s' \<and> (\<forall>h. r \<noteq> Halt h)" using okay_upd [OF s x(1) assms(2) [OF x(2)]] assms(3) by simp
qed

lemma sound_upd_stats [sound_intros]: "v \<in> V \<Longrightarrow> sound (okay b V) (upd_stats v f)"
  unfolding upd_stats_def by (auto simp: vif_wf_def intro!: sound_intros)

end

end
