(* ===== verification/Wifi_SoundOps.thy ===== *)
theory Wifi_SoundOps
  imports Wifi_Sound
begin

text \<open>Every operation of the wireless driver keeps the invariant and stays away from undefined behaviour.\<close>

context wifi_channel
begin

section \<open>The transport\<close>

lemma sound_on_hif:
  assumes "\<And>h r h'. good h \<Longrightarrow> m h = Some (r, h') \<Longrightarrow> good h' \<and> (\<exists>ret. r = Ok ret)"
  shows "sound (okay b V) (on_hif m)"
proof (rule soundI)
  fix s r s' assume s: "okay b V s" and run: "on_hif m s = Some (r, s')"
  then obtain h' where "m (hif s) = Some (r, h')" "s' = s\<lparr>hif := h'\<rparr>"
    by (auto simp: on_hif_def split: option.splits prod.splits)
  with assms [OF okay_good [OF s]] okay_hif [OF s] show "okay b V s' \<and> (\<forall>h. r \<noteq> Halt h)" by auto
qed

lemma sound_write_words [ops_sound]:
  assumes len: "unat len \<le> length ws"
  shows "sound (okay True V) (write_words ops ws len)"
  unfolding write_words_def
proof (rule sound_get)
  fix s :: "'h mt7697_cfg80211_info" assume "okay True V s"
  then obtain q where q: "txq_hdl s = Some q" by (auto simp: okay_def is_open_def)
  show "sound (okay True V) (case txq_hdl s of None \<Rightarrow> haltP (Undefined ''write to a null handle'')
     | Some h \<Rightarrow> if length ws < unat len then haltP (Undefined ''read behind the end of a request'')
         else bindP (on_hif (if_write ops h (take (unat len) ws))) (\<lambda>ret.
           if ret \<noteq> uint len then throwP (if ret < 0 then ret else - EIO) else returnP ()))"
    using len unfolding q by (auto intro!: sound_intros sound_on_hif dest: write_ok)
qed

lemma sound_wr_request [ops_sound]:
  "(unat (cmd_len hdr) + 3) div 4 \<le> Suc (length payload) \<Longrightarrow> sound (okay True V) (wr_request ops hdr payload)"
  unfolding wr_request_def by (intro sound_write_words) (auto simp: unat_LEN_TO_WORD)

lemma sound_read_words:
  assumes k: "\<And>ws. (unat n < 1024 \<Longrightarrow> length ws = unat n) \<Longrightarrow> sound (okay True V) (k ws)"
  shows "sound (okay True V) (bindP (read_words ops n) k)"
proof (rule sound_bindP)
  show "sound (okay True V) (read_words ops n)"
    unfolding read_words_def
  proof (rule sound_get)
    fix s :: "'h mt7697_cfg80211_info" assume "okay True V s"
    then obtain q where q: "rxq_hdl s = Some q" by (auto simp: okay_def is_open_def)
    show "sound (okay True V) (case rxq_hdl s of None \<Rightarrow> haltP (Undefined ''read from a null handle'')
       | Some h \<Rightarrow> bindP (on_hif (if_read ops h n)) (\<lambda>(ret, ws).
           if ret \<noteq> uint n then throwP (if ret < 0 then ret else - EIO) else returnP ws))"
      unfolding q by (auto intro!: sound_intros sound_on_hif dest: read_ok)
  qed
  fix s ws s' assume s: "okay True V s" and run: "read_words ops n s = Some (Ok ws, s')"
  obtain q where q: "rxq_hdl s = Some q" using s by (auto simp: okay_def is_open_def)
  with run obtain x h' where x: "if_read ops q n (hif s) = Some (x, h')"
    by (cases "if_read ops q n (hif s)") (auto simp: read_words_def on_hif_def bindP_def getP_def)
  then obtain ret zs where "x = Ok (ret, zs)" "ret = uint n \<and> unat n < 1024 \<longrightarrow> length zs = unat n"
    using read_ok [OF okay_good [OF s] x] by blast
  with run q x have "unat n < 1024 \<Longrightarrow> length ws = unat n"
    by (auto simp: read_words_def on_hif_def prog_defs split: if_splits)
  then show "sound (okay True V) (k ws)" by (rule k)
qed

lemma sound_read_u32:
  "(\<And>w. sound (okay True V) (k w)) \<Longrightarrow> sound (okay True V) (bindP (read_u32 ops) k)"
  unfolding read_u32_def bindP_assoc bindP_returnP by (rule sound_read_words)

lemma sound_read_bytes:
  assumes k: "\<And>bs. (unat n < 4000 \<Longrightarrow> length bs = 4 * ((unat n + 3) div 4)) \<Longrightarrow> sound (okay True V) (k bs)"
  shows "sound (okay True V) (bindP (read_bytes ops n) k)"
  unfolding read_bytes_def bindP_assoc bindP_returnP
  by (rule sound_read_words, rule k) (simp add: unat_LEN_TO_WORD)

section \<open>Requests\<close>

lemma sound_requests [ops_sound]:
  shows "sound (okay True V) (mt7697_wr_get_wireless_mode_req ops)"
    and "sound (okay True V) (mt7697_wr_set_channel_req ops ch)"
    and "sound (okay True V) (mt7697_wr_reload_settings_req ops i)"
    and "sound (okay True V) (mt7697_wr_mac_addr_req ops)"
    and "sound (okay True V) (mt7697_wr_set_op_mode_req ops)"
    and "sound (okay True V) (mt7697_wr_cfg_req ops)"
    and "sound (okay True V) (mt7697_wr_get_listen_interval_req ops)"
    and "sound (okay True V) (mt7697_wr_set_security_mode_req ops a e)"
  unfolding mt7697_wr_get_wireless_mode_req_def mt7697_wr_set_channel_req_def mt7697_wr_reload_settings_req_def
    mt7697_wr_mac_addr_req_def mt7697_wr_set_op_mode_req_def mt7697_wr_cfg_req_def mt7697_wr_get_listen_interval_req_def
    mt7697_wr_set_security_mode_req_def
  by (auto simp: wifi_hdr_def intro!: sound_intros sound_wr_request)

lemma sound_set_pmk [ops_sound]:
  assumes key: "length key = 32"
  shows "sound (okay True V) (mt7697_wr_set_pmk_req ops key)"
proof -
  have "length (concat (map hex_byte key)) = 64"
    using key by (simp add: length_concat hex_byte_def comp_def sum_list_triv)
  then show ?thesis
    using key unfolding mt7697_wr_set_pmk_req_def
    by (auto simp: wifi_hdr_def length_bytes_words intro!: sound_intros sound_wr_request)
qed

lemma sound_set_bssid [ops_sound]:
  assumes "6 \<le> length a"
  shows "sound (okay True V) (mt7697_wr_set_bssid_req ops env a)"
  unfolding mt7697_wr_set_bssid_req_def
  by (rule sound_uninit, rule sound_memcpy) (use assms in \<open>auto simp: wifi_hdr_def length_bytes_words intro!: sound_wr_request\<close>)

lemma sound_set_ssid [ops_sound]:
  assumes "unat n \<le> length name" "unat n \<le> 32"
  shows "sound (okay True V) (mt7697_wr_set_ssid_req ops env n name)"
  unfolding mt7697_wr_set_ssid_req_def
  by (rule sound_get, rule sound_uninit, rule sound_memcpy)
    (use assms in \<open>auto simp: wifi_hdr_def length_bytes_words intro!: sound_wr_request\<close>)

lemma sound_scan_req [ops_sound]:
  assumes "\<And>name rest. names = name # rest \<Longrightarrow> length name \<le> 32"
  shows "sound (okay True V) (mt7697_wr_scan_req ops i names)"
proof (cases names)
  case Nil
  then show ?thesis
    by (auto simp: mt7697_wr_scan_req_def bindP_returnP wifi_hdr_def length_bytes_words intro!: sound_wr_request)
next
  case (Cons name rest)
  then show ?thesis using assms [OF Cons]
    by (auto simp: mt7697_wr_scan_req_def bindP_assoc bindP_returnP wifi_hdr_def length_bytes_words
      intro!: sound_memcpy sound_wr_request)
qed

lemma sound_disconnect_req [ops_sound]:
  assumes "\<And>a. addr = Some a \<Longrightarrow> 6 \<le> length a"
  shows "sound (okay True V) (mt7697_wr_disconnect_req ops addr)"
proof (cases addr)
  case None
  then show ?thesis
    by (auto simp: mt7697_wr_disconnect_req_def bindP_returnP wifi_hdr_def length_bytes_words intro!: sound_wr_request)
next
  case (Some a)
  then show ?thesis using assms [OF Some]
    by (auto simp: mt7697_wr_disconnect_req_def bindP_assoc bindP_returnP wifi_hdr_def length_bytes_words
      intro!: sound_memcpy sound_wr_request)
qed

section \<open>Looking up an interface\<close>

lemma get_vif_run:
  assumes wf: "wifi_wf s"
  shows "\<exists>r. mt7697_get_vif_by_idx i s = Some (Ok r, s) \<and>
    (case r of None \<Rightarrow> vif_list s = [] \<or> i \<noteq> 0 | Some v \<Rightarrow> vif_list s = [v] \<and> vifs s v \<noteq> None)"
proof -
  let ?t = "s\<lparr>vif_list_lock := True\<rparr>"
  have max: "vif_max s = 10" using wf by (simp add: wifi_wf_def)
  have acq: "vif_list_acquire s = Some (Ok (), ?t)"
    using wf by (simp add: wifi_wf_def vif_list_acquire_def bindP_def getP_def modifyP_def)
  have "?t\<lparr>vif_list_lock := False\<rparr> = s" using wf by (cases s) (simp add: wifi_wf_def)
  then have rel: "vif_list_release ?t = Some (Ok (), s)" by (simp add: vif_list_release_def modifyP_def)
  have run: "mt7697_get_vif_by_idx i s = Some (Ok r, s)" if "find_vif i (vif_list s) ?t = Some (Ok r, ?t)" "i \<le> 9" for r
    using that max by (simp add: mt7697_get_vif_by_idx_def acq rel returnP_def leD)
  have far: "mt7697_get_vif_by_idx i s = Some (Ok None, s)" if "\<not> i \<le> 9"
    using that max by (simp add: mt7697_get_vif_by_idx_def returnP_def not_le)
  consider "vif_list s = []" | v x where "vif_list s = [v]" "vifs s v = Some x" "fw_vif_idx x = 0"
    using wf by (fastforce simp: wifi_wf_def vif_wf_def)
  then show ?thesis
  proof cases
    case 1
    then have "find_vif i (vif_list s) ?t = Some (Ok None, ?t)" by (simp add: returnP_def)
    with 1 run far show ?thesis by (cases "i \<le> 9") auto
  next
    case 2
    then have find: "find_vif i (vif_list s) ?t = Some (Ok (if i = 0 then Some v else None), ?t)"
      by (auto simp: with_vif_def bindP_def getP_def returnP_def)
    show ?thesis
    proof (cases "i = 0")
      case True
      with find run [of "Some v"] 2 show ?thesis by simp
    next
      case False
      with find run [of None] far show ?thesis by (cases "i \<le> 9") auto
    qed
  qed
qed

lemma sound_with_idx:
  assumes "\<And>v. sound (okay b {v}) (k v)"
  shows "sound (okay b {}) (with_idx i k)"
proof (rule soundI)
  fix s r s' assume s: "okay b {} s" and run: "with_idx i k s = Some (r, s')"
  obtain z where z: "mt7697_get_vif_by_idx i s = Some (Ok z, s)"
    "case z of None \<Rightarrow> vif_list s = [] \<or> i \<noteq> 0 | Some v \<Rightarrow> vif_list s = [v] \<and> vifs s v \<noteq> None"
    using get_vif_run [OF okay_wf [OF s], of i] by blast
  show "okay b {} s' \<and> (\<forall>h. r \<noteq> Halt h)"
  proof (cases z)
    case None
    with run z s show ?thesis by (auto simp: with_idx_def throwP_def)
  next
    case (Some v)
    with s z have "okay b {v} s" by (simp add: okay_def)
    moreover have "k v s = Some (r, s')" using run z Some by (simp add: with_idx_def)
    ultimately have "okay b {v} s' \<and> (\<forall>h. r \<noteq> Halt h)" by (rule soundD [OF assms])
    then show ?thesis by (simp add: okay_def)
  qed
qed

section \<open>Packets\<close>

lemma sound_tx_raw [ops_sound]:
  assumes len: "length data \<le> 2352"
  shows "sound (okay True V) (mt7697_wr_tx_raw_packet ops data (word_of_nat (length data)))"
  unfolding mt7697_wr_tx_raw_packet_def
proof (rule sound_get)
  fix s :: "'h mt7697_cfg80211_info" assume "okay True V s"
  then have old: "length (txr_data (tx_req s)) = 2352" by (simp add: okay_def wifi_wf_def)
  have u: "unat (word_of_nat (length data) :: u32) = length data" using len by (simp add: unat_word_of_nat_u32)
  let ?bs = "take (length data) data @ drop (length data) (txr_data (tx_req s))"
  let ?hdr = "(txr_hdr (tx_req s))\<lparr>cmd_len := ucast (4 + 4 + word_of_nat (length data) :: u32)\<rparr>"
  have c: "unat (cmd_len ?hdr) = 8 + length data"
    using ucast_u32_u16 [of "8 + length data"] unat_word_of_nat_u16 [of "8 + length data"] len by simp
  have bs: "length ?bs = 2352" using old len by simp
  have set: "okay True V (t\<lparr>tx_req := \<lparr>txr_hdr = ?hdr, txr_len = word_of_nat (length data), txr_data = ?bs\<rparr>\<rparr>)" if "okay True V t" for t
    using that bs by (simp add: okay_def wifi_wf_def packet_wf_def is_open_def)
  have "sound (okay True V) (write_words ops (cmd_word ?hdr # word_of_nat (length data) # bytes_words ?bs)
      (LEN_TO_WORD (LEN32_ALIGNED (ucast (cmd_len ?hdr)))))"
    by (rule sound_write_words) (use c bs len in \<open>simp add: aligned_words length_bytes_words\<close>)
  then show "sound (okay True V) (bindP (memcpy (txr_data (tx_req s)) data (unat (word_of_nat (length data) :: u32))) (\<lambda>bs.
     let hdr = (txr_hdr (tx_req s))\<lparr>cmd_len := ucast (4 + 4 + word_of_nat (length data) :: u32)\<rparr> in
     seqP (modifyP (\<lambda>s. s\<lparr>tx_req := \<lparr>txr_hdr = hdr, txr_len = word_of_nat (length data), txr_data = bs\<rparr>\<rparr>))
     (write_words ops (cmd_word hdr # word_of_nat (length data) # bytes_words bs) (LEN_TO_WORD (LEN32_ALIGNED (ucast (cmd_len hdr)))))))"
    unfolding u Let_def using old len set
    by (intro sound_memcpy sound_seqP sound_modifyP) auto
qed

lemma sound_drop_packet [ops_sound]: "v \<in> V \<Longrightarrow> sound (okay b V) (drop_packet v p ret)"
  by (auto simp: drop_packet_def intro!: sound_intros)

text \<open>A packet that is accepted takes a free entry of the pool, which is not in the list.\<close>

lemma okay_enqueue:
  assumes s: "okay b V s" and free: "tx_skb_pool s ! tx_skb_pool_idx s = None"
    and skb: "length (skb_data skb) \<le> 2352" "vifs s (skb_dev skb) = Some x" "dev_up x"
  shows "okay b V (s\<lparr>tx_skb_pool := (tx_skb_pool s)[tx_skb_pool_idx s := Some skb],
     tx_skb_pool_idx := (if tx_skb_pool_idx s + 1 \<ge> 256 then 0 else tx_skb_pool_idx s + 1),
     tx_skb_list := tx_skb_list s @ [tx_skb_pool_idx s]\<rparr>)"
proof -
  let ?i = "tx_skb_pool_idx s"
  have i: "?i < 256" and len: "length (tx_skb_pool s) = 256" using s by (simp_all add: okay_def wifi_wf_def)
  have fresh: "?i \<notin> set (tx_skb_list s)" using s free by (auto simp: okay_def wifi_wf_def packet_wf_def)
  let ?s = "s\<lparr>tx_skb_pool := (tx_skb_pool s)[?i := Some skb], tx_skb_pool_idx := (if ?i + 1 \<ge> 256 then 0 else ?i + 1),
    tx_skb_list := tx_skb_list s @ [?i]\<rparr>"
  have "packet_wf ?s j" if "j \<in> set (tx_skb_list s)" for j
  proof -
    have "packet_wf s j" "j \<noteq> ?i" using that s fresh by (auto simp: okay_def wifi_wf_def)
    then show ?thesis by (simp add: packet_wf_def)
  qed
  moreover have "packet_wf ?s ?i" using skb i len by (simp add: packet_wf_def)
  ultimately show ?thesis using s fresh i by (auto simp: okay_def wifi_wf_def is_open_def)
qed

text \<open>With \<open>v\<close> up.\<close>

definition okay_up :: "bool \<Rightarrow> nat \<Rightarrow> 'h mt7697_cfg80211_info \<Rightarrow> bool" where
  "okay_up b v s \<longleftrightarrow> okay b {v} s \<and> (\<exists>x. vifs s v = Some x \<and> dev_up x)"

lemma leads_enqueue:
  assumes skb: "length (skb_data skb) \<le> 2352" "skb_dev skb = v"
  shows "leads (okay_up b v) (okay b {v}) (enqueue_packet env v skb)"
proof (rule leadsI)
  fix s r s' assume s: "okay_up b v s" and run: "enqueue_packet env v skb s = Some (r, s')"
  have ok: "okay b {v} s" using s by (simp add: okay_up_def)
  have drop: "okay b {v} s' \<and> (\<forall>h. r \<noteq> Halt h)" if "drop_packet v p ret t = Some (r, s')" "okay b {v} t" for p ret t
    using soundD [OF sound_drop_packet that(2) that(1)] by simp
  show "okay b {v} s' \<and> (\<forall>h. r \<noteq> Halt h)"
  proof (cases "tx_skb_pool s ! tx_skb_pool_idx s = None")
    case False
    then have "drop_packet v (Some (skb_id skb)) NETDEV_TX_BUSY s = Some (r, s')"
      using run by (auto simp: enqueue_packet_def)
    then show ?thesis using ok by (rule drop)
  next
    case True
    let ?t = "s\<lparr>tx_skb_pool := (tx_skb_pool s)[tx_skb_pool_idx s := Some skb],
     tx_skb_pool_idx := (if tx_skb_pool_idx s + 1 \<ge> 256 then 0 else tx_skb_pool_idx s + 1),
     tx_skb_list := tx_skb_list s @ [tx_skb_pool_idx s]\<rparr>"
    have t: "okay b {v} ?t" using okay_enqueue [OF ok True skb(1)] s skb(2) by (auto simp: okay_up_def)
    let ?rest = "bindP (answer (queue_work_ret env)) (\<lambda>ret. seqP (tell QueueTx)
        (if ret < 0 then drop_packet v (Some (skb_id skb)) NETDEV_TX_BUSY else returnP NETDEV_TX_OK))"
    have "sound (okay b {v}) ?rest" by (auto intro!: sound_intros sound_drop_packet)
    moreover have "?rest ?t = Some (r, s')" using run True by (simp add: enqueue_packet_def)
    ultimately show ?thesis using t by (auto dest: soundD)
  qed
qed

lemma leads_data_tx:
  assumes skb: "length (skb_data skb) \<le> 2352" "skb_dev skb = v"
  shows "leads (okay_up b v) (okay b {v}) (mt7697_data_tx env skb v)"
  unfolding mt7697_data_tx_def with_headroom_def
proof (cases "skb_headroom skb < needed_headroom env")
  case True
  have quiet: "sound (okay_up b v) (answer f)" "sound (okay_up b v) (tell e)" for f e
    by (auto simp: sound_def okay_up_def answer_def tell_def modifyP_def)
  have drop: "leads (okay_up b v) (okay b {v}) (drop_packet v None 0)"
    by (rule leads_mono [OF leads_sound [OF sound_drop_packet [of v "{v}"]]]) (auto simp: okay_up_def)
  have "leads (okay_up b v) (okay b {v}) (bindP (bindP (answer (realloc_headroom env)) (\<lambda>copy.
      seqP (tell (FreeSkb (skb_id skb))) (returnP (map_option (\<lambda>i. skb\<lparr>skb_id := i, skb_headroom := needed_headroom env\<rparr>) copy))))
      (\<lambda>r. case r of None \<Rightarrow> drop_packet v None 0 | Some skb' \<Rightarrow> enqueue_packet env v skb'))"
    unfolding bindP_assoc seqP_def bindP_returnP
    by (intro leads_bind [OF leads_sound [OF quiet(1)]] leads_bind [OF leads_sound [OF quiet(2)]])
      (auto simp: okay_up_def skb split: option.splits intro!: leads_enqueue drop)
  with True show "leads (okay_up b v) (okay b {v}) (bindP (if skb_headroom skb < needed_headroom env then
      bindP (answer (realloc_headroom env)) (\<lambda>copy. seqP (tell (FreeSkb (skb_id skb)))
      (returnP (map_option (\<lambda>i. skb\<lparr>skb_id := i, skb_headroom := needed_headroom env\<rparr>) copy)))
      else returnP (Some skb)) (\<lambda>r. case r of None \<Rightarrow> drop_packet v None 0 | Some skb' \<Rightarrow> enqueue_packet env v skb'))"
    by simp
qed (simp add: bindP_returnP leads_enqueue skb)

end

end
