(* ===== verification/Wifi_SoundLinks.thy ===== *)
theory Wifi_SoundLinks
  imports Wifi_SoundOps
begin

text \<open>The work item that sends packets, the stations of an access point, and stopping an interface.\<close>

context wifi_channel
begin

section \<open>Packets that wait\<close>

lemma okay_unlink:
  assumes "okay b V s"
  shows "okay b V (s\<lparr>tx_skb_list := remove1 i (tx_skb_list s)\<rparr>)"
    and "okay b V (s\<lparr>tx_skb_list := remove1 i (tx_skb_list s), tx_skb_pool := (tx_skb_pool s)[i := None]\<rparr>)"
  using assms by (auto simp: okay_def wifi_wf_def packet_wf_def is_open_def)

lemma okay_packet:
  assumes "okay b V s" "i \<in> set (tx_skb_list s)"
  shows "\<exists>skb x. tx_skb_pool s ! i = Some skb \<and> length (skb_data skb) \<le> 2352 \<and> vifs s (skb_dev skb) = Some x \<and> vif_wf x"
  using assms by (fastforce simp: okay_def wifi_wf_def packet_wf_def)

abbreviation (input) pool_is :: "nat list \<Rightarrow> sk_buff option list \<Rightarrow> 'h mt7697_cfg80211_info \<Rightarrow> bool" where
  "pool_is X P s \<equiv> tx_skb_list s = X \<and> tx_skb_pool s = P"

lemma keeps_on_hif [keeps_intros]: "(\<And>s h. J s \<Longrightarrow> J (s\<lparr>hif := h\<rparr>)) \<Longrightarrow> keeps J (on_hif m)"
  by (auto simp: keeps_def on_hif_def split: option.splits)

lemma keeps_pool [keeps_intros]:
  "keeps (pool_is X P) (upd_stats v f)" "keeps (pool_is X P) (mt7697_wr_tx_raw_packet ops data n)"
  by (auto simp: upd_stats_def upd_vif_def with_vif_def mt7697_wr_tx_raw_packet_def write_words_def memcpy_def Let_def
    intro!: keeps_intros)

text \<open>\<open>W\<close> are the packets still to be sent.\<close>

abbreviation (input) waits :: "nat set \<Rightarrow> 'h mt7697_cfg80211_info \<Rightarrow> bool" where
  "waits W s \<equiv> okay True {} s \<and> W \<subseteq> set (tx_skb_list s)"

lemma leads_tx_work_packet:
  assumes i: "i \<notin> W"
  shows "leads (waits (insert i W)) (waits W) (tx_work_packet ops i)"
proof (rule leadsI)
  fix s r s' assume s: "waits (insert i W) s" and run: "tx_work_packet ops i s = Some (r, s')"
  then obtain skb x where skb: "tx_skb_pool s ! i = Some skb" "length (skb_data skb) \<le> 2352" "vifs s (skb_dev skb) = Some x"
    using okay_packet [of True "{}" s i] by blast
  let ?v = "skb_dev skb" let ?n = "length (skb_data skb)"
  let ?send = "seqP (whenP (?n < sizeof_ieee80211_hdr) (upd_stats ?v (\<lambda>t. t\<lparr>tx_errors := tx_errors t + 1\<rparr>)))
     (seqP (tryP (mt7697_wr_tx_raw_packet ops (skb_data skb) (word_of_nat ?n))
        (\<lambda>_. upd_stats ?v (\<lambda>t. t\<lparr>tx_errors := tx_errors t + 1\<rparr>)) (\<lambda>_. returnP ()))
      (upd_stats ?v (\<lambda>t. t\<lparr>tx_packets := tx_packets t + 1, tx_bytes := tx_bytes t + word_of_nat ?n\<rparr>)))"
  let ?rest = "seqP (modifyP (\<lambda>s. s\<lparr>tx_skb_list := remove1 i (tx_skb_list s), tx_skb_pool := (tx_skb_pool s)[i := None]\<rparr>))
     (returnP (skb_id skb))"
  have "sound (okay True {?v}) ?send" by (auto intro!: sound_intros sound_tx_raw skb)
  moreover have "keeps (pool_is (tx_skb_list s) (tx_skb_pool s)) ?send" by (auto intro!: keeps_intros)
  moreover have "okay True {?v} s" using s skb by (simp add: okay_def)
  ultimately have send: "okay True {?v} t \<and> tx_skb_list t = tx_skb_list s \<and> (\<forall>h. q \<noteq> Halt h)" if "?send s = Some (q, t)" for q t
    using that by (auto dest: soundD keepsD)
  have "tx_work_packet ops i s = (bindP ?send (\<lambda>_. ?rest)) s"
    by (simp add: tx_work_packet_def pool_packet_def skb Let_def seqP_def bindP_assoc)
  then obtain q t where q: "?send s = Some (q, t)" "bindP ?send (\<lambda>_. ?rest) s = Some (r, s')"
    using run by (cases "?send s") (auto simp: bindP_def)
  show "waits W s' \<and> (\<forall>h. r \<noteq> Halt h)"
  proof (cases q)
    case (Ok u)
    then have "s' = t\<lparr>tx_skb_list := remove1 i (tx_skb_list t), tx_skb_pool := (tx_skb_pool t)[i := None]\<rparr>" "r = Ok (skb_id skb)"
      using q by (auto simp: returnP_def)
    moreover have "okay True {?v} t" "tx_skb_list t = tx_skb_list s" using send [OF q(1)] by auto
    moreover have "W \<subseteq> set (remove1 i (tx_skb_list s))" using s i by (metis in_set_remove1 insert_subset subset_iff)
    ultimately show ?thesis using okay_unlink(2) [of True "{?v}" t i] by (simp add: okay_def)
  next
    case (Err e)
    then show ?thesis using q send [OF q(1)] s by (auto simp: okay_def)
  next
    case (Halt h)
    then show ?thesis using send [OF q(1)] by simp
  qed
qed

lemma leads_tx_work_packets:
  shows "distinct is \<Longrightarrow> leads (waits (set is)) (okay True {}) (tx_work_packets ops is)"
proof (induction "is")
  case Nil
  show ?case by (auto simp: leads_def returnP_def)
next
  case (Cons i "is")
  show ?case unfolding tx_work_packets.simps
  proof (rule leads_bind)
    show "leads (waits (set (i # is))) (waits (set is)) (tx_work_packet ops i)"
      using leads_tx_work_packet [of i "set is"] Cons.prems by simp
    show "leads (waits (set is)) (okay True {}) (bindP (tx_work_packets ops is) (\<lambda>ids. returnP (a # ids)))" for a
      by (rule leads_bind [OF Cons.IH]) (use Cons.prems in \<open>auto simp: leads_def returnP_def\<close>)
  qed simp
qed

lemma sound_tx_work [ops_sound]:
  shows "sound (okay True {}) (mt7697_tx_work ops)"
  unfolding mt7697_tx_work_def
proof (rule sound_bind)
  show "sound (okay True {}) (bindP (getP tx_skb_list) (tx_work_packets ops))"
  proof (rule soundI)
    fix s r s' assume s: "okay True {} s" and run: "bindP (getP tx_skb_list) (tx_work_packets ops) s = Some (r, s')"
    have "distinct (tx_skb_list s)" using s by (simp add: okay_def wifi_wf_def)
    from leadsD [OF leads_tx_work_packets [OF this], of s] s run
    show "okay True {} s' \<and> (\<forall>h. r \<noteq> Halt h)" by (simp add: getP_def bindP_def)
  qed
  show "sound (okay True {}) (foreachP (\<lambda>i. tell (FreeSkb i)) ids)" for ids by (auto intro!: sound_intros)
qed

text \<open>Stopping always ends, with an empty list.\<close>

lemma tx_stop_packets_run:
  "okay b V s \<Longrightarrow> tx_skb_list s = is \<Longrightarrow> \<exists>s'. foreachP tx_stop_packet is s = Some (Ok (), s') \<and> okay b V s' \<and> tx_skb_list s' = []"
proof (induction "is" arbitrary: s)
  case Nil
  then show ?case by (simp add: returnP_def)
next
  case (Cons i "is")
  then obtain skb x where skb: "tx_skb_pool s ! i = Some skb" "vifs s (skb_dev skb) = Some x" "vif_wf x"
    using okay_packet [of b V s i] by auto
  let ?y = "x\<lparr>net_stats := (net_stats x)\<lparr>tx_dropped := tx_dropped (net_stats x) + 1\<rparr>\<rparr>"
  let ?t = "s\<lparr>vifs := (vifs s)(skb_dev skb \<mapsto> ?y)\<rparr>"
  have t: "okay b V ?t" by (rule okay_upd [OF Cons.prems(1) skb(2)]) (use skb(3) in \<open>simp_all add: vif_wf_def\<close>)
  have one: "tx_stop_packet i s = Some (Ok (), ?t\<lparr>tx_skb_list := is\<rparr>)"
    using skb Cons.prems(2)
    by (simp add: tx_stop_packet_def pool_packet_def upd_stats_def upd_vif_def with_vif_def bindP_def getP_def modifyP_def returnP_def seqP_def)
  have "okay b V (?t\<lparr>tx_skb_list := is\<rparr>)" using okay_unlink(1) [OF t, of i] Cons.prems(2) by simp
  then show ?case using Cons.IH [of "?t\<lparr>tx_skb_list := is\<rparr>"] one by simp
qed

lemma tx_stop_run:
  "okay b V s \<Longrightarrow> \<exists>s'. mt7697_tx_stop s = Some (Ok (), s') \<and> okay b V s' \<and> tx_skb_list s' = []"
  using tx_stop_packets_run [of b V s "tx_skb_list s"] by (simp add: mt7697_tx_stop_def)

section \<open>The lock of the stations\<close>

abbreviation (input) vif_set :: "nat \<Rightarrow> mt7697_vif \<Rightarrow> 'h mt7697_cfg80211_info \<Rightarrow> 'h mt7697_cfg80211_info" where
  "vif_set v y s \<equiv> s\<lparr>vifs := (vifs s)(v \<mapsto> y)\<rparr>"

lemma sta_acquire_run:
  "vifs s v = Some x \<Longrightarrow> \<not> sta_list_lock x \<Longrightarrow> sta_acquire v s = Some (Ok (), vif_set v (x\<lparr>sta_list_lock := True\<rparr>) s)"
  by (simp add: sta_acquire_def upd_vif_def with_vif_def bindP_def getP_def modifyP_def)

lemma sta_release_run:
  "vifs s v = Some x \<Longrightarrow> sta_list_lock x \<Longrightarrow> sta_release v s = Some (Ok (), vif_set v (x\<lparr>sta_list_lock := False\<rparr>) s)"
  by (simp add: sta_release_def upd_vif_def with_vif_def bindP_def getP_def modifyP_def)

lemma with_vif_run: "vifs s v = Some x \<Longrightarrow> with_vif v k s = k x s"
  by (simp add: with_vif_def bindP_def getP_def)

lemma upd_vif_run: "vifs s v = Some x \<Longrightarrow> upd_vif v f s = Some (Ok (), vif_set v (f x) s)"
  by (simp add: upd_vif_def with_vif_def bindP_def getP_def modifyP_def)

lemma vif_unlocked: "vif_wf x \<Longrightarrow> x\<lparr>sta_list_lock := True, sta_list_lock := False\<rparr> = x"
  by (cases x) (simp add: vif_wf_def)

lemma vif_set_same: "vifs s v = Some x \<Longrightarrow> vif_set v x s = s"
  by (cases s) (simp add: fun_upd_idem)

text \<open>An update of an interface between taking and giving back its lock.\<close>

lemma locked_update_run:
  assumes "vifs s v = Some x" "vif_wf x" "\<And>y. sta_list_lock (f y) = sta_list_lock y"
  shows "seqP (sta_acquire v) (seqP (upd_vif v f) (sta_release v)) s =
    Some (Ok (), vif_set v ((f (x\<lparr>sta_list_lock := True\<rparr>))\<lparr>sta_list_lock := False\<rparr>) s)"
proof -
  have "\<not> sta_list_lock x" using assms(2) by (simp add: vif_wf_def)
  then show ?thesis
    using sta_acquire_run [OF assms(1)] assms(3)
    by (simp add: seqP_def upd_vif_run [where x = "x\<lparr>sta_list_lock := True\<rparr>"]
      sta_release_run [where x = "f (x\<lparr>sta_list_lock := True\<rparr>)"])
qed

text \<open>At most eleven stations: one more than the maximum.\<close>

lemma sound_new_sta [ops_sound]:
  assumes a: "6 \<le> length a"
  shows "sound (okay b {v}) (mt7697_cfg80211_new_sta env v a)"
proof (rule soundI)
  fix s r s' assume s: "okay b {v} s" and run: "mt7697_cfg80211_new_sta env v a s = Some (r, s')"
  obtain x where x: "vifs s v = Some x" "vif_wf x" using okay_vif [OF s] by blast
  let ?add = "\<lambda>y. y\<lparr>sta_list := sta_list y @ [take ETH_ALEN a], sta_count := sta_count y + 1\<rparr>"
  let ?t = "s\<lparr>asked := Suc (asked s)\<rparr>"
  let ?y = "(?add (x\<lparr>sta_list_lock := True\<rparr>))\<lparr>sta_list_lock := False\<rparr>"
  have upd: "seqP (sta_acquire v) (seqP (upd_vif v ?add) (sta_release v)) ?t = Some (Ok (), vif_set v ?y ?t)"
    by (rule locked_update_run) (use x in simp_all)
  have fits: "vif_wf ?y" if "sta_count x \<le> sta_max x"
  proof -
    have "unat (sta_count x) \<le> 10" using that x(2) by (simp add: vif_wf_def word_le_nat_alt)
    then have "unat (sta_count x + 1) = unat (sta_count x) + 1" by (simp add: unat_word_ariths)
    then show ?thesis using x(2) \<open>unat (sta_count x) \<le> 10\<close> a by (auto simp: vif_wf_def)
  qed
  have "okay b {v} ?t" "vifs ?t v = Some x" using s x by simp_all
  then have ok: "okay b {v} (vif_set v ?y ?t)" if "sta_count x \<le> sta_max x"
    using okay_upd fits [OF that] by fastforce
  consider "sta_count x > sta_max x" | "sta_count x \<le> sta_max x" "wifi_kmalloc_ok env (asked s)" | "sta_count x \<le> sta_max x" "\<not> wifi_kmalloc_ok env (asked s)"
    by force
  then show "okay b {v} s' \<and> (\<forall>h. r \<noteq> Halt h)"
  proof cases
    case 2
    then have "mt7697_cfg80211_new_sta env v a s = Some (Ok (), vif_set v ?y ?t)"
      using upd x by (simp add: mt7697_cfg80211_new_sta_def with_vif_run answer_def leD)
    with run ok 2 show ?thesis by auto
  qed (use run x s in \<open>auto simp: mt7697_cfg80211_new_sta_def with_vif_run answer_def throwP_def not_less [symmetric] split: if_splits\<close>)
qed

lemma keeps_vifs_disconnect_req: "keeps (\<lambda>s. vifs s = W) (mt7697_wr_disconnect_req ops a)"
  by (auto simp: mt7697_wr_disconnect_req_def wr_request_def write_words_def memcpy_def intro!: keeps_intros)

lemma disconnect_req_succeeds:
  assumes "writes_succeed good ops" "okay True V s" "length a = 6" and run: "mt7697_wr_disconnect_req ops (Some a) s = Some (r, s')"
  shows "r = Ok ()"
proof -
  obtain q where q: "txq_hdl s = Some q" using assms(2) by (auto simp: okay_def is_open_def)
  have "unat (LEN_TO_WORD 16) = 4" by (simp add: unat_LEN_TO_WORD)
  then have four: "LEN_TO_WORD 16 = 4" by (simp add: word_unat_eq_iff)
  have w: "x = Ok 4" if "if_write ops q ws (hif s) = Some (x, h')" "length ws = 4" for x ws h'
  proof -
    have "length ws < 1024" using that by simp
    then have "x = Ok (int (length ws))" using assms(1) that okay_good [OF assms(2)] unfolding writes_succeed_def by blast
    with that show ?thesis by simp
  qed
  show ?thesis
    using run assms(3) q
    by (fastforce simp: mt7697_wr_disconnect_req_def memcpy_def bindP_returnP wr_request_def wifi_hdr_def write_words_def four
      length_bytes_words on_hif_def bindP_def getP_def returnP_def split: option.splits prod.splits if_splits dest!: w)
qed

lemma sound_del_sta [ops_sound]:
  assumes ops: "writes_succeed good ops" and a: "6 \<le> length a"
  shows "sound (okay True {v}) (mt7697_cfg80211_del_sta ops v a)"
proof (rule soundI)
  fix s r s' assume s: "okay True {v} s" and run: "mt7697_cfg80211_del_sta ops v a s = Some (r, s')"
  obtain x where x: "vifs s v = Some x" "vif_wf x" using okay_vif [OF s] by blast
  let ?a = "take 6 a" let ?s1 = "vif_set v (x\<lparr>sta_list_lock := True\<rparr>) s"
  have acq: "sta_acquire v s = Some (Ok (), ?s1)" using x by (intro sta_acquire_run) (auto simp: vif_wf_def)
  have rel: "sta_release v ?s1 = Some (Ok (), s)"
    using sta_release_run [of ?s1 v "x\<lparr>sta_list_lock := True\<rparr>"] vif_set_same [OF x(1)] vif_unlocked [OF x(2)] by simp
  have in1: "with_vif v k ?s1 = k (x\<lparr>sta_list_lock := True\<rparr>) ?s1" for k :: "mt7697_vif \<Rightarrow> ('h, unit) wifi_prog"
    by (simp add: with_vif_run)
  let ?del = "\<lambda>y. y\<lparr>sta_list := remove1 ?a (sta_list y), sta_count := sta_count y - 1\<rparr>"
  let ?upd = "seqP (sta_acquire v) (seqP (upd_vif v ?del) (sta_release v))"
  show "okay True {v} s' \<and> (\<forall>h. r \<noteq> Halt h)"
  proof (cases "?a \<in> set (sta_list x)")
    case False
    then have "mt7697_cfg80211_del_sta ops v a s = Some (Err (- EINVAL), s)"
      by (simp add: mt7697_cfg80211_del_sta_def acq in1 rel throwP_def)
    with run s show ?thesis by auto
  next
    case True
    have run': "tryP (mt7697_wr_disconnect_req ops (Some ?a)) (\<lambda>e. seqP (sta_release v) (throwP e)) (\<lambda>_. ?upd) s = Some (r, s')"
      using run True by (simp add: mt7697_cfg80211_del_sta_def acq in1 rel)
    then obtain q t where q: "mt7697_wr_disconnect_req ops (Some ?a) s = Some (q, t)" by (auto simp: tryP_def split: option.splits)
    have q_ok: "q = Ok ()" using disconnect_req_succeeds [OF ops s _ q] a by simp
    have t: "okay True {v} t" "vifs t v = Some x"
      using soundD [OF sound_disconnect_req s q] keepsD [OF keeps_vifs_disconnect_req _ q] a x by auto
    let ?y = "(?del (x\<lparr>sta_list_lock := True\<rparr>))\<lparr>sta_list_lock := False\<rparr>"
    have upd: "?upd t = Some (Ok (), vif_set v ?y t)" by (rule locked_update_run) (use t x in simp_all)
    have "0 < unat (sta_count x)" using True x(2) by (cases "sta_list x") (auto simp: vif_wf_def)
    then have "unat (sta_count x - 1) = unat (sta_count x) - 1" by (intro unat_minus_one) auto
    then have "vif_wf ?y" using x(2) True by (auto simp: vif_wf_def length_remove1 dest: notin_set_remove1)
    then have "okay True {v} (vif_set v ?y t)" using okay_upd t by fastforce
    with run' q q_ok upd show ?thesis by (auto simp: tryP_def)
  qed
qed

end

end
