(* ===== verification/Wifi_SoundStop.thy ===== *)
theory Wifi_SoundStop
  imports Wifi_SoundLinks
begin

text \<open>Opening, stopping and deleting interfaces.\<close>

text \<open>Stopping between the packets and the transport.\<close>

definition stop_quietly :: "'h mt7697_if_ops \<Rightarrow> nat \<Rightarrow> ('h, unit) wifi_prog" where
  "stop_quietly ops v =
     seqP (stop_links ops v)
     (seqP (upd_vif v (\<lambda>x. x\<lparr>sme_state := SME_DISCONNECTED, vif_flags := vif_flags x - {CONNECTED, CONNECT_PEND},
        iftype := NL80211_IFTYPE_STATION\<rparr>))
     (seqP (modifyP (\<lambda>s. s\<lparr>wifi_cfg := (wifi_cfg s)\<lparr>opmode := MT7697_WIFI_MODE_STA_ONLY\<rparr>, port_type := MT7697_PORT_STA\<rparr>))
     (seqP (mt7697_wr_set_op_mode_req ops)
     (seqP (upd_vif v (\<lambda>x. x\<lparr>ssid := replicate IEEE80211_MAX_SSID_LEN 0, req_bssid := replicate ETH_ALEN 0,
        pmk := replicate MT7697_WIFI_LENGTH_PMK 0\<rparr>))
     (seqP (tell (StopQueue v))
     (seqP (tell (CarrierOff v))
     (with_vif v (\<lambda>x. case scan_req x of None \<Rightarrow> returnP ()
        | Some r \<Rightarrow> seqP (tell (ScanDone r True)) (upd_vif v (\<lambda>y. y\<lparr>scan_req := None\<rparr>))))))))))"

lemma stop_split: "mt7697_cfg80211_stop ops v = seqP mt7697_tx_stop (seqP (stop_quietly ops v) (close_transport ops))"
  by (simp add: mt7697_cfg80211_stop_def stop_quietly_def seqP_def bindP_assoc)

context wifi_channel
begin

section \<open>The stations are sent away\<close>

text \<open>
  With the lock of the stations of \<open>v\<close> held, the invariant holds once it is given back; \<open>X\<close> are the stations.
\<close>

definition held :: "nat \<Rightarrow> u8 list list \<Rightarrow> 'h mt7697_cfg80211_info \<Rightarrow> bool" where
  "held v X s \<longleftrightarrow> (\<exists>x. vifs s v = Some x \<and> sta_list_lock x \<and> sta_list x = X \<and>
     okay True {v} (vif_set v (x\<lparr>sta_list_lock := False\<rparr>) s))"

lemma held_acquire:
  assumes s: "okay True {v} s" and x: "vifs s v = Some x"
  shows "\<exists>t. sta_acquire v s = Some (Ok (), t) \<and> held v (sta_list x) t"
proof -
  have wf: "vif_wf x" using okay_vif [OF s] x by auto
  let ?t = "vif_set v (x\<lparr>sta_list_lock := True\<rparr>) s"
  have "vif_set v ((x\<lparr>sta_list_lock := True\<rparr>)\<lparr>sta_list_lock := False\<rparr>) ?t = s"
    using x wf vif_unlocked vif_set_same by simp
  then have "held v (sta_list x) ?t" using s unfolding held_def by (intro exI [of _ "x\<lparr>sta_list_lock := True\<rparr>"]) simp
  moreover have "sta_acquire v s = Some (Ok (), ?t)" using x wf by (intro sta_acquire_run) (auto simp: vif_wf_def)
  ultimately show ?thesis by auto
qed

lemma held_release: "held v X s \<Longrightarrow> \<exists>t x. sta_release v s = Some (Ok (), t) \<and> okay True {v} t \<and> vifs t v = Some x \<and> sta_list x = X"
  unfolding held_def using sta_release_run by fastforce

lemma held_upd:
  assumes "held v X s" "\<And>y. sta_list_lock (f y) = sta_list_lock y" "\<And>y b. (f y)\<lparr>sta_list_lock := b\<rparr> = f (y\<lparr>sta_list_lock := b\<rparr>)"
    and "\<And>y. vif_wf y \<Longrightarrow> sta_list y = X \<Longrightarrow> vif_wf (f y)" "\<And>y. dev_up (f y) = dev_up y" "\<And>y. sta_list y = X \<Longrightarrow> sta_list (f y) = Y"
  shows "\<exists>t. upd_vif v f s = Some (Ok (), t) \<and> held v Y t"
proof -
  obtain x where x: "vifs s v = Some x" "sta_list_lock x" "sta_list x = X" and ok: "okay True {v} (vif_set v (x\<lparr>sta_list_lock := False\<rparr>) s)"
    using assms(1) by (auto simp: held_def)
  let ?z = "x\<lparr>sta_list_lock := False\<rparr>"
  have "vif_wf ?z" using okay_vif [OF ok, of v] by auto
  then have "okay True {v} (vif_set v (f ?z) (vif_set v ?z s))"
    by (intro okay_upd [OF ok, of v ?z]) (use assms(4,5) x in auto)
  then have "held v Y (vif_set v (f x) s)" using x assms(2,3,6) unfolding held_def by (intro exI [of _ "f x"]) simp
  then show ?thesis using upd_vif_run [OF x(1)] by auto
qed

text \<open>A request that fails leaves the lock free.\<close>

lemma stop_stations_run:
  shows "held v stas s \<Longrightarrow> \<forall>a \<in> set stas. length a = 6 \<Longrightarrow> stop_stations ops v stas s = Some (r, s') \<Longrightarrow>
    (r = Ok () \<and> held v [] s') \<or> (\<exists>e. r = Err e \<and> okay True {v} s')"
proof (induction stas arbitrary: s)
  case Nil
  then show ?case by (simp add: returnP_def)
next
  case (Cons a stas)
  obtain s1 x where s1: "sta_release v s = Some (Ok (), s1)" "okay True {v} s1" "vifs s1 v = Some x" "sta_list x = a # stas"
    using held_release [OF Cons.prems(1)] by blast
  let ?forget = "upd_vif v (\<lambda>x. x\<lparr>sta_list := remove1 a (sta_list x)\<rparr>)"
  have run: "seqP (mt7697_wr_disconnect_req ops (Some a)) (seqP (sta_acquire v) (seqP ?forget (stop_stations ops v stas))) s1 = Some (r, s')"
    using Cons.prems(3) s1 by simp
  then obtain q s2 where q: "mt7697_wr_disconnect_req ops (Some a) s1 = Some (q, s2)"
    by (cases "mt7697_wr_disconnect_req ops (Some a) s1") (auto simp: seqP_def bindP_def)
  have s2: "okay True {v} s2 \<and> (\<forall>h. q \<noteq> Halt h)"
    by (rule soundD [OF sound_disconnect_req s1(2) q]) (use Cons.prems(2) in auto)
  have x2: "vifs s2 v = Some x" using keepsD [OF keeps_vifs_disconnect_req _ q] s1(3) by simp
  show ?case
  proof (cases q)
    case (Ok u)
    obtain s3 where s3: "sta_acquire v s2 = Some (Ok (), s3)" "held v (a # stas) s3"
      using held_acquire [OF conjunct1 [OF s2] x2] s1(4) by auto
    have "\<exists>t. ?forget s3 = Some (Ok (), t) \<and> held v stas t"
      by (rule held_upd [OF s3(2)]) (auto simp: vif_wf_def)
    then obtain s4 where s4: "?forget s3 = Some (Ok (), s4)" "held v stas s4" by blast
    have "stop_stations ops v stas s4 = Some (r, s')" using run q Ok s3(1) s4(1) by simp
    then show ?thesis using Cons.IH [OF s4(2)] Cons.prems(2) by simp
  qed (use run q s2 in auto)
qed

lemma sound_stop_ap:
  shows "sound (okay True {v}) (seqP (sta_acquire v) (bindP (with_vif v (\<lambda>y. returnP (sta_list y)))
     (\<lambda>stas. seqP (stop_stations ops v stas) (seqP (upd_vif v (\<lambda>y. y\<lparr>sta_count := 0\<rparr>)) (sta_release v)))))" (is "sound _ ?m")
proof (rule soundI)
  fix s r s' assume s: "okay True {v} s" and run: "?m s = Some (r, s')"
  obtain x where x: "vifs s v = Some x" "vif_wf x" using okay_vif [OF s] by blast
  obtain s1 where s1: "sta_acquire v s = Some (Ok (), s1)" "held v (sta_list x) s1" using held_acquire [OF s x(1)] by blast
  have "with_vif v (\<lambda>y. returnP (sta_list y)) s1 = Some (Ok (sta_list x), s1)"
    using s1(2) by (auto simp: held_def with_vif_run returnP_def)
  with run s1 have run': "seqP (stop_stations ops v (sta_list x)) (seqP (upd_vif v (\<lambda>y. y\<lparr>sta_count := 0\<rparr>)) (sta_release v)) s1 = Some (r, s')"
    by simp
  then obtain q s2 where q: "stop_stations ops v (sta_list x) s1 = Some (q, s2)"
    by (cases "stop_stations ops v (sta_list x) s1") (auto simp: seqP_def bindP_def)
  have six: "\<forall>a \<in> set (sta_list x). length a = 6" using x(2) by (simp add: vif_wf_def)
  consider "q = Ok ()" "held v [] s2" | e where "q = Err e" "okay True {v} s2" using stop_stations_run [OF s1(2) six q] by blast
  then show "okay True {v} s' \<and> (\<forall>h. r \<noteq> Halt h)"
  proof cases
    case 1
    have "\<exists>t. upd_vif v (\<lambda>y. y\<lparr>sta_count := 0\<rparr>) s2 = Some (Ok (), t) \<and> held v [] t"
      by (rule held_upd [OF 1(2)]) (auto simp: vif_wf_def)
    then obtain s3 where s3: "upd_vif v (\<lambda>y. y\<lparr>sta_count := 0\<rparr>) s2 = Some (Ok (), s3)" "held v [] s3" by blast
    from held_release [OF s3(2)] run' q 1(1) s3(1) show ?thesis by auto
  qed (use run' q in auto)
qed

section \<open>Stopping\<close>

lemma sound_report_disconnected [ops_sound]: "sound (okay b {v}) (report_disconnected v)"
  unfolding report_disconnected_def by (auto intro!: sound_intros)

lemma sound_stop_links [ops_sound]: "sound (okay True {v}) (stop_links ops v)"
  unfolding stop_links_def
  by (rule sound_with_vif)
    (auto split: nl80211_iftype.splits intro!: sound_stop_ap sound_seqP sound_report_disconnected sound_disconnect_req sound_basic)

text \<open>Whatever happens, no packet waits any more.\<close>

abbreviation (input) stopped :: "bool \<Rightarrow> nat \<Rightarrow> 'h mt7697_cfg80211_info \<Rightarrow> bool" where
  "stopped b v s \<equiv> okay b {v} s \<and> tx_skb_list s = []"

lemma keeps_list_stop [keeps_intros]:
  "keeps (\<lambda>s. tx_skb_list s = X) (mt7697_wr_disconnect_req ops a)" "keeps (\<lambda>s. tx_skb_list s = X) (mt7697_wr_set_op_mode_req ops)"
  "keeps (\<lambda>s. tx_skb_list s = X) (sta_acquire v)" "keeps (\<lambda>s. tx_skb_list s = X) (sta_release v)"
  "keeps (\<lambda>s. tx_skb_list s = X) (upd_vif v f)" "keeps (\<lambda>s. tx_skb_list s = X) (tell e)"
  by (auto simp: mt7697_wr_disconnect_req_def mt7697_wr_set_op_mode_req_def wr_request_def write_words_def memcpy_def sta_acquire_def
    sta_release_def upd_vif_def with_vif_def tell_def intro!: keeps_intros)

lemma keeps_list_stations [keeps_intros]: "keeps (\<lambda>s. tx_skb_list s = X) (stop_stations ops v stas)"
  by (induction stas) (auto intro!: keeps_intros)

lemma keeps_list_with_vif [keeps_intros]:
  "(\<And>x. keeps (\<lambda>s. tx_skb_list s = X) (k x)) \<Longrightarrow> keeps (\<lambda>s. tx_skb_list s = X) (with_vif v k)"
  by (auto simp: with_vif_def intro!: keeps_intros)

lemma keeps_list_links [keeps_intros]: "keeps (\<lambda>s. tx_skb_list s = X) (stop_links ops v)"
  unfolding stop_links_def report_disconnected_def
  by (rule keeps_list_with_vif) (auto split: nl80211_iftype.splits intro!: keeps_intros)

lemma sound_stop_quietly: "sound (okay True {v}) (stop_quietly ops v)"
  unfolding stop_quietly_def
  by (auto simp: vif_wf_def okay_ap_ssid intro!: sound_intros sound_stop_links sound_requests)

lemma keeps_stop_quietly: "keeps (\<lambda>s. tx_skb_list s = X) (stop_quietly ops v)"
  unfolding stop_quietly_def by (auto intro!: keeps_intros)

end

context wifi_transport
begin

lemma leads_close_transport:
  shows "leads (okay True V) (okay False V) (close_transport ops)"
proof (rule leadsI)
  fix s r s' assume s: "okay True V s" and run: "close_transport ops s = Some (r, s')"
  obtain f where f: "if_close ops = Some f" "\<And>q h z h'. good h \<Longrightarrow> f (Some q) h = Some (z, h') \<Longrightarrow> good h' \<and> (\<exists>ret. z = Ok ret)"
    using can_close by blast
  obtain q where q: "txq_hdl s = Some q" using s by (auto simp: okay_def is_open_def)
  obtain z h' where z: "f (Some q) (hif s) = Some (z, h')"
    using run f q by (cases "f (Some q) (hif s)") (auto simp: close_transport_def on_hif_def bindP_def getP_def)
  obtain ret where ret: "z = Ok ret" "good h'" using f(2) [OF okay_good [OF s] z] by blast
  then have "s' = s\<lparr>hif := h', txq_hdl := None, rxq_hdl := None\<rparr> \<and> (\<forall>h. r \<noteq> Halt h)"
    using run f(1) q z by (auto simp: close_transport_def on_hif_def prog_defs split: if_splits)
  moreover have "okay False V (s\<lparr>hif := h', txq_hdl := None, rxq_hdl := None\<rparr>)"
    using s ret by (simp add: okay_def wifi_wf_def packet_wf_def)
  ultimately show "okay False V s' \<and> (\<forall>h. r \<noteq> Halt h)" by simp
qed

lemma leads_stop:
  shows "leads (okay True {v}) (stopped False v) (mt7697_cfg80211_stop ops v)"
  unfolding stop_split
proof (rule leads_seq)
  show "leads (okay True {v}) (stopped True v) mt7697_tx_stop"
    by (rule leadsI) (use tx_stop_run in fastforce)
  show "leads (stopped True v) (stopped False v) (seqP (stop_quietly ops v) (close_transport ops))"
  proof (rule leads_seq)
    show "leads (stopped True v) (stopped True v) (stop_quietly ops v)"
      by (rule leads_sound, rule sound_keeps [OF sound_stop_quietly keeps_stop_quietly])
    have list: "keeps (\<lambda>s. tx_skb_list s = []) (close_transport ops)"
      by (auto simp: close_transport_def intro!: keeps_intros)
    show "leads (stopped True v) (stopped False v) (close_transport ops)"
    proof (rule leadsI)
      fix s r s' assume "stopped True v s" "close_transport ops s = Some (r, s')"
      then show "stopped False v s' \<and> (\<forall>h. r \<noteq> Halt h)"
        using leadsD [OF leads_close_transport [of "{v}"], of s r s'] keepsD [OF list, of s r s'] by simp
    qed
  qed (auto simp: okay_def)
qed (auto simp: okay_def)

lemma leads_mt7697_stop:
  shows "leads (okay True {v}) (stopped False v) (mt7697_stop ops v)"
  unfolding mt7697_stop_def
proof (rule leadsI)
  fix s r s' assume s: "okay True {v} s"
    and run: "seqP (upd_vif v (\<lambda>x. x\<lparr>vif_flags := vif_flags x - {WLAN_ENABLED}\<rparr>)) (mt7697_cfg80211_stop ops v) s = Some (r, s')"
  obtain x where x: "vifs s v = Some x" "vif_wf x" using okay_vif [OF s] by blast
  let ?y = "x\<lparr>vif_flags := vif_flags x - {WLAN_ENABLED}\<rparr>"
  have "okay True {v} (vif_set v ?y s)" by (rule okay_upd [OF s x(1)]) (use x(2) in \<open>simp_all add: vif_wf_def\<close>)
  moreover have "mt7697_cfg80211_stop ops v (vif_set v ?y s) = Some (r, s')" using run upd_vif_run [OF x(1)] by simp
  ultimately show "stopped False v s' \<and> (\<forall>h. r \<noteq> Halt h)" by (rule leadsD [OF leads_stop])
qed

end

end
