(* ===== verification/Wifi_SoundIface.thy ===== *)
theory Wifi_SoundIface
  imports Wifi_SoundStop
begin

text \<open>Making and deleting interfaces.\<close>

context wifi_channel
begin

section \<open>Freeing an interface\<close>

lemma okay_free:
  assumes s: "okay b V s" and out: "v \<notin> set (vif_list s)" and idle: "vif_down v s \<or> tx_skb_list s = []"
  shows "okay b {} (s\<lparr>vifs := (vifs s)(v := None)\<rparr>)"
proof -
  let ?t = "s\<lparr>vifs := (vifs s)(v := None)\<rparr>"
  have "packet_wf ?t i" if "i \<in> set (tx_skb_list s)" for i
  proof -
    have "packet_wf s i" using that s by (simp add: okay_def wifi_wf_def)
    moreover have "vif_down v s" using idle that by auto
    ultimately show ?thesis 
      unfolding packet_wf_def vif_down_def by (elim conjE exE) (rule conjI, assumption, rule exI, auto)
  qed
  moreover have "vif_list ?t = [] \<or> (\<exists>w. vif_list ?t = [w] \<and> vifs ?t w \<noteq> None)"
  proof (cases "vif_list s")
    case (Cons w ws)
    then have "ws = []" "vifs s w \<noteq> None" "w \<noteq> v" using s out by (auto simp: okay_def wifi_wf_def)
    with Cons show ?thesis by simp
  qed simp
  ultimately show ?thesis using s unfolding okay_def wifi_wf_def by (auto simp: is_open_def)
qed

lemma free_netdev_run: "free_netdev v s = Some (Ok (), s\<lparr>events := FreeNetdev v # events s, vifs := (vifs s)(v := None)\<rparr>)"
  by (simp add: free_netdev_def tell_def modifyP_def seqP_def)

lemma free_netdev_okay:
  assumes "okay b V s" "v \<notin> set (vif_list s)" "vif_down v s \<or> tx_skb_list s = []"
  shows "okay b {} (s\<lparr>events := es, vifs := (vifs s)(v := None)\<rparr>)"
  using okay_free [of b V "s\<lparr>events := es\<rparr>" v] assms by (simp add: vif_down_def)

section \<open>Making an interface\<close>

lemma new_vif_wf: "vif_wf (new_vif ty 0)"
  by (simp add: vif_wf_def new_vif_def)

lemma okay_new:
  assumes "okay b {} s"
  shows "okay b {next_vif s} (s\<lparr>next_vif := Suc (next_vif s), vifs := (vifs s)(next_vif s \<mapsto> new_vif ty 0)\<rparr>)"
proof -
  let ?t = "s\<lparr>next_vif := Suc (next_vif s), vifs := (vifs s)(next_vif s \<mapsto> new_vif ty 0)\<rparr>"
  have old: "w < next_vif s" if "vifs s w = Some x" for w x using that assms by (auto simp: okay_def wifi_wf_def)
  have "packet_wf ?t i" if "packet_wf s i" for i
    using that old by (fastforce simp: packet_wf_def)
  then show ?thesis using assms new_vif_wf by (auto simp: okay_def wifi_wf_def is_open_def intro: less_SucI)
qed

text \<open>The list is empty, and the new interface \<open>v\<close> is down.\<close>

definition fresh :: "bool \<Rightarrow> nat \<Rightarrow> 'h mt7697_cfg80211_info \<Rightarrow> bool" where
  "fresh b v s \<longleftrightarrow> okay b {v} s \<and> vif_list s = [] \<and> vif_down v s"

lemma fresh_quiet: "fresh b v s \<Longrightarrow> fresh b v (s\<lparr>asked := n\<rparr>)" "fresh b v s \<Longrightarrow> fresh b v (s\<lparr>events := es\<rparr>)"
  by (simp_all add: fresh_def vif_down_def)

lemma fresh_free: "fresh b v s \<Longrightarrow> free_netdev v s = Some (Ok (), t) \<Longrightarrow> okay b {} t"
  using free_netdev_okay [of b "{v}" s v] by (auto simp: fresh_def free_netdev_run)

lemma okay_link:
  assumes "fresh b v s"
  shows "okay b {} (s\<lparr>vif_list := [v]\<rparr>)"
  using assms by (auto simp: fresh_def okay_def wifi_wf_def packet_wf_def is_open_def)

lemma leads_register_vif:
  "leads (fresh b v) (okay b {}) (register_vif env v)"
proof (rule leadsI)
  fix s r s' assume s: "fresh b v s" and run: "register_vif env v s = Some (r, s')"
  let ?t = "s\<lparr>asked := Suc (asked s)\<rparr>"
  show "okay b {} s' \<and> (\<forall>h. r \<noteq> Halt h)"
  proof (cases "register_netdevice_ret env (asked s) = 0")
    case False
    then have "s' = ?t\<lparr>events := FreeNetdev v # events ?t, vifs := (vifs ?t)(v := None)\<rparr>" "r = Ok None"
      using run by (auto simp: register_vif_def answer_def free_netdev_run returnP_def)
    then show ?thesis using fresh_free [OF fresh_quiet(1) [OF s] free_netdev_run] by simp
  next
    case True
    obtain x where x: "vifs s v = Some x" "\<not> dev_up x" "vif_wf x" "\<not> vif_list_lock s" "vif_list s = []"
      using s okay_vif [of b "{v}" s v] by (auto simp: fresh_def vif_down_def okay_def wifi_wf_def)
    let ?y = "x\<lparr>sme_state := SME_DISCONNECTED, vif_flags := insert WLAN_ENABLED (vif_flags x)\<rparr>"
    let ?es = "CarrierOff v # RegisterNetdev v # events s"
    let ?u = "vif_set v ?y (?t\<lparr>events := ?es\<rparr>)"
    have lock: "?u\<lparr>vif_list_lock := True, vif_list := [v], vif_list_lock := False\<rparr> = ?u\<lparr>vif_list := [v]\<rparr>"
      using x by simp
    have "okay b {v} ?u"
      by (rule okay_upd [of b "{v}" "?t\<lparr>events := ?es\<rparr>" v x]) (use s x in \<open>auto simp: fresh_def vif_wf_def\<close>)
    then have "fresh b v ?u" using x by (simp add: fresh_def vif_down_def)
    moreover have "s' = ?u\<lparr>vif_list := [v]\<rparr>" "r = Ok (Some v)"
      using run True x lock
      by (auto simp: register_vif_def answer_def tell_def upd_vif_def with_vif_def vif_list_acquire_def vif_list_release_def
        modifyP_def returnP_def getP_def bindP_def seqP_def)
    ultimately show ?thesis using okay_link by simp
  qed
qed

lemma sound_interface_add [ops_sound]: "sound (okay b {}) (mt7697_interface_add env ty 0)"
proof (rule soundI)
  fix s r s' assume s: "okay b {} s" and run: "mt7697_interface_add env ty 0 s = Some (r, s')"
  show "okay b {} s' \<and> (\<forall>h. r \<noteq> Halt h)"
  proof (cases "vif_list s = []")
    case True
    let ?a = "s\<lparr>asked := Suc (asked s)\<rparr>"
    let ?v = "next_vif s"
    let ?n = "?a\<lparr>next_vif := Suc ?v, vifs := (vifs s)(?v \<mapsto> new_vif ty 0)\<rparr>"
    let ?m = "?n\<lparr>asked := Suc (Suc (asked s))\<rparr>"
    have "okay b {?v} ?n" using okay_new [of b ?a ty] s by simp
    moreover have "vif_list ?n = []" "vif_down ?v ?n" using True by (simp_all add: vif_down_def new_vif_def)
    ultimately have "fresh b ?v ?n" unfolding fresh_def by blast
    then have fresh: "fresh b ?v ?m" by (rule fresh_quiet)
    consider "\<not> alloc_etherdev_ok env (asked s)" | "alloc_etherdev_ok env (asked s)" "dev_alloc_name_ret env (Suc (asked s)) < 0"
      | "alloc_etherdev_ok env (asked s)" "\<not> dev_alloc_name_ret env (Suc (asked s)) < 0" by blast
    then show ?thesis
    proof cases
      case 1
      then show ?thesis using run True s by (auto simp: mt7697_interface_add_def answer_def returnP_def)
    next
      case 2
      then have "s' = ?m\<lparr>events := FreeNetdev ?v # events ?m, vifs := (vifs ?m)(?v := None)\<rparr>" "r = Ok None"
        using run True by (auto simp: mt7697_interface_add_def answer_def make_vif_def free_netdev_run modifyP_def returnP_def getP_def bindP_def seqP_def)
      then show ?thesis using fresh_free [OF fresh free_netdev_run] by simp
    next
      case 3
      then have "register_vif env ?v ?m = Some (r, s')"
        using run True by (auto simp: mt7697_interface_add_def answer_def make_vif_def modifyP_def returnP_def getP_def bindP_def seqP_def)
      then show ?thesis using leadsD [OF leads_register_vif fresh] by simp
    qed
  next
    case False
    then obtain z v where "mt7697_get_vif_by_idx 0 s = Some (Ok z, s)" "z = Some v"
      using get_vif_run [OF okay_wf [OF s], of 0] by (auto split: option.splits)
    then show ?thesis using run False s by (auto simp: mt7697_interface_add_def returnP_def)
  qed
qed

end

context wifi_transport
begin

section \<open>Deleting an interface\<close>

text \<open>What stopping leaves alone: the list of interfaces and whether they are up.\<close>

definition same_shape :: "nat list \<Rightarrow> bool \<Rightarrow> nat \<Rightarrow> 'h mt7697_cfg80211_info \<Rightarrow> bool" where
  "same_shape X d v s \<longleftrightarrow> vif_list s = X \<and> (d \<longrightarrow> vif_down v s)"

lemma keeps_shape_upd [keeps_intros]:
  "(\<And>x. dev_up (f x) = dev_up x) \<Longrightarrow> keeps (same_shape X d v) (upd_vif w f)"
  by (auto simp: keeps_def upd_vif_def with_vif_def same_shape_def vif_down_def prog_defs split: option.splits)

lemma keeps_shape_with_vif [keeps_intros]:
  "(\<And>x. keeps (same_shape X d v) (k x)) \<Longrightarrow> keeps (same_shape X d v) (with_vif w k)"
  by (auto simp: with_vif_def intro!: keeps_intros)

lemma keeps_shape_simple [keeps_intros]:
  "keeps (same_shape X d v) (tell e)" "keeps (same_shape X d v) (mt7697_wr_disconnect_req ops a)"
  "keeps (same_shape X d v) (mt7697_wr_set_op_mode_req ops)" "keeps (same_shape X d v) (close_transport ops)"
  by (auto simp: tell_def mt7697_wr_disconnect_req_def mt7697_wr_set_op_mode_req_def wr_request_def write_words_def memcpy_def
    close_transport_def same_shape_def vif_down_def intro!: keeps_intros)

lemma keeps_shape_lock [keeps_intros]:
  "keeps (same_shape X d v) (sta_acquire w)" "keeps (same_shape X d v) (sta_release w)"
  by (auto simp: sta_acquire_def sta_release_def intro!: keeps_intros)

lemma keeps_shape_stations [keeps_intros]: "keeps (same_shape X d v) (stop_stations ops w stas)"
  by (induction stas) (auto intro!: keeps_intros)

lemma keeps_shape_links [keeps_intros]: "keeps (same_shape X d v) (stop_links ops w)"
  unfolding stop_links_def report_disconnected_def
  by (rule keeps_shape_with_vif) (auto split: nl80211_iftype.splits intro!: keeps_intros)

lemma keeps_shape_tx_stop [keeps_intros]: "keeps (same_shape X d v) mt7697_tx_stop"
  by (auto simp: mt7697_tx_stop_def tx_stop_packet_def pool_packet_def upd_stats_def same_shape_def vif_down_def
    intro!: keeps_intros keeps_shape_upd [unfolded same_shape_def vif_down_def])

lemma keeps_shape_stop [keeps_intros]: "keeps (same_shape X d v) (mt7697_cfg80211_stop ops w)"
  unfolding stop_split stop_quietly_def
  by (auto simp: same_shape_def vif_down_def intro!: keeps_intros keeps_shape_upd [unfolded same_shape_def vif_down_def]
    keeps_shape_with_vif [unfolded same_shape_def vif_down_def] keeps_shape_simple [unfolded same_shape_def vif_down_def])

lemma mt7697_stop_shape:
  assumes s: "okay True {v} s" "same_shape X d v s" and run: "mt7697_stop ops v s = Some (r, s')"
  shows "stopped False v s' \<and> same_shape X d v s' \<and> (\<forall>h. r \<noteq> Halt h)"
proof -
  have "keeps (same_shape X d v) (mt7697_stop ops v)"
    unfolding mt7697_stop_def by (auto intro!: keeps_intros)
  from keepsD [OF this s(2) run] leadsD [OF leads_mt7697_stop s(1) run] show ?thesis by simp
qed

lemma unregister_run:
  assumes s: "okay False {v} s" "v \<notin> set (vif_list s)" "vif_down v s \<or> is_open s"
    and run: "unregister_netdev ops v s = Some (r, s')"
  shows "okay False {} s' \<and> vif_list s' = vif_list s \<and> (\<forall>h. r \<noteq> Halt h)"
proof -
  obtain x where x: "vifs s v = Some x" using okay_vif [OF s(1)] by blast
  let ?free = "seqP (tell (UnregisterNetdev v)) (free_netdev v)"
  have free: "okay False {} t' \<and> vif_list t' = vif_list t \<and> r' = Ok ()"
    if "?free t = Some (r', t')" "okay False {v} t" "vif_list t = vif_list s" "vif_down v t \<or> tx_skb_list t = []" for t r' t'
  proof -
    let ?es = "FreeNetdev v # UnregisterNetdev v # events t"
    have "t' = t\<lparr>events := ?es, vifs := (vifs t)(v := None)\<rparr>" "r' = Ok ()"
      using that(1) by (auto simp: tell_def modifyP_def seqP_def free_netdev_run)
    then show ?thesis using free_netdev_okay [OF that(2), of v ?es] that(3,4) s(2) by simp
  qed
  show ?thesis
  proof (cases "dev_up x")
    case False
    then have "?free s = Some (r, s')"
      using run x by (simp add: unregister_netdev_def with_vif_run seqP_def bindP_returnP)
    with free [OF _ s(1)] False x show ?thesis by (auto simp: vif_down_def)
  next
    case True
    then have "is_open s" using s(3) x by (auto simp: vif_down_def)
    then have ok: "okay True {v} s" using s(1) by (simp add: okay_def)
    have run': "seqP (tryP (mt7697_stop ops v) (\<lambda>_. returnP ()) returnP) ?free s = Some (r, s')"
      using run x True by (simp add: unregister_netdev_def with_vif_run)
    then obtain q t where q: "mt7697_stop ops v s = Some (q, t)"
      by (cases "mt7697_stop ops v s") (auto simp: seqP_def bindP_def tryP_def)
    have t: "stopped False v t" "vif_list t = vif_list s" "\<forall>h. q \<noteq> Halt h"
      using mt7697_stop_shape [OF ok _ q, of "vif_list s" False] by (simp_all add: same_shape_def)
    then have "?free t = Some (r, s')" using run' q by (cases q) (auto simp: seqP_def bindP_def tryP_def returnP_def)
    from free [OF this conjunct1 [OF t(1)] t(2)] t show ?thesis by simp
  qed
qed

lemma okay_unlist:
  assumes "okay b V s"
  shows "okay b V (s\<lparr>vif_list := []\<rparr>)"
  using assms by (auto simp: okay_def wifi_wf_def packet_wf_def is_open_def)

lemma locked_unlink_run:
  assumes "okay b V s"
  shows "vif_list_acquire s = Some (Ok (), s\<lparr>vif_list_lock := True\<rparr>)"
    and "vif_list_release (s\<lparr>vif_list_lock := True, vif_list := X\<rparr>) = Some (Ok (), s\<lparr>vif_list := X\<rparr>)"
proof -
  have lock: "vif_list_lock s = False" using assms by (simp add: okay_def wifi_wf_def)
  then show "vif_list_acquire s = Some (Ok (), s\<lparr>vif_list_lock := True\<rparr>)"
    by (simp add: vif_list_acquire_def bindP_def getP_def modifyP_def)
  have "s\<lparr>vif_list_lock := True, vif_list := X, vif_list_lock := False\<rparr> = s\<lparr>vif_list := X\<rparr>"
    using lock by (cases s) simp
  then show "vif_list_release (s\<lparr>vif_list_lock := True, vif_list := X\<rparr>) = Some (Ok (), s\<lparr>vif_list := X\<rparr>)"
    by (simp add: vif_list_release_def modifyP_def)
qed

lemma remove_listed:
  assumes "okay b {v} s"
  shows "v \<notin> set (remove1 v (vif_list s)) \<and> okay b {v} (s\<lparr>vif_list := remove1 v (vif_list s)\<rparr>)"
proof (cases "vif_list s = [v]")
  case True
  then show ?thesis using okay_unlist [OF assms] by simp
next
  case False
  then have "v \<notin> set (vif_list s)" using assms by (auto simp: okay_def wifi_wf_def)
  then show ?thesis using assms by (simp add: remove1_idem okay_def wifi_wf_def packet_wf_def is_open_def)
qed

lemma leads_del_iface:
  shows "leads (\<lambda>s. okay True {v} s \<and> vif_down v s) (okay False {}) (mt7697_cfg80211_del_iface ops v)"
proof (rule leadsI)
  fix s r s' assume s: "okay True {v} s \<and> vif_down v s" and run: "mt7697_cfg80211_del_iface ops v s = Some (r, s')"
  let ?X = "remove1 v (vif_list s)"
  let ?t = "s\<lparr>vif_list := ?X\<rparr>"
  have "okay True {v} s" using s by blast
  note lock = locked_unlink_run [OF this] and t = remove_listed [OF this]
  have "unlink_vif v (s\<lparr>vif_list_lock := True\<rparr>) = Some (Ok (), s\<lparr>vif_list_lock := True, vif_list := ?X\<rparr>)"
    by (simp add: unlink_vif_def modifyP_def)
  then have run': "seqP (mt7697_cfg80211_stop ops v) (unregister_netdev ops v) ?t = Some (r, s')"
    using run lock by (simp add: mt7697_cfg80211_del_iface_def)
  then obtain q u where q: "mt7697_cfg80211_stop ops v ?t = Some (q, u)"
    by (cases "mt7697_cfg80211_stop ops v ?t") (auto simp: seqP_def bindP_def)
  have u: "stopped False v u" "\<forall>h. q \<noteq> Halt h" using leadsD [OF leads_stop conjunct2 [OF t] q] by auto
  have "same_shape ?X True v ?t" using s by (simp add: same_shape_def vif_down_def)
  then have shape: "vif_list u = ?X" "vif_down v u" using keepsD [OF keeps_shape_stop _ q] by (auto simp: same_shape_def)
  show "okay False {} s' \<and> (\<forall>h. r \<noteq> Halt h)"
  proof (cases q)
    case (Ok a)
    then have "unregister_netdev ops v u = Some (r, s')" using run' q by simp
    then show ?thesis using unregister_run [of v u r s'] u shape t by simp
  next
    case (Err e)
    then show ?thesis using run' q u by (auto simp: okay_def)
  qed (use u in auto)
qed

section \<open>Removal\<close>

lemma leads_cleanup_vif:
  shows "leads (\<lambda>s. okay False {} s \<and> (is_open s \<or> (\<forall>v \<in> set (vif_list s). vif_down v s))) (okay False {}) (mt7697_cleanup_vif ops)"
proof (rule leadsI)
  fix s r s' assume s: "okay False {} s \<and> (is_open s \<or> (\<forall>v \<in> set (vif_list s). vif_down v s))"
    and run: "mt7697_cleanup_vif ops s = Some (r, s')"
  have ok: "okay False {} s" using s by blast
  note lock = locked_unlink_run [OF ok]
  have same: "s\<lparr>vif_list_lock := True\<rparr> = s\<lparr>vif_list_lock := True, vif_list := vif_list s\<rparr>" by simp
  show "okay False {} s' \<and> (\<forall>h. r \<noteq> Halt h)"
  proof (cases "vif_list s = []")
    case True
    then have "vif_list_release (s\<lparr>vif_list_lock := True\<rparr>) = Some (Ok (), s)"
      using lock(2) [of "vif_list s"] unfolding same [symmetric] by simp
    then have "s' = s" "r = Ok ()"
      using run True lock(1) by (auto simp: mt7697_cleanup_vif_def returnP_def)
    with ok show ?thesis by simp
  next
    case False
    then obtain v where v: "vif_list s = [v]" "vifs s v \<noteq> None" using ok by (auto simp: okay_def wifi_wf_def)
    let ?t = "s\<lparr>vif_list := []\<rparr>"
    have t: "okay False {v} ?t" using okay_unlist [OF ok] v by (simp add: okay_def)
    have "shutdown_transport ops (s\<lparr>vif_list_lock := True\<rparr>) = Some (Ok (), s\<lparr>vif_list_lock := True\<rparr>)"
      by (simp add: shutdown_transport_def no_shutdown returnP_def)
    moreover have "unlink_vif v (s\<lparr>vif_list_lock := True\<rparr>) = Some (Ok (), s\<lparr>vif_list_lock := True, vif_list := []\<rparr>)"
      using v by (simp add: unlink_vif_def modifyP_def)
    ultimately have run': "seqP (seqP (unregister_netdev ops v) (seqP vif_list_acquire (returnP ()))) vif_list_release ?t = Some (r, s')"
      using run lock v by (simp add: mt7697_cleanup_vif_def seqP_def bindP_assoc bindP_returnP)
    then obtain q u where q: "unregister_netdev ops v ?t = Some (q, u)"
      by (cases "unregister_netdev ops v ?t") (auto simp: seqP_def bindP_def)
    have "vif_down v ?t \<or> is_open ?t" using s v by (auto simp: vif_down_def is_open_def)
    then have u: "okay False {} u" "\<forall>h. q \<noteq> Halt h" using unregister_run [OF t _ _ q] by auto
    then show ?thesis
      using run' q locked_unlink_run(1) [OF u(1)] locked_unlink_run(2) [OF u(1), of "vif_list u"]
      by (cases q) (auto simp: seqP_def bindP_assoc bindP_def returnP_def)
  qed
qed

lemma okay_registered [simp]: "okay b V (s\<lparr>wiphy_registered := w\<rparr>) = okay b V s"
  by (simp add: okay_def wifi_wf_def packet_wf_def is_open_def)

lemma leads_remove:
  shows "leads (\<lambda>s. okay False {} s \<and> (is_open s \<or> (\<forall>v \<in> set (vif_list s). vif_down v s))) (okay False {}) (mt7697_remove ops)"
proof -
  have rest: "leads (okay False {}) (okay False {}) (seqP (seqP (tell FlushWq) (seqP (tell DestroyWq) (bindP (getP wiphy_registered) (\<lambda>reg.
      whenP reg (seqP (tell UnregisterWiphy) (modifyP (\<lambda>s. s\<lparr>wiphy_registered := False\<rparr>))))))) (tell FreeWiphy))"
    by (rule leads_sound) (auto intro!: sound_intros)
  show ?thesis
    using leads_seq [OF leads_cleanup_vif rest] by (simp add: mt7697_remove_def mt7697_cfg80211_cleanup_def seqP_def bindP_assoc)
qed

end

end
