(* ===== verification/Wifi_SoundAll.thy ===== *)
theory Wifi_SoundAll
  imports Wifi_SoundIface
begin

text \<open>The messages, the operations of the configuration interface and the wireless extensions.\<close>

context wifi_channel
begin

section \<open>Messages\<close>

lemma sound_get_params: "sound (okay True V) (mt7697_cfg80211_get_params ops)"
  unfolding mt7697_cfg80211_get_params_def by (auto intro!: sound_intros sound_requests)

lemma sound_proc_mac_addr:
  shows "sound (okay True {}) (mt7697_proc_mac_addr ops env msg)"
  unfolding mt7697_proc_mac_addr_def
  by (auto intro!: sound_intros sound_read_bytes sound_interface_add)

lemma sound_proc_wireless_mode:
  shows "sound (okay True {}) (mt7697_proc_get_wireless_mode ops msg)"
  unfolding mt7697_proc_get_wireless_mode_def by (auto intro!: sound_intros sound_read_u32)

lemma sound_proc_listen_interval:
  shows "sound (okay True {}) (mt7697_proc_get_listen_interval ops msg)"
  unfolding mt7697_proc_get_listen_interval_def by (auto intro!: sound_intros sound_read_u32)

lemma sound_take_config:
  assumes c: "length (ap_ssid (ap_config c)) = 32"
  shows "sound (okay True {}) (take_config ops c)"
  unfolding take_config_def by (auto simp: c intro!: sound_intros sound_get_params)

lemma sound_proc_get_cfg:
  shows "sound (okay True {}) (mt7697_proc_get_cfg ops env msg)"
  unfolding mt7697_proc_get_cfg_def
  by (auto simp: wifi_config_of_def ap_config_of_def slice_def intro!: sound_intros sound_read_bytes sound_take_config)

lemma sound_has_band [ops_sound]:
  assumes "sound (okay b V) (k True)"
  shows "sound (okay b V) (bindP (has_band band) k)"
  unfolding has_band_def by (rule sound_get) (use assms okay_bands in \<open>fastforce\<close>)

lemma sound_scan_frame [ops_sound]: "sound (okay b V) (scan_frame env ch bs n rssi)"
  unfolding scan_frame_def inform_frame_def Let_def wiphy_channels_def
  by (auto intro!: sound_intros sound_has_band)

lemma sound_proc_scan_ind:
  shows "sound (okay True {}) (mt7697_proc_scan_ind ops env msg)"
  unfolding mt7697_proc_scan_ind_def
  by (auto intro!: sound_intros sound_read_u32 sound_read_bytes sound_scan_frame)

lemma sound_proc_scan_rsp:
  shows "sound (okay True {}) (mt7697_proc_scan_rsp ops msg)"
  unfolding mt7697_proc_scan_rsp_def by (auto intro!: sound_intros sound_read_u32)

lemma sound_scan_over [ops_sound]: "sound (okay b {v}) (scan_over v aborted)"
  unfolding scan_over_def by (auto simp: vif_wf_def intro!: sound_intros)

lemma sound_proc_scan_complete:
  shows "sound (okay True {}) (mt7697_proc_scan_complete_ind ops)"
  unfolding mt7697_proc_scan_complete_ind_def
  by (auto intro!: sound_intros sound_read_u32 sound_with_idx sound_scan_over)

lemma sound_add_bss [ops_sound]: "sound (okay b {v}) (mt7697_add_bss_if_needed env v a freq)"
  unfolding mt7697_add_bss_if_needed_def wiphy_channels_def by (auto intro!: sound_intros)

lemma sound_connect_event [ops_sound]:
  assumes "6 \<le> length a"
  shows "sound (okay b {v}) (mt7697_cfg80211_connect_event env v a ch)"
proof -
  have report: "sound (okay b {v}) (report_connected v a)"
    unfolding report_connected_def
    by (intro sound_with_vif sound_if sound_tell sound_memcpy) (auto simp: vif_wf_def assms intro!: sound_intros)
  show ?thesis
    unfolding mt7697_cfg80211_connect_event_def connected_on_def
    by (auto simp: vif_wf_def intro!: sound_intros sound_has_band sound_add_bss report)
qed

lemma sound_ap_connected [ops_sound]: "6 \<le> length a \<Longrightarrow> sound (okay b {v}) (ap_connected env v a)"
  unfolding ap_connected_def by (auto simp: vif_wf_def intro!: sound_intros sound_new_sta)

lemma sound_proc_connect:
  shows "sound (okay True {}) (mt7697_proc_connect_ind ops env msg)"
  unfolding mt7697_proc_connect_ind_def sta_connected_def
  by (auto intro!: sound_intros sound_read_u32 sound_read_bytes sound_with_idx sound_connect_event sound_ap_connected)

lemma sound_link_lost [ops_sound]: "sound (okay b {v}) (link_lost v)"
  unfolding link_lost_def by (auto simp: vif_wf_def intro!: sound_intros)

lemma sound_proc_disconnect:
  assumes ops: "writes_succeed good ops"
  shows "sound (okay True {}) (mt7697_proc_disconnect_ind ops)"
  unfolding mt7697_proc_disconnect_ind_def
  by (auto intro!: sound_intros sound_read_u32 sound_read_bytes sound_with_idx sound_disconnect_req sound_report_disconnected
    sound_link_lost sound_del_sta ops)

lemma sound_rx_failed [ops_sound]: "sound (okay b {v}) (rx_failed (Some v) e)"
  unfolding rx_failed_def by (auto intro!: sound_intros)

lemma sound_deliver [ops_sound]: "sound (okay b {v}) (deliver_frame env v frame)"
  unfolding deliver_frame_def by (auto intro!: sound_intros sound_rx_failed)

lemma rx_data_run:
  assumes s: "okay True {} s" "vif_list s \<noteq> []" and run: "mt7697_rx_data env bs n 0 s = Some (r, s')"
  shows "okay True {} s' \<and> (\<forall>h. r \<noteq> Halt h)"
proof -
  obtain v where z: "mt7697_get_vif_by_idx 0 s = Some (Ok (Some v), s)" "vifs s v \<noteq> None"
    using get_vif_run [OF okay_wf [OF s(1)], of 0] s(2) by (auto split: option.splits)
  let ?rest = "with_vif v (\<lambda>x. if \<not> dev_up x then rx_failed (Some v) (- EINVAL)
     else if unat n < sizeof_ieee80211_hdr \<or> unat n > IEEE80211_MAX_FRAME_LEN then
       seqP (upd_stats v (\<lambda>t. t\<lparr>rx_length_errors := rx_length_errors t + 1\<rparr>)) (rx_failed (Some v) (- EINVAL))
     else bindP (answer (wifi_kmalloc_ok env)) (\<lambda>ok.
       if \<not> ok then rx_failed (Some v) (- ENOMEM) else deliver_frame env v (take (unat n) bs)))"
  have "sound (okay True {v}) ?rest" by (auto intro!: sound_intros sound_rx_failed sound_deliver)
  moreover have "?rest s = Some (r, s')" using run z(1) by (simp add: mt7697_rx_data_def)
  moreover have "okay True {v} s" using s z by (simp add: okay_def)
  ultimately have "okay True {v} s' \<and> (\<forall>h. r \<noteq> Halt h)" by (blast dest: soundD)
  then show ?thesis by (simp add: okay_def)
qed

lemma sound_rx_raw:
  shows "sound (okay True {}) (mt7697_rx_raw ops env msg)"
proof -
  have "sound (okay True {}) (bindP (getP vif_list) (\<lambda>vs. if vs = [] then returnP n else mt7697_rx_data env bs len 0))"
    for n bs len
  proof (rule soundI)
    fix s r s' assume "okay True {} s"
      "bindP (getP vif_list) (\<lambda>vs. if vs = [] then returnP n else mt7697_rx_data env bs len 0) s = Some (r, s')"
    then show "okay True {} s' \<and> (\<forall>h. r \<noteq> Halt h)"
      using rx_data_run [of s env bs len r s'] by (auto simp: returnP_def split: if_splits)
  qed
  then show ?thesis
    unfolding mt7697_rx_raw_def by (auto intro!: sound_basic sound_if sound_read_bytes)
qed

lemma sound_message:
  assumes d: "cmd_type msg = wifi_cmd_code MT7697_CMD_DISCONNECT_IND \<Longrightarrow> writes_succeed good ops"
  shows "sound (okay True {}) (mt7697_proc_80211cmd ops env msg)"
  unfolding mt7697_proc_80211cmd_def Let_def
  by (intro sound_if sound_basic sound_proc_mac_addr sound_proc_wireless_mode sound_proc_get_cfg sound_proc_listen_interval
    sound_proc_scan_rsp sound_proc_scan_ind sound_proc_scan_complete sound_proc_connect sound_proc_disconnect sound_rx_raw d)

section \<open>The configuration interface\<close>

lemma sound_security [ops_sound]:
  "sound (okay b {v}) (mt7697_set_key_mgmt v k)" "sound (okay b {v}) (mt7697_set_cipher v c u)"
  "sound (okay b {v}) (mt7697_set_wpa_version v w)"
  unfolding mt7697_set_key_mgmt_def mt7697_set_cipher_def set_crypto_def mt7697_set_wpa_version_def
  by (auto simp: vif_wf_def intro!: sound_intros)

lemma sound_disconnect [ops_sound]: "sound (okay True {v}) (mt7697_disconnect ops v)"
  unfolding mt7697_disconnect_def
  by (auto simp: vif_wf_def intro!: sound_intros sound_report_disconnected sound_disconnect_req)

lemma sound_clear_ssid [ops_sound]: "sound (okay b {v}) (clear_ssid v)"
  unfolding clear_ssid_def by (auto simp: vif_wf_def intro!: sound_intros)

lemma sound_cfg_disconnect [ops_sound]: "sound (okay True {v}) (mt7697_cfg80211_disconnect ops env v)"
  unfolding mt7697_cfg80211_disconnect_def
  by (auto simp: vif_wf_def intro!: sound_intros sound_disconnect sound_clear_ssid)

lemma sound_disconnect_work [ops_sound]:
  "sound (okay True {v}) (mt7697_cfg80211_disconnect_work ops v)" "sound (okay True {v}) (mt7697_cfg80211_leave_ibss ops v)"
  unfolding mt7697_cfg80211_disconnect_work_def mt7697_cfg80211_leave_ibss_def
  by (auto intro!: sound_intros sound_disconnect sound_clear_ssid)

lemma sound_join_ibss [ops_sound]:
  assumes "length name \<le> 32"
  shows "sound (okay b {v}) (mt7697_cfg80211_join_ibss v name)"
  unfolding mt7697_cfg80211_join_ibss_def
  by (intro sound_with_vif sound_memcpy) (use assms in \<open>auto simp: vif_wf_def intro!: sound_intros\<close>)

lemma sound_scan [ops_sound]:
  assumes "\<And>name rest. names = name # rest \<Longrightarrow> length name \<le> 32"
  shows "sound (okay True {v}) (mt7697_cfg80211_scan ops v request names)"
  unfolding mt7697_cfg80211_scan_def Let_def
  by (auto simp: vif_wf_def intro!: sound_intros sound_scan_req assms)

lemma sound_multicast [ops_sound]: "sound (okay b {v}) (mt7697_set_multicast_list v n multi)"
  unfolding mt7697_set_multicast_list_def by (auto simp: vif_wf_def intro!: sound_intros)

lemma sound_set_mode [ops_sound]: "sound (okay b {v}) (set_mode v m port ty)"
  unfolding set_mode_def by (auto simp: vif_wf_def okay_ap_ssid intro!: sound_intros)

lemma sound_change_iface [ops_sound]: "sound (okay True {v}) (mt7697_cfg80211_change_iface ops v ty)"
  by (cases ty) (auto simp: change_mode_def vif_wf_def intro!: sound_intros sound_set_mode sound_requests)

lemma sound_change_station [ops_sound]: "sound (okay b {v}) (mt7697_cfg80211_change_station env v)"
  unfolding mt7697_cfg80211_change_station_def by (auto intro!: sound_intros)

lemma sound_frame_register [ops_sound]: "sound (okay b {v}) (mt7697_cfg80211_mgmt_frame_register v ft reg)"
  unfolding mt7697_cfg80211_mgmt_frame_register_def by (auto simp: vif_wf_def intro!: sound_intros)

lemma sound_ap_name:
  assumes "unat (ap_name_len a) \<le> length (ap_name a)" "unat (ap_name_len a) \<le> 32"
  shows "sound (okay True {v}) (ap_name_set ops env a)"
  unfolding ap_name_set_def
proof (rule sound_seqP)
  show "sound (okay True {v}) (mt7697_wr_set_ssid_req ops env (ap_name_len a) (ap_name a))"
    by (rule sound_set_ssid) (use assms in auto)
  show "sound (okay True {v}) (bindP (getP wifi_cfg) (\<lambda>c. bindP (memcpy (ap_ssid (ap_config c)) (ap_name a) (unat (ap_name_len a)))
      (\<lambda>bs. modifyP (\<lambda>s. s\<lparr>wifi_cfg := c\<lparr>ap_config := (ap_config c)\<lparr>ap_ssid_len := ap_name_len a, ap_ssid := bs\<rparr>\<rparr>\<rparr>))))"
    by (rule sound_get, rule sound_memcpy) (use assms in \<open>auto simp: okay_ap_ssid intro!: sound_intros\<close>)
qed

lemma sound_ap_channel: "sound (okay True {v}) (ap_channel_set ops env v freq)"
  unfolding ap_channel_set_def Let_def by (auto simp: vif_wf_def okay_ap_ssid intro!: sound_intros sound_requests)

lemma sound_ap_security: "sound (okay True {v}) (ap_security_set ops v a)"
  unfolding ap_security_set_def by (auto intro!: sound_intros sound_security sound_requests)

lemma sound_start_ap [ops_sound]:
  assumes "unat (ap_name_len a) \<le> length (ap_name a)" "unat (ap_name_len a) \<le> 32"
  shows "sound (okay True {v}) (mt7697_cfg80211_start_ap ops env v a)"
  unfolding mt7697_cfg80211_start_ap_def
  by (auto intro!: sound_intros sound_ap_name sound_ap_channel sound_ap_security sound_requests assms)

section \<open>The wireless extensions\<close>

lemma sound_siwfreq [ops_sound]: "sound (okay b {v}) (mt7697_wext_siwfreq fl v m e)"
  unfolding mt7697_wext_siwfreq_def by (auto simp: vif_wf_def intro!: sound_intros)

lemma sound_siwmode [ops_sound]: "sound (okay b {v}) (mt7697_wext_siwmode v mode)"
  unfolding mt7697_wext_siwmode_def by (auto intro!: sound_intros sound_set_mode)

lemma sound_siwap [ops_sound]:
  assumes "length addr = 6"
  shows "sound (okay b {v}) (mt7697_wext_siwap v addr)"
  unfolding mt7697_wext_siwap_def
  by (intro sound_with_vif sound_memcpy) (use assms in \<open>auto simp: vif_wf_def intro!: sound_intros\<close>)

lemma sound_siwencodeext [ops_sound]:
  assumes "length key \<le> 32"
  shows "sound (okay b {v}) (mt7697_wext_siwencodeext v alg key)"
  unfolding mt7697_wext_siwencodeext_def
  by (intro sound_with_vif sound_if sound_basic sound_memcpy) (use assms in \<open>auto simp: vif_wf_def intro!: sound_intros\<close>)

lemma sound_join_network: "sound (okay True {v}) (join_network ops env v)"
proof -
  have key: "sound (okay True {v}) (send_key_or_open ops v)"
    unfolding send_key_or_open_def by (auto simp: vif_wf_def intro!: sound_intros sound_set_pmk sound_requests)
  have start: "sound (okay True {v}) (start_connection ops v)"
    unfolding start_connection_def by (auto simp: vif_wf_def intro!: sound_intros sound_requests)
  show ?thesis
    unfolding join_network_def by (auto simp: vif_wf_def intro!: sound_intros sound_set_bssid sound_requests key start)
qed

lemma essid_len_le: "essid_len flags data \<le> length data"
  by (simp add: essid_len_def Let_def)

lemma sound_siwessid [ops_sound]:
  assumes n: "essid_len flags data \<le> 32"
  shows "sound (okay True {v}) (mt7697_wext_siwessid ops env v flags data)"
proof -
  have u: "unat (word_of_nat (essid_len flags data) :: u8) = essid_len flags data" using n by (simp add: unat_of_nat)
  have ssid: "sound (okay True {v}) (mt7697_wr_set_ssid_req ops env (word_of_nat (essid_len flags data)) data)"
    by (rule sound_set_ssid) (simp_all add: u n essid_len_le)
  have none: "sound (okay True {v}) (mt7697_wr_set_ssid_req ops env 0 data)" by (rule sound_set_ssid) simp_all
  show ?thesis
    unfolding mt7697_wext_siwessid_def Let_def
    by (intro sound_with_vif sound_if sound_basic sound_memcpy)
      (use n essid_len_le in \<open>auto simp: vif_wf_def intro!: sound_intros sound_requests ssid none sound_join_network sound_disconnect_req\<close>)
qed

lemma sound_giwrange [ops_sound]: "sound (okay b V) mt7697_wext_giwrange"
  unfolding mt7697_wext_giwrange_def Let_def
  by (rule sound_get) (use okay_bands in \<open>fastforce intro!: sound_intros\<close>)

section \<open>Up and down\<close>

lemma okay_hdls: "okay b V s \<Longrightarrow> okay False V (s\<lparr>txq_hdl := q\<rparr>)" "okay b V s \<Longrightarrow> okay False V (s\<lparr>rxq_hdl := q\<rparr>)"
  by (simp_all add: okay_def wifi_wf_def packet_wf_def)

end

context wifi_transport
begin

text \<open>Opening does not fail, but it may leave the transport closed.\<close>

lemma sound_open [ops_sound]: "sound (okay False {v}) (mt7697_open ops v)"
proof -
  let ?up = "seqP (upd_vif v (\<lambda>x. x\<lparr>vif_flags := insert WLAN_ENABLED (vif_flags x)\<rparr>))
       (with_vif v (\<lambda>x. seqP (tell (CarrierOn v)) (whenP (CONNECTED \<in> vif_flags x) (tell (WakeQueue v)))))"
  have up: "sound (okay False {v}) ?up" by (auto simp: vif_wf_def intro!: sound_intros)
  obtain f where f: "if_open ops = Some f" "\<And>h r h'. good h \<Longrightarrow> f h = Some (r, h') \<Longrightarrow> good h' \<and> (\<exists>z. r = Ok z)"
    using can_open by blast
  show ?thesis
    unfolding mt7697_open_def Let_def f(1)
    by (auto intro!: sound_get sound_case_prod sound_if sound_bind sound_seqP sound_on_hif up sound_modifyP okay_hdls sound_basic
      dest: f(2))
qed

lemma upd_down:
  assumes s: "stopped b v s"
  shows "\<exists>t. upd_vif v (\<lambda>x. x\<lparr>dev_up := False\<rparr>) s = Some (Ok (), t) \<and> okay b {v} t"
proof -
  obtain x where x: "vifs s v = Some x" "vif_wf x" using okay_vif [of b "{v}" s v] s by blast
  have "vif_wf (x\<lparr>dev_up := False\<rparr>)" using x(2) by (simp add: vif_wf_def)
  then have "okay b {v} (vif_set v (x\<lparr>dev_up := False\<rparr>) s)" using s x by (auto simp: okay_def wifi_wf_def is_open_def)
  then show ?thesis using upd_vif_run [OF x(1)] by blast
qed

lemma leads_down:
  "leads (okay True {v}) (okay False {v}) (tryP (mt7697_stop ops v) (\<lambda>_. upd_vif v (\<lambda>x. x\<lparr>dev_up := False\<rparr>))
     (\<lambda>_. upd_vif v (\<lambda>x. x\<lparr>dev_up := False\<rparr>)))" (is "leads _ _ ?m")
proof (rule leadsI)
  fix s r s' assume s: "okay True {v} s" and run: "?m s = Some (r, s')"
  then obtain q t where q: "mt7697_stop ops v s = Some (q, t)" by (auto simp: tryP_def split: option.splits)
  have t: "stopped False v t" "\<forall>h. q \<noteq> Halt h" using leadsD [OF leads_mt7697_stop s q] by auto
  with upd_down [OF t(1)] run q show "okay False {v} s' \<and> (\<forall>h. r \<noteq> Halt h)" by (cases q) (auto simp: tryP_def)
qed

end

end
