(* ===== verification/Wifi_Reach.thy ===== *)
theory Wifi_Reach
  imports Wifi_SoundAll
begin

text \<open>
  The wireless driver as a state machine: what the firmware, the kernel and user space may do and when, the states
  that can be reached, and the proof that none of them leads to undefined behaviour.
\<close>

section \<open>The operations\<close>

datatype wifi_op =
    OMessage mt7697_rsp_hdr
  | OTransmit sk_buff
  | OTxWork
  | OUp nat
  | ODown nat
  | OMulticast nat nat bool
  | OScan nat nat "u8 list list"
  | ODisconnect nat
  | ODisconnectWork nat
  | ODisconnectTimer nat
  | OJoinIbss nat "u8 list"
  | OLeaveIbss nat
  | OChangeIface nat nl80211_iftype
  | OChangeStation nat
  | OFrameRegister nat u16 bool
  | OStartAp nat cfg80211_ap_settings
  | ODelIface nat
  | OSetFreq nat int int
  | OSetMode nat u32
  | OSetAp nat "u8 list"
  | OSetEssid nat bool "u8 list"
  | OSetKey nat u16 "u8 list"
  | OGetRange

text \<open>
  The kernel sets the flag of a device that has been opened, and clears it after stopping whatever the driver says.
  \<open>freq_list\<close> are the frequencies of the first channels.
\<close>

definition set_up :: "nat \<Rightarrow> bool \<Rightarrow> ('h, unit) wifi_prog" where
  "set_up v u = upd_vif v (\<lambda>x. x\<lparr>dev_up := u\<rparr>)"

definition freq_list :: "int list" where
  "freq_list = [2412, 2417, 2422, 2427, 2432, 2437, 2442, 2447, 2452, 2457, 2462, 2467, 2472, 2484]"

definition noticed :: "('h, 'a) wifi_prog \<Rightarrow> ('h, unit) wifi_prog" where
  "noticed m = bindP m (\<lambda>_. returnP ())"

fun run_wifi_op :: "'h mt7697_if_ops \<Rightarrow> wifi_env \<Rightarrow> wifi_op \<Rightarrow> ('h, unit) wifi_prog" where
  "run_wifi_op ops env (OMessage msg) = noticed (mt7697_proc_80211cmd ops env msg)"
| "run_wifi_op ops env (OTransmit skb) = noticed (mt7697_data_tx env skb (skb_dev skb))"
| "run_wifi_op ops env OTxWork = mt7697_tx_work ops"
| "run_wifi_op ops env (OUp v) = seqP (mt7697_open ops v) (set_up v True)"
| "run_wifi_op ops env (ODown v) = tryP (mt7697_stop ops v) (\<lambda>_. set_up v False) (\<lambda>_. set_up v False)"
| "run_wifi_op ops env (OMulticast v n allmulti) = mt7697_set_multicast_list v n allmulti"
| "run_wifi_op ops env (OScan v request names) = mt7697_cfg80211_scan ops v request names"
| "run_wifi_op ops env (ODisconnect v) = mt7697_cfg80211_disconnect ops env v"
| "run_wifi_op ops env (ODisconnectWork v) = mt7697_cfg80211_disconnect_work ops v"
| "run_wifi_op ops env (ODisconnectTimer v) = mt7697_disconnect_timer_hndlr v"
| "run_wifi_op ops env (OJoinIbss v name) = mt7697_cfg80211_join_ibss v name"
| "run_wifi_op ops env (OLeaveIbss v) = mt7697_cfg80211_leave_ibss ops v"
| "run_wifi_op ops env (OChangeIface v ty) = mt7697_cfg80211_change_iface ops v ty"
| "run_wifi_op ops env (OChangeStation v) = mt7697_cfg80211_change_station env v"
| "run_wifi_op ops env (OFrameRegister v ft reg) = mt7697_cfg80211_mgmt_frame_register v ft reg"
| "run_wifi_op ops env (OStartAp v a) = mt7697_cfg80211_start_ap ops env v a"
| "run_wifi_op ops env (ODelIface v) = mt7697_cfg80211_del_iface ops v"
| "run_wifi_op ops env (OSetFreq v m e) = mt7697_wext_siwfreq freq_list v m e"
| "run_wifi_op ops env (OSetMode v mode) = mt7697_wext_siwmode v mode"
| "run_wifi_op ops env (OSetAp v addr) = mt7697_wext_siwap v addr"
| "run_wifi_op ops env (OSetEssid v flags data) = mt7697_wext_siwessid ops env v flags data"
| "run_wifi_op ops env (OSetKey v alg key) = mt7697_wext_siwencodeext v alg key"
| "run_wifi_op ops env OGetRange = noticed mt7697_wext_giwrange"

text \<open>
  What an operation needs.  \<open>sends\<close> are the operations that use the transport, which must be open; the driver itself
  does not look.  The lengths are the ones the kernel or user space must respect, as the driver does not check them.
\<close>

fun uses_transport :: "wifi_op \<Rightarrow> bool" where
  "uses_transport (OMessage _) = True"
| "uses_transport OTxWork = True"
| "uses_transport (ODown _) = True"
| "uses_transport (OScan _ _ _) = True"
| "uses_transport (ODisconnect _) = True"
| "uses_transport (ODisconnectWork _) = True"
| "uses_transport (OLeaveIbss _) = True"
| "uses_transport (OChangeIface _ _) = True"
| "uses_transport (OStartAp _ _) = True"
| "uses_transport (ODelIface _) = True"
| "uses_transport (OSetEssid _ _ _) = True"
| "uses_transport _ = False"

fun vif_of_op :: "wifi_op \<Rightarrow> nat option" where
  "vif_of_op (OMessage _) = None"
| "vif_of_op (OTransmit skb) = Some (skb_dev skb)"
| "vif_of_op OTxWork = None"
| "vif_of_op OGetRange = None"
| "vif_of_op (OUp v) = Some v"
| "vif_of_op (ODown v) = Some v"
| "vif_of_op (OMulticast v _ _) = Some v"
| "vif_of_op (OScan v _ _) = Some v"
| "vif_of_op (ODisconnect v) = Some v"
| "vif_of_op (ODisconnectWork v) = Some v"
| "vif_of_op (ODisconnectTimer v) = Some v"
| "vif_of_op (OJoinIbss v _) = Some v"
| "vif_of_op (OLeaveIbss v) = Some v"
| "vif_of_op (OChangeIface v _) = Some v"
| "vif_of_op (OChangeStation v) = Some v"
| "vif_of_op (OFrameRegister v _ _) = Some v"
| "vif_of_op (OStartAp v _) = Some v"
| "vif_of_op (ODelIface v) = Some v"
| "vif_of_op (OSetFreq v _ _) = Some v"
| "vif_of_op (OSetMode v _) = Some v"
| "vif_of_op (OSetAp v _) = Some v"
| "vif_of_op (OSetEssid v _ _) = Some v"
| "vif_of_op (OSetKey v _ _) = Some v"

text \<open>
  \<open>sure\<close> are the states of the transport in which no write fails: the loss of a station is handled with the lock of the
  list of stations released twice when the request to the firmware fails.
\<close>

fun args_ok :: "('h \<Rightarrow> bool) \<Rightarrow> 'h mt7697_cfg80211_info \<Rightarrow> wifi_op \<Rightarrow> bool" where
  "args_ok sure s (OMessage msg) \<longleftrightarrow> (cmd_type msg = wifi_cmd_code MT7697_CMD_DISCONNECT_IND \<longrightarrow> sure (hif s))"
| "args_ok sure s (OTransmit skb) \<longleftrightarrow> length (skb_data skb) \<le> 2352 \<and> \<not> vif_down (skb_dev skb) s"
| "args_ok sure s (OUp v) \<longleftrightarrow> vif_down v s"
| "args_ok sure s (OScan v r names) \<longleftrightarrow> (case names of [] \<Rightarrow> True | name # _ \<Rightarrow> length name \<le> 32)"
| "args_ok sure s (OJoinIbss v name) \<longleftrightarrow> length name \<le> 32"
| "args_ok sure s (OStartAp v a) \<longleftrightarrow> unat (ap_name_len a) \<le> length (ap_name a) \<and> unat (ap_name_len a) \<le> 32"
| "args_ok sure s (ODelIface v) \<longleftrightarrow> vif_down v s"
| "args_ok sure s (OSetAp v addr) \<longleftrightarrow> length addr = 6"
| "args_ok sure s (OSetEssid v flags data) \<longleftrightarrow> essid_len flags data \<le> 32"
| "args_ok sure s (OSetKey v alg key) \<longleftrightarrow> length key \<le> 32"
| "args_ok sure s _ \<longleftrightarrow> True"

definition allowed :: "('h \<Rightarrow> bool) \<Rightarrow> 'h mt7697_cfg80211_info \<Rightarrow> wifi_op \<Rightarrow> bool" where
  "allowed sure s op \<longleftrightarrow> args_ok sure s op \<and> (uses_transport op \<longrightarrow> is_open s) \<and>
     (case vif_of_op op of None \<Rightarrow> True | Some v \<Rightarrow> vifs s v \<noteq> None)"

inductive wifi_reach :: "('h \<Rightarrow> bool) \<Rightarrow> ('h \<Rightarrow> bool) \<Rightarrow> 'h mt7697_if_ops \<Rightarrow> wifi_env \<Rightarrow> 'h mt7697_cfg80211_info \<Rightarrow> bool"
  for good sure ops env where
  Start: "good h \<Longrightarrow> mt7697_probe env wiphy_ok wq_ok name (new_cfg h) = Some (Ok HwUart, s0) \<Longrightarrow>
    mt7697_init_hw_start ops HwUart s0 = Some (Ok (), s) \<Longrightarrow> wifi_reach good sure ops env s"
| Step: "wifi_reach good sure ops env s \<Longrightarrow> allowed sure s op \<Longrightarrow> run_wifi_op ops env op s = Some (r, s') \<Longrightarrow>
    wifi_reach good sure ops env s'"

inductive_cases wifi_reachE: "wifi_reach good sure ops env s"

section \<open>The invariant is kept\<close>

context reliable_transport
begin

lemma leads_noticed: "leads I J m \<Longrightarrow> leads I J (noticed m)"
  unfolding noticed_def by (rule leads_bind) (auto simp: leads_def returnP_def)

lemma leads_okay: "sound (okay b V) m \<Longrightarrow> leads (okay b V) (okay False {}) m"
  by (rule leads_mono [OF leads_sound [of "okay b V" m]]) (auto simp: okay_def)

lemma leads_okay_op:
  assumes "sound (okay (uses_transport op) (set_option (vif_of_op op))) (run_wifi_op ops env op)"
  shows "leads (\<lambda>s. okay False {} s \<and> allowed sure s op) (okay False {}) (run_wifi_op ops env op)"
  by (rule leads_mono [OF leads_okay [OF assms]]) (auto simp: allowed_def okay_def split: option.splits)

lemma sound_set_up: "sound (okay b {v}) (set_up v True)"
  unfolding set_up_def by (auto simp: vif_wf_def intro!: sound_intros)

lemma leads_allowed_tx:
  "leads (\<lambda>s. okay False {} s \<and> allowed sure s (OTransmit skb)) (okay False {}) (run_wifi_op ops env (OTransmit skb))"
proof (rule leadsI)
  fix s r s' assume s: "okay False {} s \<and> allowed sure s (OTransmit skb)" and run: "run_wifi_op ops env (OTransmit skb) s = Some (r, s')"
  then have up: "okay_up False (skb_dev skb) s" and len: "length (skb_data skb) \<le> 2352"
    by (auto simp: allowed_def okay_up_def okay_def vif_down_def)
  from leadsD [OF leads_noticed [OF leads_data_tx [OF len refl]] up run [unfolded run_wifi_op.simps]]
  show "okay False {} s' \<and> (\<forall>h. r \<noteq> Halt h)" by (auto simp: okay_def)
qed

lemma leads_allowed_message:
  "leads (\<lambda>s. okay False {} s \<and> allowed sure s (OMessage msg)) (okay False {}) (run_wifi_op ops env (OMessage msg))"
proof (cases "cmd_type msg = wifi_cmd_code MT7697_CMD_DISCONNECT_IND")
  case True
  have "leads (sure.okay True {}) (okay False {}) (noticed (mt7697_proc_80211cmd ops env msg))"
    by (rule leads_mono [OF leads_noticed [OF leads_sound [OF sure.sound_message]]])
      (auto simp: sure_writes sure.okay_def okay_def dest: sure_good)
  then show ?thesis unfolding run_wifi_op.simps by (rule leads_mono) (auto simp: True allowed_def okay_def sure.okay_def)
next
  case False
  then have "sound (okay True {}) (noticed (mt7697_proc_80211cmd ops env msg))"
    unfolding noticed_def by (intro sound_bind sound_message sound_basic) auto
  then show ?thesis using leads_okay_op [of "OMessage msg"] by simp
qed

lemma leads_allowed:
  shows "leads (\<lambda>s. okay False {} s \<and> allowed sure s op) (okay False {}) (run_wifi_op ops env op)" (is "leads ?I _ _")
proof (cases op)
  case (OMessage msg)
  then show ?thesis using leads_allowed_message by simp
next
  case (OTransmit skb)
  then show ?thesis using leads_allowed_tx by simp
next
  case (ODown v)
  have "leads (okay True {v}) (okay False {}) (run_wifi_op ops env op)"
    unfolding ODown run_wifi_op.simps set_up_def
    by (rule leads_mono [OF leads_down]) (auto simp: okay_def)
  then show ?thesis by (rule leads_mono) (auto simp: ODown allowed_def okay_def)
next
  case (ODelIface v)
  have "leads (\<lambda>s. okay True {v} s \<and> vif_down v s) (okay False {}) (run_wifi_op ops env op)"
    unfolding ODelIface run_wifi_op.simps by (rule leads_del_iface)
  then show ?thesis by (rule leads_mono) (auto simp: ODelIface allowed_def okay_def)
next
  case (OUp v)
  then show ?thesis using leads_okay_op [of op] by (auto intro: sound_seqP sound_open sound_set_up)
next
  case (OScan v q names)
  show ?thesis
  proof (cases "case names of [] \<Rightarrow> True | name # _ \<Rightarrow> length name \<le> 32")
    case True
    then have "sound (okay True {v}) (mt7697_cfg80211_scan ops v q names)" by (intro sound_scan) auto
    then show ?thesis using leads_okay_op [of op] OScan by simp
  qed (use OScan in \<open>auto simp: leads_def allowed_def\<close>)
next
  case (OJoinIbss v name)
  then show ?thesis
    using leads_okay_op [of op] sound_join_ibss [of name False v] by (cases "length name \<le> 32") (auto simp: leads_def allowed_def)
next
  case (OStartAp v a)
  then show ?thesis
    using leads_okay_op [of op] sound_start_ap [of a v env]
    by (cases "unat (ap_name_len a) \<le> length (ap_name a) \<and> unat (ap_name_len a) \<le> 32") (auto simp: leads_def allowed_def)
next
  case (OSetAp v addr)
  then show ?thesis
    using leads_okay_op [of op] sound_siwap [of addr False v] by (cases "length addr = 6") (auto simp: leads_def allowed_def)
next
  case (OSetEssid v flags data)
  then show ?thesis
    using leads_okay_op [of op] sound_siwessid [of flags data v env] by (cases "essid_len flags data \<le> 32") (auto simp: leads_def allowed_def)
next
  case (OSetKey v alg key)
  then show ?thesis
    using leads_okay_op [of op] sound_siwencodeext [of key False v alg] by (cases "length key \<le> 32") (auto simp: leads_def allowed_def)
qed (use leads_okay_op [of op] in \<open>simp_all add: sound_tx_work sound_multicast sound_cfg_disconnect sound_disconnect_work
    sound_change_iface sound_change_station sound_frame_register sound_siwfreq sound_siwmode sound_tell sound_giwrange
    mt7697_disconnect_timer_hndlr_def noticed_def sound_bind sound_basic\<close>)

text \<open>The driver starts in the invariant.\<close>

lemma okay_start:
  assumes good: "good h" and probe: "mt7697_probe env wiphy_ok wq_ok name (new_cfg h) = Some (Ok HwUart, s0)"
  shows "okay False {} s0"
  using probe
  by (auto simp: mt7697_probe_def mt7697_cfg80211_init_def new_cfg_def okay_def wifi_wf_def wifi_config_of_def
    Let_def seqP_def prog_defs tell_def answer_def good ap_config_of_def Wifi_Types.slice_def split: if_splits option.splits)

lemma sound_init_hw_start: "sound (okay False {}) (mt7697_init_hw_start ops HwUart)"
proof (rule soundI)
  fix s r s' assume s: "okay False {} s" and run: "mt7697_init_hw_start ops HwUart s = Some (r, s')"
  let ?req = "tryP (mt7697_wr_cfg_req ops) (\<lambda>_. returnP ()) returnP"
  obtain f where f: "if_open ops = Some f" "\<And>h r h'. good h \<Longrightarrow> f h = Some (r, h') \<Longrightarrow> good h' \<and> (\<exists>z. r = Ok z)"
    using can_open by blast
  obtain q h where q: "f (hif s) = Some (q, h)"
    using run by (cases "f (hif s)") (auto simp: mt7697_init_hw_start_def open_line_def f(1) on_hif_def bindP_def)
  with f(2) [OF okay_good [OF s]] obtain z where z: "good h" "q = Ok z" by blast
  show "okay False {} s' \<and> (\<forall>h. r \<noteq> Halt h)"
  proof (cases z)
    case None
    then have "s' = s\<lparr>hif := h, txq_hdl := None\<rparr>" "r = Ok ()"
      using run q z by (auto simp: mt7697_init_hw_start_def open_line_def f(1) on_hif_def prog_defs seqP_def)
    then show ?thesis using okay_hdls(1) [OF okay_hif [OF s z(1)]] by simp
  next
    case (Some g)
    let ?t = "s\<lparr>hif := h, txq_hdl := Some g, rxq_hdl := Some g\<rparr>"
    have "?req ?t = Some (r, s')"
      using run q z Some by (auto simp: mt7697_init_hw_start_def open_line_def f(1) on_hif_def bindP_def seqP_def modifyP_def returnP_def)
    moreover have "okay True {} ?t"
      using okay_hif [OF s z(1)] by (simp add: okay_def wifi_wf_def packet_wf_def is_open_def)
    moreover have "sound (okay True {}) ?req" by (intro sound_tryP sound_requests sound_basic)
    ultimately have "okay True {} s' \<and> (\<forall>h. r \<noteq> Halt h)" by (blast dest: soundD)
    then show ?thesis by (simp add: okay_def)
  qed
qed

lemma reach_okay:
  assumes reach: "wifi_reach good sure ops env s"
  shows "okay False {} s"
  using reach
proof (induction rule: wifi_reach.induct)
  case (Start h wiphy_ok wq_ok name s0 s)
  have "okay False {} s0" using Start.hyps(1,2) by (rule okay_start)
  from soundD [OF sound_init_hw_start this Start.hyps(3)] show ?case ..
next
  case (Step s op r s')
  with leads_allowed show ?case by (blast dest: leadsD)
qed

lemma allowed_no_halt:
  assumes reach: "wifi_reach good sure ops env s"
    and op: "allowed sure s op"
  shows "run_wifi_op ops env op s \<noteq> Some (Halt h, s')"
  using leadsD [OF leads_allowed, of s op env "Halt h" s'] reach_okay [OF reach] op by auto

end

end
