(* ===== verification/Wifi_Live.thy ===== *)
theory Wifi_Live
  imports Wifi_Reach
begin

text \<open>
  The serial driver keeps the contract of the wireless driver's transport, so that the wireless driver never ends in
  undefined behaviour on it as long as it is used in the order its callers must respect.
\<close>

section \<open>A read gives what it reports\<close>

text \<open>What \<^verbatim>\<open>kernel_read\<close> promises: the bytes it has placed in the buffer are as many as it says and as there is room for.\<close>

definition exact_reads :: "'l tty_ops \<Rightarrow> bool" where
  "exact_reads ops \<longleftrightarrow> (\<forall>fd n l k bs l'. kernel_read ops fd n l = ((k, bs), l') \<longrightarrow> 0 < k \<longrightarrow> length bs = nat k \<and> nat k \<le> n)"

lemma exact_readsD: "exact_reads ops \<Longrightarrow> kernel_read ops fd n l = ((k, bs), l') \<Longrightarrow> 0 < k \<Longrightarrow> length bs = nat k \<and> nat k \<le> n"
  unfolding exact_reads_def by blast

lemma bytes_left:
  assumes "0 < k" "nat k \<le> unat (count :: u32)"
  shows "unat (count - word_of_int k) = unat count - nat k"
proof -
  obtain n where n: "k = int n" using assms(1) zero_less_imp_eq_int by blast
  then have "(word_of_int k :: u32) = word_of_nat n" by simp
  moreover have "unat (word_of_nat n :: u32) = n"
    using assms n unsigned_less [of count, where 'a = nat] by (intro unat_word_of_nat_u32) auto
  ultimately show ?thesis using assms n by (simp add: unat_sub_if')
qed

lemma read_loop_length:
  assumes ex: "exact_reads ops" and run: "read_loop ops fd count buf s = Some (Ok (True, buf'), s')"
  shows "length buf' = length buf + unat count"
proof -
  have "exact_reads ops \<longrightarrow> (\<forall>b. fst (Ok (True, buf') :: (bool \<times> u8 list) outcome, s') = Ok (True, b) \<longrightarrow> length b = length buf + unat count)"
  proof (rule read_loop.raw_induct [OF _ run])
    fix loop and ops :: "'a tty_ops" and fd count buf s and rs :: "(bool \<times> u8 list) outcome \<times> 'a mt7697_uart_info"
    assume IH: "\<And>ops fd count buf s rs. loop ops fd count buf s = Some rs \<Longrightarrow>
        exact_reads ops \<longrightarrow> (\<forall>b. fst rs = Ok (True, b) \<longrightarrow> length b = length buf + unat (count :: u32))"
      and step: "bindP (on_line (kernel_read ops fd (unat count))) (\<lambda>r s1.
         if fst r \<le> 0 then returnP (False, buf) s1
         else if count - word_of_int (fst r) = 0 then returnP (True, buf @ snd r) s1
         else loop ops fd (count - word_of_int (fst r)) (buf @ snd r) s1) s = Some rs"
    show "exact_reads ops \<longrightarrow> (\<forall>b. fst rs = Ok (True, b) \<longrightarrow> length b = length buf + unat count)"
    proof (intro impI allI)
      fix b assume ex: "exact_reads ops" and ok: "fst rs = Ok (True, b)"
      obtain k bs l where rd: "kernel_read ops fd (unat count) (line s) = ((k, bs), l)" by (metis surj_pair)
      show "length b = length buf + unat count"
      proof (cases "k \<le> 0")
        case True
        with step rd ok show ?thesis by (auto simp: on_line_def returnP_def bindP_def)
      next
        case False
        with exact_readsD [OF ex rd] have k: "length bs = nat k" "nat k \<le> unat count" by auto
        have left: "unat (count - word_of_int k) = unat count - nat k" using False k by (intro bytes_left) auto
        show ?thesis
        proof (cases "count - word_of_int k = 0")
          case True
          with left k step rd ok False show ?thesis by (auto simp: on_line_def returnP_def bindP_def)
        next
          case F: False
          with step rd False have "loop ops fd (count - word_of_int k) (buf @ bs) (s\<lparr>line := l\<rparr>) = Some rs"
            by (simp add: on_line_def bindP_def)
          from IH [OF this] ex ok left k show ?thesis by auto
        qed
      qed
    qed
  qed
  with ex show ?thesis by simp
qed

lemma uart_read_length:
  assumes ex: "exact_reads ops" and run: "mt7697_uart_read ops n s = Some (Ok (n, bs), s')" and n: "unat n < 1024" "n \<noteq> 0"
  shows "length (bytes_words bs) = unat n"
proof -
  obtain f where f: "fd_hndl s = Some f" using run n by (cases "fd_hndl s") (auto simp: mt7697_uart_read_def returnP_def)
  have "read_loop ops f (n * 4) [] s = Some (Ok (True, bs), s')"
    using run f n by (cases "read_loop ops f (n * 4) [] s")
      (auto simp: mt7697_uart_read_def returnP_def bindP_def [of "read_loop _ _ _ _"] split: outcome.splits if_splits)
  then have "length bs = unat (n * 4)" using read_loop_length [OF ex] by fastforce
  also have "\<dots> = 4 * unat n" using n by (simp add: unat_mult_lem [THEN iffD1])
  finally show ?thesis by (simp add: length_bytes_words)
qed

lemma uart_read_nothing:
  assumes "exact_reads ops" "mt7697_uart_read ops 0 s = Some (Ok (ret, bs), s')"
  shows "bs = []"
proof (cases "fd_hndl s")
  case (Some f)
  obtain k cs l where rd: "kernel_read ops f 0 (line s) = ((k, cs), l)" by (metis surj_pair)
  have "k \<le> 0" by (rule ccontr) (use exact_readsD [OF assms(1) rd] in auto)
  then have "read_loop ops f 0 [] s = Some (Ok (False, []), s\<lparr>line := l\<rparr>)"
    using rd by (subst read_loop.simps) (auto simp: on_line_def bindP_def returnP_def)
  with assms(2) Some show ?thesis by (simp add: mt7697_uart_read_def bindP_def [of "read_loop _ _ _ _"] returnP_def)
qed (use assms in \<open>auto simp: mt7697_uart_read_def returnP_def\<close>)

section \<open>The serial driver keeps the contract\<close>

text \<open>\<open>uart_good\<close> holds of the serial driver in every state: a queued work item has a function to call.\<close>

definition uart_good :: "'l tty_ops \<Rightarrow> 'l mt7697_uart_info \<Rightarrow> bool" where
  "uart_good ops h \<longleftrightarrow> exact_reads ops \<and> (worker h \<longrightarrow> uart_rx_fcn h \<noteq> None)"

lemma uart_good_same: "Serial_UartProps.same_ctl h h' \<Longrightarrow> uart_good ops h \<Longrightarrow> uart_good ops h'"
  by (simp add: uart_good_def Serial_UartProps.same_ctl_def)

text \<open>What a quiet operation of the line that does not fail does.\<close>

lemma read_loop_returns: "read_loop ops fd count buf s = Some (r, s') \<Longrightarrow> \<exists>x. r = Ok x"
proof -
  assume run: "read_loop ops fd count buf s = Some (r, s')"
  have "\<exists>x. fst (r, s') = Ok x"
  proof (rule read_loop.raw_induct [OF _ run])
    fix loop and ops :: "'a tty_ops" and fd count buf s and rs :: "(bool \<times> u8 list) outcome \<times> 'a mt7697_uart_info"
    assume IH: "\<And>ops fd count buf s rs. loop ops fd (count :: u32) buf s = Some rs \<Longrightarrow> \<exists>x. fst rs = Ok x"
      and step: "bindP (on_line (kernel_read ops fd (unat count))) (\<lambda>r s1.
         if fst r \<le> 0 then returnP (False, buf) s1
         else if count - word_of_int (fst r) = 0 then returnP (True, buf @ snd r) s1
         else loop ops fd (count - word_of_int (fst r)) (buf @ snd r) s1) s = Some rs"
    obtain k bs l where rd: "kernel_read ops fd (unat count) (line s) = ((k, bs), l)" by (metis surj_pair)
    show "\<exists>x. fst rs = Ok x"
      using step by (auto simp: on_line_def bindP_def returnP_def rd split: if_splits dest: IH)
  qed
  then show ?thesis by simp
qed

lemma write_loop_returns: "write_loop ops fd left ptr s = Some (r, s') \<Longrightarrow> \<exists>x. r = Ok x"
proof -
  assume run: "write_loop ops fd left ptr s = Some (r, s')"
  have "\<exists>x. fst (r, s') = Ok x"
  proof (rule write_loop.raw_induct [OF _ run])
    fix loop and ops :: "'a tty_ops" and fd left ptr s and rs :: "bool outcome \<times> 'a mt7697_uart_info"
    assume IH: "\<And>ops fd left ptr s rs. loop ops fd (left :: u32) ptr s = Some rs \<Longrightarrow> \<exists>x. fst rs = Ok x"
      and step: "bindP (on_line (kernel_write ops fd (take (unat left) ptr))) (\<lambda>num_write s1.
       if num_write \<le> 0 then returnP False s1
       else if left - word_of_int num_write = 0 then returnP True s1
       else loop ops fd (left - word_of_int num_write) (drop (nat num_write) ptr) s1) s = Some rs"
    obtain k l where wr: "kernel_write ops fd (take (unat left) ptr) (line s) = (k, l)" by (metis surj_pair)
    show "\<exists>x. fst rs = Ok x"
      using step by (auto simp: on_line_def bindP_def returnP_def wr split: if_splits dest: IH)
  qed
  then show ?thesis by simp
qed

lemma uart_read_returns:
  assumes "mt7697_uart_read ops n s = Some (r, s')"
  shows "\<exists>ret bs. r = Ok (ret, bs) \<and> (ret = n \<or> ret = 0)"
proof (cases "fd_hndl s")
  case (Some f)
  then obtain q s1 where q: "read_loop ops f (n * 4) [] s = Some (q, s1)"
    using assms by (cases "read_loop ops f (n * 4) [] s") (auto simp: mt7697_uart_read_def bindP_def [of "read_loop _ _ _ _"])
  from read_loop_returns [OF this] obtain x where "q = Ok x" ..
  with q assms Some show ?thesis by (auto simp: mt7697_uart_read_def bindP_def [of "read_loop _ _ _ _"] returnP_def split: prod.splits)
qed (use assms in \<open>auto simp: mt7697_uart_read_def returnP_def\<close>)

lemma uart_write_returns:
  assumes "mt7697_uart_write ops ws n s = Some (r, s')"
  shows "\<exists>ret. r = Ok ret"
proof (cases "fd_hndl s")
  case (Some f)
  then obtain q s1 where q: "write_loop ops f (n * 4) (concat (map word_bytes ws)) s = Some (q, s1)"
    using assms by (cases "write_loop ops f (n * 4) (concat (map word_bytes ws)) s")
      (auto simp: mt7697_uart_write_def bindP_def [of "write_loop _ _ _ _"])
  from write_loop_returns [OF this] obtain x where "q = Ok x" ..
  with q assms Some show ?thesis by (auto simp: mt7697_uart_write_def bindP_def [of "write_loop _ _ _ _"] returnP_def)
qed (use assms in \<open>auto simp: mt7697_uart_write_def returnP_def\<close>)

lemma rx_round_returns:
  assumes "rx_round ops cl s = Some (r, s')" "\<forall>h. r \<noteq> Halt h"
  shows "\<exists>go. r = Ok go"
proof -
  have msg: "\<exists>go. q = Ok go" if "rx_message cl ret buf s1 = Some (q, s2)" "\<forall>h. q \<noteq> Halt h" for ret buf q s1 s2
    using that by (auto simp: rx_message_def prog_defs on_line_def split: if_splits option.splits prod.splits)
  have body: "\<exists>go. q = Ok go"
    if "bindP (mt7697_uart_read ops n) (\<lambda>(ret, buf). rx_message cl ret buf) s1 = Some (q, s2)" "\<forall>h. q \<noteq> Halt h" for n q s1 s2
    using that by (cases "mt7697_uart_read ops n s1") (auto simp: bindP_def dest!: uart_read_returns dest: msg)
  show ?thesis
    using assms by (cases "mt7697_uart_rx_poll ops s") (auto simp: rx_round_def tryP_def returnP_def split: outcome.splits dest: body)
qed

text \<open>The work item runs to its end with a file and a function.\<close>

lemma rx_work_good:
  assumes "fd_hndl s = Some f" "uart_rx_fcn s = Some i" and run: "mt7697_uart_rx_work ops cl s = Some (r, s')"
  shows "fd_hndl s' = Some f \<and> \<not> worker s' \<and> (\<forall>h. r \<noteq> Halt h)"
proof -
  have "fd_hndl s = Some f \<longrightarrow> uart_rx_fcn s = Some i \<longrightarrow>
      fd_hndl (snd (r, s')) = Some f \<and> \<not> worker (snd (r, s')) \<and> (\<forall>h. fst (r, s') \<noteq> Halt h)"
  proof (rule mt7697_uart_rx_work.raw_induct [OF _ run])
    fix loop and ops :: "'a tty_ops" and cl s and rs :: "unit outcome \<times> 'a mt7697_uart_info"
    assume IH: "\<And>ops cl s rs. loop ops cl s = Some rs \<Longrightarrow> fd_hndl s = Some f \<longrightarrow> uart_rx_fcn s = Some i \<longrightarrow>
        fd_hndl (snd rs) = Some f \<and> \<not> worker (snd rs) \<and> (\<forall>h. fst rs \<noteq> Halt h)"
      and step: "bindP (rx_round ops cl) (\<lambda>go s1. if go then loop ops cl s1 else task_ended s1) s = Some rs"
    show "fd_hndl s = Some f \<longrightarrow> uart_rx_fcn s = Some i \<longrightarrow>
        fd_hndl (snd rs) = Some f \<and> \<not> worker (snd rs) \<and> (\<forall>h. fst rs \<noteq> Halt h)"
    proof (intro impI)
      assume s: "fd_hndl s = Some f" "uart_rx_fcn s = Some i"
      obtain q s1 where q: "rx_round ops cl s = Some (q, s1)" using step by (cases "rx_round ops cl s") (auto simp: bindP_def)
      have ctl: "Serial_UartProps.same_ctl s s1 \<and> (\<forall>h. q \<noteq> Halt h)" using rx_round_quiet [OF s, of ops cl] q by (auto simp: wlp_iff)
      have "\<exists>go. q = Ok go" using rx_round_returns [OF q] ctl by auto
      then show "fd_hndl (snd rs) = Some f \<and> \<not> worker (snd rs) \<and> (\<forall>h. fst rs \<noteq> Halt h)"
        using step q ctl s IH [of ops cl s1 rs] by (auto simp: bindP_def task_ended_def modifyP_def Serial_UartProps.same_ctl_def split: if_splits)
    qed
  qed
  with assms show ?thesis by simp
qed

lemma uart_close_good:
  assumes good: "uart_good ops h" and run: "mt7697_uart_close ops (wait_for_worker ops cl) h = Some (r, h')"
  shows "uart_good ops h' \<and> (\<forall>x. r \<noteq> Halt x)"
proof -
  obtain q h1 where q: "close_begin ops h = Some (q, h1)" using run by (cases "close_begin ops h") (auto simp: mt7697_uart_close_def bindP_def)
  note begin_effect = close_begin_effect [OF q]
  show ?thesis
  proof (cases "q = Ok True")
    case True
    with begin_effect obtain f where f: "fd_hndl h1 = Some f" "close h1" "worker h1 = worker h" "uart_rx_fcn h1 = uart_rx_fcn h"
      by (auto simp: Serial_UartProps.same_ctl_def)
    have rest: "seqP (wait_for_worker ops cl) (close_end ops) h1 = Some (r, h')" using run q True by (simp add: mt7697_uart_close_def bindP_def)
    then have w: "worker h1" using f by (auto simp: wait_for_worker_def seqP_def bindP_def divergeP_def)
    then obtain i where i: "uart_rx_fcn h1 = Some i" using good f by (auto simp: uart_good_def)
    obtain q2 h2 where q2: "mt7697_uart_rx_work ops cl h1 = Some (q2, h2)"
      using rest f w by (cases "mt7697_uart_rx_work ops cl h1") (auto simp: wait_for_worker_def seqP_def bindP_def)
    from rx_work_good [OF f(1) i q2] have h2: "fd_hndl h2 = Some f" "\<not> worker h2" "\<forall>x. q2 \<noteq> Halt x" by auto
    have "\<not> worker h' \<and> (\<forall>x. r \<noteq> Halt x)"
      using rest f w q2 h2
      by (auto simp: wait_for_worker_def seqP_def bindP_def close_end_def getP_def on_line_def throwP_def modifyP_def
        split: outcome.splits prod.splits if_splits)
    with good show ?thesis by (simp add: uart_good_def)
  next
    case False
    then have "h' = h1" "\<forall>x. q \<noteq> Halt x \<longrightarrow> r \<noteq> Halt x"
      using run q begin_effect by (auto simp: mt7697_uart_close_def bindP_def returnP_def split: outcome.splits if_splits)
    with begin_effect good show ?thesis by (auto simp: uart_good_def Serial_UartProps.same_ctl_def)
  qed
qed

lemma uart_open_good:
  assumes "uart_good ops h" "mt7697_uart_open ops True True (Some i) h = Some (r, h')"
  shows "uart_good ops h' \<and> (\<exists>b. r = Ok b)"
  using assms by (auto simp: mt7697_uart_open_def prog_defs on_line_def uart_good_def split: prod.splits sum.splits)

lemma if_write_uart:
  assumes good: "uart_good ops h" and run: "if_write (uart_if_ops ops i w) q ws h = Some (r, h')"
  shows "uart_good ops h' \<and> (\<exists>ret. r = Ok ret)"
proof -
  obtain x h1 where x: "mt7697_uart_write ops ws (word_of_nat (length ws)) h = Some (x, h1)"
    using run by (cases "mt7697_uart_write ops ws (word_of_nat (length ws)) h") (auto simp: uart_if_ops_def bindP_def)
  from uart_write_returns [OF x] obtain ret where "x = Ok ret" ..
  with x run have "h' = h1" "r = Ok (uint ret)" by (auto simp: uart_if_ops_def bindP_def returnP_def)
  with quietD [OF quiet_uart_write x] good show ?thesis by (auto intro: uart_good_same)
qed

lemma if_read_uart:
  assumes good: "uart_good ops h" and run: "if_read (uart_if_ops ops i w) q n h = Some (x, h')"
  shows "uart_good ops h' \<and> (\<exists>ret ws. x = Ok (ret, ws) \<and> (ret = uint n \<and> unat n < 1024 \<longrightarrow> length ws = unat n))"
proof -
  obtain y h1 where y: "mt7697_uart_read ops n h = Some (y, h1)"
    using run by (cases "mt7697_uart_read ops n h") (auto simp: uart_if_ops_def bindP_def)
  from uart_read_returns [OF y] obtain ret bs where ret: "y = Ok (ret, bs)" "ret = n \<or> ret = 0" by blast
  with y run have x: "h' = h1" "x = Ok (uint ret, bytes_words bs)" by (auto simp: uart_if_ops_def bindP_def returnP_def)
  have ex: "exact_reads ops" using good by (simp add: uart_good_def)
  have "length (bytes_words bs) = unat n" if "uint ret = uint n" "unat n < 1024"
  proof (cases "n = 0")
    case True
    have "bs = []" by (rule uart_read_nothing [OF ex y [unfolded True ret(1)]])
    with True show ?thesis by simp
  next
    case False
    have "ret = n" using that(1) by (rule unsigned_word_eqI)
    show ?thesis by (rule uart_read_length [OF ex y [unfolded ret(1) \<open>ret = n\<close>] that(2) False])
  qed
  moreover have "uart_good ops h'" using quietD [OF quiet_uart_read y] good x(1) by (auto intro: uart_good_same)
  ultimately show ?thesis using x(2) by blast
qed

lemma if_open_uart:
  assumes "uart_good ops h" "bindP (mt7697_uart_open ops True True (Some i)) (\<lambda>ok. returnP (if ok then Some 0 else None)) h = Some (r, h')"
  shows "uart_good ops h' \<and> (\<exists>z. r = Ok (z :: nat option))"
proof -
  obtain y h1 where y: "mt7697_uart_open ops True True (Some i) h = Some (y, h1)"
    using assms(2) by (cases "mt7697_uart_open ops True True (Some i) h") (auto simp: bindP_def)
  with uart_open_good [OF assms(1) y] assms(2) show ?thesis by (auto simp: bindP_def returnP_def)
qed

lemma if_close_uart:
  assumes "uart_good ops h" "tryP (mt7697_uart_close ops (wait_for_worker ops cl)) returnP (\<lambda>_. returnP 0) h = Some (r, h')"
  shows "uart_good ops h' \<and> (\<exists>z. r = Ok z)"
proof -
  obtain y h1 where y: "mt7697_uart_close ops (wait_for_worker ops cl) h = Some (y, h1)"
    using assms(2) by (cases "mt7697_uart_close ops (wait_for_worker ops cl) h") (auto simp: tryP_def)
  with uart_close_good [OF assms(1) y] assms(2) show ?thesis by (cases y) (auto simp: tryP_def returnP_def)
qed

text \<open>
  \<open>uart_sure\<close> are the states in which the driver is open on a line that takes what is written, in pieces of any size.
\<close>

definition uart_sure :: "'l tty_ops \<Rightarrow> 'l mt7697_uart_info \<Rightarrow> bool" where
  "uart_sure ops h \<longleftrightarrow> uart_good ops h \<and> fd_hndl h \<noteq> None \<and>
     (\<forall>fd bs l. bs \<noteq> [] \<longrightarrow> 0 < fst (kernel_write ops fd bs l) \<and> nat (fst (kernel_write ops fd bs l)) \<le> length bs)"

lemma uart_sure_same: "Serial_UartProps.same_ctl h h' \<Longrightarrow> uart_sure ops h \<Longrightarrow> uart_sure ops h'"
  using uart_good_same by (auto simp: uart_sure_def Serial_UartProps.same_ctl_def)

lemma write_loop_sure:
  assumes sure: "uart_sure ops h"
  shows "bs \<noteq> [] \<Longrightarrow> length bs < 2 ^ 32 \<Longrightarrow> \<exists>l'. write_loop ops fd (word_of_nat (length bs)) bs s = Some (Ok True, s\<lparr>line := l'\<rparr>)"
proof (induction bs arbitrary: s rule: length_induct)
  case (1 bs)
  obtain z l where z: "kernel_write ops fd bs (line s) = (z, l)" by (metis surj_pair)
  have "0 < fst (kernel_write ops fd bs (line s)) \<and> nat (fst (kernel_write ops fd bs (line s))) \<le> length bs"
    using sure 1 unfolding uart_sure_def by blast
  with z have "0 < z" "nat z \<le> length bs" by simp_all
  then obtain k where k: "z = int k" "0 < k" "k \<le> length bs" by (metis nat_int zero_less_imp_eq_int)
  have wr: "on_line (kernel_write ops fd (take (unat (word_of_nat (length bs) :: u32)) bs)) s = Some (Ok (int k), s\<lparr>line := l\<rparr>)"
    using 1 k z by (simp add: on_line_Some unat_word_of_nat_u32)
  show ?case
  proof (cases "k = length bs")
    case True
    then show ?thesis using k by (subst write_loop.simps) (auto simp: wr count_left returnP_def intro!: exI [of _ l])
  next
    case False
    with k have d: "length (drop k bs) < length bs" "drop k bs \<noteq> []" "length (drop k bs) < 2 ^ 32" using 1 by auto
    have "(word_of_nat (length (drop k bs)) :: u32) \<noteq> 0" using of_nat_u32_0_iff [OF d(3)] d(2) by (metis length_0_conv)
    then have "(word_of_nat (length bs - k) :: u32) \<noteq> 0" by (simp only: length_drop not_False_eq_True)
    then have "write_loop ops fd (word_of_nat (length bs)) bs s = write_loop ops fd (word_of_nat (length (drop k bs))) (drop k bs) (s\<lparr>line := l\<rparr>)"
      using k by (subst write_loop.simps) (simp add: wr count_left)
    moreover obtain l' where "write_loop ops fd (word_of_nat (length (drop k bs))) (drop k bs) (s\<lparr>line := l\<rparr>) = Some (Ok True, s\<lparr>line := l\<rparr>\<lparr>line := l'\<rparr>)"
      using "1.IH" d by blast
    ultimately show ?thesis by auto
  qed
qed

lemma uart_sure_writes: "writes_succeed (uart_sure ops) (uart_if_ops ops i w)"
  unfolding writes_succeed_def
proof (intro allI impI)
  fix q and ws :: "u32 list" and h r h'
  assume sure: "uart_sure ops h" and len: "length ws < 1024" and run: "if_write (uart_if_ops ops i w) q ws h = Some (r, h')"
  have n: "uint (word_of_nat (length ws) :: u32) = int (length ws)" using len by (simp add: uint_nat unat_word_of_nat_u32)
  obtain f where f: "fd_hndl h = Some f" using sure by (auto simp: uart_sure_def)
  have four: "(word_of_nat (length ws) :: u32) * 4 = word_of_nat (length (concat (map word_bytes ws)))" by (simp add: mult.commute)
  show "r = Ok (int (length ws))"
  proof (cases "ws = []")
    case True
    then have "\<exists>x. mt7697_uart_write ops ws 0 h = Some (Ok 0, x)" if "mt7697_uart_write ops ws 0 h \<noteq> None"
      using that f uart_write_returns
      by (cases "write_loop ops f 0 [] h")
        (auto simp: mt7697_uart_write_def returnP_def bindP_def [of "write_loop _ _ _ _"] dest!: write_loop_returns split: outcome.splits)
    then show ?thesis using run True by (cases "mt7697_uart_write ops [] 0 h") (auto simp: uart_if_ops_def bindP_def returnP_def)
  next
    case False
    then have "concat (map word_bytes ws) \<noteq> []" by (cases ws) (auto simp: word_bytes_def)
    moreover have "length (concat (map word_bytes ws)) < 2 ^ 32" using len by simp
    ultimately obtain l where "mt7697_uart_write ops ws (word_of_nat (length ws)) h = Some (Ok (word_of_nat (length ws)), h\<lparr>line := l\<rparr>)"
      using write_loop_sure [OF sure, of "concat (map word_bytes ws)" f h] f four
      by (auto simp: mt7697_uart_write_def returnP_def simp del: length_concat_word_bytes)
    with run n show ?thesis by (simp add: uart_if_ops_def returnP_def)
  qed
qed

lemma sure_write_uart:
  assumes sure: "uart_sure ops h" and run: "if_write (uart_if_ops ops i w) q ws h = Some (r, h')"
  shows "uart_sure ops h' \<and> (\<exists>ret. r = Ok ret)"
proof -
  obtain x h1 where x: "mt7697_uart_write ops ws (word_of_nat (length ws)) h = Some (x, h1)"
    using run by (cases "mt7697_uart_write ops ws (word_of_nat (length ws)) h") (auto simp: uart_if_ops_def bindP_def)
  have "h' = h1" using x run uart_write_returns [OF x] by (auto simp: uart_if_ops_def bindP_def returnP_def)
  with quietD [OF quiet_uart_write x] sure have "uart_sure ops h'" by (auto intro: uart_sure_same)
  with if_write_uart [OF _ run] sure show ?thesis by (auto simp: uart_sure_def)
qed

lemma sure_read_uart:
  assumes sure: "uart_sure ops h" and run: "if_read (uart_if_ops ops i w) q n h = Some (x, h')"
  shows "uart_sure ops h' \<and> (\<exists>ret ws. x = Ok (ret, ws) \<and> (ret = uint n \<and> unat n < 1024 \<longrightarrow> length ws = unat n))"
proof -
  obtain y h1 where y: "mt7697_uart_read ops n h = Some (y, h1)"
    using run by (cases "mt7697_uart_read ops n h") (auto simp: uart_if_ops_def bindP_def)
  have "h' = h1" using y run uart_read_returns [OF y] by (auto simp: uart_if_ops_def bindP_def returnP_def)
  with quietD [OF quiet_uart_read y] sure have "uart_sure ops h'" by (auto intro: uart_sure_same)
  moreover have "uart_good ops h" using sure by (simp add: uart_sure_def)
  ultimately show ?thesis using if_read_uart [OF _ run] by blast
qed

interpretation serial: reliable_transport "uart_if_ops ops i (wait_for_worker ops cl)" "uart_good ops" "uart_sure ops" for ops i cl
proof (unfold_locales, goal_cases)
  case (1 h q ws r h')
  then show ?case by (rule if_write_uart)
next
  case (2 h q n x h')
  then show ?case by (rule if_read_uart)
next
  case 3
  show ?case by (simp add: uart_if_ops_def) (blast dest: if_open_uart)
next
  case 4
  show ?case by (simp add: uart_if_ops_def) (blast dest: if_close_uart)
next
  case 5
  show ?case by (simp add: uart_if_ops_def)
next
  case (6 h q ws r h')
  then show ?case by (rule sure_write_uart)
next
  case (7 h q n x h')
  then show ?case by (rule sure_read_uart)
next
  case (8 h)
  then show ?case by (simp add: uart_sure_def)
next
  case 9
  show ?case by (rule uart_sure_writes)
qed

section \<open>The claims\<close>



section \<open>An example\<close>

lemma three_bytes_exact: "exact_reads three_bytes"
  by (auto simp: exact_reads_def three_bytes_def Let_def)

lemma three_bytes_sure: "fd_hndl h \<noteq> None \<Longrightarrow> uart_good three_bytes h \<Longrightarrow> uart_sure three_bytes h"
  by (auto simp: uart_sure_def three_bytes_def Let_def)

text \<open>The driver as it is behind the start of the device, when the firmware has been asked for its configuration.\<close>

lemma example_started:
  "\<exists>s. wifi_reach (uart_good three_bytes) (uart_sure three_bytes) example_ops example_wifi_env s \<and> is_open s \<and> uart_sure three_bytes (hif s)"
proof -
  let ?h = "(open_uart [] False)\<lparr>fd_hndl := None, uart_rx_fcn := None\<rparr>"
  let ?s0 = "(new_cfg ?h)\<lparr>tx_req := \<lparr>txr_hdr = wifi_hdr MT7697_CMD_TX_RAW 0, txr_len = 0, txr_data = replicate IEEE80211_MAX_FRAME_LEN 0\<rparr>,
     has_2ghz := True, has_5ghz := True, wiphy_registered := True, asked := 1, events := [QueueInit, RegisterWiphy, CreateWq]\<rparr>"
  let ?t = "?s0\<lparr>hif := open_uart [] True, txq_hdl := Some 0, rxq_hdl := Some 0\<rparr>"
  have good: "uart_good three_bytes ?h" by (simp add: uart_good_def three_bytes_exact)
  have "hw_itf_of (mt7697_to_lower [85, 65, 82, 84]) = Some HwUart" by (simp add: hw_itf_of_def mt7697_to_lower_def)
  then have probe: "mt7697_probe example_wifi_env True True [85, 65, 82, 84] (new_cfg ?h) = Some (Ok HwUart, ?s0)"
    by (simp add: mt7697_probe_def mt7697_cfg80211_init_def new_cfg_def seqP_def prog_defs tell_def answer_def example_wifi_env_def)
  have open_line: "open_line example_ops ?s0 = Some (Ok True, ?t)"
    by (simp add: open_line_def uart_if_ops_def mt7697_uart_open_def three_bytes_def on_line_def on_hif_def new_cfg_def seqP_def prog_defs)
  have "\<exists>h'. mt7697_wr_cfg_req example_ops ?t = Some (Ok (), ?t\<lparr>hif := h'\<rparr>) \<and> uart_up three_bytes fst snd h'"
    unfolding mt7697_wr_cfg_req_def wr_request_def
    using hif_writer.write_words_sends [OF example_writer, where s = ?t and ws = "[cmd_word (wifi_hdr MT7697_CMD_GET_CFG_REQ 4)]" and
        len = "LEN_TO_WORD (ucast (cmd_len (wifi_hdr MT7697_CMD_GET_CFG_REQ 4)))"]
    by (auto simp: uart_up_def three_bytes_line wifi_hdr_def LEN_TO_WORD_def)
  then obtain h' where h': "mt7697_wr_cfg_req example_ops ?t = Some (Ok (), ?t\<lparr>hif := h'\<rparr>)" "uart_up three_bytes fst snd h'" by blast
  then have "mt7697_init_hw_start example_ops HwUart ?s0 = Some (Ok (), ?t\<lparr>hif := h'\<rparr>)"
    using open_line by (simp add: mt7697_init_hw_start_def tryP_def returnP_def)
  then have reach: "wifi_reach (uart_good three_bytes) (uart_sure three_bytes) example_ops example_wifi_env (?t\<lparr>hif := h'\<rparr>)"
    by (rule wifi_reach.Start [of "uart_good three_bytes", OF good probe])
  moreover have "uart_good three_bytes h'" using serial.okay_good [OF serial.reach_okay [OF reach]] by simp
  ultimately show ?thesis
    using h'(2) by (intro exI [of _ "?t\<lparr>hif := h'\<rparr>"]) (auto simp: is_open_def uart_up_def intro: three_bytes_sure)
qed

abbreviation example_message :: mt7697_rsp_hdr where
  "example_message \<equiv> \<lparr>cmd_len = 20, cmd_grp = 1, cmd_type = wifi_cmd_code MT7697_CMD_DISCONNECT_IND, rsp_result = 0\<rparr>"




end
