(* ===== verification/Wifi_Pool.thy ===== *)
theory Wifi_Pool
  imports Wifi_Live
begin

text \<open>
  The pool of packets as a queue: what the kernel hands over and is accepted reaches the firmware in order, once and
  unchanged, and what stopping an interface leaves behind in the pool.
\<close>

section \<open>The queue\<close>

text \<open>The packets that wait, the first to be sent first, and the invariant of the pool.\<close>

definition waiting :: "'h mt7697_cfg80211_info \<Rightarrow> sk_buff list" where
  "waiting s = map (\<lambda>i. the (tx_skb_pool s ! i)) (tx_skb_list s)"

definition pool_wf :: "'h mt7697_cfg80211_info \<Rightarrow> bool" where
  "pool_wf s \<longleftrightarrow> length (tx_skb_pool s) = 256 \<and> tx_skb_pool_idx s < 256 \<and> distinct (tx_skb_list s) \<and>
     (\<forall>i \<in> set (tx_skb_list s). packet_wf s i)"

lemma wifi_wf_pool: "wifi_wf s \<Longrightarrow> pool_wf s"
  by (simp add: wifi_wf_def pool_wf_def)

lemma pool_wf_quiet [simp]: "pool_wf (s\<lparr>asked := n\<rparr>) = pool_wf s" "pool_wf (s\<lparr>events := es\<rparr>) = pool_wf s"
  by (simp_all add: pool_wf_def packet_wf_def)

lemma waiting_quiet [simp]: "waiting (s\<lparr>asked := n\<rparr>) = waiting s" "waiting (s\<lparr>events := es\<rparr>) = waiting s"
  by (simp_all add: waiting_def)

text \<open>A change of the statistics of an interface.\<close>

definition vif_up :: "nat \<Rightarrow> 'h mt7697_cfg80211_info \<Rightarrow> bool" where
  "vif_up v s \<longleftrightarrow> (\<exists>x. vifs s v = Some x \<and> dev_up x)"

lemma upd_stats_run:
  assumes "vif_up v s"
  shows "\<exists>W. upd_stats v f s = Some (Ok (), s\<lparr>vifs := W\<rparr>) \<and> (\<forall>w. vif_up w (s\<lparr>vifs := W\<rparr>) = vif_up w s) \<and>
    (pool_wf s \<longrightarrow> pool_wf (s\<lparr>vifs := W\<rparr>))"
proof -
  obtain x where x: "vifs s v = Some x" "dev_up x" using assms by (auto simp: vif_up_def)
  let ?W = "(vifs s)(v \<mapsto> x\<lparr>net_stats := f (net_stats x)\<rparr>)"
  have "packet_wf (s\<lparr>vifs := ?W\<rparr>) i" if "packet_wf s i" for i
    using that x by (auto simp: packet_wf_def)
  moreover have "upd_stats v f s = Some (Ok (), s\<lparr>vifs := ?W\<rparr>)"
    using x by (simp add: upd_stats_def upd_vif_def with_vif_def bindP_def getP_def modifyP_def)
  ultimately show ?thesis using x by (intro exI [of _ ?W]) (auto simp: vif_up_def pool_wf_def)
qed

text \<open>What the kernel's side of sending leaves alone: the interfaces that are up and the transport.\<close>

definition undisturbed :: "'h mt7697_cfg80211_info \<Rightarrow> 'h mt7697_cfg80211_info \<Rightarrow> bool" where
  "undisturbed s s' \<longleftrightarrow> (\<forall>w. vif_up w s' = vif_up w s) \<and> hif s' = hif s \<and> (\<forall>q. sending q s' = sending q s)"

lemma undisturbed_trans: "undisturbed s t \<Longrightarrow> undisturbed t u \<Longrightarrow> undisturbed s u"
  by (simp add: undisturbed_def)

lemma drop_packet_run:
  assumes "vif_up v s"
  shows "\<exists>s'. drop_packet v p ret s = Some (Ok ret, s') \<and> waiting s' = waiting s \<and> (pool_wf s \<longrightarrow> pool_wf s') \<and>
    undisturbed s s' \<and> tx_skb_pool s' = tx_skb_pool s \<and> tx_skb_pool_idx s' = tx_skb_pool_idx s"
proof -
  obtain W where W: "upd_stats v (\<lambda>t. t\<lparr>tx_dropped := tx_dropped t + 1, tx_aborted_errors := tx_aborted_errors t + 1\<rparr>) s = Some (Ok (), s\<lparr>vifs := W\<rparr>)"
    "\<forall>w. vif_up w (s\<lparr>vifs := W\<rparr>) = vif_up w s" "pool_wf s \<longrightarrow> pool_wf (s\<lparr>vifs := W\<rparr>)"
    using upd_stats_run [OF assms] by blast
  then show ?thesis
    by (cases p) (auto simp: drop_packet_def tell_def modifyP_def returnP_def waiting_def vif_up_def sending_def undisturbed_def)
qed

section \<open>Handing over\<close>

text \<open>The pool behind the acceptance of a packet.\<close>

abbreviation (input) accepted :: "sk_buff \<Rightarrow> 'h mt7697_cfg80211_info \<Rightarrow> 'h mt7697_cfg80211_info" where
  "accepted skb s \<equiv> s\<lparr>tx_skb_pool := (tx_skb_pool s)[tx_skb_pool_idx s := Some skb],
     tx_skb_pool_idx := (if tx_skb_pool_idx s + 1 \<ge> 256 then 0 else tx_skb_pool_idx s + 1),
     tx_skb_list := tx_skb_list s @ [tx_skb_pool_idx s]\<rparr>"

lemma accepted_wf:
  assumes wf: "pool_wf s" and free: "tx_skb_pool s ! tx_skb_pool_idx s = None"
    and skb: "length (skb_data skb) \<le> 2352" "vif_up (skb_dev skb) s"
  shows "pool_wf (accepted skb s) \<and> waiting (accepted skb s) = waiting s @ [skb]"
proof -
  let ?i = "tx_skb_pool_idx s"
  have fresh: "?i \<notin> set (tx_skb_list s)" using wf free by (auto simp: pool_wf_def packet_wf_def)
  then have other: "j \<noteq> ?i" if "j \<in> set (tx_skb_list s)" for j using that by auto
  have "packet_wf (accepted skb s) j" if "j \<in> set (tx_skb_list s)" for j
    using that wf other [OF that] by (simp add: pool_wf_def packet_wf_def)
  moreover have "packet_wf (accepted skb s) ?i" using wf skb by (simp add: pool_wf_def packet_wf_def vif_up_def)
  ultimately have "pool_wf (accepted skb s)" using wf fresh by (auto simp: pool_wf_def)
  moreover have "waiting (accepted skb s) = waiting s @ [skb]"
    using wf other [THEN not_sym] by (auto simp: waiting_def pool_wf_def)
  ultimately show ?thesis by blast
qed

lemma data_tx_run:
  assumes wf: "pool_wf s" and skb: "length (skb_data skb) \<le> 2352" "vif_up (skb_dev skb) s" "needed_headroom env \<le> skb_headroom skb"
    and work: "\<And>n. 0 \<le> queue_work_ret env n"
  shows "\<exists>r s'. mt7697_data_tx env skb (skb_dev skb) s = Some (Ok r, s') \<and> pool_wf s' \<and> undisturbed s s' \<and>
    (if tx_skb_pool s ! tx_skb_pool_idx s = None
     then r = 0 \<and> waiting s' = waiting s @ [skb] \<and> tx_skb_pool s' = (tx_skb_pool s)[tx_skb_pool_idx s := Some skb] \<and>
       tx_skb_pool_idx s' = Suc (tx_skb_pool_idx s) mod 256
     else r = 16 \<and> waiting s' = waiting s \<and> tx_skb_pool s' = tx_skb_pool s \<and> tx_skb_pool_idx s' = tx_skb_pool_idx s)"
proof (cases "tx_skb_pool s ! tx_skb_pool_idx s")
  case None
  let ?t = "(accepted skb s)\<lparr>asked := Suc (asked s), events := QueueTx # events s\<rparr>"
  have idx: "tx_skb_pool_idx s < 256" using wf by (simp add: pool_wf_def)
  have "mt7697_data_tx env skb (skb_dev skb) s = Some (Ok 0, ?t)"
    using None skb(3) work [of "asked s"]
    by (simp add: mt7697_data_tx_def with_headroom_def bindP_returnP enqueue_packet_def answer_def tell_def modifyP_def returnP_def seqP_def bindP_def getP_def)
  moreover have "undisturbed s ?t" by (simp add: undisturbed_def vif_up_def sending_def)
  ultimately show ?thesis using None accepted_wf [OF wf None skb(1,2)] idx by (intro exI [of _ 0] exI [of _ ?t]) (auto simp: mod_Suc)
next
  case (Some p)
  then have "mt7697_data_tx env skb (skb_dev skb) s = drop_packet (skb_dev skb) (Some (skb_id skb)) 16 s"
    using skb(3) by (simp add: mt7697_data_tx_def with_headroom_def bindP_returnP enqueue_packet_def)
  with Some drop_packet_run [OF skb(2), of "Some (skb_id skb)" 16] wf show ?thesis by auto
qed

text \<open>Several packets, one after the other, with what the kernel is told of each.\<close>

fun transmit :: "wifi_env \<Rightarrow> sk_buff list \<Rightarrow> ('h, int list) wifi_prog" where
  "transmit env [] = returnP []"
| "transmit env (skb # skbs) = bindP (mt7697_data_tx env skb (skb_dev skb)) (\<lambda>r. bindP (transmit env skbs) (\<lambda>rs. returnP (r # rs)))"

definition can_transmit :: "wifi_env \<Rightarrow> 'h mt7697_cfg80211_info \<Rightarrow> sk_buff \<Rightarrow> bool" where
  "can_transmit env s skb \<longleftrightarrow> length (skb_data skb) \<le> 2352 \<and> vif_up (skb_dev skb) s \<and> needed_headroom env \<le> skb_headroom skb"

abbreviation accepted_of :: "int list \<Rightarrow> sk_buff list \<Rightarrow> sk_buff list" where
  "accepted_of rs skbs \<equiv> map snd (filter (\<lambda>(r, _). r = NETDEV_TX_OK) (zip rs skbs))"

text \<open>\<open>free_entries k s\<close>: the next \<open>k\<close> entries of the pool, round its end, are free.\<close>

definition free_entries :: "nat \<Rightarrow> 'h mt7697_cfg80211_info \<Rightarrow> bool" where
  "free_entries k s \<longleftrightarrow> k \<le> 256 \<and> (\<forall>j < k. tx_skb_pool s ! ((tx_skb_pool_idx s + j) mod 256) = None)"

lemma transmit_run:
  assumes work: "\<And>n. 0 \<le> queue_work_ret env n"
  shows "pool_wf s \<Longrightarrow> list_all (can_transmit env s) skbs \<Longrightarrow> \<exists>rs s'. transmit env skbs s = Some (Ok rs, s') \<and> length rs = length skbs \<and>
    set rs \<subseteq> {NETDEV_TX_OK, NETDEV_TX_BUSY} \<and> pool_wf s' \<and> undisturbed s s' \<and> waiting s' = waiting s @ accepted_of rs skbs \<and>
    (free_entries (length skbs) s \<longrightarrow> set rs \<subseteq> {NETDEV_TX_OK})"
proof (induction skbs arbitrary: s)
  case Nil
  then show ?case by (simp add: returnP_def undisturbed_def)
next
  case (Cons skb skbs)
  from Cons.prems have skb: "length (skb_data skb) \<le> 2352" "vif_up (skb_dev skb) s" "needed_headroom env \<le> skb_headroom skb"
    by (simp_all add: can_transmit_def)
  obtain r t where one: "mt7697_data_tx env skb (skb_dev skb) s = Some (Ok r, t)" "pool_wf t" "undisturbed s t"
    "if tx_skb_pool s ! tx_skb_pool_idx s = None
     then r = 0 \<and> waiting t = waiting s @ [skb] \<and> tx_skb_pool t = (tx_skb_pool s)[tx_skb_pool_idx s := Some skb] \<and>
       tx_skb_pool_idx t = Suc (tx_skb_pool_idx s) mod 256
     else r = 16 \<and> waiting t = waiting s \<and> tx_skb_pool t = tx_skb_pool s \<and> tx_skb_pool_idx t = tx_skb_pool_idx s"
    using data_tx_run [OF Cons.prems(1) skb work] by blast
  have "list_all (can_transmit env t) skbs"
    using Cons.prems(2) one(3) by (auto simp: can_transmit_def undisturbed_def list_all_iff)
  then obtain rs s' where rest: "transmit env skbs t = Some (Ok rs, s')" "length rs = length skbs" "set rs \<subseteq> {0, 16}" "pool_wf s'"
    "undisturbed t s'" "waiting s' = waiting t @ accepted_of rs skbs" "free_entries (length skbs) t \<longrightarrow> set rs \<subseteq> {0}"
    using Cons.IH [OF one(2)] by auto
  have idx: "tx_skb_pool_idx s < 256" using Cons.prems(1) by (simp add: pool_wf_def)
  have "r = 0 \<and> free_entries (length skbs) t" if free: "free_entries (Suc (length skbs)) s"
  proof -
    have first: "tx_skb_pool s ! tx_skb_pool_idx s = None" using free idx by (auto simp: free_entries_def dest: spec [of _ 0])
    have "tx_skb_pool t ! ((tx_skb_pool_idx t + j) mod 256) = None" if j: "j < length skbs" for j
    proof -
      have e: "(tx_skb_pool_idx t + j) mod 256 = (tx_skb_pool_idx s + Suc j) mod 256" using one(4) first by (simp add: mod_simps)
      have "(tx_skb_pool_idx s + Suc j) mod 256 \<noteq> tx_skb_pool_idx s"
        using j free idx by (auto simp: free_entries_def mod_if split: if_splits)
      moreover have "tx_skb_pool s ! ((tx_skb_pool_idx s + Suc j) mod 256) = None" using free j unfolding free_entries_def by blast
      ultimately show ?thesis using one(4) first e by simp
    qed
    with free first one(4) show ?thesis by (auto simp: free_entries_def)
  qed
  moreover have "waiting s' = waiting s @ accepted_of (r # rs) (skb # skbs)" "r \<in> {0, 16}"
    using rest(6) one(4) by (auto split: if_splits)
  ultimately show ?case
    using one(1) rest undisturbed_trans [OF one(3) rest(5)] by (intro exI [of _ "r # rs"] exI [of _ s']) (auto simp: returnP_def)
qed

section \<open>Sending\<close>

abbreviation tx_room :: "sk_buff \<Rightarrow> nat" where "tx_room skb \<equiv> 2 + (length (skb_data skb) + 3) div 4"

lemma keeps_tx_raw: "keeps (\<lambda>s. vifs s = W \<and> tx_skb_list s = X \<and> tx_skb_pool s = P \<and> tx_skb_pool_idx s = i) (mt7697_wr_tx_raw_packet ops data n)"
  by (auto simp: mt7697_wr_tx_raw_packet_def write_words_def on_hif_def keeps_def memcpy_def prog_defs Let_def seqP_def
    split: option.splits prod.splits outcome.splits if_splits)

context hif_writer
begin

text \<open>The transport between two packets.\<close>

definition ready :: "nat \<Rightarrow> 'h mt7697_cfg80211_info \<Rightarrow> bool" where
  "ready k s \<longleftrightarrow> good (hif s) \<and> sending q s \<and> room (hif s) k"

lemma stats_ready: "ready k s \<Longrightarrow> ready k (s\<lparr>vifs := W\<rparr>)"
  by (simp add: ready_def sending_def)

lemma tx_raw_run:
  assumes "ready (tx_room skb + k) s" "length (skb_data skb) \<le> 2352" "pool_wf s"
  shows "\<exists>s' ws. mt7697_wr_tx_raw_packet ops (skb_data skb) (word_of_nat (length (skb_data skb))) s = Some (Ok (), s') \<and> ready k s' \<and>
    sent (hif s') = sent (hif s) @ ws \<and> message_of (TxRaw (skb_data skb)) ws \<and> pool_wf s' \<and> vifs s' = vifs s \<and>
    tx_skb_list s' = tx_skb_list s \<and> tx_skb_pool s' = tx_skb_pool s"
proof -
  obtain s' ws where s': "mt7697_wr_tx_raw_packet ops (skb_data skb) (word_of_nat (length (skb_data skb))) s = Some (Ok (), s')"
    "ready k s'" "sent (hif s') = sent (hif s) @ ws" "message_of (TxRaw (skb_data skb)) ws"
    using sends_tx_raw [OF assms(2), of s] assms(1) unfolding sends_def ready_def by blast
  have kept: "vifs s' = vifs s" "tx_skb_list s' = tx_skb_list s" "tx_skb_pool s' = tx_skb_pool s" "tx_skb_pool_idx s' = tx_skb_pool_idx s"
    using keepsD [OF keeps_tx_raw _ s'(1), of "vifs s" "tx_skb_list s" "tx_skb_pool s" "tx_skb_pool_idx s"] by auto
  then have "pool_wf s'" using assms(3) packet_wf_cong [of s' s] by (simp add: pool_wf_def)
  with s' kept show ?thesis by blast
qed

lemma tx_work_packet_run:
  assumes wf: "pool_wf s" and list: "tx_skb_list s = i # is" and up: "ready (tx_room (the (tx_skb_pool s ! i)) + k) s"
  shows "\<exists>id s' ws. tx_work_packet ops i s = Some (Ok id, s') \<and> pool_wf s' \<and> ready k s' \<and> tx_skb_list s' = is \<and>
    tx_skb_pool s' = (tx_skb_pool s)[i := None] \<and> sent (hif s') = sent (hif s) @ ws \<and>
    message_of (TxRaw (skb_data (the (tx_skb_pool s ! i)))) ws"
proof -
  from wf list have "packet_wf s i" by (simp add: pool_wf_def)
  then obtain skb where skb: "tx_skb_pool s ! i = Some skb" "length (skb_data skb) \<le> 2352" "vif_up (skb_dev skb) s"
    by (auto simp: packet_wf_def vif_up_def)
  let ?n = "length (skb_data skb)" let ?v = "skb_dev skb"
  let ?short = "whenP (?n < 30) (upd_stats ?v (\<lambda>t. t\<lparr>tx_errors := tx_errors t + 1\<rparr>))"
  obtain W where W: "?short s = Some (Ok (), s\<lparr>vifs := W\<rparr>)" "vif_up ?v (s\<lparr>vifs := W\<rparr>)" "pool_wf (s\<lparr>vifs := W\<rparr>)"
    using upd_stats_run [OF skb(3), of "\<lambda>t. t\<lparr>tx_errors := tx_errors t + 1\<rparr>"] wf skb(3)
    by (cases "?n < 30") (fastforce simp: whenP_def returnP_def intro: exI [of _ "vifs s"])+
  obtain s1 ws where s1: "mt7697_wr_tx_raw_packet ops (skb_data skb) (word_of_nat ?n) (s\<lparr>vifs := W\<rparr>) = Some (Ok (), s1)" "ready k s1"
    "sent (hif s1) = sent (hif s) @ ws" "message_of (TxRaw (skb_data skb)) ws" "pool_wf s1" "vifs s1 = W" "tx_skb_list s1 = i # is"
    "tx_skb_pool s1 = tx_skb_pool s"
    using tx_raw_run [OF stats_ready [of _ _ W] skb(2) W(3), of k] up skb(1) list by fastforce
  have "vif_up ?v s1" using W(2) s1(6) by (simp add: vif_up_def)
  then obtain X where X: "upd_stats ?v (\<lambda>t. t\<lparr>tx_packets := tx_packets t + 1, tx_bytes := tx_bytes t + word_of_nat ?n\<rparr>) s1 = Some (Ok (), s1\<lparr>vifs := X\<rparr>)"
    "pool_wf (s1\<lparr>vifs := X\<rparr>)"
    using upd_stats_run s1(5) by blast
  let ?s' = "s1\<lparr>vifs := X, tx_skb_list := is, tx_skb_pool := (tx_skb_pool s)[i := None]\<rparr>"
  have "tx_work_packet ops i s = Some (Ok (skb_id skb), ?s')"
    using skb(1) W(1) s1(1,7,8) X(1)
    by (simp add: tx_work_packet_def pool_packet_def Let_def seqP_def bindP_def getP_def tryP_def modifyP_def returnP_def)
  moreover have "i \<notin> set is" using wf list by (simp add: pool_wf_def)
  then have "pool_wf ?s'" using X(2) s1(7,8) by (auto simp: pool_wf_def packet_wf_def nth_list_update)
  moreover have "ready k ?s'" using s1(2) by (simp add: ready_def sending_def)
  ultimately show ?thesis using s1(3,4) skb(1) by (intro exI [of _ "skb_id skb"] exI [of _ ?s'] exI [of _ ws]) simp
qed

lemma tx_work_packets_run:
  "pool_wf s \<Longrightarrow> tx_skb_list s = is \<Longrightarrow> ready (sum_list (map tx_room (waiting s))) s \<Longrightarrow> \<exists>ids s' ws. tx_work_packets ops is s = Some (Ok ids, s') \<and>
    pool_wf s' \<and> ready 0 s' \<and> tx_skb_list s' = [] \<and> sent (hif s') = sent (hif s) @ ws \<and> (\<forall>i \<in> set is. tx_skb_pool s' ! i = None) \<and>
    (\<forall>i. tx_skb_pool s ! i = None \<longrightarrow> tx_skb_pool s' ! i = None) \<and>
    fw_decode ws = Some (map (TxRaw \<circ> skb_data) (waiting s))"
proof (induction "is" arbitrary: s)
  case Nil
  then show ?case by (auto simp: returnP_def waiting_def)
next
  case (Cons i "is")
  let ?skb = "the (tx_skb_pool s ! i)"
  have w: "waiting s = ?skb # map (\<lambda>i. the (tx_skb_pool s ! i)) is" using Cons.prems(2) by (simp add: waiting_def)
  obtain id t ws where t: "tx_work_packet ops i s = Some (Ok id, t)" "pool_wf t" "ready (sum_list (map tx_room (tl (waiting s)))) t" "tx_skb_list t = is"
    "tx_skb_pool t = (tx_skb_pool s)[i := None]" "sent (hif t) = sent (hif s) @ ws" "message_of (TxRaw (skb_data ?skb)) ws"
    using tx_work_packet_run [OF Cons.prems(1,2), of "sum_list (map tx_room (tl (waiting s)))"] Cons.prems(3) w by auto
  have i: "i \<notin> set is" "i < 256" using Cons.prems(1,2) by (auto simp: pool_wf_def packet_wf_def)
  then have "i \<noteq> j" if "j \<in> set is" for j using that by blast
  then have wt: "waiting t = tl (waiting s)" unfolding w by (simp add: waiting_def t(4,5))
  obtain ids s' ws' where s': "tx_work_packets ops is t = Some (Ok ids, s')" "pool_wf s'" "ready 0 s'" "tx_skb_list s' = []"
    "sent (hif s') = sent (hif t) @ ws'" "\<forall>i \<in> set is. tx_skb_pool s' ! i = None" "\<forall>i. tx_skb_pool t ! i = None \<longrightarrow> tx_skb_pool s' ! i = None"
    "fw_decode ws' = Some (map (TxRaw \<circ> skb_data) (waiting t))"
    using Cons.IH [OF t(2,4)] t(3) wt by auto
  have none: "tx_skb_pool t ! j = None" if "j = i \<or> tx_skb_pool s ! j = None" for j
    using that i t(5) Cons.prems(1) by (auto simp: pool_wf_def nth_list_update)
  have "fw_decode (ws @ ws') = Some (map (TxRaw \<circ> skb_data) (waiting s))"
    using decode_message [OF t(7), of ws'] s'(8) wt w by simp
  with t(1,6) s' none show ?case
    by (intro exI [of _ "id # ids"] exI [of _ s'] exI [of _ "ws @ ws'"]) (auto simp: returnP_def)
qed

lemma free_skbs_run: "\<exists>es. foreachP (\<lambda>i. tell (FreeSkb i)) ids s = Some (Ok (), s\<lparr>events := es\<rparr>)"
proof (induction ids arbitrary: s)
  case Nil
  show ?case by (auto simp: returnP_def intro: exI [of _ "events s"])
next
  case (Cons i ids)
  from Cons [of "s\<lparr>events := FreeSkb i # events s\<rparr>"] show ?case by (auto simp: tell_def modifyP_def)
qed

lemma tx_work_run:
  assumes "pool_wf s" "ready (sum_list (map tx_room (waiting s))) s"
  shows "\<exists>s' ws. mt7697_tx_work ops s = Some (Ok (), s') \<and> pool_wf s' \<and> waiting s' = [] \<and> tx_skb_list s' = [] \<and> sent (hif s') = sent (hif s) @ ws \<and>
    (\<forall>i. tx_skb_pool s ! i = None \<or> i \<in> set (tx_skb_list s) \<longrightarrow> tx_skb_pool s' ! i = None) \<and>
    fw_decode ws = Some (map (TxRaw \<circ> skb_data) (waiting s))"
proof -
  obtain ids t ws where t: "tx_work_packets ops (tx_skb_list s) s = Some (Ok ids, t)" "pool_wf t" "tx_skb_list t = []" "sent (hif t) = sent (hif s) @ ws"
    "\<forall>i \<in> set (tx_skb_list s). tx_skb_pool t ! i = None" "\<forall>i. tx_skb_pool s ! i = None \<longrightarrow> tx_skb_pool t ! i = None"
    "fw_decode ws = Some (map (TxRaw \<circ> skb_data) (waiting s))"
    using tx_work_packets_run [OF assms(1) refl assms(2)] by blast
  obtain es where "foreachP (\<lambda>i. tell (FreeSkb i)) ids t = Some (Ok (), t\<lparr>events := es\<rparr>)" using free_skbs_run by blast
  with t show ?thesis
    by (intro exI [of _ "t\<lparr>events := es\<rparr>"] exI [of _ ws]) (auto simp: mt7697_tx_work_def bindP_def getP_def waiting_def)
qed

end

section \<open>From the kernel to the firmware\<close>

lemma accepted_le: "sum_list (map tx_room (accepted_of rs skbs)) \<le> sum_list (map tx_room skbs)"
proof (induction skbs arbitrary: rs)
  case (Cons skb skbs)
  then show ?case by (cases rs) (auto simp: le_SucI trans_le_add2)
qed simp

text \<open>C30: the packets the kernel hands over and the ones the firmware gets are the same queue: each packet is accepted
  or refused as the next entry of the pool is free or taken, and the work item sends all that wait, those of before and
  those accepted, in order, whole and once, through any transport that delivers, and leaves none behind.\<close>

theorem packets_reach_firmware:
  assumes writer: "hif_writer ops good q sent room" and up: "good (hif s)" "sending q s" and wf: "pool_wf s"
    and skbs: "list_all (can_transmit env s) skbs" and work: "\<And>n. 0 \<le> queue_work_ret env n"
    and fits: "\<And>k. k \<le> sum_list (map tx_room (waiting s @ skbs)) \<Longrightarrow> room (hif s) k"
  shows "\<exists>rs s' ws. bindP (transmit env skbs) (\<lambda>rs. seqP (mt7697_tx_work ops) (returnP rs)) s = Some (Ok rs, s') \<and>
    length rs = length skbs \<and> set rs \<subseteq> {NETDEV_TX_OK, NETDEV_TX_BUSY} \<and> (free_entries (length skbs) s \<longrightarrow> set rs \<subseteq> {NETDEV_TX_OK}) \<and>
    sent (hif s') = sent (hif s) @ ws \<and> fw_decode ws = Some (map (TxRaw \<circ> skb_data) (waiting s @ accepted_of rs skbs)) \<and>
    pool_wf s' \<and> waiting s' = []"
proof -
  obtain rs t where t: "transmit env skbs s = Some (Ok rs, t)" "length rs = length skbs" "set rs \<subseteq> {0, 16}" "pool_wf t" "undisturbed s t"
    "waiting t = waiting s @ accepted_of rs skbs" "free_entries (length skbs) s \<longrightarrow> set rs \<subseteq> {0}"
    using transmit_run [OF work wf skbs] by blast
  have "room (hif s) (sum_list (map tx_room (waiting t)))" using accepted_le [of rs skbs] by (intro fits) (simp add: t(6))
  then have "hif_writer.ready good q room (sum_list (map tx_room (waiting t))) t"
    using up t(5) by (simp add: hif_writer.ready_def [OF writer] undisturbed_def)
  from hif_writer.tx_work_run [OF writer t(4) this] obtain s' ws where s': "mt7697_tx_work ops t = Some (Ok (), s')" "pool_wf s'" "waiting s' = []"
    "sent (hif s') = sent (hif t) @ ws" "fw_decode ws = Some (map (TxRaw \<circ> skb_data) (waiting t))"
    by blast
  with t show ?thesis
    by (intro exI [of _ rs] exI [of _ s'] exI [of _ ws]) (simp add: returnP_def undisturbed_def)
qed

section \<open>Stopping with packets that wait\<close>

text \<open>The pool when no packet waits but every entry is taken.\<close>

definition wedged :: "'h mt7697_cfg80211_info \<Rightarrow> bool" where
  "wedged s \<longleftrightarrow> pool_wf s \<and> tx_skb_list s = [] \<and> None \<notin> set (tx_skb_pool s)"

fun rounds :: "'h mt7697_if_ops \<Rightarrow> wifi_env \<Rightarrow> sk_buff list list \<Rightarrow> ('h, int list) wifi_prog" where
  "rounds ops env [] = returnP []"
| "rounds ops env (skbs # rest) = bindP (transmit env skbs) (\<lambda>rs. seqP (mt7697_tx_work ops) (bindP (rounds ops env rest) (\<lambda>rss. returnP (rs @ rss))))"

lemma tx_stop_pool:
  "pool_wf s \<Longrightarrow> tx_skb_list s = is \<Longrightarrow> \<exists>s'. foreachP tx_stop_packet is s = Some (Ok (), s') \<and> pool_wf s' \<and> tx_skb_list s' = [] \<and>
    tx_skb_pool s' = tx_skb_pool s \<and> (\<forall>w. vif_up w s' = vif_up w s)"
proof (induction "is" arbitrary: s)
  case Nil
  then show ?case by (simp add: returnP_def)
next
  case (Cons i "is")
  then have "packet_wf s i" by (simp add: pool_wf_def)
  then obtain skb where skb: "tx_skb_pool s ! i = Some skb" "vif_up (skb_dev skb) s" by (auto simp: packet_wf_def vif_up_def)
  obtain W where W: "upd_stats (skb_dev skb) (\<lambda>t. t\<lparr>tx_dropped := tx_dropped t + 1\<rparr>) s = Some (Ok (), s\<lparr>vifs := W\<rparr>)"
    "\<forall>w. vif_up w (s\<lparr>vifs := W\<rparr>) = vif_up w s" "pool_wf (s\<lparr>vifs := W\<rparr>)"
    using upd_stats_run [OF skb(2)] Cons.prems(1) by blast
  let ?t = "s\<lparr>vifs := W, tx_skb_list := is\<rparr>"
  have one: "tx_stop_packet i s = Some (Ok (), ?t)"
    using skb(1) W(1) Cons.prems(2) by (simp add: tx_stop_packet_def pool_packet_def bindP_def getP_def modifyP_def returnP_def seqP_def)
  have "pool_wf ?t" using W(3) Cons.prems(2) by (auto simp: pool_wf_def packet_wf_def)
  with Cons.IH [of ?t] one W(2) show ?case by (auto simp: vif_up_def)
qed

lemma transmit_wedged:
  "wedged s \<Longrightarrow> list_all (can_transmit env s) skbs \<Longrightarrow> \<exists>s'. transmit env skbs s = Some (Ok (replicate (length skbs) NETDEV_TX_BUSY), s') \<and>
    wedged s' \<and> (\<forall>w. vif_up w s' = vif_up w s)"
proof (induction skbs arbitrary: s)
  case Nil
  then show ?case by (simp add: returnP_def)
next
  case (Cons skb skbs)
  have "tx_skb_pool_idx s < length (tx_skb_pool s)" using Cons.prems(1) by (simp add: wedged_def pool_wf_def)
  then have "tx_skb_pool s ! tx_skb_pool_idx s \<noteq> None" using Cons.prems(1) by (metis nth_mem wedged_def)
  then have "mt7697_data_tx env skb (skb_dev skb) s = drop_packet (skb_dev skb) (Some (skb_id skb)) 16 s"
    using Cons.prems(2) by (simp add: can_transmit_def mt7697_data_tx_def with_headroom_def bindP_returnP enqueue_packet_def)
  then obtain t where t: "mt7697_data_tx env skb (skb_dev skb) s = Some (Ok 16, t)" "pool_wf t" "waiting t = waiting s"
    "\<forall>w. vif_up w t = vif_up w s" "tx_skb_pool t = tx_skb_pool s"
    using drop_packet_run [of "skb_dev skb" s "Some (skb_id skb)" 16] Cons.prems by (auto simp: can_transmit_def wedged_def undisturbed_def)
  then have "wedged t" using Cons.prems(1) by (auto simp: wedged_def waiting_def)
  moreover have "list_all (can_transmit env t) skbs" using Cons.prems(2) t(4) by (simp add: can_transmit_def list_all_iff)
  ultimately obtain s' where "transmit env skbs t = Some (Ok (replicate (length skbs) 16), s')" "wedged s'" "\<forall>w. vif_up w s' = vif_up w t"
    using Cons.IH by blast
  with t show ?case by (auto simp: returnP_def)
qed

lemma rounds_wedged:
  "wedged s \<Longrightarrow> list_all (list_all (can_transmit env s)) skbss \<Longrightarrow>
    \<exists>s'. rounds ops env skbss s = Some (Ok (replicate (length (concat skbss)) NETDEV_TX_BUSY), s') \<and> wedged s'"
proof (induction skbss arbitrary: s)
  case Nil
  then show ?case by (simp add: returnP_def)
next
  case (Cons skbs skbss)
  then obtain t where t: "transmit env skbs s = Some (Ok (replicate (length skbs) 16), t)" "wedged t" "\<forall>w. vif_up w t = vif_up w s"
    using transmit_wedged [of s env skbs] by auto
  then have "mt7697_tx_work ops t = Some (Ok (), t)"
    by (simp add: mt7697_tx_work_def wedged_def bindP_def getP_def returnP_def)
  moreover have "list_all (list_all (can_transmit env t)) skbss" using Cons.prems(2) t(3) by (simp add: can_transmit_def list_all_iff)
  with Cons.IH [OF t(2)] obtain s' where "rounds ops env skbss t = Some (Ok (replicate (length (concat skbss)) 16), s')" "wedged s'" by blast
  ultimately show ?case using t(1) by (auto simp: returnP_def replicate_add)
qed

text \<open>C31: when an interface is stopped while the pool is full, the packets are unlinked but their entries stay taken:
  from then on every packet is refused as busy, whatever is handed over and however often the work item runs.\<close>

theorem stop_wedges_pool:
  assumes "pool_wf s" "None \<notin> set (tx_skb_pool s)" "list_all (list_all (can_transmit env s)) skbss"
  shows "\<exists>s1 s2. mt7697_tx_stop s = Some (Ok (), s1) \<and> waiting s1 = [] \<and>
    rounds ops env skbss s1 = Some (Ok (replicate (length (concat skbss)) NETDEV_TX_BUSY), s2)"
proof -
  obtain s1 where s1: "mt7697_tx_stop s = Some (Ok (), s1)" "pool_wf s1" "tx_skb_list s1 = []" "tx_skb_pool s1 = tx_skb_pool s"
    "\<forall>w. vif_up w s1 = vif_up w s"
    using tx_stop_pool [OF assms(1) refl] by (auto simp: mt7697_tx_stop_def)
  then have "wedged s1" "list_all (list_all (can_transmit env s1)) skbss"
    using assms(2,3) by (simp_all add: wedged_def can_transmit_def list_all_iff)
  from rounds_wedged [OF this] s1(1,3) show ?thesis by (auto simp: waiting_def)
qed

section \<open>Examples\<close>

text \<open>The device of the example with one interface that is up.\<close>

definition example_up :: "u8 list \<Rightarrow> (u8 list \<times> u8 list) mt7697_uart_info mt7697_cfg80211_info" where
  "example_up bs = (example_wifi bs)\<lparr>vif_list := [0], vifs := [0 \<mapsto> (new_vif NL80211_IFTYPE_STATION 0)\<lparr>dev_up := True\<rparr>], next_vif := 1\<rparr>"

abbreviation packet :: "nat \<Rightarrow> u8 list \<Rightarrow> sk_buff" where
  "packet i bs \<equiv> \<lparr>skb_id = i, skb_dev = 0, skb_headroom = 38, skb_data = bs\<rparr>"

theorem packets_reach_firmware_witness:
  "\<exists>s' ws. bindP (transmit example_wifi_env [packet 1 [1, 2, 3], packet 2 [4]]) (\<lambda>rs. seqP (mt7697_tx_work example_ops) (returnP rs)) (example_up []) =
      Some (Ok [0, 0], s') \<and> bytes_words (snd (line (hif s'))) = ws \<and> fw_decode ws = Some [TxRaw [1, 2, 3], TxRaw [4]]"
proof -
  have e: "hif (example_up []) = hif (example_wifi [])" "sending 0 (example_up [])" "waiting (example_up []) = []" "pool_wf (example_up [])"
    "bytes_words (snd (line (hif (example_up [])))) = []"
    by (simp_all add: example_up_def example_wifi_def new_cfg_def sending_def wifi_hdr_def waiting_def pool_wf_def)
  have tx: "list_all (can_transmit example_wifi_env (example_up [])) [packet 1 [1, 2, 3], packet 2 [4]]"
    by (simp add: can_transmit_def vif_up_def example_up_def example_wifi_env_def)
  have free: "free_entries 2 (example_up [])"
    by (auto simp: free_entries_def example_up_def example_wifi_def new_cfg_def)
  have up: "uart_up three_bytes fst snd (hif (example_up []))" using example_wifi_up [of "[]"] e(1) by simp
  have work: "0 \<le> queue_work_ret example_wifi_env n" for n by (simp add: example_wifi_env_def)
  from packets_reach_firmware [OF example_writer up e(2,4) tx work TrueI] obtain rs s' ws where
    r: "bindP (transmit example_wifi_env [packet 1 [1, 2, 3], packet 2 [4]]) (\<lambda>rs. seqP (mt7697_tx_work example_ops) (returnP rs)) (example_up []) =
      Some (Ok rs, s')" "length rs = length [packet 1 [1, 2, 3], packet 2 [4]]"
    "free_entries (length [packet 1 [1, 2, 3], packet 2 [4]]) (example_up []) \<longrightarrow> set rs \<subseteq> {0}"
    "bytes_words (snd (line (hif s'))) = bytes_words (snd (line (hif (example_up [])))) @ ws"
    "fw_decode ws = Some (map (TxRaw \<circ> skb_data) (waiting (example_up []) @ accepted_of rs [packet 1 [1, 2, 3], packet 2 [4]]))"
    by blast
  have "length rs = 2" "set rs \<subseteq> {0}" using r(2,3) free by (simp_all add: numeral_2_eq_2)
  then have rs: "rs = [0, 0]" by (auto simp: length_Suc_conv numeral_2_eq_2)
  show ?thesis using r(1,4,5) unfolding rs e(3,5) by (intro exI [of _ s'] exI [of _ ws]) simp
qed

theorem stop_wedges_pool_witness:
  "\<exists>s1 s2. mt7697_tx_stop ((example_up [])\<lparr>tx_skb_pool := replicate 256 (Some (packet 1 [7])), tx_skb_list := [3]\<rparr>) = Some (Ok (), s1) \<and> waiting s1 = [] \<and>
    rounds example_ops example_wifi_env [[packet 2 [8]], [packet 3 [9], packet 4 []]] s1 = Some (Ok [16, 16, 16], s2)"
  using stop_wedges_pool [of "(example_up [])\<lparr>tx_skb_pool := replicate 256 (Some (packet 1 [7])), tx_skb_list := [3]\<rparr>" example_wifi_env
    "[[packet 2 [8]], [packet 3 [9], packet 4 []]]" example_ops]
  by (simp add: pool_wf_def packet_wf_def can_transmit_def vif_up_def example_up_def example_wifi_env_def example_wifi_def new_cfg_def eval_nat_numeral)

end
