(* ===== verification/Mangoh_Text.thy ===== *)
theory Mangoh_Text
  imports Complex_Main Mangoh_Prelude
begin

text \<open>
  Numbers and text of the applications: doubles, the decimal text that \<^verbatim>\<open>printf\<close> gives for them and for integers,
  and hexadecimal digits.
\<close>

section \<open>Doubles\<close>

text \<open>The doubles that the code compares: a comparison with a NaN is false.\<close>

datatype double = Nan | Infinity bool | Finite rat

fun less_d :: "double \<Rightarrow> double \<Rightarrow> bool" where
  "less_d (Finite x) (Finite y) \<longleftrightarrow> x < y"
| "less_d (Finite x) (Infinity neg) \<longleftrightarrow> \<not> neg"
| "less_d (Infinity neg) (Finite y) \<longleftrightarrow> neg"
| "less_d (Infinity neg) (Infinity neg') \<longleftrightarrow> neg \<and> \<not> neg'"
| "less_d Nan y \<longleftrightarrow> False"
| "less_d x Nan \<longleftrightarrow> False"

section \<open>Decimal text\<close>

definition digit_char :: "nat \<Rightarrow> char" where
  "digit_char d = char_of (48 + d)"

definition char_digit :: "char \<Rightarrow> nat" where
  "char_digit c = of_char c - 48"

fun dec_digits :: "nat \<Rightarrow> string" where
  "dec_digits n = (if n < 10 then [digit_char n] else dec_digits (n div 10) @ [digit_char (n mod 10)])"

declare dec_digits.simps [simp del]

definition digits_value :: "string \<Rightarrow> nat" where
  "digits_value cs = foldl (\<lambda>a c. 10 * a + char_digit c) 0 cs"

lemma char_digit_char [simp]: "d < 10 \<Longrightarrow> char_digit (digit_char d) = d"
  by (simp add: char_digit_def digit_char_def)

lemma digits_value_append: "digits_value (cs @ ds) = digits_value cs * 10 ^ length ds + digits_value ds"
proof (induction ds rule: rev_induct)
  case (snoc d ds)
  then show ?case by (simp add: digits_value_def algebra_simps)
qed (simp add: digits_value_def)

lemma digits_value_dec [simp]: "digits_value (dec_digits n) = n"
proof (induction n rule: dec_digits.induct)
  case (1 n)
  have "digits_value [digit_char d] = d" if "d < 10" for d using that by (simp add: digits_value_def)
  then show ?case using 1 by (subst dec_digits.simps) (auto simp: digits_value_append)
qed

lemma dec_digits_Cons [simp]: "dec_digits n \<noteq> []"
  by (subst dec_digits.simps) simp

lemma length_dec_digits: "0 < k \<Longrightarrow> n < 10 ^ k \<Longrightarrow> length (dec_digits n) \<le> k"
proof (induction k arbitrary: n rule: nat_induct_non_zero)
  case 1
  then show ?case by (subst dec_digits.simps) simp
next
  case (Suc k)
  have "n div 10 < 10 ^ k" using Suc.prems by (simp add: less_mult_imp_div_less mult.commute)
  then show ?case using Suc by (subst dec_digits.simps) auto
qed

definition digits :: "char set" where "digits = digit_char ` {0..<10}"

lemma dec_digits_digits: "set (dec_digits n) \<subseteq> digits"
proof (induction n rule: dec_digits.induct)
  case (1 n)
  then show ?case by (subst dec_digits.simps) (auto simp: digits_def)
qed

lemma digits_code: "digits = set ''0123456789''"
  unfolding digits_def digit_char_def by code_simp

text \<open>Six digits, with zeros in front.\<close>

definition six_digits :: "nat \<Rightarrow> string" where
  "six_digits n = replicate (6 - length (dec_digits n)) (CHR ''0'') @ dec_digits n"

lemma digits_value_zeros: "digits_value (replicate k (CHR ''0'') @ cs) = digits_value cs"
  by (induction k) (simp_all add: digits_value_def char_digit_def)

lemma six_digits_value [simp]: "digits_value (six_digits n) = n"
  by (simp add: six_digits_def digits_value_zeros)

lemma length_six_digits [simp]: "n < 1000000 \<Longrightarrow> length (six_digits n) = 6"
  using length_dec_digits [of 6 n] by (simp add: six_digits_def)

lemma six_digits_digits: "set (six_digits n) \<subseteq> digits"
  using dec_digits_digits by (auto simp: six_digits_def digits_code)

section \<open>The conversion \<^verbatim>\<open>%lf\<close>\<close>

text \<open>Rounding to the nearest integer, to the even one in the middle.\<close>

definition round_even :: "rat \<Rightarrow> int" where
  "round_even x = (let n = \<lfloor>x\<rfloor>; r = x - of_int n in if r < 1 / 2 \<or> r = 1 / 2 \<and> even n then n else n + 1)"

lemma round_even_int [simp]: "round_even (of_int n) = n"
  by (simp add: round_even_def)

definition millionths :: "nat \<Rightarrow> string" where
  "millionths n = dec_digits (n div 1000000) @ ''.'' @ six_digits (n mod 1000000)"

fun fmt_lf :: "double \<Rightarrow> string" where
  "fmt_lf Nan = ''nan''"
| "fmt_lf (Infinity neg) = (if neg then ''-inf'' else ''inf'')"
| "fmt_lf (Finite q) = (if q < 0 then ''-'' else []) @ millionths (nat (round_even (\<bar>q\<bar> * 1000000)))"

text \<open>Reading the text of a number back, in millionths.\<close>

definition read_millionths :: "string \<Rightarrow> int" where
  "read_millionths cs = (let neg = (cs \<noteq> [] \<and> hd cs = CHR ''-''); ds = (if neg then tl cs else cs);
     n = int (digits_value (filter (\<lambda>c. c \<noteq> CHR ''.'') ds)) in if neg then - n else n)"

lemma millionths_value: "digits_value (filter (\<lambda>c. c \<noteq> CHR ''.'') (millionths n)) = n"
proof -
  have d: "filter (\<lambda>c. c \<noteq> CHR ''.'') cs = cs" if "set cs \<subseteq> digits" for cs
    using that by (auto simp: digits_code filter_id_conv)
  have "length (six_digits (n mod 1000000)) = 6" by simp
  then show ?thesis
    using d [OF dec_digits_digits] d [OF six_digits_digits]
    by (simp add: millionths_def digits_value_append)
qed

lemma millionths_hd: "millionths n \<noteq> [] \<and> hd (millionths n) \<noteq> CHR ''-''"
proof -
  have "hd (dec_digits (n div 1000000)) \<in> digits" using dec_digits_digits [of "n div 1000000"] hd_in_set by fastforce
  then show ?thesis by (auto simp: millionths_def digits_code)
qed

lemma fmt_lf_millionths: "fmt_lf (Finite (of_int k / 1000000)) = (if k < 0 then ''-'' else []) @ millionths (nat \<bar>k\<bar>)"
proof -
  have "round_even (\<bar>of_int k / 1000000\<bar> * 1000000) = \<bar>k\<bar>"
    using round_even_int [of k] round_even_int [of "- k"] by (cases "k < 0") (simp_all del: round_even_int)
  then show ?thesis unfolding fmt_lf.simps by (simp only: divide_less_0_iff) simp
qed

lemma read_fmt_lf: "read_millionths (fmt_lf (Finite (of_int k / 1000000))) = k"
  unfolding fmt_lf_millionths read_millionths_def
  using millionths_hd [of "nat \<bar>k\<bar>"] millionths_value [of "nat \<bar>k\<bar>"] by (auto simp: Let_def)

lemma length_millionths: "n < 10 ^ (k + 6) \<Longrightarrow> 0 < k \<Longrightarrow> length (millionths n) \<le> k + 7"
  using length_dec_digits [of k "n div 1000000"] by (simp add: millionths_def power_add less_mult_imp_div_less)

lemma length_fmt_lf: "nat \<bar>k\<bar> < 10 ^ (m + 6) \<Longrightarrow> 0 < m \<Longrightarrow> length (fmt_lf (Finite (of_int k / 1000000))) \<le> m + 8"
  using length_millionths [of "nat \<bar>k\<bar>" m] by (cases "k < 0") (simp_all add: fmt_lf_millionths del: fmt_lf.simps)

definition number_chars :: "char set" where "number_chars = digits \<union> set ''-.infa''"

lemma fmt_lf_chars: "set (fmt_lf d) \<subseteq> number_chars"
  using dec_digits_digits six_digits_digits by (cases d) (auto simp: number_chars_def millionths_def)

lemma dec_digits_chars: "set (dec_digits n) \<subseteq> number_chars"
  using dec_digits_digits by (auto simp: number_chars_def)

lemma number_chars_code: "number_chars = set ''0123456789-.infa''"
  by (auto simp: number_chars_def digits_code)

end
