(* ===== verification/Loc_Service.thy ===== *)
theory Loc_Service
  imports Mangoh_Text
begin

text \<open>
  The location service (\<^verbatim>\<open>apps/locationService/components/location.c\<close>): a periodic sample takes the position of the
  GNSS or, when there is none or it is inaccurate, starts a Wi-Fi scan, whose access points are sent to the Combain
  service; the results, the last position and the two flags of what is waited for are the state of the process.
\<close>

unbundle bit_operations_syntax

section \<open>MAC addresses\<close>

abbreviation (input) NUL :: char where "NUL \<equiv> CHR 0x00"

text \<open>A string is its characters up to the null character.\<close>

definition char_at :: "string \<Rightarrow> nat \<Rightarrow> char" where
  "char_at s i = (if i < length s then s ! i else NUL)"

definition nibble_of :: "char \<Rightarrow> u8 option" where
  "nibble_of c = (let n = (of_char c :: nat) in
     if 48 \<le> n \<and> n \<le> 57 then Some (word_of_nat (n - 48))
     else if 97 \<le> n \<and> n \<le> 102 then Some (10 + word_of_nat (n - 97))
     else if 65 \<le> n \<and> n \<le> 70 then Some (10 + word_of_nat (n - 65))
     else None)"

function mac_loop :: "nat \<Rightarrow> string \<Rightarrow> u8 list \<Rightarrow> bool \<times> u8 list" where
  "mac_loop i s b =
     (if i < 17 then
        if i mod 3 = 2 then (if char_at s i \<noteq> CHR '':'' then (False, b) else mac_loop (Suc i) s b)
        else (case nibble_of (char_at s i) of
            None \<Rightarrow> (False, b)
          | Some n \<Rightarrow> mac_loop (Suc i) s (if i mod 3 = 0 then b[i div 3 := push_bit 4 n] else b[i div 3 := b ! (i div 3) OR n]))
      else (char_at s i = NUL, b))"
  by pat_completeness auto
termination by (relation "measure (\<lambda>(i, _, _). 17 - i)") auto

declare mac_loop.simps [simp del]

text \<open>The result, and the six bytes as they are left.\<close>

definition MacAddrStringToBinary :: "string \<Rightarrow> u8 list \<Rightarrow> bool \<times> u8 list" where
  "MacAddrStringToBinary s b = mac_loop 0 s b"

section \<open>The state and what goes out\<close>

datatype Loc_t = GPS | WIFI

record Scan_t =
  lat :: double
  lon :: double
  hAccuracy :: double
  alt :: double
  vAccuracy :: double

datatype loc_act =
    LPushJson nat string
  | LPushString string string
  | LPushBoolean string bool
  | LCreateRequest nat
  | LAppend nat "u8 list" "u8 list" int
  | LSubmit nat
  | LDestroyRequest nat
  | LWifiScan
  | LCreateSensor string
  | LBooleanDefault string bool
  | LNumericDefault string nat
  | LJsonExample string
  | LCreateInput string

text \<open>
  An access point of a scan: what the calls leave in the buffers of the name and of the address, the memory that the
  binary address had before, and the signal.
\<close>

record access_point =
  ap_ssid_bytes :: "u8 list"
  ap_bssid_text :: string
  ap_bssid_mem :: "u8 list"
  ap_signal :: int

text \<open>
  What the process is answered, question by question: the position with what its call leaves in the variables, the
  clock, the Wi-Fi client and the Combain service.
\<close>

record loc_env =
  pos_time :: "nat \<Rightarrow> (nat \<times> nat \<times> nat) option"
  pos_date :: "nat \<Rightarrow> (nat \<times> nat \<times> nat) option"
  mktime_ret :: "nat \<Rightarrow> nat \<times> nat \<times> nat \<Rightarrow> nat \<times> nat \<times> nat \<Rightarrow> int"
  time_of_day :: "nat \<Rightarrow> nat \<times> nat"
  pos_3d :: "nat \<Rightarrow> bool \<times> int \<times> int \<times> int \<times> int \<times> int"
  service_available :: "nat \<Rightarrow> bool"
  wifi_create_ok :: "nat \<Rightarrow> bool"
  wifi_interface_ok :: "nat \<Rightarrow> bool"
  wifi_start_ok :: "nat \<Rightarrow> bool"
  scan_points :: "nat \<Rightarrow> access_point list"
  new_request :: "nat \<Rightarrow> nat"
  submit_ok :: "nat \<Rightarrow> bool"
  success_response :: "nat \<Rightarrow> nat \<Rightarrow> (double \<times> double \<times> double) option"
  pos_request_ok :: bool
  create_input_ok :: "string \<Rightarrow> bool"

record loc =
  combainHandle :: nat
  waitingForWifiResults :: bool
  waitingForCombainResults :: bool
  SavedGpsScan :: Scan_t
  GpsScan :: bool
  saved_ref :: "nat option"
  createdAccessPoint :: bool
  WifiStarted :: bool
  loc_asked :: nat
  loc_acts :: "loc_act list"

type_synonym 'a loc_prog = "(loc, 'a) prog"

definition loc_ask :: "(nat \<Rightarrow> 'a) \<Rightarrow> 'a loc_prog" where
  "loc_ask f = (\<lambda>s. Some (Ok (f (loc_asked s)), s\<lparr>loc_asked := Suc (loc_asked s)\<rparr>))"

text \<open>The newest action comes first.\<close>

definition emit :: "loc_act \<Rightarrow> unit loc_prog" where
  "emit a = modifyP (\<lambda>s. s\<lparr>loc_acts := a # loc_acts s\<rparr>)"

text \<open>Pushing to a sensor that is the null pointer is undefined; a fatal error ends the process.\<close>

definition psensor_PushJson :: "nat option \<Rightarrow> string \<Rightarrow> unit loc_prog" where
  "psensor_PushJson ref json = (case ref of
     None \<Rightarrow> haltP (Undefined ''push to a null sensor'') | Some r \<Rightarrow> emit (LPushJson r json))"

abbreviation (input) LE_FATAL :: "(loc, 'a) prog" where "LE_FATAL \<equiv> haltP (Exit 1)"

definition FIX_TYPE_THIS_PERIOD :: string where "FIX_TYPE_THIS_PERIOD = ''FixTypeThisPeriod/value''"
definition HAVE_FIX :: string where "HAVE_FIX = ''fix/value''"

definition report_fix :: "string \<Rightarrow> bool \<Rightarrow> unit loc_prog" where
  "report_fix kind ok = seqP (emit (LPushString FIX_TYPE_THIS_PERIOD kind)) (emit (LPushBoolean HAVE_FIX ok))"

section \<open>The text of a position\<close>

text \<open>The \<^verbatim>\<open>uint64_t\<close> time stamps wrap.\<close>

definition GetCurrentTimestamp :: "loc_env \<Rightarrow> nat loc_prog" where
  "GetCurrentTimestamp env = bindP (loc_ask (time_of_day env)) (\<lambda>(sec, usec).
     returnP ((sec * 1000 + usec div 1000) mod 2 ^ 64))"

definition fix_time :: "loc_env \<Rightarrow> nat loc_prog" where
  "fix_time env = bindP (loc_ask (pos_time env)) (\<lambda>t. case t of
     None \<Rightarrow> GetCurrentTimestamp env
   | Some hms \<Rightarrow> bindP (loc_ask (pos_date env)) (\<lambda>d. case d of
       None \<Rightarrow> GetCurrentTimestamp env
     | Some ymd \<Rightarrow> bindP (loc_ask (mktime_ret env)) (\<lambda>f. returnP (nat (f ymd hms * 1000 mod 2 ^ 64)))))"

definition quoted :: "string \<Rightarrow> string" where
  "quoted s = CHR 0x22 # s @ [CHR 0x22]"

text \<open>A Wi-Fi position has no altitude: two zeros stand for it.\<close>

definition json_text :: "Loc_t \<Rightarrow> Scan_t \<Rightarrow> nat \<Rightarrow> string" where
  "json_text loc scan ts =
     ''{ '' @ quoted ''lat'' @ '': '' @ fmt_lf (lat scan) @ '', '' @ quoted ''lon'' @ '': '' @ fmt_lf (lon scan) @
     '', '' @ quoted ''hAcc'' @ '': '' @ fmt_lf (hAccuracy scan) @
     '', '' @ quoted ''alt'' @ '': '' @ fmt_lf (case loc of GPS \<Rightarrow> alt scan | WIFI \<Rightarrow> Finite 0) @
     '', '' @ quoted ''vAcc'' @ '': '' @ fmt_lf (case loc of GPS \<Rightarrow> vAccuracy scan | WIFI \<Rightarrow> Finite 0) @
     '', '' @ quoted ''fixType'' @ '' : '' @ quoted (case loc of GPS \<Rightarrow> ''GNSS'' | WIFI \<Rightarrow> ''WIFI'') @
     '', '' @ quoted ''ts'' @ '' : '' @ dec_digits ts @ ''}''"

definition PackJson :: "loc_env \<Rightarrow> Loc_t \<Rightarrow> Scan_t \<Rightarrow> nat \<Rightarrow> string loc_prog" where
  "PackJson env loc scan jsonl = bindP (fix_time env) (\<lambda>ts.
     let json = json_text loc scan ts in if length json \<ge> jsonl then LE_FATAL else returnP json)"

section \<open>Results\<close>

definition UseGpsScan :: "loc_env \<Rightarrow> unit loc_prog" where
  "UseGpsScan env =
     bindP (getP (\<lambda>s. (GpsScan s, SavedGpsScan s, saved_ref s))) (\<lambda>(gps, scan, ref).
     seqP (whenP gps
       (bindP (PackJson env GPS scan 256) (\<lambda>json.
        seqP (psensor_PushJson ref json)
        (seqP (modifyP (\<lambda>s. s\<lparr>GpsScan := False\<rparr>)) (report_fix ''Weak GNSS'' True)))))
     (report_fix ''NONE'' False))"

datatype combain_result = COMBAIN_SUCCESS | COMBAIN_ERROR | COMBAIN_PARSE_FAILURE | COMBAIN_COMMUNICATION_FAILURE | COMBAIN_OTHER nat

definition outside_fence :: "double \<Rightarrow> double \<Rightarrow> bool" where
  "outside_fence latitude longitude \<longleftrightarrow> less_d latitude (Finite 49) \<or> less_d (Finite 50) latitude \<or> latitude = Finite 50 \<or>
     less_d (Finite (- 122)) longitude \<or> less_d longitude (Finite (- 124)) \<or> longitude = Finite (- 124)"

text \<open>The altitude of a Combain position is not set.\<close>

definition LocationResultHandler :: "loc_env \<Rightarrow> nat \<Rightarrow> combain_result \<Rightarrow> unit loc_prog" where
  "LocationResultHandler env handle result =
     bindP (getP (\<lambda>s. (waitingForCombainResults s, saved_ref s))) (\<lambda>(w, ref).
     if \<not> w then LE_FATAL
     else seqP (modifyP (\<lambda>s. s\<lparr>waitingForCombainResults := False\<rparr>))
       (if result = COMBAIN_SUCCESS then
          bindP (loc_ask (success_response env)) (\<lambda>f. case f handle of
            None \<Rightarrow> returnP ()
          | Some (la, lo, acc) \<Rightarrow>
              if outside_fence la lo then UseGpsScan env
              else bindP (PackJson env WIFI \<lparr>lat = la, lon = lo, hAccuracy = acc, alt = Nan, vAccuracy = Nan\<rparr> 256) (\<lambda>json.
                seqP (psensor_PushJson ref json)
                (seqP (modifyP (\<lambda>s. s\<lparr>saved_ref := None\<rparr>)) (report_fix ''Wifi'' True))))
        else UseGpsScan env))"

definition TrySubmitRequest :: "loc_env \<Rightarrow> bool loc_prog" where
  "TrySubmitRequest env =
     (let refused = bindP (getP combainHandle) (\<lambda>h.
        seqP (emit (LDestroyRequest h)) (seqP (report_fix ''NONE'' False) (returnP False))) in
      bindP (getP (\<lambda>s. (waitingForWifiResults s, waitingForCombainResults s, combainHandle s))) (\<lambda>(w, c, h).
      if \<not> w \<and> \<not> c then
        bindP (loc_ask (submit_ok env)) (\<lambda>ok.
        if ok then seqP (emit (LSubmit h)) (seqP (modifyP (\<lambda>s. s\<lparr>waitingForCombainResults := True\<rparr>)) (returnP True))
        else refused)
      else refused))"

section \<open>Scanning\<close>

definition append_point :: "access_point \<Rightarrow> unit loc_prog" where
  "append_point ap = bindP (getP combainHandle) (\<lambda>h.
     emit (LAppend h (snd (MacAddrStringToBinary (ap_bssid_text ap) (ap_bssid_mem ap))) (ap_ssid_bytes ap) (ap_signal ap)))"

datatype wifi_client_event = SCAN_DONE | WIFI_OTHER nat

definition WifiEventHandler :: "loc_env \<Rightarrow> wifi_client_event \<Rightarrow> unit loc_prog" where
  "WifiEventHandler env event = (case event of
     SCAN_DONE \<Rightarrow> bindP (getP waitingForWifiResults) (\<lambda>w.
       if \<not> w then returnP ()
       else seqP (modifyP (\<lambda>s. s\<lparr>waitingForWifiResults := False\<rparr>))
         (bindP (loc_ask (new_request env)) (\<lambda>h.
          seqP (emit (LCreateRequest h))
          (seqP (modifyP (\<lambda>s. s\<lparr>combainHandle := h\<rparr>))
          (bindP (loc_ask (scan_points env)) (\<lambda>aps.
           seqP (foreachP append_point aps) (bindP (TrySubmitRequest env) (\<lambda>_. returnP ()))))))))
   | WIFI_OTHER _ \<Rightarrow>
       bindP (getP combainHandle) (\<lambda>h.
       seqP (emit (LDestroyRequest h))
       (seqP (modifyP (\<lambda>s. s\<lparr>waitingForWifiResults := False\<rparr>)) (UseGpsScan env))))"

section \<open>Sampling\<close>

text \<open>Millionths of a degree and thousandths of a metre; the divisions are exact to the digits that are printed.\<close>

definition scan_of :: "int \<Rightarrow> int \<Rightarrow> int \<Rightarrow> int \<Rightarrow> int \<Rightarrow> Scan_t" where
  "scan_of la lo hacc al vacc = \<lparr>lat = Finite (of_int la / 1000000), lon = Finite (of_int lo / 1000000),
     hAccuracy = Finite (of_int hacc), alt = Finite (of_int al / 1000), vAccuracy = Finite (of_int vacc)\<rparr>"

definition create_access_point :: "loc_env \<Rightarrow> unit loc_prog" where
  "create_access_point env =
     bindP (loc_ask (wifi_create_ok env)) (\<lambda>ok.
     if \<not> ok then haltP (Exit 1)
     else seqP (modifyP (\<lambda>s. s\<lparr>createdAccessPoint := True\<rparr>))
       (bindP (loc_ask (wifi_interface_ok env)) (\<lambda>set. if \<not> set then LE_FATAL else returnP ())))"

text \<open>\<open>wifi_start_ok\<close> holds of the results \<^verbatim>\<open>LE_OK\<close> and \<^verbatim>\<open>LE_BUSY\<close>.\<close>

definition start_wifi :: "loc_env \<Rightarrow> unit loc_prog" where
  "start_wifi env = bindP (loc_ask (wifi_start_ok env)) (\<lambda>ok. modifyP (\<lambda>s. s\<lparr>WifiStarted := ok\<rparr>))"

definition start_scan :: "nat \<Rightarrow> unit loc_prog" where
  "start_scan ref =
     seqP (modifyP (\<lambda>s. s\<lparr>saved_ref := Some ref\<rparr>))
     (seqP (emit LWifiScan) (modifyP (\<lambda>s. s\<lparr>waitingForWifiResults := True\<rparr>)))"

definition sample_wifi :: "loc_env \<Rightarrow> nat \<Rightarrow> Scan_t \<Rightarrow> unit loc_prog" where
  "sample_wifi env ref scan =
     bindP (loc_ask (service_available env)) (\<lambda>avail.
     if \<not> avail then report_fix ''NONE'' False
     else seqP (whenP (less_d (hAccuracy scan) (Finite 500)) (modifyP (\<lambda>s. s\<lparr>SavedGpsScan := scan, GpsScan := True\<rparr>)))
       (bindP (getP (\<lambda>s. (waitingForWifiResults s, waitingForCombainResults s, createdAccessPoint s, WifiStarted s))) (\<lambda>(w, c, made, started).
        if \<not> w \<and> \<not> c then
          seqP (whenP (\<not> made) (create_access_point env))
          (seqP (whenP (\<not> started) (start_wifi env))
          (bindP (getP WifiStarted) (\<lambda>up. whenP up (start_scan ref))))
        else report_fix ''Waiting for Wifi'' False)))"

definition sample_gps :: "loc_env \<Rightarrow> nat \<Rightarrow> Scan_t \<Rightarrow> unit loc_prog" where
  "sample_gps env ref scan =
     bindP (PackJson env GPS scan 256) (\<lambda>json.
     seqP (psensor_PushJson (Some ref) json)
     (seqP (modifyP (\<lambda>s. s\<lparr>GpsScan := False\<rparr>))
     (seqP (report_fix ''Good GNSS'' True)
     (bindP (getP (\<lambda>s. (waitingForWifiResults s \<or> waitingForCombainResults s, combainHandle s))) (\<lambda>(w, h).
      whenP w (seqP (emit (LDestroyRequest h)) (modifyP (\<lambda>s. s\<lparr>waitingForWifiResults := False\<rparr>))))))))"

definition Sample :: "loc_env \<Rightarrow> nat \<Rightarrow> unit loc_prog" where
  "Sample env ref =
     bindP (loc_ask (pos_3d env)) (\<lambda>(ok, la, lo, hacc, al, vacc).
     let scan = scan_of la lo hacc al vacc in
     if \<not> ok \<or> less_d (Finite 150) (hAccuracy scan) then sample_wifi env ref scan
     else sample_gps env ref scan)"

section \<open>The start of the component\<close>

definition loc_start :: loc where
  "loc_start = \<lparr>combainHandle = 0, waitingForWifiResults = False, waitingForCombainResults = False,
     SavedGpsScan = \<lparr>lat = Finite 0, lon = Finite 0, hAccuracy = Finite 0, alt = Finite 0, vAccuracy = Finite 0\<rparr>,
     GpsScan = False, saved_ref = None, createdAccessPoint = False, WifiStarted = False, loc_asked = 0, loc_acts = []\<rparr>"

definition create_input :: "loc_env \<Rightarrow> string \<Rightarrow> unit loc_prog" where
  "create_input env path = (if create_input_ok env path then emit (LCreateInput path) else LE_FATAL)"

definition location_COMPONENT_INIT :: "loc_env \<Rightarrow> unit loc_prog" where
  "location_COMPONENT_INIT env =
     (if \<not> pos_request_ok env then LE_FATAL
      else seqP (emit (LCreateSensor ''coordinates''))
        (seqP (emit (LBooleanDefault ''coordinates/enable'' True))
        (seqP (emit (LNumericDefault ''coordinates/period'' 30))
        (seqP (emit (LJsonExample ''coordinates/value''))
        (seqP (create_input env FIX_TYPE_THIS_PERIOD) (create_input env HAVE_FIX))))))"

end
