(* ===== verification/Loc_Props.thy ===== *)
theory Loc_Props
  imports Loc_Service
begin

text \<open>The properties of the location service.\<close>

section \<open>MAC addresses\<close>

text \<open>
  The reference: an address is fields of two hexadecimal digits with a colon between two fields, and means one byte a
  field.
\<close>

definition hex_pair :: "char \<Rightarrow> char \<Rightarrow> u8 option" where
  "hex_pair a b = (case (nibble_of a, nibble_of b) of (Some h, Some l) \<Rightarrow> Some (push_bit 4 h OR l) | _ \<Rightarrow> None)"

fun mac_ref :: "string \<Rightarrow> u8 list option" where
  "mac_ref [a, b] = (case hex_pair a b of Some x \<Rightarrow> Some [x] | None \<Rightarrow> None)"
| "mac_ref (a # b # c # s) = (case hex_pair a b of Some x \<Rightarrow> (if c = CHR '':'' then map_option ((#) x) (mac_ref s) else None) | None \<Rightarrow> None)"
| "mac_ref _ = None"

lemma nibble_NUL [simp]: "nibble_of NUL = None"
  by (simp add: nibble_of_def)

lemma mac_loop_field:
  assumes k: "k < 6" and b: "length b = 6"
  shows "mac_loop (3 * k) s b = (case nibble_of (char_at s (3 * k)) of None \<Rightarrow> (False, b) | Some h \<Rightarrow>
    (case nibble_of (char_at s (3 * k + 1)) of None \<Rightarrow> (False, b[k := push_bit 4 h]) | Some l \<Rightarrow>
      (let b' = b[k := push_bit 4 h OR l] in
       if k = 5 then (char_at s 17 = NUL, b')
       else if char_at s (3 * k + 2) \<noteq> CHR '':'' then (False, b') else mac_loop (3 * Suc k) s b')))"
proof -
  have m: "(3 * k) mod 3 = 0" "(3 * k + 1) mod 3 = 1" "(3 * k) div 3 = k" "(3 * k + 1) div 3 = k" by simp_all
  have m2: "(3 * k + 2) mod 3 = 2" by presburger
  have i: "3 * k < 17" "3 * k + 1 < 17" "Suc (3 * k) = 3 * k + 1" "Suc (3 * k + 1) = 3 * k + 2" "Suc (3 * k + 2) = 3 * Suc k"
    "3 * k + 2 < 17 \<longleftrightarrow> k \<noteq> 5" "k = 5 \<Longrightarrow> 3 * k + 2 = 17" using k by auto
  have sep: "mac_loop (3 * k + 2) s c = (if k = 5 then (char_at s 17 = NUL, c)
      else if char_at s (3 * k + 2) \<noteq> CHR '':'' then (False, c) else mac_loop (3 * Suc k) s c)" for c
    by (subst mac_loop.simps [of "3 * k + 2"]) (simp only: i m2 if_cancel refl if_True if_False simp_thms split: if_split, simp)
  have second: "mac_loop (3 * k + 1) s c = (case nibble_of (char_at s (3 * k + 1)) of None \<Rightarrow> (False, c) | Some l \<Rightarrow>
      mac_loop (3 * k + 2) s (c[k := c ! k OR l]))" for c
    by (subst mac_loop.simps [of "3 * k + 1"]) (simp only: i m, simp cong: option.case_cong)
  have first: "mac_loop (3 * k) s b = (case nibble_of (char_at s (3 * k)) of None \<Rightarrow> (False, b) | Some h \<Rightarrow>
      mac_loop (3 * k + 1) s (b[k := push_bit 4 h]))"
    by (subst mac_loop.simps [of "3 * k"]) (simp only: i m, simp cong: option.case_cong)
  have "(b[k := push_bit 4 h])[k := b[k := push_bit 4 h] ! k OR l] = b[k := push_bit 4 h OR l]" for h l using k b by simp
  then show ?thesis unfolding first second sep by (simp only: Let_def)
qed

lemma mac_loop_iff:
  assumes "k < 6" "length b = 6"
  shows "mac_loop (3 * k) s b = (True, bs) \<longleftrightarrow> (\<exists>h l. nibble_of (char_at s (3 * k)) = Some h \<and> nibble_of (char_at s (3 * k + 1)) = Some l \<and>
    (if k = 5 then char_at s 17 = NUL \<and> bs = b[k := push_bit 4 h OR l]
     else char_at s (3 * k + 2) = CHR '':'' \<and> mac_loop (3 * Suc k) s (b[k := push_bit 4 h OR l]) = (True, bs)))"
  unfolding mac_loop_field [OF assms] by (auto simp: Let_def split: option.split)

lemma mac_ref_iff:
  assumes "NUL \<notin> set u"
  shows "mac_ref u = Some cs \<longleftrightarrow> (\<exists>h l. nibble_of (char_at u 0) = Some h \<and> nibble_of (char_at u 1) = Some l \<and>
    (char_at u 2 = NUL \<and> cs = [push_bit 4 h OR l] \<or>
     char_at u 2 = CHR '':'' \<and> (\<exists>ds. mac_ref (drop 3 u) = Some ds \<and> cs = (push_bit 4 h OR l) # ds)))"
  using assms by (cases u rule: mac_ref.cases) (auto simp: char_at_def hex_pair_def split: option.split)

lemma mac_ref_not_Nil: "mac_ref u \<noteq> Some []"
  by (cases u rule: mac_ref.cases) (auto split: option.split)

lemma char_at_drop: "char_at s (n + i) = char_at (drop n s) i"
  by (auto simp: char_at_def)

lemma mac_loop_ref:
  assumes s: "NUL \<notin> set s"
  shows "k < 6 \<Longrightarrow> length b = 6 \<Longrightarrow> mac_loop (3 * k) s b = (True, bs) \<longleftrightarrow>
    (\<exists>cs. mac_ref (drop (3 * k) s) = Some cs \<and> length cs = 6 - k \<and> bs = take k b @ cs)"
proof (induction "5 - k" arbitrary: k b)
  case 0
  then have k: "k = 5" by simp
  have u: "NUL \<notin> set (drop 15 s)" using s by (auto dest: in_set_dropD)
  have six: "b[5 := x] = take 5 b @ [x]" for x using 0 by (simp add: list_eq_iff_nth_eq nth_append less_Suc_eq numeral_eq_Suc)
  show ?case
    unfolding mac_loop_iff [OF 0(2,3)] unfolding k
    using char_at_drop [of s 15 0] char_at_drop [of s 15 1] char_at_drop [of s 15 2]
    by (auto simp: mac_ref_iff [OF u] mac_ref_not_Nil six)
next
  case (Suc n)
  then have k: "k < 5" "Suc k < 6" by simp_all
  have u: "NUL \<notin> set (drop (3 * k) s)" using s by (auto dest: in_set_dropD)
  have IH: "mac_loop (3 * Suc k) s c = (True, bs) \<longleftrightarrow> (\<exists>cs. mac_ref (drop (3 * Suc k) s) = Some cs \<and> length cs = 6 - Suc k \<and> bs = take (Suc k) c @ cs)"
    if "length c = 6" for c
    using Suc.hyps(1) [of "Suc k" c] Suc.hyps(2) k that by simp
  have "take (Suc k) (b[k := x]) = take k b @ [x]" for x using Suc.prems k by (simp add: take_Suc_conv_app_nth)
  with IH have step: "mac_loop (3 * Suc k) s (b[k := x]) = (True, bs) \<longleftrightarrow>
      (\<exists>ds. mac_ref (drop (3 * Suc k) s) = Some ds \<and> length ds = 5 - k \<and> bs = take k b @ x # ds)" for x
    using Suc.prems(2) by (auto simp del: mult_Suc_right)
  have d: "drop 3 (drop (3 * k) s) = drop (3 * Suc k) s" by (simp add: add.commute)
  have "k \<noteq> 5" "length ds = 5 - k \<longleftrightarrow> length (x # ds) = 6 - k" "length [x] \<noteq> 6 - k" for x :: u8 and ds using k by auto
  then show ?case
    unfolding mac_loop_iff [OF Suc.prems] mac_ref_iff [OF u, unfolded char_at_drop [symmetric]] d step add_0_right
    by (simp only: if_False) blast
qed

text \<open>C33: the parser of MAC addresses, a loop over seventeen positions that fills the bytes in place, accepts a string
  exactly when the grammar of six fields of two hexadecimal digits does, and then leaves exactly its bytes, whatever
  the memory held before.\<close>

theorem mac_parser_is_grammar:
  assumes "NUL \<notin> set s" "length b = 6"
  shows "MacAddrStringToBinary s b = (True, bs) \<longleftrightarrow> mac_ref s = Some bs \<and> length bs = 6"
  using mac_loop_ref [OF assms(1), of 0 b bs] assms(2) by (auto simp: MacAddrStringToBinary_def)

theorem mac_parser_is_grammar_witness:
  "MacAddrStringToBinary ''00:1f:A0:9b:fF:07'' (replicate 6 0xEE) = (True, [0x00, 0x1F, 0xA0, 0x9B, 0xFF, 0x07]) \<and>
    fst (MacAddrStringToBinary ''00:1f:A0:9b:fF'' (replicate 6 0xEE)) = False"
proof -
  have ref: "mac_ref ''00:1f:A0:9b:fF:07'' = Some [0x00, 0x1F, 0xA0, 0x9B, 0xFF, 0x07]" by code_simp
  have "mac_ref ''00:1f:A0:9b:fF'' = Some [0x00, 0x1F, 0xA0, 0x9B, 0xFF]" by code_simp
  then have "MacAddrStringToBinary ''00:1f:A0:9b:fF'' (replicate 6 0xEE) \<noteq> (True, bs)" for bs
    using mac_parser_is_grammar [of "''00:1f:A0:9b:fF''" "replicate 6 0xEE" bs] by auto
  then have "\<not> fst (MacAddrStringToBinary ''00:1f:A0:9b:fF'' (replicate 6 0xEE))"
    by (metis (full_types) prod.collapse)
  with ref mac_parser_is_grammar [of "''00:1f:A0:9b:fF:07''" "replicate 6 0xEE" "[0x00, 0x1F, 0xA0, 0x9B, 0xFF, 0x07]"] show ?thesis by simp
qed

section \<open>The text of a position\<close>

text \<open>A reader of the text: the pieces between the commas, each a key and a value on the two sides of a colon.\<close>

fun split_on :: "char \<Rightarrow> string \<Rightarrow> string list" where
  "split_on c [] = [[]]"
| "split_on c (x # xs) = (if x = c then [] # split_on c xs else (case split_on c xs of [] \<Rightarrow> [[x]] | y # ys \<Rightarrow> (x # y) # ys))"

definition trim :: "string \<Rightarrow> string" where
  "trim s = filter (\<lambda>c. c \<notin> {CHR '' '', CHR ''{'', CHR ''}'', CHR 0x22}) s"

definition json_field :: "string \<Rightarrow> string \<times> string" where
  "json_field p = (trim (takeWhile (\<lambda>c. c \<noteq> CHR '':'') p), trim (drop 1 (dropWhile (\<lambda>c. c \<noteq> CHR '':'') p)))"

definition json_fields :: "string \<Rightarrow> (string \<times> string) list" where
  "json_fields s = map json_field (split_on (CHR '','') s)"

lemma split_on_last: "c \<notin> set xs \<Longrightarrow> split_on c xs = [xs]"
  by (induction xs) auto

lemma split_on_append: "c \<notin> set xs \<Longrightarrow> split_on c (xs @ c # ys) = xs # split_on c ys"
  by (induction xs) auto

lemma json_field_colon: "CHR '':'' \<notin> set pre \<Longrightarrow> json_field (pre @ CHR '':'' # post) = (trim pre, trim post)"
proof -
  assume "CHR '':'' \<notin> set pre"
  then have "takeWhile (\<lambda>c. c \<noteq> CHR '':'') (pre @ CHR '':'' # post) = pre" "dropWhile (\<lambda>c. c \<noteq> CHR '':'') (pre @ CHR '':'' # post) = CHR '':'' # post"
    by (induction pre) auto
  then show ?thesis by (simp add: json_field_def)
qed

lemma trim_number: "set v \<subseteq> number_chars \<Longrightarrow> trim v = v"
  unfolding trim_def by (subst filter_id_conv) (auto simp: number_chars_code)

lemma trim_append: "trim (u @ v) = trim u @ trim v"
  by (simp add: trim_def)

lemma no_comma: "set v \<subseteq> number_chars \<Longrightarrow> CHR '','' \<notin> set v"
  by (auto simp: number_chars_code)

lemma json_fields_text:
  "json_fields (json_text loc scan ts) = [(''lat'', fmt_lf (lat scan)), (''lon'', fmt_lf (lon scan)), (''hAcc'', fmt_lf (hAccuracy scan)),
     (''alt'', fmt_lf (case loc of GPS \<Rightarrow> alt scan | WIFI \<Rightarrow> Finite 0)), (''vAcc'', fmt_lf (case loc of GPS \<Rightarrow> vAccuracy scan | WIFI \<Rightarrow> Finite 0)),
     (''fixType'', case loc of GPS \<Rightarrow> ''GNSS'' | WIFI \<Rightarrow> ''WIFI''), (''ts'', dec_digits ts)]"
proof -
  let ?v4 = "fmt_lf (case loc of GPS \<Rightarrow> alt scan | WIFI \<Rightarrow> Finite 0)" and ?v5 = "fmt_lf (case loc of GPS \<Rightarrow> vAccuracy scan | WIFI \<Rightarrow> Finite 0)"
  let ?v6 = "case loc of GPS \<Rightarrow> ''GNSS'' | WIFI \<Rightarrow> ''WIFI''"
  let ?p1 = "(''{ '' @ quoted ''lat'') @ CHR '':'' # '' '' @ fmt_lf (lat scan)" and ?p2 = "('' '' @ quoted ''lon'') @ CHR '':'' # '' '' @ fmt_lf (lon scan)"
  let ?p3 = "('' '' @ quoted ''hAcc'') @ CHR '':'' # '' '' @ fmt_lf (hAccuracy scan)" and ?p4 = "('' '' @ quoted ''alt'') @ CHR '':'' # '' '' @ ?v4"
  let ?p5 = "('' '' @ quoted ''vAcc'') @ CHR '':'' # '' '' @ ?v5" and ?p6 = "('' '' @ quoted ''fixType'' @ '' '') @ CHR '':'' # '' '' @ quoted ?v6"
  let ?p7 = "('' '' @ quoted ''ts'' @ '' '') @ CHR '':'' # '' '' @ dec_digits ts @ ''}''"
  have shape: "json_text loc scan ts = ?p1 @ CHR '','' # ?p2 @ CHR '','' # ?p3 @ CHR '','' # ?p4 @ CHR '','' # ?p5 @ CHR '','' # ?p6 @ CHR '','' # ?p7"
    by (simp add: json_text_def quoted_def)
  have nc: "CHR '','' \<notin> set (fmt_lf d)" "CHR '','' \<notin> set (dec_digits n)" for d n
    using no_comma fmt_lf_chars dec_digits_chars by blast+
  have c: "CHR '','' \<notin> set ?p1" "CHR '','' \<notin> set ?p2" "CHR '','' \<notin> set ?p3" "CHR '','' \<notin> set ?p4" "CHR '','' \<notin> set ?p5" "CHR '','' \<notin> set ?p6" "CHR '','' \<notin> set ?p7"
    using nc by (simp_all add: quoted_def del: fmt_lf.simps split: Loc_t.split)
  have k: "CHR '':'' \<notin> set (''{ '' @ quoted ''lat'')" "CHR '':'' \<notin> set ('' '' @ quoted ''lon'')" "CHR '':'' \<notin> set ('' '' @ quoted ''hAcc'')"
    "CHR '':'' \<notin> set ('' '' @ quoted ''alt'')" "CHR '':'' \<notin> set ('' '' @ quoted ''vAcc'')" "CHR '':'' \<notin> set ('' '' @ quoted ''fixType'' @ '' '')"
    "CHR '':'' \<notin> set ('' '' @ quoted ''ts'' @ '' '')"
    by (simp_all add: quoted_def)
  have t: "trim (fmt_lf d) = fmt_lf d" "trim (dec_digits n) = dec_digits n" for d n
    using trim_number fmt_lf_chars dec_digits_chars by blast+
  have s: "trim '' '' = []" "trim ''}'' = []" "trim ''{ '' = []" "trim (quoted ''lat'') = ''lat''" "trim (quoted ''lon'') = ''lon''"
    "trim (quoted ''hAcc'') = ''hAcc''" "trim (quoted ''alt'') = ''alt''" "trim (quoted ''vAcc'') = ''vAcc''"
    "trim (quoted ''fixType'') = ''fixType''" "trim (quoted ''ts'') = ''ts''" "trim (quoted ?v6) = ?v6"
    by (simp_all add: trim_def quoted_def split: Loc_t.split)
  show ?thesis
    unfolding shape json_fields_def
    by (simp only: split_on_append [OF c(1)] split_on_append [OF c(2)] split_on_append [OF c(3)] split_on_append [OF c(4)] split_on_append [OF c(5)]
      split_on_append [OF c(6)] split_on_last [OF c(7)] list.map json_field_colon [OF k(1)] json_field_colon [OF k(2)] json_field_colon [OF k(3)]
      json_field_colon [OF k(4)] json_field_colon [OF k(5)] json_field_colon [OF k(6)] json_field_colon [OF k(7)] trim_append t s append_Nil append_Nil2)
qed

section \<open>A position of the GNSS\<close>

definition int32 :: "int \<Rightarrow> bool" where
  "int32 x \<longleftrightarrow> - (2 ^ 31) \<le> x \<and> x < 2 ^ 31"

lemma fix_time_run: "\<exists>ts n. fix_time env s = Some (Ok ts, s\<lparr>loc_asked := n\<rparr>) \<and> ts < 2 ^ 64"
proof -
  have "nat (x mod 2 ^ 64) < 2 ^ 64" for x :: int by (simp add: nat_less_iff)
  then show ?thesis
    by (auto simp: fix_time_def GetCurrentTimestamp_def loc_ask_def bindP_def returnP_def split: option.split prod.split)
qed

lemma json_text_short:
  assumes "int32 la" "int32 lo" "int32 hacc" "int32 al" "int32 vacc" "ts < 2 ^ 64"
  shows "length (json_text GPS (scan_of la lo hacc al vacc) ts) < 256"
proof -
  have b: "nat \<bar>x\<bar> < 10 ^ (4 + 6)" "nat \<bar>x * 1000000\<bar> < 10 ^ (10 + 6)" "nat \<bar>x * 1000\<bar> < 10 ^ (7 + 6)" if "int32 x" for x
    using that by (auto simp: int32_def abs_if nat_less_iff)
  have eq: "of_int (x * 1000000) / 1000000 = (of_int x :: rat)" "of_int (x * 1000) / 1000000 = (of_int x / 1000 :: rat)" for x :: int by simp_all
  have deg: "length (fmt_lf (Finite (of_int x / 1000000))) \<le> 12" if "int32 x" for x
    using length_fmt_lf [OF b(1) [OF that]] by (simp only: zero_less_numeral) simp
  have acc: "length (fmt_lf (Finite (of_int x))) \<le> 18" if "int32 x" for x
    using length_fmt_lf [OF b(2) [OF that]] unfolding eq by (simp only: zero_less_numeral) simp
  have hgt: "length (fmt_lf (Finite (of_int x / 1000))) \<le> 15" if "int32 x" for x
    using length_fmt_lf [OF b(3) [OF that]] unfolding eq by (simp only: zero_less_numeral) simp
  have "length (dec_digits ts) \<le> 20" using length_dec_digits [of 20 ts] assms(6) by simp
  then show ?thesis
    using deg [OF assms(1)] deg [OF assms(2)] acc [OF assms(3)] hgt [OF assms(4)] acc [OF assms(5)]
    by (simp add: json_text_def quoted_def scan_of_def del: fmt_lf.simps)
qed

lemma PackJson_gps_run:
  assumes "int32 la" "int32 lo" "int32 hacc" "int32 al" "int32 vacc"
  shows "\<exists>ts n. PackJson env GPS (scan_of la lo hacc al vacc) 256 s = Some (Ok (json_text GPS (scan_of la lo hacc al vacc) ts), s\<lparr>loc_asked := n\<rparr>) \<and> ts < 2 ^ 64"
proof -
  obtain ts n where "fix_time env s = Some (Ok ts, s\<lparr>loc_asked := n\<rparr>)" "ts < 2 ^ 64" using fix_time_run by blast
  with json_text_short [OF assms this(2)] show ?thesis by (auto simp: PackJson_def Let_def returnP_def not_le)
qed

definition json_value :: "string \<Rightarrow> string \<Rightarrow> string" where
  "json_value json key = the (map_of (json_fields json) key)"


text \<open>An environment that grants everything; the position is given, and the answer of Combain.\<close>

definition example_loc_env :: "bool \<times> int \<times> int \<times> int \<times> int \<times> int \<Rightarrow> (double \<times> double \<times> double) option \<Rightarrow> loc_env" where
  "example_loc_env p r = \<lparr>pos_time = (\<lambda>_. Some (12, 30, 0)), pos_date = (\<lambda>_. Some (2020, 2, 29)), mktime_ret = (\<lambda>_ _ _. 1582979400),
     time_of_day = (\<lambda>_. (1582979400, 0)), pos_3d = (\<lambda>_. p), service_available = (\<lambda>_. True), wifi_create_ok = (\<lambda>_. True),
     wifi_interface_ok = (\<lambda>_. True), wifi_start_ok = (\<lambda>_. True),
     scan_points = (\<lambda>_. [\<lparr>ap_ssid_bytes = [65], ap_bssid_text = ''00:11:22:33:44:55'', ap_bssid_mem = replicate 6 0, ap_signal = - 60\<rparr>]),
     new_request = (\<lambda>n. n), submit_ok = (\<lambda>_. True), success_response = (\<lambda>_ _. r), pos_request_ok = True, create_input_ok = (\<lambda>_. True)\<rparr>"


end
