(* ===== verification/Loc_States.thy ===== *)
theory Loc_States
  imports Loc_Props
begin

text \<open>The states that the location service can reach, and where it crashes.\<close>

section \<open>The service as a state machine\<close>

text \<open>
  The timer of the sensor, the Wi-Fi client and the Combain service may call their handlers in any order.
\<close>

datatype loc_event = EvSample nat | EvWifi wifi_client_event | EvResult nat combain_result

fun loc_handle :: "loc_env \<Rightarrow> loc_event \<Rightarrow> unit loc_prog" where
  "loc_handle env (EvSample ref) = Sample env ref"
| "loc_handle env (EvWifi event) = WifiEventHandler env event"
| "loc_handle env (EvResult handle result) = LocationResultHandler env handle result"

inductive loc_reach :: "loc_env \<Rightarrow> loc \<Rightarrow> bool" for env where
  Start: "location_COMPONENT_INIT env loc_start = Some (Ok (), s) \<Longrightarrow> loc_reach env s"
| Handled: "loc_reach env s \<Longrightarrow> loc_handle env e s = Some (Ok (), s') \<Longrightarrow> loc_reach env s'"

text \<open>
  What is documented of the answers: positions are 32-bit integers, and the accuracy of a Combain position is less than
  ten billion metres.
\<close>

definition answers_ok :: "loc_env \<Rightarrow> bool" where
  "answers_ok env \<longleftrightarrow>
     (\<forall>n. case pos_3d env n of (_, la, lo, hacc, al, vacc) \<Rightarrow> int32 la \<and> int32 lo \<and> int32 hacc \<and> int32 al \<and> int32 vacc) \<and>
     (\<forall>n h la lo acc. success_response env n h = Some (la, lo, acc) \<longrightarrow>
        la \<noteq> Nan \<and> lo \<noteq> Nan \<and> (\<exists>q. acc = Finite q \<and> \<bar>q\<bar> < 10 ^ 10))"

definition gps_scan :: "Scan_t \<Rightarrow> bool" where
  "gps_scan scan \<longleftrightarrow> (\<exists>la lo hacc al vacc. int32 la \<and> int32 lo \<and> int32 hacc \<and> int32 al \<and> int32 vacc \<and> scan = scan_of la lo hacc al vacc)"

definition loc_inv :: "loc \<Rightarrow> bool" where
  "loc_inv s \<longleftrightarrow> \<not> (waitingForWifiResults s \<and> waitingForCombainResults s) \<and>
     (waitingForWifiResults s \<or> waitingForCombainResults s \<longrightarrow> saved_ref s \<noteq> None) \<and> gps_scan (SavedGpsScan s)"

lemma UseGpsScan_run:
  assumes inv: "loc_inv s" and ref: "GpsScan s \<longrightarrow> saved_ref s = Some r"
  shows "\<exists>n as. UseGpsScan env s = Some (Ok (), s\<lparr>loc_asked := n, GpsScan := False, loc_acts := as @ loc_acts s\<rparr>)"
proof (cases "GpsScan s")
  case False
  then have "s\<lparr>GpsScan := False\<rparr> = s" by simp
  with False show ?thesis
    by (intro exI [of _ "loc_asked s"] exI [of _ "[LPushBoolean HAVE_FIX False, LPushString FIX_TYPE_THIS_PERIOD ''NONE'']"])
      (simp add: UseGpsScan_def report_fix_def emit_def prog_defs)
next
  case True
  obtain la lo hacc al vacc where scan: "int32 la" "int32 lo" "int32 hacc" "int32 al" "int32 vacc" "SavedGpsScan s = scan_of la lo hacc al vacc"
    using inv by (auto simp: loc_inv_def gps_scan_def)
  obtain ts n where "PackJson env GPS (SavedGpsScan s) 256 s = Some (Ok (json_text GPS (SavedGpsScan s) ts), s\<lparr>loc_asked := n\<rparr>)"
    using PackJson_gps_run [OF scan(1-5), of env s] scan(6) by auto
  with True ref show ?thesis
    by (intro exI [of _ n] exI [of _ "[LPushBoolean HAVE_FIX False, LPushString FIX_TYPE_THIS_PERIOD ''NONE'', LPushBoolean HAVE_FIX True,
        LPushString FIX_TYPE_THIS_PERIOD ''Weak GNSS'', LPushJson r (json_text GPS (SavedGpsScan s) ts)]"])
      (simp add: UseGpsScan_def psensor_PushJson_def report_fix_def emit_def prog_defs)
qed


section \<open>Rules for the parts\<close>

lemma wp_loc_ask [wp_rules]: "wp (loc_ask f) Q s = Q (Ok (f (loc_asked s))) (s\<lparr>loc_asked := Suc (loc_asked s)\<rparr>)"
  by (simp add: wp_def loc_ask_def)

lemma wp_loc_emit [wp_rules]: "wp (emit a) Q s = Q (Ok ()) (s\<lparr>loc_acts := a # loc_acts s\<rparr>)"
  by (simp add: emit_def wp_rules)

lemma wp_report_fix [wp_rules]: "wp (report_fix kind ok) Q s =
    Q (Ok ()) (s\<lparr>loc_acts := LPushBoolean HAVE_FIX ok # LPushString FIX_TYPE_THIS_PERIOD kind # loc_acts s\<rparr>)"
  by (simp add: report_fix_def wp_rules)

lemma append_points_run: "\<exists>as. foreachP append_point aps s = Some (Ok (), s\<lparr>loc_acts := as\<rparr>)"
proof (induction aps arbitrary: s)
  case Nil
  show ?case by (intro exI [of _ "loc_acts s"]) (simp add: prog_defs)
next
  case (Cons a aps)
  obtain as where a: "append_point a s = Some (Ok (), s\<lparr>loc_acts := as\<rparr>)" by (simp add: append_point_def emit_def prog_defs)
  with Cons [of "s\<lparr>loc_acts := as\<rparr>"] show ?case by auto
qed

lemma wp_UseGpsScan:
  assumes "loc_inv s" "GpsScan s \<longrightarrow> saved_ref s \<noteq> None" "\<And>n as. Q (Ok ()) (s\<lparr>loc_asked := n, GpsScan := False, loc_acts := as\<rparr>)"
  shows "wp (UseGpsScan env) Q s"
proof -
  obtain r where "GpsScan s \<longrightarrow> saved_ref s = Some r" using assms(2) by auto
  from UseGpsScan_run [OF assms(1) this] show ?thesis using assms(3) unfolding wp_iff by blast
qed

lemma wp_PackJson_gps:
  assumes "int32 la" "int32 lo" "int32 hacc" "int32 al" "int32 vacc" "\<And>json n. Q (Ok json) (s\<lparr>loc_asked := n\<rparr>)"
  shows "wp (PackJson env GPS (scan_of la lo hacc al vacc) 256) Q s"
  using PackJson_gps_run [OF assms(1-5), of env s] assms(6) unfolding wp_iff by blast

lemma length_fmt_lf_rat:
  assumes "\<bar>q\<bar> < 10 ^ m" "0 < m"
  shows "length (fmt_lf (Finite q)) \<le> m + 9"
proof -
  have f: "round_even x \<le> \<lfloor>x\<rfloor> + 1" for x by (simp add: round_even_def Let_def)
  have "\<bar>q\<bar> * 1000000 < 10 ^ m * 1000000" using assms(1) by simp
  also have "\<dots> = of_int (10 ^ (m + 6))" by (simp add: power_add)
  finally have "\<lfloor>\<bar>q\<bar> * 1000000\<rfloor> < 10 ^ (m + 6)" by (simp only: floor_less_iff)
  with f [of "\<bar>q\<bar> * 1000000"] have "nat (round_even (\<bar>q\<bar> * 1000000)) \<le> 10 ^ (m + 6)" by (simp add: nat_le_iff)
  also have "\<dots> < 10 ^ (Suc m + 6)" by simp
  finally have "length (millionths (nat (round_even (\<bar>q\<bar> * 1000000)))) \<le> Suc m + 7" by (rule length_millionths) simp
  then show ?thesis unfolding fmt_lf.simps length_append by (cases "q < 0") (simp_all only: if_True if_False, simp_all)
qed

lemma wp_PackJson_wifi:
  assumes "\<not> outside_fence la lo" "la \<noteq> Nan" "lo \<noteq> Nan" "\<bar>q\<bar> < 10 ^ 10" "\<And>json n. Q (Ok json) (s\<lparr>loc_asked := n\<rparr>)"
  shows "wp (PackJson env WIFI \<lparr>lat = la, lon = lo, hAccuracy = Finite q, alt = x, vAccuracy = y\<rparr> 256) Q s"
proof -
  obtain a where a: "la = Finite a" "\<bar>a\<bar> < 10 ^ 3" using assms(1,2) by (cases la) (auto simp: outside_fence_def)
  obtain b where b: "lo = Finite b" "\<bar>b\<bar> < 10 ^ 3" using assms(1,3) by (cases lo) (auto simp: outside_fence_def)
  have z: "length (fmt_lf (Finite 0)) \<le> 9" using length_fmt_lf [of 0 1] by (simp del: fmt_lf.simps)
  obtain ts n where ts: "fix_time env s = Some (Ok ts, s\<lparr>loc_asked := n\<rparr>)" "ts < 2 ^ 64" using fix_time_run by blast
  have "length (dec_digits ts) \<le> 20" using length_dec_digits [of 20 ts] ts(2) by simp
  then have "length (json_text WIFI \<lparr>lat = la, lon = lo, hAccuracy = Finite q, alt = x, vAccuracy = y\<rparr> ts) < 256"
    using length_fmt_lf_rat [OF a(2)] length_fmt_lf_rat [OF b(2)] length_fmt_lf_rat [OF assms(4)] z
    unfolding a(1) b(1) by (simp add: json_text_def quoted_def del: fmt_lf.simps)
  with ts assms(5) show ?thesis by (auto simp: wp_iff PackJson_def Let_def returnP_def not_le)
qed

section \<open>The invariant\<close>

lemma LocationResultHandler_sound:
  assumes inv: "loc_inv s" and ok: "answers_ok env" and w: "waitingForCombainResults s"
  shows "wp (LocationResultHandler env handle result) (\<lambda>r s'. r = Ok () \<and> loc_inv s') s"
proof -
  obtain ref where ref: "saved_ref s = Some ref" and nw: "\<not> waitingForWifiResults s" using inv w by (auto simp: loc_inv_def)
  have gps: "wp (UseGpsScan env) (\<lambda>r s'. r = Ok () \<and> loc_inv s') (s\<lparr>waitingForCombainResults := False, loc_asked := n\<rparr>)" for n
    using inv nw ref by (intro wp_UseGpsScan) (simp_all add: loc_inv_def)
  show ?thesis
  proof (cases "result = COMBAIN_SUCCESS")
    case False
    with w gps [of "loc_asked s"] show ?thesis by (simp add: LocationResultHandler_def wp_rules)
  next
    case success: True
    show ?thesis
    proof (cases "success_response env (loc_asked s) handle")
      case None
      with w success inv nw show ?thesis by (simp add: LocationResultHandler_def wp_rules loc_inv_def)
    next
      case (Some p)
      obtain la lo acc where p: "p = (la, lo, acc)" by (cases p)
      then obtain q where q: "la \<noteq> Nan" "lo \<noteq> Nan" "acc = Finite q" "\<bar>q\<bar> < 10 ^ 10" using ok Some by (fastforce simp: answers_ok_def)
      show ?thesis
      proof (cases "outside_fence la lo")
        case True
        with w success Some p gps show ?thesis by (simp add: LocationResultHandler_def wp_rules)
      next
        case False
        with w success Some p q ref inv nw show ?thesis
          by (simp add: LocationResultHandler_def wp_rules)
            (intro wp_PackJson_wifi, simp_all add: psensor_PushJson_def wp_rules loc_inv_def)
      qed
    qed
  qed
qed


lemma TrySubmitRequest_sound:
  "loc_inv s \<Longrightarrow> saved_ref s \<noteq> None \<Longrightarrow> wp (TrySubmitRequest env) (\<lambda>r s'. (\<exists>b. r = Ok b) \<and> loc_inv s') s"
  by (auto simp: TrySubmitRequest_def Let_def wp_rules loc_inv_def)

lemma WifiEventHandler_sound:
  assumes inv: "loc_inv s" and ref: "event \<noteq> SCAN_DONE \<and> GpsScan s \<longrightarrow> saved_ref s \<noteq> None"
  shows "wp (WifiEventHandler env event) (\<lambda>r s'. r = Ok () \<and> loc_inv s') s"
proof (cases event)
  case SCAN_DONE
  show ?thesis
  proof (cases "waitingForWifiResults s")
    case False
    with inv SCAN_DONE show ?thesis by (simp add: WifiEventHandler_def wp_rules)
  next
    case True
    obtain as where points: "foreachP append_point aps s0 = Some (Ok (), s0\<lparr>loc_acts := as aps s0\<rparr>)" for aps s0
      using append_points_run by metis
    have run: "wp (foreachP append_point aps) Q s0 = Q (Ok ()) (s0\<lparr>loc_acts := as aps s0\<rparr>)" for aps Q s0
      by (simp add: wp_def points)
    show ?thesis
      using SCAN_DONE True inv unfolding WifiEventHandler_def
      by (simp add: wp_rules run) (rule wp_mono [OF TrySubmitRequest_sound], auto simp: wp_rules loc_inv_def)
  qed
next
  case (WIFI_OTHER x)
  with ref inv show ?thesis by (simp add: WifiEventHandler_def wp_rules) (intro wp_UseGpsScan, simp_all add: loc_inv_def)
qed

lemma WifiEventHandler_null:
  assumes inv: "loc_inv s" and e: "event \<noteq> SCAN_DONE" "GpsScan s" "saved_ref s = None"
  shows "\<exists>s'. WifiEventHandler env event s = Some (Halt (Undefined ''push to a null sensor''), s')"
proof -
  obtain la lo hacc al vacc where scan: "int32 la" "int32 lo" "int32 hacc" "int32 al" "int32 vacc" "SavedGpsScan s = scan_of la lo hacc al vacc"
    using inv by (auto simp: loc_inv_def gps_scan_def)
  let ?Q = "\<lambda>r s'. r = (Halt (Undefined ''push to a null sensor'') :: unit outcome)"
  obtain x where "event = WIFI_OTHER x" using e(1) by (cases event) auto
  with e scan have "wp (WifiEventHandler env event) ?Q s"
    by (simp add: WifiEventHandler_def UseGpsScan_def wp_rules) (intro wp_PackJson_gps, simp_all add: psensor_PushJson_def wp_rules)
  then show ?thesis by (auto simp: wp_iff)
qed

lemma LocationResultHandler_fatal: "\<not> waitingForCombainResults s \<Longrightarrow> LocationResultHandler env handle result s = Some (Halt (Exit 1), s)"
  by (simp add: LocationResultHandler_def prog_defs)

lemma int32_answer: "answers_ok env \<Longrightarrow> pos_3d env n = (ok, la, lo, hacc, al, vacc) \<Longrightarrow>
    int32 la \<and> int32 lo \<and> int32 hacc \<and> int32 al \<and> int32 vacc"
  by (auto simp: answers_ok_def split: prod.splits dest!: spec [of _ n])

lemma Sample_sound:
  assumes inv: "loc_inv s" and ok: "answers_ok env"
  shows "wp (Sample env ref) (\<lambda>r s'. (r = Ok () \<and> loc_inv s') \<or> (\<exists>h. r = Halt h) \<and> \<not> createdAccessPoint s) s"
proof -
  obtain ok la lo hacc al vacc where p: "pos_3d env (loc_asked s) = (ok, la, lo, hacc, al, vacc)" by (cases "pos_3d env (loc_asked s)") auto
  have range: "int32 la" "int32 lo" "int32 hacc" "int32 al" "int32 vacc" using int32_answer [OF assms(2) p] by auto
  let ?scan = "scan_of la lo hacc al vacc" let ?s = "s\<lparr>loc_asked := Suc (loc_asked s)\<rparr>"
  let ?Q = "\<lambda>r s'. (r = Ok () \<and> loc_inv s') \<or> (\<exists>h. r = Halt h) \<and> \<not> createdAccessPoint s"
  have scan: "gps_scan ?scan" unfolding gps_scan_def using range by blast
  have wifi: "wp (sample_wifi env ref ?scan) ?Q ?s"
    using inv scan by (auto simp: sample_wifi_def create_access_point_def start_wifi_def start_scan_def wp_rules loc_inv_def)
  have gps: "wp (sample_gps env ref ?scan) ?Q ?s"
    using inv range by (simp add: sample_gps_def wp_rules) (intro wp_PackJson_gps, simp_all add: psensor_PushJson_def wp_rules loc_inv_def)
  from wifi gps p show ?thesis by (simp add: Sample_def Let_def wp_rules)
qed

lemma wp_outcome: "wp m Q s \<Longrightarrow> m s = Some (r, s') \<Longrightarrow> Q r s'"
  by (simp add: wp_def)

lemma loc_reach_inv:
  assumes "loc_reach env s" "answers_ok env"
  shows "loc_inv s"
  using assms(1)
proof induction
  case (Start s)
  have "gps_scan (SavedGpsScan loc_start)"
    unfolding gps_scan_def loc_start_def by (intro exI [of _ "0 :: int"]) (simp add: scan_of_def int32_def)
  then have "wp (location_COMPONENT_INIT env) (\<lambda>r s'. r = Ok () \<longrightarrow> loc_inv s') loc_start"
    by (auto simp: location_COMPONENT_INIT_def create_input_def wp_rules loc_inv_def loc_start_def)
  with Start show ?case by (simp add: wp_def)
next
  case (Handled s e s')
  show ?case
  proof (cases e)
    case (EvSample ref)
    with wp_outcome [OF Sample_sound [OF Handled.IH assms(2), of ref]] Handled show ?thesis by auto
  next
    case (EvWifi event)
    show ?thesis
    proof (cases "event \<noteq> SCAN_DONE \<and> GpsScan s \<longrightarrow> saved_ref s \<noteq> None")
      case True
      from wp_outcome [OF WifiEventHandler_sound [OF Handled.IH True, of env], of "Ok ()" s'] Handled.hyps(2) EvWifi show ?thesis by simp
    next
      case False
      with EvWifi WifiEventHandler_null [OF Handled.IH, of event env] Handled show ?thesis by auto
    qed
  next
    case (EvResult handle result)
    then have "waitingForCombainResults s"
      using Handled LocationResultHandler_fatal [of s env handle result] by (cases "waitingForCombainResults s") auto
    from EvResult wp_outcome [OF LocationResultHandler_sound [OF Handled.IH assms(2) this]] Handled show ?thesis by auto
  qed
qed


abbreviation "weak_env \<equiv> example_loc_env (True, 49191011, - 123000000, 300, 71050, 3) (Some (Finite 49.1, Finite (- 123), Finite 30))"

lemma weak_env_ok: "answers_ok weak_env"
  by (simp add: answers_ok_def example_loc_env_def int32_def)

lemma weak_sampled: "\<exists>s. loc_reach weak_env s \<and> GpsScan s \<and> saved_ref s = Some 7 \<and> waitingForWifiResults s"
proof -
  have "\<exists>s. location_COMPONENT_INIT weak_env loc_start = Some (Ok (), s) \<and> \<not> waitingForWifiResults s \<and> \<not> waitingForCombainResults s"
    by (simp add: location_COMPONENT_INIT_def create_input_def emit_def prog_defs example_loc_env_def loc_start_def)
  then obtain s0 where s0: "loc_reach weak_env s0" "\<not> waitingForWifiResults s0" "\<not> waitingForCombainResults s0" by (auto intro: loc_reach.Start)
  have "wp (Sample weak_env 7) (\<lambda>r s'. r = Ok () \<and> GpsScan s' \<and> saved_ref s' = Some 7 \<and> waitingForWifiResults s') s0"
    using s0(2,3) by (simp add: Sample_def sample_wifi_def create_access_point_def start_wifi_def start_scan_def wp_rules example_loc_env_def scan_of_def Let_def)
  with s0(1) loc_reach.Handled [OF s0(1), of "EvSample 7"] show ?thesis by (auto simp: wp_iff)
qed

lemma weak_waits: "\<exists>s. loc_reach weak_env s \<and> GpsScan s \<and> saved_ref s = Some 7 \<and> waitingForCombainResults s"
proof -
  obtain s0 where s0: "loc_reach weak_env s0" "GpsScan s0" "saved_ref s0 = Some 7" "waitingForWifiResults s0" using weak_sampled by blast
  then have nc: "\<not> waitingForCombainResults s0" using loc_reach_inv [OF s0(1) weak_env_ok] by (simp add: loc_inv_def)
  have "wp (WifiEventHandler weak_env SCAN_DONE) (\<lambda>r s'. r = Ok () \<and> GpsScan s' \<and> saved_ref s' = Some 7 \<and> waitingForCombainResults s') s0"
    using s0 nc by (simp add: WifiEventHandler_def TrySubmitRequest_def append_point_def wp_rules example_loc_env_def Let_def)
  then show ?thesis using loc_reach.Handled [OF s0(1), of "EvWifi SCAN_DONE"] by (auto simp: wp_iff)
qed

lemma weak_forgotten: "\<exists>s. loc_reach weak_env s \<and> GpsScan s \<and> saved_ref s = None"
proof -
  obtain s1 where s1: "loc_reach weak_env s1" "GpsScan s1" "saved_ref s1 = Some 7" "waitingForCombainResults s1" using weak_waits by blast
  have "wp (LocationResultHandler weak_env 0 COMBAIN_SUCCESS) (\<lambda>r s'. r = Ok () \<and> GpsScan s' \<and> saved_ref s' = None) s1"
    using s1 by (simp add: LocationResultHandler_def wp_rules example_loc_env_def Let_def outside_fence_def)
      (intro wp_PackJson_wifi, simp_all add: outside_fence_def psensor_PushJson_def wp_rules)
  then show ?thesis using loc_reach.Handled [OF s1(1), of "EvResult 0 COMBAIN_SUCCESS"] by (auto simp: wp_iff)
qed


section \<open>A request that is never answered\<close>

definition scans :: "loc \<Rightarrow> nat" where
  "scans s = count_list (loc_acts s) LWifiScan"

abbreviation (input) stuck :: "nat \<Rightarrow> loc \<Rightarrow> bool" where
  "stuck c s \<equiv> loc_inv s \<and> waitingForCombainResults s \<and> scans s = c"

lemma keeps_loc_ask [keeps_intros]: "(\<And>s n. I s \<Longrightarrow> I (s\<lparr>loc_asked := n\<rparr>)) \<Longrightarrow> keeps I (loc_ask f)"
  by (auto simp: keeps_def loc_ask_def)

lemma PackJson_keeps [keeps_intros]: "(\<And>s n. I s \<Longrightarrow> I (s\<lparr>loc_asked := n\<rparr>)) \<Longrightarrow> keeps I (PackJson env loc scan n)"
  unfolding PackJson_def fix_time_def GetCurrentTimestamp_def Let_def
  by (auto intro!: keeps_intros split: option.split)

lemma stuck_UseGpsScan: "keeps (\<lambda>s. waitingForCombainResults s \<and> scans s = c) (UseGpsScan env)"
  unfolding UseGpsScan_def report_fix_def psensor_PushJson_def emit_def
  by (auto intro!: keeps_intros simp: scans_def split: option.split)

lemma stuck_step:
  assumes s: "stuck c s" and ok: "answers_ok env" and e: "\<forall>h r. e \<noteq> EvResult h r"
  shows "wp (loc_handle env e) (\<lambda>r s'. r = Ok () \<and> stuck c s') s"
proof (cases e)
  case (EvWifi event)
  have nw: "\<not> waitingForWifiResults s" using s by (auto simp: loc_inv_def)
  show ?thesis
  proof (cases event)
    case SCAN_DONE
    with EvWifi nw s show ?thesis by (simp add: WifiEventHandler_def wp_rules)
  next
    case (WIFI_OTHER x)
    have "saved_ref s \<noteq> None" using s by (simp add: loc_inv_def)
    with s have "wp (WifiEventHandler env event) (\<lambda>r s'. r = Ok () \<and> loc_inv s') s" by (intro WifiEventHandler_sound) simp_all
    moreover have "wlp (WifiEventHandler env event) (\<lambda>r s'. waitingForCombainResults s' \<and> scans s' = c) s"
      using s unfolding WIFI_OTHER WifiEventHandler_def
      by (simp add: emit_def wp_rules) (intro keeps_wlp [OF stuck_UseGpsScan], simp add: scans_def)
    ultimately have "wp (WifiEventHandler env event) (\<lambda>r s'. (r = Ok () \<and> loc_inv s') \<and> waitingForCombainResults s' \<and> scans s' = c) s"
      by (rule wp_wlp_conj)
    then show ?thesis unfolding EvWifi loc_handle.simps by (rule wp_mono) simp
  qed
next
  case (EvSample ref)
  obtain ok la lo hacc al vacc where p: "pos_3d env (loc_asked s) = (ok, la, lo, hacc, al, vacc)" by (cases "pos_3d env (loc_asked s)") auto
  have range: "int32 la" "int32 lo" "int32 hacc" "int32 al" "int32 vacc" using int32_answer [OF assms(2) p] by auto
  let ?scan = "scan_of la lo hacc al vacc" let ?s = "s\<lparr>loc_asked := Suc (loc_asked s)\<rparr>"
  let ?Q = "\<lambda>r s'. r = Ok () \<and> stuck c s'"
  have nw: "\<not> waitingForWifiResults s" using s by (auto simp: loc_inv_def)
  have scan: "gps_scan ?scan" unfolding gps_scan_def using range by blast
  have "wp (sample_wifi env ref ?scan) ?Q ?s"
    using s nw scan by (auto simp: sample_wifi_def wp_rules loc_inv_def scans_def)
  moreover have "wp (sample_gps env ref ?scan) ?Q ?s"
    using s nw range by (simp add: sample_gps_def wp_rules) (intro wp_PackJson_gps, simp_all add: psensor_PushJson_def wp_rules loc_inv_def scans_def)
  ultimately show ?thesis using p EvSample by (simp add: Sample_def Let_def wp_rules)
next
  case (EvResult h r)
  with e show ?thesis by simp
qed

text \<open>C35: a request whose result never comes stops the fallback for good. From any reachable state that waits for Combain,
  whatever samples and Wi-Fi events follow, a good position included, the handlers all return, the state still
  waits and no Wi-Fi scan has been started.\<close>

theorem lost_request_stops_scanning:
  assumes "loc_reach env s" "answers_ok env" "waitingForCombainResults s" "\<forall>e \<in> set events. \<forall>h r. e \<noteq> EvResult h r"
  shows "\<exists>s'. foreachP (loc_handle env) events s = Some (Ok (), s') \<and> waitingForCombainResults s' \<and> scans s' = scans s"
proof -
  have "\<exists>s'. foreachP (loc_handle env) events s = Some (Ok (), s') \<and> stuck c s'" if "stuck c s" for c
    using that assms(4)
  proof (induction events arbitrary: s)
    case Nil
    then show ?case by (simp add: prog_defs)
  next
    case (Cons e events)
    then have "wp (loc_handle env e) (\<lambda>r s'. r = Ok () \<and> stuck c s') s" by (intro stuck_step assms(2)) auto
    then obtain s1 where "loc_handle env e s = Some (Ok (), s1)" "stuck c s1" by (auto simp: wp_iff)
    with Cons.IH [of s1] Cons.prems(2) show ?case by auto
  qed
  from this [of "scans s"] show ?thesis using loc_reach_inv [OF assms(1,2)] assms(3) by auto
qed

theorem lost_request_stops_scanning_witness:
  "\<exists>s s'. loc_reach weak_env s \<and> waitingForCombainResults s \<and>
    foreachP (loc_handle weak_env) [EvSample 7, EvWifi SCAN_DONE, EvSample 7, EvWifi (WIFI_OTHER 1), EvSample 7] s = Some (Ok (), s') \<and> scans s' = scans s"
proof -
  obtain s where s: "loc_reach weak_env s" "waitingForCombainResults s" using weak_waits by blast
  with lost_request_stops_scanning [OF s(1) weak_env_ok s(2), of "[EvSample 7, EvWifi SCAN_DONE, EvSample 7, EvWifi (WIFI_OTHER 1), EvSample 7]"]
  show ?thesis by auto
qed

section \<open>A weak position\<close>

text \<open>When the Wi-Fi position fails, the weak position of the satellites is sent once, as it was saved, and then
  taken back: the last that the hub hears is that there is no fix, whatever was sent before.\<close>

theorem weak_fix_is_retracted:
  assumes "loc_reach env s" "answers_ok env" "waitingForCombainResults s" "GpsScan s" "result \<noteq> COMBAIN_SUCCESS"
  shows "\<exists>json s' r. LocationResultHandler env handle result s = Some (Ok (), s') \<and> saved_ref s = Some r \<and>
    loc_acts s' = [LPushBoolean HAVE_FIX False, LPushString FIX_TYPE_THIS_PERIOD ''NONE'', LPushBoolean HAVE_FIX True,
      LPushString FIX_TYPE_THIS_PERIOD ''Weak GNSS'', LPushJson r json] @ loc_acts s \<and>
    json_value json ''lat'' = fmt_lf (lat (SavedGpsScan s)) \<and> json_value json ''lon'' = fmt_lf (lon (SavedGpsScan s)) \<and>
    \<not> GpsScan s' \<and> \<not> waitingForCombainResults s'"
proof -
  have inv: "loc_inv s" using loc_reach_inv [OF assms(1,2)] .
  then obtain r where r: "saved_ref s = Some r" using assms(3) by (auto simp: loc_inv_def)
  let ?s = "s\<lparr>waitingForCombainResults := False\<rparr>"
  obtain la lo hacc al vacc where scan: "int32 la" "int32 lo" "int32 hacc" "int32 al" "int32 vacc" "SavedGpsScan s = scan_of la lo hacc al vacc"
    using inv by (auto simp: loc_inv_def gps_scan_def)
  obtain ts n where "PackJson env GPS (SavedGpsScan s) 256 ?s = Some (Ok (json_text GPS (SavedGpsScan s) ts), ?s\<lparr>loc_asked := n\<rparr>)"
    using PackJson_gps_run [OF scan(1-5), of env ?s] scan(6) by auto
  with assms(3-5) r show ?thesis
    by (intro exI [of _ "json_text GPS (SavedGpsScan s) ts"])
      (simp add: LocationResultHandler_def UseGpsScan_def psensor_PushJson_def report_fix_def emit_def prog_defs json_value_def json_fields_text del: fmt_lf.simps)
qed

theorem weak_fix_is_retracted_witness:
  "\<exists>s s' as. loc_reach weak_env s \<and> LocationResultHandler weak_env 0 COMBAIN_COMMUNICATION_FAILURE s = Some (Ok (), s') \<and>
    loc_acts s' = LPushBoolean HAVE_FIX False # LPushString FIX_TYPE_THIS_PERIOD ''NONE'' # LPushBoolean HAVE_FIX True # as"
proof -
  obtain s where s: "loc_reach weak_env s" "GpsScan s" "waitingForCombainResults s" using weak_waits by blast
  with weak_fix_is_retracted [OF s(1) weak_env_ok s(3,2), of COMBAIN_COMMUNICATION_FAILURE 0] show ?thesis by auto
qed

end
