(* ===== verification/Eink_Display.thy ===== *)
theory Eink_Display
  imports Mangoh_Prelude
begin

text \<open>
  The frame buffer driver of the Waveshare e-ink panels
  (\<^verbatim>\<open>experimental/waveshare_eink/linux_kernel_modules/fb_waveshare_eink.c\<close>): commands over the SPI bus with a line
  that tells commands from data, the update of the panel from the video memory, the calls of the frame buffer core,
  probe and remove; and the two modules that put the device on the bus of a board.
\<close>

unbundle bit_operations_syntax

abbreviation (input) EPERM :: int where "EPERM \<equiv> 1"
abbreviation (input) EFAULT :: int where "EFAULT \<equiv> 14"
abbreviation (input) EFBIG :: int where "EFBIG \<equiv> 27"
abbreviation (input) ENOSPC :: int where "ENOSPC \<equiv> 28"

section \<open>Constants and state\<close>

definition WS_DRIVER_OUTPUT_CONTROL :: u8 where "WS_DRIVER_OUTPUT_CONTROL = 0x01"
definition WS_BOOSTER_SOFT_START_CONTROL :: u8 where "WS_BOOSTER_SOFT_START_CONTROL = 0x0C"
definition WS_DEEP_SLEEP_MODE :: u8 where "WS_DEEP_SLEEP_MODE = 0x10"
definition WS_DATA_ENTRY_MODE_SETTING :: u8 where "WS_DATA_ENTRY_MODE_SETTING = 0x11"
definition WS_MASTER_ACTIVATION :: u8 where "WS_MASTER_ACTIVATION = 0x20"
definition WS_DISPLAY_UPDATE_CONTROL_2 :: u8 where "WS_DISPLAY_UPDATE_CONTROL_2 = 0x22"
definition WS_WRITE_RAM :: u8 where "WS_WRITE_RAM = 0x24"
definition WS_WRITE_VCOM_REGISTER :: u8 where "WS_WRITE_VCOM_REGISTER = 0x2C"
definition WS_WRITE_LUT_REGISTER :: u8 where "WS_WRITE_LUT_REGISTER = 0x32"
definition WS_SET_DUMMY_LINE_PERIOD :: u8 where "WS_SET_DUMMY_LINE_PERIOD = 0x3A"
definition WS_SET_GATE_TIME :: u8 where "WS_SET_GATE_TIME = 0x3B"
definition WS_SET_RAM_X_ADDRESS_START_END_POSITION :: u8 where "WS_SET_RAM_X_ADDRESS_START_END_POSITION = 0x44"
definition WS_SET_RAM_Y_ADDRESS_START_END_POSITION :: u8 where "WS_SET_RAM_Y_ADDRESS_START_END_POSITION = 0x45"
definition WS_SET_RAM_X_ADDRESS_COUNTER :: u8 where "WS_SET_RAM_X_ADDRESS_COUNTER = 0x4E"
definition WS_SET_RAM_Y_ADDRESS_COUNTER :: u8 where "WS_SET_RAM_Y_ADDRESS_COUNTER = 0x4F"
definition WS_TERMINATE_FRAME_READ_WRITE :: u8 where "WS_TERMINATE_FRAME_READ_WRITE = 0xFF"

record waveshare_eink_device_properties =
  width :: u32
  height :: u32
  bpp :: u32

definition DEV_WS_213 :: waveshare_eink_device_properties where
  "DEV_WS_213 = \<lparr>width = 128, height = 250, bpp = 1\<rparr>"

definition lut_full_update :: "u8 list" where
  "lut_full_update =
    [0x22, 0x55, 0xAA, 0x55, 0xAA, 0x55, 0xAA, 0x11,
     0x00, 0x00, 0x00, 0x00, 0x00, 0x00, 0x00, 0x00,
     0x1E, 0x1E, 0x1E, 0x1E, 0x1E, 0x1E, 0x1E, 0x1E,
     0x01, 0x00, 0x00, 0x00, 0x00, 0x00]"

definition lut_partial_update :: "u8 list" where
  "lut_partial_update =
    [0x18, 0x00, 0x00, 0x00, 0x00, 0x00, 0x00, 0x00,
     0x00, 0x00, 0x00, 0x00, 0x00, 0x00, 0x00, 0x00,
     0x0F, 0x01, 0x00, 0x00, 0x00, 0x00, 0x00, 0x00,
     0x00, 0x00, 0x00, 0x00, 0x00, 0x00]"

text \<open>What happens on the lines of the panel: a level of the reset line, and a transfer with the level of the data line.\<close>

datatype line_event = Rst bool | Sent bool "u8 list"

text \<open>A pointer to a block of memory: null, to live memory, or to memory that has been freed.\<close>

datatype mem = Null | Live | Freed

text \<open>
  \<open>info_mem\<close> is the structure of the frame buffer with the private data of the driver behind it; the video memory and
  the buffer for the panel are lists of bytes with the state of their pointers.
\<close>

record eink =
  eprops :: waveshare_eink_device_properties
  dc_level :: bool
  bus :: "line_event list"
  spi_asked :: nat
  busy_asked :: nat
  update_count :: int
  screen_base :: "u8 list"
  ssbuf :: "u8 list"
  info_mem :: mem
  screen_mem :: mem
  ssbuf_mem :: mem
  registered :: bool
  deferred_io :: bool

record eink_env =
  spi_ret :: "nat \<Rightarrow> int"
  busy_line :: "nat \<Rightarrow> bool"
  request_rst :: int
  request_dc :: int
  request_busy :: int
  fb_alloc_ok :: bool
  screen_alloc_ok :: bool
  ssbuf_alloc_ok :: bool
  register_ret :: int

type_synonym 'a eink_prog = "(eink, 'a) prog"

section \<open>Commands\<close>

text \<open>A transfer that fails leaves no event.\<close>

definition spi_write :: "eink_env \<Rightarrow> u8 list \<Rightarrow> unit eink_prog" where
  "spi_write env data =
     bindP (getP (\<lambda>s. spi_ret env (spi_asked s))) (\<lambda>ret.
     seqP (modifyP (\<lambda>s. s\<lparr>spi_asked := Suc (spi_asked s)\<rparr>))
       (if ret \<noteq> 0 then throwP ret else modifyP (\<lambda>s. s\<lparr>bus := bus s @ [Sent (dc_level s) data]\<rparr>)))"

definition ws_eink_send_cmd :: "eink_env \<Rightarrow> u8 \<Rightarrow> u8 list \<Rightarrow> unit eink_prog" where
  "ws_eink_send_cmd env cmd data =
     seqP (modifyP (\<lambda>s. s\<lparr>dc_level := False\<rparr>))
     (seqP (spi_write env [cmd])
     (seqP (modifyP (\<lambda>s. s\<lparr>dc_level := True\<rparr>))
           (spi_write env data)))"

partial_function (option) wait_until_idle :: "eink_env \<Rightarrow> unit eink_prog" where
  "wait_until_idle env s =
     (if busy_line env (busy_asked s) then wait_until_idle env (s\<lparr>busy_asked := Suc (busy_asked s)\<rparr>)
      else Some (Ok (), s\<lparr>busy_asked := Suc (busy_asked s)\<rparr>))"

definition ws_eink_reset :: "unit eink_prog" where
  "ws_eink_reset = seqP (modifyP (\<lambda>s. s\<lparr>bus := bus s @ [Rst False]\<rparr>)) (modifyP (\<lambda>s. s\<lparr>bus := bus s @ [Rst True]\<rparr>))"

definition ws_eink_sleep :: "eink_env \<Rightarrow> unit eink_prog" where
  "ws_eink_sleep env = seqP (ws_eink_send_cmd env WS_DEEP_SLEEP_MODE []) (wait_until_idle env)"

definition set_lut :: "eink_env \<Rightarrow> u8 list \<Rightarrow> unit eink_prog" where
  "set_lut env lut = ws_eink_send_cmd env WS_WRITE_LUT_REGISTER lut"

definition low_byte :: "u32 \<Rightarrow> u8" where "low_byte w = ucast (w AND 0xFF)"
definition high_byte :: "u32 \<Rightarrow> u8" where "high_byte w = ucast (drop_bit 8 w AND 0xFF)"
definition column_byte :: "u32 \<Rightarrow> u8" where "column_byte w = ucast (drop_bit 3 w AND 0xFF)"

definition int_lut :: "eink_env \<Rightarrow> u8 list \<Rightarrow> unit eink_prog" where
  "int_lut env lut = bindP (getP eprops) (\<lambda>props.
     seqP ws_eink_reset
     (seqP (ws_eink_send_cmd env WS_DRIVER_OUTPUT_CONTROL [low_byte (height props - 1), high_byte (height props - 1), 0x00])
     (seqP (ws_eink_send_cmd env WS_BOOSTER_SOFT_START_CONTROL [0xD7, 0xD6, 0x9D])
     (seqP (ws_eink_send_cmd env WS_WRITE_VCOM_REGISTER [0xA8])
     (seqP (ws_eink_send_cmd env WS_SET_DUMMY_LINE_PERIOD [0x1A])
     (seqP (ws_eink_send_cmd env WS_SET_GATE_TIME [0x08])
     (seqP (ws_eink_send_cmd env WS_DATA_ENTRY_MODE_SETTING [0x03])
           (set_lut env lut))))))))"

definition set_memory_area :: "eink_env \<Rightarrow> u32 \<Rightarrow> u32 \<Rightarrow> u32 \<Rightarrow> u32 \<Rightarrow> unit eink_prog" where
  "set_memory_area env x_start y_start x_end y_end =
     seqP (ws_eink_send_cmd env WS_SET_RAM_X_ADDRESS_START_END_POSITION [column_byte x_start, column_byte x_end])
          (ws_eink_send_cmd env WS_SET_RAM_Y_ADDRESS_START_END_POSITION
             [low_byte y_start, high_byte y_start, low_byte y_end, high_byte y_end])"

definition set_memory_pointer :: "eink_env \<Rightarrow> u32 \<Rightarrow> u32 \<Rightarrow> unit eink_prog" where
  "set_memory_pointer env x y =
     seqP (ws_eink_send_cmd env WS_SET_RAM_X_ADDRESS_COUNTER [column_byte x])
     (seqP (ws_eink_send_cmd env WS_SET_RAM_Y_ADDRESS_COUNTER [low_byte y, high_byte y])
           (wait_until_idle env))"

definition clear_frame_memory :: "eink_env \<Rightarrow> u8 \<Rightarrow> unit eink_prog" where
  "clear_frame_memory env color = bindP (getP eprops) (\<lambda>props.
     let solid_line = replicate (unat (width props div 8)) color in
     seqP (set_memory_area env 0 0 (width props - 1) (height props - 1))
       (foreachP (\<lambda>row. seqP (set_memory_pointer env 0 (word_of_nat row)) (ws_eink_send_cmd env WS_WRITE_RAM solid_line))
          [0..<unat (height props)]))"

text \<open>The image is a pointer: reading behind its end is undefined.\<close>

definition set_frame_memory :: "eink_env \<Rightarrow> u8 list \<Rightarrow> unit eink_prog" where
  "set_frame_memory env image_buffer = bindP (getP eprops) (\<lambda>props.
     seqP (set_memory_area env 0 0 (width props - 1) (height props - 1))
       (foreachP (\<lambda>row. let row_bytes = unat (width props div 8) in
          seqP (set_memory_pointer env 0 (word_of_nat row))
            (if row * row_bytes + row_bytes > length image_buffer then haltP (Undefined ''image_buffer'')
             else ws_eink_send_cmd env WS_WRITE_RAM (take row_bytes (drop (row * row_bytes) image_buffer))))
          [0..<unat (height props)]))"

definition display_frame :: "eink_env \<Rightarrow> unit eink_prog" where
  "display_frame env =
     seqP (ws_eink_send_cmd env WS_DISPLAY_UPDATE_CONTROL_2 [0xC4])
     (seqP (ws_eink_send_cmd env WS_MASTER_ACTIVATION [])
     (seqP (ws_eink_send_cmd env WS_TERMINATE_FRAME_READ_WRITE [])
           (wait_until_idle env)))"

definition gpio_request :: "int \<Rightarrow> unit eink_prog" where
  "gpio_request ret = (if ret \<noteq> 0 then throwP ret else returnP ())"

text \<open>Requesting the reset and data lines makes them outputs that are low.\<close>

definition ws_eink_init_display :: "eink_env \<Rightarrow> unit eink_prog" where
  "ws_eink_init_display env =
     seqP (gpio_request (request_rst env))
     (seqP (modifyP (\<lambda>s. s\<lparr>bus := bus s @ [Rst False]\<rparr>))
     (seqP (gpio_request (request_dc env))
     (seqP (modifyP (\<lambda>s. s\<lparr>dc_level := False\<rparr>))
     (seqP (gpio_request (request_busy env))
     (seqP (int_lut env lut_full_update)
     (seqP (clear_frame_memory env 0xFF)
     (seqP (display_frame env)
           (int_lut env lut_partial_update))))))))"

section \<open>The update of the panel\<close>

text \<open>The kernel's \<^verbatim>\<open>bitrev8\<close> turns the order of the bits.\<close>

definition bitrev8 :: "u8 \<Rightarrow> u8" where
  "bitrev8 w = horner_sum of_bool 2 (rev (map (bit w) [0..<8]))"

definition frame_size :: "waveshare_eink_device_properties \<Rightarrow> nat" where
  "frame_size props = unat (height props * width props * bpp props div 8)"

definition ws_eink_update_display :: "eink_env \<Rightarrow> unit eink_prog" where
  "ws_eink_update_display env =
     seqP (modifyP (\<lambda>s. s\<lparr>update_count := (if update_count s + 1 = 10 then 0 else update_count s + 1)\<rparr>))
     (bindP (getP (\<lambda>s. (update_count s = 0, frame_size (eprops s)))) (\<lambda>(full, size).
     seqP (int_lut env (if full then lut_full_update else lut_partial_update))
     (bindP (getP (\<lambda>s. (screen_base s, ssbuf s))) (\<lambda>(vmem, buf).
      if length vmem < size \<or> length buf < size then haltP (Undefined ''memcpy'')
      else seqP (modifyP (\<lambda>s. s\<lparr>ssbuf := map bitrev8 (take size vmem) @ drop size buf\<rparr>))
          (bindP (getP ssbuf) (\<lambda>image.
           seqP (set_frame_memory env image)
           (seqP (display_frame env)
                 (ws_eink_sleep env))))))))"

text \<open>The drawing functions of the frame buffer core are given as what they do to the video memory.\<close>

definition log_failure :: "unit eink_prog \<Rightarrow> unit eink_prog" where
  "log_failure m = tryP m (\<lambda>_. returnP ()) returnP"

definition ws_eink_fb_fillrect :: "eink_env \<Rightarrow> (u8 list \<Rightarrow> u8 list) \<Rightarrow> unit eink_prog" where
  "ws_eink_fb_fillrect env sys_fillrect =
     seqP (modifyP (\<lambda>s. s\<lparr>screen_base := sys_fillrect (screen_base s)\<rparr>)) (log_failure (ws_eink_update_display env))"

definition ws_eink_fb_copyarea :: "eink_env \<Rightarrow> (u8 list \<Rightarrow> u8 list) \<Rightarrow> unit eink_prog" where
  "ws_eink_fb_copyarea env sys_copyarea =
     seqP (modifyP (\<lambda>s. s\<lparr>screen_base := sys_copyarea (screen_base s)\<rparr>)) (log_failure (ws_eink_update_display env))"

definition ws_eink_fb_imageblit :: "eink_env \<Rightarrow> (u8 list \<Rightarrow> u8 list) \<Rightarrow> unit eink_prog" where
  "ws_eink_fb_imageblit env sys_imageblit =
     seqP (modifyP (\<lambda>s. s\<lparr>screen_base := sys_imageblit (screen_base s)\<rparr>)) (log_failure (ws_eink_update_display env))"

definition ws_eink_deferred_io :: "eink_env \<Rightarrow> unit eink_prog" where
  "ws_eink_deferred_io env = log_failure (ws_eink_update_display env)"

text \<open>
  The result and the position in the file. The bytes of the caller are \<open>data\<close>, of which \<open>readable\<close> can be read before
  the copy faults; the sizes are bounded by the video memory before they are added, so that nothing wraps.
\<close>

definition ws_eink_fb_write :: "bool \<Rightarrow> u8 list \<Rightarrow> nat \<Rightarrow> nat \<Rightarrow> nat \<Rightarrow> (int \<times> nat) eink_prog" where
  "ws_eink_fb_write running data readable count ppos = bindP (getP (\<lambda>s. frame_size (eprops s))) (\<lambda>total_size.
     if \<not> running then returnP (- EPERM, ppos)
     else if ppos > total_size then returnP (- EFBIG, ppos)
     else let (err, count) = (if count > total_size then (EFBIG, total_size) else (0, count));
              (err, count) = (if count + ppos > total_size then (if err = 0 then ENOSPC else err, total_size - ppos) else (err, count));
              copied = min readable count;
              err = (if copied < count then EFAULT else err) in
          seqP (modifyP (\<lambda>s. s\<lparr>screen_base := take ppos (screen_base s) @ take copied data @ drop (ppos + copied) (screen_base s)\<rparr>))
            (returnP (if err \<noteq> 0 then (- err, ppos) else (int count, ppos + count))))"

datatype eink_ioctl = WS_FB_SET_SCREEN_DEEP_SLEEP | WS_FB_SET_SCREEN_WAKEUP | OTHER_IOCTL nat

text \<open>An unknown command gives the number of the error without its sign.\<close>

definition ws_eink_fb_ioctl :: "eink_env \<Rightarrow> eink_ioctl \<Rightarrow> int eink_prog" where
  "ws_eink_fb_ioctl env cmd = (case cmd of
     WS_FB_SET_SCREEN_DEEP_SLEEP \<Rightarrow> seqP (log_failure (ws_eink_sleep env)) (returnP 0)
   | WS_FB_SET_SCREEN_WAKEUP \<Rightarrow> seqP ws_eink_reset (returnP 0)
   | OTHER_IOCTL _ \<Rightarrow> returnP EINVAL)"

section \<open>Binding and unbinding\<close>

text \<open>The private data lies behind the structure of the frame buffer, and the pointers to the memories are in them.\<close>

definition through_info :: "'a eink_prog \<Rightarrow> 'a eink_prog" where
  "through_info m = bindP (getP info_mem) (\<lambda>i. if i = Live then m else haltP (Undefined ''frame buffer structure''))"

definition vfree_screen :: "unit eink_prog" where
  "vfree_screen = through_info (bindP (getP screen_mem) (\<lambda>p. case p of
     Null \<Rightarrow> returnP () | Live \<Rightarrow> modifyP (\<lambda>s. s\<lparr>screen_mem := Freed\<rparr>) | Freed \<Rightarrow> haltP (Undefined ''vfree of the video memory'')))"

definition vfree_ssbuf :: "unit eink_prog" where
  "vfree_ssbuf = through_info (bindP (getP ssbuf_mem) (\<lambda>p. case p of
     Null \<Rightarrow> returnP () | Live \<Rightarrow> modifyP (\<lambda>s. s\<lparr>ssbuf_mem := Freed\<rparr>) | Freed \<Rightarrow> haltP (Undefined ''vfree of the buffer'')))"

definition framebuffer_release :: "unit eink_prog" where
  "framebuffer_release = through_info (modifyP (\<lambda>s. s\<lparr>info_mem := Freed\<rparr>))"

text \<open>The labels at the end of the function, each of which goes on with the next.\<close>

definition screen_base_fail :: "int \<Rightarrow> unit eink_prog" where
  "screen_base_fail retval = seqP vfree_screen (throwP retval)"

definition ssbuf_alloc_fail :: "int \<Rightarrow> unit eink_prog" where
  "ssbuf_alloc_fail retval = seqP vfree_screen (screen_base_fail retval)"

definition fbreg_fail :: "int \<Rightarrow> unit eink_prog" where
  "fbreg_fail retval = seqP vfree_ssbuf (ssbuf_alloc_fail retval)"

definition disp_init_fail :: "int \<Rightarrow> unit eink_prog" where
  "disp_init_fail retval = seqP framebuffer_release (fbreg_fail retval)"

definition ws_eink_spi_probe :: "eink_env \<Rightarrow> bool \<Rightarrow> waveshare_eink_device_properties option option \<Rightarrow> unit eink_prog" where
  "ws_eink_spi_probe env has_pdata spi_id =
     (if \<not> has_pdata then throwP (- EINVAL)
      else case spi_id of
        None \<Rightarrow> throwP (- EINVAL)
      | Some None \<Rightarrow> throwP (- EINVAL)
      | Some (Some props) \<Rightarrow>
          if \<not> fb_alloc_ok env then throwP (- ENOMEM)
          else seqP (modifyP (\<lambda>s. s\<lparr>info_mem := Live, screen_mem := Null, ssbuf_mem := Null\<rparr>))
            (if \<not> screen_alloc_ok env then screen_base_fail (- ENOMEM)
             else seqP (modifyP (\<lambda>s. s\<lparr>screen_mem := Live, screen_base := replicate (frame_size props) 0, deferred_io := True, eprops := props\<rparr>))
               (if \<not> ssbuf_alloc_ok env then ssbuf_alloc_fail (- ENOMEM)
                else seqP (modifyP (\<lambda>s. s\<lparr>ssbuf_mem := Live, ssbuf := replicate (frame_size props) 0\<rparr>))
                  (if register_ret env < 0 then fbreg_fail (register_ret env)
                   else seqP (modifyP (\<lambda>s. s\<lparr>registered := True\<rparr>))
                     (tryP (ws_eink_init_display env) disp_init_fail returnP)))))"

definition ws_eink_spi_remove :: "unit eink_prog" where
  "ws_eink_spi_remove = through_info
     (seqP (modifyP (\<lambda>s. s\<lparr>deferred_io := False, registered := False\<rparr>))
     (seqP vfree_screen (seqP vfree_ssbuf framebuffer_release)))"

section \<open>The modules of the boards\<close>

text \<open>
  What the module has: the references to the controller it has taken, the device, and the GPIO of the busy line in the
  platform data.
\<close>

record ws213 =
  master_refs :: nat
  eink_device :: mem
  on_bus :: bool
  busy_gpio :: int

record ws213_env =
  spi_master_found :: bool
  device_alloc_ok :: bool
  expander_base :: "int option"
  add_device_ret :: int

definition put_master :: "(ws213, unit) prog" where
  "put_master = bindP (getP master_refs) (\<lambda>n.
     if n = 0 then haltP (Undefined ''reference to the SPI controller'') else modifyP (\<lambda>s. s\<lparr>master_refs := n - 1\<rparr>))"

definition add_to_bus :: "ws213_env \<Rightarrow> int \<Rightarrow> (ws213, unit) prog" where
  "add_to_bus env busy =
     (if add_device_ret env < 0 then
        seqP (modifyP (\<lambda>s. s\<lparr>busy_gpio := busy, eink_device := Freed\<rparr>)) (seqP put_master (throwP (add_device_ret env)))
      else seqP (modifyP (\<lambda>s. s\<lparr>busy_gpio := busy, on_bus := True\<rparr>)) put_master)"

definition ws213_alloc :: "ws213_env \<Rightarrow> (ws213, unit) prog \<Rightarrow> (ws213, unit) prog" where
  "ws213_alloc env rest =
     (if \<not> spi_master_found env then throwP (- 1)
      else seqP (modifyP (\<lambda>s. s\<lparr>master_refs := Suc (master_refs s)\<rparr>))
        (if \<not> device_alloc_ok env then
           seqP (modifyP (\<lambda>s. s\<lparr>eink_device := Null\<rparr>)) (seqP put_master (seqP put_master (throwP (- 1))))
         else seqP (modifyP (\<lambda>s. s\<lparr>eink_device := Live\<rparr>)) rest))"

definition red_add_ws213fb_device :: "ws213_env \<Rightarrow> int \<Rightarrow> (ws213, unit) prog" where
  "red_add_ws213fb_device env CF3_GPIO24 = ws213_alloc env (add_to_bus env CF3_GPIO24)"

definition yellow_add_ws213fb_device :: "ws213_env \<Rightarrow> (ws213, unit) prog" where
  "yellow_add_ws213fb_device env = ws213_alloc env
     (case expander_base env of
        None \<Rightarrow> seqP put_master (throwP (- 1))
      | Some base \<Rightarrow> add_to_bus env (base + 1))"

definition exit_ws213fb_device :: "(ws213, unit) prog" where
  "exit_ws213fb_device = bindP (getP eink_device) (\<lambda>d. case d of
     Null \<Rightarrow> returnP ()
   | Live \<Rightarrow> modifyP (\<lambda>s. s\<lparr>eink_device := Freed, on_bus := False\<rparr>)
   | Freed \<Rightarrow> haltP (Undefined ''eink_device''))"

end
