(* ===== verification/Eink_Props.thy ===== *)
theory Eink_Props
  imports Eink_Display
begin

text \<open>The properties of the e-ink driver.\<close>

section \<open>The panel\<close>

text \<open>
  The reference: the controller of the panel as its data sheet describes it, reduced to its memory. It has a window of
  columns of eight pixels and of rows, a counter for each, and with the entry mode that the driver sets a byte that is
  written goes to the place of the counters, which then move on along the row and to the next row.
\<close>

record panel =
  p_cmd :: u8
  x_start :: nat
  x_end :: nat
  y_start :: nat
  y_end :: nat
  x_count :: nat
  y_count :: nat
  p_ram :: "nat \<Rightarrow> nat \<Rightarrow> u8"

definition put_byte :: "u8 \<Rightarrow> panel \<Rightarrow> panel" where
  "put_byte d p = p\<lparr>p_ram := (p_ram p)(x_count p := (p_ram p (x_count p))(y_count p := d)),
     x_count := (if x_count p = x_end p then x_start p else Suc (x_count p)),
     y_count := (if x_count p = x_end p then (if y_count p = y_end p then y_start p else Suc (y_count p)) else y_count p)\<rparr>"

definition panel_data :: "u8 list \<Rightarrow> panel \<Rightarrow> panel" where
  "panel_data bs p =
     (if p_cmd p = 0x44 then (case bs of [a, b] \<Rightarrow> p\<lparr>x_start := unat a, x_end := unat b\<rparr> | _ \<Rightarrow> p)
      else if p_cmd p = 0x45 then (case bs of [a, b, c, d] \<Rightarrow> p\<lparr>y_start := unat a + 256 * unat b, y_end := unat c + 256 * unat d\<rparr> | _ \<Rightarrow> p)
      else if p_cmd p = 0x4E then (case bs of [a] \<Rightarrow> p\<lparr>x_count := unat a\<rparr> | _ \<Rightarrow> p)
      else if p_cmd p = 0x4F then (case bs of [a, b] \<Rightarrow> p\<lparr>y_count := unat a + 256 * unat b\<rparr> | _ \<Rightarrow> p)
      else if p_cmd p = 0x24 then fold put_byte bs p
      else p)"

fun panel_event :: "line_event \<Rightarrow> panel \<Rightarrow> panel" where
  "panel_event (Rst _) p = p"
| "panel_event (Sent False bs) p = (case bs of [c] \<Rightarrow> p\<lparr>p_cmd := c\<rparr> | _ \<Rightarrow> p)"
| "panel_event (Sent True bs) p = panel_data bs p"

definition cmd_events :: "u8 \<Rightarrow> u8 list \<Rightarrow> line_event list" where
  "cmd_events cmd data = [Sent False [cmd], Sent True data]"

lemma fold_cmd_events: "fold panel_event (cmd_events cmd data) p = panel_data data (p\<lparr>p_cmd := cmd\<rparr>)"
  by (simp add: cmd_events_def)

section \<open>What the operations send\<close>

text \<open>The bus never fails, and the panel is idle again and again.\<close>

definition eink_good :: "eink_env \<Rightarrow> bool" where
  "eink_good env \<longleftrightarrow> (\<forall>n. spi_ret env n = 0) \<and> (\<forall>n. \<exists>m \<ge> n. \<not> busy_line env m)"

text \<open>On a panel of the given properties the program returns, has sent these events, and has changed nothing but the lines.\<close>

definition on_lines :: "bool \<Rightarrow> line_event list \<Rightarrow> nat \<Rightarrow> nat \<Rightarrow> eink \<Rightarrow> eink" where
  "on_lines dc es asked busy s = s\<lparr>dc_level := dc, bus := bus s @ es, spi_asked := asked, busy_asked := busy\<rparr>"

lemma on_lines_simps [simp]:
  "eprops (on_lines dc es a b s) = eprops s" "bus (on_lines dc es a b s) = bus s @ es" "screen_base (on_lines dc es a b s) = screen_base s"
  "ssbuf (on_lines dc es a b s) = ssbuf s" "update_count (on_lines dc es a b s) = update_count s"
  "on_lines dc' fs a' b' (on_lines dc es a b s) = on_lines dc' (es @ fs) a' b' s"
  by (simp_all add: on_lines_def)

definition sends_events :: "waveshare_eink_device_properties \<Rightarrow> unit eink_prog \<Rightarrow> line_event list \<Rightarrow> bool" where
  "sends_events props m es \<longleftrightarrow> (\<forall>s. eprops s = props \<longrightarrow> (\<exists>dc asked busy. m s = Some (Ok (), on_lines dc es asked busy s)))"

lemma sends_eventsI: "(\<And>s. eprops s = props \<Longrightarrow> m s = Some (Ok (), on_lines (dc s) es (a s) (b s) s)) \<Longrightarrow> sends_events props m es"
  unfolding sends_events_def by blast

lemma sends_eventsE:
  assumes "sends_events props m es" "eprops s = props"
  obtains dc a b where "m s = Some (Ok (), on_lines dc es a b s)"
  using assms unfolding sends_events_def by blast

lemma sends_events_seq:
  assumes m: "sends_events props m es" and n: "sends_events props n fs"
  shows "sends_events props (seqP m n) (es @ fs)"
  unfolding sends_events_def
proof (intro allI impI)
  fix s :: eink assume p: "eprops s = props"
  obtain dc a b where 1: "m s = Some (Ok (), on_lines dc es a b s)" using sends_eventsE [OF m p] .
  obtain dc' a' b' where "n (on_lines dc es a b s) = Some (Ok (), on_lines dc' fs a' b' (on_lines dc es a b s))"
    using sends_eventsE [OF n, of "on_lines dc es a b s"] p by auto
  with 1 show "\<exists>dc asked busy. seqP m n s = Some (Ok (), on_lines dc (es @ fs) asked busy s)" by auto
qed

lemma sends_events_get: "sends_events props (k props) es \<Longrightarrow> sends_events props (bindP (getP eprops) k) es"
  by (simp add: sends_events_def getP_def bindP_def)

lemma sends_events_foreach:
  "(\<And>x. x \<in> set xs \<Longrightarrow> sends_events props (f x) (es x)) \<Longrightarrow> sends_events props (foreachP f xs) (concat (map es xs))"
proof (induction xs)
  case Nil
  show ?case by (rule sends_eventsI [of _ _ dc_level _ spi_asked busy_asked]) (simp add: prog_defs on_lines_def)
qed (simp add: sends_events_seq)

lemma sends_cmd: "eink_good env \<Longrightarrow> sends_events props (ws_eink_send_cmd env cmd data) (cmd_events cmd data)"
  by (rule sends_eventsI [of _ _ "\<lambda>_. True" _ "\<lambda>s. Suc (Suc (spi_asked s))" busy_asked])
    (simp add: eink_good_def ws_eink_send_cmd_def spi_write_def cmd_events_def on_lines_def prog_defs)

lemma wait_run: "\<not> busy_line env m \<Longrightarrow> busy_asked s \<le> m \<Longrightarrow> \<exists>busy. wait_until_idle env s = Some (Ok (), s\<lparr>busy_asked := busy\<rparr>)"
proof (induction "m - busy_asked s" arbitrary: s)
  case 0
  then have "busy_asked s = m" by simp
  with 0 show ?case by (subst wait_until_idle.simps) auto
next
  case (Suc n)
  show ?case
  proof (cases "busy_line env (busy_asked s)")
    case True
    from Suc(1) [of "s\<lparr>busy_asked := Suc (busy_asked s)\<rparr>"] Suc(2-) have
      "\<exists>busy. wait_until_idle env (s\<lparr>busy_asked := Suc (busy_asked s)\<rparr>) = Some (Ok (), s\<lparr>busy_asked := busy\<rparr>)" by auto
    with True show ?thesis by (subst wait_until_idle.simps) simp
  next
    case False
    then show ?thesis by (subst wait_until_idle.simps) auto
  qed
qed

lemma sends_wait:
  assumes "eink_good env"
  shows "sends_events props (wait_until_idle env) []"
  unfolding sends_events_def
proof (intro allI impI)
  fix s :: eink
  obtain m where "\<not> busy_line env m" "busy_asked s \<le> m" using assms by (auto simp: eink_good_def)
  from wait_run [OF this] obtain busy where "wait_until_idle env s = Some (Ok (), s\<lparr>busy_asked := busy\<rparr>)" by blast
  then show "\<exists>dc asked busy. wait_until_idle env s = Some (Ok (), on_lines dc [] asked busy s)"
    by (intro exI [of _ "dc_level s"] exI [of _ "spi_asked s"] exI [of _ busy]) (simp add: on_lines_def)
qed

lemma sends_reset: "sends_events props ws_eink_reset [Rst False, Rst True]"
  by (rule sends_eventsI [of _ _ dc_level _ spi_asked busy_asked]) (simp add: ws_eink_reset_def on_lines_def prog_defs)

definition lut_events :: "u8 list \<Rightarrow> line_event list" where
  "lut_events lut = [Rst False, Rst True] @ cmd_events 0x01 [0xF9, 0, 0] @ cmd_events 0x0C [0xD7, 0xD6, 0x9D] @ cmd_events 0x2C [0xA8] @
     cmd_events 0x3A [0x1A] @ cmd_events 0x3B [0x08] @ cmd_events 0x11 [0x03] @ cmd_events 0x32 lut"

definition area_events :: "line_event list" where
  "area_events = cmd_events 0x44 [0, 15] @ cmd_events 0x45 [0, 0, 249, 0]"

definition row_events :: "nat \<Rightarrow> u8 list \<Rightarrow> line_event list" where
  "row_events row line = cmd_events 0x4E [0] @ cmd_events 0x4F [word_of_nat row, 0] @ cmd_events 0x24 line"

definition show_events :: "line_event list" where
  "show_events = cmd_events 0x22 [0xC4] @ cmd_events 0x20 [] @ cmd_events 0xFF []"

lemma sends_int_lut: "eink_good env \<Longrightarrow> sends_events DEV_WS_213 (int_lut env lut) (lut_events lut)"
proof -
  have b: "low_byte (height DEV_WS_213 - 1) = 0xF9" "high_byte (height DEV_WS_213 - 1) = 0" by code_simp+
  assume "eink_good env"
  then show ?thesis
    unfolding int_lut_def lut_events_def set_lut_def
    by (intro sends_events_get) (simp only: b WS_DRIVER_OUTPUT_CONTROL_def WS_BOOSTER_SOFT_START_CONTROL_def WS_WRITE_VCOM_REGISTER_def
      WS_SET_DUMMY_LINE_PERIOD_def WS_SET_GATE_TIME_def WS_DATA_ENTRY_MODE_SETTING_def WS_WRITE_LUT_REGISTER_def,
      intro sends_events_seq sends_reset sends_cmd)
qed

lemma sends_area: "eink_good env \<Longrightarrow> sends_events DEV_WS_213 (set_memory_area env 0 0 (width DEV_WS_213 - 1) (height DEV_WS_213 - 1)) area_events"
proof -
  have b: "column_byte 0 = 0" "column_byte (width DEV_WS_213 - 1) = 15" "low_byte 0 = 0" "high_byte 0 = 0"
    "low_byte (height DEV_WS_213 - 1) = 249" "high_byte (height DEV_WS_213 - 1) = 0" by code_simp+
  assume "eink_good env"
  then show ?thesis
    unfolding set_memory_area_def area_events_def b WS_SET_RAM_X_ADDRESS_START_END_POSITION_def WS_SET_RAM_Y_ADDRESS_START_END_POSITION_def
    by (intro sends_events_seq sends_cmd)
qed

lemma low_byte_row: "low_byte (word_of_nat row) = word_of_nat row"
proof -
  have "(w AND 0xFF :: u32) = take_bit 8 w" for w by (simp add: take_bit_eq_mask mask_eq_exp_minus_1)
  then show ?thesis unfolding low_byte_def
    by (intro word_unat_eq_iff [THEN iffD2]) (simp add: unsigned_ucast_eq unsigned_take_bit_eq unsigned_of_nat take_bit_take_bit)
qed

lemma high_byte_row:
  assumes "row < 256"
  shows "high_byte (word_of_nat row) = 0"
proof -
  have u: "unat (word_of_nat row :: u32) = row" using assms by (simp add: unat_word_of_nat_u32)
  have "unat (drop_bit 8 (word_of_nat row :: u32)) = 0" unfolding unat_drop_bit_eq u using assms by (simp add: drop_bit_eq_div)
  then have "drop_bit 8 (word_of_nat row :: u32) = 0" by (simp only: unat_eq_0)
  then show ?thesis by (simp add: high_byte_def)
qed

lemma sends_row:
  assumes env: "eink_good env" and row: "row < 256"
  shows "sends_events props (seqP (set_memory_pointer env 0 (word_of_nat row)) (ws_eink_send_cmd env WS_WRITE_RAM line)) (row_events row line)"
proof -
  have c: "column_byte 0 = 0" by code_simp
  have e: "row_events row line = (cmd_events 0x4E [0] @ cmd_events 0x4F [word_of_nat row, 0] @ []) @ cmd_events 0x24 line" by (simp add: row_events_def)
  show ?thesis
    unfolding set_memory_pointer_def e c low_byte_row high_byte_row [OF row] WS_SET_RAM_X_ADDRESS_COUNTER_def WS_SET_RAM_Y_ADDRESS_COUNTER_def WS_WRITE_RAM_def
    by (intro sends_events_seq sends_cmd sends_wait env)
qed

definition frame_events :: "u8 list \<Rightarrow> line_event list" where
  "frame_events img = area_events @ concat (map (\<lambda>row. row_events row (take 16 (drop (row * 16) img))) [0..<250])"

lemma sends_frame:
  assumes env: "eink_good env" and img: "length img = 4000"
  shows "sends_events DEV_WS_213 (set_frame_memory env img) (frame_events img)"
proof -
  have d: "unat (width DEV_WS_213 div 8) = 16" "unat (height DEV_WS_213) = 250" by code_simp+
  have "sends_events DEV_WS_213 (foreachP (\<lambda>row. seqP (set_memory_pointer env 0 (word_of_nat row))
        (if row * 16 + 16 > length img then haltP (Undefined ''image_buffer'')
         else ws_eink_send_cmd env WS_WRITE_RAM (take 16 (drop (row * 16) img)))) [0..<250])
      (concat (map (\<lambda>row. row_events row (take 16 (drop (row * 16) img))) [0..<250]))"
  proof (rule sends_events_foreach)
    fix row assume "row \<in> set [0..<250]"
    then have "row < 250" by simp
    then have "\<not> row * 16 + 16 > length img" "row < 256" unfolding img by simp_all
    with sends_row [OF env, of row] show "sends_events DEV_WS_213 (seqP (set_memory_pointer env 0 (word_of_nat row))
        (if row * 16 + 16 > length img then haltP (Undefined ''image_buffer'')
         else ws_eink_send_cmd env WS_WRITE_RAM (take 16 (drop (row * 16) img)))) (row_events row (take 16 (drop (row * 16) img)))"
      by simp
  qed
  with sends_area [OF env] show ?thesis
    unfolding set_frame_memory_def frame_events_def
    by (intro sends_events_get) (simp only: d Let_def, rule sends_events_seq)
qed

lemma sends_display: "eink_good env \<Longrightarrow> sends_events props (display_frame env) show_events"
proof -
  have e: "show_events = cmd_events 0x22 [0xC4] @ cmd_events 0x20 [] @ cmd_events 0xFF [] @ []" by (simp add: show_events_def)
  assume "eink_good env"
  then show ?thesis
    unfolding e display_frame_def WS_DISPLAY_UPDATE_CONTROL_2_def WS_MASTER_ACTIVATION_def WS_TERMINATE_FRAME_READ_WRITE_def
    by (intro sends_events_seq sends_cmd sends_wait)
qed

lemma sends_sleep: "eink_good env \<Longrightarrow> sends_events props (ws_eink_sleep env) (cmd_events 0x10 [])"
  unfolding ws_eink_sleep_def WS_DEEP_SLEEP_MODE_def
  using sends_events_seq [OF sends_cmd sends_wait] by fastforce

section \<open>The panel shows the memory\<close>

lemma panel_row:
  assumes "x_start p = 0" "x_end p = 15" "x_count p + length bs \<le> 16"
  shows "x_count p < 16 \<Longrightarrow> bs \<noteq> [] \<Longrightarrow> let q = fold put_byte bs p in
    (\<forall>x y. p_ram q x y = (if y = y_count p \<and> x_count p \<le> x \<and> x < x_count p + length bs then bs ! (x - x_count p) else p_ram p x y)) \<and>
    x_start q = x_start p \<and> x_end q = x_end p \<and> y_start q = y_start p \<and> y_end q = y_end p"
  using assms
proof (induction bs arbitrary: p)
  case (Cons d bs)
  show ?case
  proof (cases "bs = []")
    case True
    then show ?thesis by (auto simp: put_byte_def)
  next
    case False
    let ?p = "put_byte d p"
    have x: "x_count p \<noteq> x_end p" using Cons.prems False by (cases bs) auto
    then have f: "x_count ?p = Suc (x_count p)" "y_count ?p = y_count p" "x_start ?p = 0" "x_end ?p = 15"
      "y_start ?p = y_start p" "y_end ?p = y_end p" "p_ram ?p = (p_ram p)(x_count p := (p_ram p (x_count p))(y_count p := d))"
      using Cons.prems by (simp_all add: put_byte_def)
    then have "x_count ?p < 16" "x_count ?p + length bs \<le> 16" using Cons.prems False by (cases bs; simp)+
    from Cons.IH [OF this(1) False f(3,4) this(2)] f Cons.prems show ?thesis
      by (auto simp: Let_def nth_Cons' fun_upd_def)
  qed
qed simp

definition panel_ready :: "panel \<Rightarrow> bool" where
  "panel_ready p \<longleftrightarrow> x_start p = 0 \<and> x_end p = 15 \<and> y_start p = 0 \<and> y_end p = 249"

lemma panel_row_events:
  assumes "panel_ready p" "length line = 16" "row < 256"
  shows "panel_ready (fold panel_event (row_events row line) p) \<and>
    p_ram (fold panel_event (row_events row line) p) x y = (if y = row \<and> x < 16 then line ! x else p_ram p x y)"
proof -
  let ?p = "p\<lparr>x_count := 0, y_count := row, p_cmd := 0x24\<rparr>"
  have u: "unat (word_of_nat row :: u8) = row" using assms(3) by (simp add: unsigned_of_nat take_bit_nat_eq_self)
  have "fold panel_event (row_events row line) p = fold put_byte line ?p"
    by (simp add: row_events_def fold_cmd_events panel_data_def u)
  moreover have "line \<noteq> []" using assms(2) by auto
  ultimately show ?thesis using panel_row [of ?p line] assms(1,2) by (simp add: panel_ready_def Let_def)
qed

lemma panel_rows:
  assumes "panel_ready p" "length img = 4000" "n \<le> 250"
  shows "panel_ready (fold panel_event (concat (map (\<lambda>row. row_events row (take 16 (drop (row * 16) img))) [0..<n])) p) \<and>
    p_ram (fold panel_event (concat (map (\<lambda>row. row_events row (take 16 (drop (row * 16) img))) [0..<n])) p) x y =
      (if y < n \<and> x < 16 then img ! (y * 16 + x) else p_ram p x y)"
  using assms(3)
proof (induction n)
  case 0
  with assms(1) show ?case by simp
next
  case (Suc n)
  let ?q = "fold panel_event (concat (map (\<lambda>row. row_events row (take 16 (drop (row * 16) img))) [0..<n])) p"
  let ?line = "take 16 (drop (n * 16) img)"
  have len: "length ?line = 16" using Suc.prems assms(2) by simp
  have nth: "x < 16 \<Longrightarrow> ?line ! x = img ! (n * 16 + x)" using Suc.prems assms(2) by simp
  have q: "panel_ready ?q" "p_ram ?q x y = (if y < n \<and> x < 16 then img ! (y * 16 + x) else p_ram p x y)" using Suc by simp_all
  have "n < 256" using Suc.prems by simp
  from panel_row_events [OF q(1) len this, of x y] q(2) nth show ?case by (auto simp: less_Suc_eq)
qed

text \<open>Commands that the reference does not know leave the memory and the window as they are.\<close>

lemma panel_other:
  "cmd \<notin> {0x44, 0x45, 0x4E, 0x4F, 0x24} \<Longrightarrow> fold panel_event (cmd_events cmd data) p = p\<lparr>p_cmd := cmd\<rparr>"
  by (auto simp: fold_cmd_events panel_data_def)

lemma panel_lut: "\<exists>c. fold panel_event (lut_events lut) p = p\<lparr>p_cmd := c\<rparr>"
  by (intro exI [of _ "0x32"]) (simp add: lut_events_def panel_other)

lemma panel_show: "\<exists>c. fold panel_event (show_events @ cmd_events 0x10 []) p = p\<lparr>p_cmd := c\<rparr>"
  by (intro exI [of _ "0x10"]) (simp add: show_events_def panel_other)

lemma panel_frame:
  assumes "length img = 4000" "x < 16" "y < 250"
  shows "p_ram (fold panel_event (frame_events img) p) x y = img ! (y * 16 + x)"
proof -
  have "panel_ready (fold panel_event area_events p)"
    by (simp add: area_events_def fold_cmd_events panel_data_def panel_ready_def)
  from panel_rows [OF this assms(1), of 250 x y] assms(2,3) show ?thesis by (simp add: frame_events_def)
qed

lemma bit_bitrev8: "k < 8 \<Longrightarrow> bit (bitrev8 w) k = bit w (7 - k)"
  unfolding bitrev8_def
  by (auto simp: bit_horner_sum_bit_word_iff rev_nth)

text \<open>What an update leaves: the memory and the counter, and the bus with what it sent.\<close>

definition update_events :: "eink \<Rightarrow> line_event list" where
  "update_events s = lut_events (if update_count s = 9 then lut_full_update else lut_partial_update) @
     frame_events (map bitrev8 (screen_base s)) @ show_events @ cmd_events 0x10 []"

definition eink_wf :: "eink \<Rightarrow> bool" where
  "eink_wf s \<longleftrightarrow> eprops s = DEV_WS_213 \<and> length (screen_base s) = 4000 \<and> length (ssbuf s) = 4000 \<and> 0 \<le> update_count s \<and> update_count s < 10"

lemma frame_size_213: "frame_size DEV_WS_213 = 4000"
  unfolding frame_size_def by code_simp

lemma update_run:
  assumes env: "eink_good env" and wf: "eink_wf s"
  shows "\<exists>s'. ws_eink_update_display env s = Some (Ok (), s') \<and> eink_wf s' \<and> screen_base s' = screen_base s \<and>
    update_count s' = (if update_count s = 9 then 0 else update_count s + 1) \<and> bus s' = bus s @ update_events s"
proof -
  let ?n = "if update_count s = 9 then 0 else update_count s + 1"
  let ?lut = "if update_count s = 9 then lut_full_update else lut_partial_update"
  let ?s1 = "s\<lparr>update_count := ?n\<rparr>" let ?img = "map bitrev8 (screen_base s)"
  have w: "eprops ?s1 = DEV_WS_213" "length (screen_base s) = 4000" "length (ssbuf s) = 4000" "length ?img = 4000"
    using wf by (simp_all add: eink_wf_def)
  obtain dc a b where 1: "int_lut env ?lut ?s1 = Some (Ok (), on_lines dc (lut_events ?lut) a b ?s1)"
    using sends_eventsE [OF sends_int_lut [OF env] w(1)] .
  let ?s2 = "(on_lines dc (lut_events ?lut) a b ?s1)\<lparr>ssbuf := ?img\<rparr>"
  obtain dc' a' b' where 2: "seqP (set_frame_memory env ?img) (seqP (display_frame env) (ws_eink_sleep env)) ?s2 =
      Some (Ok (), on_lines dc' (frame_events ?img @ show_events @ cmd_events 0x10 []) a' b' ?s2)"
    using sends_eventsE [OF sends_events_seq [OF sends_frame [OF env w(4)] sends_events_seq [OF sends_display [OF env] sends_sleep [OF env]]], of ?s2] w(1)
    by auto
  have full: "update_count s + 1 = 10 \<longleftrightarrow> update_count s = 9" "?n = 0 \<longleftrightarrow> update_count s = 9" using wf by (auto simp: eink_wf_def)
  have "ws_eink_update_display env s = Some (Ok (), on_lines dc' (frame_events ?img @ show_events @ cmd_events 0x10 []) a' b' ?s2)"
    unfolding ws_eink_update_display_def
    using 1 2 w full by (simp add: modifyP_def getP_def frame_size_213)
  moreover have "eink_wf (on_lines dc' (frame_events ?img @ show_events @ cmd_events 0x10 []) a' b' ?s2)"
    using wf by (simp add: eink_wf_def on_lines_def)
  ultimately show ?thesis by (auto simp: update_events_def on_lines_def)
qed


definition example_eink_env :: eink_env where
  "example_eink_env = \<lparr>spi_ret = (\<lambda>_. 0), busy_line = (\<lambda>n. n mod 2 = 0), request_rst = 0, request_dc = 0, request_busy = 0, fb_alloc_ok = True,
     screen_alloc_ok = True, ssbuf_alloc_ok = True, register_ret = 0\<rparr>"

definition example_eink :: eink where
  "example_eink = \<lparr>eprops = DEV_WS_213, dc_level = False, bus = [], spi_asked = 0, busy_asked = 0, update_count = 0,
     screen_base = 0x81 # replicate 3999 0, ssbuf = replicate 4000 0, info_mem = Live, screen_mem = Live, ssbuf_mem = Live,
     registered = True, deferred_io = True\<rparr>"

lemma example_eink_good: "eink_good example_eink_env"
proof -
  have "\<exists>m \<ge> n. m mod 2 = Suc 0" for n :: nat by (intro exI [of _ "2 * n + 1"]) simp
  then show ?thesis by (simp add: eink_good_def example_eink_env_def)
qed

lemma example_eink_wf: "eink_wf example_eink"
  by (simp add: eink_wf_def example_eink_def)


section \<open>Writing to the file of the frame buffer\<close>

lemma fb_write_run:
  assumes wf: "eink_wf s" and pos: "\<not> ppos > 4000"
  shows "\<exists>e > 0. ws_eink_fb_write True data readable count ppos s =
      Some (Ok (if min readable (min count (4000 - ppos)) = count then (int count, ppos + count) else (- e, ppos)),
        s\<lparr>screen_base := take ppos (screen_base s) @ take (min readable (min count (4000 - ppos))) data @
          drop (ppos + min readable (min count (4000 - ppos))) (screen_base s)\<rparr>)"
proof -
  from wf have p: "eprops s = DEV_WS_213" by (simp add: eink_wf_def)
  show ?thesis
  proof (cases "count + ppos \<le> 4000")
    case True
    then have m: "min count (4000 - ppos) = count" by simp
    have "min readable count < count \<longleftrightarrow> min readable count \<noteq> count" by linarith
    with True pos show ?thesis unfolding m
      by (intro exI [of _ 14]) (simp add: ws_eink_fb_write_def p frame_size_213 prog_defs Let_def)
  next
    case over: False
    with pos have less: "4000 - ppos < count" by linarith
    then have m: "min count (4000 - ppos) = 4000 - ppos" by simp
    have "min readable (4000 - ppos) \<le> 4000 - ppos" by simp
    with less have ne: "min readable (4000 - ppos) \<noteq> count" by linarith
    define e :: int where "e = (if min readable (4000 - ppos) < 4000 - ppos then 14 else if count > 4000 then 27 else 28)"
    have "e > 0" by (simp add: e_def)
    moreover have "ws_eink_fb_write True data readable count ppos s =
        Some (Ok (- e, ppos), s\<lparr>screen_base := take ppos (screen_base s) @ take (min readable (4000 - ppos)) data @ drop (ppos + min readable (4000 - ppos)) (screen_base s)\<rparr>)"
      using pos over by (cases "count > 4000"; cases "ppos = 0") (simp_all add: ws_eink_fb_write_def p frame_size_213 prog_defs Let_def e_def)
    ultimately show ?thesis using ne unfolding m by (intro exI [of _ e]) simp
  qed
qed



section \<open>Binding\<close>

text \<open>What the commands and the wait leave alone, and that they do not crash.\<close>

definition rest_of :: "eink \<Rightarrow> _" where
  "rest_of s = (eprops s, update_count s, screen_base s, ssbuf s, info_mem s, screen_mem s, ssbuf_mem s, registered s)"

definition tidy :: "unit eink_prog \<Rightarrow> bool" where
  "tidy m \<longleftrightarrow> (\<forall>s r s'. m s = Some (r, s') \<longrightarrow> rest_of s' = rest_of s \<and> (\<forall>h. r \<noteq> Halt h))"

lemma tidyD: "tidy m \<Longrightarrow> m s = Some (r, s') \<Longrightarrow> rest_of s' = rest_of s \<and> (\<forall>h. r \<noteq> Halt h)"
  by (auto simp: tidy_def)

lemma tidy_seq: "tidy m \<Longrightarrow> tidy n \<Longrightarrow> tidy (seqP m n)"
  unfolding tidy_def seqP_def bindP_def by (auto split: option.splits prod.splits outcome.splits)

lemma tidy_get: "(\<And>a. tidy (k a)) \<Longrightarrow> tidy (bindP (getP f) k)"
  by (simp add: tidy_def bindP_def getP_def)

lemma tidy_basic: "tidy (throwP e)" "tidy (returnP ())" "(\<And>s. rest_of (f s) = rest_of s) \<Longrightarrow> tidy (modifyP f)"
  by (auto simp: tidy_def prog_defs)

lemma tidy_if: "tidy m \<Longrightarrow> tidy n \<Longrightarrow> tidy (if b then m else n)"
  by simp

lemma tidy_foreach: "(\<And>x. tidy (f x)) \<Longrightarrow> tidy (foreachP f xs)"
  by (induction xs) (simp_all add: tidy_basic tidy_seq)

lemma tidy_wait: "tidy (wait_until_idle env)"
  unfolding tidy_def
proof (intro allI impI)
  fix s :: eink and r :: "unit outcome" and s' assume run: "wait_until_idle env s = Some (r, s')"
  have "rest_of (snd (r, s')) = rest_of s \<and> (\<forall>h. fst (r, s') \<noteq> Halt h)"
  proof (rule wait_until_idle.raw_induct [where P = "\<lambda>env s rs. rest_of (snd rs) = rest_of s \<and> (\<forall>h. fst rs \<noteq> Halt h)", OF _ run])
    fix wait env and s :: eink and rs
    assume IH: "\<And>env s rs. wait env s = Some rs \<Longrightarrow> rest_of (snd rs) = rest_of s \<and> (\<forall>h. fst rs \<noteq> Halt h)"
      and eq: "(if busy_line env (busy_asked s) then wait env (s\<lparr>busy_asked := Suc (busy_asked s)\<rparr>)
        else Some (Ok (), s\<lparr>busy_asked := Suc (busy_asked s)\<rparr>)) = Some rs"
    have "rest_of (s\<lparr>busy_asked := Suc (busy_asked s)\<rparr>) = rest_of s" by (simp add: rest_of_def)
    with IH [of env "s\<lparr>busy_asked := Suc (busy_asked s)\<rparr>" rs] eq show "rest_of (snd rs) = rest_of s \<and> (\<forall>h. fst rs \<noteq> Halt h)"
      by (auto split: if_splits)
  qed
  then show "rest_of s' = rest_of s \<and> (\<forall>h. r \<noteq> Halt h)" by simp
qed

lemmas tidy_rules = tidy_seq tidy_get tidy_basic tidy_if tidy_foreach tidy_wait

lemma tidy_init: "tidy (ws_eink_init_display env)"
  unfolding ws_eink_init_display_def gpio_request_def int_lut_def clear_frame_memory_def display_frame_def set_lut_def ws_eink_reset_def
    set_memory_area_def set_memory_pointer_def ws_eink_send_cmd_def spi_write_def Let_def
  by (intro tidy_rules) (simp_all add: rest_of_def)



section \<open>The modules of the boards\<close>

text \<open>When the device cannot be allocated the reference to the controller, taken once, is dropped twice.\<close>

lemma ws213_alloc_failure:
  assumes "spi_master_found env" "\<not> device_alloc_ok env" "master_refs s = 0"
  shows "\<exists>s'. red_add_ws213fb_device env g s = Some (Halt (Undefined ''reference to the SPI controller''), s')"
  using assms by (simp add: red_add_ws213fb_device_def ws213_alloc_def put_master_def prog_defs)

text \<open>Without the expander the device of the mangOH Yellow is never given back.\<close>

lemma ws213_expander_missing:
  assumes "spi_master_found env" "device_alloc_ok env" "expander_base env = None" "master_refs s = 0"
  shows "\<exists>s'. yellow_add_ws213fb_device env s = Some (Err (- 1), s') \<and> master_refs s' = 0 \<and> eink_device s' = Live"
  using assms by (simp add: yellow_add_ws213fb_device_def ws213_alloc_def put_master_def prog_defs)

end
