(* ===== verification/Yellow_Apps.thy ===== *)
theory Yellow_Apps
  imports Mangoh_Text
begin

text \<open>
  The small applications of the mangOH Yellow and Red: the actuators and lights (\<^verbatim>\<open>apps/YellowOnBoardActuators\<close>), the
  sensors (\<^verbatim>\<open>apps/YellowSensor\<close>), the service of the LED (\<^verbatim>\<open>apps/LedService\<close>) and the instant gratification of the
  Welcome application (\<^verbatim>\<open>components/yellowInstantGratification\<close>). They talk to files of drivers and to the Data Hub.
\<close>

datatype le_result = LE_OK | LE_FAULT | LE_IO_ERROR | LE_FORMAT_ERROR

text \<open>A fatal error or a failed assertion ends the process.\<close>

abbreviation (input) LE_FATAL :: "('s, 'a) prog" where "LE_FATAL \<equiv> haltP (Exit 1)"

definition LE_ASSERT :: "bool \<Rightarrow> ('s, unit) prog" where
  "LE_ASSERT ok = (if ok then returnP () else LE_FATAL)"

section \<open>Actuators (outputActuator.c, leds.c)\<close>

text \<open>The files of a driver: a path that can be opened has the driver's store function behind it.\<close>

type_synonym 's sysfs = "string \<Rightarrow> (string \<Rightarrow> ('s, nat) prog) option"

text \<open>
  The stream is buffered or not. When it is buffered (\<open>through\<close> is false) the driver is only called when the stream is
  closed, and what it answers is not looked at.
\<close>

definition WriteStringToFile :: "bool \<Rightarrow> 's sysfs \<Rightarrow> string \<Rightarrow> string \<Rightarrow> ('s, le_result) prog" where
  "WriteStringToFile through fs path s = (case fs path of
     None \<Rightarrow> returnP LE_FAULT
   | Some store \<Rightarrow> tryP (store s)
       (\<lambda>_. returnP (if through then LE_IO_ERROR else LE_OK))
       (\<lambda>n. returnP (if through \<and> n \<noteq> length s then LE_IO_ERROR else LE_OK)))"

definition ActuatorPushHandler :: "bool \<Rightarrow> 's sysfs \<Rightarrow> bool \<Rightarrow> string \<Rightarrow> ('s, unit) prog" where
  "ActuatorPushHandler through fs value sysfsPath =
     bindP (WriteStringToFile through fs sysfsPath (if value then ''1'' else ''0'')) (\<lambda>res. LE_ASSERT (res = LE_OK))"

text \<open>What the process has made in the Data Hub: outputs, their defaults, and the handlers with their contexts.\<close>

record hub =
  hub_outputs :: "string list"
  hub_defaults :: "(string \<times> bool) list"
  hub_handlers :: "(string \<times> string) list"

record hub_env =
  DHUB_MAX_RESOURCE_PATH_LEN :: nat
  malloc_ok :: bool
  create_output_ok :: "string \<Rightarrow> bool"

definition outputActuator_Register :: "hub_env \<Rightarrow> string \<Rightarrow> string \<Rightarrow> (hub, unit) prog" where
  "outputActuator_Register env dhubBasePath sysfsPath =
     (let dhubOutputPath = dhubBasePath @ ''/'' @ ''enable'' in
      if length dhubOutputPath \<ge> DHUB_MAX_RESOURCE_PATH_LEN env then LE_FATAL
      else seqP (LE_ASSERT (malloc_ok env))
        (if \<not> create_output_ok env dhubOutputPath then LE_FATAL
         else modifyP (\<lambda>s. s\<lparr>hub_outputs := dhubOutputPath # hub_outputs s, hub_defaults := (dhubOutputPath, False) # hub_defaults s,
           hub_handlers := (dhubOutputPath, sysfsPath) # hub_handlers s\<rparr>)))"

definition leds_COMPONENT_INIT :: "hub_env \<Rightarrow> (hub, unit) prog" where
  "leds_COMPONENT_INIT env =
     seqP (outputActuator_Register env ''tri/red'' ''/sys/devices/platform/expander.0/tri_led_red'')
    (seqP (outputActuator_Register env ''tri/green'' ''/sys/devices/platform/expander.0/tri_led_grn'')
    (seqP (outputActuator_Register env ''tri/blue'' ''/sys/devices/platform/expander.0/tri_led_blu'')
          (outputActuator_Register env ''mono'' ''/sys/devices/platform/expander.0/generic_led'')))"

section \<open>The LED service (ledService.c)\<close>

datatype ma_led_LedStatus = MA_LED_UNKNOWN | MA_LED_OFF | MA_LED_ON

text \<open>
  As many bytes as a pointer has are written from a string of one character and its terminator.
\<close>

definition LedWrite :: "nat \<Rightarrow> (string \<Rightarrow> ('s, nat) prog) option \<Rightarrow> bool \<Rightarrow> ('s, unit) prog" where
  "LedWrite sizeof_pointer file on = (case file of
     None \<Rightarrow> returnP ()
   | Some store \<Rightarrow>
       let writeData = (if on then ''1'' else ''0'') @ [CHR 0x00] in
       if sizeof_pointer > length writeData then haltP (Undefined ''fwrite past the end of the string'')
       else tryP (store (take sizeof_pointer writeData)) (\<lambda>_. returnP ()) (\<lambda>_. returnP ()))"

definition ma_led_TurnOn :: "nat \<Rightarrow> (string \<Rightarrow> ('s, nat) prog) option \<Rightarrow> ('s, unit) prog" where
  "ma_led_TurnOn sizeof_pointer file = LedWrite sizeof_pointer file True"

definition ma_led_TurnOff :: "nat \<Rightarrow> (string \<Rightarrow> ('s, nat) prog) option \<Rightarrow> ('s, unit) prog" where
  "ma_led_TurnOff sizeof_pointer file = LedWrite sizeof_pointer file False"

definition ma_led_GetLedStatus :: "('s, string) prog option \<Rightarrow> ('s, ma_led_LedStatus) prog" where
  "ma_led_GetLedStatus file = (case file of
     None \<Rightarrow> returnP MA_LED_UNKNOWN
   | Some show \<Rightarrow> tryP show (\<lambda>_. returnP MA_LED_UNKNOWN) (\<lambda>text.
       if length text < 2 then returnP MA_LED_UNKNOWN
       else if text ! 0 = CHR ''0'' then returnP MA_LED_OFF
       else if text ! 0 = CHR ''1'' then returnP MA_LED_ON
       else returnP MA_LED_UNKNOWN))"

section \<open>Instant gratification (yellowInstantGratification/main.c)\<close>

datatype hub_value = HubBool bool | HubNumeric double

text \<open>The routes of the Data Hub, what was pushed (the newest first), and whether the device is kept awake.\<close>

record gratification =
  routes :: "string \<Rightarrow> string option"
  pushed :: "(string \<times> hub_value) list"
  awake :: bool

definition SetSource :: "string \<Rightarrow> string \<Rightarrow> (gratification, unit) prog" where
  "SetSource dest src = modifyP (\<lambda>s. s\<lparr>routes := (routes s)(dest := Some src)\<rparr>)"

definition RemoveSource :: "string \<Rightarrow> (gratification, unit) prog" where
  "RemoveSource dest = modifyP (\<lambda>s. s\<lparr>routes := (routes s)(dest := None)\<rparr>)"

definition HubPush :: "string \<Rightarrow> hub_value \<Rightarrow> (gratification, unit) prog" where
  "HubPush path v = modifyP (\<lambda>s. s\<lparr>pushed := (path, v) # pushed s\<rparr>)"

definition EnableInstantGratification :: "bool \<Rightarrow> (gratification, unit) prog" where
  "EnableInstantGratification stay_awake_ok =
     seqP (whenP stay_awake_ok (modifyP (\<lambda>s. s\<lparr>awake := True\<rparr>)))
    (seqP (SetSource ''/app/vegasMode/triggered/trigger'' ''/app/button/value'')
    (seqP (SetSource ''/app/buzzer/enable'' ''/app/button/value'')
    (seqP (HubPush ''/app/buzzer/percent'' (HubNumeric (Finite 100)))
    (seqP (SetSource ''/app/leds/mono/enable'' ''/app/vegasMode/led/0'')
    (seqP (SetSource ''/app/leds/tri/red/enable'' ''/app/vegasMode/led/1'')
    (seqP (SetSource ''/app/leds/tri/green/enable'' ''/app/vegasMode/led/2'')
    (seqP (SetSource ''/app/leds/tri/blue/enable'' ''/app/vegasMode/led/3'')
          (HubPush ''/app/vegasMode/continuous/enable'' (HubBool True)))))))))"

definition DisableInstantGratification :: "bool \<Rightarrow> (gratification, unit) prog" where
  "DisableInstantGratification relax_ok =
     seqP (RemoveSource ''/app/vegasMode/triggered/trigger'')
    (seqP (RemoveSource ''/app/buzzer/enable'')
    (seqP (HubPush ''/app/vegasMode/continuous/enable'' (HubBool False))
    (seqP (RemoveSource ''/app/leds/mono/enable'')
    (seqP (RemoveSource ''/app/leds/tri/red/enable'')
    (seqP (RemoveSource ''/app/leds/tri/green/enable'')
    (seqP (RemoveSource ''/app/leds/tri/blue/enable'')
          (whenP relax_ok (modifyP (\<lambda>s. s\<lparr>awake := False\<rparr>)))))))))"

definition HandleConfigChange :: "bool \<Rightarrow> bool \<Rightarrow> (gratification, unit) prog" where
  "HandleConfigChange setting lock_ok =
     (if setting then EnableInstantGratification lock_ok else DisableInstantGratification lock_ok)"

definition gratification_COMPONENT_INIT :: "bool \<Rightarrow> bool \<Rightarrow> bool \<Rightarrow> (gratification, unit) prog" where
  "gratification_COMPONENT_INIT handler_ok setting lock_ok =
     seqP (LE_ASSERT handler_ok) (whenP setting (EnableInstantGratification lock_ok))"

section \<open>Sensors (fileUtils.c, imu.c, lightSensor.c, button.c)\<close>

text \<open>
  The files by their paths, \<^theory_text>\<open>None\<close> when a file cannot be opened; the conversions of \<^verbatim>\<open>scanf\<close>, \<^theory_text>\<open>None\<close> when nothing is
  converted; and the rounding of the results of the arithmetic.
\<close>

record sensor_env =
  sensor_file :: "string \<Rightarrow> string option"
  scan_int :: "string \<Rightarrow> int option"
  scan_double :: "string \<Rightarrow> double option"
  rounded :: "rat \<Rightarrow> double"
  light_input :: "double option"

definition file_ReadInt :: "sensor_env \<Rightarrow> string \<Rightarrow> le_result + int" where
  "file_ReadInt env filePath = (case sensor_file env filePath of
     None \<Rightarrow> Inl LE_IO_ERROR
   | Some text \<Rightarrow> (case scan_int env text of None \<Rightarrow> Inl LE_FORMAT_ERROR | Some n \<Rightarrow> Inr n))"

definition file_ReadDouble :: "sensor_env \<Rightarrow> string \<Rightarrow> le_result + double" where
  "file_ReadDouble env filePath = (case sensor_file env filePath of
     None \<Rightarrow> Inl LE_IO_ERROR
   | Some text \<Rightarrow> (case scan_double env text of None \<Rightarrow> Inl LE_FORMAT_ERROR | Some d \<Rightarrow> Inr d))"

fun negative_d :: "double \<Rightarrow> bool" where
  "negative_d (Finite x) = (x < 0)"
| "negative_d (Infinity neg) = neg"
| "negative_d Nan = False"

fun mul_d :: "(rat \<Rightarrow> double) \<Rightarrow> double \<Rightarrow> double \<Rightarrow> double" where
  "mul_d rnd (Finite x) (Finite y) = rnd (x * y)"
| "mul_d rnd Nan y = Nan"
| "mul_d rnd x Nan = Nan"
| "mul_d rnd x y = (if x = Finite 0 \<or> y = Finite 0 then Nan else Infinity (negative_d x \<noteq> negative_d y))"

fun add_d :: "(rat \<Rightarrow> double) \<Rightarrow> double \<Rightarrow> double \<Rightarrow> double" where
  "add_d rnd (Finite x) (Finite y) = rnd (x + y)"
| "add_d rnd Nan y = Nan"
| "add_d rnd x Nan = Nan"
| "add_d rnd (Infinity a) (Infinity b) = (if a = b then Infinity a else Nan)"
| "add_d rnd (Infinity a) (Finite y) = Infinity a"
| "add_d rnd (Finite x) (Infinity b) = Infinity b"

fun div_1000 :: "(rat \<Rightarrow> double) \<Rightarrow> double \<Rightarrow> double" where
  "div_1000 rnd (Finite x) = rnd (x / 1000)"
| "div_1000 rnd d = d"

text \<open>The order of the files is that of the code: the scale first, and the first file that fails decides.\<close>

definition read_scaled :: "sensor_env \<Rightarrow> double \<Rightarrow> string \<Rightarrow> le_result + double" where
  "read_scaled env scaling path = map_sum id (\<lambda>raw. mul_d (rounded env) raw scaling) (file_ReadDouble env path)"

definition bind_sum :: "'e + 'a \<Rightarrow> ('a \<Rightarrow> 'e + 'b) \<Rightarrow> 'e + 'b" where
  "bind_sum r k = (case r of Inl e \<Rightarrow> Inl e | Inr a \<Rightarrow> k a)"

definition imu_ReadAccel :: "sensor_env \<Rightarrow> le_result + double \<times> double \<times> double" where
  "imu_ReadAccel env =
     bind_sum (file_ReadDouble env ''/driver/in_accel_scale'') (\<lambda>scaling.
     bind_sum (read_scaled env scaling ''/driver/in_accel_x_raw'') (\<lambda>x.
     bind_sum (read_scaled env scaling ''/driver/in_accel_y_raw'') (\<lambda>y.
     bind_sum (read_scaled env scaling ''/driver/in_accel_z_raw'') (\<lambda>z. Inr (x, y, z)))))"

definition imu_ReadGyro :: "sensor_env \<Rightarrow> le_result + double \<times> double \<times> double" where
  "imu_ReadGyro env =
     bind_sum (file_ReadDouble env ''/driver/in_anglvel_scale'') (\<lambda>scaling.
     bind_sum (read_scaled env scaling ''/driver/in_anglvel_x_raw'') (\<lambda>x.
     bind_sum (read_scaled env scaling ''/driver/in_anglvel_y_raw'') (\<lambda>y.
     bind_sum (read_scaled env scaling ''/driver/in_anglvel_z_raw'') (\<lambda>z. Inr (x, y, z)))))"

definition temperature_Read :: "sensor_env \<Rightarrow> le_result + double" where
  "temperature_Read env =
     bind_sum (file_ReadDouble env ''/driver/in_temp_scale'') (\<lambda>scaling.
     bind_sum (file_ReadDouble env ''/driver/in_temp_offset'') (\<lambda>offset.
     bind_sum (file_ReadDouble env ''/driver/in_temp_raw'') (\<lambda>raw.
       Inr (div_1000 (rounded env) (mul_d (rounded env) (add_d (rounded env) raw offset) scaling)))))"

datatype sensor_act =
    PushedJson nat string
  | PushedNumeric nat double
  | PushedBoolean string bool
  | MadeSensor string string
  | MadeInput string

type_synonym sensor_prog = "(sensor_act list, unit) prog"

definition done_act :: "sensor_act \<Rightarrow> sensor_prog" where
  "done_act a = modifyP (\<lambda>acts. acts @ [a])"

definition xyz_text :: "double \<times> double \<times> double \<Rightarrow> string" where
  "xyz_text v = (case v of (x, y, z) \<Rightarrow>
     CHR ''{'' # CHR 0x22 # ''x'' @ CHR 0x22 # '':'' @ fmt_lf x @ '', '' @ CHR 0x22 # ''y'' @ CHR 0x22 # '':'' @ fmt_lf y @ '', '' @
     CHR 0x22 # ''z'' @ CHR 0x22 # '':'' @ fmt_lf z @ ''}'')"

definition push_xyz :: "nat \<Rightarrow> le_result + double \<times> double \<times> double \<Rightarrow> sensor_prog" where
  "push_xyz ref result = (case result of
     Inl _ \<Rightarrow> returnP ()
   | Inr v \<Rightarrow> if length (xyz_text v) \<ge> 256 then LE_FATAL else done_act (PushedJson ref (xyz_text v)))"

definition SampleGyro :: "sensor_env \<Rightarrow> nat \<Rightarrow> sensor_prog" where
  "SampleGyro env ref = push_xyz ref (imu_ReadGyro env)"

definition SampleAccel :: "sensor_env \<Rightarrow> nat \<Rightarrow> sensor_prog" where
  "SampleAccel env ref = push_xyz ref (imu_ReadAccel env)"

definition SampleTemp :: "sensor_env \<Rightarrow> nat \<Rightarrow> sensor_prog" where
  "SampleTemp env ref = (case temperature_Read env of Inl _ \<Rightarrow> returnP () | Inr t \<Rightarrow> done_act (PushedNumeric ref t))"

definition imu_COMPONENT_INIT :: sensor_prog where
  "imu_COMPONENT_INIT = seqP (done_act (MadeSensor ''gyro'' [])) (seqP (done_act (MadeSensor ''accel'' [])) (done_act (MadeSensor ''temp'' ''degC'')))"

text \<open>Ten thousand square centimetres a square metre and a thousand million nanowatts a watt.\<close>

definition light_Read :: "sensor_env \<Rightarrow> le_result + double" where
  "light_Read env = (case light_input env of
     None \<Rightarrow> Inl LE_FAULT
   | Some light \<Rightarrow> Inr (mul_d (rounded env) light (rounded env (10000 / 1000000000))))"

definition SampleLight :: "sensor_env \<Rightarrow> nat \<Rightarrow> sensor_prog" where
  "SampleLight env ref = (case light_Read env of Inl _ \<Rightarrow> returnP () | Inr sample \<Rightarrow> done_act (PushedNumeric ref sample))"

text \<open>Whether the local context, the device, the channel and its attribute are found.\<close>

definition light_COMPONENT_INIT :: "bool \<Rightarrow> bool \<Rightarrow> bool \<Rightarrow> bool \<Rightarrow> sensor_prog" where
  "light_COMPONENT_INIT context_ok device_ok channel_ok attribute_ok =
     seqP (LE_ASSERT context_ok)
       (if \<not> device_ok \<or> \<not> channel_ok \<or> \<not> attribute_ok then LE_FATAL else done_act (MadeSensor [] ''W/m2''))"

definition ButtonStateChangeHandler :: "bool \<Rightarrow> sensor_prog" where
  "ButtonStateChangeHandler isActive = done_act (PushedBoolean ''value'' isActive)"

definition button_COMPONENT_INIT :: "bool \<Rightarrow> bool \<Rightarrow> bool \<Rightarrow> bool \<Rightarrow> sensor_prog" where
  "button_COMPONENT_INIT input_ok handler_ok edge_ok create_ok =
     seqP (LE_ASSERT input_ok) (seqP (LE_ASSERT handler_ok) (seqP (LE_ASSERT edge_ok)
       (if create_ok then done_act (MadeInput ''value'') else LE_FATAL)))"

end
