(* ===== verification/Board_Leds.thy ===== *)
theory Board_Leds
  imports Mangoh_Prelude
begin

text \<open>
  The two drivers the boards register for their lights: the GPIO expander of the mangOH Yellow (\<^verbatim>\<open>expander.c\<close>)
  with a file in sysfs for each of six pins, and the LED of the mangOH Red (\<^verbatim>\<open>led.c\<close>).
\<close>

section \<open>Pins, files and the kernel's answers\<close>

datatype exp_pin = generic_led | pcm_sel | wl_reg_on | tri_led_blu | tri_led_red | tri_led_grn

fun pin_offset :: "exp_pin \<Rightarrow> int" where
  "pin_offset generic_led = 4"
| "pin_offset pcm_sel = 5"
| "pin_offset wl_reg_on = 1"
| "pin_offset tri_led_blu = 7"
| "pin_offset tri_led_red = 10"
| "pin_offset tri_led_grn = 15"

fun active_low :: "exp_pin \<Rightarrow> bool" where
  "active_low generic_led = True"
| "active_low pcm_sel = False"
| "active_low wl_reg_on = False"
| "active_low tri_led_blu = True"
| "active_low tri_led_red = True"
| "active_low tri_led_grn = True"

text \<open>
  The level of each GPIO, the GPIOs and files a driver holds, and the data of the two devices, which is null
  until it is set.  \<open>kstrtou8\<close> is the kernel's conversion of a decimal number, \<^theory_text>\<open>None\<close> when it fails.
\<close>

record expander_device =
  gpio_expander_base :: int
  vals :: "exp_pin \<Rightarrow> u8"

record led_device =
  val :: u8
  gpio :: int

record light_world =
  level :: "int \<Rightarrow> bool"
  taken :: "int set"
  files :: "exp_pin set"
  led_file :: bool
  exp_drvdata :: "expander_device option"
  led_drvdata :: "led_device option"

record light_env =
  kstrtou8 :: "string \<Rightarrow> u8 option"
  devm_kzalloc_ok :: bool
  request_ret :: "int \<Rightarrow> int"
  create_ret :: "exp_pin \<Rightarrow> int"
  led_create_ret :: int

type_synonym 'a light_prog = "(light_world, 'a) prog"

definition request_one :: "light_env \<Rightarrow> int \<Rightarrow> bool \<Rightarrow> unit light_prog" where
  "request_one env g high =
     (if request_ret env g \<noteq> 0 then throwP (request_ret env g)
      else modifyP (\<lambda>s. s\<lparr>taken := insert g (taken s), level := (level s)(g := high)\<rparr>))"

definition gpio_set_value_cansleep :: "int \<Rightarrow> bool \<Rightarrow> unit light_prog" where
  "gpio_set_value_cansleep g high = modifyP (\<lambda>s. s\<lparr>level := (level s)(g := high)\<rparr>)"

text \<open>\<^verbatim>\<open>sprintf(buf, "%d\n", v)\<close> for the values the files can have.\<close>

definition show_value :: "u8 \<Rightarrow> string" where
  "show_value v = (if v = 0 then ''0'' else ''1'') @ [CHR 0x0A]"

section \<open>The expander\<close>

definition with_expander :: "(expander_device \<Rightarrow> 'a light_prog) \<Rightarrow> 'a light_prog" where
  "with_expander f = bindP (getP exp_drvdata) (\<lambda>d. case d of
     None \<Rightarrow> haltP (Undefined ''driver data of the expander'') | Some exp \<Rightarrow> f exp)"

definition set_val :: "exp_pin \<Rightarrow> u8 \<Rightarrow> unit light_prog" where
  "set_val p v = modifyP (\<lambda>s. s\<lparr>exp_drvdata := map_option (\<lambda>exp. exp\<lparr>vals := (vals exp)(p := v)\<rparr>) (exp_drvdata s)\<rparr>)"

definition pin_show :: "exp_pin \<Rightarrow> string light_prog" where
  "pin_show p = with_expander (\<lambda>exp. returnP (show_value (vals exp p)))"

definition pin_store :: "light_env \<Rightarrow> exp_pin \<Rightarrow> string \<Rightarrow> nat light_prog" where
  "pin_store env p buf = with_expander (\<lambda>exp.
     case kstrtou8 env buf of
       None \<Rightarrow> throwP (- EINVAL)
     | Some v \<Rightarrow>
         if v > 1 then throwP (- EINVAL)
         else seqP (set_val p v)
             (seqP (gpio_set_value_cansleep (gpio_expander_base exp + pin_offset p) (if active_low p then v = 0 else v \<noteq> 0))
                   (returnP (length buf))))"

definition gpio_initial_status :: "light_env \<Rightarrow> exp_pin \<Rightarrow> u8 \<Rightarrow> unit light_prog" where
  "gpio_initial_status env p output_level = with_expander (\<lambda>exp.
     seqP (request_one env (gpio_expander_base exp + pin_offset p) (output_level \<noteq> 0))
    (seqP (set_val p output_level)
          (if create_ret env p \<noteq> 0 then throwP (create_ret env p)
           else modifyP (\<lambda>s. s\<lparr>files := insert p (files s)\<rparr>))))"

definition gpio_final_status :: "exp_pin \<Rightarrow> bool \<Rightarrow> unit light_prog" where
  "gpio_final_status p output_level = with_expander (\<lambda>exp.
     seqP (modifyP (\<lambda>s. s\<lparr>files := files s - {p}\<rparr>))
          (gpio_set_value_cansleep (gpio_expander_base exp + pin_offset p) output_level))"

definition expander_probe :: "light_env \<Rightarrow> int option \<Rightarrow> unit light_prog" where
  "expander_probe env pdata = (case pdata of
     None \<Rightarrow> throwP (- EINVAL)
   | Some base \<Rightarrow>
       if \<not> devm_kzalloc_ok env then throwP (- ENOMEM)
       else seqP (modifyP (\<lambda>s. s\<lparr>exp_drvdata := Some \<lparr>gpio_expander_base = base, vals = (\<lambda>_. 0)\<rparr>\<rparr>))
           (seqP (gpio_initial_status env generic_led 1)
           (seqP (gpio_initial_status env pcm_sel 0)
           (seqP (gpio_initial_status env wl_reg_on 0)
           (seqP (gpio_initial_status env tri_led_blu 1)
           (seqP (gpio_initial_status env tri_led_red 1)
                 (gpio_initial_status env tri_led_grn 1)))))))"

definition expander_remove :: "unit light_prog" where
  "expander_remove =
     seqP (gpio_final_status generic_led False)
    (seqP (gpio_final_status pcm_sel False)
    (seqP (gpio_final_status wl_reg_on False)
    (seqP (gpio_final_status tri_led_blu False)
    (seqP (gpio_final_status tri_led_red False)
          (gpio_final_status tri_led_grn False)))))"

section \<open>The LED\<close>

definition with_led :: "(led_device \<Rightarrow> 'a light_prog) \<Rightarrow> 'a light_prog" where
  "with_led f = bindP (getP led_drvdata) (\<lambda>d. case d of
     None \<Rightarrow> haltP (Undefined ''driver data of the LED'') | Some led \<Rightarrow> f led)"

definition led_show :: "string light_prog" where
  "led_show = with_led (\<lambda>led. returnP (show_value (val led)))"

definition led_store :: "light_env \<Rightarrow> string \<Rightarrow> nat light_prog" where
  "led_store env buf = with_led (\<lambda>led.
     case kstrtou8 env buf of
       None \<Rightarrow> throwP (- EINVAL)
     | Some v \<Rightarrow>
         if v > 1 then throwP (- EINVAL)
         else seqP (gpio_set_value_cansleep (gpio led) (v \<noteq> 0))
             (seqP (modifyP (\<lambda>s. s\<lparr>led_drvdata := Some (led\<lparr>val := v\<rparr>)\<rparr>)) (returnP (length buf))))"

definition led_probe :: "light_env \<Rightarrow> int option \<Rightarrow> unit light_prog" where
  "led_probe env pdata = (case pdata of
     None \<Rightarrow> throwP (- EINVAL)
   | Some g \<Rightarrow>
       if \<not> devm_kzalloc_ok env then throwP (- ENOMEM)
       else seqP (request_one env g False)
           (seqP (if led_create_ret env \<noteq> 0 then throwP (led_create_ret env) else modifyP (\<lambda>s. s\<lparr>led_file := True\<rparr>))
                 (modifyP (\<lambda>s. s\<lparr>led_drvdata := Some \<lparr>val = 0, gpio = g\<rparr>\<rparr>))))"

definition led_remove :: "unit light_prog" where
  "led_remove = with_led (\<lambda>led.
     seqP (modifyP (\<lambda>s. s\<lparr>led_file := False\<rparr>)) (gpio_set_value_cansleep (gpio led) False))"

section \<open>Properties\<close>

text \<open>A pin is in step with its file when the light, or the signal, is on exactly if the file says 1.\<close>

definition in_step :: "exp_pin \<Rightarrow> light_world \<Rightarrow> bool" where
  "in_step p s \<longleftrightarrow> (case exp_drvdata s of None \<Rightarrow> False
   | Some exp \<Rightarrow> level s (gpio_expander_base exp + pin_offset p) = (if active_low p then vals exp p = 0 else vals exp p \<noteq> 0))"

text \<open>What the documentation of the kernel says of \<^verbatim>\<open>kstrtou8\<close>: a newline behind the number is accepted.\<close>

definition reads_digits :: "light_env \<Rightarrow> bool" where
  "reads_digits env \<longleftrightarrow> kstrtou8 env (show_value 0) = Some 0 \<and> kstrtou8 env (show_value 1) = Some 1"

lemma pin_offset_inj: "pin_offset p = pin_offset q \<longleftrightarrow> p = q"
  by (cases p; cases q) simp_all

lemma wp_with_expander [wp_rules]:
  "wp (with_expander f) Q s = (case exp_drvdata s of None \<Rightarrow> Q (Halt (Undefined ''driver data of the expander'')) s | Some e \<Rightarrow> wp (f e) Q s)"
  by (simp add: with_expander_def wp_rules split: option.split)

lemmas light_defs = pin_show_def pin_store_def set_val_def gpio_set_value_cansleep_def request_one_def
  gpio_initial_status_def gpio_final_status_def wp_rules


lemma all_pins: "(\<forall>p. P p) \<longleftrightarrow> P generic_led \<and> P pcm_sel \<and> P wl_reg_on \<and> P tri_led_blu \<and> P tri_led_red \<and> P tri_led_grn"
  by (metis exp_pin.exhaust)

lemma expander_probe_ok:
  assumes ok: "devm_kzalloc_ok env" "\<And>g. request_ret env g = 0" "\<And>p. create_ret env p = 0"
  shows "\<exists>s1 e. expander_probe env (Some base) s = Some (Ok (), s1) \<and> exp_drvdata s1 = Some e \<and> gpio_expander_base e = base \<and>
    (\<forall>p. vals e p = (if active_low p then 1 else 0) \<and> level s1 (base + pin_offset p) = active_low p)"
proof -
  have "wp (expander_probe env (Some base)) (\<lambda>r s1. r = Ok () \<and> (\<exists>e. exp_drvdata s1 = Some e \<and> gpio_expander_base e = base \<and>
      (\<forall>p. vals e p = (if active_low p then 1 else 0) \<and> level s1 (base + pin_offset p) = active_low p))) s"
    by (simp add: expander_probe_def ok light_defs all_pins)
  then show ?thesis by (auto simp: wp_iff)
qed

lemma expander_remove_ok:
  assumes "exp_drvdata s = Some e"
  shows "\<exists>s1. expander_remove s = Some (Ok (), s1) \<and> (\<forall>p. level s1 (gpio_expander_base e + pin_offset p) = False)"
proof -
  have "wp expander_remove (\<lambda>r s1. r = Ok () \<and> (\<forall>p. level s1 (gpio_expander_base e + pin_offset p) = False)) s"
    by (simp add: expander_remove_def assms light_defs all_pins)
  then show ?thesis by (auto simp: wp_iff)
qed

text \<open>The files of the lights of the mangOH Yellow start out of step with them: after binding, the file of each
  active-low light says 1 while the light is off, writing back what a file says turns exactly these lights
  on, and unbinding drives every pin low, which leaves the four lights on.\<close>

theorem expander_files_start_inverted:
  assumes ok: "devm_kzalloc_ok env" "\<And>g. request_ret env g = 0" "\<And>p. create_ret env p = 0" and digits: "reads_digits env"
  shows "\<exists>s1. expander_probe env (Some base) s = Some (Ok (), s1) \<and>
    (\<forall>p. (in_step p s1 \<longleftrightarrow> \<not> active_low p) \<and> level s1 (base + pin_offset p) = active_low p \<and>
       (\<exists>t n s2. pin_show p s1 = Some (Ok t, s1) \<and> pin_store env p t s1 = Some (Ok n, s2) \<and>
          level s2 (base + pin_offset p) = False)) \<and>
    (\<exists>s3. expander_remove s1 = Some (Ok (), s3) \<and> (\<forall>p. level s3 (base + pin_offset p) = False))"
proof -
  obtain s1 e where s1: "expander_probe env (Some base) s = Some (Ok (), s1)" "exp_drvdata s1 = Some e" "gpio_expander_base e = base"
    and pin: "\<And>p. vals e p = (if active_low p then 1 else 0)" "\<And>p. level s1 (base + pin_offset p) = active_low p"
    using expander_probe_ok [OF ok, of base s] by blast
  have "\<exists>t n s2. pin_show p s1 = Some (Ok t, s1) \<and> pin_store env p t s1 = Some (Ok n, s2) \<and> level s2 (base + pin_offset p) = False" for p
    using s1 pin digits
    by (simp add: pin_show_def pin_store_def with_expander_def reads_digits_def set_val_def gpio_set_value_cansleep_def returnP_def)
  moreover have "in_step p s1 \<longleftrightarrow> \<not> active_low p" for p
    using s1 pin by (simp add: in_step_def)
  ultimately show ?thesis
    using s1 pin expander_remove_ok [OF s1(2)] by auto
qed

section \<open>Closed instances\<close>

definition example_light_env :: light_env where
  "example_light_env = \<lparr>kstrtou8 = (\<lambda>b. if b = show_value 0 then Some 0 else if b = show_value 1 then Some 1 else if b = ''7'' then Some 7 else None),
     devm_kzalloc_ok = True, request_ret = (\<lambda>_. 0), create_ret = (\<lambda>_. 0), led_create_ret = 0\<rparr>"

definition dark :: light_world where
  "dark = \<lparr>level = (\<lambda>_. False), taken = {}, files = {}, led_file = False,
     exp_drvdata = Some \<lparr>gpio_expander_base = 100, vals = (\<lambda>_. 0)\<rparr>, led_drvdata = None\<rparr>"


theorem expander_files_start_inverted_witness:
  "\<exists>s1. expander_probe example_light_env (Some 100) dark = Some (Ok (), s1) \<and> \<not> in_step generic_led s1 \<and> in_step pcm_sel s1"
proof -
  have "devm_kzalloc_ok example_light_env" "request_ret example_light_env g = 0" "create_ret example_light_env p = 0"
    "reads_digits example_light_env" for g p
    by (simp_all add: example_light_env_def reads_digits_def show_value_def)
  from expander_files_start_inverted [OF this, of 100 dark] show ?thesis
    by (metis active_low.simps(1,2))
qed

end
