(* ===== verification/Welcome_State.thy ===== *)
theory Welcome_State
  imports Mangoh_Text
begin

text \<open>
  The command line of the Welcome application (\<^verbatim>\<open>apps/Welcome/components/yellowCommandLine\<close>): the data
  its modules share.  The static variables of all modules are one record; a function pointer is a
  constructor that names the function, so that a null pointer is \<^theory_text>\<open>None\<close>; what the modules print and
  send to the Data Hub, the config tree and the terminal is recorded in order.
\<close>

section \<open>Boolean states\<close>

datatype boolState_t = BOOL_UNKNOWN | BOOL_OFF | BOOL_ON

fun boolState_GetString :: "boolState_t \<Rightarrow> string" where
  "boolState_GetString BOOL_UNKNOWN = ''unknown''"
| "boolState_GetString BOOL_OFF = ''OFF''"
| "boolState_GetString BOOL_ON = ''ON''"

definition of_bool_state :: "bool \<Rightarrow> boolState_t" where
  "of_bool_state value = (if value then BOOL_ON else BOOL_OFF)"

section \<open>Screens, menus and modes (cmdLine.h, cmdLine.c)\<close>

text \<open>The static \<^verbatim>\<open>Screen_t\<close> objects of the modules, by module and name.\<close>

datatype screen = MainMenu | LedScreen | BuzzerScreen | PeriodScreen | PercentScreen | OctaveScreen

datatype input_mode = INPUT_MODE_MENU | INPUT_MODE_TEXT_ENTRY | INPUT_MODE_PASSWORD_ENTRY

text \<open>The functions that are menu selection call-backs and text entry handlers.\<close>

datatype selection =
    Fn_EnableOutOfBoxExperience | Fn_DisableOutOfBoxExperience
  | Fn_HandleLedsSelection | Fn_HandleBuzzerSelection | Fn_HandleOctaveSelection
  | Fn_ToggleGenericLed | Fn_ToggleRed | Fn_ToggleGreen | Fn_ToggleBlue
  | Fn_EnableVegasMode | Fn_DisableVegasMode | Fn_LedEnableInstantGratification
  | Fn_ActivateBuzzer | Fn_DeactivateBuzzer | Fn_EnterSubScreen
  | Fn_OctaveEnableInstantGratification | Fn_OctaveDisableInstantGratification

datatype text_handler = Fn_HandleInputPeriod | Fn_HandleInputPercent

record menu_entry =
  entry_text :: string
  selectionFunc :: "selection option"
  contextPtr :: "screen option"

abbreviation (input) MAX_MENU_OPTIONS :: nat where "MAX_MENU_OPTIONS \<equiv> 9"
abbreviation (input) sizeof_entry_text :: nat where "sizeof_entry_text \<equiv> 80"
abbreviation (input) sizeof_ErrorMsg :: nat where "sizeof_ErrorMsg \<equiv> 256"
abbreviation (input) sizeof_Prompt :: nat where "sizeof_Prompt \<equiv> 64"
abbreviation (input) sizeof_TextEntryBuffer :: nat where "sizeof_TextEntryBuffer \<equiv> 1024"

section \<open>What goes out\<close>

text \<open>
  A \<^verbatim>\<open>printf\<close> is the list of what it prints: text, ends of lines, and numbers with their digits behind
  the point.  The variables of the LED screen are named by the light they belong to.
\<close>

datatype out_item = S string | NL | F nat double

datatype led_var = Vegas | Generic | Red | Green | Blue

datatype number_var = PeriodVar | PercentVar

record termios =
  c_lflag :: u32
  vmin :: u8
  vtime :: u8
  veof :: char
  verase :: char

datatype ui_act =
    Printf "out_item list"
  | SetBooleanOverride string bool
  | PushBoolean string bool
  | PushNumeric string double
  | QuickSetBool string bool
  | QuickGetBool string
  | GetImei_call
  | GetSerial_call
  | AddLedHandler string led_var
  | AddEnableHandler string
  | AddNumberHandler string number_var
  | FdMonitor_Create
  | SetFl u32
  | TcSetAttr termios
  | LogError

text \<open>
  What the process is answered: the value of the config tree, which may depend on everything before, the
  identifiers of the module or the text of the error, the conversion \<^verbatim>\<open>strtod\<close> with the value, the
  number of characters converted and whether \<^verbatim>\<open>errno\<close> is set, and the terminal.
\<close>

record ui_env =
  cfg_bool :: "ui_act list \<Rightarrow> bool"
  imei :: "string + string"
  serial_number :: "string + string"
  LE_INFO_MAX_PSN_BYTES :: nat
  strtod :: "string \<Rightarrow> double \<times> nat \<times> bool"
  fcntl_getfl :: "u32 option"
  fcntl_setfl_ok :: bool
  tcgetattr :: "termios option"
  tcsetattr_ok :: bool

section \<open>The state of the process\<close>

record ui =
  EndOfFileChar :: char
  EraseChar :: char
  CurrentScreenPtr :: "screen option"
  InputProcessingMode :: input_mode
  ErrorMsg :: string
  EscapeTimer :: bool
  MenuEntryList :: "menu_entry list"
  NumMenuOptions :: nat
  Prompt :: string
  TextEntryHandlerFunc :: "text_handler option"
  TextEntryBuffer :: "char list"
  led_state :: "led_var \<Rightarrow> boolState_t"
  EnableState :: boolState_t
  Period :: double
  Percent :: double
  trace :: "ui_act list"

type_synonym 'a ui_prog = "(ui, 'a) prog"

text \<open>The values of the static variables when the process starts.\<close>

definition ui_start :: ui where
  "ui_start = \<lparr>EndOfFileChar = CHR 0x04, EraseChar = CHR 0x7F, CurrentScreenPtr = None,
     InputProcessingMode = INPUT_MODE_MENU, ErrorMsg = [], EscapeTimer = False,
     MenuEntryList = replicate MAX_MENU_OPTIONS \<lparr>entry_text = [], selectionFunc = None, contextPtr = None\<rparr>,
     NumMenuOptions = 0, Prompt = [], TextEntryHandlerFunc = None,
     TextEntryBuffer = replicate sizeof_TextEntryBuffer (CHR 0x00),
     led_state = (\<lambda>_. BOOL_UNKNOWN), EnableState = BOOL_UNKNOWN, Period = Finite 0, Percent = Finite 0,
     trace = []\<rparr>"

definition emit_ui :: "ui_act \<Rightarrow> unit ui_prog" where
  "emit_ui a = modifyP (\<lambda>s. s\<lparr>trace := trace s @ [a]\<rparr>)"

definition printf :: "out_item list \<Rightarrow> unit ui_prog" where
  "printf items = emit_ui (Printf items)"

section \<open>Strings in arrays\<close>

definition strnlen :: "char list \<Rightarrow> nat" where
  "strnlen b = length (takeWhile (\<lambda>c. c \<noteq> CHR 0x00) b)"

definition c_string :: "char list \<Rightarrow> string" where
  "c_string b = takeWhile (\<lambda>c. c \<noteq> CHR 0x00) b"

text \<open>\<^verbatim>\<open>isprint\<close> in the C locale, which the process does not change.\<close>

definition isprint :: "char \<Rightarrow> bool" where
  "isprint c \<longleftrightarrow> 32 \<le> (of_char c :: nat) \<and> (of_char c :: nat) \<le> 126"

end
