(* ===== verification/Welcome_Cmdline.thy ===== *)
theory Welcome_Cmdline
  imports Welcome_State
begin

text \<open>
  The part of \<^verbatim>\<open>cmdLine.c\<close> that the screens call while they draw themselves, the control of the instant
  gratification features (\<^verbatim>\<open>instantGratification.c\<close>), and the draw functions of the six screens.
\<close>

section \<open>The interface for the screens (cmdLine.c)\<close>

definition cmdLine_GetCurrentScreen :: "screen option ui_prog" where
  "cmdLine_GetCurrentScreen = getP CurrentScreenPtr"

definition cmdLine_Exit :: "'a ui_prog" where
  "cmdLine_Exit = seqP (printf [S ''Goodbye.'', NL]) (haltP (Exit 0))"

definition cmdLine_MenuMode :: "unit ui_prog" where
  "cmdLine_MenuMode = modifyP (\<lambda>s. s\<lparr>InputProcessingMode := INPUT_MODE_MENU, NumMenuOptions := 0\<rparr>)"

definition cmdLine_AddMenuEntry :: "string \<Rightarrow> selection \<Rightarrow> screen option \<Rightarrow> unit ui_prog" where
  "cmdLine_AddMenuEntry txt f ctx =
     bindP (getP NumMenuOptions) (\<lambda>n.
     if n \<ge> MAX_MENU_OPTIONS then haltP (Bug ''assertion failed: NumMenuOptions < MAX_MENU_OPTIONS'')
     else modifyP (\<lambda>s. s\<lparr>
        MenuEntryList := (MenuEntryList s)[n := \<lparr>entry_text = take (sizeof_entry_text - 1) txt,
          selectionFunc = Some f, contextPtr = ctx\<rparr>],
        NumMenuOptions := n + 1\<rparr>))"

definition cmdLine_TextEntryMode :: "string \<Rightarrow> text_handler \<Rightarrow> unit ui_prog" where
  "cmdLine_TextEntryMode promptStr h = modifyP (\<lambda>s. s\<lparr>
     InputProcessingMode := INPUT_MODE_TEXT_ENTRY, Prompt := take (sizeof_Prompt - 1) promptStr,
     TextEntryHandlerFunc := Some h,
     TextEntryBuffer := replicate sizeof_TextEntryBuffer (CHR 0x00)\<rparr>)"

definition cmdLine_SetErrorMsg :: "string \<Rightarrow> unit ui_prog" where
  "cmdLine_SetErrorMsg msg =
     modifyP (\<lambda>s. s\<lparr>ErrorMsg := take (sizeof_ErrorMsg - 1) (''** ERROR: '' @ msg)\<rparr>)"

definition cmdLine_ClearErrorMsg :: "unit ui_prog" where
  "cmdLine_ClearErrorMsg = modifyP (\<lambda>s. s\<lparr>ErrorMsg := []\<rparr>)"

definition DrawMenu :: "unit ui_prog" where
  "DrawMenu =
     seqP (printf [NL, S ''Please make a selection from the following:'', NL, NL])
    (seqP (bindP (getP NumMenuOptions) (\<lambda>n. foreachP (\<lambda>i.
        bindP (getP (\<lambda>s. entry_text (MenuEntryList s ! i))) (\<lambda>t.
        printf [S (''  '' @ [char_of (48 + (i + 1))] @ ''. ''), S t, NL])) [0..<n]))
    (printf [NL, S ''or press ESC to leave the screen or Q to quit.'', NL]))"

definition DrawErrorMsg :: "unit ui_prog" where
  "DrawErrorMsg = bindP (getP ErrorMsg) (\<lambda>m. whenP (m \<noteq> []) (printf [NL, S m, NL]))"

section \<open>Instant gratification (instantGratification.c)\<close>

abbreviation (input) ConfigPath :: string where "ConfigPath \<equiv> ''enableInstantGrat''"

definition instantGratification_Enable :: "unit ui_prog" where
  "instantGratification_Enable = emit_ui (QuickSetBool ConfigPath True)"

definition instantGratification_Disable :: "unit ui_prog" where
  "instantGratification_Disable = emit_ui (QuickSetBool ConfigPath False)"

definition instantGratification_IsEnabled :: "ui_env \<Rightarrow> bool ui_prog" where
  "instantGratification_IsEnabled env =
     bindP (getP (\<lambda>s. cfg_bool env (trace s))) (\<lambda>b.
     seqP (emit_ui (QuickGetBool ConfigPath)) (returnP b))"

section \<open>Drawing the main menu (mainMenu.c)\<close>

definition DrawMainMenu :: "ui_env \<Rightarrow> unit ui_prog" where
  "DrawMainMenu env =
     seqP (printf [S ''Welcome to mangOH Yellow!'', NL])
    (seqP cmdLine_MenuMode
    (seqP (bindP (instantGratification_IsEnabled env) (\<lambda>b.
        if b then cmdLine_AddMenuEntry ''DISABLE out-of-box experience'' Fn_DisableOutOfBoxExperience None
        else cmdLine_AddMenuEntry ''ENABLE out-of-box experience'' Fn_EnableOutOfBoxExperience None))
    (seqP (cmdLine_AddMenuEntry ''LEDs'' Fn_HandleLedsSelection None)
    (seqP (cmdLine_AddMenuEntry ''Buzzer'' Fn_HandleBuzzerSelection None)
          (cmdLine_AddMenuEntry ''Octave'' Fn_HandleOctaveSelection None)))))"

section \<open>Drawing the LED screen (ledScreen.c)\<close>

fun vegasEnableString :: "boolState_t \<Rightarrow> string" where
  "vegasEnableString BOOL_OFF = ''DISABLED''"
| "vegasEnableString BOOL_ON = ''ENABLED''"
| "vegasEnableString BOOL_UNKNOWN = ''in an unknown state''"

definition ledScreen_DrawVegas :: "boolState_t \<Rightarrow> unit ui_prog" where
  "ledScreen_DrawVegas v =
     seqP (printf [S ''Continuous Vegas Mode is '', S (vegasEnableString v), NL])
     (if v \<noteq> BOOL_ON then
        seqP (printf [NL, S ''The LEDs are now under manual control.'', NL])
             (cmdLine_AddMenuEntry ''ENABLE Continuous Vegas Mode'' Fn_EnableVegasMode None)
      else
        seqP (printf [NL, S ''The LEDs are being automatically controlled by'', NL,
                      S ''Continuous Vegas Mode.  Manual control of the LEDs'', NL,
                      S ''using the menu below will disable Continuous Vegas'', NL, S ''Mode.'', NL])
             (cmdLine_AddMenuEntry ''DISABLE Continuous Vegas Mode'' Fn_DisableVegasMode None))"

definition ledScreen_Draw :: "ui_env \<Rightarrow> unit ui_prog" where
  "ledScreen_Draw env =
     seqP cmdLine_MenuMode
    (seqP (cmdLine_AddMenuEntry ''Toggle Generic LED'' Fn_ToggleGenericLed None)
    (seqP (cmdLine_AddMenuEntry ''Toggle Tri-color LED's Red'' Fn_ToggleRed None)
    (seqP (cmdLine_AddMenuEntry ''Toggle Tri-color LED's Green'' Fn_ToggleGreen None)
    (seqP (cmdLine_AddMenuEntry ''Toggle Tri-color LED's Blue'' Fn_ToggleBlue None)
    (seqP (bindP (instantGratification_IsEnabled env) (\<lambda>b.
        if b then bindP (getP (\<lambda>s. led_state s Vegas)) ledScreen_DrawVegas
        else
          seqP (printf [S ''NOTE: Interactive out-of-box experience features are DISABLED.'', NL,
                        S ''      Vegas mode will not work until these features are re-enabled.'', NL,
                        S ''      Manual control is still available, however.'', NL])
               (cmdLine_AddMenuEntry ''ENABLE interactive out-of-box experience features''
                  Fn_LedEnableInstantGratification None)))
    (bindP (getP led_state) (\<lambda>l.
     printf [NL, S ''Current state of LEDs:'', NL,
             S ''   Generic Green:   '', S (boolState_GetString (l Generic)), NL,
             S ''   Tri-color Red:   '', S (boolState_GetString (l Red)), NL,
             S ''   Tri-color Green: '', S (boolState_GetString (l Green)), NL,
             S ''   Tri-color Blue:  '', S (boolState_GetString (l Blue)), NL])))))))"

section \<open>Drawing the buzzer screens (buzzerScreen.c)\<close>

definition DrawMain :: "unit ui_prog" where
  "DrawMain =
     seqP (bindP (getP (\<lambda>s. (EnableState s, Period s, Percent s))) (\<lambda>(e, p, q).
        printf [S ''Current state of the buzzer: '', S (boolState_GetString e), NL, NL,
                S ''   Period:     '', F 3 p, S '' seconds'', NL,
                S ''   Duty Cycle: '', F 6 q, S '' %'', NL]))
    (seqP cmdLine_MenuMode
    (seqP (bindP (getP EnableState) (\<lambda>e.
        if e = BOOL_OFF then cmdLine_AddMenuEntry ''ACTIVATE the buzzer'' Fn_ActivateBuzzer None
        else cmdLine_AddMenuEntry ''DEACTIVATE the buzzer'' Fn_DeactivateBuzzer None))
    (seqP (cmdLine_AddMenuEntry ''Set the period'' Fn_EnterSubScreen (Some PeriodScreen))
          (cmdLine_AddMenuEntry ''Set the duty cycle percentage'' Fn_EnterSubScreen (Some PercentScreen)))))"

definition DrawPeriod :: "unit ui_prog" where
  "DrawPeriod = bindP (getP Period) (\<lambda>p.
     printf [S ''Current buzzer cycle period: '', F 3 p, S '' seconds'', NL, NL,
             S ''Please enter the new buzzer duty cycle period, in seconds.'', NL])"

definition DrawPercent :: "unit ui_prog" where
  "DrawPercent = bindP (getP Percent) (\<lambda>p.
     printf [S ''Current duty cycle: '', F 6 p, S '' %'', NL, NL,
             S ''Please enter the new buzzer duty cycle percentage (a number from 0 - 100).'', NL])"

section \<open>Drawing the Octave screen (octaveScreen.c)\<close>

text \<open>
  Both identifiers are fetched into an array of 32 characters (\<^verbatim>\<open>LE_INFO_MAX_PSN_BYTES\<close> for the serial
  number); a failure puts the text of the error there instead.
\<close>

definition fetched :: "nat \<Rightarrow> string + string \<Rightarrow> string" where
  "fetched room r = (case r of Inr v \<Rightarrow> take (room - 1) v | Inl e \<Rightarrow> take (room - 1) (''ERROR ('' @ e @ '')''))"

definition GetImei :: "ui_env \<Rightarrow> string ui_prog" where
  "GetImei env = seqP (emit_ui GetImei_call) (returnP (fetched 32 (imei env)))"

definition GetSerialNumber :: "ui_env \<Rightarrow> string ui_prog" where
  "GetSerialNumber env = seqP (emit_ui GetSerial_call) (returnP (fetched (LE_INFO_MAX_PSN_BYTES env) (serial_number env)))"

definition octaveScreen_Draw :: "ui_env \<Rightarrow> unit ui_prog" where
  "octaveScreen_Draw env =
     seqP (bindP (GetImei env) (\<lambda>i. bindP (GetSerialNumber env) (\<lambda>sn.
        printf [S ''You may need the following information to register'', NL,
                S ''your device with the Sierra Wireless Octave IoT data'', NL,
                S ''orchestration service:'', NL, NL, S ''   IMEI: '', S i, NL, S ''     SN: '', S sn, NL, NL])))
    (bindP (instantGratification_IsEnabled env) (\<lambda>b.
     if b then
       seqP (printf [S ''Interactive out-of-box experience is ENABLED.'', NL, NL,
                     S ''To improve your experience with Octave, you may wish to'', NL,
                     S ''disable the interactive mangOH Yellow out-of-box'', NL,
                     S ''experience features (blinking lights and button control).'', NL])
      (seqP cmdLine_MenuMode
            (cmdLine_AddMenuEntry ''DISABLE out-of-box experience'' Fn_OctaveDisableInstantGratification None))
     else
       seqP (printf [S ''Interactive out-of-box experience is DISABLED.'', NL, NL,
                     S ''The interactive mangOH Yellow out-of-box experience'', NL,
                     S ''features (blinking lights and button control) are'', NL,
                     S ''currently disabled. Press 1 to re-enable these features.'', NL])
      (seqP cmdLine_MenuMode
            (cmdLine_AddMenuEntry ''ENABLE out-of-box experience'' Fn_OctaveEnableInstantGratification None))))"

end
