(* ===== verification/Welcome_Screens.thy ===== *)
theory Welcome_Screens
  imports Welcome_Cmdline
begin

text \<open>
  The rest of the Welcome command line: refreshing and changing the screen, the functions behind the menu
  entries, the text entries, the ESC key, the handlers of the Data Hub, the input handler and the
  initialisation.  The last section runs the process: a step relation over the events the Legato event
  loop delivers.
\<close>

section \<open>The screen objects and the current screen (cmdLine.c)\<close>

fun title :: "screen \<Rightarrow> string" where
  "title MainMenu = ''MAIN MENU''"
| "title LedScreen = ''LED Control''"
| "title BuzzerScreen = ''Buzzer Control''"
| "title PeriodScreen = ''Buzzer Period Configuration''"
| "title PercentScreen = ''Buzzer Duty Cycle Percentage Configuration''"
| "title OctaveScreen = ''Octave(tm)''"

fun drawFunc :: "ui_env \<Rightarrow> screen \<Rightarrow> unit ui_prog" where
  "drawFunc env MainMenu = DrawMainMenu env"
| "drawFunc env LedScreen = ledScreen_Draw env"
| "drawFunc env BuzzerScreen = DrawMain"
| "drawFunc env PeriodScreen = DrawPeriod"
| "drawFunc env PercentScreen = DrawPercent"
| "drawFunc env OctaveScreen = octaveScreen_Draw env"

definition DrawPrompt :: "unit ui_prog" where
  "DrawPrompt = bindP (getP (\<lambda>s. (Prompt s, c_string (TextEntryBuffer s)))) (\<lambda>(p, t).
     printf [NL, S ''Press ENTER to submit your '', S p, S '' or'', NL,
             S ''press ESC to return to the previous screen.'', NL, NL, S p, S ''> '', S t])"

definition DrawMode :: "unit ui_prog" where
  "DrawMode = bindP (getP InputProcessingMode) (\<lambda>m. case m of
     INPUT_MODE_MENU \<Rightarrow> seqP DrawErrorMsg DrawMenu
   | INPUT_MODE_TEXT_ENTRY \<Rightarrow> seqP DrawErrorMsg DrawPrompt
   | INPUT_MODE_PASSWORD_ENTRY \<Rightarrow> seqP DrawErrorMsg DrawPrompt)"

definition cmdLine_Refresh :: "ui_env \<Rightarrow> unit ui_prog" where
  "cmdLine_Refresh env =
     bindP (getP CurrentScreenPtr) (\<lambda>p. case p of
       None \<Rightarrow> haltP (Undefined ''title of a null screen'')
     | Some sc \<Rightarrow>
         seqP (printf [NL, NL, NL, S ''==== '', S (title sc), S '' ===='', NL, NL])
        (seqP (drawFunc env sc) DrawMode))"

definition cmdLine_SetCurrentScreen :: "ui_env \<Rightarrow> screen option \<Rightarrow> unit ui_prog" where
  "cmdLine_SetCurrentScreen env sc =
     seqP (modifyP (\<lambda>s. s\<lparr>CurrentScreenPtr := sc\<rparr>)) (seqP cmdLine_ClearErrorMsg (cmdLine_Refresh env))"

definition mainMenu_Enter :: "ui_env \<Rightarrow> unit ui_prog" where
  "mainMenu_Enter env = cmdLine_SetCurrentScreen env (Some MainMenu)"

definition ledScreen_Enter :: "ui_env \<Rightarrow> unit ui_prog" where
  "ledScreen_Enter env = cmdLine_SetCurrentScreen env (Some LedScreen)"

definition buzzerScreen_Enter :: "ui_env \<Rightarrow> unit ui_prog" where
  "buzzerScreen_Enter env = cmdLine_SetCurrentScreen env (Some BuzzerScreen)"

definition octaveScreen_Enter :: "ui_env \<Rightarrow> unit ui_prog" where
  "octaveScreen_Enter env = cmdLine_SetCurrentScreen env (Some OctaveScreen)"

section \<open>The functions behind the menu entries\<close>

definition HandleLedsSelection :: "ui_env \<Rightarrow> unit ui_prog" where
  "HandleLedsSelection env = ledScreen_Enter env"

definition HandleBuzzerSelection :: "ui_env \<Rightarrow> unit ui_prog" where
  "HandleBuzzerSelection env = buzzerScreen_Enter env"

definition HandleOctaveSelection :: "ui_env \<Rightarrow> unit ui_prog" where
  "HandleOctaveSelection env = octaveScreen_Enter env"

definition EnableOutOfBoxExperience :: "ui_env \<Rightarrow> unit ui_prog" where
  "EnableOutOfBoxExperience env = seqP instantGratification_Enable (cmdLine_Refresh env)"

definition DisableOutOfBoxExperience :: "ui_env \<Rightarrow> unit ui_prog" where
  "DisableOutOfBoxExperience env = seqP instantGratification_Disable (cmdLine_Refresh env)"

definition EnableVegasMode :: "unit ui_prog" where
  "EnableVegasMode = emit_ui (SetBooleanOverride ''/app/vegasMode/continuous/enable'' True)"

definition DisableVegasMode :: "unit ui_prog" where
  "DisableVegasMode = emit_ui (SetBooleanOverride ''/app/vegasMode/continuous/enable'' False)"

definition ToggleGenericLed :: "unit ui_prog" where
  "ToggleGenericLed = seqP DisableVegasMode (bindP (getP (\<lambda>s. led_state s Generic)) (\<lambda>b.
     emit_ui (PushBoolean ''/app/leds/mono/enable'' (b \<noteq> BOOL_ON))))"

definition ToggleRed :: "unit ui_prog" where
  "ToggleRed = seqP DisableVegasMode (bindP (getP (\<lambda>s. led_state s Red)) (\<lambda>b.
     emit_ui (PushBoolean ''/app/leds/tri/red/enable'' (b \<noteq> BOOL_ON))))"

definition ToggleGreen :: "unit ui_prog" where
  "ToggleGreen = seqP DisableVegasMode (bindP (getP (\<lambda>s. led_state s Green)) (\<lambda>b.
     emit_ui (PushBoolean ''/app/leds/tri/green/enable'' (b \<noteq> BOOL_ON))))"

definition ToggleBlue :: "unit ui_prog" where
  "ToggleBlue = seqP DisableVegasMode (bindP (getP (\<lambda>s. led_state s Blue)) (\<lambda>b.
     emit_ui (PushBoolean ''/app/leds/tri/blue/enable'' (b \<noteq> BOOL_ON))))"

definition ledScreen_EnableInstantGratification :: "ui_env \<Rightarrow> unit ui_prog" where
  "ledScreen_EnableInstantGratification env = seqP instantGratification_Enable (cmdLine_Refresh env)"

definition ActivateBuzzer :: "unit ui_prog" where
  "ActivateBuzzer = emit_ui (PushBoolean ''/app/buzzer/enable'' True)"

definition DeactivateBuzzer :: "unit ui_prog" where
  "DeactivateBuzzer = emit_ui (PushBoolean ''/app/buzzer/enable'' False)"

definition EnterSubScreen :: "ui_env \<Rightarrow> screen option \<Rightarrow> unit ui_prog" where
  "EnterSubScreen env ctx =
     seqP (if ctx = Some PeriodScreen then cmdLine_TextEntryMode ''buzzer period'' Fn_HandleInputPeriod
           else if ctx = Some PercentScreen then
             cmdLine_TextEntryMode ''buzzer duty cycle percentage'' Fn_HandleInputPercent
           else returnP ())
          (cmdLine_SetCurrentScreen env ctx)"

definition octaveScreen_EnableInstantGratification :: "ui_env \<Rightarrow> unit ui_prog" where
  "octaveScreen_EnableInstantGratification env = seqP instantGratification_Enable (cmdLine_Refresh env)"

definition octaveScreen_DisableInstantGratification :: "ui_env \<Rightarrow> unit ui_prog" where
  "octaveScreen_DisableInstantGratification env = seqP instantGratification_Disable (cmdLine_Refresh env)"

fun call_selection :: "ui_env \<Rightarrow> selection \<Rightarrow> screen option \<Rightarrow> unit ui_prog" where
  "call_selection env Fn_EnableOutOfBoxExperience ctx = EnableOutOfBoxExperience env"
| "call_selection env Fn_DisableOutOfBoxExperience ctx = DisableOutOfBoxExperience env"
| "call_selection env Fn_HandleLedsSelection ctx = HandleLedsSelection env"
| "call_selection env Fn_HandleBuzzerSelection ctx = HandleBuzzerSelection env"
| "call_selection env Fn_HandleOctaveSelection ctx = HandleOctaveSelection env"
| "call_selection env Fn_ToggleGenericLed ctx = ToggleGenericLed"
| "call_selection env Fn_ToggleRed ctx = ToggleRed"
| "call_selection env Fn_ToggleGreen ctx = ToggleGreen"
| "call_selection env Fn_ToggleBlue ctx = ToggleBlue"
| "call_selection env Fn_EnableVegasMode ctx = EnableVegasMode"
| "call_selection env Fn_DisableVegasMode ctx = DisableVegasMode"
| "call_selection env Fn_LedEnableInstantGratification ctx = ledScreen_EnableInstantGratification env"
| "call_selection env Fn_ActivateBuzzer ctx = ActivateBuzzer"
| "call_selection env Fn_DeactivateBuzzer ctx = DeactivateBuzzer"
| "call_selection env Fn_EnterSubScreen ctx = EnterSubScreen env ctx"
| "call_selection env Fn_OctaveEnableInstantGratification ctx = octaveScreen_EnableInstantGratification env"
| "call_selection env Fn_OctaveDisableInstantGratification ctx = octaveScreen_DisableInstantGratification env"

section \<open>Leaving a screen\<close>

definition LeaveSubScreen :: "ui_env \<Rightarrow> unit ui_prog" where
  "LeaveSubScreen env = cmdLine_SetCurrentScreen env (Some BuzzerScreen)"

fun leaveFunc :: "ui_env \<Rightarrow> screen \<Rightarrow> unit ui_prog" where
  "leaveFunc env MainMenu = cmdLine_Exit"
| "leaveFunc env LedScreen = mainMenu_Enter env"
| "leaveFunc env BuzzerScreen = mainMenu_Enter env"
| "leaveFunc env PeriodScreen = LeaveSubScreen env"
| "leaveFunc env PercentScreen = LeaveSubScreen env"
| "leaveFunc env OctaveScreen = mainMenu_Enter env"

definition HandleEscapeTimerExpiry :: "ui_env \<Rightarrow> unit ui_prog" where
  "HandleEscapeTimerExpiry env = bindP (getP CurrentScreenPtr) (\<lambda>p. case p of
     None \<Rightarrow> haltP (Undefined ''leave function of a null screen'')
   | Some sc \<Rightarrow> leaveFunc env sc)"

section \<open>Text entries (buzzerScreen.c)\<close>

definition retry :: "ui_env \<Rightarrow> string \<Rightarrow> unit ui_prog" where
  "retry env msg = seqP (cmdLine_SetErrorMsg msg) (cmdLine_Refresh env)"

text \<open>The double nearest to 0.001.\<close>

definition one_millisecond :: double where
  "one_millisecond = Finite (1152921504606847 / 1152921504606846976)"

definition HandleInputPeriod :: "ui_env \<Rightarrow> string \<Rightarrow> unit ui_prog" where
  "HandleInputPeriod env inputStr = (case strtod env inputStr of (period, converted, err) \<Rightarrow>
     if err then retry env ''Number entered is out of range (too big or too small).''
     else if converted < length inputStr then retry env ''Invalid characters in number entered.''
     else if converted = 0 then LeaveSubScreen env
     else if less_d period one_millisecond then retry env ''Period entered is less than 1 ms.''
     else seqP (emit_ui (PushNumeric ''/app/buzzer/period'' period)) (LeaveSubScreen env))"

definition HandleInputPercent :: "ui_env \<Rightarrow> string \<Rightarrow> unit ui_prog" where
  "HandleInputPercent env inputStr = (case strtod env inputStr of (percent, converted, err) \<Rightarrow>
     if err then retry env ''Number entered is out of range (too big or too small).''
     else if converted < length inputStr then retry env ''Invalid characters in number entered.''
     else if converted = 0 then LeaveSubScreen env
     else if less_d (Finite 100) percent then retry env ''Number entered is greater than 100%.''
     else if less_d percent (Finite 0) then retry env ''Number entered is less than 0%.''
     else seqP (emit_ui (PushNumeric ''/app/buzzer/percent'' percent)) (LeaveSubScreen env))"

fun call_text_handler :: "ui_env \<Rightarrow> text_handler \<Rightarrow> string \<Rightarrow> unit ui_prog" where
  "call_text_handler env Fn_HandleInputPeriod txt = HandleInputPeriod env txt"
| "call_text_handler env Fn_HandleInputPercent txt = HandleInputPercent env txt"

section \<open>Input (cmdLine.c)\<close>

definition HandleMenuInput :: "ui_env \<Rightarrow> char \<Rightarrow> unit ui_prog" where
  "HandleMenuInput env input =
     bindP (getP NumMenuOptions) (\<lambda>n.
     let c = (of_char input :: nat); highestValidOption = 48 + n in
     if input = CHR ''q'' \<or> input = CHR ''Q'' then cmdLine_Exit
     else if 49 \<le> c \<and> c \<le> highestValidOption then
       seqP cmdLine_ClearErrorMsg
      (bindP (getP (\<lambda>s. MenuEntryList s ! (c - 49))) (\<lambda>entry.
       case selectionFunc entry of
         None \<Rightarrow> haltP (Undefined ''call of a null selection function'')
       | Some f \<Rightarrow> call_selection env f (contextPtr entry)))
     else if highestValidOption < c \<and> c \<le> 57 then retry env ''Invalid selection. Please choose again.''
     else returnP ())"

definition HandleTextInput :: "ui_env \<Rightarrow> char \<Rightarrow> unit ui_prog" where
  "HandleTextInput env input =
     bindP (getP EraseChar) (\<lambda>erase.
     bindP (getP (\<lambda>s. strnlen (TextEntryBuffer s))) (\<lambda>len.
     if input = erase then
       whenP (len > 0)
         (seqP (modifyP (\<lambda>s. s\<lparr>TextEntryBuffer := (TextEntryBuffer s)[len - 1 := CHR 0x00]\<rparr>)) (cmdLine_Refresh env))
     else if input = CHR 0x0A \<or> input = CHR 0x0D then
       seqP cmdLine_ClearErrorMsg
      (bindP (getP (\<lambda>s. (TextEntryHandlerFunc s, c_string (TextEntryBuffer s)))) (\<lambda>(h, txt).
       case h of
         None \<Rightarrow> haltP (Undefined ''call of a null text entry handler'')
       | Some f \<Rightarrow> call_text_handler env f txt))
     else if isprint input then
       seqP (whenP (len < sizeof_TextEntryBuffer - 1)
              (modifyP (\<lambda>s. s\<lparr>TextEntryBuffer := (TextEntryBuffer s)[len := input]\<rparr>)))
            (cmdLine_Refresh env)
     else returnP ()))"

abbreviation (input) EscapeChar :: char where "EscapeChar \<equiv> CHR 0x1B"
abbreviation (input) CtrlR :: char where "CtrlR \<equiv> CHR 0x12"

definition HandleInput :: "ui_env \<Rightarrow> char \<Rightarrow> unit ui_prog" where
  "HandleInput env input =
     seqP (modifyP (\<lambda>s. s\<lparr>EscapeTimer := False\<rparr>))
    (bindP (getP (\<lambda>s. (EndOfFileChar s, InputProcessingMode s))) (\<lambda>(eof, mode).
     if input = eof then cmdLine_Exit
     else if input = EscapeChar then modifyP (\<lambda>s. s\<lparr>EscapeTimer := True\<rparr>)
     else if input = CtrlR then cmdLine_Refresh env
     else (case mode of
        INPUT_MODE_MENU \<Rightarrow> HandleMenuInput env input
      | INPUT_MODE_TEXT_ENTRY \<Rightarrow> HandleTextInput env input
      | INPUT_MODE_PASSWORD_ENTRY \<Rightarrow> haltP (Bug ''Password entry mode not implemented.''))))"

text \<open>What reading one byte from the standard input gives.\<close>

datatype read_result = ReadByte char | ReadError | ReadEnd

definition InputHandler :: "ui_env \<Rightarrow> read_result option \<Rightarrow> bool \<Rightarrow> unit ui_prog" where
  "InputHandler env pollin hangup =
     seqP (case pollin of
             None \<Rightarrow> returnP ()
           | Some (ReadByte input) \<Rightarrow> HandleInput env input
           | Some ReadError \<Rightarrow> emit_ui LogError
           | Some ReadEnd \<Rightarrow> haltP (Exit 0))
          (whenP hangup (haltP (Exit 1)))"

section \<open>Samples from the Data Hub\<close>

definition refresh_if_on :: "ui_env \<Rightarrow> screen \<Rightarrow> unit ui_prog" where
  "refresh_if_on env sc = bindP cmdLine_GetCurrentScreen (\<lambda>p. whenP (p = Some sc) (cmdLine_Refresh env))"

definition LedPushHandler :: "ui_env \<Rightarrow> led_var \<Rightarrow> bool \<Rightarrow> unit ui_prog" where
  "LedPushHandler env v val =
     seqP (modifyP (\<lambda>s. s\<lparr>led_state := (led_state s)(v := of_bool_state val)\<rparr>)) (refresh_if_on env LedScreen)"

definition EnablePushHandler :: "ui_env \<Rightarrow> bool \<Rightarrow> unit ui_prog" where
  "EnablePushHandler env val =
     seqP (modifyP (\<lambda>s. s\<lparr>EnableState := of_bool_state val\<rparr>)) (refresh_if_on env BuzzerScreen)"

definition NumberPushHandler :: "ui_env \<Rightarrow> number_var \<Rightarrow> double \<Rightarrow> unit ui_prog" where
  "NumberPushHandler env v val =
     seqP (modifyP (\<lambda>s. case v of PeriodVar \<Rightarrow> s\<lparr>Period := val\<rparr> | PercentVar \<Rightarrow> s\<lparr>Percent := val\<rparr>))
          (refresh_if_on env BuzzerScreen)"

section \<open>Initialisation\<close>

abbreviation (input) O_NONBLOCK :: u32 where "O_NONBLOCK \<equiv> 0x800"

unbundle bit_operations_syntax

text \<open>Canonical mode and echo are the bits 1 and 3 of the local modes.\<close>

definition raw_settings :: "termios \<Rightarrow> termios" where
  "raw_settings t = t\<lparr>c_lflag := c_lflag t AND NOT (0x2 OR 0x8), vmin := 0, vtime := 0\<rparr>"

definition ConfigureTerminal :: "ui_env \<Rightarrow> unit ui_prog" where
  "ConfigureTerminal env =
     seqP (emit_ui FdMonitor_Create)
     (case fcntl_getfl env of
        None \<Rightarrow> haltP (Bug ''Unable to get file flags for stdin'')
      | Some fileFlags \<Rightarrow>
          if \<not> fcntl_setfl_ok env then haltP (Bug ''Unable to set stdin non-blocking'')
          else seqP (emit_ui (SetFl (fileFlags OR O_NONBLOCK)))
          (case tcgetattr env of
             None \<Rightarrow> haltP (Bug ''Couldnt get terminal settings'')
           | Some t \<Rightarrow>
               if \<not> tcsetattr_ok env then haltP (Bug ''Couldnt set terminal settings'')
               else seqP (emit_ui (TcSetAttr (raw_settings t)))
                    (modifyP (\<lambda>s. s\<lparr>EndOfFileChar := veof (raw_settings t), EraseChar := verase (raw_settings t)\<rparr>))))"

definition ledScreen_Init :: "unit ui_prog" where
  "ledScreen_Init =
     seqP (emit_ui (AddLedHandler ''/app/leds/mono/enable'' Generic))
    (seqP (emit_ui (AddLedHandler ''/app/leds/tri/red/enable'' Red))
    (seqP (emit_ui (AddLedHandler ''/app/leds/tri/green/enable'' Green))
    (seqP (emit_ui (AddLedHandler ''/app/leds/tri/blue/enable'' Blue))
          (emit_ui (AddLedHandler ''/app/vegasMode/continuous/enable'' Vegas)))))"

definition buzzerScreen_Init :: "unit ui_prog" where
  "buzzerScreen_Init =
     seqP (emit_ui (AddEnableHandler ''/app/buzzer/enable''))
    (seqP (emit_ui (AddNumberHandler ''/app/buzzer/period'' PeriodVar))
          (emit_ui (AddNumberHandler ''/app/buzzer/percent'' PercentVar)))"

definition COMPONENT_INIT :: "ui_env \<Rightarrow> unit ui_prog" where
  "COMPONENT_INIT env =
     seqP (ConfigureTerminal env) (seqP ledScreen_Init (seqP buzzerScreen_Init (mainMenu_Enter env)))"

section \<open>The process\<close>

text \<open>
  The events of the event loop: input on the standard input, the expiry of the ESC timer, and samples of
  the Data Hub.  A timer that expires is no longer running.
\<close>

datatype ui_event = Input "read_result option" bool | EscapeExpires
  | LedSample led_var bool | EnableSample bool | NumberSample number_var double

fun handle_event :: "ui_env \<Rightarrow> ui_event \<Rightarrow> unit ui_prog" where
  "handle_event env (Input pollin hangup) = InputHandler env pollin hangup"
| "handle_event env EscapeExpires = seqP (modifyP (\<lambda>s. s\<lparr>EscapeTimer := False\<rparr>)) (HandleEscapeTimerExpiry env)"
| "handle_event env (LedSample v val) = LedPushHandler env v val"
| "handle_event env (EnableSample val) = EnablePushHandler env val"
| "handle_event env (NumberSample v val) = NumberPushHandler env v val"

definition can_happen :: "ui_event \<Rightarrow> ui \<Rightarrow> bool" where
  "can_happen e s \<longleftrightarrow> (e = EscapeExpires \<longrightarrow> EscapeTimer s)"

inductive ui_reach :: "ui_env \<Rightarrow> ui \<Rightarrow> bool" for env :: ui_env where
  ui_init: "COMPONENT_INIT env ui_start = Some (Ok (), s) \<Longrightarrow> ui_reach env s"
| ui_event: "ui_reach env s \<Longrightarrow> can_happen e s \<Longrightarrow> handle_event env e s = Some (Ok (), s') \<Longrightarrow> ui_reach env s'"

inductive_cases ui_reachE: "ui_reach env s"

end
