(* ===== verification/Welcome_Draw.thy ===== *)
theory Welcome_Draw
  imports Welcome_Screens
begin

text \<open>
  The contract between the command line and its screens.  A screen's draw function prints, asks the config
  tree and may set up a menu, and changes nothing else; a menu screen sets up a menu of one to nine entries
  that can all be called, a text entry screen leaves the input mode as it is.  The lemmas about refreshing
  are proved once per kind of screen and interpreted on the six screens of the program.
\<close>

section \<open>What drawing may do\<close>

fun quiet :: "ui_act \<Rightarrow> bool" where
  "quiet (Printf items) = True"
| "quiet (QuickGetBool path) = True"
| "quiet GetImei_call = True"
| "quiet GetSerial_call = True"
| "quiet a = False"

definition drawn :: "ui \<Rightarrow> ui \<Rightarrow> bool" where
  "drawn s s' \<longleftrightarrow> (\<exists>m l n out. list_all quiet out \<and> length l = length (MenuEntryList s) \<and>
     s' = s\<lparr>InputProcessingMode := m, MenuEntryList := l, NumMenuOptions := n, trace := trace s @ out\<rparr>)"

lemma drawnI:
  "list_all quiet out \<Longrightarrow> length l = length (MenuEntryList s) \<Longrightarrow>
   drawn s (s\<lparr>InputProcessingMode := m, MenuEntryList := l, NumMenuOptions := n, trace := trace s @ out\<rparr>)"
  unfolding drawn_def by blast

lemma drawnE:
  assumes "drawn s s'"
  obtains m l n out where "list_all quiet out" "length l = length (MenuEntryList s)"
    "s' = s\<lparr>InputProcessingMode := m, MenuEntryList := l, NumMenuOptions := n, trace := trace s @ out\<rparr>"
  using assms unfolding drawn_def by blast

lemma drawn_print: "list_all quiet out \<Longrightarrow> drawn s (s\<lparr>trace := trace s @ out\<rparr>)"
  using drawnI [where out = out and l = "MenuEntryList s" and s = s and m = "InputProcessingMode s" and
      n = "NumMenuOptions s"] by simp

lemma drawn_trans: "drawn s s1 \<Longrightarrow> drawn s1 s2 \<Longrightarrow> drawn s s2"
proof (elim drawnE)
  fix m l n out m' l' n' out'
  assume a: "list_all quiet out" "length l = length (MenuEntryList s)"
    "s1 = s\<lparr>InputProcessingMode := m, MenuEntryList := l, NumMenuOptions := n, trace := trace s @ out\<rparr>"
    "list_all quiet out'" "length l' = length (MenuEntryList s1)"
    "s2 = s1\<lparr>InputProcessingMode := m', MenuEntryList := l', NumMenuOptions := n', trace := trace s1 @ out'\<rparr>"
  show "drawn s s2"
    using drawnI [where out = "out @ out'" and l = l' and s = s and m = m' and n = n'] a by simp
qed

lemma drawn_frame:
  assumes "drawn s s'"
  shows "CurrentScreenPtr s' = CurrentScreenPtr s" "ErrorMsg s' = ErrorMsg s" "EscapeTimer s' = EscapeTimer s"
    "TextEntryHandlerFunc s' = TextEntryHandlerFunc s" "TextEntryBuffer s' = TextEntryBuffer s"
    "EndOfFileChar s' = EndOfFileChar s" "EraseChar s' = EraseChar s" "led_state s' = led_state s"
    "EnableState s' = EnableState s" "length (MenuEntryList s') = length (MenuEntryList s)" "Prompt s' = Prompt s"
    "\<exists>out. list_all quiet out \<and> trace s' = trace s @ out"
  using assms by (auto elim!: drawnE)

text \<open>The same, field by field, so that it can be decided on two given states.\<close>

lemma drawn_iff:
  "drawn s s' \<longleftrightarrow> take (length (trace s)) (trace s') = trace s \<and> list_all quiet (drop (length (trace s)) (trace s')) \<and>
     length (MenuEntryList s') = length (MenuEntryList s) \<and> EndOfFileChar s' = EndOfFileChar s \<and>
     EraseChar s' = EraseChar s \<and> CurrentScreenPtr s' = CurrentScreenPtr s \<and> ErrorMsg s' = ErrorMsg s \<and>
     EscapeTimer s' = EscapeTimer s \<and> Prompt s' = Prompt s \<and> TextEntryHandlerFunc s' = TextEntryHandlerFunc s \<and>
     TextEntryBuffer s' = TextEntryBuffer s \<and> led_state s' = led_state s \<and> EnableState s' = EnableState s \<and>
     Period s' = Period s \<and> Percent s' = Percent s" (is "_ \<longleftrightarrow> ?fields")
proof
  show "drawn s s' \<Longrightarrow> ?fields" by (auto elim!: drawnE)
next
  assume f: ?fields
  have "trace s' = trace s @ drop (length (trace s)) (trace s')"
    using f append_take_drop_id [of "length (trace s)" "trace s'"] by simp
  then have "s' = s\<lparr>InputProcessingMode := InputProcessingMode s', MenuEntryList := MenuEntryList s',
      NumMenuOptions := NumMenuOptions s', trace := trace s @ drop (length (trace s)) (trace s')\<rparr>"
    using f by (intro ui.equality) simp_all
  with f show "drawn s s'" unfolding drawn_def by blast
qed

section \<open>The contract of a screen\<close>

definition shown :: "ui \<Rightarrow> menu_entry list" where
  "shown s = take (NumMenuOptions s) (MenuEntryList s)"

fun entry_ok :: "menu_entry \<Rightarrow> bool" where
  "entry_ok e = (case selectionFunc e of
     None \<Rightarrow> False
   | Some f \<Rightarrow> f = Fn_EnterSubScreen \<longrightarrow> contextPtr e \<in> {Some PeriodScreen, Some PercentScreen})"

definition menu_ok :: "ui \<Rightarrow> bool" where
  "menu_ok s \<longleftrightarrow> length (MenuEntryList s) = MAX_MENU_OPTIONS \<and> NumMenuOptions s \<le> MAX_MENU_OPTIONS \<and>
     list_all entry_ok (shown s)"

locale ui_screen =
  fixes draw :: "unit ui_prog"
  assumes draws: "length (MenuEntryList s) = MAX_MENU_OPTIONS \<Longrightarrow> \<exists>s'. draw s = Some (Ok (), s') \<and> drawn s s'"

locale menu_screen = ui_screen +
  assumes draws_menu: "length (MenuEntryList s) = MAX_MENU_OPTIONS \<Longrightarrow> draw s = Some (Ok (), s') \<Longrightarrow>
    InputProcessingMode s' = INPUT_MODE_MENU \<and> 0 < NumMenuOptions s' \<and> menu_ok s'"

locale text_screen = ui_screen +
  assumes draws_text: "draw s = Some (Ok (), s') \<Longrightarrow>
    InputProcessingMode s' = InputProcessingMode s \<and> MenuEntryList s' = MenuEntryList s \<and>
    NumMenuOptions s' = NumMenuOptions s"

section \<open>What a drawn menu looks like\<close>

definition menu_line :: "nat \<Rightarrow> menu_entry \<Rightarrow> ui_act" where
  "menu_line i e = Printf [S (''  '' @ [char_of (48 + (i + 1))] @ ''. ''), S (entry_text e), NL]"

text \<open>The header, a line for every entry with its digit, and the footer.\<close>

definition menu_shown :: "menu_entry list \<Rightarrow> ui_act list" where
  "menu_shown es = Printf [NL, S ''Please make a selection from the following:'', NL, NL] #
     map (\<lambda>(i, e). menu_line i e) (enumerate 0 es) @
     [Printf [NL, S ''or press ESC to leave the screen or Q to quit.'', NL]]"

lemma quiet_menu_shown [simp]: "list_all quiet (menu_shown es)"
  by (auto simp: menu_shown_def menu_line_def list_all_iff)

lemma draw_lines:
  "n \<le> length (MenuEntryList s) \<Longrightarrow>
   foreachP (\<lambda>i. bindP (getP (\<lambda>s. entry_text (MenuEntryList s ! i))) (\<lambda>t.
       printf [S (''  '' @ [char_of (48 + (i + 1))] @ ''. ''), S t, NL])) [k..<n] s =
     Some (Ok (), s\<lparr>trace := trace s @ map (\<lambda>i. menu_line i (MenuEntryList s ! i)) [k..<n]\<rparr>)"
proof (induction "n - k" arbitrary: k s)
  case 0
  then show ?case by (simp add: returnP_def)
next
  case (Suc m)
  let ?s1 = "s\<lparr>trace := trace s @ [menu_line k (MenuEntryList s ! k)]\<rparr>"
  have "k < n" "m = n - Suc k" using Suc by simp_all
  then show ?case
    using Suc.hyps(1) [of "Suc k" ?s1] Suc.prems
    by (simp add: upt_conv_Cons printf_def emit_ui_def menu_line_def seqP_def bindP_def modifyP_def getP_def)
qed

lemma enumerate_take: "n \<le> length l \<Longrightarrow> enumerate 0 (take n l) = map (\<lambda>i. (i, l ! i)) [0..<n]"
  by (rule nth_equalityI) (simp_all add: nth_enumerate_eq)

lemma DrawMenu_run:
  assumes "NumMenuOptions s \<le> length (MenuEntryList s)"
  shows "DrawMenu s = Some (Ok (), s\<lparr>trace := trace s @ menu_shown (shown s)\<rparr>)"
proof -
  let ?head = "[NL, S ''Please make a selection from the following:'', NL, NL]"
  let ?s1 = "s\<lparr>trace := trace s @ [Printf ?head]\<rparr>"
  have "printf ?head s = Some (Ok (), ?s1)" by (simp add: printf_def emit_ui_def modifyP_def)
  moreover note draw_lines [of "NumMenuOptions ?s1" ?s1 0]
  ultimately show ?thesis
    using assms
    by (simp add: DrawMenu_def printf_def [of "_ # S ''or press ESC to leave the screen or Q to quit.'' # _"]
        emit_ui_def modifyP_def menu_shown_def shown_def enumerate_take o_def)
qed

section \<open>Refreshing a screen, once per kind\<close>

lemma wp_print [wp_rules]: "wp (printf items) Q s = Q (Ok ()) (s\<lparr>trace := trace s @ [Printf items]\<rparr>)"
  by (simp add: printf_def emit_ui_def wp_rules)

lemma wp_emit [wp_rules]: "wp (emit_ui a) Q s = Q (Ok ()) (s\<lparr>trace := trace s @ [a]\<rparr>)"
  by (simp add: emit_ui_def wp_rules)

lemma wp_DrawMenu:
  "NumMenuOptions s \<le> length (MenuEntryList s) \<Longrightarrow>
   wp DrawMenu Q s = Q (Ok ()) (s\<lparr>trace := trace s @ menu_shown (shown s)\<rparr>)"
  by (simp add: wp_def DrawMenu_run)

context menu_screen
begin

lemma wp_draw:
  assumes "length (MenuEntryList s) = MAX_MENU_OPTIONS"
  shows "wp draw (\<lambda>r s'. r = Ok () \<and> drawn s s' \<and> InputProcessingMode s' = INPUT_MODE_MENU \<and>
    0 < NumMenuOptions s' \<and> menu_ok s') s"
  using draws [OF assms] draws_menu [OF assms] by (fastforce simp: wp_iff)

lemma wp_refresh:
  assumes "length (MenuEntryList s) = MAX_MENU_OPTIONS"
  shows "wp (seqP (printf h) (seqP draw DrawMode)) (\<lambda>r s'. r = Ok () \<and> drawn s s' \<and>
    InputProcessingMode s' = INPUT_MODE_MENU \<and> 0 < NumMenuOptions s' \<and> menu_ok s' \<and>
    (\<exists>pre. trace s' = pre @ menu_shown (shown s'))) s"
proof -
  let ?s1 = "s\<lparr>trace := trace s @ [Printf h]\<rparr>"
  have s1: "drawn s ?s1" by (rule drawn_print) simp
  have step: "drawn s s' \<Longrightarrow> drawn s (s'\<lparr>trace := trace s' @ out\<rparr>)" if "list_all quiet out" for s' out
    using that by (blast intro: drawn_trans drawn_print)
  have "wp draw (\<lambda>r s'. r = Ok () \<and> drawn s s' \<and> InputProcessingMode s' = INPUT_MODE_MENU \<and>
      0 < NumMenuOptions s' \<and> menu_ok s') ?s1"
    by (rule wp_mono [OF wp_draw]) (use assms s1 in \<open>auto intro: drawn_trans\<close>)
  then have "wp draw (\<lambda>r s'. case r of
      Ok _ \<Rightarrow> wp DrawMode (\<lambda>r s'. r = Ok () \<and> drawn s s' \<and> InputProcessingMode s' = INPUT_MODE_MENU \<and>
        0 < NumMenuOptions s' \<and> menu_ok s' \<and> (\<exists>pre. trace s' = pre @ menu_shown (shown s'))) s'
    | _ \<Rightarrow> False) ?s1"
    by (rule wp_mono)
       (auto simp: DrawMode_def DrawErrorMsg_def wp_rules wp_DrawMenu menu_ok_def shown_def intro!: step
          intro: drawn_trans)
  then show ?thesis
    by (simp only: wp_seqP wp_print outcome.case) (erule wp_mono, simp split: outcome.splits)
qed

end

context text_screen
begin

lemma wp_refresh:
  assumes "length (MenuEntryList s) = MAX_MENU_OPTIONS" "InputProcessingMode s = INPUT_MODE_TEXT_ENTRY"
  shows "wp (seqP (printf h) (seqP draw DrawMode)) (\<lambda>r s'. r = Ok () \<and> drawn s s' \<and>
    InputProcessingMode s' = INPUT_MODE_TEXT_ENTRY \<and> MenuEntryList s' = MenuEntryList s \<and>
    NumMenuOptions s' = NumMenuOptions s) s"
proof -
  let ?s1 = "s\<lparr>trace := trace s @ [Printf h]\<rparr>"
  have s1: "drawn s ?s1" by (rule drawn_print) simp
  have step: "drawn s s' \<Longrightarrow> drawn s (s'\<lparr>trace := trace s' @ out\<rparr>)" if "list_all quiet out" for s' out
    using that by (blast intro: drawn_trans drawn_print)
  have "wp draw (\<lambda>r s'. r = Ok () \<and> drawn s s' \<and> InputProcessingMode s' = INPUT_MODE_TEXT_ENTRY \<and>
      MenuEntryList s' = MenuEntryList s \<and> NumMenuOptions s' = NumMenuOptions s) ?s1"
    using draws [of ?s1] draws_text [of ?s1] assms s1 by (fastforce simp: wp_iff intro: drawn_trans)
  then have "wp draw (\<lambda>r s'. case r of
      Ok _ \<Rightarrow> wp DrawMode (\<lambda>r s'. r = Ok () \<and> drawn s s' \<and> InputProcessingMode s' = INPUT_MODE_TEXT_ENTRY \<and>
        MenuEntryList s' = MenuEntryList s \<and> NumMenuOptions s' = NumMenuOptions s) s'
    | _ \<Rightarrow> False) ?s1"
    by (rule wp_mono)
       (auto simp: DrawMode_def DrawErrorMsg_def DrawPrompt_def wp_rules intro!: step split: prod.split)
  then show ?thesis
    by (simp only: wp_seqP wp_print outcome.case) (erule wp_mono, simp split: outcome.splits)
qed

end

section \<open>The six screens meet the contract\<close>

lemma nine_slots:
  assumes "length l = MAX_MENU_OPTIONS"
  obtains a0 a1 a2 a3 a4 a5 a6 a7 a8 where "l = [a0, a1, a2, a3, a4, a5, a6, a7, a8]"
proof -
  have "length l = Suc (Suc (Suc (Suc (Suc (Suc (Suc (Suc (Suc 0))))))))" using assms by simp
  then show thesis using that by (auto simp: length_Suc_conv)
qed

lemma menu_screenI:
  assumes "\<And>s. length (MenuEntryList s) = MAX_MENU_OPTIONS \<Longrightarrow>
    wp draw (\<lambda>r s'. r = Ok () \<and> drawn s s' \<and> InputProcessingMode s' = INPUT_MODE_MENU \<and>
      0 < NumMenuOptions s' \<and> menu_ok s') s"
  shows "menu_screen draw"
  using assms by unfold_locales (fastforce simp: wp_iff)+

lemmas draw_defs = cmdLine_MenuMode_def cmdLine_AddMenuEntry_def instantGratification_IsEnabled_def
  ledScreen_DrawVegas_def GetImei_def GetSerialNumber_def drawn_iff menu_ok_def shown_def

interpretation main_menu: menu_screen "DrawMainMenu env" for env
proof (rule menu_screenI, erule nine_slots)
qed (simp add: DrawMainMenu_def draw_defs wp_rules)

interpretation led_screen: menu_screen "ledScreen_Draw env" for env
proof (rule menu_screenI, erule nine_slots)
qed (simp add: ledScreen_Draw_def draw_defs wp_rules)

interpretation buzzer_screen: menu_screen DrawMain
proof (rule menu_screenI, erule nine_slots)
qed (simp add: DrawMain_def draw_defs wp_rules)

interpretation octave_screen: menu_screen "octaveScreen_Draw env" for env
proof (rule menu_screenI, erule nine_slots)
qed (simp add: octaveScreen_Draw_def draw_defs wp_rules)

interpretation period_screen: text_screen DrawPeriod
  by unfold_locales (auto simp: DrawPeriod_def printf_def emit_ui_def prog_defs drawn_iff)

interpretation percent_screen: text_screen DrawPercent
  by unfold_locales (auto simp: DrawPercent_def printf_def emit_ui_def prog_defs drawn_iff)

end
