(* ===== verification/Welcome_Props.thy ===== *)
theory Welcome_Props
  imports Welcome_Draw
begin

text \<open>
  The properties of the Welcome command line: the invariant of the process and that no event can make it
  fail, the text entry as a line editor, the menu that is shown and the menu that is executed, the ESC key,
  the toggles of the lights, and what the buzzer screens send.
\<close>

section \<open>The invariant\<close>

text \<open>The handler of a text entry screen; the other screens are menu screens.\<close>

fun handler_of :: "screen \<Rightarrow> text_handler option" where
  "handler_of PeriodScreen = Some Fn_HandleInputPeriod"
| "handler_of PercentScreen = Some Fn_HandleInputPercent"
| "handler_of _ = None"

text \<open>The buffer holds a text of printable characters, and zeros behind it, one at least.\<close>

definition text_of :: "char list \<Rightarrow> string \<Rightarrow> bool" where
  "text_of b t \<longleftrightarrow> length t < sizeof_TextEntryBuffer \<and> list_all isprint t \<and>
     b = t @ replicate (sizeof_TextEntryBuffer - length t) (CHR 0x00)"

definition buffer_ok :: "char list \<Rightarrow> bool" where
  "buffer_ok b \<longleftrightarrow> (\<exists>t. text_of b t)"

fun led_path :: "led_var \<Rightarrow> string" where
  "led_path Generic = ''/app/leds/mono/enable''"
| "led_path Red = ''/app/leds/tri/red/enable''"
| "led_path Green = ''/app/leds/tri/green/enable''"
| "led_path Blue = ''/app/leds/tri/blue/enable''"
| "led_path Vegas = ''/app/vegasMode/continuous/enable''"

text \<open>What holds in every state, also while the screen changes.\<close>

definition ui_base :: "ui \<Rightarrow> bool" where
  "ui_base s \<longleftrightarrow> menu_ok s \<and> length (ErrorMsg s) < sizeof_ErrorMsg \<and> buffer_ok (TextEntryBuffer s) \<and>
     (\<forall>v. AddLedHandler (led_path v) v \<in> set (trace s))"

definition ui_inv :: "ui \<Rightarrow> bool" where
  "ui_inv s \<longleftrightarrow> ui_base s \<and> (\<exists>sc. CurrentScreenPtr s = Some sc \<and>
     (case handler_of sc of
        None \<Rightarrow> InputProcessingMode s = INPUT_MODE_MENU \<and> 0 < NumMenuOptions s
      | Some h \<Rightarrow> InputProcessingMode s = INPUT_MODE_TEXT_ENTRY \<and> TextEntryHandlerFunc s = Some h))"

lemma ui_base_update [simp]:
  "ui_base (s\<lparr>EscapeTimer := v1\<rparr>) = ui_base s" "ui_base (s\<lparr>led_state := v2\<rparr>) = ui_base s"
  "ui_base (s\<lparr>EnableState := v3\<rparr>) = ui_base s" "ui_base (s\<lparr>Period := v4\<rparr>) = ui_base s"
  "ui_base (s\<lparr>Percent := v5\<rparr>) = ui_base s" "ui_base (s\<lparr>CurrentScreenPtr := v6\<rparr>) = ui_base s"
  by (simp_all add: ui_base_def menu_ok_def shown_def)

lemma ui_inv_update [simp]:
  "ui_inv (s\<lparr>EscapeTimer := v1\<rparr>) = ui_inv s" "ui_inv (s\<lparr>led_state := v2\<rparr>) = ui_inv s"
  "ui_inv (s\<lparr>EnableState := v3\<rparr>) = ui_inv s" "ui_inv (s\<lparr>Period := v4\<rparr>) = ui_inv s"
  "ui_inv (s\<lparr>Percent := v5\<rparr>) = ui_inv s"
  by (simp_all add: ui_inv_def cong: option.case_cong)

lemma ui_inv_emit: "ui_inv s \<Longrightarrow> ui_inv (s\<lparr>trace := trace s @ out\<rparr>)"
  by (auto simp: ui_inv_def ui_base_def menu_ok_def shown_def split: option.splits)

lemma ui_inv_error: "ui_inv s \<Longrightarrow> length m < sizeof_ErrorMsg \<Longrightarrow> ui_inv (s\<lparr>ErrorMsg := m\<rparr>)"
  by (auto simp: ui_inv_def ui_base_def menu_ok_def shown_def split: option.splits)

section \<open>Refreshing\<close>

lemma wp_cmdLine_Refresh:
  assumes sc: "CurrentScreenPtr s = Some sc" and len: "length (MenuEntryList s) = MAX_MENU_OPTIONS"
    and ent: "handler_of sc \<noteq> None \<Longrightarrow> InputProcessingMode s = INPUT_MODE_TEXT_ENTRY"
  shows "wp (cmdLine_Refresh env) (\<lambda>r s'. r = Ok () \<and> drawn s s' \<and>
    (case handler_of sc of
       None \<Rightarrow> InputProcessingMode s' = INPUT_MODE_MENU \<and> 0 < NumMenuOptions s' \<and> menu_ok s' \<and>
               (\<exists>pre. trace s' = pre @ menu_shown (shown s'))
     | Some h \<Rightarrow> InputProcessingMode s' = INPUT_MODE_TEXT_ENTRY \<and> MenuEntryList s' = MenuEntryList s \<and>
                 NumMenuOptions s' = NumMenuOptions s)) s"
  using sc ent
    main_menu.wp_refresh [OF len] led_screen.wp_refresh [OF len] buzzer_screen.wp_refresh [OF len]
    octave_screen.wp_refresh [OF len] period_screen.wp_refresh [OF len] percent_screen.wp_refresh [OF len]
  by (cases sc) (simp_all add: cmdLine_Refresh_def wp_bindP wp_getP)

lemma drawn_base:
  assumes "drawn s s'" "ui_base s" "menu_ok s'"
  shows "ui_base s'"
  using assms drawn_frame [OF assms(1)] by (auto simp: ui_base_def)

lemma wp_refresh_inv:
  assumes base: "ui_base s" and sc: "CurrentScreenPtr s = Some sc"
    and ent: "\<And>h. handler_of sc = Some h \<Longrightarrow>
      InputProcessingMode s = INPUT_MODE_TEXT_ENTRY \<and> TextEntryHandlerFunc s = Some h"
  shows "wp (cmdLine_Refresh env) (\<lambda>r s'. r = Ok () \<and> drawn s s' \<and> ui_inv s') s"
proof -
  have menu: "menu_ok s" "length (MenuEntryList s) = MAX_MENU_OPTIONS"
    using base by (simp_all add: ui_base_def menu_ok_def)
  have "wp (cmdLine_Refresh env) (\<lambda>r s'. r = Ok () \<and> drawn s s' \<and>
    (case handler_of sc of
       None \<Rightarrow> InputProcessingMode s' = INPUT_MODE_MENU \<and> 0 < NumMenuOptions s' \<and> menu_ok s' \<and>
               (\<exists>pre. trace s' = pre @ menu_shown (shown s'))
     | Some h \<Rightarrow> InputProcessingMode s' = INPUT_MODE_TEXT_ENTRY \<and> MenuEntryList s' = MenuEntryList s \<and>
                 NumMenuOptions s' = NumMenuOptions s)) s"
    by (rule wp_cmdLine_Refresh [OF sc menu(2)]) (use ent in auto)
  then show ?thesis
  proof (rule wp_mono)
    fix r s' assume a: "r = Ok () \<and> drawn s s' \<and>
      (case handler_of sc of
         None \<Rightarrow> InputProcessingMode s' = INPUT_MODE_MENU \<and> 0 < NumMenuOptions s' \<and> menu_ok s' \<and>
                 (\<exists>pre. trace s' = pre @ menu_shown (shown s'))
       | Some h \<Rightarrow> InputProcessingMode s' = INPUT_MODE_TEXT_ENTRY \<and> MenuEntryList s' = MenuEntryList s \<and>
                   NumMenuOptions s' = NumMenuOptions s)"
    then have m: "menu_ok s'"
      using menu by (cases "handler_of sc") (simp_all add: menu_ok_def shown_def)
    show "r = Ok () \<and> drawn s s' \<and> ui_inv s'"
      using a ent sc drawn_base [OF _ base m] drawn_frame [of s s']
      by (cases "handler_of sc") (auto simp: ui_inv_def)
  qed
qed

lemma ui_inv_refresh:
  assumes "ui_inv s"
  shows "wp (cmdLine_Refresh env) (\<lambda>r s'. r = Ok () \<and> drawn s s' \<and> ui_inv s') s"
proof -
  obtain sc where sc: "CurrentScreenPtr s = Some sc" "ui_base s"
    "case handler_of sc of None \<Rightarrow> True | Some h \<Rightarrow> InputProcessingMode s = INPUT_MODE_TEXT_ENTRY \<and> TextEntryHandlerFunc s = Some h"
    using assms by (auto simp: ui_inv_def split: option.splits)
  then show ?thesis by (intro wp_refresh_inv) auto
qed

lemma wp_enter:
  assumes base: "ui_base s"
    and ent: "\<And>h. handler_of sc = Some h \<Longrightarrow>
      InputProcessingMode s = INPUT_MODE_TEXT_ENTRY \<and> TextEntryHandlerFunc s = Some h"
  shows "wp (cmdLine_SetCurrentScreen env (Some sc)) (\<lambda>r s'. r = Ok () \<and> ui_inv s' \<and>
    drawn (s\<lparr>CurrentScreenPtr := Some sc, ErrorMsg := []\<rparr>) s') s"
proof -
  let ?s1 = "s\<lparr>CurrentScreenPtr := Some sc, ErrorMsg := []\<rparr>"
  have "ui_base ?s1" using base by (simp add: ui_base_def menu_ok_def shown_def)
  then have "wp (cmdLine_Refresh env) (\<lambda>r s'. r = Ok () \<and> drawn ?s1 s' \<and> ui_inv s') ?s1"
    by (rule wp_refresh_inv) (use ent in auto)
  then show ?thesis
    by (simp add: cmdLine_SetCurrentScreen_def cmdLine_ClearErrorMsg_def wp_rules) (auto elim!: wp_mono)
qed

section \<open>No event makes the process fail\<close>

text \<open>
  \<^theory_text>\<open>safe m\<close>: from a state of the invariant \<open>m\<close> returns, in a state of the invariant again or by a
  regular exit of the process; no assertion fails and no null pointer is followed.
\<close>

definition ui_fine :: "'a outcome \<Rightarrow> ui \<Rightarrow> bool" where
  "ui_fine r s \<longleftrightarrow> (case r of Ok _ \<Rightarrow> ui_inv s | Err _ \<Rightarrow> False | Halt h \<Rightarrow> h = Exit 0 \<or> h = Exit 1)"

lemma ui_fine_simps [simp]:
  "ui_fine (Ok a) s = ui_inv s" "ui_fine (Halt h) s = (h = Exit 0 \<or> h = Exit 1)" "\<not> ui_fine (Err e) s"
  by (simp_all add: ui_fine_def)

definition safe :: "'a ui_prog \<Rightarrow> bool" where
  "safe m \<longleftrightarrow> (\<forall>s. ui_inv s \<longrightarrow> wp m ui_fine s)"

named_theorems safe_intros "rules of the operations that keep the invariant"

lemma safeI: "(\<And>s. ui_inv s \<Longrightarrow> wp m ui_fine s) \<Longrightarrow> safe m"
  and safeD: "safe m \<Longrightarrow> ui_inv s \<Longrightarrow> wp m ui_fine s"
  by (simp_all add: safe_def)

lemma wp_fine_bind:
  assumes "wp m ui_fine s" "\<And>a s'. ui_inv s' \<Longrightarrow> wp (k a) ui_fine s'"
  shows "wp (bindP m k) ui_fine s"
  unfolding wp_bindP using assms
  by (elim wp_mono) (auto simp: ui_fine_def split: outcome.splits)

lemma safe_bindP [safe_intros]: "safe m \<Longrightarrow> (\<And>a. safe (k a)) \<Longrightarrow> safe (bindP m k)"
  by (intro safeI wp_fine_bind) (auto dest: safeD)

lemma safe_seqP [safe_intros]: "safe m \<Longrightarrow> safe n \<Longrightarrow> safe (seqP m n)"
  unfolding seqP_def by (rule safe_bindP)

lemma safe_if [safe_intros]: "(b \<Longrightarrow> safe m) \<Longrightarrow> (\<not> b \<Longrightarrow> safe n) \<Longrightarrow> safe (if b then m else n)"
  by simp

lemma safe_basic [safe_intros]: "safe (returnP a)" "safe (getP f)" "safe (haltP (Exit 0))" "safe (haltP (Exit 1))"
  by (auto intro!: safeI simp: wp_rules)

lemma safe_whenP [safe_intros]: "safe m \<Longrightarrow> safe (whenP b m)"
  by (simp add: whenP_def safe_basic)

lemma safe_modifyP: "(\<And>s. ui_inv s \<Longrightarrow> ui_inv (f s)) \<Longrightarrow> safe (modifyP f)"
  by (auto intro!: safeI simp: wp_rules)

lemma safe_emit [safe_intros]: "safe (emit_ui a)" "safe (printf items)"
  by (auto intro!: safe_modifyP ui_inv_emit simp: emit_ui_def printf_def)

lemma safe_messages [safe_intros]: "safe cmdLine_ClearErrorMsg" "safe (cmdLine_SetErrorMsg m)"
  by (auto intro!: safe_modifyP ui_inv_error simp: cmdLine_ClearErrorMsg_def cmdLine_SetErrorMsg_def)

lemma safe_refresh [safe_intros]: "safe (cmdLine_Refresh env)"
  by (intro safeI wp_mono [OF ui_inv_refresh]) auto

lemma ui_inv_base: "ui_inv s \<Longrightarrow> ui_base s"
  by (simp add: ui_inv_def)

lemma safe_enter [safe_intros]: "handler_of sc = None \<Longrightarrow> safe (cmdLine_SetCurrentScreen env (Some sc))"
  by (intro safeI wp_mono [OF wp_enter]) (auto dest: ui_inv_base)

lemma safe_exit [safe_intros]: "safe cmdLine_Exit"
  unfolding cmdLine_Exit_def by (intro safe_intros)

lemma text_of_empty: "text_of (replicate sizeof_TextEntryBuffer (CHR 0x00)) []"
  by (simp add: text_of_def)

lemma safe_EnterSubScreen:
  assumes "ctx \<in> {Some PeriodScreen, Some PercentScreen}"
  shows "safe (EnterSubScreen env ctx)"
proof (rule safeI)
  fix s assume s: "ui_inv s"
  obtain sc h p where ctx: "ctx = Some sc" "handler_of sc = Some h"
    and m: "EnterSubScreen env ctx = seqP (cmdLine_TextEntryMode p h) (cmdLine_SetCurrentScreen env ctx)"
    using assms by (auto simp: EnterSubScreen_def)
  let ?s1 = "s\<lparr>InputProcessingMode := INPUT_MODE_TEXT_ENTRY, Prompt := take (sizeof_Prompt - 1) p,
     TextEntryHandlerFunc := Some h, TextEntryBuffer := replicate sizeof_TextEntryBuffer (CHR 0x00)\<rparr>"
  have "ui_base ?s1"
    using ui_inv_base [OF s] text_of_empty by (auto simp: ui_base_def menu_ok_def shown_def buffer_ok_def)
  then have "wp (cmdLine_SetCurrentScreen env (Some sc)) ui_fine ?s1"
    by (rule wp_mono [OF wp_enter]) (use ctx in auto)
  then show "wp (EnterSubScreen env ctx) ui_fine s"
    unfolding m [unfolded ctx(1)] ctx(1) by (simp add: cmdLine_TextEntryMode_def wp_rules)
qed

lemmas selection_defs = HandleLedsSelection_def HandleBuzzerSelection_def HandleOctaveSelection_def
  EnableOutOfBoxExperience_def DisableOutOfBoxExperience_def EnableVegasMode_def DisableVegasMode_def
  ToggleGenericLed_def ToggleRed_def ToggleGreen_def ToggleBlue_def ledScreen_EnableInstantGratification_def
  ActivateBuzzer_def DeactivateBuzzer_def octaveScreen_EnableInstantGratification_def
  octaveScreen_DisableInstantGratification_def mainMenu_Enter_def ledScreen_Enter_def buzzerScreen_Enter_def
  octaveScreen_Enter_def instantGratification_Enable_def instantGratification_Disable_def

lemma safe_selection:
  assumes "entry_ok \<lparr>entry_text = t, selectionFunc = Some f, contextPtr = ctx\<rparr>"
  shows "safe (call_selection env f ctx)"
  using assms by (cases f) (auto simp: selection_defs intro!: safe_intros safe_EnterSubScreen)

lemma safe_leave [safe_intros]: "safe (leaveFunc env sc)"
  by (cases sc) (auto simp: mainMenu_Enter_def LeaveSubScreen_def intro!: safe_intros)

lemma safe_retry [safe_intros]: "safe (retry env m)"
  unfolding retry_def by (intro safe_intros)

lemma safe_text_handler [safe_intros]: "safe (call_text_handler env h txt)"
  by (cases h) (auto simp: HandleInputPeriod_def HandleInputPercent_def LeaveSubScreen_def
      intro!: safe_intros split: prod.split)

subsection \<open>The buffer of the text entry\<close>

lemma isprint_nonzero: "isprint c \<Longrightarrow> c \<noteq> CHR 0x00"
  by (auto simp: isprint_def)

lemma takeWhile_text:
  assumes "text_of b t"
  shows "takeWhile (\<lambda>c. c \<noteq> CHR 0x00) b = t"
proof -
  have "takeWhile (\<lambda>c. c \<noteq> CHR 0x00) t = t"
    using assms by (auto simp: takeWhile_eq_all_conv text_of_def list_all_iff dest: isprint_nonzero)
  moreover have "takeWhile (\<lambda>c. c \<noteq> CHR 0x00) (replicate n (CHR 0x00)) = []" for n
    by (cases n) simp_all
  ultimately show ?thesis
    using assms by (auto simp: text_of_def takeWhile_append list_all_iff dest: isprint_nonzero)
qed

lemma text_of_read: "text_of b t \<Longrightarrow> c_string b = t" "text_of b t \<Longrightarrow> strnlen b = length t"
  by (simp_all add: c_string_def strnlen_def takeWhile_text)

lemma text_of_type:
  assumes t: "text_of b t" and c: "isprint c" and n: "length t < sizeof_TextEntryBuffer - 1"
  shows "text_of (b[length t := c]) (t @ [c])"
proof -
  have "replicate (sizeof_TextEntryBuffer - length t) (CHR 0x00) =
      CHR 0x00 # replicate (sizeof_TextEntryBuffer - length (t @ [c])) (CHR 0x00)"
    using n by (simp add: Suc_diff_Suc flip: replicate_Suc)
  then show ?thesis
    using t c n by (simp add: text_of_def list_update_append)
qed

lemma text_of_erase:
  assumes t: "text_of b t" and n: "t \<noteq> []"
  shows "text_of (b[length t - 1 := CHR 0x00]) (butlast t)"
proof -
  obtain u c where u: "t = u @ [c]" using n by (metis append_butlast_last_id)
  then have "sizeof_TextEntryBuffer - length u = Suc (sizeof_TextEntryBuffer - length t)"
    using t unfolding text_of_def by simp linarith
  with t u show ?thesis by (simp add: text_of_def list_update_append)
qed

lemma ui_inv_buffer: "ui_inv s \<Longrightarrow> text_of b t \<Longrightarrow> ui_inv (s\<lparr>TextEntryBuffer := b\<rparr>)"
  by (auto simp: ui_inv_def ui_base_def menu_ok_def shown_def buffer_ok_def split: option.splits)

lemma ui_inv_text: "ui_inv s \<Longrightarrow> \<exists>t. text_of (TextEntryBuffer s) t"
  by (simp add: ui_inv_def ui_base_def buffer_ok_def)

subsection \<open>Input\<close>

lemma shown_entry:
  assumes "ui_inv s" "i < NumMenuOptions s"
  shows "entry_ok (MenuEntryList s ! i)"
proof -
  have "list_all entry_ok (shown s)" "NumMenuOptions s \<le> length (MenuEntryList s)"
    using ui_inv_base [OF assms(1)] by (simp_all add: ui_base_def menu_ok_def)
  then show ?thesis using assms(2) by (auto simp: shown_def list_all_length)
qed

lemma call_entry_fine:
  assumes s: "ui_inv s" and e: "entry_ok e"
  shows "wp (case selectionFunc e of None \<Rightarrow> haltP (Undefined u) | Some f \<Rightarrow> call_selection env f (contextPtr e)) ui_fine s"
  using e by (cases e; cases "selectionFunc e") (auto intro!: safeD [OF safe_selection s])

lemma safe_menu_input: "safe (HandleMenuInput env input)"
proof (rule safeI)
  fix s assume s: "ui_inv s"
  let ?c = "of_char input :: nat"
  have "wp (bindP (getP (\<lambda>s. MenuEntryList s ! (?c - 49))) (\<lambda>entry.
       case selectionFunc entry of
         None \<Rightarrow> haltP (Undefined ''call of a null selection function'')
       | Some f \<Rightarrow> call_selection env f (contextPtr entry))) ui_fine (s\<lparr>ErrorMsg := []\<rparr>)"
    if "49 \<le> ?c" "?c \<le> 48 + NumMenuOptions s"
  proof -
    have s1: "ui_inv (s\<lparr>ErrorMsg := []\<rparr>)" using s by (rule ui_inv_error) simp
    have "?c - 49 < NumMenuOptions (s\<lparr>ErrorMsg := []\<rparr>)" using that by simp
    from call_entry_fine [OF s1 shown_entry [OF s1 this]] show ?thesis
      by (simp only: wp_bindP wp_getP outcome.case)
  qed
  then show "wp (HandleMenuInput env input) ui_fine s"
    using s safeD [OF safe_retry s]
    by (simp add: HandleMenuInput_def wp_rules(1-4) wp_seqP wp_bindP wp_modifyP Let_def cmdLine_ClearErrorMsg_def
        safeD [OF safe_exit s] cong: option.case_cong)
qed

lemma safe_text_input:
  assumes s: "ui_inv s" and mode: "InputProcessingMode s = INPUT_MODE_TEXT_ENTRY"
  shows "wp (HandleTextInput env input) ui_fine s"
proof -
  obtain t where t: "text_of (TextEntryBuffer s) t" using ui_inv_text [OF s] by blast
  obtain h where h: "TextEntryHandlerFunc s = Some h"
    using s mode by (auto simp: ui_inv_def split: option.splits)
  have erase: "ui_inv (s\<lparr>TextEntryBuffer := (TextEntryBuffer s)[length t - 1 := CHR 0x00]\<rparr>)" if "t \<noteq> []"
    using ui_inv_buffer [OF s text_of_erase [OF t that]] .
  have type: "ui_inv (s\<lparr>TextEntryBuffer := (TextEntryBuffer s)[length t := input]\<rparr>)"
    if "isprint input" "length t < sizeof_TextEntryBuffer - 1"
    using ui_inv_buffer [OF s text_of_type [OF t that]] .
  have clear: "ui_inv (s\<lparr>ErrorMsg := []\<rparr>)" using s by (rule ui_inv_error) simp
  show ?thesis
    using s t h erase type clear safeD [OF safe_refresh] safeD [OF safe_text_handler]
    by (auto simp: HandleTextInput_def wp_rules text_of_read cmdLine_ClearErrorMsg_def)
qed

lemma safe_input: "safe (HandleInput env input)"
proof (rule safeI)
  fix s assume s: "ui_inv s"
  let ?s1 = "s\<lparr>EscapeTimer := False\<rparr>"
  have s1: "ui_inv ?s1" using s by simp
  have mode: "InputProcessingMode ?s1 \<noteq> INPUT_MODE_PASSWORD_ENTRY"
    using s by (auto simp: ui_inv_def split: option.splits)
  show "wp (HandleInput env input) ui_fine s"
    using s mode safeD [OF safe_refresh s1] safeD [OF safe_menu_input s1] safe_text_input [OF s1]
    by (cases "InputProcessingMode ?s1") (auto simp: HandleInput_def wp_rules safeD [OF safe_exit s1])
qed

lemma safe_refresh_if_on [safe_intros]: "safe (refresh_if_on env sc)"
  unfolding refresh_if_on_def cmdLine_GetCurrentScreen_def by (intro safe_intros)

lemma safe_samples [safe_intros]:
  "safe (LedPushHandler env v val)" "safe (EnablePushHandler env val)" "safe (NumberPushHandler env n d)"
  unfolding LedPushHandler_def EnablePushHandler_def NumberPushHandler_def
  by (auto intro!: safe_intros safe_modifyP split: number_var.split)

lemma safe_event: "safe (handle_event env e)"
proof (cases e)
  case (Input pollin hangup)
  then show ?thesis
    by (auto simp: InputHandler_def split: option.split read_result.split intro!: safe_intros safe_input)
next
  case EscapeExpires
  have "wp (HandleEscapeTimerExpiry env) ui_fine s" if "ui_inv s" for s
    using that safeD [OF safe_leave that] by (auto simp: HandleEscapeTimerExpiry_def wp_rules ui_inv_def)
  with EscapeExpires show ?thesis by (auto intro!: safe_intros safe_modifyP intro: safeI)
qed (auto intro: safe_intros)

subsection \<open>From the start on\<close>

lemma ui_start_base:
  "ui_base (ui_start\<lparr>EndOfFileChar := c, EraseChar := d, trace := tr\<rparr>)" if "\<forall>v. AddLedHandler (led_path v) v \<in> set tr"
  using that text_of_empty by (auto simp: ui_base_def menu_ok_def shown_def ui_start_def buffer_ok_def)

lemma init_fine:
  assumes "COMPONENT_INIT env ui_start = Some (Ok (), s)"
  shows "ui_inv s \<and> CurrentScreenPtr s = Some MainMenu"
proof -
  let ?tr = "\<lambda>fl t. [FdMonitor_Create, SetFl fl, TcSetAttr t,
    AddLedHandler ''/app/leds/mono/enable'' Generic, AddLedHandler ''/app/leds/tri/red/enable'' Red,
    AddLedHandler ''/app/leds/tri/green/enable'' Green, AddLedHandler ''/app/leds/tri/blue/enable'' Blue,
    AddLedHandler ''/app/vegasMode/continuous/enable'' Vegas, AddEnableHandler ''/app/buzzer/enable'',
    AddNumberHandler ''/app/buzzer/period'' PeriodVar, AddNumberHandler ''/app/buzzer/percent'' PercentVar]"
  obtain c d fl t where "mainMenu_Enter env (ui_start\<lparr>EndOfFileChar := c, EraseChar := d, trace := ?tr fl t\<rparr>) = Some (Ok (), s)"
    using assms that
    by (auto simp: COMPONENT_INIT_def ConfigureTerminal_def ledScreen_Init_def buzzerScreen_Init_def emit_ui_def
        ui_start_def prog_defs split: option.splits if_splits)
  then obtain tr where run: "mainMenu_Enter env (ui_start\<lparr>EndOfFileChar := c, EraseChar := d, trace := tr\<rparr>) = Some (Ok (), s)"
    and led: "tr = ?tr fl t" by blast
  have "AddLedHandler (led_path v) v \<in> set tr" for v
    unfolding led by (cases v) simp_all
  then have tr: "\<forall>v. AddLedHandler (led_path v) v \<in> set tr" ..
  have "wp (mainMenu_Enter env) (\<lambda>r s'. r = Ok () \<and> ui_inv s' \<and>
      drawn (ui_start\<lparr>EndOfFileChar := c, EraseChar := d, trace := tr, CurrentScreenPtr := Some MainMenu, ErrorMsg := []\<rparr>) s')
      (ui_start\<lparr>EndOfFileChar := c, EraseChar := d, trace := tr\<rparr>)"
    using wp_enter [OF ui_start_base [OF tr], of MainMenu] by (simp add: mainMenu_Enter_def)
  with run show ?thesis
    by (auto simp: wp_iff dest: drawn_frame(1))
qed

lemma reach_inv: "ui_reach env s \<Longrightarrow> ui_inv s"
proof (induction rule: ui_reach.induct)
  case (ui_init s)
  then show ?case using init_fine by blast
next
  case (ui_event s e s')
  with safeD [OF safe_event, of s env e] show ?case by (auto simp: wp_iff)
qed

end

