(* ===== verification/Welcome_Claims.thy ===== *)
theory Welcome_Claims
  imports Welcome_Props
begin

text \<open>
  What the Welcome command line guarantees to its user, on every reachable state: the claims about the
  process as a whole, the menus, the text entry, the ESC key, the lights and the buzzer.
\<close>

section \<open>The process\<close>

text \<open>C11: no event makes the process fail: in every reachable state every event is handled to the end, and
  either the process goes on in a state of the invariant or it exits with the status 0 or 1; no assertion
  fails, no null pointer is followed and no array is left.\<close>

theorem ui_never_fails:
  assumes "ui_reach env s"
  shows "\<exists>r s'. handle_event env e s = Some (r, s') \<and>
    (case r of Ok _ \<Rightarrow> ui_inv s' | Err _ \<Rightarrow> False | Halt h \<Rightarrow> h = Exit 0 \<or> h = Exit 1)"
  using safeD [OF safe_event reach_inv [OF assms], of env e] by (simp add: wp_iff ui_fine_def)

text \<open>C14: the input mode always agrees with the screen: on the two buzzer entry screens the text entry mode
  with that screen's own handler, on the other screens the menu mode with one to nine entries that all have
  a function; the text entered is always terminated within its buffer.\<close>

theorem screen_and_mode_agree:
  assumes "ui_reach env s"
  shows "\<exists>sc. CurrentScreenPtr s = Some sc \<and>
    (case handler_of sc of
       None \<Rightarrow> InputProcessingMode s = INPUT_MODE_MENU \<and> 0 < NumMenuOptions s \<and> NumMenuOptions s \<le> MAX_MENU_OPTIONS \<and>
         (\<forall>i<NumMenuOptions s. selectionFunc (MenuEntryList s ! i) \<noteq> None)
     | Some h \<Rightarrow> InputProcessingMode s = INPUT_MODE_TEXT_ENTRY \<and> TextEntryHandlerFunc s = Some h) \<and>
    length (TextEntryBuffer s) = sizeof_TextEntryBuffer \<and> strnlen (TextEntryBuffer s) < sizeof_TextEntryBuffer \<and>
    list_all isprint (c_string (TextEntryBuffer s))"
proof -
  have inv: "ui_inv s" by (rule reach_inv [OF assms])
  obtain t where t: "text_of (TextEntryBuffer s) t" using ui_inv_text [OF inv] by blast
  have "selectionFunc (MenuEntryList s ! i) \<noteq> None" if "i < NumMenuOptions s" for i
    using shown_entry [OF inv that] by (auto split: option.splits)
  moreover have "NumMenuOptions s \<le> MAX_MENU_OPTIONS"
    using ui_inv_base [OF inv] by (simp add: ui_base_def menu_ok_def)
  ultimately show ?thesis
    using inv t text_of_read [OF t]
    by (auto simp: ui_inv_def text_of_def split: option.splits)
qed

section \<open>The menus\<close>

lemma digit_key:
  assumes "i < 9"
  shows "(of_char (char_of (49 + i) :: char) :: nat) = 49 + i" "char_of (49 + i) \<noteq> CHR ''q''" "char_of (49 + i) \<noteq> CHR ''Q''"
    "char_of (49 + i) \<noteq> EscapeChar" "char_of (49 + i) \<noteq> CtrlR"
proof -
  show c: "(of_char (char_of (49 + i) :: char) :: nat) = 49 + i" using assms by simp
  have "char_of (49 + i) \<noteq> d" if "(of_char d :: nat) < 49 \<or> 57 < (of_char d :: nat)" for d :: char
    using c that assms by auto
  then show "char_of (49 + i) \<noteq> CHR ''q''" "char_of (49 + i) \<noteq> CHR ''Q''" "char_of (49 + i) \<noteq> EscapeChar"
    "char_of (49 + i) \<noteq> CtrlR"
    by simp_all
qed

lemma seqP_done: "seqP m (whenP False n) = m"
  by (rule ext) (simp add: whenP_def seqP_def bindP_def returnP_def split: option.split prod.split outcome.split)

lemma clear_run [simp]: "cmdLine_ClearErrorMsg s = Some (Ok (), s\<lparr>ErrorMsg := []\<rparr>)"
  by (simp add: cmdLine_ClearErrorMsg_def modifyP_def)

lemma select_run:
  assumes inv: "ui_inv s" and mode: "InputProcessingMode s = INPUT_MODE_MENU" and i: "i < NumMenuOptions s"
    and eof: "EndOfFileChar s \<noteq> char_of (49 + i)" and f: "selectionFunc (MenuEntryList s ! i) = Some f"
  shows "InputHandler env (Some (ReadByte (char_of (49 + i)))) False s =
    call_selection env f (contextPtr (MenuEntryList s ! i)) (s\<lparr>EscapeTimer := False, ErrorMsg := []\<rparr>)"
proof -
  have n: "i < 9" using ui_inv_base [OF inv] i by (simp add: ui_base_def menu_ok_def)
  have "char_of (49 + i) \<noteq> EndOfFileChar s" using eof by simp
  then have "InputHandler env (Some (ReadByte (char_of (49 + i)))) False s =
      HandleMenuInput env (char_of (49 + i)) (s\<lparr>EscapeTimer := False\<rparr>)"
    using mode digit_key [OF n]
    by (simp add: InputHandler_def HandleInput_def seqP_done)
  also have "\<dots> = call_selection env f (contextPtr (MenuEntryList s ! i)) (s\<lparr>EscapeTimer := False, ErrorMsg := []\<rparr>)"
    using digit_key [OF n] i f n by (simp add: seqP_done HandleMenuInput_def Let_def)
  finally show ?thesis .
qed

text \<open>C13: on a menu screen what is drawn is what is run: the last thing a refresh prints is the menu, with a
  digit before each of its one to nine entries, and pressing the digit of an entry clears the error message
  and calls the function of the entry shown with that digit, with its context.\<close>

theorem menu_runs_what_it_shows:
  assumes reach: "ui_reach env s" and sc: "CurrentScreenPtr s = Some sc" "handler_of sc = None"
    and eof: "\<And>i :: nat. i < 9 \<Longrightarrow> EndOfFileChar s \<noteq> char_of (49 + i)"
  shows "\<exists>s1 pre. cmdLine_Refresh env s = Some (Ok (), s1) \<and> trace s1 = pre @ menu_shown (shown s1) \<and>
    0 < length (shown s1) \<and> length (shown s1) \<le> MAX_MENU_OPTIONS \<and>
    (\<forall>i<length (shown s1). \<exists>f. selectionFunc (shown s1 ! i) = Some f \<and>
       InputHandler env (Some (ReadByte (char_of (49 + i)))) False s1 =
       call_selection env f (contextPtr (shown s1 ! i)) (s1\<lparr>EscapeTimer := False, ErrorMsg := []\<rparr>))"
proof -
  have inv: "ui_inv s" by (rule reach_inv [OF reach])
  have len: "length (MenuEntryList s) = MAX_MENU_OPTIONS"
    using ui_inv_base [OF inv] by (simp add: ui_base_def menu_ok_def)
  from wp_cmdLine_Refresh [OF sc(1) len, of env] ui_inv_refresh [OF inv, of env] sc(2)
  obtain s1 pre where s1: "cmdLine_Refresh env s = Some (Ok (), s1)" "drawn s s1" "ui_inv s1"
    "InputProcessingMode s1 = INPUT_MODE_MENU" "0 < NumMenuOptions s1" "menu_ok s1" "trace s1 = pre @ menu_shown (shown s1)"
    by (auto simp: wp_iff)
  have n: "length (shown s1) = NumMenuOptions s1" "NumMenuOptions s1 \<le> MAX_MENU_OPTIONS"
    "\<And>i. i < NumMenuOptions s1 \<Longrightarrow> shown s1 ! i = MenuEntryList s1 ! i"
    using s1(6) by (simp_all add: menu_ok_def shown_def)
  have "\<exists>f. selectionFunc (MenuEntryList s1 ! i) = Some f" if "i < NumMenuOptions s1" for i
    using shown_entry [OF s1(3) that] by (auto split: option.splits)
  moreover have "EndOfFileChar s1 \<noteq> char_of (49 + i)" if "i < NumMenuOptions s1" for i
    using drawn_frame(6) [OF s1(2)] eof [of i] that n(2) by simp
  ultimately show ?thesis
    using s1 n select_run [OF s1(3,4), of _ _ env] by (intro exI [of _ s1] exI [of _ pre]) fastforce
qed

section \<open>The text entry\<close>

fun type_keys :: "ui_env \<Rightarrow> char list \<Rightarrow> unit ui_prog" where
  "type_keys env [] = returnP ()"
| "type_keys env (c # cs) = seqP (InputHandler env (Some (ReadByte c)) False) (type_keys env cs)"

text \<open>The line editor: what a key does to the text, given the key that erases.\<close>

definition edit_key :: "char \<Rightarrow> string \<Rightarrow> char \<Rightarrow> string" where
  "edit_key erase t c =
     (if c = EscapeChar \<or> c = CtrlR then t
      else if c = erase then butlast t
      else if isprint c \<and> length t < sizeof_TextEntryBuffer - 1 then t @ [c]
      else t)"

definition only_draws :: "ui \<Rightarrow> ui \<Rightarrow> bool" where
  "only_draws s s' \<longleftrightarrow> (\<exists>out. list_all quiet out \<and> trace s' = trace s @ out)"

lemma only_draws_refl [simp]: "only_draws s s"
  unfolding only_draws_def by (intro exI [of _ "[]"]) simp

lemma only_draws_trans: "only_draws s s1 \<Longrightarrow> only_draws s1 s2 \<Longrightarrow> only_draws s s2"
  unfolding only_draws_def by (elim exE conjE, rename_tac o1 o2, rule_tac x = "o1 @ o2" in exI) simp

text \<open>A state of a text entry, with the screen, the control characters and the text.\<close>

definition editing :: "screen \<Rightarrow> char \<Rightarrow> char \<Rightarrow> string \<Rightarrow> ui \<Rightarrow> bool" where
  "editing sc eof erase t s \<longleftrightarrow> ui_inv s \<and> CurrentScreenPtr s = Some sc \<and> EndOfFileChar s = eof \<and> EraseChar s = erase \<and>
     text_of (TextEntryBuffer s) t"

lemma editing_refresh:
  assumes "editing sc eof erase t s"
  shows "wp (cmdLine_Refresh env) (\<lambda>r s'. r = Ok () \<and> editing sc eof erase t s' \<and> only_draws s s') s"
proof -
  have "ui_inv s" using assms by (simp add: editing_def)
  from ui_inv_refresh [OF this] show ?thesis
    by (rule wp_mono) (use assms in \<open>auto simp: editing_def only_draws_def dest: drawn_frame\<close>)
qed

lemma editing_key:
  assumes ed: "editing sc eof erase t s" and sc: "handler_of sc = Some h"
    and c: "c \<noteq> eof" "c \<notin> {CHR 0x0A, CHR 0x0D} \<or> c = erase"
  shows "wp (InputHandler env (Some (ReadByte c)) False)
    (\<lambda>r s'. r = Ok () \<and> editing sc eof erase (edit_key erase t c) s' \<and> only_draws s s') s"
proof -
  let ?s1 = "s\<lparr>EscapeTimer := False\<rparr>"
  have ed1: "editing sc eof erase t ?s1" and ed2: "editing sc eof erase t (?s1\<lparr>EscapeTimer := True\<rparr>)"
    using ed by (simp_all add: editing_def)
  have mode: "InputProcessingMode s = INPUT_MODE_TEXT_ENTRY"
    using ed sc by (auto simp: editing_def ui_inv_def)
  have buf: "text_of (TextEntryBuffer s) t" "EndOfFileChar s = eof" "EraseChar s = erase"
    using ed by (simp_all add: editing_def)
  have typed: "editing sc eof erase (t @ [c]) (?s1\<lparr>TextEntryBuffer := (TextEntryBuffer s)[length t := c]\<rparr>)"
    if "isprint c" "length t < 1023"
    using ed1 ui_inv_buffer [OF _ text_of_type [OF buf(1)]] text_of_type [OF buf(1)] that
    by (simp add: editing_def)
  have erased: "editing sc eof erase (butlast t) (?s1\<lparr>TextEntryBuffer := (TextEntryBuffer s)[length t - 1 := CHR 0x00]\<rparr>)"
    if "t \<noteq> []"
    using ed1 ui_inv_buffer [OF _ text_of_erase [OF buf(1) that]] text_of_erase [OF buf(1) that]
    by (simp add: editing_def)
  have refresh: "wp (cmdLine_Refresh env) (\<lambda>r s'. r = Ok () \<and> editing sc eof erase u s' \<and> only_draws s s') s2"
    if "editing sc eof erase u s2" "trace s2 = trace s" for u s2
    using editing_refresh [OF that(1), of env] that(2) by (simp add: only_draws_def)
  have handled: "InputHandler env (Some (ReadByte c)) False s =
      (if c = EscapeChar then Some (Ok (), s\<lparr>EscapeTimer := True\<rparr>)
       else if c = CtrlR then cmdLine_Refresh env ?s1 else HandleTextInput env c ?s1)"
    using mode buf c by (simp add: InputHandler_def seqP_done HandleInput_def modifyP_def)
  have entered: "HandleTextInput env c ?s1 =
      (if c = erase then if t = [] then Some (Ok (), ?s1)
         else cmdLine_Refresh env (?s1\<lparr>TextEntryBuffer := (TextEntryBuffer s)[length t - 1 := CHR 0x00]\<rparr>)
       else if isprint c then
         if length t < 1023 then cmdLine_Refresh env (?s1\<lparr>TextEntryBuffer := (TextEntryBuffer s)[length t := c]\<rparr>)
         else cmdLine_Refresh env ?s1
       else Some (Ok (), ?s1))"
    using buf c by (cases "c = erase") (auto simp: HandleTextInput_def text_of_read whenP_def returnP_def)
  have same: "only_draws s (s\<lparr>EscapeTimer := b\<rparr>)" for b
    unfolding only_draws_def by (intro exI [of _ "[]"]) simp
  show ?thesis
    unfolding wp_def handled entered edit_key_def
    using refresh [OF ed1] refresh [OF typed] refresh [OF erased] ed1 ed2 same
    by (cases "t = []"; cases "isprint c"; cases "length t < 1023") (simp_all add: wp_def cong: option.case_cong prod.case_cong)
qed

lemma editing_keys:
  assumes "editing sc eof erase t s" "handler_of sc = Some h"
    and "list_all (\<lambda>c. c \<noteq> eof \<and> (c \<notin> {CHR 0x0A, CHR 0x0D} \<or> c = erase)) cs"
  shows "\<exists>s'. type_keys env cs s = Some (Ok (), s') \<and> editing sc eof erase (foldl (edit_key erase) t cs) s' \<and> only_draws s s'"
  using assms
proof (induction cs arbitrary: t s)
  case Nil
  then show ?case by (simp add: returnP_def)
next
  case (Cons c cs)
  from Cons.prems editing_key [OF Cons.prems(1,2), of c env]
  obtain s1 where s1: "InputHandler env (Some (ReadByte c)) False s = Some (Ok (), s1)"
    "editing sc eof erase (edit_key erase t c) s1" "only_draws s s1"
    by (auto simp: wp_iff)
  from Cons.IH [OF s1(2) Cons.prems(2)] Cons.prems(3) s1 show ?case
    by (auto intro: only_draws_trans)
qed

lemma reach_editing:
  "ui_reach env s \<Longrightarrow> CurrentScreenPtr s = Some sc \<Longrightarrow>
   editing sc (EndOfFileChar s) (EraseChar s) (c_string (TextEntryBuffer s)) s"
  using ui_inv_text [OF reach_inv, of env s] reach_inv [of env s] by (auto simp: editing_def text_of_read)


section \<open>The ESC key\<close>

text \<open>An ESC that is followed by another byte before its timer expires has no effect: the two are handled
  exactly as the second byte alone.\<close>

theorem escape_prefix_is_ignored:
  assumes "EndOfFileChar s \<noteq> EscapeChar"
  shows "seqP (InputHandler env (Some (ReadByte EscapeChar)) False) (InputHandler env (Some (ReadByte c)) hangup) s =
    InputHandler env (Some (ReadByte c)) hangup s"
proof -
  have "InputHandler env (Some (ReadByte EscapeChar)) False s = Some (Ok (), s\<lparr>EscapeTimer := True\<rparr>)"
    using assms by (simp add: InputHandler_def seqP_done HandleInput_def modifyP_def)
  moreover have "HandleInput env c (s\<lparr>EscapeTimer := True\<rparr>) = HandleInput env c s"
    by (simp add: HandleInput_def)
  ultimately show ?thesis by (simp add: InputHandler_def seqP_def bindP_def)
qed

definition press_escape :: "ui_env \<Rightarrow> unit ui_prog" where
  "press_escape env = seqP (handle_event env (Input (Some (ReadByte EscapeChar)) False)) (handle_event env EscapeExpires)"

fun parent :: "screen \<Rightarrow> screen" where
  "parent PeriodScreen = BuzzerScreen"
| "parent PercentScreen = BuzzerScreen"
| "parent _ = MainMenu"

lemma escape_step:
  assumes inv: "ui_inv s" and sc: "CurrentScreenPtr s = Some sc" and eof: "EndOfFileChar s \<noteq> EscapeChar"
  shows "wp (press_escape env) (\<lambda>r s'. if sc = MainMenu then r = Halt (Exit 0)
    else r = Ok () \<and> ui_inv s' \<and> CurrentScreenPtr s' = Some (parent sc) \<and> EndOfFileChar s' = EndOfFileChar s) s"
proof -
  let ?s1 = "s\<lparr>EscapeTimer := False\<rparr>"
  have "InputHandler env (Some (ReadByte EscapeChar)) False s = Some (Ok (), s\<lparr>EscapeTimer := True\<rparr>)"
    using eof by (simp add: InputHandler_def seqP_done HandleInput_def modifyP_def)
  then have run: "press_escape env s = leaveFunc env sc ?s1"
    using sc by (simp add: press_escape_def HandleEscapeTimerExpiry_def)
  have base: "ui_base ?s1" using inv by (simp add: ui_inv_base)
  have parent: "handler_of (parent sc) = None" by (cases sc) simp_all
  have leave: "leaveFunc env sc = cmdLine_SetCurrentScreen env (Some (parent sc))" if "sc \<noteq> MainMenu"
    using that by (cases sc) (simp_all add: mainMenu_Enter_def LeaveSubScreen_def)
  have "wp (cmdLine_SetCurrentScreen env (Some (parent sc))) (\<lambda>r s'. r = Ok () \<and> ui_inv s' \<and>
      CurrentScreenPtr s' = Some (parent sc) \<and> EndOfFileChar s' = EndOfFileChar s) ?s1"
    by (rule wp_mono [OF wp_enter [OF base]]) (use parent in \<open>auto dest: drawn_frame\<close>)
  then show ?thesis
    using run leave by (cases "sc = MainMenu") (simp_all add: wp_def cmdLine_Exit_def printf_def emit_ui_def prog_defs)
qed

text \<open>C15: the ESC key always leads out: from every reachable state three presses of ESC, each left alone until
  its timer expires, leave the screens one by one up to the main menu and end the process with success.\<close>

theorem escape_leads_out:
  assumes reach: "ui_reach env s" and eof: "EndOfFileChar s \<noteq> EscapeChar"
  shows "\<exists>s'. foreachP (\<lambda>_. press_escape env) [0::nat, 1, 2] s = Some (Halt (Exit 0), s')"
proof -
  have step: "\<exists>r s'. press_escape env s = Some (r, s') \<and> (if sc = MainMenu then r = Halt (Exit 0)
      else r = Ok () \<and> ui_inv s' \<and> CurrentScreenPtr s' = Some (parent sc) \<and> EndOfFileChar s' \<noteq> EscapeChar)"
    if "ui_inv s" "CurrentScreenPtr s = Some sc" "EndOfFileChar s \<noteq> EscapeChar" for s sc
    using escape_step [OF that, of env] that(3) by (cases "sc = MainMenu") (auto simp: wp_iff)
  have main: "\<exists>s'. foreachP (\<lambda>_. press_escape env) (n # ns) s = Some (Halt (Exit 0), s')"
    if "ui_inv s" "CurrentScreenPtr s = Some MainMenu" "EndOfFileChar s \<noteq> EscapeChar" for s and n :: nat and ns
    using step [OF that] by (auto simp: seqP_def)
  have up: "\<exists>s'. foreachP (\<lambda>_. press_escape env) (n # ns) s = Some (Halt (Exit 0), s')"
    if "ui_inv s" "CurrentScreenPtr s = Some sc" "EndOfFileChar s \<noteq> EscapeChar" "sc \<noteq> MainMenu"
      "\<And>s'. ui_inv s' \<Longrightarrow> CurrentScreenPtr s' = Some (parent sc) \<Longrightarrow> EndOfFileChar s' \<noteq> EscapeChar \<Longrightarrow>
         \<exists>s''. foreachP (\<lambda>_. press_escape env) ns s' = Some (Halt (Exit 0), s'')" for s sc and n :: nat and ns
    using step [OF that(1-3)] that(4,5) by fastforce
  obtain sc where sc: "CurrentScreenPtr s = Some sc" using reach_inv [OF reach] by (auto simp: ui_inv_def)
  show ?thesis
    using reach_inv [OF reach] sc eof main up by (cases sc) (simp_all del: foreachP.simps)
qed

section \<open>The lights\<close>

text \<open>The menu function that toggles a light; Vegas mode is switched by two functions of its own.\<close>

fun toggle_fn :: "led_var \<Rightarrow> selection" where
  "toggle_fn Generic = Fn_ToggleGenericLed"
| "toggle_fn Red = Fn_ToggleRed"
| "toggle_fn Green = Fn_ToggleGreen"
| "toggle_fn Blue = Fn_ToggleBlue"
| "toggle_fn Vegas = Fn_DisableVegasMode"

lemma toggle_run:
  assumes "v \<noteq> Vegas"
  shows "call_selection env (toggle_fn v) ctx s = Some (Ok (), s\<lparr>trace := trace s @
    [SetBooleanOverride (led_path Vegas) False, PushBoolean (led_path v) (led_state s v \<noteq> BOOL_ON)]\<rparr>)"
  using assms
  by (cases v) (simp_all add: ToggleGenericLed_def ToggleRed_def ToggleGreen_def ToggleBlue_def DisableVegasMode_def
      emit_ui_def prog_defs)

text \<open>C16: toggling a light switches off the continuous Vegas mode and pushes the opposite of the state last
  heard to a path whose samples the process has registered for that very light; once that sample comes back
  the state is the opposite one, an unknown state counting as off, and the other lights are as they were.\<close>

theorem toggle_reaches_its_light:
  assumes reach: "ui_reach env s" and v: "v \<noteq> Vegas"
  shows "\<exists>path b s1 s2. call_selection env (toggle_fn v) ctx s = Some (Ok (), s1) \<and>
    trace s1 = trace s @ [SetBooleanOverride ''/app/vegasMode/continuous/enable'' False, PushBoolean path b] \<and>
    AddLedHandler path v \<in> set (trace s) \<and> LedPushHandler env v b s1 = Some (Ok (), s2) \<and>
    led_state s2 v = (if led_state s v = BOOL_ON then BOOL_OFF else BOOL_ON) \<and>
    (\<forall>w. w \<noteq> v \<longrightarrow> led_state s2 w = led_state s w)"
proof -
  let ?b = "led_state s v \<noteq> BOOL_ON"
  let ?s1 = "s\<lparr>trace := trace s @ [SetBooleanOverride (led_path Vegas) False, PushBoolean (led_path v) ?b]\<rparr>"
  let ?s2 = "?s1\<lparr>led_state := (led_state s)(v := of_bool_state ?b)\<rparr>"
  have inv: "ui_inv ?s1" "ui_inv ?s2"
    using ui_inv_emit [OF reach_inv [OF reach], of "[SetBooleanOverride (led_path Vegas) False, PushBoolean (led_path v) ?b]"]
    by simp_all
  have "wp (LedPushHandler env v ?b) (\<lambda>r s'. r = Ok () \<and> led_state s' = led_state ?s2) ?s1"
    using ui_inv_refresh [OF inv(2), of env]
    by (simp add: LedPushHandler_def refresh_if_on_def cmdLine_GetCurrentScreen_def wp_rules)
       (auto elim!: wp_mono dest: drawn_frame(8))
  then obtain s2 where "LedPushHandler env v ?b ?s1 = Some (Ok (), s2)" "led_state s2 = led_state ?s2"
    by (auto simp: wp_iff)
  moreover have "AddLedHandler (led_path v) v \<in> set (trace s)"
    using ui_inv_base [OF reach_inv [OF reach]] by (simp add: ui_base_def)
  ultimately show ?thesis
    using toggle_run [OF v, of env ctx s]
    by (intro exI [of _ "led_path v"] exI [of _ ?b] exI [of _ ?s1] exI [of _ s2]) (simp add: of_bool_state_def)
qed

section \<open>The buzzer\<close>

text \<open>What the range checks of the two entry screens let through.\<close>

fun in_range :: "screen \<Rightarrow> double \<Rightarrow> bool" where
  "in_range PeriodScreen x \<longleftrightarrow> \<not> less_d x one_millisecond"
| "in_range PercentScreen x \<longleftrightarrow> \<not> less_d (Finite 100) x \<and> \<not> less_d x (Finite 0)"
| "in_range _ x \<longleftrightarrow> False"

fun entry_path :: "screen \<Rightarrow> string" where
  "entry_path PeriodScreen = ''/app/buzzer/period''"
| "entry_path PercentScreen = ''/app/buzzer/percent''"
| "entry_path _ = []"

abbreviation (input) sent :: "ui \<Rightarrow> ui \<Rightarrow> ui_act list" where
  "sent s s' \<equiv> filter (\<lambda>a. \<not> quiet a) (drop (length (trace s)) (trace s'))"

lemma sent_drawn: "only_draws (s\<lparr>trace := trace s @ out\<rparr>) s' \<Longrightarrow> sent s s' = filter (\<lambda>a. \<not> quiet a) out"
  by (auto simp: only_draws_def list_all_iff filter_empty_conv)

lemma retry_run:
  assumes "ui_inv s"
  shows "wp (retry env m) (\<lambda>r s'. r = Ok () \<and> only_draws s s' \<and> CurrentScreenPtr s' = CurrentScreenPtr s \<and>
    TextEntryBuffer s' = TextEntryBuffer s \<and> ErrorMsg s' \<noteq> []) s"
proof -
  let ?s1 = "s\<lparr>ErrorMsg := take (sizeof_ErrorMsg - 1) (''** ERROR: '' @ m)\<rparr>"
  have "ui_inv ?s1" by (rule ui_inv_error [OF assms]) simp
  from ui_inv_refresh [OF this, of env] show ?thesis
    by (simp add: retry_def cmdLine_SetErrorMsg_def wp_rules)
       (auto elim!: wp_mono simp: only_draws_def dest: drawn_frame)
qed

lemma leave_run:
  assumes "ui_inv s"
  shows "wp (LeaveSubScreen env) (\<lambda>r s'. r = Ok () \<and> only_draws s s' \<and> CurrentScreenPtr s' = Some BuzzerScreen) s"
  unfolding LeaveSubScreen_def
  by (rule wp_mono [OF wp_enter [OF ui_inv_base [OF assms]]]) (auto simp: only_draws_def dest: drawn_frame)

definition accepted :: "screen \<Rightarrow> string \<Rightarrow> double \<times> nat \<times> bool \<Rightarrow> bool" where
  "accepted sc txt = (\<lambda>(x, n, err). \<not> err \<and> length txt \<le> n \<and> 0 < n \<and> in_range sc x)"

definition entry_leaves :: "screen \<Rightarrow> string \<Rightarrow> double \<times> nat \<times> bool \<Rightarrow> bool" where
  "entry_leaves sc txt = (\<lambda>(x, n, err). \<not> err \<and> length txt \<le> n \<and> (n = 0 \<or> in_range sc x))"

lemma entry_run:
  assumes inv: "ui_inv s" and sc: "handler_of sc = Some h"
  shows "wp (call_text_handler env h txt) (\<lambda>r s'. r = Ok () \<and>
    sent s s' = (if accepted sc txt (strtod env txt) then [PushNumeric (entry_path sc) (fst (strtod env txt))] else []) \<and>
    (if entry_leaves sc txt (strtod env txt) then CurrentScreenPtr s' = Some BuzzerScreen
     else CurrentScreenPtr s' = CurrentScreenPtr s \<and> TextEntryBuffer s' = TextEntryBuffer s \<and> ErrorMsg s' \<noteq> [])) s"
proof -
  obtain x n err where st: "strtod env txt = (x, n, err)" by (cases "strtod env txt")
  let ?s1 = "s\<lparr>trace := trace s @ [PushNumeric (entry_path sc) x]\<rparr>"
  have keep: "only_draws s s' \<Longrightarrow> sent s s' = []" for s'
    using sent_drawn [of s "[]" s'] by simp
  have push: "only_draws ?s1 s' \<Longrightarrow> sent s s' = [PushNumeric (entry_path sc) x]" for s'
    using sent_drawn [of s "[PushNumeric (entry_path sc) x]" s'] by simp
  have retry: "wp (retry env m) (\<lambda>r s'. r = Ok () \<and> sent s s' = [] \<and> CurrentScreenPtr s' = CurrentScreenPtr s \<and>
      TextEntryBuffer s' = TextEntryBuffer s \<and> ErrorMsg s' \<noteq> []) s" for m
    by (rule wp_mono [OF retry_run [OF inv]]) (use keep in auto)
  have leave: "wp (LeaveSubScreen env) (\<lambda>r s'. r = Ok () \<and> sent s s' = [] \<and> CurrentScreenPtr s' = Some BuzzerScreen) s"
    by (rule wp_mono [OF leave_run [OF inv]]) (use keep in auto)
  have sent: "wp (LeaveSubScreen env) (\<lambda>r s'. r = Ok () \<and> sent s s' = [PushNumeric (entry_path sc) x] \<and>
      CurrentScreenPtr s' = Some BuzzerScreen) ?s1"
    by (rule wp_mono [OF leave_run [OF ui_inv_emit [OF inv]]]) (use push in auto)
  show ?thesis
  proof (cases sc)
    case PeriodScreen
    with sc st retry leave sent show ?thesis
      by (auto simp: HandleInputPeriod_def wp_rules accepted_def entry_leaves_def)
  next
    case PercentScreen
    with sc st retry leave sent show ?thesis
      by (auto simp: HandleInputPercent_def wp_rules accepted_def entry_leaves_def)
  qed (use sc in simp_all)
qed

text \<open>ENTER on a buzzer entry screen sends the Data Hub exactly the number entered, and only if all of the
  text is a number and the range checks do not reject it, and then goes back to the buzzer screen; a text
  that is rejected stays in the buffer, with an error message.  A NaN passes the range checks of both
  screens and is sent.\<close>

theorem buzzer_entry_is_checked:
  assumes reach: "ui_reach env s" and sc: "CurrentScreenPtr s = Some sc" "handler_of sc = Some h"
    and keys: "EndOfFileChar s \<noteq> CHR 0x0A" "EraseChar s \<noteq> CHR 0x0A"
    and entered: "txt = c_string (TextEntryBuffer s)"
  shows "\<exists>s'. InputHandler env (Some (ReadByte (CHR 0x0A))) False s = Some (Ok (), s') \<and>
    sent s s' = (if accepted sc txt (strtod env txt) then [PushNumeric (entry_path sc) (fst (strtod env txt))] else []) \<and>
    (if entry_leaves sc txt (strtod env txt) then CurrentScreenPtr s' = Some BuzzerScreen
     else CurrentScreenPtr s' = Some sc \<and> TextEntryBuffer s' = TextEntryBuffer s \<and> ErrorMsg s' \<noteq> []) \<and>
    (fst (strtod env txt) = Nan \<longrightarrow> in_range sc (fst (strtod env txt)))"
proof -
  let ?s1 = "s\<lparr>EscapeTimer := False, ErrorMsg := []\<rparr>"
  have inv: "ui_inv s" and mode: "InputProcessingMode s = INPUT_MODE_TEXT_ENTRY" "TextEntryHandlerFunc s = Some h"
    using reach_inv [OF reach] sc by (auto simp: ui_inv_def)
  have inv1: "ui_inv ?s1" using ui_inv_error [of "s\<lparr>EscapeTimer := False\<rparr>" "[]"] inv by simp
  have run: "InputHandler env (Some (ReadByte (CHR 0x0A))) False s = call_text_handler env h txt ?s1"
    using keys mode entered by (auto simp: InputHandler_def seqP_done HandleInput_def HandleTextInput_def)
  have nan: "fst (strtod env txt) = Nan \<longrightarrow> in_range sc (fst (strtod env txt))"
    using sc by (cases sc) (auto simp: one_millisecond_def)
  from entry_run [OF inv1 sc(2), of env "txt"] show ?thesis
    unfolding run using sc(1) nan by (auto simp: wp_iff split: if_splits)
qed

section \<open>Closed instances\<close>

definition example_ui_env :: ui_env where
  "example_ui_env = \<lparr>cfg_bool = (\<lambda>_. True), imei = Inr ''359377060033064'', serial_number = Inl ''LE_FAULT'',
     LE_INFO_MAX_PSN_BYTES = 24,
     strtod = (\<lambda>t. if t = ''nan'' then (Nan, 3, False) else if t = ''50'' then (Finite 50, 2, False) else (Finite 0, 0, False)),
     fcntl_getfl = Some 0, fcntl_setfl_ok = True,
     tcgetattr = Some \<lparr>c_lflag = 0xFF, vmin = 1, vtime = 0, veof = CHR 0x04, verase = CHR 0x7F\<rparr>, tcsetattr_ok = True\<rparr>"

lemma reach_keys: "ui_reach env s \<Longrightarrow> type_keys env cs s = Some (Ok (), s') \<Longrightarrow> ui_reach env s'"
proof (induction cs arbitrary: s)
  case Nil
  then show ?case by (simp add: returnP_def)
next
  case (Cons c cs)
  then obtain s1 where "InputHandler env (Some (ReadByte c)) False s = Some (Ok (), s1)" "type_keys env cs s1 = Some (Ok (), s')"
    by (auto simp: seqP_def bindP_def split: option.splits outcome.splits)
  with Cons show ?case
    by (metis can_happen_def handle_event.simps(1) ui_event.distinct(1) ui_event)
qed

lemma replicate_nine: "replicate 9 x = [x, x, x, x, x, x, x, x, x]"
  by (simp add: numeral_eq_Suc)

lemmas all_defs = COMPONENT_INIT_def ConfigureTerminal_def raw_settings_def ledScreen_Init_def buzzerScreen_Init_def
  mainMenu_Enter_def cmdLine_SetCurrentScreen_def cmdLine_Refresh_def DrawMode_def DrawMainMenu_def DrawMain_def DrawPercent_def
  DrawErrorMsg_def DrawPrompt_def cmdLine_MenuMode_def cmdLine_AddMenuEntry_def instantGratification_IsEnabled_def
  InputHandler_def HandleInput_def HandleMenuInput_def EnterSubScreen_def cmdLine_TextEntryMode_def
  HandleBuzzerSelection_def buzzerScreen_Enter_def cmdLine_ClearErrorMsg_def

lemma example_main:
  "\<exists>s. ui_reach example_ui_env s \<and> CurrentScreenPtr s = Some MainMenu \<and> EndOfFileChar s = CHR 0x04 \<and>
     led_state s = (\<lambda>_. BOOL_UNKNOWN)"
proof -
  have "wp (COMPONENT_INIT example_ui_env) (\<lambda>r s. r = Ok () \<and> CurrentScreenPtr s = Some MainMenu \<and>
      EndOfFileChar s = CHR 0x04 \<and> led_state s = (\<lambda>_. BOOL_UNKNOWN)) ui_start"
    by (simp add: all_defs wp_rules wp_DrawMenu example_ui_env_def ui_start_def)
  then show ?thesis by (auto simp: wp_iff intro: ui_init)
qed

text \<open>The digits 3 and 3 lead from the main menu to the entry of the duty cycle.\<close>

lemma example_percent:
  "\<exists>s. ui_reach example_ui_env s \<and> CurrentScreenPtr s = Some PercentScreen \<and> EndOfFileChar s = CHR 0x04 \<and>
     EraseChar s = CHR 0x7F \<and> c_string (TextEntryBuffer s) = []"
proof -
  have "wp (bindP (COMPONENT_INIT example_ui_env) (\<lambda>_. type_keys example_ui_env ''33'')) (\<lambda>r s. r = Ok () \<and>
      CurrentScreenPtr s = Some PercentScreen \<and> EndOfFileChar s = CHR 0x04 \<and> EraseChar s = CHR 0x7F \<and>
      c_string (TextEntryBuffer s) = []) ui_start"
    using text_of_read(1) [OF text_of_empty]
    by (simp add: all_defs wp_rules wp_DrawMenu example_ui_env_def ui_start_def Let_def replicate_nine
        cong: option.case_cong)
  then obtain s0 s where "COMPONENT_INIT example_ui_env ui_start = Some (Ok (), s0)"
    "type_keys example_ui_env ''33'' s0 = Some (Ok (), s)" "CurrentScreenPtr s = Some PercentScreen"
    "EndOfFileChar s = CHR 0x04" "EraseChar s = CHR 0x7F" "c_string (TextEntryBuffer s) = []"
    by (auto simp: wp_iff bindP_def simp del: type_keys.simps split: option.splits outcome.splits)
  then show ?thesis by (blast intro: reach_keys ui_init)
qed

theorem ui_never_fails_witness:
  "\<exists>s r s'. ui_reach example_ui_env s \<and> handle_event example_ui_env (EnableSample True) s = Some (r, s') \<and>
     (\<forall>u. r \<noteq> Halt (Undefined u))"
proof -
  obtain s where "ui_reach example_ui_env s" using example_main by blast
  with ui_never_fails [OF this, of "EnableSample True"] show ?thesis by fastforce
qed

theorem screen_and_mode_agree_witness:
  "\<exists>s. ui_reach example_ui_env s \<and> CurrentScreenPtr s = Some PercentScreen \<and>
     TextEntryHandlerFunc s = Some Fn_HandleInputPercent"
proof -
  obtain s where s: "ui_reach example_ui_env s" "CurrentScreenPtr s = Some PercentScreen" using example_percent by blast
  with screen_and_mode_agree [OF s(1)] show ?thesis by auto
qed

theorem menu_runs_what_it_shows_witness:
  "\<exists>s s1. ui_reach example_ui_env s \<and> cmdLine_Refresh example_ui_env s = Some (Ok (), s1) \<and> 0 < length (shown s1)"
proof -
  obtain s where s: "ui_reach example_ui_env s" "CurrentScreenPtr s = Some MainMenu" "EndOfFileChar s = CHR 0x04"
    using example_main by blast
  have "EndOfFileChar s \<noteq> char_of (49 + i)" if "i < 9" for i :: nat
  proof
    assume "EndOfFileChar s = char_of (49 + i)"
    then have "(of_char (CHR 0x04) :: nat) = of_char (char_of (49 + i) :: char)" using s(3) by simp
    then show False using that by (simp add: take_bit_eq_mod)
  qed
  from menu_runs_what_it_shows [OF s(1,2) _ this] s(1) show ?thesis by auto
qed


theorem escape_prefix_is_ignored_witness:
  "\<exists>s. ui_reach example_ui_env s \<and> seqP (InputHandler example_ui_env (Some (ReadByte EscapeChar)) False)
       (InputHandler example_ui_env (Some (ReadByte (CHR ''1''))) False) s =
     InputHandler example_ui_env (Some (ReadByte (CHR ''1''))) False s"
proof -
  obtain s where s: "ui_reach example_ui_env s" "EndOfFileChar s = CHR 0x04" using example_main by blast
  then have "EndOfFileChar s \<noteq> EscapeChar" by simp
  from escape_prefix_is_ignored [OF this] s(1) show ?thesis by blast
qed

theorem escape_leads_out_witness:
  "\<exists>s s'. ui_reach example_ui_env s \<and> CurrentScreenPtr s = Some PercentScreen \<and>
     foreachP (\<lambda>_. press_escape example_ui_env) [0::nat, 1, 2] s = Some (Halt (Exit 0), s')"
proof -
  obtain s where s: "ui_reach example_ui_env s" "CurrentScreenPtr s = Some PercentScreen" "EndOfFileChar s = CHR 0x04"
    using example_percent by blast
  then have "EndOfFileChar s \<noteq> EscapeChar" by simp
  from escape_leads_out [OF s(1) this] s show ?thesis by blast
qed

theorem toggle_reaches_its_light_witness:
  "\<exists>s s1. ui_reach example_ui_env s \<and> call_selection example_ui_env Fn_ToggleRed None s = Some (Ok (), s1) \<and>
     (\<exists>b s2. LedPushHandler example_ui_env Red b s1 = Some (Ok (), s2) \<and> led_state s2 Red = BOOL_ON)"
proof -
  obtain s where s: "ui_reach example_ui_env s" "led_state s = (\<lambda>_. BOOL_UNKNOWN)" using example_main by blast
  from toggle_reaches_its_light [OF s(1), of Red None] s show ?thesis by fastforce
qed

text \<open>A NaN is sent.\<close>

theorem buzzer_entry_is_checked_witness:
  "\<exists>s s'. ui_reach example_ui_env s \<and> CurrentScreenPtr s = Some PercentScreen \<and>
     InputHandler example_ui_env (Some (ReadByte (CHR 0x0A))) False s = Some (Ok (), s') \<and>
     sent s s' = [PushNumeric ''/app/buzzer/percent'' Nan]"
proof -
  obtain s0 where s0: "ui_reach example_ui_env s0" "CurrentScreenPtr s0 = Some PercentScreen" "EndOfFileChar s0 = CHR 0x04"
    "EraseChar s0 = CHR 0x7F" "c_string (TextEntryBuffer s0) = []"
    using example_percent by blast
  have ed: "editing PercentScreen (CHR 0x04) (CHR 0x7F) [] s0"
    using reach_editing [OF s0(1,2)] s0(3-5) by simp
  have "handler_of PercentScreen = Some Fn_HandleInputPercent" by simp
  from editing_keys [OF ed this, of "''nan''" example_ui_env] obtain s where s:
    "type_keys example_ui_env ''nan'' s0 = Some (Ok (), s)" "editing PercentScreen (CHR 0x04) (CHR 0x7F) ''nan'' s"
    by (auto simp: edit_key_def isprint_def simp del: type_keys.simps)
  have reach: "ui_reach example_ui_env s" by (rule reach_keys [OF s0(1) s(1)])
  have t: "''nan'' = c_string (TextEntryBuffer s)" and sc: "CurrentScreenPtr s = Some PercentScreen"
    and keys: "EndOfFileChar s \<noteq> CHR 0x0A" "EraseChar s \<noteq> CHR 0x0A"
    using s(2) by (auto simp: editing_def text_of_read)
  have nan: "strtod example_ui_env ''nan'' = (Nan, 3, False)" by (simp add: example_ui_env_def)
  from buzzer_entry_is_checked [OF reach sc _ keys t, of "Fn_HandleInputPercent"] nan reach sc show ?thesis
    by (auto simp: accepted_def)
qed

end
