(* ===== verification/Yellow_AppsProps.thy ===== *)
theory Yellow_AppsProps
  imports Yellow_Apps Loc_Props Board_Leds Welcome_Claims
begin

text \<open>
  The properties of the small applications, and the way of a key press to a light: the Welcome application, the Data Hub,
  the actuators and the driver of the expander.
\<close>

section \<open>A file that switches a light\<close>

text \<open>
  What the actuators rely on: a driver's file to which 1 or 0 is written takes the one byte and switches its light.
\<close>

locale switch_file =
  fixes store :: "string \<Rightarrow> ('s, nat) prog" and lit :: "'s \<Rightarrow> bool" and ready :: "'s \<Rightarrow> bool"
  assumes store_switches: "ready s \<Longrightarrow> \<exists>s'. store (if b then ''1'' else ''0'') s = Some (Ok 1, s') \<and> ready s' \<and> lit s' = b"
begin

lemma write_switches:
  assumes "fs path = Some store" "ready s"
  shows "\<exists>s'. WriteStringToFile through fs path (if b then ''1'' else ''0'') s = Some (Ok LE_OK, s') \<and> ready s' \<and> lit s' = b"
proof -
  obtain s' where "store (if b then ''1'' else ''0'') s = Some (Ok 1, s')" "ready s'" "lit s' = b"
    using store_switches [OF assms(2)] by blast
  with assms(1) show ?thesis by (auto simp: WriteStringToFile_def tryP_def returnP_def)
qed

lemma handler_switches:
  assumes "fs path = Some store" "ready s"
  shows "\<exists>s'. ActuatorPushHandler through fs b path s = Some (Ok (), s') \<and> ready s' \<and> lit s' = b"
  using write_switches [of fs path s through b] assms by (auto simp: ActuatorPushHandler_def LE_ASSERT_def returnP_def)

end

text \<open>
  The documented conversion of the two texts, and the state of a bound driver. The lights of the expander are low
  active.
\<close>

definition reads_flags :: "light_env \<Rightarrow> bool" where
  "reads_flags env \<longleftrightarrow> kstrtou8 env ''0'' = Some 0 \<and> kstrtou8 env ''1'' = Some 1"

definition pin_lit :: "exp_pin \<Rightarrow> light_world \<Rightarrow> bool" where
  "pin_lit p s \<longleftrightarrow> (case exp_drvdata s of None \<Rightarrow> False | Some e \<Rightarrow> level s (gpio_expander_base e + pin_offset p) \<noteq> active_low p)"

definition led_lit :: "light_world \<Rightarrow> bool" where
  "led_lit s \<longleftrightarrow> (case led_drvdata s of None \<Rightarrow> False | Some led \<Rightarrow> level s (gpio led) \<and> val led = 1)"

lemma pin_store_flag:
  assumes "exp_drvdata s = Some e" "reads_flags env"
  shows "pin_store env p (if b then ''1'' else ''0'') s = Some (Ok 1, s\<lparr>exp_drvdata := Some (e\<lparr>vals := (vals e)(p := (if b then 1 else 0))\<rparr>),
    level := (level s)(gpio_expander_base e + pin_offset p := (b \<noteq> active_low p))\<rparr>)"
  using assms by (auto simp: pin_store_def with_expander_def reads_flags_def set_val_def gpio_set_value_cansleep_def returnP_def)

interpretation expander: switch_file "pin_store env p" "pin_lit p" "\<lambda>s. exp_drvdata s \<noteq> None \<and> reads_flags env" for env p
proof unfold_locales
  fix s :: light_world and b assume "exp_drvdata s \<noteq> None \<and> reads_flags env"
  then obtain e where "exp_drvdata s = Some e" "reads_flags env" by blast
  from pin_store_flag [OF this, of p b] this
  show "\<exists>s'. pin_store env p (if b then ''1'' else ''0'') s = Some (Ok 1, s') \<and> (exp_drvdata s' \<noteq> None \<and> reads_flags env) \<and> pin_lit p s' = b"
    by (auto simp: pin_lit_def)
qed

interpretation red_led: switch_file "led_store env" led_lit "\<lambda>s. led_drvdata s \<noteq> None \<and> reads_flags env" for env
proof unfold_locales
  fix s :: light_world and b assume "led_drvdata s \<noteq> None \<and> reads_flags env"
  then show "\<exists>s'. led_store env (if b then ''1'' else ''0'') s = Some (Ok 1, s') \<and> (led_drvdata s' \<noteq> None \<and> reads_flags env) \<and> led_lit s' = b"
    by (auto simp: led_store_def with_led_def reads_flags_def gpio_set_value_cansleep_def led_lit_def returnP_def prog_defs)
qed

section \<open>From the key to the light\<close>

text \<open>The files of the expander, by their paths in sysfs.\<close>

definition expander_dir :: string where "expander_dir = ''/sys/devices/platform/expander.0/''"

definition expander_files :: "light_env \<Rightarrow> light_world sysfs" where
  "expander_files env = map_of [
     (expander_dir @ ''generic_led'', pin_store env generic_led), (expander_dir @ ''pcm_sel'', pin_store env pcm_sel),
     (expander_dir @ ''wl_reg_on'', pin_store env wl_reg_on), (expander_dir @ ''tri_led_blu'', pin_store env tri_led_blu),
     (expander_dir @ ''tri_led_red'', pin_store env tri_led_red), (expander_dir @ ''tri_led_grn'', pin_store env tri_led_grn)]"

text \<open>
  What the Data Hub promises: a push to a path below \<^verbatim>\<open>/app/leds/\<close> reaches the handler that the process of that name has
  registered for the rest of the path.
\<close>

definition hub_delivers :: "hub \<Rightarrow> bool \<Rightarrow> light_env \<Rightarrow> string \<Rightarrow> bool \<Rightarrow> (light_world, unit) prog" where
  "hub_delivers hub through env path value =
     (if take 10 path = ''/app/leds/'' then
        (case map_of (hub_handlers hub) (drop 10 path) of
           None \<Rightarrow> returnP () | Some cx \<Rightarrow> ActuatorPushHandler through (expander_files env) value cx)
      else returnP ())"

fun light_pin :: "led_var \<Rightarrow> exp_pin" where
  "light_pin Red = tri_led_red"
| "light_pin Green = tri_led_grn"
| "light_pin Blue = tri_led_blu"
| "light_pin _ = generic_led"

lemma register_handlers:
  "outputActuator_Register env base path s = Some (Ok (), s') \<Longrightarrow> hub_handlers s' = (base @ ''/enable'', path) # hub_handlers s"
  by (auto simp: outputActuator_Register_def LE_ASSERT_def prog_defs Let_def split: if_splits)

lemma seqP_OkE:
  assumes "seqP m n s = Some (Ok b, s')"
  obtains a s1 where "m s = Some (Ok a, s1)" "n s1 = Some (Ok b, s')"
  using assms by (auto simp: seqP_def bindP_def split: option.splits prod.splits outcome.splits)

lemma leds_init_handlers:
  assumes "leds_COMPONENT_INIT aenv hub0 = Some (Ok (), hub)" "v \<noteq> Vegas"
  shows "\<exists>cx. take 10 (led_path v) = ''/app/leds/'' \<and> map_of (hub_handlers hub) (drop 10 (led_path v)) = Some cx \<and>
    expander_files env cx = Some (pin_store env (light_pin v))"
proof -
  have "hub_handlers hub = [(''mono/enable'', expander_dir @ ''generic_led''), (''tri/blue/enable'', expander_dir @ ''tri_led_blu''),
      (''tri/green/enable'', expander_dir @ ''tri_led_grn''), (''tri/red/enable'', expander_dir @ ''tri_led_red'')] @ hub_handlers hub0"
    using assms(1) unfolding leds_COMPONENT_INIT_def
    by (elim seqP_OkE) (auto dest!: register_handlers simp: expander_dir_def)
  with assms(2) show ?thesis
    by (cases v) (simp_all add: expander_files_def expander_dir_def)
qed

lemma pin_lit_other:
  assumes "exp_drvdata s = Some e" "q \<noteq> p"
  shows "pin_lit q (s\<lparr>exp_drvdata := Some (e\<lparr>vals := f\<rparr>), level := (level s)(gpio_expander_base e + pin_offset p := l)\<rparr>) = pin_lit q s"
  using assms by (simp add: pin_lit_def pin_offset_inj)



section \<open>The service of the LED\<close>

text \<open>With pointers of four or eight bytes every write of the service reads past the string that it writes.\<close>

lemma LedWrite_reads_past: "sizeof_pointer > 2 \<Longrightarrow> LedWrite sizeof_pointer (Some store) on s = Some (Halt (Undefined ''fwrite past the end of the string''), s)"
  by (simp add: LedWrite_def haltP_def)

text \<open>The status that the service reports is that of the driver.\<close>

lemma status_of_led: "led_drvdata s = Some led \<Longrightarrow>
    ma_led_GetLedStatus (Some led_show) s = Some (Ok (if val led = 0 then MA_LED_OFF else MA_LED_ON), s)"
  by (simp add: ma_led_GetLedStatus_def led_show_def with_led_def show_value_def tryP_def prog_defs)

section \<open>Instant gratification\<close>

definition route_table :: "string \<Rightarrow> string option" where
  "route_table = map_of [(''/app/vegasMode/triggered/trigger'', ''/app/button/value''), (''/app/buzzer/enable'', ''/app/button/value''),
     (''/app/leds/mono/enable'', ''/app/vegasMode/led/0''), (''/app/leds/tri/red/enable'', ''/app/vegasMode/led/1''),
     (''/app/leds/tri/green/enable'', ''/app/vegasMode/led/2''), (''/app/leds/tri/blue/enable'', ''/app/vegasMode/led/3'')]"

definition routed_as :: "bool \<Rightarrow> (string \<Rightarrow> string option) \<Rightarrow> string \<Rightarrow> string option" where
  "routed_as setting r d = (case route_table d of None \<Rightarrow> r d | Some src \<Rightarrow> if setting then Some src else None)"

lemma enable_run:
  "\<exists>s'. EnableInstantGratification lock_ok s = Some (Ok (), s') \<and> routes s' = routed_as True (routes s) \<and> awake s' = (lock_ok \<or> awake s)"
proof -
  let ?r = "(routes s)(''/app/vegasMode/triggered/trigger'' := Some ''/app/button/value'', ''/app/buzzer/enable'' := Some ''/app/button/value'',
    ''/app/leds/mono/enable'' := Some ''/app/vegasMode/led/0'', ''/app/leds/tri/red/enable'' := Some ''/app/vegasMode/led/1'',
    ''/app/leds/tri/green/enable'' := Some ''/app/vegasMode/led/2'', ''/app/leds/tri/blue/enable'' := Some ''/app/vegasMode/led/3'')"
  have r: "routed_as True (routes s) = ?r"
    by (rule ext) (simp add: routed_as_def route_table_def)
  show ?thesis unfolding r
    by (cases lock_ok) (simp_all add: EnableInstantGratification_def SetSource_def HubPush_def prog_defs del: fun_upd_apply)
qed

lemma disable_run:
  "\<exists>s'. DisableInstantGratification lock_ok s = Some (Ok (), s') \<and> routes s' = routed_as False (routes s) \<and> awake s' = (\<not> lock_ok \<and> awake s)"
proof -
  let ?r = "(routes s)(''/app/vegasMode/triggered/trigger'' := None, ''/app/buzzer/enable'' := None, ''/app/leds/mono/enable'' := None,
    ''/app/leds/tri/red/enable'' := None, ''/app/leds/tri/green/enable'' := None, ''/app/leds/tri/blue/enable'' := None)"
  have r: "routed_as False (routes s) = ?r"
    by (rule ext) (simp add: routed_as_def route_table_def)
  show ?thesis unfolding r
    by (cases lock_ok) (simp_all add: DisableInstantGratification_def RemoveSource_def HubPush_def prog_defs del: fun_upd_apply)
qed

lemma change_run:
  "\<exists>s'. HandleConfigChange setting lock_ok s = Some (Ok (), s') \<and> routes s' = routed_as setting (routes s) \<and>
    awake s' = (if lock_ok then setting else awake s)"
  using enable_run [of lock_ok s] disable_run [of lock_ok s] by (cases setting) (auto simp: HandleConfigChange_def)

lemma routed_again: "routed_as b (routed_as a r) = routed_as b r"
  by (rule ext) (simp add: routed_as_def split: option.split)


section \<open>The inertial sensor\<close>

lemma json_fields_xyz: "json_fields (xyz_text (x, y, z)) = [(''x'', fmt_lf x), (''y'', fmt_lf y), (''z'', fmt_lf z)]"
proof -
  let ?p1 = "(''{'' @ quoted ''x'') @ CHR '':'' # fmt_lf x" and ?p2 = "('' '' @ quoted ''y'') @ CHR '':'' # fmt_lf y"
  let ?p3 = "('' '' @ quoted ''z'') @ CHR '':'' # fmt_lf z @ ''}''"
  have shape: "xyz_text (x, y, z) = ?p1 @ CHR '','' # ?p2 @ CHR '','' # ?p3" by (simp add: xyz_text_def quoted_def)
  have nc: "CHR '','' \<notin> set (fmt_lf d)" for d using no_comma fmt_lf_chars by blast
  have c: "CHR '','' \<notin> set ?p1" "CHR '','' \<notin> set ?p2" "CHR '','' \<notin> set ?p3" using nc by (simp_all add: quoted_def del: fmt_lf.simps)
  have k: "CHR '':'' \<notin> set (''{'' @ quoted ''x'')" "CHR '':'' \<notin> set ('' '' @ quoted ''y'')" "CHR '':'' \<notin> set ('' '' @ quoted ''z'')"
    by (simp_all add: quoted_def)
  have t: "trim (fmt_lf d) = fmt_lf d" for d using trim_number fmt_lf_chars by blast
  have s: "trim (quoted ''x'') = ''x''" "trim (quoted ''y'') = ''y''" "trim (quoted ''z'') = ''z''" "trim ''}'' = []" "trim ''{'' = []" "trim '' '' = []"
    by (simp_all add: trim_def quoted_def)
  show ?thesis
    unfolding shape json_fields_def
    by (simp only: split_on_append [OF c(1)] split_on_append [OF c(2)] split_on_last [OF c(3)] list.map json_field_colon [OF k(1)]
      json_field_colon [OF k(2)] json_field_colon [OF k(3)] trim_append s t append_Nil append_Nil2)
qed

text \<open>The four files of a sensor, each with a text that is converted to a number.\<close>

definition reads_as :: "sensor_env \<Rightarrow> string \<Rightarrow> double \<Rightarrow> bool" where
  "reads_as env path d \<longleftrightarrow> (\<exists>text. sensor_file env path = Some text \<and> scan_double env text = Some d)"

lemma reads_as_Inr: "file_ReadDouble env path = Inr d \<longleftrightarrow> reads_as env path d"
  by (auto simp: file_ReadDouble_def reads_as_def split: option.split)

lemma bind_sum_Inr [simp]: "bind_sum r k = Inr b \<longleftrightarrow> (\<exists>a. r = Inr a \<and> k a = Inr b)"
  by (cases r) (auto simp: bind_sum_def)

lemma read_scaled_Inr: "read_scaled env c path = Inr d \<longleftrightarrow> (\<exists>raw. reads_as env path raw \<and> d = mul_d (rounded env) raw c)"
  by (cases "file_ReadDouble env path") (auto simp: read_scaled_def reads_as_Inr [symmetric])

lemma gyro_Inr: "imu_ReadGyro env = Inr v \<longleftrightarrow> (\<exists>c x y z. reads_as env ''/driver/in_anglvel_scale'' c \<and> reads_as env ''/driver/in_anglvel_x_raw'' x \<and>
    reads_as env ''/driver/in_anglvel_y_raw'' y \<and> reads_as env ''/driver/in_anglvel_z_raw'' z \<and>
    v = (mul_d (rounded env) x c, mul_d (rounded env) y c, mul_d (rounded env) z c))"
  by (auto simp: imu_ReadGyro_def reads_as_Inr read_scaled_Inr) blast

text \<open>C?: a sample of the gyroscope is pushed exactly when its four files can be read, and is then the text whose three
  fields are the raw values times the scale, printed to six digits; when a file cannot be read nothing is pushed; and only
  a text of 256 characters or more ends the process.\<close>

theorem gyro_sample_is_product:
  "\<exists>r s'. SampleGyro env ref s = Some (r, s') \<and>
    ((\<exists>c x y z. reads_as env ''/driver/in_anglvel_scale'' c \<and> reads_as env ''/driver/in_anglvel_x_raw'' x \<and>
        reads_as env ''/driver/in_anglvel_y_raw'' y \<and> reads_as env ''/driver/in_anglvel_z_raw'' z \<and>
        (let v = (mul_d (rounded env) x c, mul_d (rounded env) y c, mul_d (rounded env) z c) in
         json_fields (xyz_text v) = [(''x'', fmt_lf (fst v)), (''y'', fmt_lf (fst (snd v))), (''z'', fmt_lf (snd (snd v)))] \<and>
         (if length (xyz_text v) < 256 then r = Ok () \<and> s' = s @ [PushedJson ref (xyz_text v)] else r = Halt (Exit 1)))) \<or>
     (\<not> (\<exists>c x y z. reads_as env ''/driver/in_anglvel_scale'' c \<and> reads_as env ''/driver/in_anglvel_x_raw'' x \<and>
        reads_as env ''/driver/in_anglvel_y_raw'' y \<and> reads_as env ''/driver/in_anglvel_z_raw'' z) \<and> r = Ok () \<and> s' = s))"
proof (cases "imu_ReadGyro env")
  case (Inl e)
  then have "\<not> (\<exists>v. imu_ReadGyro env = Inr v)" by simp
  then have "\<not> (\<exists>c x y z. reads_as env ''/driver/in_anglvel_scale'' c \<and> reads_as env ''/driver/in_anglvel_x_raw'' x \<and>
        reads_as env ''/driver/in_anglvel_y_raw'' y \<and> reads_as env ''/driver/in_anglvel_z_raw'' z)"
    unfolding gyro_Inr by blast
  moreover have "SampleGyro env ref s = Some (Ok (), s)" using Inl by (simp add: SampleGyro_def push_xyz_def returnP_def)
  ultimately show ?thesis by blast
next
  case (Inr v)
  then obtain c x y z where f: "reads_as env ''/driver/in_anglvel_scale'' c" "reads_as env ''/driver/in_anglvel_x_raw'' x"
    "reads_as env ''/driver/in_anglvel_y_raw'' y" "reads_as env ''/driver/in_anglvel_z_raw'' z"
    "v = (mul_d (rounded env) x c, mul_d (rounded env) y c, mul_d (rounded env) z c)"
    unfolding gyro_Inr by blast
  have run: "SampleGyro env ref s = (if length (xyz_text v) < 256 then Some (Ok (), s @ [PushedJson ref (xyz_text v)]) else Some (Halt (Exit 1), s))"
    using Inr by (simp add: SampleGyro_def push_xyz_def done_act_def modifyP_def haltP_def)
  show ?thesis
    by (cases "length (xyz_text v) < 256"; intro exI disjI1 conjI; (rule f(1-4))?)
      (simp_all add: run f(5) [symmetric] json_fields_xyz [of "fst v" "fst (snd v)" "snd (snd v)", simplified])
qed

theorem gyro_sample_is_product_witness:
  "\<exists>text. SampleGyro \<lparr>sensor_file = (\<lambda>_. Some ''2''), scan_int = (\<lambda>_. Some 2), scan_double = (\<lambda>_. Some (Finite 2)), rounded = Finite,
      light_input = None\<rparr> 3 [] = Some (Ok (), [PushedJson 3 text]) \<and>
    json_fields text = [(''x'', fmt_lf (Finite 4)), (''y'', fmt_lf (Finite 4)), (''z'', fmt_lf (Finite 4))]"
proof -
  let ?env = "\<lparr>sensor_file = (\<lambda>_. Some ''2''), scan_int = (\<lambda>_. Some 2), scan_double = (\<lambda>_. Some (Finite 2)), rounded = Finite, light_input = None\<rparr>"
  let ?v = "(Finite 4, Finite 4, Finite 4)"
  have r: "reads_as ?env path d \<longleftrightarrow> d = Finite 2" for path d by (auto simp: reads_as_def)
  have "length (fmt_lf (Finite 4)) \<le> 9" using length_fmt_lf [of 4000000 1] by (simp del: fmt_lf.simps)
  then have "length (xyz_text ?v) < 256" by (simp add: xyz_text_def del: fmt_lf.simps)
  with gyro_sample_is_product [of ?env 3 "[]"] show ?thesis unfolding r by (auto simp: Let_def simp del: fmt_lf.simps)
qed

end
