(* ===== verification/Mt7697_Irq.thy ===== *)
theory Mt7697_Irq
  imports Mt7697_QueueProps
begin

text \<open>
  The interrupt side of the driver (\<^verbatim>\<open>interrupt.c\<close>): the handler that masks the line and queues work, the
  work items that drain the mailbox, and the state machine they form with the slave.  The invariant of
  the machine says where the obligation to unmask the line is; a failed mailbox access loses it.
\<close>

unbundle bit_operations_syntax

section \<open>Handlers\<close>

text \<open>
  A return value that is not negative is success whatever it is; it is 0 here.  Errors are only logged by
  the work items.  \<^verbatim>\<open>queue_delayed_work\<close> and \<^verbatim>\<open>queue_work\<close> leave an item that is already pending as it is
  and say so; \<^verbatim>\<open>enable_irq\<close> and \<^verbatim>\<open>disable_irq_nosync\<close> count the disable depth down (to 0 at least) and up.
\<close>

definition enable_irq :: "'h mt7697q_info \<Rightarrow> 'h mt7697q_info" where
  "enable_irq s = s\<lparr>irq_depth := irq_depth s - 1\<rparr>"

definition irq_rearm :: "u8 \<Rightarrow> ('h mt7697q_info, int) prog" where
  "irq_rearm s2m_mbox =
     (if s2m_mbox \<noteq> 0 then
        bindP (getP irq_delayed_work) (\<lambda>pending.
        if pending then returnP (- EINVAL)
        else seqP (modifyP (\<lambda>s. s\<lparr>irq_delayed_work := True\<rparr>)) (returnP 0))
      else seqP (modifyP enable_irq) (returnP 0))"

definition irq_channel ::
    "'h mt7697spi_hw_ops \<Rightarrow> 'h mt7697q_clients \<Rightarrow> u8 \<Rightarrow> nat \<Rightarrow> int \<Rightarrow> ('h mt7697q_info, int) prog" where
  "irq_channel ops cl s2m_mbox ch ret =
     bindP (getP (spec_of ch)) (\<lambda>qs.
     bindP (getP mt7697q_blocked_writer) (\<lambda>blocked.
     if mt7697q_flags_get_in_use (qd_flags (qdata qs)) \<noteq> 0 \<and> bit s2m_mbox ch then
       if mt7697q_flags_get_dir (qd_flags (qdata qs)) = dir_code MT7697_QUEUE_DIR_S2M then
         seqP (mt7697q_proc_data ops cl ch) (returnP 0)
       else if blocked then
         (case notify_tx_fcn qs of
            None \<Rightarrow> haltP (Bug ''notify_tx_fcn is a null pointer'')
          | Some f \<Rightarrow> tryP (call_notify_tx cl f (priv qs) (mt7697q_get_free_words qs)) returnP (\<lambda>_. returnP 0))
       else returnP ret
     else returnP ret))"

fun irq_channels ::
    "'h mt7697spi_hw_ops \<Rightarrow> 'h mt7697q_clients \<Rightarrow> u8 \<Rightarrow> nat list \<Rightarrow> int \<Rightarrow> ('h mt7697q_info, int) prog" where
  "irq_channels ops cl s2m_mbox [] ret = returnP ret"
| "irq_channels ops cl s2m_mbox (ch # chs) ret =
     bindP (irq_channel ops cl s2m_mbox ch ret) (irq_channels ops cl s2m_mbox chs)"

definition mt7697q_irq_run ::
    "'h mt7697spi_hw_ops \<Rightarrow> 'h mt7697q_clients \<Rightarrow> ('h mt7697q_info, int) prog" where
  "mt7697q_irq_run ops cl =
     bindP (mt7697q_get_s2m_mbx ops) (\<lambda>s2m_mbox.
     bindP (irq_rearm s2m_mbox) (\<lambda>ret.
     irq_channels ops cl s2m_mbox [0..<MT7697_NUM_QUEUES] ret))"

definition mt7697q_irq_delayed_work ::
    "'h mt7697spi_hw_ops \<Rightarrow> 'h mt7697q_clients \<Rightarrow> ('h mt7697q_info, unit) prog" where
  "mt7697q_irq_delayed_work ops cl = tryP (mt7697q_irq_run ops cl) (\<lambda>_. returnP ()) (\<lambda>_. returnP ())"

definition mt7697q_irq_work ::
    "'h mt7697spi_hw_ops \<Rightarrow> 'h mt7697q_clients \<Rightarrow> ('h mt7697q_info, unit) prog" where
  "mt7697q_irq_work ops cl = tryP (mt7697q_irq_run ops cl) (\<lambda>_. returnP ()) (\<lambda>_. returnP ())"

definition mt7697q_isr :: "'h mt7697q_info \<Rightarrow> 'h mt7697q_info" where
  "mt7697q_isr s = s\<lparr>irq_depth := irq_depth s + 1, irq_work := True\<rparr>"

text \<open>The operations of \<^verbatim>\<open>spi.c\<close> on the line: the same depth, for the clients of the table.\<close>

definition mt7697spi_enable_irq :: "'h mt7697q_info \<Rightarrow> 'h mt7697q_info" where
  "mt7697spi_enable_irq s = enable_irq s"

definition mt7697spi_disable_irq :: "'h mt7697q_info \<Rightarrow> 'h mt7697q_info" where
  "mt7697spi_disable_irq s = s\<lparr>irq_depth := irq_depth s + 1\<rparr>"

section \<open>The machine\<close>

text \<open>
  The line interrupts only while it is unmasked.  The workqueue takes a pending item, clears its pending
  mark and runs its handler to the end, one item at a time.  In between the slave and the clients change
  everything but the masks and the marks.
\<close>

definition irq_fields :: "'h mt7697q_info \<Rightarrow> bool \<times> bool \<times> nat" where
  "irq_fields s = (irq_work s, irq_delayed_work s, irq_depth s)"

inductive irq_step ::
    "'h mt7697spi_hw_ops \<Rightarrow> 'h mt7697q_clients \<Rightarrow> 'h mt7697q_info \<Rightarrow> 'h mt7697q_info \<Rightarrow> bool"
  for ops cl where
  interrupt: "irq_depth s = 0 \<Longrightarrow> irq_step ops cl s (mt7697q_isr s)"
| work: "irq_work s \<Longrightarrow> mt7697q_irq_work ops cl (s\<lparr>irq_work := False\<rparr>) = Some (Ok (), s') \<Longrightarrow>
    irq_step ops cl s s'"
| delayed: "irq_delayed_work s \<Longrightarrow>
    mt7697q_irq_delayed_work ops cl (s\<lparr>irq_delayed_work := False\<rparr>) = Some (Ok (), s') \<Longrightarrow>
    irq_step ops cl s s'"
| other: "irq_fields s' = irq_fields s \<Longrightarrow> irq_step ops cl s s'"

inductive_cases irq_stepE: "irq_step ops cl s s'"

definition irq_reach ::
    "'h mt7697spi_hw_ops \<Rightarrow> 'h mt7697q_clients \<Rightarrow> 'h mt7697q_info \<Rightarrow> 'h mt7697q_info \<Rightarrow> bool" where
  "irq_reach ops cl = (irq_step ops cl)\<^sup>*\<^sup>*"

text \<open>At most one of the three holds: the line is unmasked, the work or the delayed work is pending.\<close>

definition irq_inv :: "'h mt7697q_info \<Rightarrow> bool" where
  "irq_inv s \<longleftrightarrow> irq_depth s \<le> 1 \<and> (irq_work s \<longrightarrow> irq_depth s = 1 \<and> \<not> irq_delayed_work s) \<and>
     (irq_delayed_work s \<longrightarrow> irq_depth s = 1 \<and> \<not> irq_work s)"

text \<open>At least one of them holds: the driver will hear of the slave again.\<close>

definition irq_armed :: "'h mt7697q_info \<Rightarrow> bool" where
  "irq_armed s \<longleftrightarrow> irq_depth s = 0 \<or> irq_work s \<or> irq_delayed_work s"

text \<open>The clients leave the line and the work items to the driver.\<close>

definition clients_ok :: "'h mt7697q_clients \<Rightarrow> bool" where
  "clients_ok cl \<longleftrightarrow> (\<forall>F f h p n. keeps (\<lambda>s. irq_fields s = F) (call_rx cl f h p) \<and>
     keeps (\<lambda>s. irq_fields s = F) (call_notify_tx cl f p n))"

section \<open>The queue operations leave the line alone\<close>

lemma irq_fields_update [simp]:
  "irq_fields (s\<lparr>queues := a\<rparr>) = irq_fields s" "irq_fields (s\<lparr>rsp := b\<rparr>) = irq_fields s"
  "irq_fields (s\<lparr>hw := d\<rparr>) = irq_fields s" "irq_fields (s\<lparr>mutex := e\<rparr>) = irq_fields s"
  "irq_fields (s\<lparr>blocked_writer := f\<rparr>) = irq_fields s" "irq_fields (upd_data c g s) = irq_fields s"
  by (simp_all add: irq_fields_def)

abbreviation (input) irq_same :: "bool \<times> bool \<times> nat \<Rightarrow> 'h mt7697q_info \<Rightarrow> bool" where
  "irq_same F \<equiv> \<lambda>s. irq_fields s = F"

lemma hw_free_irq: "hw_free (irq_same F)"
  by (simp add: hw_free_def)

lemmas irq_io = io_keeps [OF hw_free_irq]

lemma keeps_with_mutex:
  assumes "keeps I m" "\<And>s b. I s \<Longrightarrow> I (s\<lparr>mutex := b\<rparr>)"
  shows "keeps I (with_mutex m)"
proof -
  have "keeps I mutex_lock" by (rule keepsI) (auto simp: mutex_lock_def assms(2) split: if_splits)
  with assms show ?thesis unfolding with_mutex_def by (intro keeps_intros) auto
qed

lemma irq_ops [keeps_intros]:
  "keeps (irq_same F) (rd_local ops a)"
  "keeps (irq_same F) (mt7697q_pull_wr_ptr ops c)" "keeps (irq_same F) (mt7697q_pull_rd_ptr ops c)"
  "keeps (irq_same F) (mt7697q_push_rd_ptr ops c)" "keeps (irq_same F) (mt7697q_get_s2m_mbx ops)"
  "keeps (irq_same F) (mt7697q_read ops c num)"
  unfolding rd_local_def mt7697q_pull_wr_ptr_def mt7697q_pull_rd_ptr_def mt7697q_push_rd_ptr_def
    mt7697q_get_s2m_mbx_def mt7697q_read_def q_read_to_end_def q_read_rest_def Let_def
  by (auto intro!: keeps_intros keeps_with_mutex irq_io split: prod.split)

lemma irq_rounds [keeps_intros]:
  "keeps (irq_same F) (proc_header ops c avail req)" "keeps (irq_same F) (refresh_avail ops c avail req)"
  "keeps (irq_same F) (proc_next ops c avail)"
  unfolding proc_header_def refresh_avail_def proc_next_def
  by (auto intro!: keeps_intros split: prod.split)

lemma clients_okD:
  "clients_ok cl \<Longrightarrow> keeps (irq_same F) (call_rx cl f h p)"
  "clients_ok cl \<Longrightarrow> keeps (irq_same F) (call_notify_tx cl f p n)"
  unfolding clients_ok_def by blast+

lemma irq_dispatch [keeps_intros]:
  "clients_ok cl \<Longrightarrow> keeps (irq_same F) (proc_dispatch cl c)"
  unfolding proc_dispatch_def mt7697q_proc_queue_rsp_def
  by (auto intro!: keeps_intros clients_okD split: option.split)

lemma irq_loop [keeps_intros]:
  assumes cl: "clients_ok cl"
  shows "keeps (irq_same F) (proc_loop ops cl c avail req)"
proof (rule keepsI)
  fix s r s' assume s: "irq_fields s = F" and run: "proc_loop ops cl c avail req s = Some (r, s')"
  have "irq_fields s = F \<longrightarrow> irq_fields (snd (r, s')) = F"
  proof (rule proc_loop.raw_induct [where P = "\<lambda>ops' cl' c' avail req s rs. ops' = ops \<longrightarrow> cl' = cl \<longrightarrow>
        c' = c \<longrightarrow> irq_fields s = F \<longrightarrow> irq_fields (snd rs) = F",
        OF _ run, THEN mp, THEN mp, THEN mp, OF _ refl refl refl])
    fix loop ops' cl' c' avail req s and rs :: "unit outcome \<times> 'a mt7697q_info"
    assume IH: "\<And>ops' cl' c' avail req s rs. loop ops' cl' c' avail req s = Some rs \<Longrightarrow>
        ops' = ops \<longrightarrow> cl' = cl \<longrightarrow> c' = c \<longrightarrow> irq_fields s = F \<longrightarrow> irq_fields (snd rs) = F"
      and run: "(if req \<le> avail then
        bindP (proc_header ops' c' avail req) (\<lambda>h s1.
          case h of
            None \<Rightarrow> returnP () s1
          | Some (avail1, req1) \<Rightarrow>
              bindP (refresh_avail ops' c' avail1 req1) (\<lambda>avail2 s2.
                if avail2 < req1 then returnP () s2
                else bindP (seqP (proc_dispatch cl' c') (proc_next ops' c' (avail2 - req1)))
                       (\<lambda>avail3 s3. loop ops' cl' c' avail3 (LEN_TO_WORD sizeof_rsp_hdr) s3) s2) s1) s
      else returnP () s) = Some rs"
    show "ops' = ops \<longrightarrow> cl' = cl \<longrightarrow> c' = c \<longrightarrow> irq_fields s = F \<longrightarrow> irq_fields (snd rs) = F"
    proof (intro impI)
      assume eqs: "ops' = ops" "cl' = cl" "c' = c" and s: "irq_fields s = F"
      have lp: "keeps (irq_same F) (\<lambda>s3. loop ops cl c a q s3)" for a q
        using IH eqs unfolding keeps_def by fastforce
      have step: "keeps (irq_same F) (if req \<le> avail then
        bindP (proc_header ops c avail req) (\<lambda>h.
          case h of
            None \<Rightarrow> returnP ()
          | Some (avail1, req1) \<Rightarrow>
              bindP (refresh_avail ops c avail1 req1) (\<lambda>avail2.
                if avail2 < req1 then returnP ()
                else bindP (seqP (proc_dispatch cl c) (proc_next ops c (avail2 - req1)))
                       (\<lambda>avail3 s3. loop ops cl c avail3 (LEN_TO_WORD sizeof_rsp_hdr) s3)))
        else returnP ())" (is "keeps _ ?n")
        using cl by (intro keeps_intros) (auto intro!: keeps_intros lp split: option.split)
      have "?n s = Some rs"
        unfolding run [unfolded eqs, symmetric]
        by (auto simp: bindP_def split: option.split prod.split outcome.split)
      with step s show "irq_fields (snd rs) = F" by (cases rs) (auto dest: keepsD)
    qed
  qed
  with s show "irq_fields s' = F" by simp
qed

lemma irq_proc_data [keeps_intros]:
  "clients_ok cl \<Longrightarrow> keeps (irq_same F) (mt7697q_proc_data ops cl c)"
  unfolding mt7697q_proc_data_def by (auto intro!: keeps_intros)

lemma irq_channel_same [keeps_intros]:
  "clients_ok cl \<Longrightarrow> keeps (irq_same F) (irq_channel ops cl mbox ch ret)"
  unfolding irq_channel_def by (auto intro!: keeps_intros clients_okD split: option.split)

lemma irq_channels_same [keeps_intros]:
  "clients_ok cl \<Longrightarrow> keeps (irq_same F) (irq_channels ops cl mbox chs ret)"
  by (induction chs arbitrary: ret) (auto intro!: keeps_intros)

section \<open>One run of a work item\<close>

text \<open>
  What a work item does to the line, from a state whose pending mark it has just cleared: it fails on the
  mailbox and changes nothing, it finds the mailbox empty and unmasks the line, or it queues itself again.
\<close>

lemma irq_run_fields:
  assumes cl: "clients_ok cl" and run: "mt7697q_irq_run ops cl s = Some (r, s')"
  shows "(\<exists>e s1. mt7697q_get_s2m_mbx ops s = Some (Err e, s1)) \<and> irq_fields s' = irq_fields s \<or>
    irq_fields s' = (irq_work s, irq_delayed_work s, irq_depth s - 1) \<or>
    irq_fields s' = (irq_work s, True, irq_depth s) \<or> (\<exists>h. r = Halt h)"
proof -
  obtain r1 s1 where g: "mt7697q_get_s2m_mbx ops s = Some (r1, s1)"
    using run by (cases "mt7697q_get_s2m_mbx ops s") (auto simp: mt7697q_irq_run_def bindP_def)
  have f1: "irq_fields s1 = irq_fields s" using keepsD [OF irq_ops(5) refl g] by simp
  show ?thesis
  proof (cases r1)
    case (Err e)
    with g run f1 show ?thesis by (auto simp: mt7697q_irq_run_def)
  next
    case (Halt h)
    with g run show ?thesis by (auto simp: mt7697q_irq_run_def)
  next
    case (Ok mbox)
    obtain ret s2 where re: "irq_rearm mbox s1 = Some (Ok ret, s2)"
      "irq_fields s2 = (irq_work s, irq_delayed_work s, irq_depth s - 1) \<or>
       irq_fields s2 = (irq_work s, True, irq_depth s)"
      using f1 by (cases "mbox \<noteq> 0"; cases "irq_delayed_work s1")
        (simp_all add: irq_rearm_def bindP_def getP_def seqP_def modifyP_def returnP_def enable_irq_def irq_fields_def)
    with g Ok run have "irq_channels ops cl mbox [0..<MT7697_NUM_QUEUES] ret s2 = Some (r, s')"
      by (simp add: mt7697q_irq_run_def)
    from keepsD [OF irq_channels_same [OF cl] refl this] re(2) show ?thesis by auto
  qed
qed

section \<open>Properties\<close>

lemma irq_items_fields:
  assumes cl: "clients_ok cl"
    and run: "mt7697q_irq_work ops cl s0 = Some (Ok (), s') \<or> mt7697q_irq_delayed_work ops cl s0 = Some (Ok (), s')"
  shows "(\<exists>e s1. mt7697q_get_s2m_mbx ops s0 = Some (Err e, s1)) \<and> irq_fields s' = irq_fields s0 \<or>
    irq_fields s' = (irq_work s0, irq_delayed_work s0, irq_depth s0 - 1) \<or>
    irq_fields s' = (irq_work s0, True, irq_depth s0)"
proof -
  obtain r where "mt7697q_irq_run ops cl s0 = Some (r, s')" "\<And>h. r \<noteq> Halt h"
    using run by (cases "mt7697q_irq_run ops cl s0")
      (auto simp: mt7697q_irq_work_def mt7697q_irq_delayed_work_def tryP_def returnP_def split: outcome.splits)
  with irq_run_fields [OF cl] show ?thesis by metis
qed

lemma irq_step_inv:
  assumes cl: "clients_ok cl" and step: "irq_step ops cl s s'" and inv: "irq_inv s"
  shows "irq_inv s'"
  using step
proof (cases rule: irq_step.cases)
  case interrupt
  then show ?thesis using inv by (auto simp: irq_inv_def mt7697q_isr_def)
next
  case work
  with inv irq_items_fields [OF cl, of ops "s\<lparr>irq_work := False\<rparr>" s'] show ?thesis
    by (auto simp: irq_inv_def irq_fields_def)
next
  case delayed
  with inv irq_items_fields [OF cl, of ops "s\<lparr>irq_delayed_work := False\<rparr>" s'] show ?thesis
    by (auto simp: irq_inv_def irq_fields_def)
next
  case other
  with inv show ?thesis by (simp add: irq_inv_def irq_fields_def)
qed

text \<open>The SPI controller never reports an error for the four-byte frames of the driver.\<close>

definition spi_never_fails :: "'h mt7697spi_hw_ops \<Rightarrow> bool" where
  "spi_never_fails ops \<longleftrightarrow> (\<forall>a b d e h. 0 \<le> fst (hw_write ops [a, b, d, e] h) \<and>
     0 \<le> fst (fst (hw_write_then_read ops [a, b, d, e] h)))"

lemma mailbox_never_fails:
  assumes "spi_never_fails ops"
  shows "mt7697q_get_s2m_mbx ops s \<noteq> Some (Err e, s1)"
proof -
  have w: "mt7697io_write16 ops reg v s \<noteq> Some (Err e, s')" for reg v s s'
    using assms by (auto simp: spi_never_fails_def mt7697io_write16_def split: prod.splits)
      (metis fst_conv not_less)
  have r: "mt7697io_read16 ops reg s \<noteq> Some (Err e, s')" for reg s s'
    using assms by (auto simp: spi_never_fails_def mt7697io_read16_def split: prod.splits)
      (metis fst_conv not_less)
  show ?thesis
    using w r
    by (auto simp: mt7697q_get_s2m_mbx_def with_mutex_def mutex_lock_def mt7697io_rd_s2m_mbx_def
        mt7697io_clr_s2m_mbx_def seqP_def bindP_def finallyP_def returnP_def
        split: option.splits prod.splits outcome.splits if_splits)
qed

lemma irq_step_armed:
  assumes cl: "clients_ok cl" and ops: "spi_never_fails ops" and step: "irq_step ops cl s s'"
    and inv: "irq_inv s" "irq_armed s"
  shows "irq_armed s'"
  using step
proof (cases rule: irq_step.cases)
  case work
  with inv irq_items_fields [OF cl, of ops "s\<lparr>irq_work := False\<rparr>" s'] mailbox_never_fails [OF ops]
  show ?thesis by (auto simp: irq_inv_def irq_armed_def irq_fields_def)
next
  case delayed
  with inv irq_items_fields [OF cl, of ops "s\<lparr>irq_delayed_work := False\<rparr>" s'] mailbox_never_fails [OF ops]
  show ?thesis by (auto simp: irq_inv_def irq_armed_def irq_fields_def)
qed (use inv in \<open>auto simp: irq_armed_def irq_fields_def mt7697q_isr_def\<close>)

text \<open>C3: in every reachable state the line is masked at most once, and at most one of the work item and the
  delayed work item is pending, and then the line is masked: the handler never finds its work already
  queued and no work item unmasks a line that is not masked.\<close>

theorem irq_exclusive:
  assumes "clients_ok cl" "irq_inv s" "irq_reach ops cl s s'"
  shows "irq_inv s'"
  using assms(3,2) unfolding irq_reach_def
  by (induction rule: rtranclp_induct) (auto intro: irq_step_inv [OF assms(1)])

text \<open>C6: while the SPI controller reports no error, the driver can always hear of the slave again: in every
  reachable state the line is unmasked or one of the work items that will look at the mailbox is pending.\<close>

theorem irq_stays_armed:
  assumes "clients_ok cl" "spi_never_fails ops" "irq_inv s" "irq_armed s" "irq_reach ops cl s s'"
  shows "irq_armed s'"
proof -
  have "irq_inv s' \<and> irq_armed s'"
    using assms(5,3,4) unfolding irq_reach_def
    by (induction rule: rtranclp_induct)
      (auto intro: irq_step_inv [OF assms(1)] irq_step_armed [OF assms(1,2)])
  then show ?thesis by simp
qed

text \<open>One error on the mailbox makes the driver deaf: the work item that meets it returns with the line
  masked and nothing pending, and from there no interrupt and no work item of the driver ever runs again.\<close>

theorem mailbox_error_deafens:
  assumes "irq_inv s" "irq_work s"
    and fail: "mt7697q_get_s2m_mbx ops (s\<lparr>irq_work := False\<rparr>) = Some (Err e, s1)"
  shows "irq_step ops cl s s1 \<and> (irq_reach ops cl s1 s2 \<longrightarrow> \<not> irq_armed s2)"
proof -
  have run: "mt7697q_irq_work ops cl (s\<lparr>irq_work := False\<rparr>) = Some (Ok (), s1)"
    using fail by (simp add: mt7697q_irq_work_def mt7697q_irq_run_def tryP_def returnP_def)
  have dead: "irq_fields s1 = (False, False, 1)"
    using keepsD [OF irq_ops(5) refl fail] assms(1,2) by (auto simp: irq_fields_def irq_inv_def)
  have "irq_fields s2 = (False, False, 1)" if "irq_reach ops cl s1 s2"
    using that dead unfolding irq_reach_def
    by (induction rule: rtranclp_induct) (auto elim!: irq_stepE simp: irq_fields_def)
  with run assms(2) show ?thesis
    by (auto intro: irq_step.work simp: irq_armed_def irq_fields_def)
qed

definition idle_clients :: "'h mt7697q_clients" where
  "idle_clients = \<lparr>call_rx = (\<lambda>_ _ _. returnP ()), call_notify_tx = (\<lambda>_ _ _. returnP ())\<rparr>"

lemma idle_clients_ok: "clients_ok idle_clients"
  by (simp add: clients_ok_def idle_clients_def keeps_basic)

lemma example_irq: "irq_inv example_state" "irq_armed example_state"
  by (simp_all add: irq_inv_def irq_armed_def example_state_def)

lemma ideal_never_fails: "spi_never_fails ideal_ops"
  by (auto simp: spi_never_fails_def ideal_ops_def)

lemma example_interrupt: "irq_reach ops cl example_state (mt7697q_isr example_state)"
  unfolding irq_reach_def by (rule r_into_rtranclp, rule irq_step.interrupt) (simp add: example_state_def)

theorem irq_exclusive_witness: "irq_inv (mt7697q_isr example_state)"
  by (rule irq_exclusive [OF idle_clients_ok example_irq(1) example_interrupt [of ideal_ops]])

theorem irq_stays_armed_witness: "irq_armed (mt7697q_isr example_state)"
  by (rule irq_stays_armed [OF idle_clients_ok ideal_never_fails example_irq example_interrupt])

definition dead_ops :: "(slave_view \<times> nat) mt7697spi_hw_ops" where
  "dead_ops = \<lparr>hw_write = (\<lambda>_ h. (- EIO, h)), hw_write_then_read = (\<lambda>_ h. ((- EIO, []), h))\<rparr>"

theorem mailbox_error_deafens_witness:
  "\<exists>s1. irq_step dead_ops idle_clients (mt7697q_isr example_state) s1 \<and> \<not> irq_armed s1"
proof -
  let ?s = "mt7697q_isr example_state"
  have "mt7697q_get_s2m_mbx dead_ops (?s\<lparr>irq_work := False\<rparr>) = Some (Err (- EIO), ?s\<lparr>irq_work := False\<rparr>)"
    by (simp add: mt7697q_get_s2m_mbx_def with_mutex_def mutex_lock_def mt7697io_rd_s2m_mbx_def
        mt7697io_read16_def dead_ops_def seqP_def bindP_def finallyP_def mt7697q_isr_def example_state_def)
  moreover have "irq_inv ?s" "irq_work ?s"
    by (simp_all add: irq_inv_def mt7697q_isr_def example_state_def)
  ultimately show ?thesis
    using mailbox_error_deafens [of ?s dead_ops "- EIO" "?s\<lparr>irq_work := False\<rparr>" idle_clients "?s\<lparr>irq_work := False\<rparr>"]
    by (auto simp: irq_reach_def)
qed

end
