(* ===== verification/Mt7697_Spi.thy ===== *)
theory Mt7697_Spi
  imports Mt7697_Queue
begin

text \<open>
  Loading and unloading the driver (\<^verbatim>\<open>spi.c\<close>): the kernel resources \<^verbatim>\<open>mt7697spi_init\<close> takes and gives
  back, and those \<^verbatim>\<open>mt7697spi_exit\<close> gives back.  The kernel's answers are the parameter \<^theory_text>\<open>spi_env\<close>; the
  effect is the sequence of resource events, from which what is held at any moment is computed.
\<close>

section \<open>Resources\<close>

datatype spi_event = Kzalloc | Kfree | AllocWq | DestroyWq | RequestGpio | FreeGpio
  | RequestIrq | FreeIrq | SetDrvdata | CancelWork

text \<open>
  A resource is held from the event that takes it to the event that gives it back.
\<close>

fun held :: "spi_event \<Rightarrow> spi_event \<Rightarrow> bool \<Rightarrow> spi_event list \<Rightarrow> bool" where
  "held get put b [] = b"
| "held get put b (e # es) = held get put (if e = get then True else if e = put then False else b) es"

abbreviation qinfo_held :: "spi_event list \<Rightarrow> bool" where "qinfo_held \<equiv> held Kzalloc Kfree False"
abbreviation workq_held :: "spi_event list \<Rightarrow> bool" where "workq_held \<equiv> held AllocWq DestroyWq False"
abbreviation gpio_held :: "spi_event list \<Rightarrow> bool" where "gpio_held \<equiv> held RequestGpio FreeGpio False"
abbreviation irq_held :: "spi_event list \<Rightarrow> bool" where "irq_held \<equiv> held RequestIrq FreeIrq False"
abbreviation drvdata_set :: "spi_event list \<Rightarrow> bool" where "drvdata_set es \<equiv> SetDrvdata \<in> set es"

lemma held_append [simp]: "held g p b (es @ fs) = held g p (held g p b es) fs"
  by (induction es arbitrary: b) auto

section \<open>The kernel's answers\<close>

record ('m, 'd) spi_env =
  env_master :: "nat \<Rightarrow> 'm option"
  env_ch_config :: "'m \<Rightarrow> int"
  env_device :: "'m \<Rightarrow> 'd option"
  env_kzalloc :: bool
  env_workqueue :: bool
  env_gpio_request :: int
  env_gpio_to_irq :: int
  env_request_irq :: int

text \<open>
  \<^verbatim>\<open>MT7697_SPI_INTR_GPIO_PIN\<close> is 50 or 8, by the module the driver is built for.  \<^verbatim>\<open>to_spi_device\<close> of a
  device found is never a null pointer.
\<close>

abbreviation (input) MT7697_SPI_INTR_GPIO_PIN_INVALID :: int where "MT7697_SPI_INTR_GPIO_PIN_INVALID \<equiv> -1"

record spi_state =
  events :: "spi_event list"
  spi_gpio_pin :: int
  spi_irq :: int

definition emit :: "spi_event \<Rightarrow> (spi_state, unit) prog" where
  "emit e = modifyP (\<lambda>s. s\<lparr>events := events s @ [e]\<rparr>)"

section \<open>Loading\<close>

text \<open>The labels of the function's error paths, from the last one up.\<close>

definition free_gpio_pin :: "(spi_state, unit) prog" where
  "free_gpio_pin = bindP (getP spi_gpio_pin) (\<lambda>pin. whenP (pin > 0) (emit FreeGpio))"

definition spi_find_device :: "('m, 'd) spi_env \<Rightarrow> (spi_state, unit) prog" where
  "spi_find_device env =
     (case find_spi_master (env_master env) MT7697_SPI_BUS_NUM of
        None \<Rightarrow> throwP (- EINVAL)
      | Some m \<Rightarrow>
          if env_ch_config env m < 0 then throwP (env_ch_config env m)
          else (case env_device env m of None \<Rightarrow> throwP (- EINVAL) | Some d \<Rightarrow> returnP ()))"

definition spi_request_gpio :: "int \<Rightarrow> ('m, 'd) spi_env \<Rightarrow> (spi_state, unit) prog" where
  "spi_request_gpio pin env =
     seqP (modifyP (\<lambda>s. s\<lparr>spi_gpio_pin := pin\<rparr>))
     (let ret = env_gpio_request env in
      if ret < 0 then
        if ret \<noteq> - EBUSY then throwP ret
        else modifyP (\<lambda>s. s\<lparr>spi_irq := env_gpio_to_irq env, spi_gpio_pin := MT7697_SPI_INTR_GPIO_PIN_INVALID\<rparr>)
      else seqP (emit RequestGpio) (modifyP (\<lambda>s. s\<lparr>spi_irq := env_gpio_to_irq env\<rparr>)))"

definition spi_request_irq :: "('m, 'd) spi_env \<Rightarrow> (spi_state, unit) prog" where
  "spi_request_irq env =
     (if env_request_irq env < 0 then seqP free_gpio_pin (throwP (env_request_irq env))
      else emit RequestIrq)"

definition mt7697spi_init :: "int \<Rightarrow> ('m, 'd) spi_env \<Rightarrow> (spi_state, unit) prog" where
  "mt7697spi_init pin env =
     seqP (spi_find_device env)
     (if \<not> env_kzalloc env then throwP (- ENOMEM)
      else seqP (emit Kzalloc)
       (tryP
         (if \<not> env_workqueue env then throwP (- ENOMEM)
          else seqP (emit AllocWq)
           (tryP (seqP (spi_request_gpio pin env) (spi_request_irq env))
             (\<lambda>ret. seqP (emit DestroyWq) (throwP ret))
             (\<lambda>_. emit SetDrvdata)))
         (\<lambda>ret. seqP (emit Kfree) (throwP ret))
         returnP))"

section \<open>Unloading\<close>

definition mt7697spi_exit :: "('m, 'd) spi_env \<Rightarrow> (spi_state, unit) prog" where
  "mt7697spi_exit env =
     (case find_spi_master (env_master env) MT7697_SPI_BUS_NUM of
        None \<Rightarrow> returnP ()
      | Some m \<Rightarrow> (case env_device env m of
          None \<Rightarrow> returnP ()
        | Some d \<Rightarrow>
            bindP (getP (\<lambda>s. drvdata_set (events s))) (\<lambda>has_qinfo.
            whenP has_qinfo
             (seqP (emit CancelWork)
             (seqP (emit DestroyWq)
             (seqP (emit FreeIrq)
             (seqP free_gpio_pin
                   (emit Kfree))))))))"

section \<open>What is held\<close>

definition nothing_held :: "spi_event list \<Rightarrow> bool" where
  "nothing_held es \<longleftrightarrow> \<not> qinfo_held es \<and> \<not> workq_held es \<and> \<not> gpio_held es \<and> \<not> irq_held es"

text \<open>The handler queues work: while the line is requested, the workqueue and the queue information exist.\<close>

definition isr_safe :: "spi_event list \<Rightarrow> bool" where
  "isr_safe es \<longleftrightarrow> (irq_held es \<longrightarrow> workq_held es \<and> qinfo_held es)"

definition always_safe :: "spi_event list \<Rightarrow> bool" where
  "always_safe es \<longleftrightarrow> list_all isr_safe (map (\<lambda>n. take n es) [0..<Suc (length es)])"

abbreviation fresh :: spi_state where "fresh \<equiv> \<lparr>events = [], spi_gpio_pin = 0, spi_irq = 0\<rparr>"

text \<open>The runs of the loading function, by the first answer of the kernel that fails.\<close>

lemma init_runs:
  assumes "spi_find_device env fresh = Some (Ok (), fresh)" "0 < pin"
  shows "mt7697spi_init pin env fresh =
    (if \<not> env_kzalloc env then Some (Err (- ENOMEM), fresh)
     else if \<not> env_workqueue env then Some (Err (- ENOMEM), fresh\<lparr>events := [Kzalloc, Kfree]\<rparr>)
     else if env_gpio_request env < 0 \<and> env_gpio_request env \<noteq> - EBUSY then
       Some (Err (env_gpio_request env), \<lparr>events = [Kzalloc, AllocWq, DestroyWq, Kfree], spi_gpio_pin = pin, spi_irq = 0\<rparr>)
     else if env_gpio_request env < 0 then
       (if env_request_irq env < 0 then
          Some (Err (env_request_irq env), \<lparr>events = [Kzalloc, AllocWq, DestroyWq, Kfree], spi_gpio_pin = -1, spi_irq = env_gpio_to_irq env\<rparr>)
        else Some (Ok (), \<lparr>events = [Kzalloc, AllocWq, RequestIrq, SetDrvdata], spi_gpio_pin = -1, spi_irq = env_gpio_to_irq env\<rparr>))
     else if env_request_irq env < 0 then
       Some (Err (env_request_irq env), \<lparr>events = [Kzalloc, AllocWq, RequestGpio, FreeGpio, DestroyWq, Kfree], spi_gpio_pin = pin, spi_irq = env_gpio_to_irq env\<rparr>)
     else Some (Ok (), \<lparr>events = [Kzalloc, AllocWq, RequestGpio, RequestIrq, SetDrvdata], spi_gpio_pin = pin, spi_irq = env_gpio_to_irq env\<rparr>))"
  using assms
  by (simp add: mt7697spi_init_def spi_request_gpio_def spi_request_irq_def free_gpio_pin_def emit_def Let_def
      seqP_def bindP_def tryP_def whenP_def modifyP_def getP_def throwP_def returnP_def)

lemma find_device_cases:
  "spi_find_device env s = Some (Ok (), s) \<or> (\<exists>e<0. spi_find_device env s = Some (Err e, s))"
  by (auto simp: spi_find_device_def throwP_def returnP_def split: option.split)

lemma init_fails_early:
  "spi_find_device env fresh = Some (Err e, fresh) \<Longrightarrow> mt7697spi_init pin env fresh = Some (Err e, fresh)"
  by (simp add: mt7697spi_init_def)

text \<open>The two ways to succeed, and what unloading does after them.\<close>

definition loaded :: "bool \<Rightarrow> spi_event list" where
  "loaded gpio = [Kzalloc, AllocWq] @ (if gpio then [RequestGpio] else []) @ [RequestIrq, SetDrvdata]"

definition unloaded :: "bool \<Rightarrow> spi_event list" where
  "unloaded gpio = loaded gpio @ [CancelWork, DestroyWq, FreeIrq] @ (if gpio then [FreeGpio] else []) @ [Kfree]"

lemma loaded_facts:
  "qinfo_held (loaded g)" "workq_held (loaded g)" "irq_held (loaded g)" "drvdata_set (loaded g)"
  "gpio_held (loaded g) = g" "nothing_held (unloaded g)" "drvdata_set (unloaded g)" "\<not> qinfo_held (unloaded g)"
  by (cases g; simp add: loaded_def unloaded_def nothing_held_def)+

lemma loaded_safe: "always_safe (loaded g)" "\<not> always_safe (unloaded g)"
proof -
  have "always_safe (loaded True)" "always_safe (loaded False)" by code_simp+
  then show "always_safe (loaded g)" by (cases g) simp_all
  have "\<not> always_safe (unloaded True)" "\<not> always_safe (unloaded False)" by code_simp+
  then show "\<not> always_safe (unloaded g)" by (cases g) simp_all
qed

lemma init_ok_state:
  assumes "0 < pin" "mt7697spi_init pin env fresh = Some (Ok (), s)"
  shows "events s = loaded (0 \<le> env_gpio_request env)" "(0 < spi_gpio_pin s) = (0 \<le> env_gpio_request env)"
    "\<exists>m d. find_spi_master (env_master env) MT7697_SPI_BUS_NUM = Some m \<and> env_device env m = Some d"
proof -
  have ok: "spi_find_device env fresh = Some (Ok (), fresh)"
    using find_device_cases [of env fresh] assms(2) init_fails_early by fastforce
  then show "\<exists>m d. find_spi_master (env_master env) MT7697_SPI_BUS_NUM = Some m \<and> env_device env m = Some d"
    by (auto simp: spi_find_device_def throwP_def split: option.splits if_splits)
  from init_runs [OF ok assms(1)] assms
  show "events s = loaded (0 \<le> env_gpio_request env)" "(0 < spi_gpio_pin s) = (0 \<le> env_gpio_request env)"
    by (auto simp: loaded_def split: if_splits)
qed

lemma exit_run:
  assumes "find_spi_master (env_master env) MT7697_SPI_BUS_NUM = Some m" "env_device env m = Some d"
    "events s = loaded g" "(0 < spi_gpio_pin s) = g"
  shows "mt7697spi_exit env s = Some (Ok (), s\<lparr>events := unloaded g\<rparr>)"
proof -
  have e: "emit x s = Some (Ok (), s\<lparr>events := events s @ [x]\<rparr>)" for x s by (simp add: emit_def modifyP_def)
  have f: "free_gpio_pin s = Some (Ok (), if 0 < spi_gpio_pin s then s\<lparr>events := events s @ [FreeGpio]\<rparr> else s)" for s
    by (simp add: free_gpio_pin_def whenP_def returnP_def e)
  show ?thesis
    using assms loaded_facts(4) [of g]
    by (cases g) (simp_all add: mt7697spi_exit_def e f unloaded_def whenP_def)
qed

section \<open>Properties\<close>


text \<open>When it succeeds, the queue information, the workqueue and the interrupt line are held, the pin
  exactly if its request was granted (a pin that is busy is used without being owned), and at no moment
  of the loading could the handler have run without the workqueue it queues work on.\<close>

theorem init_success_holds:
  assumes "0 < pin" "mt7697spi_init pin env fresh = Some (Ok (), s)"
  shows "qinfo_held (events s) \<and> workq_held (events s) \<and> irq_held (events s) \<and> drvdata_set (events s) \<and>
    (gpio_held (events s) \<longleftrightarrow> 0 \<le> env_gpio_request env) \<and> (gpio_held (events s) \<longleftrightarrow> 0 < spi_gpio_pin s) \<and>
    always_safe (events s)"
  using init_ok_state(1,2) [OF assms] by (simp add: loaded_facts loaded_safe)

text \<open>Unloading after a successful loading gives back everything that is held, the pin included, but
  in an order that is not safe: between the destruction of the workqueue and the release of the line the
  handler can still run, and the driver data keeps pointing to the freed queue information.\<close>

theorem exit_releases_all:
  assumes "0 < pin" "mt7697spi_init pin env fresh = Some (Ok (), s)"
  shows "\<exists>s'. mt7697spi_exit env s = Some (Ok (), s') \<and> nothing_held (events s') \<and>
    \<not> always_safe (events s') \<and> drvdata_set (events s')"
  using init_ok_state [OF assms] exit_run [of env _ _ s] by (fastforce simp: loaded_facts loaded_safe)

definition example_env :: "(nat, nat) spi_env" where
  "example_env = \<lparr>env_master = (\<lambda>n. if n = 5 then Some 0 else None), env_ch_config = (\<lambda>_. 0), env_device = Some,
     env_kzalloc = True, env_workqueue = True, env_gpio_request = 0, env_gpio_to_irq = 40, env_request_irq = 0\<rparr>"

lemma example_env_init:
  "mt7697spi_init 8 example_env fresh =
     Some (Ok (), \<lparr>events = [Kzalloc, AllocWq, RequestGpio, RequestIrq, SetDrvdata], spi_gpio_pin = 8, spi_irq = 40\<rparr>)"
proof -
  have up: "find_spi_master (\<lambda>n. if n = 5 then Some (0::nat) else None) (n + 5) = Some 0" for n
    by (induction n) (simp_all add: eval_nat_numeral)
  have m: "find_spi_master (env_master example_env) 32766 = Some 0"
    using up [of 32761] by (simp add: example_env_def)
  have "spi_find_device example_env fresh = Some (Ok (), fresh)"
    by (simp add: spi_find_device_def m) (simp add: example_env_def returnP_def)
  from init_runs [OF this, of 8] show "mt7697spi_init 8 example_env fresh =
     Some (Ok (), \<lparr>events = [Kzalloc, AllocWq, RequestGpio, RequestIrq, SetDrvdata], spi_gpio_pin = 8, spi_irq = 40\<rparr>)"
    by (simp add: example_env_def)
qed


theorem init_success_holds_witness:
  "gpio_held [Kzalloc, AllocWq, RequestGpio, RequestIrq, SetDrvdata] \<and>
   always_safe [Kzalloc, AllocWq, RequestGpio, RequestIrq, SetDrvdata]"
  using init_success_holds [OF _ example_env_init] by simp

theorem exit_releases_all_witness:
  "\<exists>s'. mt7697spi_exit example_env \<lparr>events = [Kzalloc, AllocWq, RequestGpio, RequestIrq, SetDrvdata],
     spi_gpio_pin = 8, spi_irq = 40\<rparr> = Some (Ok (), s') \<and> nothing_held (events s') \<and> \<not> always_safe (events s')"
  using exit_releases_all [OF _ example_env_init] by auto

end
