(* ===== verification/Iot_Eeprom.thy ===== *)
theory Iot_Eeprom
  imports Mangoh_Prelude
begin

text \<open>
  The EEPROM of an IoT card (\<^verbatim>\<open>linux_kernel_modules/iot_slot/iot-slot-eeprom.c\<close> and its headers): the
  buffer its contents are read into, the walk over the interface descriptions behind the master header,
  and the accessors of a description.  A pointer into the buffer is its offset; an access outside the
  buffer, which the walk does not guard against, is undefined behaviour.
\<close>

unbundle bit_operations_syntax

section \<open>Layout (iot-slot-eeprom.h, iot-slot-eeprom-1v0.h)\<close>

datatype EepromInterface = EEPROM_IF_GPIO | EEPROM_IF_I2C | EEPROM_IF_SPI | EEPROM_IF_USB | EEPROM_IF_SDIO
  | EEPROM_IF_ADC | EEPROM_IF_PCM | EEPROM_IF_CLK | EEPROM_IF_UART | EEPROM_IF_PLAT

fun if_code :: "EepromInterface \<Rightarrow> u8" where
  "if_code EEPROM_IF_GPIO = 0"
| "if_code EEPROM_IF_I2C = 1"
| "if_code EEPROM_IF_SPI = 2"
| "if_code EEPROM_IF_USB = 3"
| "if_code EEPROM_IF_SDIO = 4"
| "if_code EEPROM_IF_ADC = 5"
| "if_code EEPROM_IF_PCM = 6"
| "if_code EEPROM_IF_CLK = 7"
| "if_code EEPROM_IF_UART = 8"
| "if_code EEPROM_IF_PLAT = 9"

abbreviation (input) EEPROM_IF_LAST :: u8 where "EEPROM_IF_LAST \<equiv> 0xFF"
abbreviation (input) IRQ_GPIO_UNUSED :: u8 where "IRQ_GPIO_UNUSED \<equiv> 0xFF"
abbreviation (input) IOT_EEPROM_SIZE :: nat where "IOT_EEPROM_SIZE \<equiv> 4096"
abbreviation (input) VERSION_OFFSET :: nat where "VERSION_OFFSET \<equiv> 2"
abbreviation (input) EEPROM_1V0_INTERFACE_OFFSET :: nat where "EEPROM_1V0_INTERFACE_OFFSET \<equiv> 192"
abbreviation (input) sizeof_if_1v0 :: nat where "sizeof_if_1v0 \<equiv> 64"

text \<open>
  A description is one byte of type and 63 bytes whose layout the type decides: the offsets of the fields
  from the start of the description.
\<close>

abbreviation (input) off_type :: nat where "off_type \<equiv> 0"
abbreviation (input) off_gpio_cfg :: nat where "off_gpio_cfg \<equiv> 1"
abbreviation (input) off_i2c_address :: nat where "off_i2c_address \<equiv> 1"
abbreviation (input) off_i2c_irq_gpio :: nat where "off_i2c_irq_gpio \<equiv> 2"
abbreviation (input) off_i2c_modalias :: nat where "off_i2c_modalias \<equiv> 3"
abbreviation (input) off_spi_irq_gpio :: nat where "off_spi_irq_gpio \<equiv> 1"
abbreviation (input) off_spi_modalias :: nat where "off_spi_modalias \<equiv> 2"
abbreviation (input) sizeof_modalias :: nat where "sizeof_modalias \<equiv> 32"

section \<open>State\<close>

text \<open>
  \<^verbatim>\<open>this_eeprom\<close>: the buffer and the list of interface maps, of which only the pointer to the description
  matters (every map points back to the one client).  \<^theory_text>\<open>at24_clients\<close> counts the clients registered on
  the bus.
\<close>

record eeprom_map =
  buffer :: "u8 list"
  if_list :: "nat list"
  at24_clients :: nat

text \<open>
  What the kernel answers: whether the client is created, what its setup callback reads (\<^theory_text>\<open>None\<close> when the
  at24 driver does not bind and the callback does not run, \<^theory_text>\<open>Some None\<close> when the read is short or fails),
  and which of the allocations succeed.
\<close>

record eeprom_env =
  i2c_new_client :: bool
  at24_read :: "u8 list option option"
  kzalloc_ok :: "nat \<Rightarrow> bool"

section \<open>Operations\<close>

definition at24_eeprom_setup :: "u8 list option \<Rightarrow> ('z eeprom_map_scheme, unit) prog" where
  "at24_eeprom_setup rd =
     seqP (modifyP (\<lambda>s. s\<lparr>if_list := []\<rparr>))
     (case rd of
        Some bytes \<Rightarrow> modifyP (\<lambda>s. s\<lparr>buffer := bytes\<rparr>)
      | None \<Rightarrow> modifyP (\<lambda>s. s\<lparr>buffer := replicate IOT_EEPROM_SIZE 0xFF\<rparr>))"

definition byte_at :: "nat \<Rightarrow> ('z eeprom_map_scheme, u8) prog" where
  "byte_at off = bindP (getP buffer) (\<lambda>b.
     if off < length b then returnP (b ! off) else haltP (Undefined ''read outside the EEPROM buffer''))"

definition valid_header :: "u8 list \<Rightarrow> bool" where
  "valid_header b \<longleftrightarrow> b ! 0 = 0xAA \<and> b ! 1 = 0x55"

text \<open>\<^verbatim>\<open>to_eeprom_buffer\<close> gives a null pointer when the header is not valid.\<close>

definition to_eeprom_buffer :: "('z eeprom_map_scheme, bool) prog" where
  "to_eeprom_buffer = getP (\<lambda>s. valid_header (buffer s))"

definition HOST_UINT16 :: "u8 list \<Rightarrow> nat \<Rightarrow> u16" where
  "HOST_UINT16 b off = push_bit 8 (ucast (b ! off)) OR ucast (b ! (off + 1))"

definition EEPROM_VERSION :: "nat \<Rightarrow> nat \<Rightarrow> u16" where
  "EEPROM_VERSION major minor = push_bit 8 (word_of_nat major AND 0xFF) OR (word_of_nat minor AND 0xFF)"

definition eeprom_version :: "('z eeprom_map_scheme, u16) prog" where
  "eeprom_version =
     bindP to_eeprom_buffer (\<lambda>valid.
     if valid then getP (\<lambda>s. HOST_UINT16 (buffer s) VERSION_OFFSET)
     else haltP (Undefined ''version of a null buffer''))"

text \<open>Every accessor knows version 1.0 only and stops the kernel on any other.\<close>

definition on_1v0 :: "('z eeprom_map_scheme, 'a) prog \<Rightarrow> ('z eeprom_map_scheme, 'a) prog" where
  "on_1v0 m = bindP eeprom_version (\<lambda>v.
     if v = EEPROM_VERSION 1 0 then m else haltP (Bug ''unsupported EEPROM version''))"

definition eeprom_if_first :: "('z eeprom_map_scheme, nat option) prog" where
  "eeprom_if_first = on_1v0 (
     bindP (byte_at (EEPROM_1V0_INTERFACE_OFFSET + off_type)) (\<lambda>t.
     returnP (if t = EEPROM_IF_LAST then None else Some EEPROM_1V0_INTERFACE_OFFSET)))"

definition eeprom_if_next :: "nat \<Rightarrow> ('z eeprom_map_scheme, nat option) prog" where
  "eeprom_if_next prev = on_1v0 (
     bindP (byte_at (prev + off_type)) (\<lambda>t.
     returnP (if t = EEPROM_IF_LAST then None else Some (prev + sizeof_if_1v0))))"

definition eeprom_free_interfaces :: "('z eeprom_map_scheme, unit) prog" where
  "eeprom_free_interfaces = modifyP (\<lambda>s. s\<lparr>if_list := []\<rparr>)"

text \<open>
  The loop over the descriptions; \<open>count\<close> is the number of allocations so far.  It cannot go on for ever,
  because a description outside the buffer ends it in undefined behaviour: a step more than the buffer
  has descriptions is enough.
\<close>

fun load_from :: "eeprom_env \<Rightarrow> nat \<Rightarrow> nat \<Rightarrow> nat option \<Rightarrow> ('z eeprom_map_scheme, int) prog" where
  "load_from env fuel count None = returnP (int count)"
| "load_from env 0 count (Some ifc) = divergeP"
| "load_from env (Suc fuel) count (Some ifc) =
     (if \<not> kzalloc_ok env count then seqP eeprom_free_interfaces (returnP (- 1))
      else seqP (modifyP (\<lambda>s. s\<lparr>if_list := if_list s @ [ifc]\<rparr>))
          (bindP (eeprom_if_next ifc) (load_from env fuel (Suc count))))"

definition eeprom_load_interfaces :: "eeprom_env \<Rightarrow> ('z eeprom_map_scheme, int) prog" where
  "eeprom_load_interfaces env =
     bindP eeprom_if_first (load_from env (IOT_EEPROM_SIZE div sizeof_if_1v0 + 1) 0)"

definition i2c_unregister_client :: "('z eeprom_map_scheme, unit) prog" where
  "i2c_unregister_client = modifyP (\<lambda>s. s\<lparr>at24_clients := at24_clients s - 1\<rparr>)"

text \<open>The result says whether the pointer returned is a client or null.\<close>

definition eeprom_load :: "eeprom_env \<Rightarrow> bool \<Rightarrow> ('z eeprom_map_scheme, bool) prog" where
  "eeprom_load env adapter =
     (if \<not> adapter then returnP False
      else if \<not> i2c_new_client env then returnP False
      else seqP (modifyP (\<lambda>s. s\<lparr>at24_clients := at24_clients s + 1\<rparr>))
          (seqP (case at24_read env of None \<Rightarrow> returnP () | Some rd \<Rightarrow> at24_eeprom_setup rd)
          (bindP to_eeprom_buffer (\<lambda>valid.
           if \<not> valid then seqP i2c_unregister_client (returnP False)
           else bindP (eeprom_load_interfaces env) (\<lambda>n. returnP (n > 0))))))"

definition eeprom_unload :: "('z eeprom_map_scheme, unit) prog" where
  "eeprom_unload =
     bindP to_eeprom_buffer (\<lambda>valid.
     seqP eeprom_free_interfaces
    (seqP (if valid then modifyP (\<lambda>s. s\<lparr>buffer := replicate IOT_EEPROM_SIZE 0xFF\<rparr>)
           else haltP (Undefined ''memset of a null pointer''))
          i2c_unregister_client))"

definition eeprom_num_slots :: int where
  "eeprom_num_slots = 1"

definition eeprom_if_list :: "('z eeprom_map_scheme, nat list) prog" where
  "eeprom_if_list = getP if_list"

definition eeprom_if_type :: "nat \<Rightarrow> ('z eeprom_map_scheme, u8) prog" where
  "eeprom_if_type item = on_1v0 (byte_at (item + off_type))"

text \<open>The field of a description of type \<open>t\<close>; a description of another type stops the kernel.\<close>

definition field_of :: "EepromInterface \<Rightarrow> nat \<Rightarrow> ('z eeprom_map_scheme, 'a) prog \<Rightarrow> ('z eeprom_map_scheme, 'a) prog" where
  "field_of t item m = on_1v0 (
     bindP (byte_at (item + off_type)) (\<lambda>ty.
     if ty \<noteq> if_code t then haltP (Bug ''interface of another type'') else m))"

fun bytes_at :: "nat \<Rightarrow> nat \<Rightarrow> ('z eeprom_map_scheme, u8 list) prog" where
  "bytes_at off 0 = returnP []"
| "bytes_at off (Suc n) = bindP (byte_at off) (\<lambda>x. bindP (bytes_at (Suc off) n) (\<lambda>xs. returnP (x # xs)))"

definition eeprom_if_gpio_cfg :: "nat \<Rightarrow> nat \<Rightarrow> ('z eeprom_map_scheme, u8) prog" where
  "eeprom_if_gpio_cfg item pin = field_of EEPROM_IF_GPIO item
     (if pin \<ge> 4 then haltP (Bug ''pin out of range'') else byte_at (item + off_gpio_cfg + pin))"

definition eeprom_if_spi_modalias :: "nat \<Rightarrow> ('z eeprom_map_scheme, u8 list) prog" where
  "eeprom_if_spi_modalias item = field_of EEPROM_IF_SPI item (bytes_at (item + off_spi_modalias) sizeof_modalias)"

definition eeprom_if_spi_irq_gpio :: "nat \<Rightarrow> ('z eeprom_map_scheme, u8) prog" where
  "eeprom_if_spi_irq_gpio item = field_of EEPROM_IF_SPI item (byte_at (item + off_spi_irq_gpio))"

definition eeprom_if_i2c_modalias :: "nat \<Rightarrow> ('z eeprom_map_scheme, u8 list) prog" where
  "eeprom_if_i2c_modalias item = field_of EEPROM_IF_I2C item (bytes_at (item + off_i2c_modalias) sizeof_modalias)"

definition eeprom_if_i2c_irq_gpio :: "nat \<Rightarrow> ('z eeprom_map_scheme, u8) prog" where
  "eeprom_if_i2c_irq_gpio item = field_of EEPROM_IF_I2C item (byte_at (item + off_i2c_irq_gpio))"

definition eeprom_if_i2c_address :: "nat \<Rightarrow> ('z eeprom_map_scheme, u8) prog" where
  "eeprom_if_i2c_address item = field_of EEPROM_IF_I2C item (byte_at (item + off_i2c_address))"

section \<open>The walk\<close>

definition desc_off :: "nat \<Rightarrow> nat" where
  "desc_off k = EEPROM_1V0_INTERFACE_OFFSET + k * sizeof_if_1v0"

text \<open>
  A card in order: the whole buffer, its header, version 1.0, and \<open>n\<close> descriptions before the first
  terminator, all inside the buffer.
\<close>

definition card_ok :: "nat \<Rightarrow> u8 list \<Rightarrow> bool" where
  "card_ok n b \<longleftrightarrow> length b = IOT_EEPROM_SIZE \<and> valid_header b \<and> HOST_UINT16 b VERSION_OFFSET = EEPROM_VERSION 1 0 \<and>
     desc_off n < IOT_EEPROM_SIZE \<and> b ! desc_off n = EEPROM_IF_LAST \<and> (\<forall>k<n. b ! desc_off k \<noteq> EEPROM_IF_LAST)"

lemma on_1v0_run:
  "valid_header (buffer s) \<Longrightarrow> HOST_UINT16 (buffer s) VERSION_OFFSET = EEPROM_VERSION 1 0 \<Longrightarrow> on_1v0 m s = m s"
  by (simp add: on_1v0_def eeprom_version_def to_eeprom_buffer_def bindP_def getP_def)

lemma byte_at_run: "off < length (buffer s) \<Longrightarrow> byte_at off s = Some (Ok (buffer s ! off), s)"
  by (simp add: byte_at_def returnP_def)

lemma if_next_run:
  assumes "valid_header (buffer s)" "HOST_UINT16 (buffer s) VERSION_OFFSET = EEPROM_VERSION 1 0" "ifc < length (buffer s)"
  shows "eeprom_if_next ifc s =
    Some (Ok (if buffer s ! ifc = EEPROM_IF_LAST then None else Some (ifc + sizeof_if_1v0)), s)"
  using assms byte_at_run [of ifc s] by (simp add: eeprom_if_next_def on_1v0_run returnP_def)

text \<open>From the description \<open>k\<close> on, all allocations granted: the rest and the terminator are appended.\<close>

lemma load_from_ok:
  fixes s :: "'z eeprom_map_scheme"
  assumes card: "card_ok n (buffer s)" and k: "k \<le> n" and fuel: "n - k < fuel"
    and alloc: "\<And>i. kzalloc_ok env i"
  shows "load_from env fuel count (Some (desc_off k)) s =
    Some (Ok (int (count + Suc n - k)), s\<lparr>if_list := if_list s @ map desc_off [k..<Suc n]\<rparr>)"
  using card k fuel
proof (induction "n - k" arbitrary: k fuel count s)
  case 0
  then have [simp]: "k = n" by simp
  obtain f where f: "fuel = Suc f" using 0 by (cases fuel) auto
  let ?s1 = "s\<lparr>if_list := if_list s @ [desc_off n]\<rparr>"
  have "eeprom_if_next (desc_off n) ?s1 = Some (Ok None, ?s1)"
    using 0 if_next_run [of ?s1 "desc_off n"] by (simp add: card_ok_def)
  then show ?case using f alloc by (simp add: returnP_def)
next
  case (Suc m)
  obtain f where f: "fuel = Suc f" using Suc.prems by (cases fuel) auto
  have k: "k < n" using Suc by simp
  let ?s1 = "s\<lparr>if_list := if_list s @ [desc_off k]\<rparr>"
  have lt: "desc_off k < length (buffer s)" and ne: "buffer s ! desc_off k \<noteq> EEPROM_IF_LAST"
    using Suc.prems k by (auto simp: card_ok_def desc_off_def)
  have nxt: "desc_off k + 64 = desc_off (Suc k)" by (simp add: desc_off_def)
  have "eeprom_if_next (desc_off k) ?s1 = Some (Ok (Some (desc_off (Suc k))), ?s1)"
    using Suc.prems(1) lt ne if_next_run [of ?s1 "desc_off k"] by (simp add: card_ok_def nxt)
  moreover have "load_from env f (Suc count) (Some (desc_off (Suc k))) ?s1 =
      Some (Ok (int (Suc count + Suc n - Suc k)), ?s1\<lparr>if_list := if_list ?s1 @ map desc_off [Suc k..<Suc n]\<rparr>)"
    using Suc k f by (intro Suc.hyps(1)) simp_all
  ultimately show ?case
    using f alloc k by (simp add: upt_conv_Cons)
qed

text \<open>With no terminator the walk leaves the buffer.\<close>

definition card_open :: "u8 list \<Rightarrow> bool" where
  "card_open b \<longleftrightarrow> length b = IOT_EEPROM_SIZE \<and> valid_header b \<and> HOST_UINT16 b VERSION_OFFSET = EEPROM_VERSION 1 0 \<and>
     (\<forall>k<61. b ! desc_off k \<noteq> EEPROM_IF_LAST)"

lemma load_from_open:
  fixes s :: "'z eeprom_map_scheme"
  assumes card: "card_open (buffer s)" and k: "k \<le> 61" and fuel: "61 - k < fuel" and alloc: "\<And>i. kzalloc_ok env i"
  shows "\<exists>u s'. load_from env fuel count (Some (desc_off k)) s = Some (Halt (Undefined u), s')"
  using card k fuel
proof (induction "61 - k" arbitrary: k fuel count s)
  case 0
  then have [simp]: "k = 61" by simp
  obtain f where f: "fuel = Suc f" using 0 by (cases fuel) auto
  let ?s1 = "s\<lparr>if_list := if_list s @ [desc_off 61]\<rparr>"
  have "\<not> desc_off 61 < length (buffer ?s1)" using 0 by (simp add: card_open_def desc_off_def)
  then have "\<exists>u. byte_at (desc_off 61) ?s1 = Some (Halt (Undefined u), ?s1)"
    by (simp add: byte_at_def haltP_def)
  then have "\<exists>u. eeprom_if_next (desc_off 61) ?s1 = Some (Halt (Undefined u), ?s1)"
    using 0 by (auto simp: eeprom_if_next_def on_1v0_run card_open_def)
  then show ?case using f alloc by auto
next
  case (Suc m)
  obtain f where f: "fuel = Suc f" using Suc.prems by (cases fuel) auto
  have k: "k < 61" using Suc by simp
  let ?s1 = "s\<lparr>if_list := if_list s @ [desc_off k]\<rparr>"
  have lt: "desc_off k < length (buffer s)" and ne: "buffer s ! desc_off k \<noteq> EEPROM_IF_LAST"
    using Suc.prems k by (auto simp: card_open_def desc_off_def)
  have nxt: "desc_off k + 64 = desc_off (Suc k)" by (simp add: desc_off_def)
  have "eeprom_if_next (desc_off k) ?s1 = Some (Ok (Some (desc_off (Suc k))), ?s1)"
    using Suc.prems(1) lt ne if_next_run [of ?s1 "desc_off k"] by (simp add: card_open_def nxt)
  moreover have "\<exists>u s'. load_from env f (Suc count) (Some (desc_off (Suc k))) ?s1 = Some (Halt (Undefined u), s')"
    using Suc k f by (intro Suc.hyps(1)) simp_all
  ultimately show ?case using f alloc by simp
qed

text \<open>A failed allocation on the way frees the maps made so far.\<close>

lemma load_from_nomem:
  fixes s :: "'z eeprom_map_scheme"
  assumes card: "card_ok n (buffer s)" and k: "k \<le> j" "j \<le> n" and fuel: "n - k < fuel"
    and alloc: "\<And>i. i < j \<Longrightarrow> kzalloc_ok env i" "\<not> kzalloc_ok env j"
  shows "load_from env fuel k (Some (desc_off k)) s = Some (Ok (- 1), s\<lparr>if_list := []\<rparr>)"
  using card k fuel
proof (induction "j - k" arbitrary: k fuel s)
  case 0
  then have [simp]: "k = j" by simp
  obtain f where "fuel = Suc f" using 0 by (cases fuel) auto
  then show ?case using alloc by (simp add: eeprom_free_interfaces_def returnP_def)
next
  case (Suc m)
  obtain f where f: "fuel = Suc f" using Suc.prems by (cases fuel) auto
  have k: "k < j" using Suc by simp
  let ?s1 = "s\<lparr>if_list := if_list s @ [desc_off k]\<rparr>"
  have lt: "desc_off k < length (buffer s)" and ne: "buffer s ! desc_off k \<noteq> EEPROM_IF_LAST"
    using Suc.prems k by (auto simp: card_ok_def desc_off_def)
  have nxt: "desc_off k + 64 = desc_off (Suc k)" by (simp add: desc_off_def)
  have "eeprom_if_next (desc_off k) ?s1 = Some (Ok (Some (desc_off (Suc k))), ?s1)"
    using Suc.prems(1) lt ne if_next_run [of ?s1 "desc_off k"] by (simp add: card_ok_def nxt)
  moreover have "load_from env f (Suc k) (Some (desc_off (Suc k))) ?s1 = Some (Ok (- 1), ?s1\<lparr>if_list := []\<rparr>)"
    using Suc k f by (intro Suc.hyps(1)) simp_all
  ultimately show ?case using f alloc(1) [OF k] by simp
qed

section \<open>Loading and unloading\<close>

lemma load_start:
  fixes s :: "'z eeprom_map_scheme"
  assumes "i2c_new_client env" "at24_read env = Some (Some b)" "valid_header b"
  shows "eeprom_load env True s =
    bindP (eeprom_load_interfaces env) (\<lambda>n. returnP (n > 0))
      (s\<lparr>at24_clients := at24_clients s + 1, if_list := [], buffer := b\<rparr>)"
  using assms
  by (simp add: eeprom_load_def at24_eeprom_setup_def to_eeprom_buffer_def seqP_def modifyP_def bindP_def getP_def)

lemma if_first_run:
  assumes "valid_header (buffer s)" "HOST_UINT16 (buffer s) VERSION_OFFSET = EEPROM_VERSION 1 0"
    and "192 < length (buffer s)"
  shows "eeprom_if_first s = Some (Ok (if buffer s ! 192 = EEPROM_IF_LAST then None else Some (desc_off 0)), s)"
  using assms byte_at_run [of 192 s] by (simp add: eeprom_if_first_def on_1v0_run returnP_def desc_off_def)

lemma load_ok_run:
  fixes s :: "'z eeprom_map_scheme"
  assumes env: "i2c_new_client env" "at24_read env = Some (Some b)" "\<And>i. kzalloc_ok env i"
    and card: "card_ok n b" and n: "0 < n"
  shows "eeprom_load env True s = Some (Ok True,
    s\<lparr>at24_clients := at24_clients s + 1, if_list := map desc_off [0..<Suc n], buffer := b\<rparr>)"
proof -
  let ?s1 = "s\<lparr>at24_clients := at24_clients s + 1, if_list := [], buffer := b\<rparr>"
  have "eeprom_if_first ?s1 = Some (Ok (Some (desc_off 0)), ?s1)"
    using card n if_first_run [of ?s1] by (auto simp: card_ok_def desc_off_def)
  moreover have "load_from env 65 0 (Some (desc_off 0)) ?s1 =
      Some (Ok (int (Suc n)), ?s1\<lparr>if_list := map desc_off [0..<Suc n]\<rparr>)"
    using load_from_ok [of n ?s1 0 65 env 0] card env(3) by (auto simp: card_ok_def desc_off_def)
  ultimately show ?thesis
    using card env by (simp add: load_start card_ok_def eeprom_load_interfaces_def returnP_def)
qed

text \<open>C8: loading a card in order makes the list of all its \<open>n\<close> interface descriptions in their order in
  the EEPROM, followed by the terminator, which is a member of the list as well, so that the number of
  interfaces reported is one too many.  The walk over the buffer always ends.\<close>

theorem eeprom_load_lists_interfaces:
  fixes s :: "'z eeprom_map_scheme"
  assumes "i2c_new_client env" "at24_read env = Some (Some b)" "\<And>i. kzalloc_ok env i"
    and "card_ok n b" "0 < n"
  shows "eeprom_load env True s = Some (Ok True,
    s\<lparr>at24_clients := at24_clients s + 1, if_list := map desc_off [0..<n] @ [desc_off n], buffer := b\<rparr>)"
  using load_ok_run [OF assms, of s] by simp

text \<open>A card whose descriptions fill the EEPROM up to its end without a terminator makes the walk read
  behind the buffer: undefined behaviour that the contents of the card alone bring about.\<close>

theorem eeprom_without_terminator_overruns:
  fixes s :: "'z eeprom_map_scheme"
  assumes env: "i2c_new_client env" "at24_read env = Some (Some b)" "\<And>i. kzalloc_ok env i" and card: "card_open b"
  shows "\<exists>u s'. eeprom_load env True s = Some (Halt (Undefined u), s')"
proof -
  let ?s1 = "s\<lparr>at24_clients := at24_clients s + 1, if_list := [], buffer := b\<rparr>"
  have "eeprom_if_first ?s1 = Some (Ok (Some (desc_off 0)), ?s1)"
  proof -
    have "b ! desc_off 0 \<noteq> EEPROM_IF_LAST" using card by (simp add: card_open_def)
    then show ?thesis using card if_first_run [of ?s1] by (auto simp: card_open_def desc_off_def)
  qed
  moreover have "\<exists>u s'. load_from env 65 0 (Some (desc_off 0)) ?s1 = Some (Halt (Undefined u), s')"
    using load_from_open [of ?s1 0 65 env 0] card env(3) by auto
  ultimately show ?thesis
    using card env by (auto simp: load_start card_open_def eeprom_load_interfaces_def)
qed

text \<open>When loading finds nothing to return, it gives the client back if the header is not valid or the
  read failed, but keeps it registered, with no pointer left to it, when the card has no interface or an
  allocation fails on the way; the interface list is empty in every case.\<close>

theorem eeprom_load_null:
  fixes s :: "'z eeprom_map_scheme"
  assumes new: "i2c_new_client env" and rd: "at24_read env = Some r"
  shows
    "(r = None \<or> (\<exists>b. r = Some b \<and> \<not> valid_header b) \<longrightarrow>
       (\<exists>s'. eeprom_load env True s = Some (Ok False, s') \<and> at24_clients s' = at24_clients s \<and> if_list s' = [])) \<and>
     (\<forall>b n j. r = Some b \<and> card_ok n b \<and> (n = 0 \<or> j \<le> n \<and> (\<forall>i<j. kzalloc_ok env i) \<and> \<not> kzalloc_ok env j) \<longrightarrow>
       (\<exists>s'. eeprom_load env True s = Some (Ok False, s') \<and> at24_clients s' = at24_clients s + 1 \<and> if_list s' = []))"
proof (intro conjI allI impI)
  have ff: "\<not> valid_header (replicate IOT_EEPROM_SIZE 0xFF)" by (simp add: valid_header_def)
  assume "r = None \<or> (\<exists>b. r = Some b \<and> \<not> valid_header b)"
  then show "\<exists>s'. eeprom_load env True s = Some (Ok False, s') \<and> at24_clients s' = at24_clients s \<and> if_list s' = []"
    using new rd ff
    by (auto simp: eeprom_load_def at24_eeprom_setup_def to_eeprom_buffer_def i2c_unregister_client_def
        seqP_def modifyP_def bindP_def getP_def returnP_def)
next
  fix b n j
  assume a: "r = Some b \<and> card_ok n b \<and> (n = 0 \<or> j \<le> n \<and> (\<forall>i<j. kzalloc_ok env i) \<and> \<not> kzalloc_ok env j)"
  let ?s1 = "s\<lparr>at24_clients := at24_clients s + 1, if_list := [], buffer := b\<rparr>"
  have b: "b ! 192 = EEPROM_IF_LAST \<longleftrightarrow> n = 0"
    using a by (auto simp: card_ok_def desc_off_def)
  have "eeprom_if_first ?s1 = Some (Ok (if n = 0 then None else Some (desc_off 0)), ?s1)"
    using a b if_first_run [of ?s1] by (simp add: card_ok_def)
  moreover have "load_from env 65 0 (Some (desc_off 0)) ?s1 = Some (Ok (- 1), ?s1\<lparr>if_list := []\<rparr>)" if "n \<noteq> 0"
    using load_from_nomem [of n ?s1 0 j 65 env] a that by (auto simp: card_ok_def desc_off_def)
  ultimately show "\<exists>s'. eeprom_load env True s = Some (Ok False, s') \<and>
      at24_clients s' = at24_clients s + 1 \<and> if_list s' = []"
    using a new rd by (cases "n = 0") (simp_all add: load_start card_ok_def eeprom_load_interfaces_def returnP_def)
qed

text \<open>Unloading undoes loading: the client is gone, the list is empty and the buffer is invalid again, so
  that the next card cannot be taken for this one.\<close>

theorem eeprom_unload_undoes_load:
  fixes s :: "'z eeprom_map_scheme"
  assumes "i2c_new_client env" "at24_read env = Some (Some b)" "\<And>i. kzalloc_ok env i" "card_ok n b" "0 < n"
  shows "\<exists>s'. bindP (eeprom_load env True) (\<lambda>_. eeprom_unload) s = Some (Ok (), s') \<and>
    at24_clients s' = at24_clients s \<and> if_list s' = [] \<and> \<not> valid_header (buffer s')"
proof -
  let ?s1 = "s\<lparr>at24_clients := at24_clients s + 1, if_list := map desc_off [0..<Suc n], buffer := b\<rparr>"
  let ?s2 = "s\<lparr>at24_clients := at24_clients s, if_list := [], buffer := replicate IOT_EEPROM_SIZE 0xFF\<rparr>"
  have "eeprom_load env True s = Some (Ok True, ?s1)"
    by (rule load_ok_run [OF assms])
  moreover have "eeprom_unload ?s1 = Some (Ok (), ?s2)"
    using assms(4)
    by (simp add: eeprom_unload_def to_eeprom_buffer_def card_ok_def eeprom_free_interfaces_def
        i2c_unregister_client_def seqP_def modifyP_def bindP_def getP_def)
  moreover have "\<not> valid_header (buffer ?s2)" by (simp add: valid_header_def)
  ultimately show ?thesis by simp
qed

section \<open>Cards by their interface types\<close>

text \<open>The contents of a card of version 1.0 with descriptions of the given types and no other data.\<close>

definition card_bytes :: "u8 list \<Rightarrow> u8 list" where
  "card_bytes types = [0xAA, 0x55, 1, 0] @ replicate 188 0 @ concat (map (\<lambda>t. t # replicate 63 0) types) @
     replicate (3904 - 64 * length types) 0xFF"

lemma length_descs: "length (concat (map (\<lambda>t. t # replicate 63 (0 :: u8)) types)) = 64 * length types"
  by (induction types) auto

lemma descs_nth: "k < length types \<Longrightarrow> concat (map (\<lambda>t. t # replicate 63 (0 :: u8)) types) ! (64 * k) = types ! k"
proof (induction types arbitrary: k)
  case (Cons t types)
  then show ?case
  proof (cases k)
    case (Suc j)
    then have "64 * k = length (t # replicate 63 (0 :: u8)) + 64 * j" by simp
    with Cons Suc show ?thesis by (simp only: list.map concat.simps nth_append_length_plus) simp
  qed simp
qed simp

lemma card_bytes_type:
  assumes "length types \<le> 61" "k < 61"
  shows "card_bytes types ! desc_off k = (if k < length types then types ! k else 0xFF)"
proof -
  have "card_bytes types ! desc_off k =
      (concat (map (\<lambda>t. t # replicate 63 0) types) @ replicate (3904 - 64 * length types) 0xFF) ! (64 * k)"
    unfolding card_bytes_def desc_off_def
    using nth_append_length_plus [of "[0xAA, 0x55, 1, 0] @ replicate 188 (0 :: u8)" _ "64 * k"]
    by (simp add: mult.commute)
  also have "\<dots> = (if k < length types then types ! k else 0xFF)"
    using assms by (simp add: nth_append length_descs descs_nth)
  finally show ?thesis .
qed

lemma card_bytes_header:
  assumes "length types \<le> 61"
  shows "length (card_bytes types) = IOT_EEPROM_SIZE" "valid_header (card_bytes types)"
    "HOST_UINT16 (card_bytes types) VERSION_OFFSET = EEPROM_VERSION 1 0"
proof -
  have "HOST_UINT16 [0xAA, 0x55, 1, 0] 2 = EEPROM_VERSION 1 0" by code_simp
  then show "HOST_UINT16 (card_bytes types) VERSION_OFFSET = EEPROM_VERSION 1 0"
    by (simp add: HOST_UINT16_def card_bytes_def numeral_2_eq_2 numeral_3_eq_3)
qed (use assms in \<open>simp_all add: card_bytes_def valid_header_def length_descs\<close>)

lemma card_bytes_ok:
  "length types < 61 \<Longrightarrow> 0xFF \<notin> set types \<Longrightarrow> card_ok (length types) (card_bytes types)"
  using card_bytes_header [of types]
  by (auto simp: card_ok_def card_bytes_type dest: nth_mem) (simp add: desc_off_def)

definition example_eeprom :: eeprom_map where
  "example_eeprom = \<lparr>buffer = replicate IOT_EEPROM_SIZE 0, if_list = [], at24_clients = 0\<rparr>"

definition card_env :: "u8 list \<Rightarrow> eeprom_env" where
  "card_env types = \<lparr>i2c_new_client = True, at24_read = Some (Some (card_bytes types)), kzalloc_ok = (\<lambda>_. True)\<rparr>"

lemma card_env_simps [simp]:
  "i2c_new_client (card_env types)" "at24_read (card_env types) = Some (Some (card_bytes types))"
  "kzalloc_ok (card_env types) i"
  by (simp_all add: card_env_def)

theorem eeprom_load_lists_interfaces_witness:
  "\<exists>s'. eeprom_load (card_env [1, 2]) True example_eeprom = Some (Ok True, s') \<and> if_list s' = [192, 256, 320]"
proof -
  have two: "length [1, 2 :: u8] = 2" by simp
  have "card_ok 2 (card_bytes [1, 2])"
    by (rule card_bytes_ok [of "[1, 2]", unfolded two]) simp_all
  from eeprom_load_lists_interfaces [OF _ _ _ this, of "card_env [1, 2]" example_eeprom] show ?thesis
    by (simp add: desc_off_def upt_conv_Cons)
qed

theorem eeprom_without_terminator_overruns_witness:
  "\<exists>u s'. eeprom_load (card_env (replicate 61 7)) True example_eeprom = Some (Halt (Undefined u), s')"
proof (rule eeprom_without_terminator_overruns)
  show "card_open (card_bytes (replicate 61 7))"
    using card_bytes_header [of "replicate 61 7"] by (simp add: card_open_def card_bytes_type)
qed simp_all

theorem eeprom_load_null_witness:
  "\<exists>s'. eeprom_load (card_env []) True example_eeprom = Some (Ok False, s') \<and> at24_clients s' = 1"
  using eeprom_load_null [of "card_env []" "Some (card_bytes [])" example_eeprom] card_bytes_ok [of "[]"]
  by (auto simp: example_eeprom_def)

theorem eeprom_unload_undoes_load_witness:
  "\<exists>s'. bindP (eeprom_load (card_env [1]) True) (\<lambda>_. eeprom_unload) example_eeprom = Some (Ok (), s') \<and>
     at24_clients s' = 0"
  using eeprom_unload_undoes_load [of "card_env [1]" _ 1 example_eeprom] card_bytes_ok [of "[1]"]
  by (auto simp: example_eeprom_def)

end
