(* ===== verification/Iot_Slot.thy ===== *)
theory Iot_Slot
  imports Iot_Eeprom
begin

text \<open>
  The IoT slot driver (\<^verbatim>\<open>linux_kernel_modules/iot_slot/iot-slot-core.c\<close>): probing a slot, enumerating
  the interfaces of the card in it, and giving everything back.  The calls into the kernel and into the
  board's platform data are recorded as a list of actions, and their answers are a parameter that may
  depend on all the calls before.  A pointer to a slot structure is a number.
\<close>

unbundle bit_operations_syntax

section \<open>Calls to the kernel and the platform\<close>

datatype iot_act = GpioRequest int | GpioFree int | GpioDirOut int int | GpioDirIn int
  | GpioSet int int | GpioGet int | GpioPullUp int | GpioPullDown int | GpioToIrq int | Msleep nat
  | I2cNew "u8 list" "int option" u8 | I2cUnregister int
  | SpiNew "u8 list" "int option" int | SpiUnregister int
  | RequestI2c | ReleaseI2c | RequestSpi | ReleaseSpi | RequestSdio | ReleaseSdio
  | RequestAdc | ReleaseAdc | RequestPcm | ReleasePcm | RequestUart | ReleaseUart | Kzalloc

text \<open>
  The platform data of a slot (\<^verbatim>\<open>iot-slot.h\<close>); \<open>provides\<close> tells which function pointers are set, by the
  call they stand for.
\<close>

record iot_slot_platform_data =
  pd_gpio :: "int list"
  reset_gpio :: int
  card_detect_gpio :: int
  provides :: "iot_act \<Rightarrow> bool"

text \<open>
  The answers: the return value of a call (for \<^theory_text>\<open>I2cNew\<close> and \<^theory_text>\<open>SpiNew\<close> the device, negative for a null
  pointer), the chip select the platform gives with the SPI master, and what loading the EEPROM meets.
\<close>

record iot_env =
  answer :: "iot_act list \<Rightarrow> iot_act \<Rightarrow> int"
  chip_select :: int
  card :: eeprom_env

section \<open>State (iot-slot-core.c)\<close>

datatype iot_slot_interface = IOT_SLOT_INTERFACE_GPIO | IOT_SLOT_INTERFACE_I2C | IOT_SLOT_INTERFACE_SPI
  | IOT_SLOT_INTERFACE_USB | IOT_SLOT_INTERFACE_SDIO | IOT_SLOT_INTERFACE_ADC | IOT_SLOT_INTERFACE_PCM
  | IOT_SLOT_INTERFACE_CLK | IOT_SLOT_INTERFACE_UART | IOT_SLOT_INTERFACE_PLATFORM

record iot_slot_interface_data =
  if_type :: iot_slot_interface
  if_device :: int

record iot_slot =
  pdev :: "nat option"
  card_present :: bool
  i2c_adapter :: bool
  num_interfaces :: nat
  interfaces :: "iot_slot_interface_data list"

abbreviation (input) NUM_SUPPORTED :: nat where "NUM_SUPPORTED \<equiv> 3"
abbreviation (input) MAX_INTERFACES :: nat where "MAX_INTERFACES \<equiv> 10"

record iot_world = eeprom_map +
  acts :: "iot_act list"
  slots :: "nat option list"
  slot_mem :: "nat \<Rightarrow> iot_slot"
  drvdata :: "nat \<Rightarrow> nat option"
  next_slot :: nat
  management_mutex :: bool

type_synonym 'a iot_prog = "(iot_world, 'a) prog"

definition call :: "iot_env \<Rightarrow> iot_act \<Rightarrow> int iot_prog" where
  "call env a s = Some (Ok (answer env (acts s) a), s\<lparr>acts := acts s @ [a]\<rparr>)"

definition call_fn :: "iot_env \<Rightarrow> iot_slot_platform_data \<Rightarrow> iot_act \<Rightarrow> int iot_prog" where
  "call_fn env pd a = (if provides pd a then call env a else haltP (Bug ''call of a null pointer''))"

definition the_slot :: "nat \<Rightarrow> iot_world \<Rightarrow> iot_slot" where
  "the_slot p s = slot_mem s p"

definition upd_slot :: "nat \<Rightarrow> (iot_slot \<Rightarrow> iot_slot) \<Rightarrow> iot_world \<Rightarrow> iot_world" where
  "upd_slot p f s = s\<lparr>slot_mem := (slot_mem s)(p := f (slot_mem s p))\<rparr>"

section \<open>Labels\<close>

fun decimal :: "nat \<Rightarrow> string" where
  "decimal n = (if n < 10 then [char_of (48 + n)] else decimal (n div 10) @ [char_of (48 + n mod 10)])"

definition decimal_int :: "int \<Rightarrow> string" where
  "decimal_int i = (if i < 0 then ''-'' @ decimal (nat (- i)) else decimal (nat i))"

text \<open>A label that does not fit its array, with the terminating zero, stops the kernel.\<close>

definition check_label :: "string \<Rightarrow> nat \<Rightarrow> unit iot_prog" where
  "check_label l room = whenP (room \<le> length l) (haltP (Bug ''label too long''))"

definition gpio_label :: "int \<Rightarrow> nat \<Rightarrow> string" where
  "gpio_label slot_index i = ''IoT slot '' @ decimal_int slot_index @ '' gpio '' @ decimal i"

definition reset_label :: "int \<Rightarrow> string" where
  "reset_label slot_index = ''IoT slot '' @ decimal_int slot_index @ '' reset''"

definition card_detect_label :: "int \<Rightarrow> string" where
  "card_detect_label slot_index = ''IoT slot '' @ decimal_int slot_index @ '' card detect''"

section \<open>Adding one interface\<close>

text \<open>The entry after the last one is filled in, and then counted.\<close>

definition set_entry :: "nat \<Rightarrow> iot_slot_interface \<Rightarrow> int \<Rightarrow> iot_world \<Rightarrow> iot_world" where
  "set_entry p t dev = upd_slot p (\<lambda>sl. sl\<lparr>interfaces := (interfaces sl)[num_interfaces sl :=
     \<lparr>if_type = t, if_device = dev\<rparr>]\<rparr>)"

definition count_entry :: "nat \<Rightarrow> iot_world \<Rightarrow> iot_world" where
  "count_entry p = upd_slot p (\<lambda>sl. sl\<lparr>num_interfaces := num_interfaces sl + 1\<rparr>)"

definition add_entry :: "nat \<Rightarrow> iot_slot_interface \<Rightarrow> int \<Rightarrow> unit iot_prog" where
  "add_entry p t dev = seqP (modifyP (set_entry p t dev)) (modifyP (count_entry p))"

definition gpio_at :: "iot_slot_platform_data \<Rightarrow> nat \<Rightarrow> int iot_prog" where
  "gpio_at pd i = (if i < length (pd_gpio pd) then returnP (pd_gpio pd ! i)
     else haltP (Undefined ''gpio array index out of range''))"

definition gpio_configure :: "iot_env \<Rightarrow> u8 \<Rightarrow> int \<Rightarrow> unit iot_prog" where
  "gpio_configure env cfg g =
     (if cfg = 4 then seqP (call env (GpioDirOut g 0)) (returnP ())
      else if cfg = 5 then seqP (call env (GpioDirOut g 1)) (returnP ())
      else if cfg = 1 then seqP (call env (GpioDirIn g)) (seqP (call env (GpioPullUp g)) (returnP ()))
      else if cfg = 2 then seqP (call env (GpioDirIn g)) (seqP (call env (GpioPullDown g)) (returnP ()))
      else if cfg = 3 then seqP (call env (GpioDirIn g)) (returnP ())
      else returnP ())"

text \<open>
  One pin.  The cleanup loop of a pin that cannot be acquired returns from its first round: the first of
  the pins acquired is released and no other, and for pin 0 the loop has no round and the function goes
  on with the pin not acquired.
\<close>

definition gpio_pin :: "iot_env \<Rightarrow> iot_slot_platform_data \<Rightarrow> int \<Rightarrow> nat \<Rightarrow> nat \<Rightarrow> unit iot_prog" where
  "gpio_pin env pd slot_index item i =
     bindP (eeprom_if_gpio_cfg item i) (\<lambda>cfg.
     seqP (check_label (gpio_label slot_index i) 20)
    (bindP (gpio_at pd i) (\<lambda>g.
     bindP (call env (GpioRequest g)) (\<lambda>ret.
     if ret \<noteq> 0 \<and> 0 < i then
       bindP (gpio_at pd 0) (\<lambda>g0. seqP (call env (GpioFree g0)) (throwP (- EACCES)))
     else gpio_configure env cfg g))))"

definition iot_slot_add_gpio :: "iot_env \<Rightarrow> iot_slot_platform_data \<Rightarrow> int \<Rightarrow> nat \<Rightarrow> nat \<Rightarrow> unit iot_prog" where
  "iot_slot_add_gpio env pd slot_index p item =
     seqP (foreachP (gpio_pin env pd slot_index item) [0..<4]) (add_entry p IOT_SLOT_INTERFACE_GPIO 0)"

text \<open>The interrupt of a device: the number in the description is an index that nothing checks.\<close>

definition irq_of :: "iot_env \<Rightarrow> iot_slot_platform_data \<Rightarrow> u8 \<Rightarrow> int option iot_prog" where
  "irq_of env pd irq_gpio =
     (if irq_gpio \<noteq> IRQ_GPIO_UNUSED then
        bindP (gpio_at pd (unat irq_gpio)) (\<lambda>g. bindP (call env (GpioToIrq g)) (\<lambda>irq. returnP (Some irq)))
      else returnP None)"

text \<open>\<^verbatim>\<open>strncpy\<close> into an array of \<open>n\<close> bytes: up to the first zero, padded with zeros, cut at \<open>n\<close>.\<close>

definition strncpy :: "nat \<Rightarrow> u8 list \<Rightarrow> u8 list" where
  "strncpy n src = (let t = takeWhile (\<lambda>c. c \<noteq> 0) (take n src) in t @ replicate (n - length t) 0)"

abbreviation (input) I2C_NAME_SIZE :: nat where "I2C_NAME_SIZE \<equiv> 20"
abbreviation (input) SPI_NAME_SIZE :: nat where "SPI_NAME_SIZE \<equiv> 32"

definition iot_slot_add_i2c :: "iot_env \<Rightarrow> iot_slot_platform_data \<Rightarrow> nat \<Rightarrow> nat \<Rightarrow> unit iot_prog" where
  "iot_slot_add_i2c env pd p item =
     bindP (eeprom_if_i2c_modalias item) (\<lambda>modalias.
     bindP (eeprom_if_i2c_irq_gpio item) (\<lambda>irq_gpio.
     bindP (irq_of env pd irq_gpio) (\<lambda>irq.
     bindP (eeprom_if_i2c_address item) (\<lambda>addr.
     bindP (call env (I2cNew (strncpy I2C_NAME_SIZE modalias) irq addr)) (\<lambda>client.
     seqP (modifyP (set_entry p IOT_SLOT_INTERFACE_I2C client))
     (if client < 0 then throwP (- EINVAL) else modifyP (count_entry p)))))))"

definition iot_slot_add_spi :: "iot_env \<Rightarrow> iot_slot_platform_data \<Rightarrow> nat \<Rightarrow> nat \<Rightarrow> unit iot_prog" where
  "iot_slot_add_spi env pd p item =
     bindP (call_fn env pd RequestSpi) (\<lambda>ret.
     if ret \<noteq> 0 then throwP (- ENODEV)
     else
     bindP (eeprom_if_spi_irq_gpio item) (\<lambda>irq_gpio.
     bindP (irq_of env pd irq_gpio) (\<lambda>irq.
     bindP (eeprom_if_spi_modalias item) (\<lambda>modalias.
     bindP (call env (SpiNew (strncpy SPI_NAME_SIZE modalias) irq (chip_select env))) (\<lambda>dev.
     if dev < 0 then seqP (call_fn env pd ReleaseSpi) (throwP (- ENODEV))
     else add_entry p IOT_SLOT_INTERFACE_SPI dev)))))"

text \<open>An interface that the platform requests, when it has a function for it.\<close>

definition add_requested ::
    "iot_env \<Rightarrow> iot_slot_platform_data \<Rightarrow> iot_act \<Rightarrow> iot_slot_interface \<Rightarrow> nat \<Rightarrow> unit iot_prog" where
  "add_requested env pd req t p =
     seqP (whenP (provides pd req)
            (bindP (call env req) (\<lambda>ret. whenP (ret \<noteq> 0) (throwP (- ENODEV)))))
          (add_entry p t 0)"

definition iot_slot_add_sdio :: "iot_env \<Rightarrow> iot_slot_platform_data \<Rightarrow> nat \<Rightarrow> nat \<Rightarrow> unit iot_prog" where
  "iot_slot_add_sdio env pd p item = add_requested env pd RequestSdio IOT_SLOT_INTERFACE_SDIO p"

definition iot_slot_add_adc :: "iot_env \<Rightarrow> iot_slot_platform_data \<Rightarrow> nat \<Rightarrow> nat \<Rightarrow> unit iot_prog" where
  "iot_slot_add_adc env pd p item = add_requested env pd RequestAdc IOT_SLOT_INTERFACE_ADC p"

definition iot_slot_add_pcm :: "iot_env \<Rightarrow> iot_slot_platform_data \<Rightarrow> nat \<Rightarrow> nat \<Rightarrow> unit iot_prog" where
  "iot_slot_add_pcm env pd p item = add_requested env pd RequestPcm IOT_SLOT_INTERFACE_PCM p"

definition iot_slot_add_uart :: "iot_env \<Rightarrow> iot_slot_platform_data \<Rightarrow> nat \<Rightarrow> nat \<Rightarrow> unit iot_prog" where
  "iot_slot_add_uart env pd p item = add_requested env pd RequestUart IOT_SLOT_INTERFACE_UART p"

section \<open>Releasing\<close>

definition release_interface ::
    "iot_env \<Rightarrow> iot_slot_platform_data \<Rightarrow> iot_slot_interface_data \<Rightarrow> unit iot_prog" where
  "release_interface env pd d = (case if_type d of
     IOT_SLOT_INTERFACE_GPIO \<Rightarrow> foreachP (\<lambda>g. seqP (call env (GpioFree g)) (returnP ())) (pd_gpio pd)
   | IOT_SLOT_INTERFACE_I2C \<Rightarrow> seqP (call env (I2cUnregister (if_device d))) (returnP ())
   | IOT_SLOT_INTERFACE_SPI \<Rightarrow> seqP (call env (SpiUnregister (if_device d)))
                                   (seqP (call_fn env pd ReleaseSpi) (returnP ()))
   | IOT_SLOT_INTERFACE_SDIO \<Rightarrow> seqP (call_fn env pd ReleaseSdio) (returnP ())
   | IOT_SLOT_INTERFACE_ADC \<Rightarrow> seqP (call_fn env pd ReleaseAdc) (returnP ())
   | IOT_SLOT_INTERFACE_PCM \<Rightarrow> seqP (call_fn env pd ReleasePcm) (returnP ())
   | IOT_SLOT_INTERFACE_UART \<Rightarrow> whenP (provides pd ReleaseUart) (seqP (call env ReleaseUart) (returnP ()))
   | IOT_SLOT_INTERFACE_USB \<Rightarrow> returnP ()
   | IOT_SLOT_INTERFACE_CLK \<Rightarrow> returnP ()
   | IOT_SLOT_INTERFACE_PLATFORM \<Rightarrow> returnP ())"

definition iot_slot_release_resources :: "iot_env \<Rightarrow> iot_slot_platform_data \<Rightarrow> nat \<Rightarrow> unit iot_prog" where
  "iot_slot_release_resources env pd p =
     bindP (getP (\<lambda>s. take (num_interfaces (the_slot p s)) (interfaces (the_slot p s)))) (\<lambda>ds.
     seqP (foreachP (release_interface env pd) ds)
    (bindP (getP (\<lambda>s. i2c_adapter (the_slot p s))) (\<lambda>adapter.
     seqP (whenP adapter
            (seqP (call_fn env pd ReleaseI2c) (modifyP (upd_slot p (\<lambda>sl. sl\<lparr>i2c_adapter := False\<rparr>)))))
    (seqP (call env (GpioFree (card_detect_gpio pd)))
    (seqP (call env (GpioFree (reset_gpio pd)))
          (modifyP (upd_slot p (\<lambda>sl. sl\<lparr>pdev := None, card_present := False\<rparr>))))))))"

section \<open>Enumerating\<close>

text \<open>One item of the list: \<open>ret\<close> is the return value so far, which only some of the branches set.\<close>

definition enum_item ::
    "iot_env \<Rightarrow> iot_slot_platform_data \<Rightarrow> int \<Rightarrow> nat \<Rightarrow> nat \<Rightarrow> u8 \<Rightarrow> int \<Rightarrow> int iot_prog" where
  "enum_item env pd slot_index p item t ret =
     (if t = if_code EEPROM_IF_GPIO then seqP (iot_slot_add_gpio env pd slot_index p item) (returnP 0)
      else if t = if_code EEPROM_IF_I2C then seqP (iot_slot_add_i2c env pd p item) (returnP 0)
      else if t = if_code EEPROM_IF_SPI then seqP (iot_slot_add_spi env pd p item) (returnP 0)
      else if t = if_code EEPROM_IF_USB then seqP (add_entry p IOT_SLOT_INTERFACE_CLK 0) (returnP ret)
      else if t = if_code EEPROM_IF_SDIO then seqP (iot_slot_add_sdio env pd p item) (returnP 0)
      else if t = if_code EEPROM_IF_ADC then seqP (iot_slot_add_adc env pd p item) (returnP 0)
      else if t = if_code EEPROM_IF_PCM then seqP (iot_slot_add_pcm env pd p item) (returnP 0)
      else if t = if_code EEPROM_IF_CLK then seqP (add_entry p IOT_SLOT_INTERFACE_CLK 0) (returnP ret)
      else if t = if_code EEPROM_IF_UART then seqP (iot_slot_add_uart env pd p item) (returnP 0)
      else if t = if_code EEPROM_IF_PLAT then seqP (add_entry p IOT_SLOT_INTERFACE_PLATFORM 0) (returnP ret)
      else returnP ret)"

fun enum_items ::
    "iot_env \<Rightarrow> iot_slot_platform_data \<Rightarrow> int \<Rightarrow> nat \<Rightarrow> nat list \<Rightarrow> int \<Rightarrow> int iot_prog" where
  "enum_items env pd slot_index p [] ret = returnP ret"
| "enum_items env pd slot_index p (item # items) ret =
     bindP (getP (\<lambda>s. num_interfaces (the_slot p s))) (\<lambda>n.
     if n \<ge> MAX_INTERFACES then throwP (- ERANGE)
     else bindP (eeprom_if_type item) (\<lambda>t.
          bindP (enum_item env pd slot_index p item t ret) (\<lambda>ret'.
          enum_items env pd slot_index p items ret')))"

definition iot_slot_enumerate :: "iot_env \<Rightarrow> iot_slot_platform_data \<Rightarrow> int \<Rightarrow> nat \<Rightarrow> int iot_prog" where
  "iot_slot_enumerate env pd slot_index p =
     bindP (call env (GpioGet (card_detect_gpio pd))) (\<lambda>v.
     seqP (modifyP (upd_slot p (\<lambda>sl. sl\<lparr>card_present := (v = 0)\<rparr>)))
     (if v \<noteq> 0 then returnP 0
      else
      bindP (call env (GpioDirOut (card_detect_gpio pd) 1)) (\<lambda>ret.
      bindP (getP (\<lambda>s. i2c_adapter (the_slot p s))) (\<lambda>adapter.
      bindP (eeprom_load (card env) adapter) (\<lambda>eeprom.
      if \<not> eeprom then seqP (call env (GpioDirIn (card_detect_gpio pd))) (returnP ret)
      else
        seqP (call env (GpioSet (reset_gpio pd) 1))
       (seqP (call env (Msleep 10))
       (bindP eeprom_if_list (\<lambda>items.
        bindP (tryP (enum_items env pd slot_index p items ret)
                (\<lambda>e. seqP (iot_slot_release_resources env pd p) (returnP e)) returnP) (\<lambda>ret'.
        seqP eeprom_unload
       (seqP (call env (GpioDirIn (card_detect_gpio pd))) (returnP ret')))))))))))"

section \<open>Probing and removing a slot\<close>

definition iot_slot_request_essential_resources ::
    "iot_env \<Rightarrow> iot_slot_platform_data \<Rightarrow> int \<Rightarrow> nat \<Rightarrow> unit iot_prog" where
  "iot_slot_request_essential_resources env pd slot_index p =
     tryP (seqP (check_label (reset_label slot_index) 24)
          (bindP (call env (GpioRequest (reset_gpio pd))) (\<lambda>ret.
           if ret \<noteq> 0 then throwP ret
           else seqP (check_label (card_detect_label slot_index) 24)
          (bindP (call env (GpioRequest (card_detect_gpio pd))) (\<lambda>ret.
           if ret \<noteq> 0 then throwP ret
           else bindP (call_fn env pd RequestI2c) (\<lambda>ret.
           if ret \<noteq> 0 then throwP ret
           else modifyP (upd_slot p (\<lambda>sl. sl\<lparr>i2c_adapter := True\<rparr>))))))))
       (\<lambda>ret. seqP (iot_slot_release_resources env pd p) (throwP ret))
       returnP"

definition iot_mutex_lock :: "unit iot_prog" where
  "iot_mutex_lock s = (if management_mutex s then None else Some (Ok (), s\<lparr>management_mutex := True\<rparr>))"

definition new_slot :: iot_slot where
  "new_slot = \<lparr>pdev = None, card_present = False, i2c_adapter = False, num_interfaces = 0,
     interfaces = replicate MAX_INTERFACES \<lparr>if_type = IOT_SLOT_INTERFACE_GPIO, if_device = 0\<rparr>\<rparr>"

definition iot_slot_probe :: "iot_env \<Rightarrow> iot_slot_platform_data \<Rightarrow> nat \<Rightarrow> int \<Rightarrow> unit iot_prog" where
  "iot_slot_probe env pd dev index =
     (if index < 0 \<or> int NUM_SUPPORTED \<le> index then throwP (- EINVAL)
      else seqP iot_mutex_lock (finallyP
        (bindP (getP (\<lambda>s. slots s ! nat index)) (\<lambda>old.
         if old \<noteq> None then throwP (- EINVAL)
         else bindP (call env Kzalloc) (\<lambda>mem.
         if mem = 0 then throwP (- ENOMEM)
         else bindP (getP next_slot) (\<lambda>p.
         seqP (modifyP (\<lambda>s. s\<lparr>slots := (slots s)[nat index := Some p], next_slot := p + 1,
                 slot_mem := (slot_mem s)(p := new_slot\<lparr>pdev := Some dev\<rparr>),
                 drvdata := (drvdata s)(dev := Some p)\<rparr>))
        (bindP (tryP (seqP (iot_slot_request_essential_resources env pd index p)
                         (iot_slot_enumerate env pd index p)) returnP returnP) (\<lambda>ret.
         whenP (ret \<noteq> 0)
           (seqP (modifyP (\<lambda>s. s\<lparr>slots := (slots s)[nat index := None]\<rparr>)) (throwP ret))))))))
        (\<lambda>s. s\<lparr>management_mutex := False\<rparr>)))"

definition iot_slot_remove :: "iot_env \<Rightarrow> iot_slot_platform_data \<Rightarrow> nat \<Rightarrow> int \<Rightarrow> unit iot_prog" where
  "iot_slot_remove env pd dev index =
     (if index < 0 \<or> int NUM_SUPPORTED \<le> index then throwP (- EINVAL)
      else bindP (getP (\<lambda>s. (slots s ! nat index, drvdata s dev))) (\<lambda>(entry, slot).
      case entry of
        None \<Rightarrow> haltP (Undefined ''pdev of a null slot'')
      | Some p \<Rightarrow>
          bindP (getP (\<lambda>s. pdev (the_slot p s))) (\<lambda>pd_dev.
          if pd_dev = None then throwP (- EINVAL)
          else if slot \<noteq> Some p \<or> pd_dev \<noteq> Some dev then throwP (- EINVAL)
          else seqP (iot_slot_release_resources env pd p)
                    (modifyP (\<lambda>s. s\<lparr>slots := (slots s)[nat index := None]\<rparr>)))))"

end
