(* ===== verification/Iot_SlotProps.thy ===== *)
theory Iot_SlotProps
  imports Iot_Slot
begin

text \<open>
  Properties of the slot driver.  \<^theory_text>\<open>slot_adder\<close> is the contract of the functions that add an interface,
  interpreted on each of them; the lemmas about the enumeration rest on it.  Then what a release gives
  back, the life of a slot from probe to remove, and the failures that leak or misbehave.
\<close>

unbundle bit_operations_syntax

section \<open>Programs that only call and read\<close>

definition calls_only :: "'a iot_prog \<Rightarrow> bool" where
  "calls_only m \<longleftrightarrow> (\<forall>s r s'. m s = Some (r, s') \<longrightarrow>
     (\<exists>as. s' = s\<lparr>acts := acts s @ as\<rparr>) \<and> (\<forall>e. r = Err e \<longrightarrow> e < 0))"

lemma calls_onlyD: "calls_only m \<Longrightarrow> m s = Some (r, s') \<Longrightarrow>
    (\<exists>as. s' = s\<lparr>acts := acts s @ as\<rparr>) \<and> (\<forall>e. r = Err e \<longrightarrow> e < 0)"
  unfolding calls_only_def by blast

named_theorems calls_intros "programs that only call the kernel and read the EEPROM"

lemma calls_basic [calls_intros]:
  "calls_only (returnP a)" "calls_only (haltP h)" "calls_only (getP f)" "e < 0 \<Longrightarrow> calls_only (throwP e)"
  "calls_only (call env x)"
proof -
  show "calls_only (call env x)" by (auto simp: calls_only_def call_def)
qed (auto simp: calls_only_def prog_defs intro!: exI [of _ "[]"])

lemma calls_bindP [calls_intros]:
  assumes m: "calls_only m" and k: "\<And>a. calls_only (k a)"
  shows "calls_only (bindP m k)"
  unfolding calls_only_def
proof (intro allI impI)
  fix s r s' assume run: "bindP m k s = Some (r, s')"
  obtain r1 s1 where m1: "m s = Some (r1, s1)" using run by (cases "m s") (auto simp: bindP_def)
  obtain as where s1: "s1 = s\<lparr>acts := acts s @ as\<rparr>" "\<forall>e. r1 = Err e \<longrightarrow> e < 0"
    using calls_onlyD [OF m m1] by blast
  show "(\<exists>as. s' = s\<lparr>acts := acts s @ as\<rparr>) \<and> (\<forall>e. r = Err e \<longrightarrow> e < 0)"
  proof (cases r1)
    case (Ok a)
    then have "k a s1 = Some (r, s')" using run m1 by simp
    from calls_onlyD [OF k this] show ?thesis by (auto simp: s1(1))
  qed (use run m1 s1 in auto)
qed

lemma calls_seqP [calls_intros]: "calls_only m \<Longrightarrow> calls_only n \<Longrightarrow> calls_only (seqP m n)"
  unfolding seqP_def by (rule calls_bindP)

lemma calls_whenP [calls_intros]: "calls_only m \<Longrightarrow> calls_only (whenP b m)"
  by (simp add: whenP_def calls_basic)

lemma calls_if [calls_intros]:
  "(b \<Longrightarrow> calls_only m) \<Longrightarrow> (\<not> b \<Longrightarrow> calls_only n) \<Longrightarrow> calls_only (if b then m else n)"
  by simp

lemma calls_foreachP [calls_intros]: "(\<And>x. calls_only (f x)) \<Longrightarrow> calls_only (foreachP f xs)"
  by (induction xs) (auto intro: calls_intros)

lemma calls_eeprom [calls_intros]:
  "calls_only (byte_at off)" "calls_only eeprom_version" "calls_only to_eeprom_buffer"
  unfolding byte_at_def eeprom_version_def to_eeprom_buffer_def by (auto intro!: calls_intros)

lemma calls_on_1v0 [calls_intros]: "calls_only m \<Longrightarrow> calls_only (on_1v0 m)"
  unfolding on_1v0_def by (auto intro!: calls_intros)

lemma calls_bytes_at [calls_intros]: "calls_only (bytes_at off n)"
  by (induction n arbitrary: off) (auto intro!: calls_intros)

lemma calls_accessors [calls_intros]:
  "calls_only (eeprom_if_type item)" "calls_only (eeprom_if_gpio_cfg item pin)"
  "calls_only (eeprom_if_spi_modalias item)" "calls_only (eeprom_if_spi_irq_gpio item)"
  "calls_only (eeprom_if_i2c_modalias item)" "calls_only (eeprom_if_i2c_irq_gpio item)"
  "calls_only (eeprom_if_i2c_address item)"
  unfolding eeprom_if_type_def eeprom_if_gpio_cfg_def eeprom_if_spi_modalias_def eeprom_if_spi_irq_gpio_def
    eeprom_if_i2c_modalias_def eeprom_if_i2c_irq_gpio_def eeprom_if_i2c_address_def field_of_def
  by (intro calls_intros)+

lemma calls_slot [calls_intros]:
  "calls_only (call_fn env pd a)" "calls_only (check_label l n)" "calls_only (gpio_at pd i)"
  "calls_only (gpio_configure env cfg g)" "calls_only (irq_of env pd irq_gpio)"
  unfolding call_fn_def check_label_def gpio_at_def gpio_configure_def irq_of_def
  by (auto intro!: calls_intros)

lemma calls_gpio_pin [calls_intros]: "calls_only (gpio_pin env pd idx item i)"
  unfolding gpio_pin_def by (auto intro!: calls_intros)

lemma calls_release_interface [calls_intros]: "calls_only (release_interface env pd d)"
  unfolding release_interface_def by (auto intro!: calls_intros split: iot_slot_interface.split)

section \<open>The contract of adding an interface\<close>

definition same_rest :: "nat \<Rightarrow> iot_world \<Rightarrow> iot_world \<Rightarrow> bool" where
  "same_rest p s s' \<longleftrightarrow> (\<exists>as sl. s' = s\<lparr>acts := acts s @ as, slot_mem := (slot_mem s)(p := sl)\<rparr>)"

definition grown :: "nat \<Rightarrow> iot_slot_interface \<Rightarrow> iot_world \<Rightarrow> iot_world \<Rightarrow> bool" where
  "grown p t s s' \<longleftrightarrow> same_rest p s s' \<and>
     (\<exists>dev. the_slot p s' = (the_slot p s)\<lparr>num_interfaces := num_interfaces (the_slot p s) + 1,
        interfaces := (interfaces (the_slot p s))[num_interfaces (the_slot p s) := \<lparr>if_type = t, if_device = dev\<rparr>]\<rparr>)"

definition kept :: "nat \<Rightarrow> iot_world \<Rightarrow> iot_world \<Rightarrow> bool" where
  "kept p s s' \<longleftrightarrow> same_rest p s s' \<and>
     (\<exists>d. the_slot p s' = (the_slot p s)\<lparr>interfaces := (interfaces (the_slot p s))[num_interfaces (the_slot p s) := d]\<rparr>)"

definition adds :: "nat \<Rightarrow> iot_slot_interface \<Rightarrow> unit iot_prog \<Rightarrow> bool" where
  "adds p t m \<longleftrightarrow> (\<forall>s. num_interfaces (the_slot p s) < length (interfaces (the_slot p s)) \<longrightarrow>
     wlp m (\<lambda>r s'. case r of Ok _ \<Rightarrow> grown p t s s' | Err e \<Rightarrow> e < 0 \<and> kept p s s' | Halt _ \<Rightarrow> True) s)"

text \<open>The types of the interfaces a slot has counted.\<close>

definition types_of :: "nat \<Rightarrow> iot_world \<Rightarrow> iot_slot_interface list" where
  "types_of p s = map if_type (take (num_interfaces (the_slot p s)) (interfaces (the_slot p s)))"

definition slot_wf :: "nat \<Rightarrow> iot_world \<Rightarrow> bool" where
  "slot_wf p s \<longleftrightarrow> length (interfaces (the_slot p s)) = MAX_INTERFACES \<and> num_interfaces (the_slot p s) \<le> MAX_INTERFACES"

locale slot_adder =
  fixes add :: "nat \<Rightarrow> nat \<Rightarrow> unit iot_prog" and ty :: iot_slot_interface
  assumes add_adds: "adds p ty (add p item)"
begin

lemma add_grows:
  assumes "slot_wf p s" "num_interfaces (the_slot p s) < MAX_INTERFACES" "add p item s = Some (Ok (), s')"
  shows "types_of p s' = types_of p s @ [ty] \<and> slot_wf p s' \<and> same_rest p s s'"
proof -
  have "wlp (add p item) (\<lambda>r s'. case r of Ok _ \<Rightarrow> grown p ty s s' | Err e \<Rightarrow> e < 0 \<and> kept p s s' | Halt _ \<Rightarrow> True) s"
    using add_adds [of p item] assms(1,2) by (simp add: adds_def slot_wf_def)
  with assms(3) have "grown p ty s s'" by (simp add: wlp_def)
  with assms(1,2) show ?thesis
    by (auto simp: grown_def types_of_def slot_wf_def take_Suc_conv_app_nth)
qed

lemma add_fails:
  assumes "slot_wf p s" "num_interfaces (the_slot p s) < MAX_INTERFACES" "add p item s = Some (Err e, s')"
  shows "e < 0 \<and> types_of p s' = types_of p s \<and> slot_wf p s' \<and> same_rest p s s'"
proof -
  have "wlp (add p item) (\<lambda>r s'. case r of Ok _ \<Rightarrow> grown p ty s s' | Err e \<Rightarrow> e < 0 \<and> kept p s s' | Halt _ \<Rightarrow> True) s"
    using add_adds [of p item] assms(1,2) by (simp add: adds_def slot_wf_def)
  with assms(3) have "e < 0 \<and> kept p s s'" by (simp add: wlp_def)
  with assms(1) show ?thesis
    by (auto simp: kept_def types_of_def slot_wf_def)
qed

end

lemma adds_bindP:
  fixes m :: "'c iot_prog"
  assumes m: "calls_only m" and k: "\<And>a. adds p t (k a)"
  shows "adds p t (bindP m k)"
  unfolding adds_def
proof (intro allI impI)
  fix s assume n: "num_interfaces (the_slot p s) < length (interfaces (the_slot p s))"
  have step: "wlp m (\<lambda>r s'. (\<exists>as. s' = s\<lparr>acts := acts s @ as\<rparr>) \<and> (\<forall>e. r = Err e \<longrightarrow> e < 0)) s"
    using m unfolding calls_only_def wlp_iff by blast
  show "wlp (bindP m k) (\<lambda>r s'. case r of Ok _ \<Rightarrow> grown p t s s' | Err e \<Rightarrow> e < 0 \<and> kept p s s' | Halt _ \<Rightarrow> True) s"
    unfolding wlp_bindP
  proof (rule wlp_mono [OF step], elim conjE exE)
    fix r :: "'c outcome" and s' as assume s': "s' = s\<lparr>acts := acts s @ as\<rparr>" and e: "\<forall>e. r = Err e \<longrightarrow> e < 0"
    have same: "the_slot p s' = the_slot p s" by (simp add: s' the_slot_def)
    have rest: "same_rest p s s''" if "same_rest p s' s''" for s''
      using that unfolding same_rest_def s' by (auto simp: append_assoc)
    have self: "kept p s s'"
      unfolding kept_def same_rest_def the_slot_def s'
      using n by (auto intro!: exI [of _ as] exI [of _ "slot_mem s p"]
          exI [of _ "interfaces (slot_mem s p) ! num_interfaces (slot_mem s p)"])
    show "case r of Ok a \<Rightarrow> wlp (k a) (\<lambda>r s'. case r of Ok _ \<Rightarrow> grown p t s s' | Err e \<Rightarrow> e < 0 \<and> kept p s s' | Halt _ \<Rightarrow> True) s'
        | Err e \<Rightarrow> (case Err e of Ok _ \<Rightarrow> grown p t s s' | Err e \<Rightarrow> e < 0 \<and> kept p s s' | Halt _ \<Rightarrow> True)
        | Halt h \<Rightarrow> (case Halt h of Ok _ \<Rightarrow> grown p t s s' | Err e \<Rightarrow> e < 0 \<and> kept p s s' | Halt _ \<Rightarrow> True)"
    proof (cases r)
      case (Ok a)
      have "wlp (k a) (\<lambda>r s''. case r of Ok _ \<Rightarrow> grown p t s' s'' | Err e \<Rightarrow> e < 0 \<and> kept p s' s'' | Halt _ \<Rightarrow> True) s'"
        using k [of a] n same unfolding adds_def by simp
      then have "wlp (k a) (\<lambda>r s''. case r of Ok _ \<Rightarrow> grown p t s s'' | Err e \<Rightarrow> e < 0 \<and> kept p s s'' | Halt _ \<Rightarrow> True) s'"
        by (rule wlp_mono) (auto simp: grown_def kept_def same rest split: outcome.splits)
      with Ok show ?thesis by simp
    qed (use e self in auto)
  qed
qed

lemma same_rest_upd: "same_rest p s (upd_slot p f s)"
  unfolding same_rest_def upd_slot_def
  by (intro exI [of _ "[]"] exI [of _ "f (slot_mem s p)"]) simp

lemma the_slot_upd [simp]: "the_slot p (upd_slot p f s) = f (the_slot p s)"
  by (simp add: the_slot_def upd_slot_def)

lemma upd_slot_upd: "upd_slot p f (upd_slot p g s) = upd_slot p (\<lambda>x. f (g x)) s"
  by (simp add: upd_slot_def)

lemma kept_refl: "num_interfaces (the_slot p s) < length (interfaces (the_slot p s)) \<Longrightarrow> kept p s s"
  unfolding kept_def same_rest_def
  by (intro conjI exI [of _ "[]"] exI [of _ "slot_mem s p"]
      exI [of _ "interfaces (the_slot p s) ! num_interfaces (the_slot p s)"]) simp_all

lemma kept_set_entry: "kept p s (set_entry p t dev s)"
  unfolding kept_def set_entry_def using same_rest_upd by auto

lemma grown_entry: "grown p t s (count_entry p (set_entry p t dev s))"
  unfolding grown_def count_entry_def set_entry_def upd_slot_upd
  by (intro conjI same_rest_upd exI [of _ dev]) simp

lemma adds_throwP: "e < 0 \<Longrightarrow> adds p t (throwP e)"
  unfolding adds_def wlp_throwP by (simp add: kept_refl)

lemma adds_add_entry: "adds p t (add_entry p t dev)"
  unfolding adds_def add_entry_def by (simp add: wp_rules grown_entry)

lemma adds_device:
  "e < 0 \<Longrightarrow> adds p t (seqP (modifyP (set_entry p t dev)) (if b then throwP e else modifyP (count_entry p)))"
  unfolding adds_def by (simp add: wp_rules grown_entry kept_set_entry wp_if wlp_if)

lemma adds_seqP: "calls_only m \<Longrightarrow> adds p t n \<Longrightarrow> adds p t (seqP m n)"
  unfolding seqP_def by (rule adds_bindP)

lemma adds_if: "(b \<Longrightarrow> adds p t m) \<Longrightarrow> (\<not> b \<Longrightarrow> adds p t n) \<Longrightarrow> adds p t (if b then m else n)"
  by simp

lemmas adds_intros = adds_bindP adds_seqP adds_if adds_add_entry adds_device adds_throwP

interpretation gpio: slot_adder "iot_slot_add_gpio env pd slot_index" IOT_SLOT_INTERFACE_GPIO for env pd slot_index
  by unfold_locales (auto simp: iot_slot_add_gpio_def intro!: adds_intros calls_intros)

interpretation i2c: slot_adder "iot_slot_add_i2c env pd" IOT_SLOT_INTERFACE_I2C for env pd
  by unfold_locales (auto simp: iot_slot_add_i2c_def intro!: adds_bindP adds_device calls_intros)

interpretation spi: slot_adder "iot_slot_add_spi env pd" IOT_SLOT_INTERFACE_SPI for env pd
  by unfold_locales (auto simp: iot_slot_add_spi_def intro!: adds_intros calls_intros)

interpretation sdio: slot_adder "iot_slot_add_sdio env pd" IOT_SLOT_INTERFACE_SDIO for env pd
  by unfold_locales (auto simp: iot_slot_add_sdio_def add_requested_def intro!: adds_intros calls_intros)

interpretation adc: slot_adder "iot_slot_add_adc env pd" IOT_SLOT_INTERFACE_ADC for env pd
  by unfold_locales (auto simp: iot_slot_add_adc_def add_requested_def intro!: adds_intros calls_intros)

interpretation pcm: slot_adder "iot_slot_add_pcm env pd" IOT_SLOT_INTERFACE_PCM for env pd
  by unfold_locales (auto simp: iot_slot_add_pcm_def add_requested_def intro!: adds_intros calls_intros)

interpretation uart: slot_adder "iot_slot_add_uart env pd" IOT_SLOT_INTERFACE_UART for env pd
  by unfold_locales (auto simp: iot_slot_add_uart_def add_requested_def intro!: adds_intros calls_intros)

interpretation entry: slot_adder "\<lambda>p item. add_entry p t 0" t for t
  by unfold_locales (rule adds_add_entry)

section \<open>Enumeration\<close>

text \<open>The entry an interface description gets in the table; a USB interface is entered as a clock.\<close>

definition slot_type :: "u8 \<Rightarrow> iot_slot_interface list" where
  "slot_type t =
     (if t = 0 then [IOT_SLOT_INTERFACE_GPIO] else if t = 1 then [IOT_SLOT_INTERFACE_I2C]
      else if t = 2 then [IOT_SLOT_INTERFACE_SPI] else if t = 3 then [IOT_SLOT_INTERFACE_CLK]
      else if t = 4 then [IOT_SLOT_INTERFACE_SDIO] else if t = 5 then [IOT_SLOT_INTERFACE_ADC]
      else if t = 6 then [IOT_SLOT_INTERFACE_PCM] else if t = 7 then [IOT_SLOT_INTERFACE_CLK]
      else if t = 8 then [IOT_SLOT_INTERFACE_UART] else if t = 9 then [IOT_SLOT_INTERFACE_PLATFORM] else [])"

lemma same_rest_refl: "same_rest p s s"
  unfolding same_rest_def by (intro exI [of _ "[]"] exI [of _ "slot_mem s p"]) simp

lemma same_rest_trans: "same_rest p s s' \<Longrightarrow> same_rest p s' s'' \<Longrightarrow> same_rest p s s''"
  unfolding same_rest_def
proof (elim exE)
  fix as1 sl1 as2 sl2
  assume "s' = s\<lparr>acts := acts s @ as1, slot_mem := (slot_mem s)(p := sl1)\<rparr>"
    "s'' = s'\<lparr>acts := acts s' @ as2, slot_mem := (slot_mem s')(p := sl2)\<rparr>"
  then show "\<exists>as sl. s'' = s\<lparr>acts := acts s @ as, slot_mem := (slot_mem s)(p := sl)\<rparr>"
    by (intro exI [of _ "as1 @ as2"] exI [of _ sl2]) simp
qed

lemma same_rest_fields:
  "same_rest p s s' \<Longrightarrow> buffer s' = buffer s" "same_rest p s s' \<Longrightarrow> if_list s' = if_list s"
  "same_rest p s s' \<Longrightarrow> slots s' = slots s" "same_rest p s s' \<Longrightarrow> drvdata s' = drvdata s"
  "same_rest p s s' \<Longrightarrow> management_mutex s' = management_mutex s"
  by (auto simp: same_rest_def)

lemma seq_return_cases:
  assumes "seqP m (returnP c) s = Some (r, s')"
  shows "(\<exists>a. m s = Some (Ok a, s') \<and> r = Ok c) \<or> (\<exists>e. m s = Some (Err e, s') \<and> r = Err e) \<or> (\<exists>h. r = Halt h)"
  using assms by (cases "m s") (auto simp: seqP_def bindP_def returnP_def split: outcome.splits)

text \<open>What one item does to the slot: its entry is added, or nothing is counted and the error is negative.\<close>

definition entry_effect ::
    "nat \<Rightarrow> iot_slot_interface list \<Rightarrow> iot_world \<Rightarrow> 'a outcome \<Rightarrow> iot_world \<Rightarrow> bool" where
  "entry_effect p tys s r s' \<longleftrightarrow> (case r of
     Ok _ \<Rightarrow> types_of p s' = types_of p s @ tys \<and> slot_wf p s' \<and> same_rest p s s'
   | Err e \<Rightarrow> e < 0 \<and> types_of p s' = types_of p s \<and> slot_wf p s' \<and> same_rest p s s'
   | Halt _ \<Rightarrow> True)"

lemma adder_step:
  assumes "slot_adder f ty" "slot_wf p s" "num_interfaces (the_slot p s) < MAX_INTERFACES"
    and "seqP (f p item) (returnP c) s = Some (r, s')"
  shows "entry_effect p [ty] s r s'"
  using seq_return_cases [OF assms(4)] slot_adder.add_grows [OF assms(1-3)] slot_adder.add_fails [OF assms(1-3)]
  unfolding entry_effect_def by fastforce

lemmas adders = gpio.slot_adder_axioms i2c.slot_adder_axioms spi.slot_adder_axioms sdio.slot_adder_axioms
  adc.slot_adder_axioms pcm.slot_adder_axioms uart.slot_adder_axioms

lemma enum_item_step:
  assumes wf: "slot_wf p s" and n: "num_interfaces (the_slot p s) < MAX_INTERFACES"
    and run: "enum_item env pd idx p item t ret s = Some (r, s')"
  shows "entry_effect p (slot_type t) s r s'"
proof -
  note step = adders [THEN adder_step, OF wf n]
  have entry: "entry_effect p [ty] s r s'" if "seqP (add_entry p ty 0) (returnP ret) s = Some (r, s')" for ty
    using adder_step [OF entry.slot_adder_axioms wf n that] .
  have none: "slot_wf p x \<Longrightarrow> entry_effect p [] x (Ok ret) x" for x
    using same_rest_refl [of p x] by (simp add: entry_effect_def)
  from run wf show ?thesis
    by (auto simp: enum_item_def slot_type_def returnP_def none split: if_splits dest: step entry)
qed

lemma enum_items_Cons:
  "enum_items env pd idx p (item # items) ret s =
    (if num_interfaces (the_slot p s) \<ge> MAX_INTERFACES then Some (Err (- ERANGE), s)
     else bindP (eeprom_if_type item) (\<lambda>t.
          bindP (enum_item env pd idx p item t ret) (\<lambda>ret'. enum_items env pd idx p items ret')) s)"
  by (simp add: throwP_def)

declare enum_items.simps(2) [simp del]

lemma eeprom_if_type_run:
  assumes "eeprom_if_type item s = Some (Ok t, s')"
  shows "t = buffer s ! item \<and> s' = s"
  using assms
  by (auto simp: eeprom_if_type_def on_1v0_def eeprom_version_def to_eeprom_buffer_def byte_at_def
      bindP_def getP_def returnP_def haltP_def split: if_splits)

lemma eeprom_if_type_noerr: "eeprom_if_type item s \<noteq> Some (Err e, s')"
  by (auto simp: eeprom_if_type_def on_1v0_def eeprom_version_def to_eeprom_buffer_def byte_at_def
      bindP_def getP_def returnP_def haltP_def split: if_splits)

lemma enum_items_ok:
  assumes "slot_wf p s" "enum_items env pd idx p items ret s = Some (Ok r, s')"
  shows "types_of p s' = types_of p s @ concat (map (\<lambda>item. slot_type (buffer s ! item)) items) \<and>
    slot_wf p s' \<and> same_rest p s s' \<and> (items \<noteq> [] \<longrightarrow>
      length (types_of p s @ concat (map (\<lambda>item. slot_type (buffer s ! item)) (butlast items))) < MAX_INTERFACES)"
  using assms
proof (induction items arbitrary: ret s)
  case Nil
  then show ?case by (simp add: returnP_def same_rest_refl)
next
  case (Cons item items)
  have len: "length (types_of p s) = num_interfaces (the_slot p s)"
    using Cons.prems(1) by (simp add: types_of_def slot_wf_def)
  have n: "num_interfaces (the_slot p s) < MAX_INTERFACES"
    using Cons.prems(2) by (simp add: enum_items_Cons split: if_splits)
  obtain t s1 where t: "eeprom_if_type item s = Some (Ok t, s1)"
    using Cons.prems(2) n by (auto simp: enum_items_Cons bindP_def split: option.splits outcome.splits)
  then have ts: "t = buffer s ! item" "s1 = s" using eeprom_if_type_run by auto
  obtain ret2 s2 where it: "enum_item env pd idx p item t ret s = Some (Ok ret2, s2)"
    and rest: "enum_items env pd idx p items ret2 s2 = Some (Ok r, s')"
    using Cons.prems(2) n t ts(2) by (auto simp: enum_items_Cons bindP_def split: option.splits outcome.splits)
  have one: "types_of p s2 = types_of p s @ slot_type t" "slot_wf p s2" "same_rest p s s2"
    using enum_item_step [OF Cons.prems(1) n it] by (auto simp: entry_effect_def)
  have buf: "buffer s2 = buffer s" by (rule same_rest_fields(1) [OF one(3)])
  from Cons.IH [OF one(2) rest] show ?case
    using one n len ts(1) buf same_rest_trans [OF one(3)] by auto
qed

lemma enum_items_err:
  assumes "slot_wf p s" "enum_items env pd idx p items ret s = Some (Err e, s')"
  shows "e < 0 \<and> slot_wf p s' \<and> same_rest p s s'"
  using assms
proof (induction items arbitrary: ret s)
  case (Cons item items)
  show ?case
  proof (cases "num_interfaces (the_slot p s) < MAX_INTERFACES")
    case False
    with Cons.prems show ?thesis by (auto simp: enum_items_Cons same_rest_refl)
  next
    case n: True
    obtain t s1 where t: "eeprom_if_type item s = Some (Ok t, s1)"
      using Cons.prems(2) n eeprom_if_type_noerr by (fastforce simp: enum_items_Cons bindP_def split: option.splits outcome.splits)
    then have ts: "s1 = s" using eeprom_if_type_run by auto
    show ?thesis
    proof (cases "\<exists>e' s2. enum_item env pd idx p item t ret s = Some (Err e', s2)")
      case True
      then show ?thesis
        using Cons.prems(2) n t ts enum_item_step [OF Cons.prems(1) n, of env pd idx item t ret]
        by (fastforce simp: enum_items_Cons entry_effect_def)
    next
      case False
      then obtain ret2 s2 where it: "enum_item env pd idx p item t ret s = Some (Ok ret2, s2)"
        and rest: "enum_items env pd idx p items ret2 s2 = Some (Err e, s')"
        using Cons.prems(2) n t ts by (auto simp: enum_items_Cons bindP_def split: option.splits outcome.splits)
      have one: "slot_wf p s2" "same_rest p s s2"
        using enum_item_step [OF Cons.prems(1) n it] by (auto simp: entry_effect_def)
      from Cons.IH [OF one(1) rest] show ?thesis
        using same_rest_trans [OF one(2)] by auto
    qed
  qed
qed (simp add: returnP_def)

lemma call_steps [simp]:
  "bindP (call env a) k s = k (answer env (acts s) a) (s\<lparr>acts := acts s @ [a]\<rparr>)"
  "seqP (call env a) m s = m (s\<lparr>acts := acts s @ [a]\<rparr>)"
  "provides pd a \<Longrightarrow> call_fn env pd a = call env a"
  by (simp_all add: call_def call_fn_def)

lemma the_slot_frame [simp]:
  "the_slot p (s\<lparr>acts := x1\<rparr>) = the_slot p s" "the_slot p (s\<lparr>buffer := x2\<rparr>) = the_slot p s"
  "the_slot p (s\<lparr>if_list := x3\<rparr>) = the_slot p s" "the_slot p (s\<lparr>at24_clients := x4\<rparr>) = the_slot p s"
  "the_slot p (s\<lparr>slots := x5\<rparr>) = the_slot p s" "the_slot p (s\<lparr>management_mutex := x6\<rparr>) = the_slot p s"
  by (simp_all add: the_slot_def)

lemma upd_slot_frame [simp]:
  "acts (upd_slot p f s) = acts s" "buffer (upd_slot p f s) = buffer s" "if_list (upd_slot p f s) = if_list s"
  "at24_clients (upd_slot p f s) = at24_clients s" "slots (upd_slot p f s) = slots s"
  "drvdata (upd_slot p f s) = drvdata s" "management_mutex (upd_slot p f s) = management_mutex s"
  "next_slot (upd_slot p f s) = next_slot s"
  by (simp_all add: upd_slot_def)

section \<open>Releasing\<close>

definition release_acts :: "iot_slot_platform_data \<Rightarrow> iot_slot_interface_data \<Rightarrow> iot_act list" where
  "release_acts pd d = (case if_type d of
     IOT_SLOT_INTERFACE_GPIO \<Rightarrow> map GpioFree (pd_gpio pd)
   | IOT_SLOT_INTERFACE_I2C \<Rightarrow> [I2cUnregister (if_device d)]
   | IOT_SLOT_INTERFACE_SPI \<Rightarrow> [SpiUnregister (if_device d), ReleaseSpi]
   | IOT_SLOT_INTERFACE_SDIO \<Rightarrow> [ReleaseSdio]
   | IOT_SLOT_INTERFACE_ADC \<Rightarrow> [ReleaseAdc]
   | IOT_SLOT_INTERFACE_PCM \<Rightarrow> [ReleasePcm]
   | IOT_SLOT_INTERFACE_UART \<Rightarrow> (if provides pd ReleaseUart then [ReleaseUart] else [])
   | _ \<Rightarrow> [])"

text \<open>The functions a slot must provide so that giving back an interface does not call a null pointer.\<close>

definition can_release :: "iot_slot_platform_data \<Rightarrow> iot_slot_interface_data \<Rightarrow> bool" where
  "can_release pd d \<longleftrightarrow> (case if_type d of
     IOT_SLOT_INTERFACE_SPI \<Rightarrow> provides pd ReleaseSpi
   | IOT_SLOT_INTERFACE_SDIO \<Rightarrow> provides pd ReleaseSdio
   | IOT_SLOT_INTERFACE_ADC \<Rightarrow> provides pd ReleaseAdc
   | IOT_SLOT_INTERFACE_PCM \<Rightarrow> provides pd ReleasePcm
   | _ \<Rightarrow> True)"

lemma free_gpios_run:
  "foreachP (\<lambda>g. seqP (call env (GpioFree g)) (returnP ())) gs s =
     Some (Ok (), s\<lparr>acts := acts s @ map GpioFree gs\<rparr>)"
  by (induction gs arbitrary: s) (simp_all add: returnP_def seqP_def bindP_def call_def)

lemma release_interface_run:
  "can_release pd d \<Longrightarrow> release_interface env pd d s = Some (Ok (), s\<lparr>acts := acts s @ release_acts pd d\<rparr>)"
  by (cases "if_type d")
    (simp_all add: release_interface_def can_release_def release_acts_def free_gpios_run returnP_def whenP_def)

lemma release_interfaces_run:
  "list_all (can_release pd) ds \<Longrightarrow>
     foreachP (release_interface env pd) ds s = Some (Ok (), s\<lparr>acts := acts s @ concat (map (release_acts pd) ds)\<rparr>)"
proof (induction ds arbitrary: s)
  case (Cons d ds)
  then show ?case
    using release_interface_run [of pd d env s] by simp
qed (simp add: returnP_def)

lemma release_resources_run:
  fixes s :: iot_world
  assumes "list_all (can_release pd) (take (num_interfaces (the_slot p s)) (interfaces (the_slot p s)))"
    and "provides pd ReleaseI2c"
  shows "\<exists>s'. iot_slot_release_resources env pd p s = Some (Ok (), s') \<and>
    the_slot p s' = (the_slot p s)\<lparr>i2c_adapter := False, pdev := None, card_present := False\<rparr> \<and>
    acts s' = acts s @ concat (map (release_acts pd) (take (num_interfaces (the_slot p s)) (interfaces (the_slot p s)))) @
      (if i2c_adapter (the_slot p s) then [ReleaseI2c] else []) @
      [GpioFree (card_detect_gpio pd), GpioFree (reset_gpio pd)] \<and>
    slots s' = slots s \<and> drvdata s' = drvdata s \<and> management_mutex s' = management_mutex s"
  using release_interfaces_run [OF assms(1), of env s] assms(2)
  by (cases "i2c_adapter (the_slot p s)")
    (simp_all add: iot_slot_release_resources_def modifyP_def whenP_def call_def returnP_def)

section \<open>The registry of slots\<close>

definition registry :: "iot_world \<Rightarrow> nat option list \<times> (nat \<Rightarrow> nat option) \<times> nat \<times> bool" where
  "registry s = (slots s, drvdata s, next_slot s, management_mutex s)"

lemma registry_frame [simp]:
  "registry (s\<lparr>acts := x1\<rparr>) = registry s" "registry (s\<lparr>buffer := x2\<rparr>) = registry s"
  "registry (s\<lparr>if_list := x3\<rparr>) = registry s" "registry (s\<lparr>at24_clients := x4\<rparr>) = registry s"
  "registry (upd_slot p f s) = registry s"
  by (simp_all add: registry_def)

abbreviation (input) reg_same where "reg_same R \<equiv> \<lambda>s. registry s = R"

lemma calls_keep_registry: "calls_only m \<Longrightarrow> keeps (reg_same R) m"
  unfolding keeps_def by (auto dest!: calls_onlyD)

lemma calls_walk: "calls_only eeprom_if_first" "calls_only (eeprom_if_next item)"
  unfolding eeprom_if_first_def eeprom_if_next_def by (auto intro!: calls_intros)

lemmas registry_leaves [keeps_intros] = calls_basic(5) [THEN calls_keep_registry]
  calls_accessors [THEN calls_keep_registry] calls_slot [THEN calls_keep_registry]
  calls_gpio_pin [THEN calls_keep_registry] calls_release_interface [THEN calls_keep_registry]
  calls_eeprom [THEN calls_keep_registry] calls_walk [THEN calls_keep_registry]

lemma entry_keeps [keeps_intros]:
  "keeps (reg_same R) (add_entry p t dev)" "keeps (reg_same R) (modifyP (set_entry p t dev))"
  "keeps (reg_same R) (modifyP (count_entry p))"
  unfolding add_entry_def by (auto intro!: keeps_intros simp: set_entry_def count_entry_def)

lemma adders_keep [keeps_intros]:
  "keeps (reg_same R) (iot_slot_add_gpio env pd idx p item)" "keeps (reg_same R) (iot_slot_add_i2c env pd p item)"
  "keeps (reg_same R) (iot_slot_add_spi env pd p item)" "keeps (reg_same R) (iot_slot_add_sdio env pd p item)"
  "keeps (reg_same R) (iot_slot_add_adc env pd p item)" "keeps (reg_same R) (iot_slot_add_pcm env pd p item)"
  "keeps (reg_same R) (iot_slot_add_uart env pd p item)"
  unfolding iot_slot_add_gpio_def iot_slot_add_i2c_def iot_slot_add_spi_def iot_slot_add_sdio_def
    iot_slot_add_adc_def iot_slot_add_pcm_def iot_slot_add_uart_def add_requested_def
  by (intro keeps_intros)+

lemma eeprom_keeps [keeps_intros]:
  "keeps (reg_same R) eeprom_unload" "keeps (reg_same R) (eeprom_load ee adapter)"
proof -
  have load: "keeps (reg_same R) (load_from ee fuel count ifc)" for fuel count ifc
    by (induction ee fuel count ifc rule: load_from.induct)
      (auto intro!: keeps_intros simp: eeprom_free_interfaces_def)
  show "keeps (reg_same R) eeprom_unload"
    unfolding eeprom_unload_def eeprom_free_interfaces_def i2c_unregister_client_def
    by (auto intro!: keeps_intros)
  show "keeps (reg_same R) (eeprom_load ee adapter)"
    unfolding eeprom_load_def eeprom_load_interfaces_def at24_eeprom_setup_def i2c_unregister_client_def
    by (auto intro!: keeps_intros load split: option.split)
qed

lemma release_keeps [keeps_intros]: "keeps (reg_same R) (iot_slot_release_resources env pd p)"
  unfolding iot_slot_release_resources_def by (auto intro!: keeps_intros)

lemma enumerate_keeps [keeps_intros]: "keeps (reg_same R) (iot_slot_enumerate env pd idx p)"
proof -
  have item: "keeps (reg_same R) (enum_item env pd idx p it t ret)" for it t ret
    unfolding enum_item_def by (intro keeps_intros)
  have items: "keeps (reg_same R) (enum_items env pd idx p its ret)" for its ret
    by (induction its arbitrary: ret) (auto intro!: keeps_intros item simp: enum_items.simps(2))
  show ?thesis
    unfolding iot_slot_enumerate_def eeprom_if_list_def by (auto intro!: keeps_intros items)
qed

lemma essential_keeps [keeps_intros]: "keeps (reg_same R) (iot_slot_request_essential_resources env pd idx p)"
  unfolding iot_slot_request_essential_resources_def by (auto intro!: keeps_intros)

section \<open>Properties\<close>

text \<open>The table a card in order asks for: the entries of its descriptions, in order.\<close>

definition card_table :: "nat \<Rightarrow> u8 list \<Rightarrow> iot_slot_interface list" where
  "card_table n b = concat (map (\<lambda>k. slot_type (b ! desc_off k)) [0..<n])"

lemma enumerate_from_list:
  fixes s :: iot_world
  assumes wf: "slot_wf p s" and fresh: "num_interfaces (the_slot p s) = 0" and card: "card_ok n (buffer s)"
    and run: "tryP (enum_items env pd idx p (map desc_off [0..<Suc n]) ret)
      (\<lambda>e. seqP (iot_slot_release_resources env pd p) (returnP e)) returnP s = Some (Ok r, s')"
  shows "0 \<le> r \<longrightarrow> types_of p s' = card_table n (buffer s) \<and> length (card_table n (buffer s)) < MAX_INTERFACES"
proof -
  have t0: "types_of p s = []" using fresh by (simp add: types_of_def)
  have last: "slot_type (buffer s ! desc_off n) = []"
    using card by (simp add: card_ok_def slot_type_def)
  show ?thesis
  proof (cases "enum_items env pd idx p (map desc_off [0..<Suc n]) ret s")
    case None
    with run show ?thesis by (simp add: tryP_def)
  next
    case (Some rs)
    obtain r1 s1 where rs: "rs = (r1, s1)" by (cases rs)
    show ?thesis
    proof (cases r1)
      case (Ok x)
      then have "s' = s1" "r = x" using run Some rs by (simp_all add: tryP_def returnP_def)
      with enum_items_ok [OF wf, of env pd idx "map desc_off [0..<Suc n]" ret x s1] Some rs Ok t0 last
      show ?thesis by (simp add: card_table_def o_def butlast_append map_butlast [symmetric])
    next
      case (Err e)
      with enum_items_err [OF wf, of env pd idx "map desc_off [0..<Suc n]" ret e s1] Some rs
      have "e < 0" by simp
      moreover have "r = e"
        using run Some rs Err by (auto simp: tryP_def dest!: seq_return_cases)
      ultimately show ?thesis by simp
    next
      case (Halt h)
      with run Some rs show ?thesis by (simp add: tryP_def)
    qed
  qed
qed

text \<open>C2: enumerating a card in order, whatever the kernel and the platform answer, either reports a negative
  error or ends with a table that has exactly one entry for every interface description of the card, in
  the card's order and of the description's type, except that a USB interface is entered as a clock; and
  it reports an error for every card of ten or more known interfaces, although the table has ten entries,
  because the terminator is counted as an interface of its own.\<close>

theorem enumerate_builds_table:
  assumes wf: "slot_wf p s" "num_interfaces (the_slot p s) = 0" "i2c_adapter (the_slot p s)"
    and load: "i2c_new_client (card env)" "at24_read (card env) = Some (Some b)" "\<And>i. kzalloc_ok (card env) i"
    and card: "card_ok n b" "0 < n" and present: "answer env (acts s) (GpioGet (card_detect_gpio pd)) = 0"
    and run: "iot_slot_enumerate env pd idx p s = Some (Ok r, s')"
  shows "0 \<le> r \<longrightarrow> types_of p s' = card_table n b \<and> length (card_table n b) < MAX_INTERFACES"
proof -
  let ?s1 = "(upd_slot p (\<lambda>sl. sl\<lparr>card_present := True\<rparr>) (s\<lparr>acts := acts s @ [GpioGet (card_detect_gpio pd)]\<rparr>))
    \<lparr>acts := acts s @ [GpioGet (card_detect_gpio pd), GpioDirOut (card_detect_gpio pd) 1]\<rparr>"
  let ?s2 = "?s1\<lparr>at24_clients := at24_clients s + 1, if_list := map desc_off [0..<Suc n], buffer := b\<rparr>"
  let ?s3 = "?s2\<lparr>acts := acts s @ [GpioGet (card_detect_gpio pd), GpioDirOut (card_detect_gpio pd) 1,
    GpioSet (reset_gpio pd) 1, Msleep 10]\<rparr>"
  have loaded: "eeprom_load (card env) True ?s1 = Some (Ok True, ?s2)"
    using load_ok_run [OF load card, of ?s1] by simp
  obtain ret where run2: "bindP (tryP (enum_items env pd idx p (map desc_off [0..<Suc n]) ret)
      (\<lambda>e. seqP (iot_slot_release_resources env pd p) (returnP e)) returnP)
      (\<lambda>ret'. seqP eeprom_unload (seqP (call env (GpioDirIn (card_detect_gpio pd))) (returnP ret'))) ?s3 = Some (Ok r, s')"
    using run present wf(3) loaded
    by (simp add: iot_slot_enumerate_def eeprom_if_list_def del: enum_items.simps upt_Suc)
  obtain s4 where s4: "tryP (enum_items env pd idx p (map desc_off [0..<Suc n]) ret)
      (\<lambda>e. seqP (iot_slot_release_resources env pd p) (returnP e)) returnP ?s3 = Some (Ok r, s4)"
    and s': "types_of p s' = types_of p s4"
  proof -
    have unload: "types_of p s5 = types_of p s4" if "eeprom_unload s4 = Some (Ok (), s5)" for s4 s5 :: iot_world
      using that by (auto simp: eeprom_unload_def to_eeprom_buffer_def eeprom_free_interfaces_def
          i2c_unregister_client_def prog_defs types_of_def the_slot_def split: if_splits)
    from run2 that show thesis
      by (auto simp: bindP_def [of "tryP _ _ _"] seqP_def bindP_def [of eeprom_unload] returnP_def unload
          split: option.splits outcome.splits) (auto simp: types_of_def the_slot_def dest: unload)
  qed
  have "slot_wf p ?s3" "num_interfaces (the_slot p ?s3) = 0" "card_ok n (buffer ?s3)"
    using wf(1,2) card by (simp_all add: slot_wf_def)
  from enumerate_from_list [OF this s4] show ?thesis unfolding s' by simp
qed

text \<open>C5: releasing a slot whose platform provides the functions its interfaces need makes, for every entry
  of the table and in its order, exactly the calls that give that interface back, then gives back the
  I2C adapter if it is held and both pins of the slot, and leaves the slot without device or adapter.\<close>

theorem release_gives_back:
  fixes s :: iot_world
  assumes "list_all (can_release pd) (take (num_interfaces (the_slot p s)) (interfaces (the_slot p s)))"
    and "provides pd ReleaseI2c"
  shows "\<exists>s'. iot_slot_release_resources env pd p s = Some (Ok (), s') \<and>
    the_slot p s' = (the_slot p s)\<lparr>i2c_adapter := False, pdev := None, card_present := False\<rparr> \<and>
    acts s' = acts s @ concat (map (release_acts pd) (take (num_interfaces (the_slot p s)) (interfaces (the_slot p s)))) @
      (if i2c_adapter (the_slot p s) then [ReleaseI2c] else []) @
      [GpioFree (card_detect_gpio pd), GpioFree (reset_gpio pd)]"
  using release_resources_run [OF assms, of env] by blast

lemma probe_body:
  assumes run: "iot_slot_probe env pd dev index s = Some (r, s')" and r: "\<And>h. r \<noteq> Halt h"
    and index: "0 \<le> index" "index < int NUM_SUPPORTED" and len: "length (slots s) = NUM_SUPPORTED"
  shows "\<not> management_mutex s \<and> \<not> management_mutex s' \<and>
    (case r of
       Ok _ \<Rightarrow> slots s ! nat index = None \<and> slots s' = (slots s)[nat index := Some (next_slot s)] \<and>
               drvdata s' dev = Some (next_slot s)
     | Err e \<Rightarrow> e \<noteq> 0 \<and> slots s' = slots s
     | Halt _ \<Rightarrow> True)"
proof -
  have mx: "\<not> management_mutex s"
    using run index by (auto simp: iot_slot_probe_def iot_mutex_lock_def seqP_def bindP_def split: if_splits)
  let ?s0 = "s\<lparr>management_mutex := True\<rparr>"
  let ?p = "next_slot s"
  have lock: "iot_mutex_lock s = Some (Ok (), ?s0)" using mx by (simp add: iot_mutex_lock_def)
  have fin: "finallyP m f x = Some (r, y) \<Longrightarrow> \<exists>z. m x = Some (r, z) \<and> y = f z" for m f and x y :: iot_world
    using r by (cases r) (auto simp: finallyP_def split: option.splits outcome.splits)
  have idx: "nat index < length (slots s)" using index len by simp
  from run index obtain z where z: "(bindP (getP (\<lambda>s. slots s ! nat index)) (\<lambda>old.
         if old \<noteq> None then throwP (- EINVAL)
         else bindP (call env Kzalloc) (\<lambda>mem.
         if mem = 0 then throwP (- ENOMEM)
         else bindP (getP next_slot) (\<lambda>p.
         seqP (modifyP (\<lambda>s. s\<lparr>slots := (slots s)[nat index := Some p], next_slot := p + 1,
                 slot_mem := (slot_mem s)(p := new_slot\<lparr>pdev := Some dev\<rparr>),
                 drvdata := (drvdata s)(dev := Some p)\<rparr>))
        (bindP (tryP (seqP (iot_slot_request_essential_resources env pd index p)
                         (iot_slot_enumerate env pd index p)) returnP returnP) (\<lambda>ret.
         whenP (ret \<noteq> 0)
           (seqP (modifyP (\<lambda>s. s\<lparr>slots := (slots s)[nat index := None]\<rparr>)) (throwP ret)))))))) ?s0 = Some (r, z)"
      "s' = z\<lparr>management_mutex := False\<rparr>"
    using lock by (auto simp: iot_slot_probe_def dest!: fin)
  show ?thesis
  proof (cases "slots s ! nat index = None \<and> answer env (acts s) Kzalloc \<noteq> 0")
    case False
    then show ?thesis using z mx by (auto simp: throwP_def split: if_splits)
  next
    case True
    let ?s1 = "?s0\<lparr>acts := acts s @ [Kzalloc], slots := (slots s)[nat index := Some ?p], next_slot := ?p + 1,
      slot_mem := (slot_mem s)(?p := new_slot\<lparr>pdev := Some dev\<rparr>), drvdata := (drvdata s)(dev := Some ?p)\<rparr>"
    let ?m = "tryP (seqP (iot_slot_request_essential_resources env pd index ?p)
      (iot_slot_enumerate env pd index ?p)) returnP returnP"
    have body: "bindP ?m (\<lambda>ret. whenP (ret \<noteq> 0)
        (seqP (modifyP (\<lambda>s. s\<lparr>slots := (slots s)[nat index := None]\<rparr>)) (throwP ret))) ?s1 = Some (r, z)"
      using z(1) True by simp
    have keep: "keeps (reg_same (registry ?s1)) ?m" by (intro keeps_intros)
    obtain r1 s2 where m: "?m ?s1 = Some (r1, s2)"
      using body by (cases "?m ?s1") (auto simp: bindP_def)
    have reg: "registry s2 = registry ?s1" by (rule keepsD [OF keep refl m])
    have restored: "(slots s)[nat index := None] = slots s" using True by (simp add: list_update_same_conv idx)
    show ?thesis
    proof (cases r1)
      case (Ok ret)
      then show ?thesis
        using body m reg z(2) mx True restored
        by (cases "ret = 0") (auto simp: whenP_def returnP_def throwP_def registry_def)
    next
      case (Err e)
      then have False using m by (auto simp: tryP_def returnP_def split: option.splits outcome.splits)
      then show ?thesis ..
    next
      case (Halt h)
      then show ?thesis using body m r by auto
    qed
  qed
qed

text \<open>C4: a probe never leaves the management mutex taken.  When it succeeds, the slot, which was free, and
  the device refer to the new structure; when it fails, at whatever step and whatever the kernel answers,
  it reports an error and the slots are as they were.\<close>

theorem probe_registers:
  assumes "iot_slot_probe env pd dev index s = Some (r, s')" "\<And>h. r \<noteq> Halt h"
    and "0 \<le> index" "index < int NUM_SUPPORTED" "length (slots s) = NUM_SUPPORTED"
  shows "\<not> management_mutex s' \<and>
    (case r of
       Ok _ \<Rightarrow> slots s ! nat index = None \<and> slots s' = (slots s)[nat index := Some (next_slot s)] \<and>
               drvdata s' dev = Some (next_slot s)
     | Err e \<Rightarrow> e \<noteq> 0 \<and> slots s' = slots s
     | Halt _ \<Rightarrow> True)"
  using probe_body [OF assms] by blast

text \<open>Removing the device of a slot gives everything back and frees the slot; removing a device whose
  slot is not registered follows a null pointer instead of reporting an error.\<close>

theorem remove_frees_slot:
  fixes s :: iot_world
  assumes index: "0 \<le> index" "index < int NUM_SUPPORTED"
  shows "(slots s ! nat index = None \<longrightarrow> (\<exists>u. iot_slot_remove env pd dev index s = Some (Halt (Undefined u), s))) \<and>
    (\<forall>p. slots s ! nat index = Some p \<and> drvdata s dev = Some p \<and> pdev (the_slot p s) = Some dev \<and>
       provides pd ReleaseI2c \<and>
       list_all (can_release pd) (take (num_interfaces (the_slot p s)) (interfaces (the_slot p s))) \<longrightarrow>
     (\<exists>s'. iot_slot_remove env pd dev index s = Some (Ok (), s') \<and>
        slots s' = (slots s)[nat index := None] \<and> pdev (the_slot p s') = None \<and> \<not> i2c_adapter (the_slot p s')))"
proof (intro conjI allI impI)
  assume "slots s ! nat index = None"
  then show "\<exists>u. iot_slot_remove env pd dev index s = Some (Halt (Undefined u), s)"
    using index by (simp add: iot_slot_remove_def haltP_def)
next
  fix p assume a: "slots s ! nat index = Some p \<and> drvdata s dev = Some p \<and> pdev (the_slot p s) = Some dev \<and>
       provides pd ReleaseI2c \<and>
       list_all (can_release pd) (take (num_interfaces (the_slot p s)) (interfaces (the_slot p s)))"
  then obtain s1 where s1: "iot_slot_release_resources env pd p s = Some (Ok (), s1)"
      "the_slot p s1 = (the_slot p s)\<lparr>i2c_adapter := False, pdev := None, card_present := False\<rparr>"
      "slots s1 = slots s"
    using release_resources_run [of pd p s env] by blast
  with a index show "\<exists>s'. iot_slot_remove env pd dev index s = Some (Ok (), s') \<and>
        slots s' = (slots s)[nat index := None] \<and> pdev (the_slot p s') = None \<and> \<not> i2c_adapter (the_slot p s')"
    by (simp add: iot_slot_remove_def modifyP_def)
qed

lemma gpio_label_fits: "0 \<le> idx \<Longrightarrow> idx < 3 \<Longrightarrow> i < 4 \<Longrightarrow> length (gpio_label idx i) < 20"
  by (simp add: gpio_label_def decimal_int_def)

text \<open>When a pin other than the first cannot be acquired, the cleanup gives back the first pin only and
  the others stay acquired; when the first pin cannot be acquired, there is no error at all, and the
  function configures the pin it does not own.\<close>

theorem gpio_pin_failure:
  fixes s :: iot_world
  assumes cfg: "eeprom_if_gpio_cfg item i s = Some (Ok cfg, s)"
    and idx: "0 \<le> idx" "idx < 3" and i: "i < 4" "length (pd_gpio pd) = 4"
    and fail: "answer env (acts s) (GpioRequest (pd_gpio pd ! i)) \<noteq> 0"
  shows "gpio_pin env pd idx item i s =
    (if 0 < i then Some (Err (- EACCES), s\<lparr>acts := acts s @ [GpioRequest (pd_gpio pd ! i), GpioFree (pd_gpio pd ! 0)]\<rparr>)
     else gpio_configure env cfg (pd_gpio pd ! 0) (s\<lparr>acts := acts s @ [GpioRequest (pd_gpio pd ! 0)]\<rparr>))"
proof -
  have room: "(20 \<le> length (gpio_label idx j)) = False" if "j < 4" for j
    using gpio_label_fits [OF idx that] by simp
  show ?thesis
    using cfg i fail
    by (cases "i = 0") (simp_all add: gpio_pin_def check_label_def room gpio_at_def throwP_def)
qed

lemma bytes_at_run:
  "off + n \<le> length (buffer s) \<Longrightarrow> bytes_at off n s = Some (Ok (take n (drop off (buffer s))), s)"
proof (induction n arbitrary: off)
  case (Suc n)
  then have "drop off (buffer s) = buffer s ! off # drop (Suc off) (buffer s)"
    by (intro Cons_nth_drop_Suc [symmetric]) simp
  with Suc show ?case
    using byte_at_run [of off s] by (simp add: returnP_def)
qed (simp add: returnP_def)

text \<open>The interrupt number of an I2C description is used as an index into the four pins of the slot
  without a check: any value from 4 to 254 on the card makes the driver read outside the array.\<close>

theorem i2c_irq_out_of_range:
  fixes s :: iot_world
  assumes buf: "valid_header (buffer s)" "HOST_UINT16 (buffer s) VERSION_OFFSET = EEPROM_VERSION 1 0"
    and item: "item + 64 \<le> length (buffer s)" "buffer s ! item = if_code EEPROM_IF_I2C"
    and irq: "length (pd_gpio pd) \<le> unat (buffer s ! (item + 2))" "buffer s ! (item + 2) \<noteq> IRQ_GPIO_UNUSED"
  shows "\<exists>u. iot_slot_add_i2c env pd p item s = Some (Halt (Undefined u), s)"
proof -
  have ty: "byte_at (item + 0) s = Some (Ok 1, s)" and irqb: "byte_at (item + 2) s = Some (Ok (buffer s ! (item + 2)), s)"
    using item byte_at_run [of item s] byte_at_run [of "item + 2" s] by simp_all
  have "eeprom_if_i2c_modalias item s = Some (Ok (take 32 (drop (item + 3) (buffer s))), s)"
    using ty bytes_at_run [of "item + 3" 32 s] item(1)
    by (simp add: eeprom_if_i2c_modalias_def field_of_def on_1v0_run [OF buf])
  moreover have "eeprom_if_i2c_irq_gpio item s = Some (Ok (buffer s ! (item + 2)), s)"
    using ty irqb by (simp add: eeprom_if_i2c_irq_gpio_def field_of_def on_1v0_run [OF buf])
  moreover have "\<exists>u. irq_of env pd (buffer s ! (item + 2)) s = Some (Halt (Undefined u), s)"
    using irq by (simp add: irq_of_def gpio_at_def haltP_def bindP_def)
  ultimately show ?thesis
    by (auto simp: iot_slot_add_i2c_def)
qed

text \<open>A card that is present but whose EEPROM gives no client leaks the I2C adapter when the card detect
  pin could not be made an output: the probe reports that error and forgets the slot, but its adapter is
  still held and was never released.\<close>

theorem probe_leaks_adapter:
  fixes s :: iot_world
  assumes index: "0 \<le> index" "index < 3" and st: "\<not> management_mutex s" "slots s ! nat index = None"
    "length (slots s) = 3"
    and env: "\<And>as a. answer env as a = f a" and f: "f Kzalloc \<noteq> 0" "f (GpioRequest (reset_gpio pd)) = 0"
    "f (GpioRequest (card_detect_gpio pd)) = 0" "f RequestI2c = 0" "provides pd RequestI2c"
    "f (GpioGet (card_detect_gpio pd)) = 0" "f (GpioDirOut (card_detect_gpio pd) 1) \<noteq> 0"
    and card: "\<not> i2c_new_client (card env)"
  shows "\<exists>s' as. iot_slot_probe env pd dev index s = Some (Err (f (GpioDirOut (card_detect_gpio pd) 1)), s') \<and>
    slots s' = slots s \<and> i2c_adapter (the_slot (next_slot s) s') \<and> acts s' = acts s @ as \<and> ReleaseI2c \<notin> set as"
proof -
  have labels: "\<not> 24 \<le> length (reset_label index)" "\<not> 24 \<le> length (card_detect_label index)"
    using index by (simp_all add: reset_label_def card_detect_label_def decimal_int_def)
  have "(slots s)[nat index := None] = slots s"
    using st index by (simp add: list_update_same_conv)
  then show ?thesis
    using index st f card labels
    by (simp add: iot_slot_probe_def iot_mutex_lock_def iot_slot_request_essential_resources_def check_label_def
        iot_slot_enumerate_def eeprom_load_def env new_slot_def upd_slot_def the_slot_def
        seqP_def bindP_def tryP_def finallyP_def whenP_def modifyP_def getP_def throwP_def returnP_def call_def call_fn_def)
qed

section \<open>Closed instances\<close>

definition example_pd :: iot_slot_platform_data where
  "example_pd = \<lparr>pd_gpio = [10, 11, 12, 13], reset_gpio = 20, card_detect_gpio = 21, provides = (\<lambda>_. True)\<rparr>"

definition example_world :: iot_world where
  "example_world = \<lparr>buffer = replicate IOT_EEPROM_SIZE 0, if_list = [], at24_clients = 0, acts = [],
     slots = [None, None, None], slot_mem = (\<lambda>_. new_slot), drvdata = (\<lambda>_. None), next_slot = 0,
     management_mutex = False\<rparr>"

definition example_answers :: "eeprom_env \<Rightarrow> iot_env" where
  "example_answers ee = \<lparr>answer = (\<lambda>_ a. if a = Kzalloc then 1 else 0), chip_select = 0, card = ee\<rparr>"

text \<open>A slot with a clock and an SPI interface, and the adapter held.\<close>

definition filled_slot :: iot_slot where
  "filled_slot = \<lparr>pdev = Some 7, card_present = True, i2c_adapter = True, num_interfaces = 2,
     interfaces = [\<lparr>if_type = IOT_SLOT_INTERFACE_CLK, if_device = 0\<rparr>, \<lparr>if_type = IOT_SLOT_INTERFACE_SPI, if_device = 5\<rparr>] @
       replicate 8 \<lparr>if_type = IOT_SLOT_INTERFACE_GPIO, if_device = 0\<rparr>\<rparr>"

definition filled_world :: iot_world where
  "filled_world = example_world\<lparr>slots := [Some 0, None, None], slot_mem := (\<lambda>_. filled_slot), drvdata := (\<lambda>_. Some 0)\<rparr>"

theorem release_gives_back_witness:
  "\<exists>s'. iot_slot_release_resources (example_answers (card_env [])) example_pd 0 filled_world = Some (Ok (), s') \<and>
     acts s' = [SpiUnregister 5, ReleaseSpi, ReleaseI2c, GpioFree 21, GpioFree 20]"
proof -
  have t: "take (num_interfaces (the_slot 0 filled_world)) (interfaces (the_slot 0 filled_world)) =
      [\<lparr>if_type = IOT_SLOT_INTERFACE_CLK, if_device = 0\<rparr>, \<lparr>if_type = IOT_SLOT_INTERFACE_SPI, if_device = 5\<rparr>]"
    by (simp add: the_slot_def filled_world_def filled_slot_def)
  have a: "i2c_adapter (the_slot 0 filled_world)" "acts filled_world = []"
    by (simp_all add: the_slot_def filled_world_def filled_slot_def example_world_def)
  from release_gives_back [of example_pd 0 filled_world "example_answers (card_env [])"] show ?thesis
    unfolding t using a by (auto simp: can_release_def release_acts_def example_pd_def)
qed

theorem remove_frees_slot_witness:
  "\<exists>s'. iot_slot_remove (example_answers (card_env [])) example_pd 7 0 filled_world = Some (Ok (), s') \<and>
     slots s' = [None, None, None]"
proof -
  have t: "take (num_interfaces (the_slot 0 filled_world)) (interfaces (the_slot 0 filled_world)) =
      [\<lparr>if_type = IOT_SLOT_INTERFACE_CLK, if_device = 0\<rparr>, \<lparr>if_type = IOT_SLOT_INTERFACE_SPI, if_device = 5\<rparr>]"
    by (simp add: the_slot_def filled_world_def filled_slot_def)
  have a: "slots filled_world = [Some 0, None, None]" "drvdata filled_world 7 = Some 0"
    "pdev (the_slot 0 filled_world) = Some 7" "provides example_pd x" for x
    by (simp_all add: the_slot_def filled_world_def filled_slot_def example_world_def example_pd_def)
  from remove_frees_slot [of 0 filled_world "example_answers (card_env [])" example_pd 7] show ?thesis
    using a by (auto simp: t can_release_def)
qed

text \<open>A free slot with the adapter held, and what a card with a clock does to it.\<close>

definition ready_world :: iot_world where
  "ready_world = filled_world\<lparr>slot_mem := (\<lambda>_. new_slot\<lparr>i2c_adapter := True\<rparr>)\<rparr>"

lemma ready_slot: "slot_wf 0 ready_world" "num_interfaces (the_slot 0 ready_world) = 0" "i2c_adapter (the_slot 0 ready_world)"
  by (simp_all add: ready_world_def slot_wf_def the_slot_def new_slot_def)

lemma clock_card_ok: "card_ok 1 (card_bytes [7])"
  using card_bytes_ok [of "[7]"] by simp

lemma clock_card_run:
  "\<exists>s'. iot_slot_enumerate (example_answers (card_env [7])) example_pd 0 0 ready_world = Some (Ok 0, s')"
proof -
  let ?env = "example_answers (card_env [7])"
  have env: "answer ?env as (GpioGet x) = 0" "answer ?env as (GpioDirOut x v) = 0" "card ?env = card_env [7]" for as x v
    by (simp_all add: example_answers_def)
  have hdr: "valid_header (card_bytes [7])" "HOST_UINT16 (card_bytes [7]) VERSION_OFFSET = EEPROM_VERSION 1 0"
    and ty: "card_bytes [7] ! 192 = 7" "card_bytes [7] ! 256 = 0xFF" and len: "length (card_bytes [7]) = 4096"
    using card_bytes_header [of "[7]"] card_bytes_type [of "[7]" 0] card_bytes_type [of "[7]" 1]
    by (simp_all add: desc_off_def)
  have type: "eeprom_if_type k s = Some (Ok (card_bytes [7] ! k), s)"
    if "buffer s = card_bytes [7]" "k < 4096" for k and s :: iot_world
    using that hdr byte_at_run [of k s] len by (simp add: eeprom_if_type_def on_1v0_run)
  have items: "\<exists>s'. enum_items ?env example_pd 0 0 [192, 256] 0 s = Some (Ok 0, s') \<and> buffer s' = buffer s"
    if s: "buffer s = card_bytes [7]" "num_interfaces (the_slot 0 s) = 0" for s :: iot_world
  proof -
    let ?s1 = "count_entry 0 (set_entry 0 IOT_SLOT_INTERFACE_CLK 0 s)"
    have s1: "buffer ?s1 = card_bytes [7]" "num_interfaces (the_slot 0 ?s1) = 1"
      using s by (simp_all add: set_entry_def count_entry_def)
    have "enum_items ?env example_pd 0 0 [256] 0 ?s1 = Some (Ok 0, ?s1)"
      using type [OF s1(1), of 256] s1 ty by (simp add: enum_items_Cons enum_item_def returnP_def)
    then have "enum_items ?env example_pd 0 0 [192, 256] 0 s = Some (Ok 0, ?s1)"
      using type [OF s(1), of 192] s ty by (simp add: enum_items_Cons enum_item_def add_entry_def seqP_def bindP_def modifyP_def returnP_def)
    then show ?thesis using s s1 by auto
  qed
  have load: "eeprom_load (card_env [7]) True s = Some (Ok True,
      s\<lparr>at24_clients := at24_clients s + 1, if_list := [192, 256], buffer := card_bytes [7]\<rparr>)" for s :: iot_world
    using load_ok_run [OF _ _ _ clock_card_ok, of "card_env [7]" s] by (simp add: desc_off_def)
  let ?s1 = "(upd_slot 0 (\<lambda>sl. sl\<lparr>card_present := True\<rparr>) (ready_world\<lparr>acts := acts ready_world @ [GpioGet 21]\<rparr>))
    \<lparr>acts := acts ready_world @ [GpioGet 21, GpioDirOut 21 1]\<rparr>"
  let ?s2 = "?s1\<lparr>at24_clients := at24_clients ready_world + 1, if_list := [192, 256], buffer := card_bytes [7],
    acts := acts ready_world @ [GpioGet 21, GpioDirOut 21 1, GpioSet 20 1, Msleep 10]\<rparr>"
  have "buffer ?s2 = card_bytes [7]" "num_interfaces (the_slot 0 ?s2) = 0"
    using ready_slot by simp_all
  then obtain s3 where s3: "enum_items ?env example_pd 0 0 [192, 256] 0 ?s2 = Some (Ok 0, s3)" "buffer s3 = card_bytes [7]"
    using items [of ?s2] by auto
  have "\<exists>s4. eeprom_unload s3 = Some (Ok (), s4)"
    using s3(2) hdr by (simp add: eeprom_unload_def to_eeprom_buffer_def eeprom_free_interfaces_def
        i2c_unregister_client_def prog_defs)
  then show ?thesis
    using s3 ready_slot
    by (auto simp: iot_slot_enumerate_def env load eeprom_if_list_def example_pd_def tryP_def returnP_def)
qed

theorem enumerate_builds_table_witness:
  "\<exists>s'. iot_slot_enumerate (example_answers (card_env [7])) example_pd 0 0 ready_world = Some (Ok 0, s') \<and>
     types_of 0 s' = [IOT_SLOT_INTERFACE_CLK]"
proof -
  obtain s' where run: "iot_slot_enumerate (example_answers (card_env [7])) example_pd 0 0 ready_world = Some (Ok 0, s')"
    using clock_card_run by blast
  have env: "i2c_new_client (card (example_answers (card_env [7])))"
    "at24_read (card (example_answers (card_env [7]))) = Some (Some (card_bytes [7]))"
    "kzalloc_ok (card (example_answers (card_env [7]))) i"
    "answer (example_answers (card_env [7])) as (GpioGet x) = 0" for i as x
    by (simp_all add: example_answers_def)
  have "slot_type 7 = [IOT_SLOT_INTERFACE_CLK]" by code_simp
  then have tab: "card_table 1 (card_bytes [7]) = [IOT_SLOT_INTERFACE_CLK]"
    by (simp add: card_table_def card_bytes_type)
  from enumerate_builds_table [OF ready_slot env(1,2,3) clock_card_ok _ env(4) run] run tab show ?thesis
    by auto
qed

text \<open>A probe of a slot with no card in it.\<close>

theorem probe_registers_witness:
  "\<exists>s'. iot_slot_probe \<lparr>answer = (\<lambda>_ a. if a = Kzalloc \<or> a = GpioGet 21 then 1 else 0), chip_select = 0, card = card_env []\<rparr>
       example_pd 7 1 example_world = Some (Ok (), s') \<and>
     slots s' = [None, Some 0, None] \<and> drvdata s' 7 = Some 0 \<and> \<not> management_mutex s'"
proof -
  let ?f = "\<lambda>a. if a = Kzalloc \<or> a = GpioGet 21 then 1 else (0 :: int)"
  let ?env = "\<lparr>answer = (\<lambda>_. ?f), chip_select = 0, card = card_env []\<rparr>"
  have st: "\<not> management_mutex example_world" "slots example_world = [None, None, None]" "next_slot example_world = 0"
    by (simp_all add: example_world_def)
  have labels: "\<not> 24 \<le> length (reset_label 1)" "\<not> 24 \<le> length (card_detect_label 1)"
    by (simp_all add: reset_label_def card_detect_label_def decimal_int_def)
  obtain s' where "iot_slot_probe ?env example_pd 7 1 example_world = Some (Ok (), s')"
    using st labels
    by (simp add: iot_slot_probe_def iot_mutex_lock_def iot_slot_request_essential_resources_def check_label_def
        iot_slot_enumerate_def example_pd_def new_slot_def upd_slot_def the_slot_def
        seqP_def bindP_def tryP_def finallyP_def whenP_def modifyP_def getP_def throwP_def returnP_def call_def call_fn_def)
  with probe_registers [OF this] st show ?thesis by simp
qed

theorem gpio_pin_failure_witness:
  "gpio_pin \<lparr>answer = (\<lambda>_ _. - 16), chip_select = 0, card = card_env []\<rparr> example_pd 0 192 2
     (example_world\<lparr>buffer := card_bytes [0]\<rparr>) =
   Some (Err (- EACCES), example_world\<lparr>buffer := card_bytes [0], acts := [GpioRequest 12, GpioFree 10]\<rparr>)"
proof -
  let ?s = "example_world\<lparr>buffer := card_bytes [0]\<rparr>"
  have len: "length (buffer ?s) = 4096" and hdr: "valid_header (buffer ?s)"
      "HOST_UINT16 (buffer ?s) VERSION_OFFSET = EEPROM_VERSION 1 0"
    using card_bytes_header [of "[0]"] by simp_all
  have ty: "buffer ?s ! 192 = 0"
    using card_bytes_type [of "[0]" 0] by (simp add: desc_off_def)
  have "eeprom_if_gpio_cfg 192 2 ?s = Some (Ok (buffer ?s ! 195), ?s)"
    using byte_at_run [of 192 ?s] byte_at_run [of 195 ?s] len ty
    by (simp add: eeprom_if_gpio_cfg_def field_of_def on_1v0_run [OF hdr])
  from gpio_pin_failure [OF this, of 0 example_pd] show ?thesis
    by (simp add: example_pd_def example_world_def)
qed

theorem i2c_irq_out_of_range_witness:
  "\<exists>u s'. iot_slot_add_i2c (example_answers (card_env [])) (example_pd\<lparr>pd_gpio := []\<rparr>) 0 192
     (example_world\<lparr>buffer := card_bytes [1]\<rparr>) = Some (Halt (Undefined u), s')"
proof -
  let ?s = "example_world\<lparr>buffer := card_bytes [1]\<rparr>"
  have len: "length (buffer ?s) = 4096" and hdr: "valid_header (buffer ?s)"
      "HOST_UINT16 (buffer ?s) VERSION_OFFSET = EEPROM_VERSION 1 0"
    using card_bytes_header [of "[1]"] by simp_all
  have ty: "buffer ?s ! 192 = 1"
    using card_bytes_type [of "[1]" 0] by (simp add: desc_off_def)
  have irq: "buffer ?s ! 194 = 0"
    by (simp add: card_bytes_def nth_append)
  show ?thesis
    using i2c_irq_out_of_range [OF hdr, of 192 "example_pd\<lparr>pd_gpio := []\<rparr>" "example_answers (card_env [])" 0] len ty irq
    by auto
qed

theorem probe_leaks_adapter_witness:
  "\<exists>s'. iot_slot_probe \<lparr>answer = (\<lambda>_ a. if a = Kzalloc then 1 else if a = GpioDirOut 21 1 then - 5 else 0),
       chip_select = 0, card = (card_env [])\<lparr>i2c_new_client := False\<rparr>\<rparr> example_pd 7 1 example_world = Some (Err (- 5), s') \<and>
     ReleaseI2c \<notin> set (acts s')"
proof -
  let ?f = "\<lambda>a. if a = Kzalloc then 1 else if a = GpioDirOut 21 1 then - 5 else (0 :: int)"
  let ?env = "\<lparr>answer = (\<lambda>_. ?f), chip_select = 0, card = (card_env [])\<lparr>i2c_new_client := False\<rparr>\<rparr>"
  have st: "\<not> management_mutex example_world" "slots example_world ! nat 1 = None" "length (slots example_world) = 3"
    "acts example_world = []"
    by (simp_all add: example_world_def numeral_2_eq_2)
  show ?thesis
    using probe_leaks_adapter [of 1 example_world ?env ?f example_pd 7] st by (auto simp: example_pd_def)
qed

end
