(* ===== verification/Board_Kernel.thy ===== *)
theory Board_Kernel
  imports Mangoh_Prelude "HOL-Library.Multiset"
begin

text \<open>
  What the board drivers (\<^verbatim>\<open>linux_kernel_modules/mangoh\<close>) ask of the kernel: I2C adapters and clients, platform
  devices and GPIOs.  The kernel's answers are a parameter; what it promises about its objects is kept in
  the state, so that giving back an object that is not held is a halt: a client that has been unregistered
  is freed memory.  The last section states what a board driver owes the driver core as a locale.
\<close>

section \<open>The kernel's objects\<close>

text \<open>
  A client is a number, and what it was made from: the chip, its address and the bus.  An adapter is the
  number of its bus.  \<open>calls\<close> counts the questions, so that every answer can differ.
\<close>

type_synonym i2c_board_info = "string \<times> nat"

record bus_world =
  calls :: nat
  next_client :: nat
  clients :: "nat \<Rightarrow> (i2c_board_info \<times> int) option"
  adapter_refs :: "int \<Rightarrow> int"
  platform_devices :: "string set"
  platform_drivers :: "string set"
  gpios :: "int set"
  levels :: "int \<Rightarrow> bool"

text \<open>
  The answers: whether an adapter exists, whether a client can be made, the GPIO base of the expander when
  its driver is bound, and the return values of the other calls.  \<open>null_client_ok\<close> tells whether
  \<^verbatim>\<open>i2c_unregister_device\<close> accepts a null pointer, which it does since Linux 4.16.
\<close>

record board_env =
  adapter_exists :: "nat \<Rightarrow> int \<Rightarrow> bool"
  client_made :: "nat \<Rightarrow> i2c_board_info \<Rightarrow> bool"
  expander_base :: "nat \<Rightarrow> int option"
  register_ret :: "nat \<Rightarrow> string \<Rightarrow> int"
  gpio_ret :: "nat \<Rightarrow> int \<Rightarrow> int"
  direction_ret :: "nat \<Rightarrow> int \<Rightarrow> int"
  gpio_to_irq :: "int \<Rightarrow> int"
  eeprom_binds :: "nat \<Rightarrow> bool"
  kmalloc_ok :: "nat \<Rightarrow> bool"
  eeprom_read_ok :: "nat \<Rightarrow> bool"
  eeprom_write_ok :: "nat \<Rightarrow> bool"
  null_client_ok :: bool
  PRIMARY_I2C_BUS :: int
  CF3_GPIO36 :: int

abbreviation (input) ENOLCK :: int where "ENOLCK \<equiv> 37"
abbreviation (input) EPROBE_DEFER :: int where "EPROBE_DEFER \<equiv> 517"

definition ask :: "(nat \<Rightarrow> 'a) \<Rightarrow> ('z bus_world_scheme, 'a) prog" where
  "ask f s = Some (Ok (f (calls s)), s\<lparr>calls := Suc (calls s)\<rparr>)"

definition i2c_get_adapter :: "board_env \<Rightarrow> int \<Rightarrow> ('z bus_world_scheme, int option) prog" where
  "i2c_get_adapter env bus =
     bindP (ask (\<lambda>n. adapter_exists env n bus)) (\<lambda>ok.
     if ok then seqP (modifyP (\<lambda>s. s\<lparr>adapter_refs := (adapter_refs s)(bus := adapter_refs s bus + 1)\<rparr>)) (returnP (Some bus))
     else returnP None)"

fun i2c_put_adapter :: "int option \<Rightarrow> ('z bus_world_scheme, unit) prog" where
  "i2c_put_adapter None = returnP ()"
| "i2c_put_adapter (Some bus) = modifyP (\<lambda>s. s\<lparr>adapter_refs := (adapter_refs s)(bus := adapter_refs s bus - 1)\<rparr>)"

definition i2c_new_device :: "board_env \<Rightarrow> int \<Rightarrow> i2c_board_info \<Rightarrow> ('z bus_world_scheme, nat option) prog" where
  "i2c_new_device env bus info =
     bindP (ask (\<lambda>n. client_made env n info)) (\<lambda>ok.
     if ok then
       bindP (getP next_client) (\<lambda>c.
       seqP (modifyP (\<lambda>s. s\<lparr>next_client := Suc c, clients := (clients s)(c \<mapsto> (info, bus))\<rparr>)) (returnP (Some c)))
     else returnP None)"

fun i2c_unregister_device :: "board_env \<Rightarrow> nat option \<Rightarrow> ('z bus_world_scheme, unit) prog" where
  "i2c_unregister_device env None =
     (if null_client_ok env then returnP () else haltP (Undefined ''i2c_unregister_device of a null pointer''))"
| "i2c_unregister_device env (Some c) =
     bindP (getP (\<lambda>s. clients s c)) (\<lambda>b.
     if b = None then haltP (Undefined ''i2c_unregister_device of a freed client'')
     else modifyP (\<lambda>s. s\<lparr>clients := (clients s)(c := None)\<rparr>))"

definition platform_device_register :: "board_env \<Rightarrow> string \<Rightarrow> ('z bus_world_scheme, int) prog" where
  "platform_device_register env name =
     bindP (ask (\<lambda>n. register_ret env n name)) (\<lambda>ret.
     seqP (whenP (ret = 0) (modifyP (\<lambda>s. s\<lparr>platform_devices := insert name (platform_devices s)\<rparr>))) (returnP ret))"

definition platform_device_unregister :: "string \<Rightarrow> ('z bus_world_scheme, unit) prog" where
  "platform_device_unregister name =
     bindP (getP (\<lambda>s. name \<in> platform_devices s)) (\<lambda>b.
     if b then modifyP (\<lambda>s. s\<lparr>platform_devices := platform_devices s - {name}\<rparr>)
     else haltP (Undefined ''platform_device_unregister of a device that is not registered''))"

definition platform_driver_register :: "board_env \<Rightarrow> string \<Rightarrow> ('z bus_world_scheme, int) prog" where
  "platform_driver_register env name =
     bindP (ask (\<lambda>n. register_ret env n name)) (\<lambda>ret.
     seqP (whenP (ret = 0) (modifyP (\<lambda>s. s\<lparr>platform_drivers := insert name (platform_drivers s)\<rparr>))) (returnP ret))"

definition platform_driver_unregister :: "string \<Rightarrow> ('z bus_world_scheme, unit) prog" where
  "platform_driver_unregister name = modifyP (\<lambda>s. s\<lparr>platform_drivers := platform_drivers s - {name}\<rparr>)"

definition devm_gpio_request_one :: "board_env \<Rightarrow> int \<Rightarrow> ('z bus_world_scheme, int) prog" where
  "devm_gpio_request_one env gpio =
     bindP (ask (\<lambda>n. gpio_ret env n gpio)) (\<lambda>ret.
     seqP (whenP (ret = 0) (modifyP (\<lambda>s. s\<lparr>gpios := insert gpio (gpios s)\<rparr>))) (returnP ret))"

definition devm_gpio_free :: "int \<Rightarrow> ('z bus_world_scheme, unit) prog" where
  "devm_gpio_free gpio = modifyP (\<lambda>s. s\<lparr>gpios := gpios s - {gpio}\<rparr>)"

text \<open>The driver core gives back the managed GPIOs of a device when its probe fails and when it is removed.\<close>

definition bind_driver :: "('z bus_world_scheme, unit) prog \<Rightarrow> ('z bus_world_scheme, unit) prog" where
  "bind_driver probe = tryP probe (\<lambda>e. seqP (modifyP (\<lambda>s. s\<lparr>gpios := {}\<rparr>)) (throwP e)) returnP"

definition unbind_driver :: "('z bus_world_scheme, unit) prog \<Rightarrow> ('z bus_world_scheme, unit) prog" where
  "unbind_driver remove = seqP remove (modifyP (\<lambda>s. s\<lparr>gpios := {}\<rparr>))"

text \<open>
  What the drivers do for most of their clients: make it, keep its pointer, and return the error when it is
  null; and give back a client that is there.
\<close>

definition map_client :: "board_env \<Rightarrow> int \<Rightarrow> i2c_board_info \<Rightarrow> (nat option \<Rightarrow> 'z bus_world_scheme \<Rightarrow> 'z bus_world_scheme) \<Rightarrow>
    ('z bus_world_scheme, unit) prog" where
  "map_client env bus info upd =
     bindP (i2c_new_device env bus info) (\<lambda>c.
     seqP (modifyP (upd c)) (if c = None then throwP (- ENODEV) else returnP ()))"

definition put_adapters :: "int option list \<Rightarrow> ('z bus_world_scheme, unit) prog" where
  "put_adapters = foreachP i2c_put_adapter"

section \<open>Text in memory\<close>

text \<open>\<^verbatim>\<open>strcmp\<close> gives 0, and \<^verbatim>\<open>strstarts\<close> true, for an array with room for the string.\<close>

definition bytes_of :: "string \<Rightarrow> u8 list" where
  "bytes_of str = map of_char str"

definition strcmp_equal :: "u8 list \<Rightarrow> string \<Rightarrow> bool" where
  "strcmp_equal data str \<longleftrightarrow> take (length str + 1) data = bytes_of str @ [0]"

definition strstarts :: "u8 list \<Rightarrow> string \<Rightarrow> bool" where
  "strstarts data str \<longleftrightarrow> take (length str) data = bytes_of str"

section \<open>Rules\<close>

lemmas kernel_call_defs = i2c_get_adapter_def i2c_new_device_def platform_device_register_def platform_device_unregister_def
  devm_gpio_request_one_def devm_gpio_free_def

lemma wp_ask [wp_rules]: "wp (ask f) Q s = Q (Ok (f (calls s))) (s\<lparr>calls := Suc (calls s)\<rparr>)"
  by (simp add: wp_def ask_def)

lemma wp_case_option: "wp (case x of None \<Rightarrow> m | Some y \<Rightarrow> n y) Q s = (case x of None \<Rightarrow> wp m Q s | Some y \<Rightarrow> wp (n y) Q s)"
  by (cases x) simp_all

text \<open>
  A client is made or not: everything that follows is shown for both, with a number that was not in use.
\<close>

lemma wp_i2c_new_device:
  "wp (i2c_new_device env bus info) Q s \<longleftrightarrow>
     (if client_made env (calls s) info then
        Q (Ok (Some (next_client s))) (s\<lparr>calls := Suc (calls s), next_client := Suc (next_client s),
          clients := (clients s)(next_client s \<mapsto> (info, bus))\<rparr>)
      else Q (Ok None) (s\<lparr>calls := Suc (calls s)\<rparr>))"
  by (simp add: i2c_new_device_def wp_rules)

lemma wp_i2c_get_adapter:
  "wp (i2c_get_adapter env bus) Q s \<longleftrightarrow>
     (if adapter_exists env (calls s) bus then
        Q (Ok (Some bus)) (s\<lparr>calls := Suc (calls s), adapter_refs := (adapter_refs s)(bus := adapter_refs s bus + 1)\<rparr>)
      else Q (Ok None) (s\<lparr>calls := Suc (calls s)\<rparr>))"
  by (simp add: i2c_get_adapter_def wp_rules)

lemma wp_platform_device_register:
  "wp (platform_device_register env name) Q s \<longleftrightarrow>
     (let ret = register_ret env (calls s) name in
      Q (Ok ret) (if ret = 0 then s\<lparr>calls := Suc (calls s), platform_devices := insert name (platform_devices s)\<rparr>
                  else s\<lparr>calls := Suc (calls s)\<rparr>))"
  by (simp add: platform_device_register_def wp_rules Let_def)

lemma wp_devm_gpio_request_one:
  "wp (devm_gpio_request_one env gpio) Q s \<longleftrightarrow>
     (let ret = gpio_ret env (calls s) gpio in
      Q (Ok ret) (if ret = 0 then s\<lparr>calls := Suc (calls s), gpios := insert gpio (gpios s)\<rparr> else s\<lparr>calls := Suc (calls s)\<rparr>))"
  by (simp add: devm_gpio_request_one_def wp_rules Let_def)

lemma wp_platform_driver_register:
  "wp (platform_driver_register env name) Q s \<longleftrightarrow>
     (let ret = register_ret env (calls s) name in
      Q (Ok ret) (if ret = 0 then s\<lparr>calls := Suc (calls s), platform_drivers := insert name (platform_drivers s)\<rparr>
                  else s\<lparr>calls := Suc (calls s)\<rparr>))"
  by (simp add: platform_driver_register_def wp_rules Let_def)

lemmas wp_kernel = wp_platform_driver_register platform_driver_unregister_def wp_rules wp_i2c_new_device wp_i2c_get_adapter wp_platform_device_register wp_devm_gpio_request_one

section \<open>Clients in the driver's data\<close>

text \<open>
  \<^theory_text>\<open>holding chips base k ps s\<close>: since the state \<open>base\<close> the driver has made the first \<open>k\<close> clients of \<open>chips\<close>,
  and its pointers \<open>ps\<close> are these and then null pointers.
\<close>

definition holding :: "(i2c_board_info \<times> int) list \<Rightarrow> 'z bus_world_scheme \<Rightarrow> nat \<Rightarrow> nat option list \<Rightarrow> 'z bus_world_scheme \<Rightarrow> bool" where
  "holding chips base k ps s \<longleftrightarrow>
     k \<le> length chips \<and>
     ps = map Some [next_client base..<next_client base + k] @ replicate (length chips - k) None \<and>
     next_client s = next_client base + k \<and>
     clients s = clients base ++ map_of (zip [next_client base..<next_client base + k] chips) \<and>
     (\<forall>c\<ge>next_client base. clients base c = None)"

definition somes :: "'a option list \<Rightarrow> 'a list" where
  "somes ps = concat (map (\<lambda>p. case p of None \<Rightarrow> [] | Some c \<Rightarrow> [c]) ps)"

lemma somes_simps [simp]: "somes [] = []" "somes (None # ps) = somes ps" "somes (Some c # ps) = c # somes ps"
  "somes (ps @ qs) = somes ps @ somes qs" "somes (map Some cs) = cs" "somes (replicate m None) = []"
proof -
  show "somes (map Some cs) = cs" by (induction cs) (simp_all add: somes_def)
  show "somes (replicate m None) = []" by (induction m) (simp_all add: somes_def)
qed (simp_all add: somes_def)

lemma mset_somes: "mset ps = mset qs \<Longrightarrow> mset (somes ps) = mset (somes qs)"
proof -
  have "mset (somes xs) = \<Sum>\<^sub># (image_mset (\<lambda>p. case p of None \<Rightarrow> {#} | Some c \<Rightarrow> {#c#}) (mset xs))" for xs :: "'a option list"
    by (induction xs) (simp_all add: somes_def split: option.split)
  then show "mset ps = mset qs \<Longrightarrow> mset (somes ps) = mset (somes qs)" by simp
qed

text \<open>\<^theory_text>\<open>owns cs base s\<close>: exactly the clients \<open>cs\<close> have been made since \<open>base\<close> and not yet unregistered.\<close>

definition owns :: "nat list \<Rightarrow> 'z bus_world_scheme \<Rightarrow> 'z bus_world_scheme \<Rightarrow> bool" where
  "owns cs base s \<longleftrightarrow> distinct cs \<and> (\<forall>c\<in>set cs. clients s c \<noteq> None \<and> clients base c = None) \<and>
     (\<forall>c. c \<notin> set cs \<longrightarrow> clients s c = clients base c)"

lemma owns_none: "owns [] base s \<Longrightarrow> clients s = clients base"
  by (auto simp: owns_def)

lemma owns_perm: "mset cs = mset ds \<Longrightarrow> owns cs base s \<Longrightarrow> owns ds base s"
  by (auto simp: owns_def dest: mset_eq_setD mset_eq_imp_distinct_iff)

lemma zip_prefix: "zip xs ys = zip xs (take (length xs) ys)"
proof (induction xs arbitrary: ys)
  case (Cons x xs)
  then show ?case by (cases ys) auto
qed simp

lemma holding_owns:
  assumes "holding chips base k ps s"
  shows "owns (somes ps) base s"
proof -
  let ?ks = "[next_client base..<next_client base + k]"
  have ps: "somes ps = ?ks" and len: "length ?ks \<le> length chips"
    using assms by (auto simp: holding_def)
  have "c \<in> set ?ks \<longleftrightarrow> map_of (zip ?ks chips) c \<noteq> None" for c
  proof -
    have "map_of (zip ?ks chips) = map_of (zip ?ks (take k chips))"
      using zip_prefix [of ?ks chips] by simp
    moreover have "length ?ks = length (take k chips)" using len by simp
    ultimately show ?thesis using map_of_zip_is_None[of ?ks "take k chips" c] by simp
  qed
  note known = this
  have all: "clients s c = (case map_of (zip ?ks chips) c of None \<Rightarrow> clients base c | Some x \<Rightarrow> Some x)" for c
    using assms by (simp only: holding_def map_add_def)
  have fresh: "clients base c = None" if "c \<in> set ?ks" for c using assms that by (simp add: holding_def)
  have in_ks: "clients s c \<noteq> None" if "c \<in> set ?ks" for c
    using known [of c] that by (simp only: all split: option.split) blast
  have not_ks: "clients s c = clients base c" if "c \<notin> set ?ks" for c
  proof -
    have "map_of (zip ?ks chips) c = None" using known [of c] that by blast
    then show ?thesis by (simp only: all) simp
  qed
  show ?thesis unfolding owns_def ps using fresh in_ks not_ks by (simp del: set_upt)
qed

section \<open>Example answers\<close>

text \<open>A kernel that refuses nothing, and one on which the first port of the switch is missing.\<close>

definition example_board_env :: board_env where
  "example_board_env = \<lparr>adapter_exists = (\<lambda>_ _. True), client_made = (\<lambda>_ _. True), expander_base = (\<lambda>_. Some 100),
     register_ret = (\<lambda>_ _. 0), gpio_ret = (\<lambda>_ _. 0), direction_ret = (\<lambda>_ _. 0), gpio_to_irq = (\<lambda>g. g), eeprom_binds = (\<lambda>_. True),
     kmalloc_ok = (\<lambda>_. True), eeprom_read_ok = (\<lambda>_. True), eeprom_write_ok = (\<lambda>_. True), null_client_ok = False,
     PRIMARY_I2C_BUS = 0, CF3_GPIO36 = 36\<rparr>"

definition example_no_port :: board_env where
  "example_no_port = example_board_env\<lparr>adapter_exists := (\<lambda>_ bus. bus \<noteq> 2)\<rparr>"

end
