(* ===== verification/Board_Yellow.thy ===== *)
theory Board_Yellow
  imports Board_Kernel
begin

text \<open>
  The board driver of the mangOH Yellow (\<^verbatim>\<open>mangoh_yellow.c\<close>): reading the revision of the board from its
  EEPROM, making the devices of the board when the driver is bound, and removing them.
\<close>

section \<open>The static data\<close>

datatype board_rev = BOARD_REV_UNKNOWN | BOARD_REV_DV2 | BOARD_REV_DV3 | BOARD_REV_1_0

abbreviation (input) BOARD_REV_NEWEST :: board_rev where "BOARD_REV_NEWEST \<equiv> BOARD_REV_1_0"

fun board_rev_string :: "board_rev \<Rightarrow> string" where
  "board_rev_string BOARD_REV_UNKNOWN = ''unknown''"
| "board_rev_string BOARD_REV_DV2 = ''dv2''"
| "board_rev_string BOARD_REV_DV3 = ''dv3''"
| "board_rev_string BOARD_REV_1_0 = ''1.0''"

text \<open>\<open>eeprom_bytes\<close> is what the EEPROM chip holds; the other fields are the driver's.\<close>

record mangoh_yellow_driver_data = bus_world +
  eeprom_bytes :: "u8 list"
  eeprom :: "nat option"
  i2c_switch :: "nat option"
  imu :: "nat option"
  rtc :: "nat option"
  light :: "nat option"
  battery_gauge :: "nat option"
  battery_charger :: "nat option"
  gpio_expander :: "nat option"
  expander_registered :: bool
  rev :: board_rev
  eeprom_read_success :: bool
  expander_pdata_base :: int
  light_irq :: int

type_synonym 'a yellow_prog = "(mangoh_yellow_driver_data, 'a) prog"

abbreviation (input) byte_len :: nat where "byte_len \<equiv> 4096"

abbreviation (input) eeprom_info :: i2c_board_info where "eeprom_info \<equiv> (''at24'', 0x50)"
abbreviation (input) pca954x_device_info :: i2c_board_info where "pca954x_device_info \<equiv> (''pca9546'', 0x71)"
abbreviation (input) gpio_expander_devinfo :: i2c_board_info where "gpio_expander_devinfo \<equiv> (''sx1509q'', 0x3e)"
abbreviation (input) imu_devinfo :: i2c_board_info where "imu_devinfo \<equiv> (''bmi160'', 0x68)"
abbreviation (input) rtc_devinfo :: i2c_board_info where "rtc_devinfo \<equiv> (''pcf85063'', 0x51)"
abbreviation (input) battery_charger_devinfo :: i2c_board_info where "battery_charger_devinfo \<equiv> (''bq25601'', 0x6b)"
abbreviation (input) battery_gauge_devinfo :: i2c_board_info where "battery_gauge_devinfo \<equiv> (''bq27426'', 0x55)"
abbreviation (input) light_devinfo :: i2c_board_info where "light_devinfo \<equiv> (''opt3002'', 0x44)"

abbreviation (input) PORT0 :: "board_env \<Rightarrow> int" where "PORT0 env \<equiv> PRIMARY_I2C_BUS env + 1"
abbreviation (input) PORT1 :: "board_env \<Rightarrow> int" where "PORT1 env \<equiv> PRIMARY_I2C_BUS env + 2"
abbreviation (input) PORT2 :: "board_env \<Rightarrow> int" where "PORT2 env \<equiv> PRIMARY_I2C_BUS env + 3"
abbreviation (input) PORT3 :: "board_env \<Rightarrow> int" where "PORT3 env \<equiv> PRIMARY_I2C_BUS env + 4"

text \<open>The static data when the module is loaded, on a kernel whose own objects are not modelled.\<close>

definition y_start :: "u8 list \<Rightarrow> board_rev \<Rightarrow> mangoh_yellow_driver_data" where
  "y_start bytes r = \<lparr>calls = 0, next_client = 0, clients = (\<lambda>_. None), adapter_refs = (\<lambda>_. 0), platform_devices = {},
     platform_drivers = {}, gpios = {}, levels = (\<lambda>_. False), eeprom_bytes = bytes, eeprom = None, i2c_switch = None, imu = None,
     rtc = None, light = None, battery_gauge = None, battery_charger = None, gpio_expander = None, expander_registered = False,
     rev = r, eeprom_read_success = False, expander_pdata_base = - 1, light_irq = 0\<rparr>"

section \<open>The revision of the board\<close>

text \<open>The text for an empty EEPROM, with the terminating zero that \<^verbatim>\<open>sizeof\<close> counts.\<close>

definition eeprom_data :: "u8 list" where
  "eeprom_data = bytes_of (''mangOH Yellow'' @ [CHR 0x0A] @ ''Rev: 1.0'' @ [CHR 0x0A] @ ''Forced-By-Driver: true'' @ [CHR 0x0A]) @ [0]"

definition write_eeprom :: "board_env \<Rightarrow> u8 list \<Rightarrow> unit yellow_prog" where
  "write_eeprom env bytes = bindP (ask (eeprom_write_ok env)) (\<lambda>ok.
     whenP ok (modifyP (\<lambda>s. s\<lparr>eeprom_bytes := bytes @ drop (length bytes) (eeprom_bytes s)\<rparr>)))"

definition identify :: "board_env \<Rightarrow> u8 list \<Rightarrow> unit yellow_prog" where
  "identify env data =
     (if list_all (\<lambda>b. b = 0xFF) data then
        seqP (modifyP (\<lambda>s. s\<lparr>rev := BOARD_REV_NEWEST\<rparr>)) (write_eeprom env eeprom_data)
      else if strstarts data (''mangOH Yellow'' @ [CHR 0x0A]) then modifyP (\<lambda>s. s\<lparr>rev := BOARD_REV_1_0\<rparr>)
      else if strcmp_equal data ''mangOH Yellow DV3'' then modifyP (\<lambda>s. s\<lparr>rev := BOARD_REV_DV3\<rparr>)
      else returnP ())"

definition eeprom_setup :: "board_env \<Rightarrow> unit yellow_prog" where
  "eeprom_setup env =
     bindP (getP rev) (\<lambda>r.
     if r \<noteq> BOARD_REV_UNKNOWN then returnP ()
     else bindP (ask (kmalloc_ok env)) (\<lambda>alloc.
       if \<not> alloc then returnP ()
       else bindP (ask (eeprom_read_ok env)) (\<lambda>ok.
         if \<not> ok then returnP ()
         else seqP (modifyP (\<lambda>s. s\<lparr>eeprom_read_success := True\<rparr>))
             (bindP (getP (\<lambda>s. take byte_len (eeprom_bytes s))) (identify env)))))"

section \<open>Removing the driver\<close>

definition safe_i2c_unregister_device :: "board_env \<Rightarrow> nat option \<Rightarrow> unit yellow_prog" where
  "safe_i2c_unregister_device env client = whenP (client \<noteq> None) (i2c_unregister_device env client)"

definition mangoh_yellow_remove :: "board_env \<Rightarrow> unit yellow_prog" where
  "mangoh_yellow_remove env =
     seqP (bindP (getP imu) (safe_i2c_unregister_device env))
    (seqP (bindP (getP light) (safe_i2c_unregister_device env))
    (seqP (bindP (getP battery_charger) (safe_i2c_unregister_device env))
    (seqP (bindP (getP battery_gauge) (safe_i2c_unregister_device env))
    (seqP (bindP (getP rtc) (safe_i2c_unregister_device env))
    (seqP (bindP (getP expander_registered) (\<lambda>b. whenP b (platform_device_unregister ''expander'')))
    (seqP (bindP (getP gpio_expander) (safe_i2c_unregister_device env))
    (seqP (bindP (getP i2c_switch) (safe_i2c_unregister_device env))
          (bindP (getP eeprom) (safe_i2c_unregister_device env)))))))))"

section \<open>Binding the driver\<close>

text \<open>Making the EEPROM's client calls \<^theory_text>\<open>eeprom_setup\<close> when its driver is there.\<close>

definition map_eeprom :: "board_env \<Rightarrow> int \<Rightarrow> unit yellow_prog" where
  "map_eeprom env bus =
     bindP (i2c_new_device env bus eeprom_info) (\<lambda>c.
     seqP (bindP (ask (eeprom_binds env)) (\<lambda>b. whenP (c \<noteq> None \<and> b) (eeprom_setup env)))
    (seqP (modifyP (\<lambda>s. s\<lparr>eeprom := c\<rparr>)) (if c = None then throwP (- ENODEV) else returnP ())))"

definition check_revision :: "unit yellow_prog" where
  "check_revision = bindP (getP rev) (\<lambda>r. case r of
     BOARD_REV_1_0 \<Rightarrow> returnP ()
   | BOARD_REV_DV3 \<Rightarrow> returnP ()
   | BOARD_REV_UNKNOWN \<Rightarrow> throwP (- ENODEV)
   | _ \<Rightarrow> throwP (- ENODEV))"

definition map_expander :: "board_env \<Rightarrow> int \<Rightarrow> unit yellow_prog" where
  "map_expander env bus =
     seqP (map_client env bus gpio_expander_devinfo (\<lambda>c s. s\<lparr>gpio_expander := c\<rparr>))
     (bindP (ask (expander_base env)) (\<lambda>chip. case chip of
        None \<Rightarrow> throwP (- ENODEV)
      | Some base \<Rightarrow>
          seqP (modifyP (\<lambda>s. s\<lparr>expander_pdata_base := base\<rparr>))
         (bindP (platform_device_register env ''expander'') (\<lambda>ret.
            if ret \<noteq> 0 then throwP ret else modifyP (\<lambda>s. s\<lparr>expander_registered := True\<rparr>)))))"

definition map_light :: "board_env \<Rightarrow> int \<Rightarrow> unit yellow_prog" where
  "map_light env bus =
     bindP (devm_gpio_request_one env (CF3_GPIO36 env)) (\<lambda>res.
     seqP (if res = - EPROBE_DEFER then returnP ()
           else if res \<noteq> 0 then throwP (- ENODEV)
           else modifyP (\<lambda>s. s\<lparr>light_irq := gpio_to_irq env (CF3_GPIO36 env)\<rparr>))
          (map_client env bus light_devinfo (\<lambda>c s. s\<lparr>light := c\<rparr>)))"

definition map_devices :: "board_env \<Rightarrow> int option \<Rightarrow> int option \<Rightarrow> int option \<Rightarrow> unit yellow_prog" where
  "map_devices env port1 port2 port3 = (case (port1, port2, port3) of
     (Some p1, Some p2, Some p3) \<Rightarrow>
       seqP (map_expander env p3)
      (seqP (map_client env p1 imu_devinfo (\<lambda>c s. s\<lparr>imu := c\<rparr>))
      (seqP (map_client env p3 rtc_devinfo (\<lambda>c s. s\<lparr>rtc := c\<rparr>))
      (seqP (map_client env p2 battery_charger_devinfo (\<lambda>c s. s\<lparr>battery_charger := c\<rparr>))
      (seqP (map_client env p2 battery_gauge_devinfo (\<lambda>c s. s\<lparr>battery_gauge := c\<rparr>))
            (map_light env p2)))))
   | _ \<Rightarrow> throwP (- ENODEV))"

definition mangoh_yellow_probe :: "board_env \<Rightarrow> unit yellow_prog" where
  "mangoh_yellow_probe env =
     bindP (i2c_get_adapter env (PRIMARY_I2C_BUS env)) (\<lambda>primary. case primary of
       None \<Rightarrow> throwP (- ENODEV)
     | Some bus \<Rightarrow>
         seqP (map_eeprom env bus)
        (seqP check_revision
        (seqP (map_client env bus pca954x_device_info (\<lambda>c s. s\<lparr>i2c_switch := c\<rparr>))
        (bindP (i2c_get_adapter env (PORT1 env)) (\<lambda>port1.
         bindP (i2c_get_adapter env (PORT2 env)) (\<lambda>port2.
         bindP (i2c_get_adapter env (PORT3 env)) (\<lambda>port3.
         tryP (map_devices env port1 port2 port3)
           (\<lambda>ret. seqP (put_adapters [port3, port2, port1, primary]) (seqP (mangoh_yellow_remove env) (throwP ret)))
           (\<lambda>_. put_adapters [port3, port2, port1, primary]))))))))"

section \<open>Loading and unloading the module\<close>

definition set_rev :: "board_rev \<Rightarrow> unit yellow_prog" where
  "set_rev r = modifyP (\<lambda>s. s\<lparr>rev := r\<rparr>)"

definition mangoh_yellow_init :: "board_env \<Rightarrow> string \<Rightarrow> unit yellow_prog" where
  "mangoh_yellow_init env force_revision =
     bindP (platform_driver_register env ''mangoh yellow'') (\<lambda>_.
     seqP (if force_revision = board_rev_string BOARD_REV_1_0 then set_rev BOARD_REV_1_0
           else if force_revision = board_rev_string BOARD_REV_DV3 then set_rev BOARD_REV_DV3
           else if force_revision = board_rev_string BOARD_REV_DV2 then set_rev BOARD_REV_DV2
           else if force_revision \<noteq> [] then throwP (- ENODEV)
           else returnP ())
     (bindP (platform_device_register env ''mangoh yellow'') (\<lambda>ret.
        if ret \<noteq> 0 then seqP (platform_driver_unregister ''mangoh yellow'') (throwP (- ENODEV)) else returnP ())))"

definition mangoh_yellow_exit :: "unit yellow_prog" where
  "mangoh_yellow_exit =
     seqP (platform_device_unregister ''mangoh yellow'') (platform_driver_unregister ''mangoh yellow'')"

end
