(* ===== verification/Board_Clients.thy ===== *)
theory Board_Clients
  imports Board_Kernel
begin

text \<open>
  What the board drivers share in the proofs.  The pointers a driver keeps to its clients are an interface,
  a locale: a list of slots that the driver fills in order.  The lemmas of the locale say what making the
  next client does to what the driver holds, and that giving back what it owns leaves nothing behind.
\<close>

section \<open>The frame of a call\<close>

definition frame :: "'z bus_world_scheme \<Rightarrow> 'z bus_world_scheme \<Rightarrow> bool" where
  "frame s s' \<longleftrightarrow> adapter_refs s' = adapter_refs s \<and> platform_devices s' = platform_devices s \<and>
     platform_drivers s' = platform_drivers s \<and> gpios s' = gpios s \<and> levels s' = levels s"

lemma frame_refl [simp]: "frame s s"
  by (simp add: frame_def)

lemma frame_trans: "frame s s' \<Longrightarrow> frame s' s'' \<Longrightarrow> frame s s''"
  by (simp add: frame_def)

lemma truncate_eqD:
  assumes "bus_world.truncate s = bus_world.truncate s'"
  shows "calls s = calls s'" "next_client s = next_client s'" "clients s = clients s'"
    "adapter_refs s = adapter_refs s'" "platform_devices s = platform_devices s'"
    "platform_drivers s = platform_drivers s'" "gpios s = gpios s'" "levels s = levels s'"
  using assms by (simp_all add: bus_world.truncate_def)

section \<open>Giving back\<close>

lemma wp_put_adapters [wp_rules]:
  "wp (put_adapters []) Q s = Q (Ok ()) s"
  "wp (put_adapters (a # as)) Q s = wp (i2c_put_adapter a) (\<lambda>r s'. case r of
     Ok _ \<Rightarrow> wp (put_adapters as) Q s' | Err e \<Rightarrow> Q (Err e) s' | Halt h \<Rightarrow> Q (Halt h) s') s"
  by (simp_all add: put_adapters_def wp_rules cong: outcome.case_cong)

lemma wp_i2c_put_adapter [wp_rules]:
  "wp (i2c_put_adapter a) Q s = Q (Ok ()) (case a of None \<Rightarrow> s | Some bus \<Rightarrow>
     s\<lparr>adapter_refs := (adapter_refs s)(bus := adapter_refs s bus - 1)\<rparr>)"
  by (cases a) (simp_all add: wp_rules)

definition drop_client :: "nat option \<Rightarrow> 'z bus_world_scheme \<Rightarrow> 'z bus_world_scheme" where
  "drop_client p s = s\<lparr>clients := (case p of None \<Rightarrow> clients s | Some c \<Rightarrow> (clients s)(c := None))\<rparr>"

lemma drop_client_world [simp]: "frame s (drop_client p s)" "calls (drop_client p s) = calls s"
  "next_client (drop_client p s) = next_client s" "adapter_refs (drop_client p s) = adapter_refs s"
  "platform_devices (drop_client p s) = platform_devices s" "platform_drivers (drop_client p s) = platform_drivers s"
  "gpios (drop_client p s) = gpios s" "levels (drop_client p s) = levels s" "bus_world.more (drop_client p s) = bus_world.more s"
  by (simp_all add: drop_client_def frame_def)

lemma owns_drop:
  assumes "owns (somes (p # ps)) base s"
  shows "owns (somes ps) base (drop_client p s)"
  using assms by (cases p) (auto simp: owns_def drop_client_def)

text \<open>A client that the driver owns is unregistered without an accident.\<close>

lemma wp_unregister:
  assumes "owns (somes (p # ps)) base s" "p \<noteq> None \<or> null_client_ok env"
  shows "wp (i2c_unregister_device env p) Q s = Q (Ok ()) (drop_client p s)"
  using assms by (cases p) (auto simp: wp_rules owns_def drop_client_def)

lemma owns_frame: "owns cs base s \<Longrightarrow> clients s' = clients s \<Longrightarrow> owns cs base s'"
  by (simp add: owns_def)

section \<open>The slots of a driver\<close>

locale client_slots =
  fixes slots :: "'z bus_world_scheme \<Rightarrow> nat option list"
    and put :: "nat \<Rightarrow> nat option \<Rightarrow> 'z bus_world_scheme \<Rightarrow> 'z bus_world_scheme"
    and rest :: "'z bus_world_scheme \<Rightarrow> 'r"
    and room :: nat
  assumes slots_put: "i < room \<Longrightarrow> slots (put i c s) = (slots s)[i := c]"
    and slots_room: "length (slots s) = room"
    and put_world: "bus_world.truncate (put i c s) = bus_world.truncate s"
    and put_rest: "rest (put i c s) = rest s"
    and in_more: "bus_world.more s = bus_world.more s' \<Longrightarrow> slots s = slots s' \<and> rest s = rest s'"
begin

lemma slots_world [simp]:
  "slots (s\<lparr>calls := a\<rparr>) = slots s" "slots (s\<lparr>clients := b\<rparr>) = slots s" "slots (s\<lparr>next_client := n\<rparr>) = slots s"
  "rest (s\<lparr>calls := a\<rparr>) = rest s" "rest (s\<lparr>clients := b\<rparr>) = rest s" "rest (s\<lparr>next_client := n\<rparr>) = rest s"
  using in_more [of "s\<lparr>calls := a\<rparr>" s] in_more [of "s\<lparr>clients := b\<rparr>" s] in_more [of "s\<lparr>next_client := n\<rparr>" s] by simp_all

lemma put_world_fields [simp]:
  "next_client (put i c s) = next_client s" "clients (put i c s) = clients s" "calls (put i c s) = calls s"
  "frame s (put i c s)"
  using truncate_eqD [OF put_world [of i c s]] by (simp_all add: frame_def)

lemma holding_put:
  assumes "holding chips base k (slots s) s" "k < room"
  shows "holding chips base k (slots (put k None s)) (put k None s)"
proof -
  have ps: "slots s = map Some [next_client base..<next_client base + k] @ replicate (length chips - k) None"
    using assms(1) by (simp add: holding_def)
  have "k < length chips"
    using slots_room [of s] assms(2) arg_cong [OF ps, of length] by simp
  then have "(slots s)[k := None] = slots s"
    unfolding ps by (simp add: list_update_same_conv nth_append)
  then show ?thesis using assms slots_put [OF assms(2), of None s] by (simp add: holding_def)
qed

lemma holding_made:
  assumes "holding chips base k (slots s) s" "k < room" "chips ! k = (info, bus)"
    and s': "slots s' = (slots s)[k := Some (next_client s)]" "next_client s' = Suc (next_client s)"
      "clients s' = (clients s)(next_client s \<mapsto> (info, bus))"
  shows "holding chips base (Suc k) (slots s') s'"
proof -
  let ?n = "next_client base"
  have ps: "slots s = map Some [?n..<?n + k] @ replicate (length chips - k) None"
    and cl: "clients s = clients base ++ map_of (zip [?n..<?n + k] chips)"
    and n: "next_client s = ?n + k" and k: "k \<le> length chips"
    using assms(1) by (simp_all add: holding_def)
  have len: "length chips = room" using slots_room [of s] k arg_cong [OF ps, of length] by simp
  have "slots s' = map Some [?n..<?n + Suc k] @ replicate (length chips - Suc k) None"
    using assms(2) len by (simp add: s'(1) ps n list_update_append Suc_diff_Suc [symmetric])
  moreover have "zip [?n..<?n + Suc k] chips = zip [?n..<?n + k] chips @ [(?n + k, (info, bus))]"
  proof -
    have "zip [?n..<?n + Suc k] chips = zip [?n..<?n + Suc k] (take (Suc k) chips)"
      using zip_prefix [of "[?n..<?n + Suc k]" chips] by simp
    also have "\<dots> = zip [?n..<?n + k] (take k chips) @ [(?n + k, (info, bus))]"
      using assms(2,3) len by (simp add: take_Suc_conv_app_nth)
    also have "zip [?n..<?n + k] (take k chips) = zip [?n..<?n + k] chips"
      using zip_prefix [of "[?n..<?n + k]" chips] by simp
    finally show ?thesis .
  qed
  moreover have "?n + k \<notin> fst ` set (zip [?n..<?n + k] chips)"
    by (auto dest: set_zip_leftD)
  ultimately show ?thesis
    using assms(1,2) len n s' cl
    by (auto simp: holding_def slots_room map_of_eq_None_iff map_add_def fun_eq_iff split: option.splits)
qed

text \<open>Making the next client.\<close>

lemma map_client_step:
  assumes "holding chips base k (slots s) s" "k < room" "chips ! k = (info, bus)"
  shows "wp (map_client env bus info (put k)) (\<lambda>r s'. frame s s' \<and> rest s' = rest s \<and>
    (r = Ok () \<and> holding chips base (Suc k) (slots s') s' \<or>
     r = Err (- ENODEV) \<and> holding chips base k (slots s') s')) s"
proof -
  let ?t = "s\<lparr>calls := Suc (calls s), next_client := Suc (next_client s), clients := (clients s)(next_client s \<mapsto> (info, bus))\<rparr>"
  let ?u = "s\<lparr>calls := Suc (calls s)\<rparr>"
  have made: "holding chips base (Suc k) (slots (put k (Some (next_client s)) ?t)) (put k (Some (next_client s)) ?t)"
    by (rule holding_made [OF assms]) (simp_all add: slots_put [OF assms(2)])
  have not: "holding chips base k (slots (put k None ?u)) (put k None ?u)"
    by (rule holding_put) (use assms in \<open>simp_all add: holding_def\<close>)
  have fr: "frame s (put k c ?t)" "frame s (put k c ?u)" for c
    by (rule frame_trans [OF _ put_world_fields(4)], simp add: frame_def)+
  show ?thesis
    using made not fr by (simp add: map_client_def wp_i2c_new_device wp_rules put_rest)
qed

end

end
