(* ===== verification/Board_YellowProps.thy ===== *)
theory Board_YellowProps
  imports Board_Yellow Board_Clients
begin

text \<open>
  What binding and unbinding the mangOH Yellow driver does to the kernel's objects, on every path of the
  kernel's answers.
\<close>

section \<open>The driver's slots\<close>

definition y_slots :: "mangoh_yellow_driver_data \<Rightarrow> nat option list" where
  "y_slots s = [eeprom s, i2c_switch s, gpio_expander s, imu s, rtc s, battery_charger s, battery_gauge s, light s]"

fun y_put :: "nat \<Rightarrow> nat option \<Rightarrow> mangoh_yellow_driver_data \<Rightarrow> mangoh_yellow_driver_data" where
  "y_put i c s = (if i = 0 then s\<lparr>eeprom := c\<rparr> else if i = 1 then s\<lparr>i2c_switch := c\<rparr>
     else if i = 2 then s\<lparr>gpio_expander := c\<rparr> else if i = 3 then s\<lparr>imu := c\<rparr> else if i = 4 then s\<lparr>rtc := c\<rparr>
     else if i = 5 then s\<lparr>battery_charger := c\<rparr> else if i = 6 then s\<lparr>battery_gauge := c\<rparr> else s\<lparr>light := c\<rparr>)"

declare y_put.simps [simp del]

lemma y_put_eqs: "(\<lambda>c s. s\<lparr>eeprom := c\<rparr>) = y_put 0" "(\<lambda>c s. s\<lparr>i2c_switch := c\<rparr>) = y_put 1"
  "(\<lambda>c s. s\<lparr>gpio_expander := c\<rparr>) = y_put 2" "(\<lambda>c s. s\<lparr>imu := c\<rparr>) = y_put 3" "(\<lambda>c s. s\<lparr>rtc := c\<rparr>) = y_put 4"
  "(\<lambda>c s. s\<lparr>battery_charger := c\<rparr>) = y_put 5" "(\<lambda>c s. s\<lparr>battery_gauge := c\<rparr>) = y_put 6" "(\<lambda>c s. s\<lparr>light := c\<rparr>) = y_put 7"
  by (simp_all add: y_put.simps fun_eq_iff)

definition y_chips :: "board_env \<Rightarrow> (i2c_board_info \<times> int) list" where
  "y_chips env = [(eeprom_info, PRIMARY_I2C_BUS env), (pca954x_device_info, PRIMARY_I2C_BUS env),
     (gpio_expander_devinfo, PORT3 env), (imu_devinfo, PORT1 env), (rtc_devinfo, PORT3 env),
     (battery_charger_devinfo, PORT2 env), (battery_gauge_devinfo, PORT2 env), (light_devinfo, PORT2 env)]"

definition y_rest :: "mangoh_yellow_driver_data \<Rightarrow> bool \<times> board_rev \<times> u8 list" where
  "y_rest s = (expander_registered s, rev s, eeprom_bytes s)"

interpretation yellow_slots: client_slots y_slots y_put y_rest 8
proof unfold_locales
  fix s s' :: mangoh_yellow_driver_data and i c
  show "bus_world.truncate (y_put i c s) = bus_world.truncate s"
    by (simp add: y_put.simps bus_world.truncate_def)
  show "y_rest (y_put i c s) = y_rest s" by (simp add: y_put.simps y_rest_def)
  show "length (y_slots s) = 8" by (simp add: y_slots_def)
  show "y_slots (y_put i c s) = (y_slots s)[i := c]" if "i < 8"
  proof -
    from that consider "i = 0" | "i = 1" | "i = 2" | "i = 3" | "i = 4" | "i = 5" | "i = 6" | "i = 7" by linarith
    then show ?thesis by cases (simp_all add: y_put.simps y_slots_def)
  qed
  show "y_slots s = y_slots s' \<and> y_rest s = y_rest s'" if "bus_world.more s = bus_world.more s'"
    using that by (cases s, cases s') (simp add: y_slots_def y_rest_def)
qed

section \<open>Removing\<close>

lemma wp_safe_unregister:
  assumes "owns (somes (p # ps)) base s"
  shows "wp (safe_i2c_unregister_device env p) Q s = Q (Ok ()) (drop_client p s)"
  using assms wp_unregister [OF assms, of env Q]
  by (cases p) (simp_all add: safe_i2c_unregister_device_def wp_rules drop_client_def del: i2c_unregister_device.simps)

lemma drop_client_yellow [simp]:
  "imu (drop_client p s) = imu s" "light (drop_client p s) = light s" "battery_charger (drop_client p s) = battery_charger s"
  "battery_gauge (drop_client p s) = battery_gauge s" "rtc (drop_client p s) = rtc s" "gpio_expander (drop_client p s) = gpio_expander s"
  "i2c_switch (drop_client p s) = i2c_switch s" "eeprom (drop_client p s) = eeprom s"
  "expander_registered (drop_client p s) = expander_registered s"
  by (simp_all add: drop_client_def)

lemma wp_yellow_remove:
  assumes "owns (somes (y_slots s)) base s" "expander_registered s \<longrightarrow> ''expander'' \<in> platform_devices s"
  shows "wp (mangoh_yellow_remove env) (\<lambda>r s'. r = Ok () \<and> clients s' = clients base \<and> bus_world.more s' = bus_world.more s \<and>
     platform_devices s' = platform_devices s - (if expander_registered s then {''expander''} else {}) \<and>
     adapter_refs s' = adapter_refs s \<and> gpios s' = gpios s \<and> platform_drivers s' = platform_drivers s \<and>
     next_client s' = next_client s) s"
proof -
  let ?ps = "[imu s, light s, battery_charger s, battery_gauge s, rtc s, gpio_expander s, i2c_switch s, eeprom s]"
  have "mset (somes ?ps) = mset (somes (y_slots s))"
    by (rule mset_somes) (simp add: y_slots_def)
  then have owns: "owns (somes ?ps) base s"
    by (rule owns_perm [rotated 1, OF assms(1), OF sym])
  note o1 = owns_drop [OF owns] note o2 = owns_drop [OF o1] note o3 = owns_drop [OF o2]
  note o4 = owns_drop [OF o3] note o5 = owns_drop [OF o4]
  let ?t = "drop_client (rtc s) (drop_client (battery_gauge s) (drop_client (battery_charger s) (drop_client (light s) (drop_client (imu s) s))))"
  define u where "u = (if expander_registered s then ?t\<lparr>platform_devices := platform_devices s - {''expander''}\<rparr> else ?t)"
  have o6: "owns (somes [gpio_expander s, i2c_switch s, eeprom s]) base u"
    by (rule owns_frame [OF o5]) (simp add: u_def)
  note o7 = owns_drop [OF o6] note o8 = owns_drop [OF o7] note o9 = owns_drop [OF o8]
  have u: "gpio_expander u = gpio_expander s" "i2c_switch u = i2c_switch s" "eeprom u = eeprom s" "bus_world.more u = bus_world.more s"
    "platform_devices u = platform_devices s - (if expander_registered s then {''expander''} else {})"
    "adapter_refs u = adapter_refs s" "gpios u = gpios s" "platform_drivers u = platform_drivers s"
    "next_client u = next_client s"
    by (simp_all add: u_def)
  have "wp (mangoh_yellow_remove env) Q s = Q (Ok ()) (drop_client (eeprom s) (drop_client (i2c_switch s) (drop_client (gpio_expander s) u)))" for Q
  proof -
    have "wp (mangoh_yellow_remove env) Q s = wp (seqP (bindP (getP gpio_expander) (safe_i2c_unregister_device env))
        (seqP (bindP (getP i2c_switch) (safe_i2c_unregister_device env)) (bindP (getP eeprom) (safe_i2c_unregister_device env)))) Q u"
      unfolding mangoh_yellow_remove_def u_def using assms(2)
      by (simp add: wp_rules wp_safe_unregister [OF owns] wp_safe_unregister [OF o1] wp_safe_unregister [OF o2]
          wp_safe_unregister [OF o3] wp_safe_unregister [OF o4] platform_device_unregister_def)
    then show ?thesis
      by (simp add: wp_rules u wp_safe_unregister [OF o6] wp_safe_unregister [OF o7] wp_safe_unregister [OF o8])
  qed
  then show ?thesis using owns_none [OF o9 [unfolded somes_simps]] by (simp add: u)
qed

section \<open>Binding\<close>

text \<open>The state before the first binding: no client yet, and the expander's device is not registered.\<close>

definition y_fresh :: "mangoh_yellow_driver_data \<Rightarrow> bool" where
  "y_fresh s \<longleftrightarrow> y_slots s = replicate 8 None \<and> \<not> expander_registered s \<and> ''expander'' \<notin> platform_devices s \<and>
     (\<forall>c\<ge>next_client s. clients s c = None)"

text \<open>Everything but the counters of calls and clients, the clients and the driver's own data is as before.\<close>

definition y_step :: "board_env \<Rightarrow> mangoh_yellow_driver_data \<Rightarrow> nat \<Rightarrow> mangoh_yellow_driver_data \<Rightarrow> bool" where
  "y_step env base k s \<longleftrightarrow> holding (y_chips env) base k (y_slots s) s"

lemma y_fresh_step: "y_fresh s \<Longrightarrow> y_step env s 0 s"
  by (simp add: y_fresh_def y_step_def holding_def y_chips_def numeral_eq_Suc)

lemma y_step_owns: "y_step env base k s \<Longrightarrow> owns (somes (y_slots s)) base s"
  by (simp add: y_step_def holding_owns)

lemma wp_map_yellow:
  assumes "y_step env base k s" "k < 8" "y_chips env ! k = (info, bus)"
  shows "wp (map_client env bus info (y_put k)) (\<lambda>r s'. frame s s' \<and> y_rest s' = y_rest s \<and>
    (r = Ok () \<and> y_step env base (Suc k) s' \<or> r = Err (- ENODEV) \<and> y_step env base k s')) s"
  using yellow_slots.map_client_step [of "y_chips env" base k s info bus env] assms by (simp add: y_step_def)

lemma wp_eeprom_setup:
  "wp (eeprom_setup env) (\<lambda>r s'. r = Ok () \<and> frame s s' \<and> y_slots s' = y_slots s \<and> clients s' = clients s \<and>
     next_client s' = next_client s \<and> expander_registered s' = expander_registered s) s"
  by (simp add: eeprom_setup_def identify_def write_eeprom_def wp_rules frame_def y_slots_def)

lemma wp_map_eeprom:
  assumes "y_step env base 0 s"
  shows "wp (map_eeprom env (PRIMARY_I2C_BUS env)) (\<lambda>r s'. frame s s' \<and> expander_registered s' = expander_registered s \<and>
    (r = Ok () \<and> y_step env base (Suc 0) s' \<or> r = Err (- ENODEV) \<and> y_step env base 0 s')) s"
proof -
  let ?t = "s\<lparr>next_client := Suc (next_client s),
    clients := (clients s)(next_client s \<mapsto> (eeprom_info, PRIMARY_I2C_BUS env)), calls := Suc (Suc (calls s))\<rparr>"
  have made: "y_step env base (Suc 0) (s'\<lparr>eeprom := Some (next_client s)\<rparr>)"
    if "y_slots s' = y_slots s" "next_client s' = Suc (next_client s)"
      "clients s' = (clients s)(next_client s \<mapsto> (eeprom_info, PRIMARY_I2C_BUS env))" for s'
    using yellow_slots.holding_made [of "y_chips env" base 0 s eeprom_info "PRIMARY_I2C_BUS env" "s'\<lparr>eeprom := Some (next_client s)\<rparr>"]
      assms that by (simp add: y_step_def y_slots_def y_chips_def)
  have not: "y_step env base 0 (s\<lparr>calls := c, eeprom := None\<rparr>)" for c
    using assms yellow_slots.holding_put [of "y_chips env" base 0 "s\<lparr>calls := c\<rparr>"]
    by (simp add: y_step_def y_put.simps holding_def)
  have t: "wp (eeprom_setup env) (\<lambda>r s'. r = Ok () \<and> frame s s' \<and> expander_registered s' = expander_registered s \<and>
      y_step env base (Suc 0) (s'\<lparr>eeprom := Some (next_client s)\<rparr>)) ?t"
  proof (rule wp_mono [OF wp_eeprom_setup], elim conjE)
    fix r s' assume r: "r = Ok ()" "frame ?t s'" "y_slots s' = y_slots ?t" "clients s' = clients ?t" "next_client s' = next_client ?t"
      "expander_registered s' = expander_registered ?t"
    have "y_step env base (Suc 0) (s'\<lparr>eeprom := Some (next_client s)\<rparr>)"
      by (rule made) (use r in \<open>simp_all add: y_slots_def\<close>)
    then show "r = Ok () \<and> frame s s' \<and> expander_registered s' = expander_registered s \<and>
      y_step env base (Suc 0) (s'\<lparr>eeprom := Some (next_client s)\<rparr>)"
      using r by (simp add: frame_def)
  qed
  show ?thesis
  proof (cases "client_made env (calls s) eeprom_info")
    case False
    then show ?thesis
      using not by (simp add: map_eeprom_def wp_i2c_new_device wp_rules frame_def)
  next
    case True
    show ?thesis
    proof (cases "eeprom_binds env (Suc (calls s))")
      case False
      with True show ?thesis
        using made [of ?t] by (simp add: map_eeprom_def wp_i2c_new_device wp_rules frame_def y_slots_def)
    next
      case binds: True
      show ?thesis
        using True binds
        by (simp add: map_eeprom_def wp_i2c_new_device wp_rules)
          (rule wp_mono [OF t], auto simp: wp_rules frame_def)
    qed
  qed
qed

lemma wp_map_expander:
  assumes "y_step env base 2 s" "\<not> expander_registered s"
  shows "wp (map_expander env (PORT3 env)) (\<lambda>r s'.
    adapter_refs s' = adapter_refs s \<and> gpios s' = gpios s \<and> platform_drivers s' = platform_drivers s \<and>
    platform_devices s' = platform_devices s \<union> (if expander_registered s' then {''expander''} else {}) \<and>
    rev s' = rev s \<and>
    (r = Ok () \<and> y_step env base 3 s' \<and> expander_registered s' \<or>
     (\<exists>e. r = Err e \<and> e \<noteq> 0) \<and> (y_step env base 2 s' \<or> y_step env base 3 s'))) s"
proof -
  have frame: "y_step env base k (s\<lparr>calls := c\<rparr>) \<longleftrightarrow> y_step env base k s" "y_step env base k (s\<lparr>expander_pdata_base := b\<rparr>) \<longleftrightarrow> y_step env base k s"
    "y_step env base k (s\<lparr>platform_devices := p\<rparr>) \<longleftrightarrow> y_step env base k s" "y_step env base k (s\<lparr>expander_registered := e\<rparr>) \<longleftrightarrow> y_step env base k s"
    for k c b p e s by (simp_all add: y_step_def y_slots_def holding_def)
  show ?thesis
    unfolding map_expander_def wp_seqP y_put_eqs
    by (rule wp_mono [OF wp_map_yellow [OF assms(1), of gpio_expander_devinfo "PORT3 env"]])
      (use assms(2) in \<open>auto simp: y_chips_def frame_def y_rest_def wp_rules wp_platform_device_register Let_def frame wp_case_option split: option.split\<close>)
qed

text \<open>Where a probe stands after \<open>k\<close> clients: what it has changed besides them, since the state \<open>s0\<close>.\<close>

definition y_mid :: "board_env \<Rightarrow> mangoh_yellow_driver_data \<Rightarrow> mangoh_yellow_driver_data \<Rightarrow> nat \<Rightarrow> bool \<Rightarrow> mangoh_yellow_driver_data \<Rightarrow> bool" where
  "y_mid env base s0 k reg s \<longleftrightarrow> y_step env base k s \<and> expander_registered s = reg \<and> rev s = rev s0 \<and>
     adapter_refs s = adapter_refs s0 \<and> platform_drivers s = platform_drivers s0 \<and>
     platform_devices s = platform_devices s0 \<union> (if reg then {''expander''} else {})"

text \<open>A step that goes on with one more client, or fails leaving some clients.\<close>

abbreviation goes_on :: "board_env \<Rightarrow> mangoh_yellow_driver_data \<Rightarrow> mangoh_yellow_driver_data \<Rightarrow> nat \<Rightarrow> unit yellow_prog \<Rightarrow> mangoh_yellow_driver_data \<Rightarrow> bool" where
  "goes_on env base s0 k m \<equiv> wp m (\<lambda>r s'. r = Ok () \<and> y_mid env base s0 k True s' \<or>
     (\<exists>e. r = Err e \<and> e \<noteq> 0 \<and> (\<exists>k reg. y_mid env base s0 k reg s')))"

lemma goes_on_seq:
  assumes "goes_on env base s0 k m s" "\<And>s. y_mid env base s0 k True s \<Longrightarrow> goes_on env base s0 k' n s"
  shows "goes_on env base s0 k' (seqP m n) s"
  using assms by (fastforce simp: wp_seqP elim: wp_mono intro: wp_mono)

lemma goes_on_map:
  assumes "y_mid env base s0 k True s" "k < 8" "y_chips env ! k = (info, bus)"
  shows "goes_on env base s0 (Suc k) (map_client env bus info (y_put k)) s"
  using assms wp_map_yellow [of env base k s info bus]
  by (auto simp: y_mid_def frame_def y_rest_def elim!: wp_mono)

lemma y_step_frame [simp]:
  "y_step env base k (s\<lparr>calls := c\<rparr>) = y_step env base k s" "y_step env base k (s\<lparr>gpios := g\<rparr>) = y_step env base k s"
  "y_step env base k (s\<lparr>light_irq := i\<rparr>) = y_step env base k s" "y_step env base k (s\<lparr>adapter_refs := a\<rparr>) = y_step env base k s"
  by (simp_all add: y_step_def y_slots_def holding_def)

lemma goes_on_light:
  assumes "y_mid env base s0 7 True s"
  shows "goes_on env base s0 8 (map_light env (PORT2 env)) s"
proof -
  have m: "goes_on env base s0 8 (map_client env (PORT2 env) light_devinfo (y_put 7)) u"
    if "y_mid env base s0 7 True u" for u
    using goes_on_map [OF that, of light_devinfo "PORT2 env"] by (simp add: y_chips_def)
  have mid: "y_mid env base s0 7 True (s\<lparr>calls := c\<rparr>)" "y_mid env base s0 7 True (s\<lparr>calls := c, gpios := g\<rparr>)"
    "y_mid env base s0 7 True (s\<lparr>calls := c, gpios := g, light_irq := i\<rparr>)" "y_mid env base s0 7 True (s\<lparr>calls := c, light_irq := i\<rparr>)" for c g i
    using assms by (simp_all add: y_mid_def)
  show ?thesis
    unfolding map_light_def y_put_eqs
    using mid m [OF mid(1)] m [OF mid(2)] m [OF mid(3)]
    by (auto simp: wp_rules wp_devm_gpio_request_one Let_def simp del: One_nat_def)
qed

lemma wp_map_devices:
  assumes mid: "y_mid env base s0 2 False s"
    and that: "p1 \<in> {None, Some (PORT1 env)}" "p2 \<in> {None, Some (PORT2 env)}" "p3 \<in> {None, Some (PORT3 env)}"
  shows "goes_on env base s0 8 (map_devices env p1 p2 p3) s"
proof (cases "p1 \<noteq> None \<and> p2 \<noteq> None \<and> p3 \<noteq> None")
  case False
  then have "map_devices env p1 p2 p3 = throwP (- ENODEV)"
    by (auto simp: map_devices_def split: option.split)
  then show ?thesis using mid by (auto simp: wp_rules)
next
  case True
  with that have ports: "p1 = Some (PORT1 env)" "p2 = Some (PORT2 env)" "p3 = Some (PORT3 env)" by auto
  have exp: "goes_on env base s0 3 (map_expander env (PORT3 env)) s"
    using mid wp_map_expander [of env base s] by (auto simp: y_mid_def elim!: wp_mono)
  have step: "goes_on env base s0 4 (map_client env (PORT1 env) imu_devinfo (y_put 3)) s"
    if "y_mid env base s0 3 True s" for s
    using goes_on_map [OF that, of imu_devinfo] by (simp add: y_chips_def)
  have step5: "goes_on env base s0 5 (map_client env (PORT3 env) rtc_devinfo (y_put 4)) s"
    if "y_mid env base s0 4 True s" for s
    using goes_on_map [OF that, of rtc_devinfo] by (simp add: y_chips_def)
  have step6: "goes_on env base s0 6 (map_client env (PORT2 env) battery_charger_devinfo (y_put 5)) s"
    if "y_mid env base s0 5 True s" for s
    using goes_on_map [OF that, of battery_charger_devinfo] by (simp add: y_chips_def)
  have step7: "goes_on env base s0 7 (map_client env (PORT2 env) battery_gauge_devinfo (y_put 6)) s"
    if "y_mid env base s0 6 True s" for s
    using goes_on_map [OF that, of battery_gauge_devinfo] by (simp add: y_chips_def)
  show ?thesis
    unfolding ports map_devices_def y_put_eqs prod.case option.case
    by (intro goes_on_seq [OF exp] goes_on_seq [OF step] goes_on_seq [OF step5] goes_on_seq [OF step6]
        goes_on_seq [OF step7] goes_on_light)
qed

section \<open>The probe\<close>

definition given_back :: "mangoh_yellow_driver_data \<Rightarrow> mangoh_yellow_driver_data \<Rightarrow> bool" where
  "given_back s s' \<longleftrightarrow> clients s' = clients s \<and> adapter_refs s' = adapter_refs s \<and> platform_devices s' = platform_devices s"

text \<open>The error paths that skip the cleanup: the adapter stays referenced and the EEPROM's client registered.\<close>

definition left_behind :: "board_env \<Rightarrow> mangoh_yellow_driver_data \<Rightarrow> mangoh_yellow_driver_data \<Rightarrow> bool" where
  "left_behind env s s' \<longleftrightarrow> i2c_switch s' = None \<and> platform_devices s' = platform_devices s \<and>
     adapter_refs s' = (adapter_refs s)(PRIMARY_I2C_BUS env := adapter_refs s (PRIMARY_I2C_BUS env) + 1) \<and>
     (clients s' = clients s \<or> clients s' = (clients s)(next_client s \<mapsto> (eeprom_info, PRIMARY_I2C_BUS env)))"

definition y_bound :: "board_env \<Rightarrow> mangoh_yellow_driver_data \<Rightarrow> mangoh_yellow_driver_data \<Rightarrow> bool" where
  "y_bound env s s' \<longleftrightarrow> y_step env s 8 s' \<and> expander_registered s' \<and> rev s' \<in> {BOARD_REV_DV3, BOARD_REV_1_0} \<and>
     adapter_refs s' = adapter_refs s \<and> platform_devices s' = insert ''expander'' (platform_devices s)"

lemma left_behind_step:
  assumes "y_step env s k s'" "k \<le> 1" "platform_devices s' = platform_devices s"
    "adapter_refs s' = (adapter_refs s)(PRIMARY_I2C_BUS env := adapter_refs s (PRIMARY_I2C_BUS env) + 1)"
  shows "left_behind env s s'"
proof -
  from assms(2) consider "k = 0" | "k = 1" by linarith
  then show ?thesis
    using assms by cases (auto simp: left_behind_def y_step_def holding_def y_slots_def y_chips_def numeral_eq_Suc)
qed

lemma y_fail_remove:
  assumes "y_mid env base u k reg s" "''expander'' \<notin> platform_devices u" "e \<noteq> 0"
  shows "wp (seqP (put_adapters as) (seqP (mangoh_yellow_remove env) (throwP e)))
    (\<lambda>r s'. r = Err e \<and> clients s' = clients base \<and> platform_devices s' = platform_devices u \<and>
       wp (put_adapters as) (\<lambda>_ t. adapter_refs s' = adapter_refs t) s) s"
proof -
  have put: "wp (put_adapters as) (\<lambda>r t. r = Ok () \<and> y_step env base k t \<and> expander_registered t = expander_registered s \<and>
      platform_devices t = platform_devices s \<and> wp (put_adapters as) (\<lambda>_ t'. adapter_refs t = adapter_refs t') s) s"
    if "y_step env base k s" for s
    using that
  proof (induction as arbitrary: s)
    case (Cons a as)
    show ?case
      using Cons.IH [of "case a of None \<Rightarrow> s | Some bus \<Rightarrow> s\<lparr>adapter_refs := (adapter_refs s)(bus := adapter_refs s bus - 1)\<rparr>"] Cons.prems
      by (cases a) (simp_all add: wp_rules)
  qed (simp add: wp_rules)
  show ?thesis
    unfolding wp_seqP
  proof (rule wp_mono [OF put], goal_cases)
    case 1
    then show ?case using assms(1) by (simp add: y_mid_def)
  next
    case (2 r t)
    then have t: "y_step env base k t" "expander_registered t = expander_registered s" "platform_devices t = platform_devices s"
      "wp (put_adapters as) (\<lambda>_ t'. adapter_refs t = adapter_refs t') s" and r: "r = Ok ()" by auto
    have "wp (mangoh_yellow_remove env) (\<lambda>r s'. case r of Ok a \<Rightarrow> wp (throwP e) (\<lambda>r s'. r = Err e \<and> clients s' = clients base \<and>
        platform_devices s' = platform_devices u \<and> wp (put_adapters as) (\<lambda>_ t. adapter_refs s' = adapter_refs t) s) s'
      | Err e' \<Rightarrow> False | Halt h \<Rightarrow> False) t"
      by (rule wp_mono [OF wp_yellow_remove [OF y_step_owns [OF t(1)], of env]])
        (use assms t in \<open>auto simp: y_mid_def wp_rules\<close>)
    then show ?case using r by (auto elim!: wp_mono split: outcome.splits)
  qed
qed

definition y_early :: "board_env \<Rightarrow> mangoh_yellow_driver_data \<Rightarrow> nat \<Rightarrow> mangoh_yellow_driver_data \<Rightarrow> bool" where
  "y_early env s k t \<longleftrightarrow> y_step env s k t \<and> \<not> expander_registered t \<and> platform_devices t = platform_devices s \<and>
     adapter_refs t = (adapter_refs s)(PRIMARY_I2C_BUS env := adapter_refs s (PRIMARY_I2C_BUS env) + 1)"

abbreviation y_outcome :: "board_env \<Rightarrow> mangoh_yellow_driver_data \<Rightarrow> unit outcome \<Rightarrow> mangoh_yellow_driver_data \<Rightarrow> bool" where
  "y_outcome env s r s' \<equiv> r = Ok () \<and> y_bound env s s' \<or>
     (\<exists>e. r = Err e \<and> e \<noteq> 0 \<and> (given_back s s' \<or> left_behind env s s'))"

lemma y_early_left: "y_early env s k t \<Longrightarrow> k \<le> 1 \<Longrightarrow> left_behind env s t"
  by (auto simp: y_early_def intro: left_behind_step)

text \<open>From the switch on: the three buses behind it, and the devices on them.\<close>

lemma wp_behind_switch:
  assumes early: "y_early env s 2 t" and rev: "rev t \<in> {BOARD_REV_DV3, BOARD_REV_1_0}" and new: "''expander'' \<notin> platform_devices s"
  shows "wp (bindP (i2c_get_adapter env (PORT1 env)) (\<lambda>port1.
         bindP (i2c_get_adapter env (PORT2 env)) (\<lambda>port2.
         bindP (i2c_get_adapter env (PORT3 env)) (\<lambda>port3.
         tryP (map_devices env port1 port2 port3)
           (\<lambda>ret. seqP (put_adapters [port3, port2, port1, Some (PRIMARY_I2C_BUS env)]) (seqP (mangoh_yellow_remove env) (throwP ret)))
           (\<lambda>_. put_adapters [port3, port2, port1, Some (PRIMARY_I2C_BUS env)]))))) (y_outcome env s) t"
proof -
  let ?refs = "(adapter_refs s)(PRIMARY_I2C_BUS env := adapter_refs s (PRIMARY_I2C_BUS env) + 1)"
  let ?one = "\<lambda>p f. case p of None \<Rightarrow> f | Some bus \<Rightarrow> f(bus := f bus + (1::int))"
  have rest: "wp (tryP (map_devices env p1 p2 p3)
       (\<lambda>ret. seqP (put_adapters [p3, p2, p1, Some (PRIMARY_I2C_BUS env)]) (seqP (mangoh_yellow_remove env) (throwP ret)))
       (\<lambda>_. put_adapters [p3, p2, p1, Some (PRIMARY_I2C_BUS env)])) (y_outcome env s) u"
    if p: "p1 \<in> {None, Some (PORT1 env)}" "p2 \<in> {None, Some (PORT2 env)}" "p3 \<in> {None, Some (PORT3 env)}"
      and u: "y_mid env s u 2 False u" "adapter_refs u = ?one p3 (?one p2 (?one p1 ?refs))" "platform_devices u = platform_devices s"
      "rev u = rev t" for p1 p2 p3 u
  proof -
    have refs: "wp (put_adapters [p3, p2, p1, Some (PRIMARY_I2C_BUS env)]) (\<lambda>r x. r = Ok () \<and> adapter_refs x = adapter_refs s \<and>
        (y_mid env s u 8 True v \<longrightarrow> y_bound env s x)) v" if v: "adapter_refs v = adapter_refs u" for v
      using p u(2,3,4) v rev
      by (auto simp: wp_rules fun_eq_iff y_bound_def y_mid_def)
    show ?thesis
      unfolding wp_tryP
    proof (rule wp_mono [OF wp_map_devices [OF u(1) p]], goal_cases)
      case (1 r v)
      then consider "r = Ok ()" "y_mid env s u 8 True v" | e k reg where "r = Err e" "e \<noteq> 0" "y_mid env s u k reg v" by blast
      then show ?case
      proof cases
        case 1
        then show ?thesis using refs [of v] by (auto simp: y_mid_def elim!: wp_mono)
      next
        case 2
        have "wp (put_adapters [p3, p2, p1, Some (PRIMARY_I2C_BUS env)]) (\<lambda>r x. adapter_refs x = adapter_refs s) v"
          by (rule wp_mono [OF refs]) (use 2 in \<open>auto simp: y_mid_def\<close>)
        then have "y = adapter_refs s"
          if "wp (put_adapters [p3, p2, p1, Some (PRIMARY_I2C_BUS env)]) (\<lambda>_ x. y = adapter_refs x) v" for y
          using that by (auto simp: wp_iff)
        then show ?thesis
          using 2 u(3) new by (auto simp: given_back_def intro!: wp_mono [OF y_fail_remove [OF 2(3), of e]])
      qed
    qed
  qed
  have u: "y_mid env s (t\<lparr>calls := c, adapter_refs := a\<rparr>) 2 False (t\<lparr>calls := c, adapter_refs := a\<rparr>)"
    "y_mid env s (t\<lparr>calls := c\<rparr>) 2 False (t\<lparr>calls := c\<rparr>)"
    "y_mid env s (t\<lparr>adapter_refs := a, calls := c\<rparr>) 2 False (t\<lparr>adapter_refs := a, calls := c\<rparr>)" for c a
    using early by (simp_all add: y_early_def y_mid_def)
  have refs: "adapter_refs t = ?refs" "platform_devices t = platform_devices s" using early by (simp_all add: y_early_def)
  show ?thesis
    unfolding wp_bindP wp_i2c_get_adapter outcome.case
    by (auto simp: u refs intro!: rest split: if_splits)
qed

lemma wp_check_revision:
  "wp check_revision (\<lambda>r t'. t' = t \<and> (r = Ok () \<and> rev t \<in> {BOARD_REV_DV3, BOARD_REV_1_0} \<or> r = Err (- ENODEV))) t"
  by (cases "rev t") (simp_all add: check_revision_def wp_rules)

lemma wp_map_switch:
  assumes "y_early env s 1 t"
  shows "wp (map_client env (PRIMARY_I2C_BUS env) pca954x_device_info (y_put 1)) (\<lambda>r t'. rev t' = rev t \<and>
    (r = Ok () \<and> y_early env s 2 t' \<or> r = Err (- ENODEV) \<and> y_early env s 1 t')) t"
  using assms wp_map_yellow [of env s 1 t pca954x_device_info "PRIMARY_I2C_BUS env"]
  by (auto simp: y_early_def y_chips_def frame_def y_rest_def numeral_2_eq_2 elim!: wp_mono)

lemma wp_first_client:
  assumes "y_fresh s"
  shows "wp (map_eeprom env (PRIMARY_I2C_BUS env)) (\<lambda>r t'. r = Ok () \<and> y_early env s 1 t' \<or> r = Err (- ENODEV) \<and> y_early env s 0 t')
    (s\<lparr>calls := c, adapter_refs := (adapter_refs s)(PRIMARY_I2C_BUS env := adapter_refs s (PRIMARY_I2C_BUS env) + 1)\<rparr>)"
  using assms y_fresh_step [OF assms, of env]
  by (intro wp_mono [OF wp_map_eeprom [of env s]]) (auto simp: y_early_def frame_def y_fresh_def)

lemma wp_yellow_probe:
  assumes "y_fresh s"
  shows "wp (mangoh_yellow_probe env) (y_outcome env s) s"
proof (cases "adapter_exists env (calls s) (PRIMARY_I2C_BUS env)")
  case False
  then show ?thesis by (simp add: mangoh_yellow_probe_def wp_kernel given_back_def)
next
  case True
  have new: "''expander'' \<notin> platform_devices s" using assms by (simp add: y_fresh_def)
  let ?P = "PRIMARY_I2C_BUS env"
  let ?s1 = "s\<lparr>calls := Suc (calls s), adapter_refs := (adapter_refs s)(?P := adapter_refs s ?P + 1)\<rparr>"
  have behind: "wp check_revision (\<lambda>r u. case r of
      Ok a \<Rightarrow> wp (map_client env ?P pca954x_device_info (y_put 1)) (\<lambda>r v. case r of
        Ok a \<Rightarrow> wp (bindP (i2c_get_adapter env (PORT1 env)) (\<lambda>port1.
          bindP (i2c_get_adapter env (PORT2 env)) (\<lambda>port2.
          bindP (i2c_get_adapter env (PORT3 env)) (\<lambda>port3.
          tryP (map_devices env port1 port2 port3)
            (\<lambda>ret. seqP (put_adapters [port3, port2, port1, Some ?P]) (seqP (mangoh_yellow_remove env) (throwP ret)))
            (\<lambda>_. put_adapters [port3, port2, port1, Some ?P]))))) (y_outcome env s) v
      | Err e \<Rightarrow> y_outcome env s (Err e) v | Halt h \<Rightarrow> y_outcome env s (Halt h) v) u
    | Err e \<Rightarrow> y_outcome env s (Err e) u | Halt h \<Rightarrow> y_outcome env s (Halt h) u) t" if t: "y_early env s 1 t" for t
  proof (rule wp_mono [OF wp_check_revision], elim conjE disjE, goal_cases)
    case (1 r u)
    then show ?case
      by (simp del: One_nat_def) (rule wp_mono [OF wp_map_switch [OF t]], use 1 new y_early_left in \<open>auto intro!: wp_behind_switch\<close>)
  next
    case (2 r u)
    then show ?case using t y_early_left by auto
  qed
  show ?thesis
    unfolding mangoh_yellow_probe_def wp_bindP wp_i2c_get_adapter
    by (simp only: True if_True outcome.case option.case wp_seqP y_put_eqs)
      (rule wp_mono [OF wp_first_client [OF assms]], use behind y_early_left in \<open>auto simp: wp_bindP wp_seqP y_put_eqs\<close>)
qed

end
