(* ===== verification/Board_YellowClaims.thy ===== *)
theory Board_YellowClaims
  imports Board_YellowProps
begin

text \<open>
  The properties of the mangOH Yellow driver, and instances of them.
\<close>

section \<open>Binding and unbinding\<close>

lemma y_bound_remove:
  assumes fresh: "y_fresh s" and bound: "y_bound env s s'"
  shows "wp (mangoh_yellow_remove env) (\<lambda>r s''. r = Ok () \<and> given_back s s'' \<and> bus_world.more s'' = bus_world.more s' \<and>
    next_client s'' = next_client s') s'"
proof -
  have own: "owns (somes (y_slots s')) s s'" using bound y_step_owns [of env s 8 s'] by (simp add: y_bound_def)
  show ?thesis
    by (rule wp_mono [OF wp_yellow_remove [OF own]])
      (use fresh bound in \<open>auto simp: y_bound_def given_back_def y_fresh_def\<close>)
qed

text \<open>C17: binding the mangOH Yellow driver for the first time always ends: either all eight devices of the board
  are there with the three switch ports and the bus given back, and unbinding the driver gives everything
  back, or there is an error and either everything has been given back or, when it came before the
  I2C switch was there, the bus adapter (and the EEPROM's client) is left behind; nothing else can happen.\<close>

theorem yellow_binds_or_gives_back:
  assumes "y_fresh s"
  shows "\<exists>r s'. bind_driver (mangoh_yellow_probe env) s = Some (r, s') \<and>
    (r = Ok () \<and> y_bound env s s' \<and>
       (\<exists>s''. unbind_driver (mangoh_yellow_remove env) s' = Some (Ok (), s'') \<and> given_back s s'' \<and> gpios s'' = {}) \<or>
     (\<exists>e. r = Err e \<and> e \<noteq> 0 \<and> gpios s' = {} \<and> (given_back s s' \<or> left_behind env s s')))"
proof -
  have "wp (bind_driver (mangoh_yellow_probe env)) (\<lambda>r s'. r = Ok () \<and> y_bound env s s' \<or>
      (\<exists>e. r = Err e \<and> e \<noteq> 0 \<and> gpios s' = {} \<and> (given_back s s' \<or> left_behind env s s'))) s"
    unfolding bind_driver_def wp_tryP
    by (rule wp_mono [OF wp_yellow_probe [OF assms]]) (auto simp: wp_rules given_back_def left_behind_def)
  moreover have "\<exists>s''. unbind_driver (mangoh_yellow_remove env) s' = Some (Ok (), s'') \<and> given_back s s'' \<and> gpios s'' = {}"
    if "y_bound env s s'" for s'
  proof -
    have "wp (unbind_driver (mangoh_yellow_remove env)) (\<lambda>r s''. r = Ok () \<and> given_back s s'' \<and> gpios s'' = {}) s'"
      unfolding unbind_driver_def wp_seqP
      by (rule wp_mono [OF y_bound_remove [OF assms that]]) (auto simp: wp_rules given_back_def)
    then show ?thesis by (auto simp: wp_iff)
  qed
  ultimately show ?thesis by (auto simp: wp_iff)
qed

section \<open>Dangling pointers\<close>

text \<open>The pointer of the inertial sensor points to the client \<open>c\<close>, which has been freed.\<close>

definition y_dangling :: "nat \<Rightarrow> mangoh_yellow_driver_data \<Rightarrow> bool" where
  "y_dangling c t \<longleftrightarrow> imu t = Some c \<and> clients t c = None \<and> c < next_client t \<and>
     (rev t = BOARD_REV_DV3 \<or> rev t = BOARD_REV_1_0)"

abbreviation y_freed :: "unit outcome \<Rightarrow> mangoh_yellow_driver_data \<Rightarrow> bool" where
  "y_freed r s \<equiv> r = Halt (Undefined ''i2c_unregister_device of a freed client'')"

lemma dangling_remove: "y_dangling c t \<Longrightarrow> wp (mangoh_yellow_remove env) y_freed t"
  by (simp add: y_dangling_def mangoh_yellow_remove_def safe_i2c_unregister_device_def wp_rules)

lemma dangling_put: "y_dangling c t \<Longrightarrow> wp (put_adapters as) (\<lambda>r t'. r = Ok () \<and> y_dangling c t') t"
  by (induction as arbitrary: t) (auto simp: wp_rules y_dangling_def split: option.split)

lemma dangling_cleanup:
  assumes "y_dangling c t"
  shows "wp (tryP (map_devices env None p2 p3)
    (\<lambda>ret. seqP (put_adapters as) (seqP (mangoh_yellow_remove env) (throwP ret))) k) y_freed t"
proof -
  have "wp (seqP (mangoh_yellow_remove env) (throwP (- ENODEV) :: unit yellow_prog)) y_freed t'" if "y_dangling c t'" for t'
    unfolding wp_seqP by (rule wp_mono [OF dangling_remove [OF that]]) simp
  then have "wp (seqP (put_adapters as) (seqP (mangoh_yellow_remove env) (throwP (- ENODEV) :: unit yellow_prog))) y_freed t"
    unfolding wp_seqP [of "put_adapters as"] by (intro wp_mono [OF dangling_put [OF assms]]) auto
  then show ?thesis by (simp add: map_devices_def wp_tryP wp_throwP)
qed

text \<open>A probe that cannot have the first port fails after the switch has been made.\<close>

lemma dangling_ports:
  assumes "y_dangling c t" "\<And>n. \<not> adapter_exists env n (PORT1 env)"
  shows "wp (bindP (i2c_get_adapter env (PORT1 env)) (\<lambda>p1. bindP (i2c_get_adapter env (PORT2 env)) (\<lambda>p2.
    bindP (i2c_get_adapter env (PORT3 env)) (\<lambda>p3. tryP (map_devices env p1 p2 p3)
      (\<lambda>ret. seqP (put_adapters [p3, p2, p1, Some (PRIMARY_I2C_BUS env)]) (seqP (mangoh_yellow_remove env) (throwP ret)))
      (\<lambda>_. put_adapters [p3, p2, p1, Some (PRIMARY_I2C_BUS env)]))))) y_freed t"
  using assms unfolding wp_bindP wp_i2c_get_adapter outcome.case
  by simp (intro conjI impI dangling_cleanup [of c]; simp add: y_dangling_def)

lemma dangling_switch:
  assumes "y_dangling c t" "\<And>n info. client_made env n info"
  shows "wp (map_client env bus info (y_put 1)) (\<lambda>r t'. r = Ok () \<and> y_dangling c t') t"
  using assms by (auto simp: map_client_def wp_i2c_new_device wp_rules y_put.simps y_dangling_def)

lemma dangling_eeprom:
  assumes "y_dangling c t" "\<And>n info. client_made env n info"
  shows "wp (map_eeprom env bus) (\<lambda>r t'. r = Ok () \<and> y_dangling c t') t"
  using assms by (auto simp: map_eeprom_def eeprom_setup_def wp_i2c_new_device wp_rules y_dangling_def)

lemma dangling_probe:
  assumes c: "y_dangling c s" and made: "\<And>n info. client_made env n info"
    and bus: "\<And>n. adapter_exists env n (PRIMARY_I2C_BUS env)" and port: "\<And>n. \<not> adapter_exists env n (PORT1 env)"
  shows "wp (mangoh_yellow_probe env) y_freed s"
  unfolding mangoh_yellow_probe_def wp_bindP wp_i2c_get_adapter [of _ "PRIMARY_I2C_BUS env"] if_P [OF bus] outcome.case option.case
    wp_seqP y_put_eqs
proof (rule wp_mono [OF dangling_eeprom [of c, OF _ made]], goal_cases)
  case 1
  then show ?case using c by (simp add: y_dangling_def)
next
  case (2 r t)
  then have "wp check_revision (\<lambda>r t'. r = Ok () \<and> wp (map_client env (PRIMARY_I2C_BUS env) pca954x_device_info (y_put 1))
      (\<lambda>r t'. r = Ok () \<and> y_dangling c t') t') t"
    using dangling_switch [of c t env] made by (auto simp: check_revision_def wp_rules y_dangling_def)
  then show ?case
    using 2 dangling_ports [OF _ port, of c, unfolded wp_bindP]
    by (auto simp: wp_iff [of check_revision] wp_iff [of "map_client _ _ _ _"] simp del: One_nat_def)
qed

lemma y_bound_slots:
  assumes "y_bound env s s1"
  shows "y_slots s1 = map Some [next_client s..<next_client s + 8]" "next_client s1 = next_client s + 8"
    "imu s1 = Some (next_client s + 3)"
proof -
  show s1: "y_slots s1 = map Some [next_client s..<next_client s + 8]" "next_client s1 = next_client s + 8"
    using assms by (simp_all add: y_bound_def y_step_def holding_def y_chips_def)
  have "imu s1 = y_slots s1 ! 3" by (simp add: y_slots_def)
  then show "imu s1 = Some (next_client s + 3)" by (simp add: s1)
qed

lemma bind_ok_bound:
  assumes "y_fresh s" "bind_driver (mangoh_yellow_probe env) s = Some (Ok (), s1)"
  shows "y_bound env s s1"
  using wp_yellow_probe [OF assms(1), of env] assms(2)
  by (auto simp: bind_driver_def wp_iff tryP_def returnP_def throwP_def seqP_def bindP_def modifyP_def split: outcome.splits option.splits)

text \<open>The pointers of the first binding survive its removal: when the driver is bound again and the ports of
  the switch cannot be had, the cleanup unregisters a client that has been freed.\<close>

theorem yellow_second_failure_frees_twice:
  assumes fresh: "y_fresh s" and first: "bind_driver (mangoh_yellow_probe env) s = Some (Ok (), s1)"
    and removed: "unbind_driver (mangoh_yellow_remove env) s1 = Some (Ok (), s2)"
    and adapters: "\<And>n. adapter_exists env2 n (PRIMARY_I2C_BUS env2)" "\<And>n. \<not> adapter_exists env2 n (PORT1 env2)"
    and made: "\<And>n info. client_made env2 n info"
  shows "\<exists>s3. bind_driver (mangoh_yellow_probe env2) s2 = Some (Halt (Undefined ''i2c_unregister_device of a freed client''), s3)"
proof -
  have b: "y_bound env s s1" by (rule bind_ok_bound [OF fresh first])
  from y_bound_remove [OF fresh b] removed
  have s2: "clients s2 = clients s" "bus_world.more s2 = bus_world.more s1" "next_client s2 = next_client s1"
    by (auto simp: wp_iff unbind_driver_def given_back_def seqP_def bindP_def modifyP_def)
  have "imu s2 = imu s1" "rev s2 = rev s1"
    using yellow_slots.in_more [OF s2(2)] by (simp_all add: y_slots_def y_rest_def)
  then have "y_dangling (next_client s + 3) s2"
    using s2 b fresh y_bound_slots [OF b] by (auto simp: y_dangling_def y_bound_def y_fresh_def)
  from dangling_probe [OF this made adapters]
  have "wp (bind_driver (mangoh_yellow_probe env2)) y_freed s2"
    unfolding bind_driver_def wp_tryP by (rule wp_mono) simp
  then show ?thesis by (auto simp: wp_iff)
qed

section \<open>The EEPROM\<close>

lemma eeprom_data_starts: "strstarts (take byte_len (eeprom_data @ rest)) (''mangOH Yellow'' @ [CHR 0x0A])"
  by (simp add: strstarts_def eeprom_data_def bytes_of_def)

lemma eeprom_data_not_blank: "\<not> list_all (\<lambda>b. b = 0xFF) (take byte_len (eeprom_data @ rest))"
  by (simp add: eeprom_data_def bytes_of_def)

text \<open>C20: an empty EEPROM is taken for the newest board and written, and every later driver that reads what was
  written takes the board for the same revision and writes nothing.\<close>

theorem blank_eeprom_round_trip:
  assumes answers: "\<And>n. kmalloc_ok env n" "\<And>n. eeprom_read_ok env n" "\<And>n. eeprom_write_ok env n"
    and blank: "eeprom_bytes s = replicate byte_len 0xFF" "rev s = BOARD_REV_UNKNOWN"
  shows "\<exists>s1. eeprom_setup env s = Some (Ok (), s1) \<and> rev s1 = BOARD_REV_NEWEST \<and>
    (\<forall>t. eeprom_bytes t = eeprom_bytes s1 \<and> rev t = BOARD_REV_UNKNOWN \<longrightarrow>
      (\<exists>t1. eeprom_setup env t = Some (Ok (), t1) \<and> rev t1 = rev s1 \<and> eeprom_bytes t1 = eeprom_bytes t))"
proof -
  have full: "list_all (\<lambda>b. b = 0xFF) (take byte_len (replicate byte_len (0xFF :: u8)))"
    by (simp add: list_all_length)
  have "wp (eeprom_setup env) (\<lambda>r s1. r = Ok () \<and> rev s1 = BOARD_REV_NEWEST \<and> (\<exists>rest. eeprom_bytes s1 = eeprom_data @ rest)) s"
    using full by (auto simp: eeprom_setup_def wp_rules answers blank identify_def write_eeprom_def simp del: take_replicate)
  moreover have "wp (eeprom_setup env) (\<lambda>r t1. r = Ok () \<and> rev t1 = BOARD_REV_NEWEST \<and> eeprom_bytes t1 = eeprom_bytes t) t"
    if "eeprom_bytes t = eeprom_data @ rest" "rev t = BOARD_REV_UNKNOWN" for t rest
    using that eeprom_data_starts [of rest] eeprom_data_not_blank [of rest]
    by (simp add: eeprom_setup_def wp_rules answers identify_def del: take_append)
  ultimately show ?thesis by (fastforce simp: wp_iff)
qed

section \<open>Closed instances\<close>

abbreviation y_example :: mangoh_yellow_driver_data where "y_example \<equiv> y_start [] BOARD_REV_1_0"

lemma y_example_fresh: "y_fresh y_example"
  by (simp add: y_fresh_def y_start_def y_slots_def numeral_eq_Suc)

lemma y_example_binds: "wp (bind_driver (mangoh_yellow_probe example_board_env)) (\<lambda>r s. r = Ok ()) y_example"
  by (simp add: bind_driver_def mangoh_yellow_probe_def wp_kernel example_board_env_def map_eeprom_def eeprom_setup_def y_start_def
      check_revision_def map_client_def map_devices_def map_expander_def map_light_def wp_put_adapters wp_i2c_put_adapter)

theorem yellow_binds_or_gives_back_witness:
  "y_fresh y_example \<and> (\<exists>r s'. bind_driver (mangoh_yellow_probe example_board_env) y_example = Some (r, s') \<and>
    (r = Ok () \<and> y_bound example_board_env y_example s' \<or> (\<exists>e. r = Err e \<and> e \<noteq> 0)))"
  using y_example_fresh yellow_binds_or_gives_back [OF y_example_fresh, of example_board_env] by blast

theorem yellow_second_failure_frees_twice_witness:
  "\<exists>s1 s2 s3. bind_driver (mangoh_yellow_probe example_board_env) y_example = Some (Ok (), s1) \<and>
     unbind_driver (mangoh_yellow_remove example_board_env) s1 = Some (Ok (), s2) \<and>
     bind_driver (mangoh_yellow_probe example_no_port) s2 = Some (Halt (Undefined ''i2c_unregister_device of a freed client''), s3)"
proof -
  obtain s1 where s1: "bind_driver (mangoh_yellow_probe example_board_env) y_example = Some (Ok (), s1)"
    using y_example_binds by (auto simp: wp_iff)
  have "y_bound example_board_env y_example s1"
    by (rule bind_ok_bound [OF y_example_fresh s1])
  from y_bound_remove [OF y_example_fresh this]
  obtain s2 where s2: "unbind_driver (mangoh_yellow_remove example_board_env) s1 = Some (Ok (), s2)"
    by (auto simp: wp_iff unbind_driver_def modifyP_def)
  have no: "adapter_exists example_no_port n (PRIMARY_I2C_BUS example_no_port)" "\<not> adapter_exists example_no_port n (PORT1 example_no_port)"
    "client_made example_no_port n info" for n info
    by (simp_all add: example_no_port_def example_board_env_def)
  from yellow_second_failure_frees_twice [OF y_example_fresh s1 s2 no] s1 s2 show ?thesis by blast
qed

theorem blank_eeprom_round_trip_witness:
  "\<exists>s1. eeprom_setup example_board_env (y_start (replicate byte_len 0xFF) BOARD_REV_UNKNOWN) = Some (Ok (), s1) \<and>
     rev s1 = BOARD_REV_NEWEST"
proof -
  have ok: "kmalloc_ok example_board_env n" "eeprom_read_ok example_board_env n" "eeprom_write_ok example_board_env n" for n
    by (simp_all add: example_board_env_def)
  have "eeprom_bytes (y_start (replicate byte_len 0xFF) BOARD_REV_UNKNOWN) = replicate byte_len 0xFF"
    "rev (y_start (replicate byte_len 0xFF) BOARD_REV_UNKNOWN) = BOARD_REV_UNKNOWN"
    by (simp_all only: y_start_def mangoh_yellow_driver_data.simps)
  from blank_eeprom_round_trip [OF ok this] show ?thesis by blast
qed

end
