(* ===== verification/Board_Mux.thy ===== *)
theory Board_Mux
  imports Board_Kernel
begin

text \<open>
  The multiplexers of the mangOH Red (\<^verbatim>\<open>mangoh_red_mux.c\<close>): the SDIO and the PCM signals go to one of two
  places, and several clients may ask for the same place at a time.  Each function runs under its mutex, so
  that it is one step.  The locale says what either multiplexer promises, and its lemmas show that any
  sequence of requests is served as by a lock with a multiset of holders.
\<close>

section \<open>The code\<close>

datatype sdio_selection = SDIO_SELECTION_SD_CARD_SLOT | SDIO_SELECTION_IOT_SLOT
datatype pcm_selection = PCM_SELECTION_IOT_SLOT | PCM_SELECTION_ONBOARD

record mangoh_red_mux = bus_world +
  sdio_mux_gpio :: int
  sdio_current_selection :: sdio_selection
  sdio_num_requested :: u32
  pcm_mux_gpio :: int
  pcm_current_selection :: pcm_selection
  pcm_num_requested :: u32

definition gpio_direction_output :: "board_env \<Rightarrow> int \<Rightarrow> bool \<Rightarrow> ('z bus_world_scheme, unit) prog" where
  "gpio_direction_output env gpio high =
     bindP (ask (\<lambda>n. direction_ret env n gpio)) (\<lambda>ret.
     if ret \<noteq> 0 then throwP ret else modifyP (\<lambda>s. s\<lparr>levels := (levels s)(gpio := high)\<rparr>))"

text \<open>A managed GPIO, requested as an output that is high.\<close>

definition request_high :: "board_env \<Rightarrow> int \<Rightarrow> ('z bus_world_scheme, unit) prog" where
  "request_high env gpio =
     bindP (devm_gpio_request_one env gpio) (\<lambda>ret.
     if ret \<noteq> 0 then throwP ret else modifyP (\<lambda>s. s\<lparr>levels := (levels s)(gpio := True)\<rparr>))"

definition mangoh_red_mux_init :: "board_env \<Rightarrow> int \<Rightarrow> int \<Rightarrow> ('z mangoh_red_mux_scheme, unit) prog" where
  "mangoh_red_mux_init env sdio_gpio pcm_gpio =
     seqP (modifyP (\<lambda>s. s\<lparr>sdio_mux_gpio := sdio_gpio, pcm_mux_gpio := pcm_gpio\<rparr>))
    (seqP (request_high env sdio_gpio)
    (tryP (request_high env pcm_gpio)
       (\<lambda>ret. seqP (devm_gpio_free sdio_gpio) (throwP ret))
       (\<lambda>_. modifyP (\<lambda>s. s\<lparr>sdio_current_selection := SDIO_SELECTION_SD_CARD_SLOT,
              pcm_current_selection := PCM_SELECTION_ONBOARD, sdio_num_requested := 0, pcm_num_requested := 0\<rparr>))))"

definition mangoh_red_mux_deinit :: "('z mangoh_red_mux_scheme, unit) prog" where
  "mangoh_red_mux_deinit =
     seqP (bindP (getP pcm_mux_gpio) devm_gpio_free) (bindP (getP sdio_mux_gpio) devm_gpio_free)"

definition mangoh_red_mux_sdio_select :: "board_env \<Rightarrow> sdio_selection \<Rightarrow> ('z mangoh_red_mux_scheme, unit) prog" where
  "mangoh_red_mux_sdio_select env selection =
     bindP (getP (\<lambda>s. (sdio_current_selection s, sdio_num_requested s, sdio_mux_gpio s))) (\<lambda>(current, n, gpio).
     if selection = current then modifyP (\<lambda>s. s\<lparr>sdio_num_requested := n + 1\<rparr>)
     else if n = 0 then
       seqP (gpio_direction_output env gpio (selection = SDIO_SELECTION_SD_CARD_SLOT))
            (modifyP (\<lambda>s. s\<lparr>sdio_current_selection := selection, sdio_num_requested := n + 1\<rparr>))
     else throwP (- EBUSY))"

definition mangoh_red_mux_sdio_release :: "sdio_selection \<Rightarrow> ('z mangoh_red_mux_scheme, unit) prog" where
  "mangoh_red_mux_sdio_release selection =
     bindP (getP (\<lambda>s. (sdio_current_selection s, sdio_num_requested s))) (\<lambda>(current, n).
     if selection \<noteq> current then throwP (- EACCES)
     else if n \<noteq> 0 then modifyP (\<lambda>s. s\<lparr>sdio_num_requested := n - 1\<rparr>)
     else throwP (- ENOLCK))"

definition mangoh_red_mux_pcm_select :: "board_env \<Rightarrow> pcm_selection \<Rightarrow> ('z mangoh_red_mux_scheme, unit) prog" where
  "mangoh_red_mux_pcm_select env selection =
     bindP (getP (\<lambda>s. (pcm_current_selection s, pcm_num_requested s, pcm_mux_gpio s))) (\<lambda>(current, n, gpio).
     if selection = current then modifyP (\<lambda>s. s\<lparr>pcm_num_requested := n + 1\<rparr>)
     else if n = 0 then
       seqP (gpio_direction_output env gpio (selection = PCM_SELECTION_ONBOARD))
            (modifyP (\<lambda>s. s\<lparr>pcm_current_selection := selection, pcm_num_requested := n + 1\<rparr>))
     else throwP (- EBUSY))"

definition mangoh_red_mux_pcm_release :: "pcm_selection \<Rightarrow> ('z mangoh_red_mux_scheme, unit) prog" where
  "mangoh_red_mux_pcm_release selection =
     bindP (getP (\<lambda>s. (pcm_current_selection s, pcm_num_requested s))) (\<lambda>(current, n).
     if selection \<noteq> current then throwP (- EACCES)
     else if n \<noteq> 0 then modifyP (\<lambda>s. s\<lparr>pcm_num_requested := n - 1\<rparr>)
     else throwP (- ENOLCK))"

section \<open>The lock it is\<close>

datatype 'sel request = Select 'sel | Release 'sel

text \<open>
  The specification: the holders, and the place that was selected last.  A request is granted when every
  holder has asked for the same place; only what is held can be released.
\<close>

fun mux_spec :: "'sel multiset \<times> 'sel \<Rightarrow> 'sel request \<Rightarrow> int \<times> 'sel multiset \<times> 'sel" where
  "mux_spec (H, cur) (Select x) = (if set_mset H \<subseteq> {x} then (0, add_mset x H, x) else (- EBUSY, H, cur))"
| "mux_spec (H, cur) (Release x) =
     (if x \<in># H then (0, H - {#x#}, cur) else (if x = cur then - ENOLCK else - EACCES, H, cur))"

fun mux_spec_all :: "'sel multiset \<times> 'sel \<Rightarrow> 'sel request list \<Rightarrow> int list \<times> 'sel multiset \<times> 'sel" where
  "mux_spec_all a [] = ([], a)"
| "mux_spec_all a (q # qs) = (case mux_spec a q of (e, b) \<Rightarrow> case mux_spec_all b qs of (es, c) \<Rightarrow> (e # es, c))"

text \<open>The return values of a sequence of calls.\<close>

fun serve_one :: "('sel \<Rightarrow> ('s, unit) prog) \<Rightarrow> ('sel \<Rightarrow> ('s, unit) prog) \<Rightarrow> 'sel request \<Rightarrow> ('s, int) prog" where
  "serve_one select release (Select x) = tryP (select x) returnP (\<lambda>_. returnP 0)"
| "serve_one select release (Release x) = tryP (release x) returnP (\<lambda>_. returnP 0)"

fun serve :: "('sel \<Rightarrow> ('s, unit) prog) \<Rightarrow> ('sel \<Rightarrow> ('s, unit) prog) \<Rightarrow> 'sel request list \<Rightarrow> ('s, int list) prog" where
  "serve select release [] = returnP []"
| "serve select release (q # qs) = bindP (serve_one select release q) (\<lambda>e. bindP (serve select release qs) (\<lambda>es. returnP (e # es)))"

locale shared_mux =
  fixes select :: "'sel \<Rightarrow> ('s, unit) prog" and release :: "'sel \<Rightarrow> ('s, unit) prog"
    and current :: "'s \<Rightarrow> 'sel" and num :: "'s \<Rightarrow> u32" and pin :: "'s \<Rightarrow> bool" and level :: "'sel \<Rightarrow> bool"
    and pin_ok :: bool
  assumes select_wp: "wp (select x) (\<lambda>r s'.
      if current s = x then r = Ok () \<and> current s' = x \<and> num s' = num s + 1 \<and> pin s' = pin s
      else if num s = 0 then
        (r = Ok () \<and> current s' = x \<and> num s' = 1 \<and> pin s' = level x) \<or>
        (\<not> pin_ok \<and> (\<exists>e. r = Err e) \<and> current s' = current s \<and> num s' = num s \<and> pin s' = pin s)
      else r = Err (- EBUSY) \<and> s' = s) s"
    and release_wp: "wp (release x) (\<lambda>r s'.
      if current s \<noteq> x then r = Err (- EACCES) \<and> s' = s
      else if num s = 0 then r = Err (- ENOLCK) \<and> s' = s
      else r = Ok () \<and> current s' = x \<and> num s' = num s - 1 \<and> pin s' = pin s) s"
begin

lemma serve_one_spec:
  assumes "pin_ok" "unat (num s) = size H" "\<forall>y\<in>#H. y = cur" "current s = cur" "pin s = level cur" "size H + 1 < 2 ^ 32"
  shows "wp (serve_one select release q) (\<lambda>r s'. case mux_spec (H, cur) q of (e, H', cur') \<Rightarrow>
    r = Ok e \<and> unat (num s') = size H' \<and> (\<forall>y\<in>#H'. y = cur') \<and> current s' = cur' \<and> pin s' = level cur' \<and>
    size H' \<le> size H + 1) s"
proof (cases q)
  case (Select x)
  have up: "unat (num s + 1) = size H + 1"
    using assms(2,6) by (simp add: unat_word_ariths)
  have zero: "num s = 0 \<longleftrightarrow> H = {#}" using assms(2) by (metis size_eq_0_iff_empty unat_eq_0)
  have other: "\<not> set_mset H \<subseteq> {x}" if "cur \<noteq> x" "H \<noteq> {#}"
    using that assms(3) by (metis multiset_nonemptyE singletonD subsetD)
  show ?thesis
    unfolding Select serve_one.simps wp_tryP
  proof (rule wp_mono [OF select_wp], goal_cases)
    case (1 r s')
    then show ?case
      using assms up zero other by (cases "current s = x") (auto simp: wp_rules split: if_splits)
  qed
next
  case (Release x)
  have zero: "num s = 0 \<longleftrightarrow> H = {#}" using assms(2) by (metis size_eq_0_iff_empty unat_eq_0)
  have down: "unat (num s - 1) = size H - 1" if "num s \<noteq> 0"
    using that assms(2) by (simp add: unat_minus_one)
  have held: "x \<in># H \<longleftrightarrow> x = cur \<and> H \<noteq> {#}"
    using assms(3) by (metis empty_not_add_mset multiset_nonemptyE mset_add)
  have rest: "\<forall>y\<in>#H - {#x#}. y = cur" using assms(3) by (meson in_diffD)
  show ?thesis
    unfolding Release serve_one.simps wp_tryP
  proof (rule wp_mono [OF release_wp], goal_cases)
    case (1 r s')
    consider "x \<noteq> cur" | "x = cur" "H = {#}" | "x = cur" "H \<noteq> {#}" by blast
    then show ?case
    proof cases
      case 1
      then show ?thesis using \<open>if current s \<noteq> x then _ else _\<close> assms(2,4,5) held by (simp add: wp_rules eqTrueI [OF assms(3)])
    next
      case 2
      then show ?thesis using \<open>if current s \<noteq> x then _ else _\<close> assms(2,4,5) held zero by (simp add: wp_rules)
    next
      case 3
      then show ?thesis
        using \<open>if current s \<noteq> x then _ else _\<close> assms(2,4,5) held zero down by (simp add: wp_rules size_Diff_singleton eqTrueI [OF rest [unfolded \<open>x = cur\<close>]])
    qed
  qed
qed

text \<open>Any number of requests that the counter can hold.\<close>

lemma serve_spec:
  assumes "pin_ok" "unat (num s) = size H" "\<forall>y\<in>#H. y = cur" "current s = cur" "pin s = level cur" "size H + length qs < 2 ^ 32"
  shows "wp (serve select release qs) (\<lambda>r s'. case mux_spec_all (H, cur) qs of (es, H', cur') \<Rightarrow>
    r = Ok es \<and> unat (num s') = size H' \<and> (\<forall>y\<in>#H'. y = cur') \<and> current s' = cur' \<and> pin s' = level cur') s"
  using assms(2-)
proof (induction qs arbitrary: s H cur)
  case Nil
  then show ?case by (simp add: wp_rules)
next
  case (Cons q qs)
  obtain e H1 cur1 where one: "mux_spec (H, cur) q = (e, H1, cur1)" by (metis prod_cases3)
  obtain es H2 cur2 where all: "mux_spec_all (H1, cur1) qs = (es, H2, cur2)" by (metis prod_cases3)
  have "wp (serve_one select release q) (\<lambda>r s'. r = Ok e \<and> unat (num s') = size H1 \<and> (\<forall>y\<in>#H1. y = cur1) \<and>
      current s' = cur1 \<and> pin s' = level cur1 \<and> size H1 \<le> size H + 1) s"
    using serve_one_spec [OF assms(1) Cons.prems(1-4), of q] Cons.prems(5) one by simp
  then show ?case
    unfolding serve.simps wp_bindP
    by (rule wp_mono) (use Cons.IH [of _ H1 cur1] Cons.prems(5) one all in
        \<open>auto simp: wp_rules intro!: wp_mono [OF Cons.IH [of _ H1 cur1]]\<close>)
qed

end

section \<open>Both multiplexers\<close>

definition direction_ok :: "board_env \<Rightarrow> bool" where
  "direction_ok env \<longleftrightarrow> (\<forall>n gpio. direction_ret env n gpio = 0)"

interpretation sdio: shared_mux "mangoh_red_mux_sdio_select env" "mangoh_red_mux_sdio_release"
  "sdio_current_selection" "sdio_num_requested" "\<lambda>s :: 'z mangoh_red_mux_scheme. levels s (sdio_mux_gpio s)"
  "\<lambda>x. x = SDIO_SELECTION_SD_CARD_SLOT" "direction_ok env"
  for env
  by unfold_locales
    (auto simp: mangoh_red_mux_sdio_select_def mangoh_red_mux_sdio_release_def gpio_direction_output_def wp_rules direction_ok_def)

interpretation pcm: shared_mux "mangoh_red_mux_pcm_select env" "mangoh_red_mux_pcm_release"
  "pcm_current_selection" "pcm_num_requested" "\<lambda>s :: 'z mangoh_red_mux_scheme. levels s (pcm_mux_gpio s)"
  "\<lambda>x. x = PCM_SELECTION_ONBOARD" "direction_ok env"
  for env
  by unfold_locales
    (auto simp: mangoh_red_mux_pcm_select_def mangoh_red_mux_pcm_release_def gpio_direction_output_def wp_rules direction_ok_def)

end
