(* ===== verification/Board_Red.thy ===== *)
theory Board_Red
  imports Board_Mux
begin

text \<open>
  The board driver of the mangOH Red (\<^verbatim>\<open>mangoh_red_board.c\<close>).  The IoT slot and the multiplexers are compiled
  in with \<^verbatim>\<open>ENABLE_IOT_SLOT\<close>, which is the argument \<open>iot\<close> here.
\<close>

section \<open>The static data\<close>

datatype mangoh_red_board_rev = MANGOH_RED_BOARD_REV_UNKNOWN | MANGOH_RED_BOARD_REV_DV5 | MANGOH_RED_BOARD_REV_DV6

definition board_rev_strings :: "(string \<times> mangoh_red_board_rev) list" where
  "board_rev_strings = [(''unknown'', MANGOH_RED_BOARD_REV_UNKNOWN), (''dv5'', MANGOH_RED_BOARD_REV_DV5),
     (''dv6'', MANGOH_RED_BOARD_REV_DV6)]"

record mangoh_red_driver_data = mangoh_red_mux +
  eeprom_bytes :: "u8 list"
  eeprom :: "nat option"
  i2c_switch :: "nat option"
  accelerometer :: "nat option"
  pressure :: "nat option"
  battery_gauge :: "nat option"
  battery_charger :: "nat option"
  gpio_expander :: "nat option"
  mux_initialized :: bool
  iot_slot_registered :: bool
  led_registered :: bool
  pdata_board_rev :: mangoh_red_board_rev
  eeprom_readonly :: bool
  led_pdata_gpio :: int

type_synonym 'a red_prog = "(mangoh_red_driver_data, 'a) prog"

abbreviation (input) byte_len :: nat where "byte_len \<equiv> 4096"

abbreviation (input) eeprom_info :: i2c_board_info where "eeprom_info \<equiv> (''at24'', 0x51)"
abbreviation (input) pca954x_device_info :: i2c_board_info where "pca954x_device_info \<equiv> (''pca9546'', 0x71)"
abbreviation (input) gpio_expander_devinfo :: i2c_board_info where "gpio_expander_devinfo \<equiv> (''sx1509q'', 0x3e)"
abbreviation (input) bmi160_devinfo :: i2c_board_info where "bmi160_devinfo \<equiv> (''bmi160'', 0x68)"
abbreviation (input) pressure_devinfo :: i2c_board_info where "pressure_devinfo \<equiv> (''bmp280'', 0x76)"
abbreviation (input) battery_charger_devinfo :: i2c_board_info where "battery_charger_devinfo \<equiv> (''bq24190'', 0x6B)"

definition battery_gauge_info :: "mangoh_red_board_rev \<Rightarrow> i2c_board_info" where
  "battery_gauge_info r = (if r = MANGOH_RED_BOARD_REV_DV5 then (''ltc2942'', 0x64) else (''bq27426'', 0x55))"

abbreviation (input) BUS_IOT0 :: "board_env \<Rightarrow> int" where "BUS_IOT0 env \<equiv> PRIMARY_I2C_BUS env + 1"
abbreviation (input) BUS_BATTERY_CHARGER :: "board_env \<Rightarrow> int" where "BUS_BATTERY_CHARGER env \<equiv> PRIMARY_I2C_BUS env + 2"
abbreviation (input) BUS_GPIO_EXPANDER :: "board_env \<Rightarrow> int" where "BUS_GPIO_EXPANDER env \<equiv> PRIMARY_I2C_BUS env + 3"

text \<open>The static data when the module is loaded.\<close>

definition r_start :: "u8 list \<Rightarrow> mangoh_red_board_rev \<Rightarrow> mangoh_red_driver_data" where
  "r_start bytes r = \<lparr>calls = 0, next_client = 0, clients = (\<lambda>_. None), adapter_refs = (\<lambda>_. 0), platform_devices = {},
     platform_drivers = {}, gpios = {}, levels = (\<lambda>_. False), sdio_mux_gpio = 0,
     sdio_current_selection = SDIO_SELECTION_SD_CARD_SLOT, sdio_num_requested = 0, pcm_mux_gpio = 0,
     pcm_current_selection = PCM_SELECTION_IOT_SLOT, pcm_num_requested = 0, eeprom_bytes = bytes, eeprom = None,
     i2c_switch = None, accelerometer = None, pressure = None, battery_gauge = None, battery_charger = None, gpio_expander = None,
     mux_initialized = False, iot_slot_registered = False, led_registered = False, pdata_board_rev = r, eeprom_readonly = False,
     led_pdata_gpio = - 1\<rparr>"

section \<open>The revision of the board\<close>

definition dv5_string :: string where
  "dv5_string = ''mangOH Red DV5.1 PCB Rev 5.0 with SWI MT7697 FW v4.3.0-0 - Manufactured by Talon Communications in Q1 2018''"

definition dv5_alt_string :: string where
  "dv5_alt_string = ''mangOH Red DV4 PCB Rev 5 - Manufactured by Talon Communications''"

definition dv6_string :: string where
  "dv6_string = ''mangOH Red DV6.0 PCB Rev 6.0 with SWI MT7697 FW v4.3.0-0 - Manufactured by Talon Communications in Q4 2018''"

definition detected_rev :: "u8 list \<Rightarrow> mangoh_red_board_rev" where
  "detected_rev data =
     (if strcmp_equal data dv5_string then MANGOH_RED_BOARD_REV_DV5
      else if strcmp_equal data dv5_alt_string then MANGOH_RED_BOARD_REV_DV5
      else if strcmp_equal data dv6_string then MANGOH_RED_BOARD_REV_DV6
      else MANGOH_RED_BOARD_REV_UNKNOWN)"

text \<open>A mismatch between the revision given and the one detected is only logged.\<close>

definition eeprom_setup :: "board_env \<Rightarrow> unit red_prog" where
  "eeprom_setup env =
     bindP (ask (eeprom_read_ok env)) (\<lambda>ok.
     if \<not> ok then returnP ()
     else bindP (getP (\<lambda>s. detected_rev (take byte_len (eeprom_bytes s)))) (\<lambda>detected.
       modifyP (\<lambda>s. if pdata_board_rev s = MANGOH_RED_BOARD_REV_UNKNOWN then s\<lparr>pdata_board_rev := detected\<rparr> else s)))"

section \<open>Removing the driver\<close>

definition mangoh_red_remove :: "board_env \<Rightarrow> bool \<Rightarrow> unit red_prog" where
  "mangoh_red_remove env iot =
     seqP (bindP (getP battery_gauge) (i2c_unregister_device env))
    (seqP (bindP (getP battery_charger) (i2c_unregister_device env))
    (seqP (bindP (getP pressure) (i2c_unregister_device env))
    (seqP (bindP (getP accelerometer) (i2c_unregister_device env))
    (seqP (bindP (getP led_registered) (\<lambda>b. whenP b (platform_device_unregister ''led'')))
    (seqP (whenP iot (seqP
        (bindP (getP iot_slot_registered) (\<lambda>b. whenP b (platform_device_unregister ''iot-slot'')))
        (bindP (getP mux_initialized) (\<lambda>b. whenP b mangoh_red_mux_deinit))))
    (seqP (bindP (getP gpio_expander) (i2c_unregister_device env))
    (seqP (bindP (getP i2c_switch) (i2c_unregister_device env))
          (bindP (getP eeprom) (i2c_unregister_device env)))))))))"

section \<open>Binding the driver\<close>

definition cleanup :: "board_env \<Rightarrow> bool \<Rightarrow> int option \<Rightarrow> int option \<Rightarrow> int option \<Rightarrow> int \<Rightarrow> unit red_prog" where
  "cleanup env iot primary gpio_exp batt_charger ret =
     seqP (put_adapters [primary, gpio_exp, batt_charger]) (seqP (mangoh_red_remove env iot) (throwP ret))"

definition map_eeprom :: "board_env \<Rightarrow> bool \<Rightarrow> int \<Rightarrow> unit red_prog" where
  "map_eeprom env allow_eeprom_write bus =
     seqP (whenP (\<not> allow_eeprom_write) (modifyP (\<lambda>s. s\<lparr>eeprom_readonly := True\<rparr>)))
    (bindP (i2c_new_device env bus eeprom_info) (\<lambda>c.
     seqP (bindP (ask (eeprom_binds env)) (\<lambda>b. whenP (c \<noteq> None \<and> b) (eeprom_setup env)))
    (seqP (modifyP (\<lambda>s. s\<lparr>eeprom := c\<rparr>)) (if c = None then throwP (- ENODEV) else returnP ()))))"

definition register :: "board_env \<Rightarrow> string \<Rightarrow> (mangoh_red_driver_data \<Rightarrow> mangoh_red_driver_data) \<Rightarrow> unit red_prog" where
  "register env name upd = bindP (platform_device_register env name) (\<lambda>ret. if ret \<noteq> 0 then throwP ret else modifyP upd)"

definition map_expander :: "board_env \<Rightarrow> bool \<Rightarrow> int option \<Rightarrow> int option \<Rightarrow> unit red_prog" where
  "map_expander env iot gpio_exp batt_charger = (case (gpio_exp, batt_charger) of
     (Some bus, Some _) \<Rightarrow>
       seqP (map_client env bus gpio_expander_devinfo (\<lambda>c s. s\<lparr>gpio_expander := c\<rparr>))
      (bindP (ask (expander_base env)) (\<lambda>chip. case chip of
         None \<Rightarrow> haltP (Undefined ''base of a null gpio_chip'')
       | Some base \<Rightarrow>
           seqP (whenP iot (seqP (mangoh_red_mux_init env (base + 9) (base + 13))
                           (seqP (modifyP (\<lambda>s. s\<lparr>mux_initialized := True\<rparr>))
                                 (register env ''iot-slot'' (\<lambda>s. s\<lparr>iot_slot_registered := True\<rparr>)))))
          (seqP (modifyP (\<lambda>s. s\<lparr>led_pdata_gpio := base + 8\<rparr>))
                (register env ''led'' (\<lambda>s. s\<lparr>led_registered := True\<rparr>)))))
   | _ \<Rightarrow> throwP (- ENODEV))"

definition map_battery :: "board_env \<Rightarrow> int option \<Rightarrow> unit red_prog" where
  "map_battery env batt_charger = (case batt_charger of
     None \<Rightarrow> throwP (- ENODEV)
   | Some bus \<Rightarrow>
       seqP (map_client env bus battery_charger_devinfo (\<lambda>c s. s\<lparr>battery_charger := c\<rparr>))
      (bindP (getP pdata_board_rev) (\<lambda>r. map_client env bus (battery_gauge_info r) (\<lambda>c s. s\<lparr>battery_gauge := c\<rparr>))))"

text \<open>
  An error goes to the label \<^verbatim>\<open>cleanup\<close>, except for three: the unknown revision and the two sensors on the
  primary bus return at once.  The bus of the batteries is there when \<^theory_text>\<open>map_expander\<close> has succeeded.
\<close>

definition mangoh_red_probe :: "board_env \<Rightarrow> bool \<Rightarrow> bool \<Rightarrow> unit red_prog" where
  "mangoh_red_probe env iot allow_eeprom_write =
     bindP (i2c_get_adapter env (PRIMARY_I2C_BUS env)) (\<lambda>primary. case primary of
       None \<Rightarrow> throwP (- ENODEV)
     | Some bus \<Rightarrow>
         tryP (map_eeprom env allow_eeprom_write bus) (cleanup env iot primary None None) (\<lambda>_.
         bindP (getP pdata_board_rev) (\<lambda>r.
         if r = MANGOH_RED_BOARD_REV_UNKNOWN then throwP (- EINVAL)
         else
         tryP (map_client env bus pca954x_device_info (\<lambda>c s. s\<lparr>i2c_switch := c\<rparr>)) (cleanup env iot primary None None) (\<lambda>_.
         bindP (i2c_get_adapter env (BUS_GPIO_EXPANDER env)) (\<lambda>gpio_exp.
         bindP (i2c_get_adapter env (BUS_BATTERY_CHARGER env)) (\<lambda>batt_charger.
         tryP (map_expander env iot gpio_exp batt_charger) (cleanup env iot primary gpio_exp batt_charger) (\<lambda>_.
         seqP (map_client env bus bmi160_devinfo (\<lambda>c s. s\<lparr>accelerometer := c\<rparr>))
        (seqP (map_client env bus pressure_devinfo (\<lambda>c s. s\<lparr>pressure := c\<rparr>))
        (tryP (map_battery env batt_charger) (cleanup env iot primary gpio_exp batt_charger)
              (\<lambda>_. put_adapters [primary, gpio_exp, batt_charger]))))))))))"

section \<open>Loading and unloading the module\<close>

definition mangoh_red_init :: "board_env \<Rightarrow> string \<Rightarrow> unit red_prog" where
  "mangoh_red_init env revision =
     bindP (platform_driver_register env ''mangoh red'') (\<lambda>_.
     case map_of board_rev_strings revision of
       None \<Rightarrow> throwP (- EINVAL)
     | Some r \<Rightarrow>
         seqP (modifyP (\<lambda>s. s\<lparr>pdata_board_rev := r\<rparr>))
        (bindP (platform_device_register env ''mangoh red'') (\<lambda>ret.
         if ret \<noteq> 0 then seqP (platform_driver_unregister ''mangoh red'') (throwP (- ENODEV)) else returnP ())))"

definition mangoh_red_exit :: "unit red_prog" where
  "mangoh_red_exit = seqP (platform_device_unregister ''mangoh red'') (platform_driver_unregister ''mangoh red'')"

section \<open>What the IoT slot is given (the function pointers of its platform data)\<close>

definition mangoh_red_iot_slot_request_i2c :: "board_env \<Rightarrow> int option red_prog" where
  "mangoh_red_iot_slot_request_i2c env =
     bindP (i2c_get_adapter env (BUS_IOT0 env)) (\<lambda>a. if a = None then throwP (- EINVAL) else returnP a)"

definition mangoh_red_iot_slot_release_i2c :: "int option \<Rightarrow> unit red_prog" where
  "mangoh_red_iot_slot_release_i2c adapter = i2c_put_adapter adapter"

text \<open>The SPI master of a bus is looked up by the kernel; the chip select is always 0.\<close>

definition mangoh_red_iot_slot_request_spi :: "int option \<Rightarrow> (int \<times> int) red_prog" where
  "mangoh_red_iot_slot_request_spi spi_master =
     (case spi_master of None \<Rightarrow> throwP (- ENODEV) | Some m \<Rightarrow> returnP (m, 0))"

definition mangoh_red_iot_slot_release_spi :: "unit red_prog" where
  "mangoh_red_iot_slot_release_spi = returnP ()"

definition mangoh_red_iot_slot_request_sdio :: "board_env \<Rightarrow> unit red_prog" where
  "mangoh_red_iot_slot_request_sdio env = mangoh_red_mux_sdio_select env SDIO_SELECTION_IOT_SLOT"

definition mangoh_red_iot_slot_release_sdio :: "unit red_prog" where
  "mangoh_red_iot_slot_release_sdio = mangoh_red_mux_sdio_release SDIO_SELECTION_IOT_SLOT"

definition mangoh_red_iot_slot_request_pcm :: "board_env \<Rightarrow> unit red_prog" where
  "mangoh_red_iot_slot_request_pcm env = mangoh_red_mux_pcm_select env PCM_SELECTION_IOT_SLOT"

definition mangoh_red_iot_slot_release_pcm :: "unit red_prog" where
  "mangoh_red_iot_slot_release_pcm = mangoh_red_mux_pcm_release PCM_SELECTION_IOT_SLOT"

end
