(* ===== verification/Board_RedProps.thy ===== *)
theory Board_RedProps
  imports Board_Red Board_Clients
begin

text \<open>
  The properties of the mangOH Red: what binding and unbinding its driver does, on every path of the kernel's
  answers, and the multiplexers as locks.
\<close>

section \<open>The driver's slots\<close>

definition r_slots :: "mangoh_red_driver_data \<Rightarrow> nat option list" where
  "r_slots s = [eeprom s, i2c_switch s, gpio_expander s, accelerometer s, pressure s, battery_charger s, battery_gauge s]"

definition r_put :: "nat \<Rightarrow> nat option \<Rightarrow> mangoh_red_driver_data \<Rightarrow> mangoh_red_driver_data" where
  "r_put i c s = (if i = 0 then s\<lparr>eeprom := c\<rparr> else if i = 1 then s\<lparr>i2c_switch := c\<rparr>
     else if i = 2 then s\<lparr>gpio_expander := c\<rparr> else if i = 3 then s\<lparr>accelerometer := c\<rparr> else if i = 4 then s\<lparr>pressure := c\<rparr>
     else if i = 5 then s\<lparr>battery_charger := c\<rparr> else s\<lparr>battery_gauge := c\<rparr>)"

lemma r_put_eqs: "(\<lambda>c s. s\<lparr>eeprom := c\<rparr>) = r_put 0" "(\<lambda>c s. s\<lparr>i2c_switch := c\<rparr>) = r_put 1"
  "(\<lambda>c s. s\<lparr>gpio_expander := c\<rparr>) = r_put 2" "(\<lambda>c s. s\<lparr>accelerometer := c\<rparr>) = r_put 3" "(\<lambda>c s. s\<lparr>pressure := c\<rparr>) = r_put 4"
  "(\<lambda>c s. s\<lparr>battery_charger := c\<rparr>) = r_put 5" "(\<lambda>c s. s\<lparr>battery_gauge := c\<rparr>) = r_put 6"
  by (simp_all add: r_put_def fun_eq_iff)

definition r_chips :: "board_env \<Rightarrow> mangoh_red_board_rev \<Rightarrow> (i2c_board_info \<times> int) list" where
  "r_chips env r = [(eeprom_info, PRIMARY_I2C_BUS env), (pca954x_device_info, PRIMARY_I2C_BUS env),
     (gpio_expander_devinfo, BUS_GPIO_EXPANDER env), (bmi160_devinfo, PRIMARY_I2C_BUS env), (pressure_devinfo, PRIMARY_I2C_BUS env),
     (battery_charger_devinfo, BUS_BATTERY_CHARGER env), (battery_gauge_info r, BUS_BATTERY_CHARGER env)]"

definition r_rest :: "mangoh_red_driver_data \<Rightarrow> bool \<times> bool \<times> bool \<times> mangoh_red_board_rev" where
  "r_rest s = (mux_initialized s, iot_slot_registered s, led_registered s, pdata_board_rev s)"

interpretation red_slots: client_slots r_slots r_put r_rest 7
proof unfold_locales
  fix s s' :: mangoh_red_driver_data and i c
  show "bus_world.truncate (r_put i c s) = bus_world.truncate s"
    by (simp add: r_put_def bus_world.truncate_def)
  show "r_rest (r_put i c s) = r_rest s" by (simp add: r_put_def r_rest_def)
  show "length (r_slots s) = 7" by (simp add: r_slots_def)
  show "r_slots (r_put i c s) = (r_slots s)[i := c]" if "i < 7"
  proof -
    from that consider "i = 0" | "i = 1" | "i = 2" | "i = 3" | "i = 4" | "i = 5" | "i = 6" by linarith
    then show ?thesis by cases (simp_all add: r_put_def r_slots_def)
  qed
  show "r_slots s = r_slots s' \<and> r_rest s = r_rest s'" if "bus_world.more s = bus_world.more s'"
    using that by (cases s, cases s') (simp add: r_slots_def r_rest_def)
qed

section \<open>Removing a driver that is bound\<close>

definition r_bound :: "board_env \<Rightarrow> bool \<Rightarrow> mangoh_red_driver_data \<Rightarrow> mangoh_red_driver_data \<Rightarrow> bool" where
  "r_bound env iot s s' \<longleftrightarrow> holding (r_chips env (pdata_board_rev s')) s 7 (r_slots s') s' \<and>
     pdata_board_rev s' \<noteq> MANGOH_RED_BOARD_REV_UNKNOWN \<and>
     led_registered s' \<and> iot_slot_registered s' = iot \<and> mux_initialized s' = iot \<and> adapter_refs s' = adapter_refs s \<and>
     platform_devices s' = platform_devices s \<union> {''led''} \<union> (if iot then {''iot-slot''} else {})"

definition r_given_back :: "mangoh_red_driver_data \<Rightarrow> mangoh_red_driver_data \<Rightarrow> bool" where
  "r_given_back s s' \<longleftrightarrow> clients s' = clients s \<and> adapter_refs s' = adapter_refs s \<and> platform_devices s' = platform_devices s"

lemma drop_client_red [simp]:
  "eeprom (drop_client p s) = eeprom s" "i2c_switch (drop_client p s) = i2c_switch s" "accelerometer (drop_client p s) = accelerometer s"
  "pressure (drop_client p s) = pressure s" "battery_gauge (drop_client p s) = battery_gauge s"
  "battery_charger (drop_client p s) = battery_charger s" "gpio_expander (drop_client p s) = gpio_expander s"
  "led_registered (drop_client p s) = led_registered s" "iot_slot_registered (drop_client p s) = iot_slot_registered s"
  "mux_initialized (drop_client p s) = mux_initialized s"
  by (simp_all add: drop_client_def)

lemma r_bound_remove:
  assumes bound: "r_bound env iot s s'" and new: "{''led'', ''iot-slot''} \<inter> platform_devices s = {}"
  shows "wp (mangoh_red_remove env iot) (\<lambda>r s''. r = Ok () \<and> r_given_back s s'') s'"
proof -
  let ?ps = "[battery_gauge s', battery_charger s', pressure s', accelerometer s', gpio_expander s', i2c_switch s', eeprom s']"
  have slots: "r_slots s' = map Some [next_client s..<next_client s + 7]"
    using bound by (simp add: r_bound_def holding_def r_chips_def)
  have "mset (somes ?ps) = mset (somes (r_slots s'))"
    by (rule mset_somes) (simp add: r_slots_def)
  then have o0: "owns (somes ?ps) s s'"
    using bound holding_owns [of "r_chips env (pdata_board_rev s')" s 7 "r_slots s'" s'] owns_perm [of "somes (r_slots s')" "somes ?ps"]
    by (simp add: r_bound_def)
  have all: "battery_gauge s' \<noteq> None" "battery_charger s' \<noteq> None" "pressure s' \<noteq> None" "accelerometer s' \<noteq> None"
    "gpio_expander s' \<noteq> None" "i2c_switch s' \<noteq> None" "eeprom s' \<noteq> None"
    using slots by (auto simp: r_slots_def upt_rec [of _ "_ + _"] numeral_eq_Suc)
  note o1 = owns_drop [OF o0] note o2 = owns_drop [OF o1] note o3 = owns_drop [OF o2] note o4 = owns_drop [OF o3]
  let ?t = "drop_client (accelerometer s') (drop_client (pressure s') (drop_client (battery_charger s') (drop_client (battery_gauge s') s')))"
  define u where "u = (if iot then ?t\<lparr>platform_devices := platform_devices s' - {''led''} - {''iot-slot''},
      gpios := gpios s' - {pcm_mux_gpio s'} - {sdio_mux_gpio s'}\<rparr> else ?t\<lparr>platform_devices := platform_devices s' - {''led''}\<rparr>)"
  have o5: "owns (somes [gpio_expander s', i2c_switch s', eeprom s']) s u"
    by (rule owns_frame [OF o4]) (simp add: u_def)
  note o6 = owns_drop [OF o5] note o7 = owns_drop [OF o6] note o8 = owns_drop [OF o7]
  have u: "gpio_expander u = gpio_expander s'" "i2c_switch u = i2c_switch s'" "eeprom u = eeprom s'"
    "adapter_refs u = adapter_refs s'" "platform_devices u = platform_devices s"
    using bound new by (auto simp: u_def r_bound_def)
  have mux: "pcm_mux_gpio (drop_client p t) = pcm_mux_gpio t" "sdio_mux_gpio (drop_client p t) = sdio_mux_gpio t" for p and t :: mangoh_red_driver_data
    by (simp_all add: drop_client_def)
  have flags: "led_registered s'" "iot_slot_registered s' = iot" "mux_initialized s' = iot" "''led'' \<in> platform_devices s'"
    "iot \<longrightarrow> ''iot-slot'' \<in> platform_devices s'"
    using bound by (auto simp: r_bound_def)
  note un = wp_unregister [OF _ disjI1]
  have "wp (mangoh_red_remove env iot) Q s' = wp (seqP (bindP (getP gpio_expander) (i2c_unregister_device env))
      (seqP (bindP (getP i2c_switch) (i2c_unregister_device env)) (bindP (getP eeprom) (i2c_unregister_device env)))) Q u" for Q
    unfolding mangoh_red_remove_def u_def using flags
    by (simp add: wp_rules un [OF o0 all(1)] un [OF o1 all(2)] un [OF o2 all(3)] un [OF o3 all(4)] mux
        platform_device_unregister_def mangoh_red_mux_deinit_def devm_gpio_free_def)
  then have "wp (mangoh_red_remove env iot) Q s' = Q (Ok ()) (drop_client (eeprom s') (drop_client (i2c_switch s') (drop_client (gpio_expander s') u)))" for Q
    by (simp add: wp_rules u un [OF o5 all(5)] un [OF o6 all(6)] un [OF o7 all(7)])
  then show ?thesis
    using owns_none [OF o8 [unfolded somes_simps]] bound by (simp add: u r_given_back_def r_bound_def)
qed

section \<open>Binding\<close>

text \<open>
  Where a probe stands that has made \<open>k\<close> clients: the references \<open>R\<close> it has taken, and the devices and flags
  of the slot and the light.
\<close>

definition r_mid :: "board_env \<Rightarrow> mangoh_red_driver_data \<Rightarrow> mangoh_red_board_rev \<Rightarrow> (int \<Rightarrow> int) \<Rightarrow> bool \<Rightarrow> bool \<Rightarrow> nat \<Rightarrow> mangoh_red_driver_data \<Rightarrow> bool" where
  "r_mid env s0 v R slot lamp k s \<longleftrightarrow> holding (r_chips env v) s0 k (r_slots s) s \<and> pdata_board_rev s = v \<and> adapter_refs s = R \<and>
     mux_initialized s = slot \<and> iot_slot_registered s = slot \<and> led_registered s = lamp \<and>
     platform_devices s = platform_devices s0 \<union> (if lamp then {''led''} else {}) \<union> (if slot then {''iot-slot''} else {})"

text \<open>The two null pointers.\<close>

abbreviation crashes :: "unit outcome \<Rightarrow> bool" where
  "crashes r \<equiv> r = Halt (Undefined ''i2c_unregister_device of a null pointer'') \<or>
     r = Halt (Undefined ''base of a null gpio_chip'')"

text \<open>A step that goes on, or stops with an error before the last client, the battery gauge, has been made.\<close>

abbreviation stops :: "(int \<Rightarrow> int) \<Rightarrow> unit outcome \<Rightarrow> mangoh_red_driver_data \<Rightarrow> bool" where
  "stops R r s \<equiv> (\<exists>e. r = Err e) \<and> battery_gauge s = None \<and> adapter_refs s = R \<or> crashes r"

lemma r_mid_gauge: "r_mid env s0 v R slot lamp k s \<Longrightarrow> k \<le> 6 \<Longrightarrow> battery_gauge s = None"
proof -
  assume mid: "r_mid env s0 v R slot lamp k s" and k: "k \<le> 6"
  then have "r_slots s ! 6 = None"
    by (simp add: r_mid_def holding_def r_chips_def nth_append)
  then show ?thesis by (simp add: r_slots_def)
qed

lemma r_mid_map:
  assumes "r_mid env s0 v R slot lamp k s" "k < 7" "r_chips env v ! k = (info, bus)"
  shows "wp (map_client env bus info (r_put k)) (\<lambda>r s'. r = Ok () \<and> r_mid env s0 v R slot lamp (Suc k) s' \<or> stops R r s') s"
proof (rule wp_mono [OF red_slots.map_client_step [of "r_chips env v" s0 k s info bus env]], goal_cases)
  case (4 r s')
  then consider "r = Ok ()" "r_mid env s0 v R slot lamp (Suc k) s'" | "r = Err (- ENODEV)" "r_mid env s0 v R slot lamp k s'"
    using assms by (auto simp: r_mid_def frame_def r_rest_def)
  then show ?case using r_mid_gauge assms(2) by cases (auto simp: r_mid_def)
qed (use assms in \<open>simp_all add: r_mid_def\<close>)

lemma r_mid_world [simp]:
  "r_mid env s0 v R slot lamp k (s\<lparr>calls := c\<rparr>) = r_mid env s0 v R slot lamp k s"
  "r_mid env s0 v R slot lamp k (s\<lparr>led_pdata_gpio := g\<rparr>) = r_mid env s0 v R slot lamp k s"
  "r_mid env s0 v R slot lamp k (s\<lparr>eeprom_readonly := b\<rparr>) = r_mid env s0 v R slot lamp k s"
  by (simp_all add: r_mid_def holding_def r_slots_def)

text \<open>The multiplexers only take and give back GPIOs.\<close>

lemma wp_mux_init:
  "wp (mangoh_red_mux_init env a b) (\<lambda>r s'. (r = Ok () \<or> (\<exists>e. r = Err e)) \<and> adapter_refs s' = adapter_refs s \<and>
     clients s' = clients s \<and> next_client s' = next_client s \<and> platform_devices s' = platform_devices s \<and>
     r_slots s' = r_slots s \<and> r_rest s' = r_rest s) s"
  by (simp add: mangoh_red_mux_init_def request_high_def devm_gpio_free_def wp_devm_gpio_request_one wp_rules Let_def r_slots_def r_rest_def)

lemma wp_map_slot:
  assumes "r_mid env s0 v R False False 3 s"
  shows "wp (whenP iot (seqP (mangoh_red_mux_init env a b)
      (seqP (modifyP (\<lambda>s. s\<lparr>mux_initialized := True\<rparr>)) (register env ''iot-slot'' (\<lambda>s. s\<lparr>iot_slot_registered := True\<rparr>)))))
    (\<lambda>r s'. r = Ok () \<and> r_mid env s0 v R iot False 3 s' \<or> stops R r s') s"
proof (cases iot)
  case True
  have gauge: "battery_gauge s = None" by (rule r_mid_gauge [OF assms]) simp
  show ?thesis
    unfolding whenP_def if_P [OF True] wp_seqP [of "mangoh_red_mux_init _ _ _"]
    by (rule wp_mono [OF wp_mux_init])
      (use assms gauge True in \<open>auto simp: register_def wp_platform_device_register wp_rules Let_def r_mid_def holding_def r_slots_def r_rest_def\<close>)
qed (use assms in \<open>simp add: wp_rules whenP_def\<close>)

lemma wp_map_red_expander:
  assumes "r_mid env s0 v R False False 2 s" "a \<in> {None, Some (BUS_GPIO_EXPANDER env)}"
  shows "wp (map_expander env iot a b) (\<lambda>r s'. r = Ok () \<and> b \<noteq> None \<and> r_mid env s0 v R iot True 3 s' \<or> stops R r s') s"
proof (cases "a \<noteq> None \<and> b \<noteq> None")
  case False
  then have "map_expander env iot a b = throwP (- ENODEV)"
    by (auto simp: map_expander_def split: option.split)
  moreover have "battery_gauge s = None" by (rule r_mid_gauge [OF assms(1)]) simp
  ultimately show ?thesis using assms(1) by (simp add: wp_rules r_mid_def)
next
  case True
  then obtain b' where ab: "a = Some (BUS_GPIO_EXPANDER env)" "b = Some b'" using assms(2) by auto
  have lamp: "wp (register env ''led'' (\<lambda>s. s\<lparr>led_registered := True\<rparr>))
      (\<lambda>r s'. r = Ok () \<and> r_mid env s0 v R iot True 3 s' \<or> stops R r s') (t\<lparr>led_pdata_gpio := g\<rparr>)" if "r_mid env s0 v R iot False 3 t" for t g
    using that r_mid_gauge [OF that]
    by (auto simp: register_def wp_platform_device_register wp_rules Let_def r_mid_def holding_def r_slots_def)
  have "wp (map_client env (BUS_GPIO_EXPANDER env) gpio_expander_devinfo (r_put 2))
      (\<lambda>r s'. r = Ok () \<and> r_mid env s0 v R False False 3 s' \<or> stops R r s') s"
    using r_mid_map [OF assms(1), of gpio_expander_devinfo "BUS_GPIO_EXPANDER env"] by (simp add: r_chips_def)
  then show ?thesis
    unfolding ab map_expander_def prod.case option.case wp_seqP [of "map_client _ _ _ _"] r_put_eqs
    by (rule wp_mono) (auto simp: wp_rules(1-15) wp_ask wp_bindP wp_haltP wp_seqP [of "whenP _ _"] wp_case_option
        intro!: wp_mono [OF wp_map_slot] wp_mono [OF lamp] split: option.split)
qed

lemma wp_map_red_battery:
  assumes "r_mid env s0 v R iot True 5 s"
  shows "wp (map_battery env (Some (BUS_BATTERY_CHARGER env))) (\<lambda>r s'. r = Ok () \<and> r_mid env s0 v R iot True 7 s' \<or> stops R r s') s"
proof -
  have charger: "wp (map_client env (BUS_BATTERY_CHARGER env) battery_charger_devinfo (r_put 5))
      (\<lambda>r s'. r = Ok () \<and> r_mid env s0 v R iot True 6 s' \<or> stops R r s') s"
    using r_mid_map [OF assms, of battery_charger_devinfo "BUS_BATTERY_CHARGER env"] by (simp add: r_chips_def)
  have gauge: "wp (map_client env (BUS_BATTERY_CHARGER env) (battery_gauge_info (pdata_board_rev t)) (r_put 6))
      (\<lambda>r s'. r = Ok () \<and> r_mid env s0 v R iot True 7 s' \<or> stops R r s') t" if "r_mid env s0 v R iot True 6 t" for t
    using r_mid_map [OF that, of "battery_gauge_info (pdata_board_rev t)" "BUS_BATTERY_CHARGER env"] that
    by (simp add: r_chips_def r_mid_def)
  show ?thesis
    unfolding map_battery_def option.case wp_seqP [of "map_client _ _ _ _"] r_put_eqs
    by (rule wp_mono [OF charger]) (auto simp: wp_bindP wp_getP intro!: gauge)
qed

text \<open>A kernel that does not accept null clients stops in the cleanup, where the battery gauge is unregistered first.\<close>

lemma wp_cleanup:
  assumes "\<not> null_client_ok env" "battery_gauge s = None"
  shows "wp (cleanup env iot p a b e) (\<lambda>r s'. crashes r) s"
proof -
  have "wp (put_adapters as) (\<lambda>r t. r = Ok () \<and> battery_gauge t = None) s" if "battery_gauge s = None" for as s
    using that by (induction as arbitrary: s) (auto simp: wp_rules wp_put_adapters wp_i2c_put_adapter split: option.split)
  from this [OF assms(2)] show ?thesis
    unfolding cleanup_def wp_seqP [of "put_adapters _"]
    by (rule wp_mono) (use assms(1) in \<open>auto simp: mangoh_red_remove_def wp_rules\<close>)
qed

text \<open>What a probe can come to once it has the primary adapter.\<close>

abbreviation r_outcome :: "board_env \<Rightarrow> bool \<Rightarrow> mangoh_red_driver_data \<Rightarrow> unit outcome \<Rightarrow> mangoh_red_driver_data \<Rightarrow> bool" where
  "r_outcome env iot s r s' \<equiv> r = Ok () \<and> r_bound env iot s s' \<or>
     (\<exists>e. r = Err e) \<and> adapter_refs s' (PRIMARY_I2C_BUS env) = adapter_refs s (PRIMARY_I2C_BUS env) + 1 \<or>
     crashes r"

text \<open>A part of the probe whose errors go to the cleanup.\<close>

lemma wp_try_part:
  assumes null: "\<not> null_client_ok env"
    and part: "wp m (\<lambda>r s'. r = Ok () \<and> P s' \<or> stops R r s') t"
    and more: "\<And>t. P t \<Longrightarrow> wp (k ()) (r_outcome env iot s) t"
  shows "wp (tryP m (cleanup env iot p a b) k) (r_outcome env iot s) t"
  unfolding wp_tryP
proof (rule wp_mono [OF part], goal_cases)
  case (1 r t')
  then consider "r = Ok ()" "P t'" | e where "r = Err e" "battery_gauge t' = None" | "crashes r" by blast
  then show ?case
  proof cases
    case 2
    then show ?thesis using wp_cleanup [OF null 2(2), of iot p a b e] by (auto elim!: wp_mono)
  qed (use more in auto)
qed

definition r_fresh :: "mangoh_red_driver_data \<Rightarrow> bool" where
  "r_fresh s \<longleftrightarrow> r_slots s = replicate 7 None \<and> \<not> mux_initialized s \<and> \<not> iot_slot_registered s \<and> \<not> led_registered s \<and>
     {''led'', ''iot-slot''} \<inter> platform_devices s = {} \<and> (\<forall>c\<ge>next_client s. clients s c = None)"

abbreviation one_more :: "int option \<Rightarrow> (int \<Rightarrow> int) \<Rightarrow> int \<Rightarrow> int" where
  "one_more p f \<equiv> (case p of None \<Rightarrow> f | Some bus \<Rightarrow> f(bus := f bus + 1))"

definition r_same :: "mangoh_red_driver_data \<Rightarrow> mangoh_red_driver_data \<Rightarrow> bool" where
  "r_same s t \<longleftrightarrow> r_slots t = r_slots s \<and> next_client t = next_client s \<and> clients t = clients s \<and> adapter_refs t = adapter_refs s \<and>
     platform_devices t = platform_devices s \<and> mux_initialized t = mux_initialized s \<and>
     iot_slot_registered t = iot_slot_registered s \<and> led_registered t = led_registered s"

lemma wp_red_setup: "wp (eeprom_setup env) (\<lambda>r t. r = Ok () \<and> r_same s t) s"
  by (simp add: eeprom_setup_def wp_rules r_same_def r_slots_def)

lemma r_mid_made:
  assumes mid: "r_mid env s0 v R False False 0 s" and t: "r_same (s\<lparr>next_client := Suc (next_client s),
      clients := (clients s)(next_client s \<mapsto> (eeprom_info, PRIMARY_I2C_BUS env))\<rparr>) t"
  shows "r_mid env s0 (pdata_board_rev t) R False False 1 (t\<lparr>eeprom := Some (next_client s)\<rparr>)"
proof -
  have "holding (r_chips env (pdata_board_rev t)) s0 0 (r_slots s) s" using mid by (simp add: r_mid_def holding_def r_chips_def)
  from red_slots.holding_made [OF this, of eeprom_info "PRIMARY_I2C_BUS env" "t\<lparr>eeprom := Some (next_client s)\<rparr>"] t mid
  show ?thesis by (simp add: r_mid_def r_slots_def r_chips_def r_same_def)
qed

lemma wp_red_eeprom:
  assumes "r_mid env s0 v R False False 0 s"
  shows "wp (map_eeprom env w (PRIMARY_I2C_BUS env))
    (\<lambda>r s'. r = Ok () \<and> (\<exists>v. r_mid env s0 v R False False 1 s') \<or> stops R r s') s"
proof -
  define u where "u = (if w then s else s\<lparr>eeprom_readonly := True\<rparr>)"
  have mid: "r_mid env s0 v R False False 0 u" using assms by (simp add: u_def)
  let ?t = "u\<lparr>next_client := Suc (next_client u), clients := (clients u)(next_client u \<mapsto> (eeprom_info, PRIMARY_I2C_BUS env))\<rparr>"
  have made: "r_mid env s0 (pdata_board_rev t) R False False 1 (t\<lparr>eeprom := Some (next_client u)\<rparr>)" if "r_same ?t t" for t
    by (rule r_mid_made [OF mid that])
  have again: "r_same ?t t" if "r_same (?t\<lparr>calls := c\<rparr>) t" for t c using that by (simp add: r_same_def r_slots_def)
  have not: "stops R (Err (- ENODEV)) (u\<lparr>calls := c, eeprom := None\<rparr>)" for c
    using r_mid_gauge [OF mid] mid by (simp add: r_mid_def)
  have no: "r_same ?t (?t\<lparr>calls := c\<rparr>)" for c by (simp add: r_same_def r_slots_def)
  have unfold: "wp (map_eeprom env w (PRIMARY_I2C_BUS env)) Q s \<longleftrightarrow>
    wp (bindP (i2c_new_device env (PRIMARY_I2C_BUS env) eeprom_info) (\<lambda>c.
     seqP (bindP (ask (eeprom_binds env)) (\<lambda>b. whenP (c \<noteq> None \<and> b) (eeprom_setup env)))
    (seqP (modifyP (\<lambda>s. s\<lparr>eeprom := c\<rparr>)) (if c = None then throwP (- ENODEV) else returnP ())))) Q u" for Q
    by (simp add: map_eeprom_def wp_whenP wp_modifyP wp_seqP [of "whenP _ _"] u_def)
  show ?thesis
  proof (cases "client_made env (calls u) eeprom_info \<and> eeprom_binds env (Suc (calls u))")
    case True
    show ?thesis
      unfolding unfold
      using True by (simp add: wp_i2c_new_device wp_rules)
        (rule wp_mono [OF wp_red_setup], use made again in \<open>force simp: wp_rules\<close>)
  next
    case False
    then show ?thesis
      unfolding unfold using made [OF no] not by (auto simp: wp_i2c_new_device wp_rules)
  qed
qed

text \<open>From the adapters behind the switch on.\<close>

lemma wp_red_behind:
  assumes null: "\<not> null_client_ok env" and v: "v \<noteq> MANGOH_RED_BOARD_REV_UNKNOWN"
    and mid: "r_mid env s v ((adapter_refs s)(PRIMARY_I2C_BUS env := adapter_refs s (PRIMARY_I2C_BUS env) + 1)) False False 2 t"
  shows "wp (bindP (i2c_get_adapter env (BUS_GPIO_EXPANDER env)) (\<lambda>a.
         bindP (i2c_get_adapter env (BUS_BATTERY_CHARGER env)) (\<lambda>b.
         tryP (map_expander env iot a b) (cleanup env iot p a b) (\<lambda>_.
         seqP (map_client env (PRIMARY_I2C_BUS env) bmi160_devinfo (r_put 3))
        (seqP (map_client env (PRIMARY_I2C_BUS env) pressure_devinfo (r_put 4))
        (tryP (map_battery env b) (cleanup env iot p a b)
              (\<lambda>_. put_adapters [Some (PRIMARY_I2C_BUS env), a, b]))))))) (r_outcome env iot s) t"
proof -
  let ?P = "PRIMARY_I2C_BUS env"
  let ?R = "\<lambda>a b. one_more b (one_more a ((adapter_refs s)(?P := adapter_refs s ?P + 1)))"
  have part: "wp (tryP (map_expander env iot a b) (cleanup env iot p a b) (\<lambda>_.
         seqP (map_client env ?P bmi160_devinfo (r_put 3))
        (seqP (map_client env ?P pressure_devinfo (r_put 4))
        (tryP (map_battery env b) (cleanup env iot p a b) (\<lambda>_. put_adapters [Some ?P, a, b]))))) (r_outcome env iot s) u"
    if ab: "a \<in> {None, Some (BUS_GPIO_EXPANDER env)}" "b \<in> {None, Some (BUS_BATTERY_CHARGER env)}"
      and u: "r_mid env s v (?R a b) False False 2 u" for a b u
  proof (rule wp_try_part [OF null wp_map_red_expander [OF u ab(1)]], elim conjE)
    fix t assume b: "b \<noteq> None" and t: "r_mid env s v (?R a b) iot True 3 t"
    have bus: "?R a b ?P = adapter_refs s ?P + 1" using ab by (auto split: option.split)
    have acc: "wp (map_client env ?P bmi160_devinfo (r_put 3)) (\<lambda>r t'. r = Ok () \<and> r_mid env s v (?R a b) iot True 4 t' \<or> stops (?R a b) r t') t"
      using r_mid_map [OF t, of bmi160_devinfo ?P] by (simp add: r_chips_def)
    have pre: "wp (map_client env ?P pressure_devinfo (r_put 4)) (\<lambda>r t'. r = Ok () \<and> r_mid env s v (?R a b) iot True 5 t' \<or> stops (?R a b) r t') t"
      if "r_mid env s v (?R a b) iot True 4 t" for t
      using r_mid_map [OF that, of pressure_devinfo ?P] by (simp add: r_chips_def)
    have final: "wp (put_adapters [Some ?P, a, b]) (r_outcome env iot s) t" if "r_mid env s v (?R a b) iot True 7 t" for t
      using that ab v by (auto simp: wp_put_adapters wp_i2c_put_adapter wp_rules r_bound_def r_mid_def holding_def r_slots_def fun_eq_iff)
    have bat: "wp (tryP (map_battery env b) (cleanup env iot p a b) (\<lambda>_. put_adapters [Some ?P, a, b])) (r_outcome env iot s) t"
      if "r_mid env s v (?R a b) iot True 5 t" for t
      by (rule wp_try_part [OF null, where P = "r_mid env s v (?R a b) iot True 7"])
        (use ab b that final wp_map_red_battery [OF that] in auto)
    show "wp (seqP (map_client env ?P bmi160_devinfo (r_put 3))
        (seqP (map_client env ?P pressure_devinfo (r_put 4))
        (tryP (map_battery env b) (cleanup env iot p a b) (\<lambda>_. put_adapters [Some ?P, a, b])))) (r_outcome env iot s) t"
      unfolding wp_seqP
      by (rule wp_mono [OF acc]) (use bus in \<open>auto intro!: bat wp_mono [OF pre]\<close>)
  qed
  have w: "r_mid env s v R False False 2 (t\<lparr>calls := c, adapter_refs := R\<rparr>)" "r_mid env s v R False False 2 (t\<lparr>adapter_refs := R, calls := c\<rparr>)"
    "r_mid env s v R False False 2 (t\<lparr>adapter_refs := R\<rparr>)" for R c using mid by (simp_all add: r_mid_def holding_def r_slots_def)
  have refs: "adapter_refs t = (adapter_refs s)(?P := adapter_refs s ?P + 1)" using mid by (simp add: r_mid_def)
  show ?thesis
    unfolding wp_bindP wp_i2c_get_adapter outcome.case
    using mid by (auto simp: refs w intro!: part)
qed

lemma wp_red_probe:
  assumes fresh: "r_fresh s" and null: "\<not> null_client_ok env" and bus: "adapter_exists env (calls s) (PRIMARY_I2C_BUS env)"
  shows "wp (mangoh_red_probe env iot w) (r_outcome env iot s) s"
proof -
  let ?P = "PRIMARY_I2C_BUS env"
  let ?R = "(adapter_refs s)(?P := adapter_refs s ?P + 1)"
  let ?s1 = "s\<lparr>calls := Suc (calls s), adapter_refs := ?R\<rparr>"
  have start: "r_mid env s (pdata_board_rev s) ?R False False 0 ?s1"
    using fresh by (simp add: r_fresh_def r_mid_def holding_def r_slots_def r_chips_def numeral_eq_Suc)
  have switch: "wp (map_client env ?P pca954x_device_info (r_put 1)) (\<lambda>r t'. r = Ok () \<and> r_mid env s v ?R False False 2 t' \<or> stops ?R r t') t"
    if "r_mid env s v ?R False False 1 t" for v t
    using r_mid_map [OF that, of pca954x_device_info ?P] by (simp add: r_chips_def numeral_2_eq_2)
  have rest: "wp (bindP (getP pdata_board_rev) (\<lambda>r.
         if r = MANGOH_RED_BOARD_REV_UNKNOWN then throwP (- EINVAL)
         else
         tryP (map_client env ?P pca954x_device_info (r_put 1)) (cleanup env iot (Some ?P) None None) (\<lambda>_.
         bindP (i2c_get_adapter env (BUS_GPIO_EXPANDER env)) (\<lambda>a.
         bindP (i2c_get_adapter env (BUS_BATTERY_CHARGER env)) (\<lambda>b.
         tryP (map_expander env iot a b) (cleanup env iot (Some ?P) a b) (\<lambda>_.
         seqP (map_client env ?P bmi160_devinfo (r_put 3))
        (seqP (map_client env ?P pressure_devinfo (r_put 4))
        (tryP (map_battery env b) (cleanup env iot (Some ?P) a b) (\<lambda>_. put_adapters [Some ?P, a, b]))))))))) (r_outcome env iot s) t"
    if t: "\<exists>v. r_mid env s v ?R False False 1 t" for t
  proof -
    obtain v where v: "r_mid env s v ?R False False 1 t" using t by blast
    show ?thesis
    proof (cases "v = MANGOH_RED_BOARD_REV_UNKNOWN")
      case True
      then show ?thesis using v by (simp add: wp_rules r_mid_def)
    next
      case False
      have "pdata_board_rev t = v" using v by (simp add: r_mid_def)
      then show ?thesis
        unfolding wp_bindP wp_getP outcome.case
        by (simp only: False if_False)
          (rule wp_try_part [OF null switch [OF v]], rule wp_red_behind [OF null False], assumption)
    qed
  qed
  show ?thesis
    unfolding mangoh_red_probe_def wp_bindP [of "i2c_get_adapter _ _"] wp_i2c_get_adapter if_P [OF bus] outcome.case option.case r_put_eqs
    by (rule wp_try_part [OF null wp_red_eeprom [OF start]], rule rest)
qed

lemma red_bind_ok:
  assumes "r_bound env iot s s'"
  shows "r_bound env iot s (s'\<lparr>gpios := g\<rparr>)"
  using assms by (simp add: r_bound_def holding_def r_slots_def)

text \<open>C19: on a kernel where unregistering a null client is not allowed, binding the mangOH Red driver for the first
  time ends in one of three ways.  It succeeds with all seven devices, the light and (when compiled in) the
  IoT slot, and unbinding gives everything back; it fails, and unless the primary bus itself was missing the
  bus is never given back; or the kernel stops on a null pointer.  No failure of it is cleaned up.\<close>

theorem red_failures_are_not_cleaned_up:
  assumes fresh: "r_fresh s" and null: "\<not> null_client_ok env"
  shows "\<exists>r s'. bind_driver (mangoh_red_probe env iot w) s = Some (r, s') \<and>
    (r = Ok () \<and> r_bound env iot s s' \<and>
       (\<exists>s''. unbind_driver (mangoh_red_remove env iot) s' = Some (Ok (), s'') \<and> r_given_back s s'' \<and> gpios s'' = {}) \<or>
     (\<exists>e. r = Err e \<and> (if adapter_exists env (calls s) (PRIMARY_I2C_BUS env)
        then adapter_refs s' (PRIMARY_I2C_BUS env) = adapter_refs s (PRIMARY_I2C_BUS env) + 1 else r_given_back s s')) \<or>
     crashes r)"
proof -
  have out: "wp (bind_driver (mangoh_red_probe env iot w)) (\<lambda>r s'. r = Ok () \<and> r_bound env iot s s' \<or>
      (\<exists>e. r = Err e) \<and> (if adapter_exists env (calls s) (PRIMARY_I2C_BUS env)
        then adapter_refs s' (PRIMARY_I2C_BUS env) = adapter_refs s (PRIMARY_I2C_BUS env) + 1 else r_given_back s s') \<or>
      crashes r) s"
  proof (cases "adapter_exists env (calls s) (PRIMARY_I2C_BUS env)")
    case True
    show ?thesis
      unfolding bind_driver_def wp_tryP
      by (rule wp_mono [OF wp_red_probe [OF fresh null True]]) (auto simp: wp_rules True)
  next
    case False
    then show ?thesis by (simp add: bind_driver_def mangoh_red_probe_def wp_kernel r_given_back_def)
  qed
  have undo: "\<exists>s''. unbind_driver (mangoh_red_remove env iot) s' = Some (Ok (), s'') \<and> r_given_back s s'' \<and> gpios s'' = {}"
    if "r_bound env iot s s'" for s'
  proof -
    have "wp (unbind_driver (mangoh_red_remove env iot)) (\<lambda>r s''. r = Ok () \<and> r_given_back s s'' \<and> gpios s'' = {}) s'"
      unfolding unbind_driver_def wp_seqP
      by (rule wp_mono [OF r_bound_remove [OF that]]) (use fresh in \<open>auto simp: wp_rules r_given_back_def r_fresh_def\<close>)
    then show ?thesis by (auto simp: wp_iff)
  qed
  obtain r s' where run: "bind_driver (mangoh_red_probe env iot w) s = Some (r, s')"
    and which: "r = Ok () \<and> r_bound env iot s s' \<or>
      (\<exists>e. r = Err e) \<and> (if adapter_exists env (calls s) (PRIMARY_I2C_BUS env)
        then adapter_refs s' (PRIMARY_I2C_BUS env) = adapter_refs s (PRIMARY_I2C_BUS env) + 1 else r_given_back s s') \<or>
      crashes r"
    using out unfolding wp_iff by (elim exE conjE) (rule that)
  from which show ?thesis
    by (intro exI [of _ r] exI [of _ s'] conjI run) (elim disjE conjE, simp_all add: undo)
qed

section \<open>The multiplexers\<close>

definition sdio_holds :: "sdio_selection multiset \<times> sdio_selection \<Rightarrow> 'z mangoh_red_mux_scheme \<Rightarrow> bool" where
  "sdio_holds a s \<longleftrightarrow> (case a of (H, cur) \<Rightarrow> unat (sdio_num_requested s) = size H \<and> (\<forall>y\<in>#H. y = cur) \<and>
     sdio_current_selection s = cur \<and> levels s (sdio_mux_gpio s) = (cur = SDIO_SELECTION_SD_CARD_SLOT))"

definition pcm_holds :: "pcm_selection multiset \<times> pcm_selection \<Rightarrow> 'z mangoh_red_mux_scheme \<Rightarrow> bool" where
  "pcm_holds a s \<longleftrightarrow> (case a of (H, cur) \<Rightarrow> unat (pcm_num_requested s) = size H \<and> (\<forall>y\<in>#H. y = cur) \<and>
     pcm_current_selection s = cur \<and> levels s (pcm_mux_gpio s) = (cur = PCM_SELECTION_ONBOARD))"

text \<open>C18: when the pins can be set, either multiplexer of the mangOH Red answers any sequence of fewer than
  \<^verbatim>\<open>2^32\<close> calls as the lock of the specification does: a place is granted while everybody who holds the
  multiplexer holds it for that place, the pin always points to the place selected last, and only what is
  held can be released.\<close>

theorem multiplexers_are_shared_locks:
  assumes pins: "direction_ok env" and bound: "size H + length qs < 2 ^ 32" "size H' + length qs' < 2 ^ 32"
    and holds: "sdio_holds (H, cur) s" "pcm_holds (H', cur') s"
  shows "(\<exists>s'. serve (mangoh_red_mux_sdio_select env) mangoh_red_mux_sdio_release qs s =
      Some (Ok (fst (mux_spec_all (H, cur) qs)), s') \<and> sdio_holds (snd (mux_spec_all (H, cur) qs)) s') \<and>
    (\<exists>s'. serve (mangoh_red_mux_pcm_select env) mangoh_red_mux_pcm_release qs' s =
      Some (Ok (fst (mux_spec_all (H', cur') qs')), s') \<and> pcm_holds (snd (mux_spec_all (H', cur') qs')) s')"
proof
  show "\<exists>s'. serve (mangoh_red_mux_sdio_select env) mangoh_red_mux_sdio_release qs s =
      Some (Ok (fst (mux_spec_all (H, cur) qs)), s') \<and> sdio_holds (snd (mux_spec_all (H, cur) qs)) s'"
    using sdio.serve_spec [OF pins, of s H cur qs] holds(1) bound(1)
    by (cases "mux_spec_all (H, cur) qs") (auto simp: sdio_holds_def wp_iff)
  show "\<exists>s'. serve (mangoh_red_mux_pcm_select env) mangoh_red_mux_pcm_release qs' s =
      Some (Ok (fst (mux_spec_all (H', cur') qs')), s') \<and> pcm_holds (snd (mux_spec_all (H', cur') qs')) s'"
    using pcm.serve_spec [OF pins, of s H' cur' qs'] holds(2) bound(2)
    by (cases "mux_spec_all (H', cur') qs'") (auto simp: pcm_holds_def wp_iff)
qed

end
