(* ===== verification/Board_Green.thy ===== *)
theory Board_Green
  imports Board_Kernel
begin

text \<open>
  The board driver of the mangOH Green (\<^verbatim>\<open>mangoh_green.c\<close>): an I2C switch and an accelerometer.
\<close>

record mangoh_green_driver_data = bus_world +
  i2c_switch :: "nat option"
  accelerometer :: "nat option"

type_synonym 'a green_prog = "(mangoh_green_driver_data, 'a) prog"

abbreviation (input) pca954x_device_info :: i2c_board_info where "pca954x_device_info \<equiv> (''pca9548'', 0x71)"
abbreviation (input) lsm6ds3_devinfo :: i2c_board_info where "lsm6ds3_devinfo \<equiv> (''lsm6ds3'', 0x6A)"

definition mangoh_green_remove :: "board_env \<Rightarrow> unit green_prog" where
  "mangoh_green_remove env =
     seqP (bindP (getP accelerometer) (i2c_unregister_device env)) (bindP (getP i2c_switch) (i2c_unregister_device env))"

definition mangoh_green_probe :: "board_env \<Rightarrow> unit green_prog" where
  "mangoh_green_probe env =
     bindP (i2c_get_adapter env (PRIMARY_I2C_BUS env)) (\<lambda>adapter. case adapter of
       None \<Rightarrow> throwP (- ENODEV)
     | Some bus \<Rightarrow>
         tryP (seqP (map_client env bus pca954x_device_info (\<lambda>c s. s\<lparr>i2c_switch := c\<rparr>))
                    (map_client env bus lsm6ds3_devinfo (\<lambda>c s. s\<lparr>accelerometer := c\<rparr>)))
           (\<lambda>ret. seqP (i2c_put_adapter adapter) (seqP (mangoh_green_remove env) (throwP ret)))
           (\<lambda>_. i2c_put_adapter adapter))"

definition mangoh_green_init :: "board_env \<Rightarrow> string \<Rightarrow> unit green_prog" where
  "mangoh_green_init env revision =
     bindP (platform_driver_register env ''mangoh green'') (\<lambda>_.
     if revision \<noteq> ''dv4'' then throwP (- ENODEV)
     else bindP (platform_device_register env ''mangoh green'') (\<lambda>ret.
       if ret \<noteq> 0 then seqP (platform_driver_unregister ''mangoh green'') (throwP (- ENODEV)) else returnP ()))"

definition mangoh_green_exit :: "unit green_prog" where
  "mangoh_green_exit = seqP (platform_device_unregister ''mangoh green'') (platform_driver_unregister ''mangoh green'')"

end
