(* ===== verification/Board_Claims.thy ===== *)
theory Board_Claims
  imports Board_YellowClaims Board_RedProps Board_Green
begin

text \<open>
  A property of the three board drivers together, and instances of the properties of the mangOH Red.
\<close>

section \<open>Loading the modules\<close>

text \<open>A revision parameter that is not known makes the loading of each of the three board drivers fail with
  the driver still registered, so that the kernel keeps calling into a module that is gone.\<close>

theorem unknown_revision_keeps_driver:
  assumes unknown: "map_of board_rev_strings red = None" "green \<noteq> ''dv4''"
      "yellow \<notin> {''1.0'', ''dv3'', ''dv2'', ''''}"
    and ok: "\<And>n name. register_ret env n name = 0"
  shows "(\<exists>s'. mangoh_red_init env red s = Some (Err (- EINVAL), s') \<and> ''mangoh red'' \<in> platform_drivers s') \<and>
    (\<exists>t'. mangoh_green_init env green t = Some (Err (- ENODEV), t') \<and> ''mangoh green'' \<in> platform_drivers t') \<and>
    (\<exists>u'. mangoh_yellow_init env yellow u = Some (Err (- ENODEV), u') \<and> ''mangoh yellow'' \<in> platform_drivers u')"
proof (intro conjI)
  have "wp (mangoh_red_init env red) (\<lambda>r s'. r = Err (- EINVAL) \<and> ''mangoh red'' \<in> platform_drivers s') s"
    by (simp add: mangoh_red_init_def wp_kernel unknown ok)
  then show "\<exists>s'. mangoh_red_init env red s = Some (Err (- EINVAL), s') \<and> ''mangoh red'' \<in> platform_drivers s'"
    by (auto simp: wp_iff)
  have "wp (mangoh_green_init env green) (\<lambda>r s'. r = Err (- ENODEV) \<and> ''mangoh green'' \<in> platform_drivers s') t"
    by (simp add: mangoh_green_init_def wp_kernel unknown ok)
  then show "\<exists>t'. mangoh_green_init env green t = Some (Err (- ENODEV), t') \<and> ''mangoh green'' \<in> platform_drivers t'"
    by (auto simp: wp_iff)
  have "wp (mangoh_yellow_init env yellow) (\<lambda>r s'. r = Err (- ENODEV) \<and> ''mangoh yellow'' \<in> platform_drivers s') u"
    using unknown(3) by (simp add: mangoh_yellow_init_def wp_kernel ok)
  then show "\<exists>u'. mangoh_yellow_init env yellow u = Some (Err (- ENODEV), u') \<and> ''mangoh yellow'' \<in> platform_drivers u'"
    by (auto simp: wp_iff)
qed

section \<open>Closed instances\<close>

abbreviation r_example :: mangoh_red_driver_data where "r_example \<equiv> r_start [] MANGOH_RED_BOARD_REV_DV6"

lemma r_example_fresh: "r_fresh r_example"
  by (simp add: r_fresh_def r_start_def r_slots_def numeral_eq_Suc)

theorem red_failures_are_not_cleaned_up_witness:
  "r_fresh r_example \<and> (\<exists>r s'. bind_driver (mangoh_red_probe example_board_env True False) r_example = Some (r, s') \<and>
    (r = Ok () \<and> r_bound example_board_env True r_example s' \<or> (\<exists>e. r = Err e) \<or> (\<exists>h. r = Halt h)))"
proof -
  have "\<not> null_client_ok example_board_env" by (simp add: example_board_env_def)
  from red_failures_are_not_cleaned_up [OF r_example_fresh this, of True False] r_example_fresh show ?thesis by blast
qed

text \<open>
  The IoT slot and the SD card ask for the SDIO multiplexer: the second place is refused until the first has
  been released twice, and a third release is an error.
\<close>

theorem multiplexers_are_shared_locks_witness:
  "\<exists>s s'. serve (mangoh_red_mux_sdio_select example_board_env) mangoh_red_mux_sdio_release
     [Select SDIO_SELECTION_IOT_SLOT, Select SDIO_SELECTION_IOT_SLOT, Select SDIO_SELECTION_SD_CARD_SLOT,
      Release SDIO_SELECTION_IOT_SLOT, Release SDIO_SELECTION_IOT_SLOT, Release SDIO_SELECTION_IOT_SLOT,
      Select SDIO_SELECTION_SD_CARD_SLOT] (s :: mangoh_red_driver_data) =
     Some (Ok [0, 0, - EBUSY, 0, 0, - ENOLCK, 0], s')"
proof -
  let ?qs = "[Select SDIO_SELECTION_IOT_SLOT, Select SDIO_SELECTION_IOT_SLOT, Select SDIO_SELECTION_SD_CARD_SLOT,
      Release SDIO_SELECTION_IOT_SLOT, Release SDIO_SELECTION_IOT_SLOT, Release SDIO_SELECTION_IOT_SLOT,
      Select SDIO_SELECTION_SD_CARD_SLOT]"
  let ?s = "r_example\<lparr>levels := (\<lambda>_. True), pcm_current_selection := PCM_SELECTION_ONBOARD\<rparr>"
  have holds: "sdio_holds ({#}, SDIO_SELECTION_SD_CARD_SLOT) ?s" "pcm_holds ({#}, PCM_SELECTION_ONBOARD) ?s"
    by (simp_all add: sdio_holds_def pcm_holds_def r_start_def)
  have pins: "direction_ok example_board_env" by (simp add: direction_ok_def example_board_env_def)
  have "size ({#} :: sdio_selection multiset) + length ?qs < 2 ^ 32" "size ({#} :: pcm_selection multiset) + length [] < 2 ^ 32"
    by simp_all
  from multiplexers_are_shared_locks [OF pins this holds] show ?thesis by auto
qed

theorem unknown_revision_keeps_driver_witness:
  "\<exists>s t u. mangoh_red_init example_board_env ''dv4'' r_example = Some (Err (- EINVAL), s) \<and>
     mangoh_green_init example_board_env ''dv5'' t = Some (Err (- ENODEV), u)"
proof -
  have "map_of board_rev_strings ''dv4'' = None" "''dv5'' \<noteq> ''dv4''" "''2.0'' \<notin> {''1.0'', ''dv3'', ''dv2'', ''''}"
    "register_ret example_board_env n name = 0" for n name
    by (simp_all add: board_rev_strings_def example_board_env_def)
  from unknown_revision_keeps_driver [OF this] show ?thesis by blast
qed

end
