(* ===== verification/Spec2Isabelle.thy ===== *)
theory Spec2Isabelle
  imports Wifi_Pool Loc_States Eink_Props Yellow_AppsProps Mt7697_QueueProps Mt7697_Irq Mt7697_Spi Iot_SlotProps Welcome_Claims Board_Claims Board_Leds
begin

text \<open>Root.\<close>

end
